(* ===== verification/Prelude.thy ===== *)
theory Prelude
  imports Complex_Main
begin

text \<open>
  The vocabulary shared by every component of the development: the collections of
  rewrite rules that carry the component proofs, the errors the backend throws as
  values, and the effectful actions of its services (a service method is a function of
  the state of the world that returns an error or a value, and the new state).
\<close>

subsection \<open>Collections\<close>

named_theorems action_simps \<open>unfolding of the combinators of effectful actions\<close>
named_theorems table_simps \<open>reading back the rows of the database tables\<close>
named_theorems voucher_type_simps \<open>the classification tables of voucher types\<close>

subsection \<open>Errors as values\<close>

text \<open>
  One constructor per class of exception that the modelled code throws or inspects with
  \<open>instanceof\<close>. \<open>ArcaDelegation\<close> is the subclass of \<open>ArcaRejection\<close>
  of \<open>arca-errors.ts\<close>; \<open>CaeAttempt\<close> carries the cause, the sales point and
  the attempted number of \<open>CaeAttemptError\<close>. The text of a message is kept where the
  code stores it.
\<close>

datatype app_error =
    ArcaRejection "string list" string
  | ArcaDelegation "string list" string
  | ArcaSoapFault string int string
  | CaeAttempt app_error int "int option"
  | VoucherQueued string
  | BadRequest string
  | Unauthorized string
  | Forbidden string
  | NotFound string
  | Conflict string
  | UnprocessableEntity string
  | TooManyRequests string
  | InternalServerError string
  | ServiceUnavailable string
  | PrismaKnownError string
  | OtherError string

subsection \<open>Effectful actions\<close>

type_synonym ('w, 'a) action = "'w \<Rightarrow> (app_error + 'a) \<times> 'w"

definition returnA :: "'a \<Rightarrow> ('w, 'a) action" where
  "returnA x w = (Inr x, w)"

definition throwA :: "app_error \<Rightarrow> ('w, 'a) action" where
  "throwA e w = (Inl e, w)"

definition bindA :: "('w, 'a) action \<Rightarrow> ('a \<Rightarrow> ('w, 'b) action) \<Rightarrow> ('w, 'b) action" where
  "bindA m f w = (case m w of (Inl e, w') \<Rightarrow> (Inl e, w') | (Inr x, w') \<Rightarrow> f x w')"

definition catchA :: "('w, 'a) action \<Rightarrow> (app_error \<Rightarrow> ('w, 'a) action) \<Rightarrow> ('w, 'a) action" where
  "catchA m h w = (case m w of (Inl e, w') \<Rightarrow> h e w' | (Inr x, w') \<Rightarrow> (Inr x, w'))"

definition getA :: "('w \<Rightarrow> 'a) \<Rightarrow> ('w, 'a) action" where
  "getA f w = (Inr (f w), w)"

definition putA :: "('w \<Rightarrow> 'w) \<Rightarrow> ('w, unit) action" where
  "putA f w = (Inr (), f w)"

fun forEachA :: "('a \<Rightarrow> ('w, unit) action) \<Rightarrow> 'a list \<Rightarrow> ('w, unit) action" where
  "forEachA f [] w = (Inr (), w)"
| "forEachA f (x # xs) w = (case f x w of (Inl e, w') \<Rightarrow> (Inl e, w') | (Inr _, w') \<Rightarrow> forEachA f xs w')"

lemmas action_defs [action_simps] =
  returnA_def throwA_def bindA_def catchA_def getA_def putA_def

lemma bindA_Inr_iff:
  "bindA m f w = (Inr y, w'') \<longleftrightarrow> (\<exists>x w'. m w = (Inr x, w') \<and> f x w' = (Inr y, w''))"
  by (auto simp: bindA_def split: prod.splits sum.splits)

lemma bindA_Inl_iff:
  "bindA m f w = (Inl e, w'') \<longleftrightarrow>
     m w = (Inl e, w'') \<or> (\<exists>x w'. m w = (Inr x, w') \<and> f x w' = (Inl e, w''))"
  by (auto simp: bindA_def split: prod.splits sum.splits)

lemma bindA_assoc: "bindA (bindA m f) g = bindA m (\<lambda>x. bindA (f x) g)"
  by (rule ext) (simp add: bindA_def split: prod.splits sum.splits)

lemma bindA_returnA [simp]: "bindA (returnA x) f = f x" "bindA m returnA = m"
  by (rule ext, simp add: bindA_def returnA_def split: prod.splits sum.splits)+

lemma catchA_throwA [simp]: "catchA (throwA e) h = h e"
  by (rule ext) (simp add: catchA_def throwA_def)

text \<open>
  An action preserves a relation between the state before and the state after when every
  outcome, error or value, is related to the start.
\<close>

definition preserves :: "('w \<Rightarrow> bool) \<Rightarrow> ('w, 'a) action \<Rightarrow> bool" where
  "preserves I m \<longleftrightarrow> (\<forall>w. I w \<longrightarrow> I (snd (m w)))"

lemma preservesI: "(\<And>w. I w \<Longrightarrow> I (snd (m w))) \<Longrightarrow> preserves I m"
  by (simp add: preserves_def)

lemma preservesD: "preserves I m \<Longrightarrow> I w \<Longrightarrow> m w = (r, w') \<Longrightarrow> I w'"
  by (metis preserves_def snd_conv)

lemma preserves_returnA [intro]: "preserves I (returnA x)"
  by (simp add: preserves_def returnA_def)

lemma preserves_throwA [intro]: "preserves I (throwA e)"
  by (simp add: preserves_def throwA_def)

lemma preserves_getA [intro]: "preserves I (getA f)"
  by (simp add: preserves_def getA_def)

lemma preserves_bindA [intro]:
  "preserves I m \<Longrightarrow> (\<And>x. preserves I (f x)) \<Longrightarrow> preserves I (bindA m f)"
  by (fastforce simp: preserves_def bindA_def split: prod.splits sum.splits)

lemma preserves_catchA [intro]:
  "preserves I m \<Longrightarrow> (\<And>e. preserves I (h e)) \<Longrightarrow> preserves I (catchA m h)"
  by (fastforce simp: preserves_def catchA_def split: prod.splits sum.splits)

lemma preserves_forEachA [intro]:
  assumes "\<And>x. x \<in> set xs \<Longrightarrow> preserves I (f x)"
  shows "preserves I (forEachA f xs)"
proof (rule preservesI)
  fix w assume "I w"
  then show "I (snd (forEachA f xs w))" using assms
  proof (induction xs arbitrary: w)
    case (Cons x xs)
    then have "I (snd (f x w))" by (simp add: preserves_def)
    with Cons show ?case by (auto split: prod.splits sum.splits)
  qed simp
qed

subsection \<open>Hoare triples of actions\<close>

text \<open>
  From a state that satisfies \<open>P\<close>, a value returned and the state after it satisfy
  \<open>Q\<close>, an error thrown and the state after it satisfy \<open>E\<close>.
\<close>

definition triple ::
  "('w \<Rightarrow> bool) \<Rightarrow> ('w, 'a) action \<Rightarrow> ('a \<Rightarrow> 'w \<Rightarrow> bool) \<Rightarrow> (app_error \<Rightarrow> 'w \<Rightarrow> bool) \<Rightarrow> bool" where
  "triple P m Q E \<longleftrightarrow>
     (\<forall>w. P w \<longrightarrow> (case m w of (Inr x, w') \<Rightarrow> Q x w' | (Inl e, w') \<Rightarrow> E e w'))"

lemma tripleI:
  "(\<And>w x w'. P w \<Longrightarrow> m w = (Inr x, w') \<Longrightarrow> Q x w') \<Longrightarrow>
   (\<And>w e w'. P w \<Longrightarrow> m w = (Inl e, w') \<Longrightarrow> E e w') \<Longrightarrow> triple P m Q E"
  by (auto simp: triple_def split: prod.splits sum.splits)

lemma triple_Inr: "triple P m Q E \<Longrightarrow> P w \<Longrightarrow> m w = (Inr x, w') \<Longrightarrow> Q x w'"
  by (auto simp: triple_def split: prod.splits sum.splits)

lemma triple_Inl: "triple P m Q E \<Longrightarrow> P w \<Longrightarrow> m w = (Inl e, w') \<Longrightarrow> E e w'"
  by (auto simp: triple_def split: prod.splits sum.splits)

lemma triple_weaken:
  "triple P' m Q' E' \<Longrightarrow> (\<And>w. P w \<Longrightarrow> P' w) \<Longrightarrow> (\<And>x w. Q' x w \<Longrightarrow> Q x w) \<Longrightarrow>
   (\<And>e w. E' e w \<Longrightarrow> E e w) \<Longrightarrow> triple P m Q E"
  by (fastforce simp: triple_def split: prod.splits sum.splits)

lemma triple_bindA:
  "triple P m R E \<Longrightarrow> (\<And>x. triple (R x) (f x) Q E) \<Longrightarrow> triple P (bindA m f) Q E"
  by (fastforce simp: triple_def bindA_def split: prod.splits sum.splits)

lemma triple_seq:
  "triple P m (\<lambda>_. I) E \<Longrightarrow> (\<And>x. triple I (f x) Q E) \<Longrightarrow> triple P (bindA m f) Q E"
  by (rule triple_bindA)

lemma triple_catchA:
  "triple P m Q F \<Longrightarrow> (\<And>e. triple (F e) (h e) Q E) \<Longrightarrow> triple P (catchA m h) Q E"
  by (fastforce simp: triple_def catchA_def split: prod.splits sum.splits)

lemma triple_returnA: "(\<And>w. P w \<Longrightarrow> Q x w) \<Longrightarrow> triple P (returnA x) Q E"
  by (simp add: triple_def returnA_def)

lemma triple_throwA: "(\<And>w. P w \<Longrightarrow> E e w) \<Longrightarrow> triple P (throwA e) Q E"
  by (simp add: triple_def throwA_def)

lemma triple_getA: "(\<And>w. P w \<Longrightarrow> Q (f w) w) \<Longrightarrow> triple P (getA f) Q E"
  by (simp add: triple_def getA_def)

lemma triple_putA: "(\<And>w. P w \<Longrightarrow> Q () (f w)) \<Longrightarrow> triple P (putA f) Q E"
  by (simp add: triple_def putA_def)

lemma triple_pull: "(C \<Longrightarrow> triple P m Q E) \<Longrightarrow> triple (\<lambda>w. P w \<and> C) m Q E"
  by (auto simp: triple_def)

lemma triple_conj:
  "triple P m Q E \<Longrightarrow> triple P' m Q' E' \<Longrightarrow>
   triple (\<lambda>w. P w \<and> P' w) m (\<lambda>x w. Q x w \<and> Q' x w) (\<lambda>e w. E e w \<and> E' e w)"
  by (fastforce simp: triple_def split: prod.splits sum.splits)

lemma triple_preserves: "triple I m (\<lambda>_. I) (\<lambda>_. I) \<longleftrightarrow> preserves I m"
  unfolding triple_def preserves_def by (metis (mono_tags, lifting) old.prod.exhaust old.sum.exhaust
    case_prod_conv old.sum.simps(5) old.sum.simps(6) snd_conv)

lemma triple_forEachA:
  assumes "\<And>x. x \<in> set xs \<Longrightarrow> triple I (f x) (\<lambda>_. I) (\<lambda>_. I)"
  shows "triple I (forEachA f xs) (\<lambda>_. I) (\<lambda>_. I)"
  using assms unfolding triple_preserves by (rule preserves_forEachA)

subsection \<open>Lists and options\<close>

text \<open>JavaScript's \<open>??\<close> on an optional value.\<close>

definition orElse :: "'a option \<Rightarrow> 'a \<Rightarrow> 'a" where
  "orElse x d = (case x of None \<Rightarrow> d | Some y \<Rightarrow> y)"

lemma orElse_simps [simp]: "orElse None d = d" "orElse (Some x) d = x"
  by (simp_all add: orElse_def)

lemma sum_list_map_le:
  fixes f g :: "'a \<Rightarrow> 'b::ordered_comm_monoid_add"
  shows "(\<And>x. x \<in> set xs \<Longrightarrow> f x \<le> g x) \<Longrightarrow> sum_list (map f xs) \<le> sum_list (map g xs)"
  by (induction xs) (auto intro: add_mono)

lemma sum_list_of_int: "of_int (sum_list xs) = (sum_list (map of_int xs) :: rat)"
  by (induction xs) simp_all

end
