(* ===== verification/VoucherTypes.thy ===== *)
theory VoucherTypes
  imports Prelude
begin

text \<open>
  The tables of \<open>packages/shared/src\<close> that classify vouchers, recipients and tributes:
  \<open>voucher-type.ts\<close>, \<open>document-type.ts\<close>, \<open>iva-rate.ts\<close>,
  \<open>recipient-iva-condition.ts\<close>, \<open>tribute-type.ts\<close>, \<open>optional-type.ts\<close>,
  \<open>voucher-status.ts\<close> and the fiscal conditions of \<open>index.ts\<close>. A
  JavaScript string is a list of code units; the accented letters of the names are Latin-1.
\<close>

subsection \<open>Voucher types\<close>

abbreviation (input) FACTURA_A :: int where "FACTURA_A \<equiv> 1"
abbreviation (input) NOTA_DEBITO_A :: int where "NOTA_DEBITO_A \<equiv> 2"
abbreviation (input) NOTA_CREDITO_A :: int where "NOTA_CREDITO_A \<equiv> 3"
abbreviation (input) FACTURA_B :: int where "FACTURA_B \<equiv> 6"
abbreviation (input) NOTA_DEBITO_B :: int where "NOTA_DEBITO_B \<equiv> 7"
abbreviation (input) NOTA_CREDITO_B :: int where "NOTA_CREDITO_B \<equiv> 8"
abbreviation (input) FACTURA_E :: int where "FACTURA_E \<equiv> 19"
abbreviation (input) NOTA_DEBITO_E :: int where "NOTA_DEBITO_E \<equiv> 20"
abbreviation (input) NOTA_CREDITO_E :: int where "NOTA_CREDITO_E \<equiv> 21"
abbreviation (input) FACTURA_C :: int where "FACTURA_C \<equiv> 11"
abbreviation (input) NOTA_DEBITO_C :: int where "NOTA_DEBITO_C \<equiv> 12"
abbreviation (input) NOTA_CREDITO_C :: int where "NOTA_CREDITO_C \<equiv> 13"
abbreviation (input) FACTURA_M :: int where "FACTURA_M \<equiv> 51"
abbreviation (input) NOTA_DEBITO_M :: int where "NOTA_DEBITO_M \<equiv> 52"
abbreviation (input) NOTA_CREDITO_M :: int where "NOTA_CREDITO_M \<equiv> 53"
abbreviation (input) FCE_FACTURA_A :: int where "FCE_FACTURA_A \<equiv> 201"
abbreviation (input) FCE_NOTA_DEBITO_A :: int where "FCE_NOTA_DEBITO_A \<equiv> 202"
abbreviation (input) FCE_NOTA_CREDITO_A :: int where "FCE_NOTA_CREDITO_A \<equiv> 203"
abbreviation (input) FCE_FACTURA_B :: int where "FCE_FACTURA_B \<equiv> 206"
abbreviation (input) FCE_NOTA_DEBITO_B :: int where "FCE_NOTA_DEBITO_B \<equiv> 207"
abbreviation (input) FCE_NOTA_CREDITO_B :: int where "FCE_NOTA_CREDITO_B \<equiv> 208"
abbreviation (input) FCE_FACTURA_C :: int where "FCE_FACTURA_C \<equiv> 211"
abbreviation (input) FCE_NOTA_DEBITO_C :: int where "FCE_NOTA_DEBITO_C \<equiv> 212"
abbreviation (input) FCE_NOTA_CREDITO_C :: int where "FCE_NOTA_CREDITO_C \<equiv> 213"

definition voucherTypeValues :: "int list" where
  "voucherTypeValues =
    [FACTURA_A, NOTA_DEBITO_A, NOTA_CREDITO_A, FACTURA_B, NOTA_DEBITO_B, NOTA_CREDITO_B,
     FACTURA_E, NOTA_DEBITO_E, NOTA_CREDITO_E, FACTURA_C, NOTA_DEBITO_C, NOTA_CREDITO_C,
     FACTURA_M, NOTA_DEBITO_M, NOTA_CREDITO_M,
     FCE_FACTURA_A, FCE_NOTA_DEBITO_A, FCE_NOTA_CREDITO_A,
     FCE_FACTURA_B, FCE_NOTA_DEBITO_B, FCE_NOTA_CREDITO_B,
     FCE_FACTURA_C, FCE_NOTA_DEBITO_C, FCE_NOTA_CREDITO_C]"

definition voucherTypeName :: "int \<Rightarrow> string option" where
  "voucherTypeName = map_of
    [(1, ''Factura A''),
     (2, ''Nota de D'' @ [CHR 0xE9] @ ''bito A''),
     (3, ''Nota de Cr'' @ [CHR 0xE9] @ ''dito A''),
     (6, ''Factura B''),
     (7, ''Nota de D'' @ [CHR 0xE9] @ ''bito B''),
     (8, ''Nota de Cr'' @ [CHR 0xE9] @ ''dito B''),
     (19, ''Factura E''),
     (20, ''Nota de D'' @ [CHR 0xE9] @ ''bito E''),
     (21, ''Nota de Cr'' @ [CHR 0xE9] @ ''dito E''),
     (11, ''Factura C''),
     (12, ''Nota de D'' @ [CHR 0xE9] @ ''bito C''),
     (13, ''Nota de Cr'' @ [CHR 0xE9] @ ''dito C''),
     (51, ''Factura M''),
     (52, ''Nota de D'' @ [CHR 0xE9] @ ''bito M''),
     (53, ''Nota de Cr'' @ [CHR 0xE9] @ ''dito M''),
     (201, ''Factura de Cr'' @ [CHR 0xE9] @ ''dito MiPyME A''),
     (202, ''Nota de D'' @ [CHR 0xE9] @ ''bito MiPyME A''),
     (203, ''Nota de Cr'' @ [CHR 0xE9] @ ''dito MiPyME A''),
     (206, ''Factura de Cr'' @ [CHR 0xE9] @ ''dito MiPyME B''),
     (207, ''Nota de D'' @ [CHR 0xE9] @ ''bito MiPyME B''),
     (208, ''Nota de Cr'' @ [CHR 0xE9] @ ''dito MiPyME B''),
     (211, ''Factura de Cr'' @ [CHR 0xE9] @ ''dito MiPyME C''),
     (212, ''Nota de D'' @ [CHR 0xE9] @ ''bito MiPyME C''),
     (213, ''Nota de Cr'' @ [CHR 0xE9] @ ''dito MiPyME C'')]"

definition creditInvoiceTypes :: "int list" where
  "creditInvoiceTypes = [FCE_FACTURA_A, FCE_NOTA_DEBITO_A, FCE_NOTA_CREDITO_A, FCE_FACTURA_B, FCE_NOTA_DEBITO_B, FCE_NOTA_CREDITO_B, FCE_FACTURA_C, FCE_NOTA_DEBITO_C, FCE_NOTA_CREDITO_C]"

definition isCreditInvoice :: "int \<Rightarrow> bool" where
  "isCreditInvoice voucherType = (voucherType \<in> set creditInvoiceTypes)"

definition typesRequiringCuit :: "int list" where
  "typesRequiringCuit = [FACTURA_A, NOTA_DEBITO_A, NOTA_CREDITO_A, FACTURA_M, NOTA_DEBITO_M, NOTA_CREDITO_M]"

definition requiresRecipientCuit :: "int \<Rightarrow> bool" where
  "requiresRecipientCuit voucherType =
     (voucherType \<in> set typesRequiringCuit \<or> isCreditInvoice voucherType)"

definition creditDebitNoteTypes :: "int list" where
  "creditDebitNoteTypes = [NOTA_DEBITO_A, NOTA_CREDITO_A, NOTA_DEBITO_B, NOTA_CREDITO_B, NOTA_DEBITO_C, NOTA_CREDITO_C, NOTA_DEBITO_M, NOTA_CREDITO_M, NOTA_DEBITO_E, NOTA_CREDITO_E, FCE_NOTA_DEBITO_A, FCE_NOTA_CREDITO_A, FCE_NOTA_DEBITO_B, FCE_NOTA_CREDITO_B, FCE_NOTA_DEBITO_C, FCE_NOTA_CREDITO_C]"

definition isCreditDebitNote :: "int \<Rightarrow> bool" where
  "isCreditDebitNote voucherType = (voucherType \<in> set creditDebitNoteTypes)"

definition creditNoteTypes :: "int list" where
  "creditNoteTypes = [NOTA_CREDITO_A, NOTA_CREDITO_B, NOTA_CREDITO_C, NOTA_CREDITO_M, NOTA_CREDITO_E, FCE_NOTA_CREDITO_A, FCE_NOTA_CREDITO_B, FCE_NOTA_CREDITO_C]"

definition isCreditNote :: "int \<Rightarrow> bool" where
  "isCreditNote voucherType = (voucherType \<in> set creditNoteTypes)"

text \<open>The regular expression is a blank, one of the five letters, and the end of the name.\<close>

definition voucherLetter :: "int \<Rightarrow> string" where
  "voucherLetter voucherType =
     (case rev (orElse (voucherTypeName voucherType) '''') of
        letter # blank # _ \<Rightarrow>
          (if blank = CHR '' '' \<and> letter \<in> set ''ABCEM'' then [letter] else '''')
      | _ \<Rightarrow> '''')"

definition ivaDiscriminatingLetters :: "string list" where
  "ivaDiscriminatingLetters = [''A'', ''M'']"

definition discriminatesIva :: "int \<Rightarrow> bool" where
  "discriminatesIva voucherType = (voucherLetter voucherType \<in> set ivaDiscriminatingLetters)"

definition voucherTypesReportingIvaToArca :: "int list" where
  "voucherTypesReportingIvaToArca = [FACTURA_A, NOTA_DEBITO_A, NOTA_CREDITO_A, FACTURA_B, NOTA_DEBITO_B, NOTA_CREDITO_B, FACTURA_M, NOTA_DEBITO_M, NOTA_CREDITO_M, FCE_FACTURA_A, FCE_NOTA_DEBITO_A, FCE_NOTA_CREDITO_A, FCE_FACTURA_B, FCE_NOTA_DEBITO_B, FCE_NOTA_CREDITO_B]"

definition reportsIvaToArca :: "int \<Rightarrow> bool" where
  "reportsIvaToArca voucherType = (voucherType \<in> set voucherTypesReportingIvaToArca)"

definition retentionAgentTypes :: "int list" where
  "retentionAgentTypes = [FACTURA_M, NOTA_DEBITO_M, NOTA_CREDITO_M]"

definition requiresRetentionNotice :: "int \<Rightarrow> bool" where
  "requiresRetentionNotice voucherType = (voucherType \<in> set retentionAgentTypes)"

definition fiscalTransparencyTypes :: "int list" where
  "fiscalTransparencyTypes = [FACTURA_B, NOTA_DEBITO_B, NOTA_CREDITO_B]"

definition requiresFiscalTransparencyNotice :: "int \<Rightarrow> bool" where
  "requiresFiscalTransparencyNotice voucherType = (voucherType \<in> set fiscalTransparencyTypes)"

definition issuableInvoiceTypes :: "int list" where
  "issuableInvoiceTypes = [FACTURA_A, FACTURA_B, FACTURA_C, FACTURA_M, FCE_FACTURA_A, FCE_FACTURA_B, FCE_FACTURA_C]"

definition exportVoucherTypes :: "int list" where
  "exportVoucherTypes = [FACTURA_E, NOTA_DEBITO_E, NOTA_CREDITO_E]"

definition isExportVoucher :: "int \<Rightarrow> bool" where
  "isExportVoucher voucherType = (voucherType \<in> set exportVoucherTypes)"

definition creditNoteTypeFor :: "int \<Rightarrow> int option" where
  "creditNoteTypeFor = map_of
    [(FACTURA_A, NOTA_CREDITO_A), (NOTA_DEBITO_A, NOTA_CREDITO_A),
     (FACTURA_B, NOTA_CREDITO_B), (NOTA_DEBITO_B, NOTA_CREDITO_B),
     (FACTURA_C, NOTA_CREDITO_C), (NOTA_DEBITO_C, NOTA_CREDITO_C),
     (FACTURA_M, NOTA_CREDITO_M), (NOTA_DEBITO_M, NOTA_CREDITO_M),
     (FCE_FACTURA_A, FCE_NOTA_CREDITO_A), (FCE_NOTA_DEBITO_A, FCE_NOTA_CREDITO_A),
     (FCE_FACTURA_B, FCE_NOTA_CREDITO_B), (FCE_NOTA_DEBITO_B, FCE_NOTA_CREDITO_B),
     (FCE_FACTURA_C, FCE_NOTA_CREDITO_C), (FCE_NOTA_DEBITO_C, FCE_NOTA_CREDITO_C)]"

subsection \<open>Documents, recipients, tributes, rates and states\<close>

abbreviation (input) CUIT :: int where "CUIT \<equiv> 80"
abbreviation (input) CUIL :: int where "CUIL \<equiv> 86"
abbreviation (input) DNI :: int where "DNI \<equiv> 96"
abbreviation (input) DOC_CONSUMIDOR_FINAL :: int where "DOC_CONSUMIDOR_FINAL \<equiv> 99"

definition documentTypeName :: "int \<Rightarrow> string option" where
  "documentTypeName =
     map_of [(80, ''CUIT''), (86, ''CUIL''), (96, ''DNI''), (99, ''Consumidor Final'')]"

abbreviation (input) RESPONSABLE_INSCRIPTO :: int where "RESPONSABLE_INSCRIPTO \<equiv> 1"
abbreviation (input) SUJETO_EXENTO :: int where "SUJETO_EXENTO \<equiv> 4"
abbreviation (input) CONSUMIDOR_FINAL :: int where "CONSUMIDOR_FINAL \<equiv> 5"
abbreviation (input) MONOTRIBUTO :: int where "MONOTRIBUTO \<equiv> 6"
abbreviation (input) MONOTRIBUTISTA_SOCIAL :: int where "MONOTRIBUTISTA_SOCIAL \<equiv> 13"

definition recipientIvaConditionName :: "int \<Rightarrow> string option" where
  "recipientIvaConditionName =
     map_of [(1, ''Responsable Inscripto''), (4, ''Sujeto Exento''), (5, ''Consumidor Final''),
             (6, ''Monotributo''), (13, ''Monotributista Social'')]"

definition knownConditions :: "int list" where
  "knownConditions =
     [RESPONSABLE_INSCRIPTO, SUJETO_EXENTO, CONSUMIDOR_FINAL, MONOTRIBUTO, MONOTRIBUTISTA_SOCIAL]"

definition allowedRecipientIvaConditions :: "int \<Rightarrow> int list" where
  "allowedRecipientIvaConditions voucherType =
     (let letter = voucherLetter voucherType in
      if letter = ''A'' \<or> letter = ''M'' then [RESPONSABLE_INSCRIPTO]
      else if letter = ''B'' then filter (\<lambda>condition. condition \<noteq> RESPONSABLE_INSCRIPTO) knownConditions
      else knownConditions)"

definition isRecipientIvaConditionAllowed :: "int \<Rightarrow> int \<Rightarrow> bool" where
  "isRecipientIvaConditionAllowed voucherType conditionId =
     (if conditionId \<notin> set knownConditions then True
      else conditionId \<in> set (allowedRecipientIvaConditions voucherType))"

definition defaultRecipientIvaCondition :: "int \<Rightarrow> int" where
  "defaultRecipientIvaCondition voucherType =
     (if discriminatesIva voucherType then RESPONSABLE_INSCRIPTO else CONSUMIDOR_FINAL)"

definition tributeTypeName :: "int \<Rightarrow> string option" where
  "tributeTypeName =
     map_of [(1, ''Impuestos nacionales''), (2, ''Impuestos provinciales''),
             (3, ''Impuestos municipales''), (4, ''Impuestos internos''), (99, ''Otros'')]"

definition isNationalIndirectTribute :: "int \<Rightarrow> bool" where
  "isNationalIndirectTribute tributeType = (tributeType \<in> set [1, 4])"

datatype TransmissionTypeName = SCA | ADC

definition transmissionTypeValue :: "TransmissionTypeName \<Rightarrow> string" where
  "transmissionTypeValue t = (case t of SCA \<Rightarrow> ''SCA'' | ADC \<Rightarrow> ''ADC'')"

text \<open>\<open>iva-rate.ts\<close>: the rates ARCA knows and their ids; a rate is a JavaScript number.\<close>

definition ivaRates :: "rat list" where
  "ivaRates = [0, 5 / 2, 5, 21 / 2, 21, 27]"

definition ivaRateAfipId :: "rat \<Rightarrow> int option" where
  "ivaRateAfipId = map_of [(0, 3), (5 / 2, 9), (5, 8), (21 / 2, 4), (21, 5), (27, 6)]"

datatype FiscalCondition = FC_RESPONSABLE_INSCRIPTO | FC_RESPONSABLE_INSCRIPTO_M | FC_MONOTRIBUTISTA

definition inferFiscalCondition :: "int list \<Rightarrow> FiscalCondition option" where
  "inferFiscalCondition voucherTypeIds =
     (if FACTURA_M \<in> set voucherTypeIds then Some FC_RESPONSABLE_INSCRIPTO_M
      else if FACTURA_A \<in> set voucherTypeIds \<or> FACTURA_B \<in> set voucherTypeIds
        then Some FC_RESPONSABLE_INSCRIPTO
      else if FACTURA_C \<in> set voucherTypeIds then Some FC_MONOTRIBUTISTA
      else None)"

definition authorizedVoucherStatuses :: "string list" where
  "authorizedVoucherStatuses = [''APPROVED'', ''RECOVERED'', ''OBSERVED'']"

definition isAuthorizedStatus :: "string \<Rightarrow> bool" where
  "isAuthorizedStatus status = (status \<in> set authorizedVoucherStatuses)"

definition hasText :: "string option \<Rightarrow> bool" where
  "hasText value = (value \<noteq> None \<and> value \<noteq> Some '''')"

lemma hasText_simps [simp]: "hasText None = False" "hasText (Some s) = (s \<noteq> '''')"
  by (simp_all add: hasText_def)

lemma hasText_iff: "hasText v \<longleftrightarrow> (\<exists>s. v = Some s \<and> s \<noteq> '''')"
  by (cases v) simp_all

subsection \<open>The tables agree with one another\<close>

lemmas voucher_type_lists [voucher_type_simps] =
  voucherTypeValues_def creditInvoiceTypes_def typesRequiringCuit_def creditDebitNoteTypes_def
  creditNoteTypes_def voucherTypesReportingIvaToArca_def retentionAgentTypes_def
  fiscalTransparencyTypes_def issuableInvoiceTypes_def exportVoucherTypes_def

lemmas voucher_type_predicates [voucher_type_simps] =
  isCreditInvoice_def requiresRecipientCuit_def isCreditDebitNote_def isCreditNote_def
  reportsIvaToArca_def requiresRetentionNotice_def requiresFiscalTransparencyNotice_def
  isExportVoucher_def

lemma voucherTypeName_None: "voucherTypeName vt = None \<longleftrightarrow> vt \<notin> set voucherTypeValues"
  by (auto simp: voucherTypeName_def voucherTypeValues_def map_of_eq_None_iff)

text \<open>The letter of every voucher type, evaluated once from the names.\<close>

lemma voucherLetter_cases:
  "voucherLetter vt =
     (if vt \<in> {1, 2, 3, 201, 202, 203} then ''A''
      else if vt \<in> {6, 7, 8, 206, 207, 208} then ''B''
      else if vt \<in> {11, 12, 13, 211, 212, 213} then ''C''
      else if vt \<in> {19, 20, 21} then ''E''
      else if vt \<in> {51, 52, 53} then ''M''
      else '''')"
proof (cases "vt \<in> set voucherTypeValues")
  case True
  then show ?thesis
    by (simp only: voucherTypeValues_def list.set insert_iff empty_iff simp_thms, elim disjE)
       (simp_all add: voucherLetter_def voucherTypeName_def)
next
  case False
  then have "voucherTypeName vt = None" by (simp add: voucherTypeName_None)
  then show ?thesis using False by (auto simp: voucherLetter_def voucherTypeValues_def)
qed

lemma reportsIvaToArca_letter:
  "reportsIvaToArca vt \<longleftrightarrow> voucherLetter vt \<in> {''A'', ''B'', ''M''}"
  by (auto simp: voucherLetter_cases voucher_type_simps)

lemma discriminatesIva_letter:
  "discriminatesIva vt \<longleftrightarrow> vt \<in> {1, 2, 3, 201, 202, 203, 51, 52, 53}"
  by (auto simp: discriminatesIva_def ivaDiscriminatingLetters_def voucherLetter_cases)

lemma discriminatesIva_reports: "discriminatesIva vt \<Longrightarrow> reportsIvaToArca vt"
  by (auto simp: discriminatesIva_letter voucher_type_simps)

lemma creditNoteTypeFor_Some:
  "creditNoteTypeFor vt = Some nt \<Longrightarrow>
     (vt, nt) \<in> {(1, 3), (2, 3), (6, 8), (7, 8), (11, 13), (12, 13), (51, 53), (52, 53),
       (201, 203), (202, 203), (206, 208), (207, 208), (211, 213), (212, 213)}"
  by (auto simp: creditNoteTypeFor_def split: if_splits)

lemma creditNoteTypeFor_None:
  "creditNoteTypeFor vt = None \<longleftrightarrow>
     vt \<notin> {1, 2, 6, 7, 11, 12, 51, 52, 201, 202, 206, 207, 211, 212}"
  by (auto simp: creditNoteTypeFor_def)

lemma allowed_condition_letter:
  "isRecipientIvaConditionAllowed vt c \<longleftrightarrow>
     c \<notin> set knownConditions \<or>
     (if voucherLetter vt \<in> {''A'', ''M''} then c = RESPONSABLE_INSCRIPTO
      else if voucherLetter vt = ''B'' then c \<noteq> RESPONSABLE_INSCRIPTO else True)"
  by (auto simp: isRecipientIvaConditionAllowed_def allowedRecipientIvaConditions_def
      knownConditions_def)

lemma ivaRateAfipId_Some: "ivaRateAfipId r \<noteq> None \<longleftrightarrow> r \<in> set ivaRates"
  by (auto simp: ivaRateAfipId_def ivaRates_def)

end
