(* ===== verification/JsNumber.thy ===== *)
theory JsNumber
  imports Prelude
begin

text \<open>
  JavaScript numbers. Every amount of the program is an IEEE 754 binary64 value, so a
  number is the exact rational that the double denotes, and each arithmetic operator
  rounds the exact result to the nearest double, ties to even, with gradual underflow
  (\<open>fl\<close>). The model covers finite values: no theorem here speaks of a result
  beyond the largest double, of a division by zero or of the sign of zero.
  \<open>Math.round\<close>, \<open>Number.EPSILON\<close> and the operators follow ECMA-262.
\<close>

type_synonym number = rat

subsection \<open>Rounding to binary64\<close>

definition p2 :: "int \<Rightarrow> rat" where
  "p2 k = (if 0 \<le> k then 2 ^ nat k else 1 / 2 ^ nat (- k))"

function blen :: "int \<Rightarrow> int" where
  "blen n = (if n \<le> 0 then 0 else 1 + blen (n div 2))"
  by pat_completeness auto
termination
  by (relation "measure nat") auto

declare blen.simps [simp del]

definition binexp :: "rat \<Rightarrow> int" where
  "binexp x = (let (a, b) = quotient_of \<bar>x\<bar>; k = blen a - blen b
               in if p2 k \<le> \<bar>x\<bar> then k else k - 1)"

definition round_even :: "rat \<Rightarrow> int" where
  "round_even y = (let f = \<lfloor>y\<rfloor>; d = y - of_int f in
     if d < 1 / 2 then f else if d > 1 / 2 then f + 1 else if even f then f else f + 1)"

definition ulp_exp :: "rat \<Rightarrow> int" where
  "ulp_exp x = max (binexp x - 52) (- 1074)"

definition fl :: "rat \<Rightarrow> rat" where
  "fl x = (if x = 0 then 0 else of_int (round_even (x / p2 (ulp_exp x))) * p2 (ulp_exp x))"

subsection \<open>Powers of two and the binary exponent\<close>

lemma p2_powi: "p2 k = 2 powi k"
  by (auto simp add: p2_def power_int_def power_inverse inverse_eq_divide power_one_over)

lemma p2_pos [simp]: "0 < p2 k"
  by (simp add: p2_powi)

lemma p2_nonneg [simp]: "0 \<le> p2 k"
  using p2_pos [of k] by (rule less_imp_le)

lemma p2_nz [simp]: "p2 k \<noteq> 0"
  using p2_pos [of k] by linarith

lemma p2_add: "p2 (j + k) = p2 j * p2 k"
  by (simp add: p2_powi power_int_add)

lemma p2_abs [simp]: "\<bar>p2 k\<bar> = p2 k"
  using p2_pos [of k] by linarith

lemma p2_less: "j < k \<Longrightarrow> p2 j < p2 k"
  unfolding p2_powi by (rule power_int_strict_increasing) simp_all

lemma p2_less_iff [simp]: "p2 j < p2 k \<longleftrightarrow> j < k"
  using p2_less [of j k] p2_less [of k j] by (cases j k rule: linorder_cases) auto

lemma p2_le_iff [simp]: "p2 j \<le> p2 k \<longleftrightarrow> j \<le> k"
  using p2_less_iff [of k j] by (simp only: not_less [symmetric])

lemma p2_of_nat: "p2 (int n) = 2 ^ n"
  by (simp add: p2_def)

lemma p2_numeral_pos: "0 \<le> k \<Longrightarrow> p2 k = of_int (2 ^ nat k)"
  by (simp add: p2_def)

lemma p2_diff: "p2 (j - k) = p2 j / p2 k"
  using p2_add [of "j - k" k] by (simp add: field_simps)

lemma blen_bounds: "0 < n \<Longrightarrow> 0 < blen n \<and> p2 (blen n - 1) \<le> of_int n \<and> of_int n < p2 (blen n)"
proof (induction n rule: blen.induct)
  case (1 n)
  show ?case
  proof (cases "n = 1")
    case True
    then show ?thesis by (simp add: blen.simps [of 1] blen.simps [of 0] p2_def)
  next
    case False
    with 1 have IH: "0 < blen (n div 2)" "p2 (blen (n div 2) - 1) \<le> of_int (n div 2)"
      "of_int (n div 2) < p2 (blen (n div 2))" by auto
    have b: "blen n = 1 + blen (n div 2)" using 1 by (simp add: blen.simps [of n])
    have d: "p2 (blen (n div 2)) = 2 * p2 (blen (n div 2) - 1)"
      using p2_add [of 1 "blen (n div 2) - 1"] by (simp add: p2_def)
    have d2: "p2 (blen n) = 2 * p2 (blen (n div 2))"
      using p2_add [of 1 "blen (n div 2)"] by (simp add: b p2_def [of 1])
    have lo: "2 * of_int (n div 2) \<le> (of_int n :: rat)"
    proof -
      have "2 * (n div 2) \<le> n" by simp
      then have "of_int (2 * (n div 2)) \<le> (of_int n :: rat)" by (simp only: of_int_le_iff)
      then show ?thesis by simp
    qed
    have int_p2: "p2 (blen (n div 2)) = of_int (2 ^ nat (blen (n div 2)))"
      using IH(1) by (simp add: p2_numeral_pos)
    have "n div 2 < 2 ^ nat (blen (n div 2))"
      using IH(3) unfolding int_p2 by (simp only: of_int_less_iff)
    then have "n < 2 * 2 ^ nat (blen (n div 2))" by linarith
    then have "(of_int n :: rat) < of_int (2 * 2 ^ nat (blen (n div 2)))" by (simp only: of_int_less_iff)
    then have hi: "of_int n < 2 * p2 (blen (n div 2))" by (simp add: int_p2)
    show ?thesis using IH lo hi d d2 b by simp
  qed
qed

lemma binexp_bounds:
  assumes "x \<noteq> 0"
  shows "p2 (binexp x) \<le> \<bar>x\<bar>" "\<bar>x\<bar> < p2 (binexp x + 1)"
proof -
  obtain a b where q: "quotient_of \<bar>x\<bar> = (a, b)" by (cases "quotient_of \<bar>x\<bar>")
  have b: "0 < b" using quotient_of_denom_pos [OF q] .
  have eq: "\<bar>x\<bar> = of_int a / of_int b" using quotient_of_div [OF q] .
  have a: "0 < a" using assms b eq
    by (metis abs_zero div_by_0 divide_less_0_iff linorder_neqE_linordered_idom of_int_0 of_int_0_less_iff of_int_less_0_iff zero_less_abs_iff div_0 not_less_iff_gr_or_eq)
  let ?k = "blen a - blen b"
  have A: "p2 (blen a - 1) \<le> of_int a" "of_int a < p2 (blen a)" using blen_bounds [OF a] by auto
  have B: "p2 (blen b - 1) \<le> of_int b" "of_int b < p2 (blen b)" using blen_bounds [OF b] by auto
  have b': "(0::rat) < of_int b" using b by simp
  have lo: "p2 (?k - 1) \<le> \<bar>x\<bar>"
  proof -
    have "p2 (?k - 1) = p2 (blen a - 1) / p2 (blen b)"
      using p2_diff [of "blen a - 1" "blen b"] by (simp add: algebra_simps)
    also have "\<dots> \<le> of_int a / of_int b"
      using A B b' a by (intro frac_le) (auto intro: less_imp_le)
    finally show ?thesis by (simp add: eq)
  qed
  have hi: "\<bar>x\<bar> < p2 (?k + 1)"
  proof -
    have "of_int a / of_int b < p2 (blen a) / p2 (blen b - 1)"
      using A B b' a by (intro frac_less) auto
    also have "\<dots> = p2 (?k + 1)" using p2_diff [of "blen a" "blen b - 1"] by (simp add: algebra_simps)
    finally show ?thesis by (simp add: eq)
  qed
  show "p2 (binexp x) \<le> \<bar>x\<bar>" "\<bar>x\<bar> < p2 (binexp x + 1)"
    using lo hi by (auto simp: binexp_def q Let_def)
qed

subsection \<open>The rounding error, and the values that are not rounded\<close>

lemma round_even_err: "\<bar>of_int (round_even y) - y\<bar> \<le> 1 / 2"
proof -
  have "of_int \<lfloor>y\<rfloor> \<le> y" "y < of_int \<lfloor>y\<rfloor> + 1" by linarith+
  moreover have "round_even y = \<lfloor>y\<rfloor> \<and> y - of_int \<lfloor>y\<rfloor> \<le> 1 / 2 \<or>
      round_even y = \<lfloor>y\<rfloor> + 1 \<and> 1 / 2 \<le> y - of_int \<lfloor>y\<rfloor>"
    by (auto simp: round_even_def Let_def)
  ultimately show ?thesis by (auto simp: abs_le_iff)
qed

lemma round_even_of_int [simp]: "round_even (of_int n) = n"
  by (simp add: round_even_def)

lemma fl_0 [simp]: "fl 0 = 0"
  by (simp add: fl_def)

lemma fl_err_ulp: "\<bar>fl x - x\<bar> \<le> p2 (ulp_exp x) / 2"
proof (cases "x = 0")
  case False
  have "fl x - x = (of_int (round_even (x / p2 (ulp_exp x))) - x / p2 (ulp_exp x)) * p2 (ulp_exp x)"
    using False by (simp add: fl_def field_simps)
  then have "\<bar>fl x - x\<bar> = \<bar>of_int (round_even (x / p2 (ulp_exp x))) - x / p2 (ulp_exp x)\<bar> * p2 (ulp_exp x)"
    using p2_pos [of "ulp_exp x"] by (simp add: abs_mult)
  also have "\<dots> \<le> 1 / 2 * p2 (ulp_exp x)"
    by (intro mult_right_mono round_even_err) (simp add: less_imp_le)
  finally show ?thesis by simp
qed simp

lemma fl_err:
  assumes "\<bar>x\<bar> \<le> B" "1 \<le> B"
  shows "\<bar>fl x - x\<bar> \<le> B / 9007199254740992"
proof (cases "x = 0")
  case False
  have "p2 (ulp_exp x) \<le> B / 2 ^ 52"
  proof (cases "binexp x - 52 \<le> - 1074")
    case True
    then have "ulp_exp x = - 1074" by (simp add: ulp_exp_def)
    moreover have "p2 (- 1074) \<le> p2 (- 52)" by (simp only: p2_le_iff)
    moreover have "p2 (- 52) = 1 / 2 ^ 52" by (simp add: p2_def)
    ultimately show ?thesis using assms(2) by (simp add: divide_right_mono order_trans)
  next
    case F: False
    then have "p2 (ulp_exp x) = p2 (binexp x) / p2 52" by (simp add: ulp_exp_def p2_diff)
    also have "p2 52 = 2 ^ 52" by (simp add: p2_def)
    finally show ?thesis using binexp_bounds(1) [OF False] assms(1)
      by (simp add: divide_right_mono)
  qed
  then show ?thesis using fl_err_ulp [of x] by (simp add: field_simps)
qed (use assms in simp)

lemma fl_exact:
  assumes "x = of_int m * p2 q" "\<bar>m\<bar> \<le> 2 ^ 53" "- 1074 \<le> q"
  shows "fl x = x"
proof (cases "x = 0")
  case False
  have *: "fl x = x" if x: "x = of_int m * p2 q" and m: "\<bar>m\<bar> < 2 ^ 53" and q: "- 1074 \<le> q" for m q
  proof -
    have "\<bar>x\<bar> = of_int \<bar>m\<bar> * p2 q" using x p2_pos [of q] by (simp add: abs_mult)
    also have "\<dots> < of_int (2 ^ 53) * p2 q"
      using m by (intro mult_strict_right_mono) (simp_all only: of_int_less_iff p2_pos)
    also have "\<dots> = p2 (53 + q)" by (simp add: p2_add p2_def [of 53])
    finally have "p2 (binexp x) < p2 (53 + q)" using binexp_bounds(1) [OF False] by linarith
    then have "binexp x < 53 + q" by simp
    then have le: "ulp_exp x \<le> q" using q by (simp add: ulp_exp_def)
    have "x / p2 (ulp_exp x) = of_int m * p2 (q - ulp_exp x)" by (simp add: x p2_diff)
    also have "\<dots> = of_int (m * 2 ^ nat (q - ulp_exp x))" using le by (simp add: p2_def)
    finally have "x / p2 (ulp_exp x) = of_int (m * 2 ^ nat (q - ulp_exp x))" .
    then have "fl x = x / p2 (ulp_exp x) * p2 (ulp_exp x)"
      using False by (simp add: fl_def del: of_int_mult)
    then show ?thesis by simp
  qed
  show ?thesis
  proof (cases "\<bar>m\<bar> = 2 ^ 53")
    case True
    then have "m = 2 ^ 53 \<or> m = - (2 ^ 53)" by linarith
    then have "x = of_int (sgn m * 2 ^ 52) * p2 (q + 1)"
      using assms(1) by (auto simp: p2_add p2_def [of 1])
    moreover have "\<bar>sgn m * 2 ^ 52\<bar> < (2 ^ 53 :: int)" using \<open>m = 2 ^ 53 \<or> m = - (2 ^ 53)\<close> by auto
    ultimately show ?thesis using * [of "sgn m * 2 ^ 52" "q + 1"] assms(3) by simp
  next
    case F: False
    then show ?thesis using * [of m q] assms by simp
  qed
qed simp

lemma fl_of_int: "\<bar>n\<bar> \<le> 2 ^ 53 \<Longrightarrow> fl (of_int n) = of_int n"
  by (rule fl_exact [of _ n 0]) (simp_all add: p2_def)

lemma fl_is_double:
  obtains m q where "fl x = of_int m * p2 q" "\<bar>m\<bar> \<le> 2 ^ 53" "- 1074 \<le> q"
proof (cases "x = 0")
  case True
  then show ?thesis using that [of 0 0] by simp
next
  case False
  let ?u = "ulp_exp x" and ?m = "round_even (x / p2 (ulp_exp x))"
  have "\<bar>x\<bar> < p2 (binexp x + 1)" using binexp_bounds(2) [OF False] .
  also have "\<dots> \<le> p2 (53 + ?u)" by (simp add: ulp_exp_def)
  finally have lt: "\<bar>x / p2 ?u\<bar> < 2 ^ 53"
    using p2_pos [of ?u] by (simp add: p2_add p2_def [of 53] abs_divide divide_simps mult.commute)
  have "\<bar>of_int ?m\<bar> < (2 ^ 53 + 1 :: rat)"
    using round_even_err [of "x / p2 ?u"] lt by linarith
  then have "of_int \<bar>?m\<bar> < (of_int (2 ^ 53 + 1) :: rat)" by simp
  then have "\<bar>?m\<bar> < 2 ^ 53 + 1" by (simp only: of_int_less_iff)
  then have "\<bar>?m\<bar> \<le> 2 ^ 53" by simp
  moreover have "fl x = of_int ?m * p2 ?u" using False by (simp add: fl_def)
  moreover have "- 1074 \<le> ?u" by (simp add: ulp_exp_def)
  ultimately show ?thesis using that by blast
qed

lemma fl_idem [simp]: "fl (fl x) = fl x"
  by (rule fl_is_double [of x]) (metis fl_exact)

lemma fl_nonneg: "0 \<le> x \<Longrightarrow> 0 \<le> fl x"
proof -
  assume x: "0 \<le> x"
  have "0 \<le> round_even y" if "0 \<le> y" for y :: rat
    using that by (simp add: round_even_def Let_def)
  then have "0 \<le> round_even (x / p2 (ulp_exp x))" using x by (simp add: less_imp_le)
  then show "0 \<le> fl x" by (simp add: fl_def less_imp_le)
qed

lemma fl_uminus [simp]: "fl (- x) = - fl x"
proof -
  have r: "round_even (- y) = - round_even y" for y
  proof (cases "y = of_int \<lfloor>y\<rfloor>")
    case True
    then show ?thesis by (metis of_int_minus round_even_of_int)
  next
    case False
    then have "\<lfloor>- y\<rfloor> = - \<lfloor>y\<rfloor> - 1" by (intro floor_unique) (simp; linarith)+
    then show ?thesis by (auto simp: round_even_def Let_def)
  qed
  have "ulp_exp (- x) = ulp_exp x" by (simp add: ulp_exp_def binexp_def)
  then show ?thesis by (simp add: fl_def r)
qed

subsection \<open>Operators of the language\<close>

definition epsilon :: number where
  "epsilon = 1 / 4503599627370496"

definition js_add :: "number \<Rightarrow> number \<Rightarrow> number" where
  "js_add x y = fl (x + y)"

definition js_sub :: "number \<Rightarrow> number \<Rightarrow> number" where
  "js_sub x y = fl (x - y)"

definition js_mul :: "number \<Rightarrow> number \<Rightarrow> number" where
  "js_mul x y = fl (x * y)"

definition js_div :: "number \<Rightarrow> number \<Rightarrow> number" where
  "js_div x y = fl (x / y)"

definition math_round :: "number \<Rightarrow> int" where
  "math_round x = \<lfloor>x + 1 / 2\<rfloor>"

lemma math_round_near: "\<bar>x - of_int n\<bar> < 1 / 2 \<Longrightarrow> math_round x = n"
  unfolding math_round_def by (rule floor_unique) linarith+

lemma math_round_of_int [simp]: "math_round (of_int n) = n"
  by (rule math_round_near) simp

lemma epsilon_p2: "epsilon = p2 (- 52)"
  by (simp add: epsilon_def p2_def)

end
