(* ===== verification/Money.thy ===== *)
theory Money
  imports JsNumber
begin

text \<open>
  Money as the program keeps it: a double that stands for a whole number of cents.
  \<open>roundToCents\<close> is \<open>packages/shared/src/money.ts\<close>; the same expression is
  written again in \<open>iva-calculator.ts\<close>, \<open>voucher-tax-breakdown.ts\<close> and
  \<open>fiscal-transparency.ts\<close>, so what is proved of a rounding to cents is proved once,
  in the locale \<open>cent_rounder\<close>, and interpreted on each of them. Up to
  \<open>2 ^ 43\<close> cents (some 88 000 million pesos) arithmetic on rounded amounts is exactly
  arithmetic on integers of cents.
\<close>

definition roundToCents :: "number \<Rightarrow> number" where
  "roundToCents amount = js_div (of_int (math_round (js_mul (js_add amount epsilon) 100))) 100"

definition cents :: "int \<Rightarrow> number" where
  "cents n = fl (of_int n / 100)"

definition cents_range :: "int \<Rightarrow> bool" where
  "cents_range n \<longleftrightarrow> \<bar>n\<bar> \<le> 8796093022208"

subsection \<open>The double of a number of cents\<close>

lemma cents_0 [simp]: "cents 0 = 0"
  by (simp add: cents_def)

lemma cents_rangeD: "cents_range n \<Longrightarrow> \<bar>of_int n :: rat\<bar> \<le> 8796093022208"
proof -
  assume "cents_range n"
  then have "of_int \<bar>n\<bar> \<le> (of_int 8796093022208 :: rat)"
    by (simp only: of_int_le_iff) (simp add: cents_range_def)
  then show ?thesis by simp
qed

lemma cents_rangeI: "\<bar>of_int n :: rat\<bar> \<le> 8796093022208 \<Longrightarrow> cents_range n"
proof -
  assume "\<bar>of_int n :: rat\<bar> \<le> 8796093022208"
  then have "of_int \<bar>n\<bar> \<le> (of_int 8796093022208 :: rat)" by simp
  then show ?thesis by (simp only: of_int_le_iff) (simp add: cents_range_def)
qed

lemma cents_err: "cents_range n \<Longrightarrow> \<bar>cents n - of_int n / 100\<bar> \<le> 1 / 65536"
proof -
  assume "cents_range n"
  from cents_rangeD [OF this] have "\<bar>of_int n / 100 :: rat\<bar> \<le> 137438953472" by linarith
  from fl_err [OF this] show ?thesis by (simp add: cents_def)
qed

lemma cents_less: "cents_range a \<Longrightarrow> cents_range b \<Longrightarrow> a < b \<Longrightarrow> cents a < cents b"
proof -
  assume r: "cents_range a" "cents_range b" and "a < b"
  then have "of_int (a + 1) \<le> (of_int b :: rat)" by (simp only: of_int_le_iff)
  then have "(of_int a :: rat) + 1 \<le> of_int b" by simp
  with cents_err [OF r(1)] cents_err [OF r(2)] show ?thesis by linarith
qed

lemma cents_inj: "cents_range a \<Longrightarrow> cents_range b \<Longrightarrow> cents a = cents b \<longleftrightarrow> a = b"
  using cents_less [of a b] cents_less [of b a] by (cases a b rule: linorder_cases) auto

lemma cents_le_iff: "cents_range a \<Longrightarrow> cents_range b \<Longrightarrow> cents a \<le> cents b \<longleftrightarrow> a \<le> b"
  using cents_less [of a b] cents_less [of b a] by (cases a b rule: linorder_cases) auto

lemma cents_add_err:
  assumes "cents_range a" "cents_range b"
  shows "\<bar>js_add (cents a) (cents b) - of_int (a + b) / 100\<bar> \<le> 1 / 8192"
proof -
  have "\<bar>cents a + cents b\<bar> \<le> 274877906944"
    using cents_rangeD [OF assms(1)] cents_rangeD [OF assms(2)]
      cents_err [OF assms(1)] cents_err [OF assms(2)] by linarith
  from fl_err [OF this] cents_err [OF assms(1)] cents_err [OF assms(2)] show ?thesis
    by (simp only: js_add_def of_int_add add_divide_distrib) linarith
qed

lemma cents_sub_err:
  assumes "cents_range a" "cents_range b"
  shows "\<bar>js_sub (cents a) (cents b) - of_int (a - b) / 100\<bar> \<le> 1 / 8192"
proof -
  have "\<bar>cents a - cents b\<bar> \<le> 274877906944"
    using cents_rangeD [OF assms(1)] cents_rangeD [OF assms(2)]
      cents_err [OF assms(1)] cents_err [OF assms(2)] by linarith
  from fl_err [OF this] cents_err [OF assms(1)] cents_err [OF assms(2)] show ?thesis
    by (simp only: js_sub_def of_int_diff diff_divide_distrib) linarith
qed

subsection \<open>What a rounding to cents promises\<close>

locale cent_rounder =
  fixes round_cents :: "number \<Rightarrow> number"
  assumes round_near:
    "cents_range n \<Longrightarrow> \<bar>x - of_int n / 100\<bar> \<le> 49 / 10000 \<Longrightarrow> round_cents x = cents n"
  and round_nearest:
    "\<bar>x\<bar> \<le> 68719476736 \<Longrightarrow>
       \<exists>n. round_cents x = cents n \<and> cents_range n \<and> \<bar>x - of_int n / 100\<bar> \<le> 101 / 20000"
begin

lemma round_of_cents: "cents_range n \<Longrightarrow> round_cents (cents n) = cents n"
  by (rule round_near) (use cents_err [of n] in linarith)+

lemma round_0: "round_cents 0 = 0"
  using round_of_cents [of 0] by (simp add: cents_range_def)

lemma round_idem: "\<bar>x\<bar> \<le> 68719476736 \<Longrightarrow> round_cents (round_cents x) = round_cents x"
  using round_nearest round_of_cents by metis

lemma round_add:
  assumes "cents_range a" "cents_range b" "cents_range (a + b)"
  shows "round_cents (js_add (cents a) (cents b)) = cents (a + b)"
  using cents_add_err [OF assms(1,2)] by (intro round_near assms(3)) linarith

lemma round_sub:
  assumes "cents_range a" "cents_range b" "cents_range (a - b)"
  shows "round_cents (js_sub (cents a) (cents b)) = cents (a - b)"
  using cents_sub_err [OF assms(1,2)] by (intro round_near assms(3)) linarith

text \<open>
  An accumulator that is rounded at every step, as \<open>netAmount = round2(netAmount + x)\<close>,
  adds integers.
\<close>

lemma round_accumulate:
  assumes "cents_range a" "\<And>k. k \<le> length ns \<Longrightarrow> cents_range (a + sum_list (take k ns))"
    and "\<And>n. n \<in> set ns \<Longrightarrow> cents_range n"
  shows "foldl (\<lambda>acc n. round_cents (js_add acc (cents n))) (cents a) ns = cents (a + sum_list ns)"
  using assms
proof (induction ns arbitrary: a)
  case (Cons n ns)
  have a': "cents_range (a + n)" using Cons.prems(2) [of 1] by simp
  have "round_cents (js_add (cents a) (cents n)) = cents (a + n)"
    using Cons.prems a' by (intro round_add) auto
  moreover have "foldl (\<lambda>acc n. round_cents (js_add acc (cents n))) (cents (a + n)) ns
      = cents (a + n + sum_list ns)"
  proof (rule Cons.IH [OF a'])
    fix k assume "k \<le> length ns"
    then show "cents_range (a + n + sum_list (take k ns))"
      using Cons.prems(2) [of "Suc k"] by (simp add: add.assoc)
  qed (use Cons.prems(3) in simp)
  ultimately show ?case by (simp add: add.assoc)
qed simp

end

subsection \<open>The rounding expression of the code\<close>

lemma scaled_err:
  assumes "\<bar>x\<bar> \<le> 137438953472"
  shows "\<bar>js_mul (js_add x epsilon) 100 - 100 * x\<bar> \<le> 1 / 200"
proof -
  define s where "s = js_add x epsilon"
  have e: "epsilon = 1 / 4503599627370496" by (fact epsilon_def)
  have "\<bar>x + epsilon\<bar> \<le> 137438953473" using assms e by linarith
  from fl_err [OF this] have s: "\<bar>s - (x + epsilon)\<bar> \<le> 137438953473 / 9007199254740992"
    by (simp add: js_add_def s_def)
  then have "\<bar>s * 100\<bar> \<le> 13743895347400" using assms e by linarith
  from fl_err [OF this] have "\<bar>js_mul s 100 - s * 100\<bar> \<le> 13743895347400 / 9007199254740992"
    by (simp add: js_mul_def)
  with s e show ?thesis unfolding s_def [symmetric] by linarith
qed

lemma roundToCents_is_cents:
  "roundToCents x = cents (math_round (js_mul (js_add x epsilon) 100))"
  by (simp add: roundToCents_def cents_def js_div_def)

lemma roundToCents_near:
  assumes n: "cents_range n" and near: "\<bar>x - of_int n / 100\<bar> \<le> 49 / 10000"
  shows "roundToCents x = cents n"
proof -
  have "\<bar>x\<bar> \<le> 137438953472" using near cents_rangeD [OF n] by linarith
  from scaled_err [OF this] near
  have "\<bar>js_mul (js_add x epsilon) 100 - of_int n\<bar> < 1 / 2" by linarith
  from math_round_near [OF this] show ?thesis by (simp add: roundToCents_is_cents)
qed

lemma roundToCents_nearest:
  assumes "\<bar>x\<bar> \<le> 68719476736"
  shows "\<exists>n. roundToCents x = cents n \<and> cents_range n \<and> \<bar>x - of_int n / 100\<bar> \<le> 101 / 20000"
proof -
  let ?y = "js_mul (js_add x epsilon) 100"
  have y: "\<bar>?y - 100 * x\<bar> \<le> 1 / 200" using assms by (intro scaled_err) simp
  have r: "of_int (math_round ?y) \<le> ?y + 1 / 2" "?y - 1 / 2 < of_int (math_round ?y)"
    unfolding math_round_def by linarith+
  have "\<bar>x - of_int (math_round ?y) / 100\<bar> \<le> 101 / 20000"
    using y r by linarith
  moreover have "cents_range (math_round ?y)"
    using y r assms by (intro cents_rangeI) linarith
  ultimately show ?thesis using roundToCents_is_cents by blast
qed

interpretation shared_money: cent_rounder roundToCents
  by unfold_locales (fact roundToCents_near, fact roundToCents_nearest)

subsection \<open>Sums of amounts that are not rounded\<close>

text \<open>
  \<open>items.reduce((acc, x) => acc + x, 0)\<close>: each addition rounds, so a sum of amounts
  that are each within \<open>d\<close> of a whole number of cents stays within the added errors.
\<close>

definition js_sum :: "number list \<Rightarrow> number" where
  "js_sum xs = foldl js_add 0 xs"

lemma js_sum_err_aux:
  assumes "list_all2 (\<lambda>x c. \<bar>x - of_int c / 100\<bar> \<le> d) xs cs"
    and "\<And>c. c \<in> set cs \<Longrightarrow> 0 \<le> c" "0 \<le> a" "a + sum_list cs \<le> 549755813888"
    and "\<bar>acc - of_int a / 100\<bar> \<le> e" "0 \<le> e" "0 \<le> d"
    and "e + of_nat (length xs) * (d + 1 / 500000) \<le> 1"
  shows "\<bar>foldl js_add acc xs - of_int (a + sum_list cs) / 100\<bar>
           \<le> e + of_nat (length xs) * (d + 1 / 500000)"
  using assms
proof (induction xs cs arbitrary: acc a e rule: list_all2_induct)
  case (Cons x xs c cs)
  have c0: "0 \<le> c" "0 \<le> sum_list cs" using Cons.prems(1) by (auto intro: sum_list_nonneg)
  have ac: "a + c \<le> 549755813888" using Cons.prems(3) c0 by simp
  have "of_int (a + c) \<le> (of_int 549755813888 :: rat)" "0 \<le> (of_int (a + c) :: rat)"
    using ac c0 Cons.prems(2) by (simp_all only: of_int_le_iff of_int_0_le_iff)
  then have ac': "(of_int a + of_int c :: rat) \<le> 549755813888" "0 \<le> (of_int a + of_int c :: rat)"
    by simp_all
  have len: "0 \<le> of_nat (length xs) * (d + 1 / 500000 :: rat)" using Cons.prems(6) by simp
  have "e + (d + 1 / 500000 + of_nat (length xs) * (d + 1 / 500000)) \<le> 1"
    using Cons.prems(7) by (simp add: distrib_right)
  then have "e + d \<le> 1" using len by linarith
  then have "\<bar>acc + x\<bar> \<le> 8589934592"
    using ac' Cons.prems(4) Cons.hyps(1) by linarith
  from fl_err [OF this] have "\<bar>js_add acc x - (acc + x)\<bar> \<le> 1 / 500000" by (simp add: js_add_def)
  then have "\<bar>js_add acc x - of_int (a + c) / 100\<bar> \<le> e + d + 1 / 500000"
    using Cons.prems(4) Cons.hyps(1) by (simp only: of_int_add add_divide_distrib)
  from Cons.IH [OF _ _ _ this] show ?case
    using Cons.prems c0 by (simp add: add.assoc distrib_right)
qed simp

lemma js_sum_err:
  assumes "list_all2 (\<lambda>x c. \<bar>x - of_int c / 100\<bar> \<le> 1 / 500000) xs cs"
    and "\<And>c. c \<in> set cs \<Longrightarrow> 0 \<le> c" "sum_list cs \<le> 549755813888" "length xs \<le> 1000"
  shows "\<bar>js_sum xs - of_int (sum_list cs) / 100\<bar> \<le> 1 / 250"
proof -
  have len: "(of_nat (length xs) :: rat) \<le> 1000"
    using assms(4) by (metis of_nat_le_iff of_nat_numeral)
  then have "of_nat (length xs) * (1 / 500000 + 1 / 500000) \<le> (1 / 250 :: rat)" by simp
  moreover have "\<bar>js_sum xs - of_int (0 + sum_list cs) / 100\<bar>
      \<le> 0 + of_nat (length xs) * (1 / 500000 + 1 / 500000)"
    unfolding js_sum_def using assms len by (intro js_sum_err_aux) auto
  ultimately show ?thesis by simp
qed

end
