(* ===== verification/VoucherSchema.thy ===== *)
theory VoucherSchema
  imports VoucherTypes Money "HOL-Library.Char_ord" "HOL-Library.List_Lexorder"
begin

text \<open>
  The request to issue a voucher and its validation, \<open>issueVoucherSchema\<close> of
  \<open>packages/shared/src/index.ts\<close>. The records are the inferred types; a validation is
  the list of issues that Zod collects, with their paths, in its order: the constraints of
  the fields first, then the five refinements of \<open>superRefine\<close>. Zod itself is not
  modelled: a value of the record type has already the shape of the schema (numbers where
  numbers are expected, integers where \<open>int()\<close> is asked, one of the listed literals),
  and defaults are filled in.
\<close>

subsection \<open>The data of a voucher\<close>

datatype TaxTreatment = TAXED | EXEMPT | UNTAXED

record item =
  item_description :: string
  quantity :: number
  unitPrice :: number
  ivaRate :: number
  taxTreatment :: TaxTreatment

record tribute =
  tribute_id :: int
  tribute_description :: string
  taxableBase :: number
  tribute_rate :: number

record associatedVoucher =
  assoc_type :: int
  assoc_salesPoint :: int
  assoc_number :: int
  assoc_cuit :: "string option"
  assoc_date :: "string option"

record servicePeriod =
  period_from :: string
  period_to :: string

record recipient =
  docType :: int
  docNumber :: string
  legalName :: "string option"
  ivaConditionId :: "int option"

datatype VoucherConcept = PRODUCTS | SERVICES | PRODUCTS_AND_SERVICES

fun conceptId :: "VoucherConcept \<Rightarrow> int" where
  "conceptId PRODUCTS = 1"
| "conceptId SERVICES = 2"
| "conceptId PRODUCTS_AND_SERVICES = 3"

record issueVoucher =
  issuerId :: string
  salesPoint :: int
  voucherType :: int
  concept :: VoucherConcept
  recipient_of :: recipient
  items :: "item list"
  currency :: string
  exchangeRate :: number
  associatedVouchers :: "associatedVoucher list option"
  service_period :: "servicePeriod option"
  paymentDueDate :: "string option"
  transmissionType :: "TransmissionTypeName option"
  tributes :: "tribute list option"

definition LOCAL_CURRENCY :: string where
  "LOCAL_CURRENCY = ''PES''"

definition LOCAL_EXCHANGE_RATE :: number where
  "LOCAL_EXCHANGE_RATE = 1"

definition requiresServicePeriod :: "VoucherConcept \<Rightarrow> bool" where
  "requiresServicePeriod c = (c \<in> set [SERVICES, PRODUCTS_AND_SERVICES])"

subsection \<open>Regular expressions of the fields\<close>

definition is_digit :: "char \<Rightarrow> bool" where
  "is_digit c = (c \<in> set ''0123456789'')"

definition isDigits :: "nat \<Rightarrow> string \<Rightarrow> bool" where
  "isDigits n s = (length s = n \<and> list_all is_digit s)"

definition isIsoDate :: "string \<Rightarrow> bool" where
  "isIsoDate s = (length s = 10 \<and> isDigits 4 (take 4 s) \<and> s ! 4 = CHR ''-'' \<and>
     isDigits 2 (take 2 (drop 5 s)) \<and> s ! 7 = CHR ''-'' \<and> isDigits 2 (drop 8 s))"

subsection \<open>Issues\<close>

datatype issue_code =
    TooSmall
  | InvalidString
  | UnsupportedIvaRate
  | RateOnUntaxedItem
  | AssociatedVoucherRequired
  | RecipientCuitRequired string
  | RecipientConditionNotAllowed string string
  | ServicePeriodNotAllowed
  | ServicePeriodRequired
  | ServicePeriodInverted
  | CreditInvoiceDueDateRequired
  | ServiceDueDateRequired
  | DueDateNotAllowed
  | TransmissionTypeNotAllowed

datatype path_elem = Field string | Index nat

type_synonym issue = "path_elem list \<times> issue_code"

definition issueWhen :: "bool \<Rightarrow> path_elem list \<Rightarrow> issue_code \<Rightarrow> issue list" where
  "issueWhen b path code = (if b then [(path, code)] else [])"

lemma issueWhen_Nil [simp]: "issueWhen b p c = [] \<longleftrightarrow> \<not> b"
  by (simp add: issueWhen_def)

lemma set_issueWhen [simp]: "set (issueWhen b p c) = (if b then {(p, c)} else {})"
  by (simp add: issueWhen_def)

subsection \<open>Constraints of the fields\<close>

definition itemIssues :: "path_elem list \<Rightarrow> item \<Rightarrow> issue list" where
  "itemIssues path item =
     issueWhen (item_description item = '''') (path @ [Field ''description'']) TooSmall @
     issueWhen (\<not> 0 < quantity item) (path @ [Field ''quantity'']) TooSmall @
     issueWhen (\<not> 0 \<le> unitPrice item) (path @ [Field ''unitPrice'']) TooSmall @
     issueWhen (ivaRate item \<notin> set ivaRates) (path @ [Field ''ivaRate'']) UnsupportedIvaRate @
     issueWhen (taxTreatment item \<noteq> TAXED \<and> ivaRate item \<noteq> 0)
       (path @ [Field ''ivaRate'']) RateOnUntaxedItem"

definition tributeIssues :: "path_elem list \<Rightarrow> tribute \<Rightarrow> issue list" where
  "tributeIssues path t =
     issueWhen (\<not> 0 < tribute_id t) (path @ [Field ''id'']) TooSmall @
     issueWhen (tribute_description t = '''') (path @ [Field ''description'']) TooSmall @
     issueWhen (\<not> 0 \<le> taxableBase t) (path @ [Field ''taxableBase'']) TooSmall @
     issueWhen (\<not> 0 \<le> tribute_rate t) (path @ [Field ''rate'']) TooSmall"

definition optionalIssue :: "('a \<Rightarrow> bool) \<Rightarrow> 'a option \<Rightarrow> path_elem list \<Rightarrow> issue list" where
  "optionalIssue ok v path =
     (case v of None \<Rightarrow> [] | Some x \<Rightarrow> issueWhen (\<not> ok x) path InvalidString)"

definition associatedVoucherIssues :: "path_elem list \<Rightarrow> associatedVoucher \<Rightarrow> issue list" where
  "associatedVoucherIssues path a =
     issueWhen (\<not> 0 < assoc_type a) (path @ [Field ''type'']) TooSmall @
     issueWhen (\<not> 0 < assoc_salesPoint a) (path @ [Field ''salesPoint'']) TooSmall @
     issueWhen (\<not> 0 < assoc_number a) (path @ [Field ''number'']) TooSmall @
     optionalIssue (isDigits 11) (assoc_cuit a) (path @ [Field ''cuit'']) @
     optionalIssue (isDigits 8) (assoc_date a) (path @ [Field ''date''])"

definition indexedIssues :: "(path_elem list \<Rightarrow> 'a \<Rightarrow> issue list) \<Rightarrow> string \<Rightarrow> 'a list \<Rightarrow> issue list" where
  "indexedIssues f name xs =
     concat (map (\<lambda>(i, x). f [Field name, Index i] x) (enumerate 0 xs))"

definition servicePeriodIssues :: "servicePeriod option \<Rightarrow> issue list" where
  "servicePeriodIssues p =
     (case p of None \<Rightarrow> []
      | Some sp \<Rightarrow>
          issueWhen (\<not> isIsoDate (period_from sp)) [Field ''servicePeriod'', Field ''from''] InvalidString @
          issueWhen (\<not> isIsoDate (period_to sp)) [Field ''servicePeriod'', Field ''to''] InvalidString)"

definition issueVoucherObjectIssues :: "issueVoucher \<Rightarrow> issue list" where
  "issueVoucherObjectIssues d =
     issueWhen (issuerId d = '''') [Field ''issuerId''] TooSmall @
     issueWhen (\<not> 0 < salesPoint d) [Field ''salesPoint''] TooSmall @
     issueWhen (\<not> 0 < voucherType d) [Field ''voucherType''] TooSmall @
     issueWhen (docNumber (recipient_of d) = '''') [Field ''recipient'', Field ''docNumber''] TooSmall @
     issueWhen (items d = []) [Field ''items''] TooSmall @
     indexedIssues itemIssues ''items'' (items d) @
     issueWhen (\<not> 0 < exchangeRate d) [Field ''exchangeRate''] TooSmall @
     indexedIssues associatedVoucherIssues ''associatedVouchers'' (orElse (associatedVouchers d) []) @
     servicePeriodIssues (service_period d) @
     optionalIssue isIsoDate (paymentDueDate d) [Field ''paymentDueDate''] @
     indexedIssues tributeIssues ''tributes'' (orElse (tributes d) [])"

subsection \<open>The five refinements\<close>

definition hasAssociatedVouchers :: "issueVoucher \<Rightarrow> bool" where
  "hasAssociatedVouchers d =
     (case associatedVouchers d of None \<Rightarrow> False | Some vs \<Rightarrow> 0 < length vs)"

definition validateAssociatedVouchers :: "issueVoucher \<Rightarrow> issue list" where
  "validateAssociatedVouchers d =
     issueWhen (isCreditDebitNote (voucherType d) \<and> \<not> hasAssociatedVouchers d)
       [Field ''associatedVouchers''] AssociatedVoucherRequired"

definition validateRecipient :: "issueVoucher \<Rightarrow> issue list" where
  "validateRecipient d =
     (let condition = orElse (ivaConditionId (recipient_of d))
                             (defaultRecipientIvaCondition (voucherType d)) in
      issueWhen (requiresRecipientCuit (voucherType d) \<and> docType (recipient_of d) \<noteq> CUIT)
        [Field ''recipient'', Field ''docType'']
        (RecipientCuitRequired (orElse (voucherTypeName (voucherType d)) ''El comprobante'')) @
      issueWhen (\<not> isRecipientIvaConditionAllowed (voucherType d) condition)
        [Field ''recipient'', Field ''ivaConditionId'']
        (RecipientConditionNotAllowed
           (orElse (recipientIvaConditionName condition) ''undefined'')
           (orElse (voucherTypeName (voucherType d)) ''este comprobante'')))"

definition validateServicePeriod :: "issueVoucher \<Rightarrow> issue list" where
  "validateServicePeriod d =
     (if \<not> requiresServicePeriod (concept d) then
        issueWhen (service_period d \<noteq> None) [Field ''servicePeriod''] ServicePeriodNotAllowed
      else
        (case service_period d of
           None \<Rightarrow> [([Field ''servicePeriod''], ServicePeriodRequired)]
         | Some p \<Rightarrow>
             issueWhen (period_from p > period_to p)
               [Field ''servicePeriod'', Field ''to''] ServicePeriodInverted))"

definition missingPaymentDueDateMessage :: "int \<Rightarrow> issue_code" where
  "missingPaymentDueDateMessage vt =
     (if isCreditInvoice vt then CreditInvoiceDueDateRequired else ServiceDueDateRequired)"

definition validatePaymentDueDate :: "issueVoucher \<Rightarrow> issue list" where
  "validatePaymentDueDate d =
     (let needsPaymentDueDate = requiresServicePeriod (concept d) \<or> isCreditInvoice (voucherType d);
          hasPaymentDueDate = hasText (paymentDueDate d) in
      issueWhen (needsPaymentDueDate \<and> \<not> hasPaymentDueDate)
        [Field ''paymentDueDate''] (missingPaymentDueDateMessage (voucherType d)) @
      issueWhen (\<not> needsPaymentDueDate \<and> hasPaymentDueDate) [Field ''paymentDueDate''] DueDateNotAllowed)"

definition validateTransmissionType :: "issueVoucher \<Rightarrow> issue list" where
  "validateTransmissionType d =
     issueWhen (transmissionType d \<noteq> None \<and> \<not> isCreditInvoice (voucherType d))
       [Field ''transmissionType''] TransmissionTypeNotAllowed"

definition issueVoucherIssues :: "issueVoucher \<Rightarrow> issue list" where
  "issueVoucherIssues d =
     issueVoucherObjectIssues d @ validateAssociatedVouchers d @ validateRecipient d @
     validateServicePeriod d @ validatePaymentDueDate d @ validateTransmissionType d"

definition validVoucher :: "issueVoucher \<Rightarrow> bool" where
  "validVoucher d = (issueVoucherIssues d = [])"

text \<open>\<open>issueVoucherSchema.parse\<close>: the value, or a \<open>ZodError\<close>.\<close>

definition parseIssueVoucher :: "issueVoucher \<Rightarrow> issue list + issueVoucher" where
  "parseIssueVoucher d = (if validVoucher d then Inr d else Inl (issueVoucherIssues d))"

subsection \<open>What a valid voucher satisfies\<close>

lemma indexedIssues_Nil:
  "indexedIssues f name xs = [] \<longleftrightarrow> (\<forall>i < length xs. f [Field name, Index i] (xs ! i) = [])"
  by (auto simp: indexedIssues_def all_set_conv_all_nth nth_enumerate_eq)

lemma item_valid:
  "itemIssues p it = [] \<longleftrightarrow> item_description it \<noteq> '''' \<and> 0 < quantity it \<and> 0 \<le> unitPrice it \<and>
     ivaRate it \<in> set ivaRates \<and> (taxTreatment it = TAXED \<or> ivaRate it = 0)"
  by (auto simp: itemIssues_def)

lemma valid_items:
  assumes "validVoucher d"
  shows "items d \<noteq> []" and "it \<in> set (items d) \<Longrightarrow> itemIssues p it = []"
  using assms
  by (auto simp: validVoucher_def issueVoucherIssues_def issueVoucherObjectIssues_def
      indexedIssues_Nil in_set_conv_nth item_valid)

lemma valid_refinements:
  assumes "validVoucher d"
  shows "validateAssociatedVouchers d = []" "validateRecipient d = []" "validateServicePeriod d = []"
    "validatePaymentDueDate d = []" "validateTransmissionType d = []"
  using assms by (simp_all add: validVoucher_def issueVoucherIssues_def)

lemma default_condition_allowed:
  "isRecipientIvaConditionAllowed vt (defaultRecipientIvaCondition vt)"
  by (auto simp: allowed_condition_letter defaultRecipientIvaCondition_def discriminatesIva_def
      ivaDiscriminatingLetters_def knownConditions_def)

end
