(* ===== verification/IvaCalculator.thy ===== *)
theory IvaCalculator
  imports VoucherSchema
begin

text \<open>
  The fiscal arithmetic of \<open>services/api/src/arca/wsfe/iva-calculator.ts\<close>: from the
  items and tributes of a voucher to the amounts declared to ARCA. Prices carry the IVA, so
  each group of items of one rate is split into its taxable base and its tax. The
  \<open>Map\<close> of gross amounts by rate is an association list in insertion order.
\<close>

record ArcaIvaRate =
  rate_id :: int
  rate_taxableBase :: number
  rate_amount :: number

record ArcaTribute =
  at_id :: int
  at_description :: string
  at_taxableBase :: number
  at_rate :: number
  at_amount :: number

record VoucherAmounts =
  netAmount :: number
  ivaAmount :: number
  exemptAmount :: number
  untaxedAmount :: number
  tributeAmount :: number
  totalAmount :: number
  rates :: "ArcaIvaRate list"
  amount_tributes :: "ArcaTribute list"

definition round2 :: "number \<Rightarrow> number" where
  "round2 count = js_div (of_int (math_round (js_mul (js_add count epsilon) 100))) 100"

definition grossOf :: "item \<Rightarrow> number" where
  "grossOf item = js_mul (quantity item) (unitPrice item)"

definition sumGross :: "item list \<Rightarrow> number" where
  "sumGross its = foldl (\<lambda>acc item. js_add acc (grossOf item)) 0 its"

definition sumBy :: "item list \<Rightarrow> TaxTreatment \<Rightarrow> number" where
  "sumBy its treatment = round2 (sumGross (filter (\<lambda>item. taxTreatment item = treatment) its))"

definition tributeEntry :: "tribute \<Rightarrow> ArcaTribute" where
  "tributeEntry t =
     \<lparr>at_id = tribute_id t, at_description = tribute_description t,
      at_taxableBase = round2 (taxableBase t), at_rate = tribute_rate t,
      at_amount = round2 (js_div (js_mul (taxableBase t) (tribute_rate t)) 100)\<rparr>"

definition calculateTributes :: "tribute list \<Rightarrow> ArcaTribute list \<times> number" where
  "calculateTributes ts =
     (let entries = map tributeEntry ts;
          total = round2 (foldl (\<lambda>acc entry. js_add acc (at_amount entry)) 0 entries)
      in (entries, total))"

text \<open>\<open>grossByRate.set(rate, (grossByRate.get(rate) ?? 0) + gross)\<close>.\<close>

fun addToRate :: "number \<Rightarrow> number \<Rightarrow> (number \<times> number) list \<Rightarrow> (number \<times> number) list" where
  "addToRate r g [] = [(r, js_add 0 g)]"
| "addToRate r g ((r', g') # m) =
     (if r' = r then (r', js_add g' g) # m else (r', g') # addToRate r g m)"

definition grossByRate :: "item list \<Rightarrow> (number \<times> number) list" where
  "grossByRate its =
     foldl (\<lambda>m item. if taxTreatment item \<noteq> TAXED then m
                      else addToRate (ivaRate item) (grossOf item) m) [] its"

type_synonym rate_split = "ArcaIvaRate list \<times> number \<times> number"

definition unmappedRateMessage :: string where
  "unmappedRateMessage = ''Al'' @ [CHR 0xED] @ ''cuota de IVA no mapeada a Id de ARCA: ''"

definition splitOne :: "number \<times> number \<Rightarrow> rate_split \<Rightarrow> app_error + rate_split" where
  "splitOne entry acc =
     (let (rate, rawGross) = entry; (rs, net, iva) = acc;
          gross = round2 rawGross;
          base = round2 (js_div gross (js_add 1 (js_div rate 100)));
          amount = round2 (js_sub gross base);
          net' = round2 (js_add net base);
          iva' = round2 (js_add iva amount)
      in (case ivaRateAfipId rate of
            None \<Rightarrow> Inl (OtherError unmappedRateMessage)
          | Some i \<Rightarrow>
              Inr (rs @ [\<lparr>rate_id = i, rate_taxableBase = base, rate_amount = amount\<rparr>], net', iva')))"

fun splitRates :: "(number \<times> number) list \<Rightarrow> rate_split \<Rightarrow> app_error + rate_split" where
  "splitRates [] acc = Inr acc"
| "splitRates (e # es) acc = (case splitOne e acc of Inl err \<Rightarrow> Inl err | Inr acc' \<Rightarrow> splitRates es acc')"

definition splitTaxedGrossByRate :: "item list \<Rightarrow> app_error + rate_split" where
  "splitTaxedGrossByRate its = splitRates (grossByRate its) ([], 0, 0)"

definition containedIvaAmount :: "item list \<Rightarrow> app_error + number" where
  "containedIvaAmount its =
     (case splitTaxedGrossByRate its of Inl e \<Rightarrow> Inl e | Inr (_, _, iva) \<Rightarrow> Inr iva)"

definition calculateAmounts :: "int \<Rightarrow> item list \<Rightarrow> tribute list \<Rightarrow> app_error + VoucherAmounts" where
  "calculateAmounts vt its ts =
     (let (entries, tributeTotal) = calculateTributes ts;
          itemsTotal = round2 (sumGross its);
          total = round2 (js_add itemsTotal tributeTotal) in
      if \<not> reportsIvaToArca vt then
        Inr \<lparr>netAmount = itemsTotal, ivaAmount = 0, exemptAmount = 0, untaxedAmount = 0,
             tributeAmount = tributeTotal, totalAmount = total, rates = [], amount_tributes = entries\<rparr>
      else
        (let exempt = sumBy its EXEMPT; untaxed = sumBy its UNTAXED in
         case splitTaxedGrossByRate its of
           Inl e \<Rightarrow> Inl e
         | Inr (rs, net, iva) \<Rightarrow>
             Inr \<lparr>netAmount = net, ivaAmount = iva, exemptAmount = exempt, untaxedAmount = untaxed,
                  tributeAmount = tributeTotal, totalAmount = total, rates = rs, amount_tributes = entries\<rparr>))"

subsection \<open>The rounding of the calculator\<close>

lemma round2_is_roundToCents: "round2 = roundToCents"
  by (rule ext) (simp add: round2_def roundToCents_def)

interpretation calc: cent_rounder round2
  unfolding round2_is_roundToCents by (rule shared_money.cent_rounder_axioms)

subsection \<open>The groups of the map\<close>

lemma sumGross_js_sum: "sumGross its = js_sum (map grossOf its)"
proof -
  have "foldl (\<lambda>acc item. js_add acc (grossOf item)) a its = foldl js_add a (map grossOf its)" for a
    by (induction its arbitrary: a) simp_all
  then show ?thesis by (simp add: sumGross_def js_sum_def)
qed

definition taxedAt :: "number \<Rightarrow> item \<Rightarrow> bool" where
  "taxedAt r = (\<lambda>item. taxTreatment item = TAXED \<and> ivaRate item = r)"

lemma js_sum_snoc: "js_sum (xs @ [x]) = js_add (js_sum xs) x"
  by (simp add: js_sum_def)

lemma addToRate_keys: "set (map fst (addToRate r g m)) = insert r (set (map fst m))"
  by (induction r g m rule: addToRate.induct) auto

lemma addToRate_distinct: "distinct (map fst m) \<Longrightarrow> distinct (map fst (addToRate r g m))"
  by (induction r g m rule: addToRate.induct) (auto simp: addToRate_keys [simplified])

lemma addToRate_get:
  "map_of (addToRate r g m) r' =
     (if r' = r then Some (js_add (orElse (map_of m r) 0) g) else map_of m r')"
  by (induction r g m rule: addToRate.induct) auto

lemma grossByRate_snoc:
  "grossByRate (its @ [it]) =
     (if taxTreatment it \<noteq> TAXED then grossByRate its
      else addToRate (ivaRate it) (grossOf it) (grossByRate its))"
  by (simp add: grossByRate_def)

lemma grossByRate_distinct: "distinct (map fst (grossByRate its))"
  by (induction its rule: rev_induct)
     (auto simp: grossByRate_snoc addToRate_distinct, simp add: grossByRate_def)

lemma grossByRate_get:
  "map_of (grossByRate its) r =
     (if \<exists>it \<in> set its. taxedAt r it then Some (js_sum (map grossOf (filter (taxedAt r) its))) else None)"
proof (induction its rule: rev_induct)
  case Nil
  show ?case by (simp add: grossByRate_def)
next
  case (snoc it its)
  have none: "js_sum (map grossOf (filter (taxedAt r) its)) = 0" if "\<not> (\<exists>it \<in> set its. taxedAt r it)"
  proof -
    have "filter (taxedAt r) its = []" using that by (simp add: filter_empty_conv)
    then show ?thesis by (simp add: js_sum_def)
  qed
  show ?case
    using snoc none by (auto simp: grossByRate_snoc addToRate_get taxedAt_def js_sum_snoc)
qed

lemma grossByRate_entry:
  assumes "(r, g) \<in> set (grossByRate its)"
  shows "g = js_sum (map grossOf (filter (taxedAt r) its))" "\<exists>it \<in> set its. taxedAt r it"
  using map_of_is_SomeI [OF grossByRate_distinct assms] by (simp_all add: grossByRate_get split: if_splits)

lemma grossByRate_keys:
  "set (map fst (grossByRate its)) = ivaRate ` {it \<in> set its. taxTreatment it = TAXED}"
proof -
  have "r \<in> set (map fst (grossByRate its)) \<longleftrightarrow> (\<exists>it \<in> set its. taxedAt r it)" for r
    by (metis grossByRate_get map_of_eq_None_iff option.distinct(1) list.set_map)
  then show ?thesis by (simp add: set_eq_iff image_iff taxedAt_def) blast
qed

subsection \<open>Splitting a group\<close>

lemma splitRates_total:
  assumes "\<And>e. e \<in> set es \<Longrightarrow> fst e \<in> set ivaRates"
  shows "\<exists>acc'. splitRates es acc = Inr acc'"
  using assms
proof (induction es arbitrary: acc)
  case (Cons e es)
  obtain r g where e: "e = (r, g)" by (cases e)
  obtain rs n v where acc: "acc = (rs, n, v)" by (cases acc)
  have "\<exists>a. splitOne e acc = Inr a"
    using Cons.prems [of e] ivaRateAfipId_Some [of r]
    by (auto simp: splitOne_def e acc Let_def)
  then obtain a where a: "splitOne e acc = Inr a" ..
  have "\<exists>acc'. splitRates es a = Inr acc'" using Cons by simp
  then show ?case by (simp add: a)
qed auto

text \<open>
  The split of one group in cents: base and tax add up to the gross of the group, whatever
  the base was rounded to.
\<close>

definition rate_ok :: "number \<Rightarrow> bool" where
  "rate_ok r = (0 \<le> r \<and> r \<le> 100)"

lemma ivaRates_ok: "r \<in> set ivaRates \<Longrightarrow> rate_ok r"
  by (auto simp: ivaRates_def rate_ok_def)

lemma divisor_err:
  assumes "rate_ok r"
  shows "\<bar>js_add 1 (js_div r 100) - (1 + r / 100)\<bar> \<le> 4 / 9007199254740992"
proof -
  have r: "0 \<le> r" "r \<le> 100" using assms by (simp_all add: rate_ok_def)
  have "\<bar>r / 100\<bar> \<le> 1" using r by simp
  from fl_err [OF this] have q: "\<bar>js_div r 100 - r / 100\<bar> \<le> 1 / 9007199254740992"
    by (simp add: js_div_def)
  have "\<bar>1 + js_div r 100\<bar> \<le> 3" using q r by linarith
  from fl_err [OF this] q show ?thesis unfolding js_add_def by linarith
qed

lemma quotient_err:
  fixes c d D :: rat
  assumes "\<bar>d - D\<bar> \<le> 4 / 9007199254740992" "1 \<le> D" "0 \<le> c" "c \<le> 5497558139"
  shows "\<bar>c / d - c / D\<bar> \<le> 1 / 400000" "0 \<le> c / d" "c / d \<le> 5497558140"
proof -
  have d: "99 / 100 \<le> d" using assms(1,2) by linarith
  have "c / d - c / D = c * (D - d) / (d * D)" using d assms(2) by (simp add: field_simps)
  then have "\<bar>c / d - c / D\<bar> = c * \<bar>D - d\<bar> / (d * D)"
    using d assms(2,3) by (simp add: abs_mult)
  also have "\<dots> \<le> (5497558139 * (4 / 9007199254740992)) / (99 / 100)"
  proof (intro frac_le mult_mono)
    show "99 / 100 \<le> d * D" using d assms(2) mult_mono [of "99 / 100" d 1 D] by simp
    show "\<bar>D - d\<bar> \<le> 4 / 9007199254740992" using assms(1) by linarith
  qed (use assms in simp_all)
  finally show e: "\<bar>c / d - c / D\<bar> \<le> 1 / 400000" by simp
  show "0 \<le> c / d" using d assms(3) by simp
  have "c / D \<le> c" using assms(2,3) mult_left_mono [of 1 D c] by (simp add: divide_le_eq)
  then show "c / d \<le> 5497558140" using e assms(4) by linarith
qed

lemma cents_err_small:
  assumes "0 \<le> n" "n \<le> 549755813888"
  shows "\<bar>cents n - of_int n / 100\<bar> \<le> 1 / 1000000" "0 \<le> cents n"
proof -
  have "of_int n \<le> (of_int 549755813888 :: rat)" "0 \<le> (of_int n :: rat)"
    using assms by (simp_all only: of_int_le_iff of_int_0_le_iff)
  then have "\<bar>of_int n / 100 :: rat\<bar> \<le> 5497558139" by simp
  from fl_err [OF this] show "\<bar>cents n - of_int n / 100\<bar> \<le> 1 / 1000000" by (simp add: cents_def)
  show "0 \<le> cents n" using assms by (simp add: cents_def fl_nonneg)
qed

text \<open>The taxable base of a group, to within a cent of the exact quotient.\<close>

definition exactBase :: "int \<Rightarrow> number \<Rightarrow> rat" where
  "exactBase g r = of_int g / 100 / (1 + r / 100)"

lemma base_err:
  assumes r: "rate_ok r" and g: "0 \<le> g" "g \<le> 549755813888"
  shows "\<bar>js_div (cents g) (js_add 1 (js_div r 100)) - exactBase g r\<bar> \<le> 1 / 100000"
proof -
  define D where "D = 1 + r / 100"
  define d where "d = js_add 1 (js_div r 100)"
  have D: "1 \<le> D" "D \<le> 2" using r by (simp_all add: D_def rate_ok_def)
  have dD: "\<bar>d - D\<bar> \<le> 4 / 9007199254740992" using divisor_err [OF r] by (simp add: d_def D_def)
  note c = cents_err_small [OF g]
  have "of_int g \<le> (of_int 549755813888 :: rat)" using g by (simp only: of_int_le_iff)
  then have c': "cents g \<le> 5497558139" using c by linarith
  note q = quotient_err [OF dD D(1) c(2) c']
  have "\<bar>cents g / d\<bar> \<le> 5497558140" using q by linarith
  from fl_err [OF this] have f: "\<bar>js_div (cents g) d - cents g / d\<bar> \<le> 1 / 1000000"
    by (simp add: js_div_def)
  have "\<bar>cents g / D - of_int g / 100 / D\<bar> = \<bar>cents g - of_int g / 100\<bar> / D"
    using D by (simp add: diff_divide_distrib [symmetric] abs_divide del: divide_divide_eq_left)
  also have "\<dots> \<le> 1 / 1000000" using c(1) D by (simp add: divide_le_eq)
  finally have "\<bar>cents g / D - exactBase g r\<bar> \<le> 1 / 1000000" by (simp add: exactBase_def D_def)
  with f q(1) show ?thesis unfolding d_def by linarith
qed

lemma base_cents:
  assumes r: "rate_ok r" and g: "0 \<le> g" "g \<le> 549755813888"
  shows "\<exists>b. round2 (js_div (cents g) (js_add 1 (js_div r 100))) = cents b \<and> 0 \<le> b \<and> b \<le> g \<and>
           \<bar>of_int b / 100 - exactBase g r\<bar> \<le> 51 / 10000"
proof -
  let ?q = "js_div (cents g) (js_add 1 (js_div r 100))"
  note e = base_err [OF r g]
  have gr: "of_int g \<le> (of_int 549755813888 :: rat)" "0 \<le> (of_int g :: rat)"
    using g by (simp_all only: of_int_le_iff of_int_0_le_iff)
  have D: "1 \<le> 1 + r / 100" using r by (simp add: rate_ok_def)
  have "of_int g / 100 * 1 \<le> of_int g / 100 * (1 + r / 100)"
    using D gr(2) by (intro mult_left_mono) simp_all
  moreover have "0 < 1 + r / 100" using D by linarith
  ultimately have x: "exactBase g r \<le> of_int g / 100"
    unfolding exactBase_def by (simp only: pos_divide_le_eq mult_1_right)
  have x0: "0 \<le> exactBase g r" using gr(2) D by (simp add: exactBase_def)
  have "\<bar>?q\<bar> \<le> 68719476736" using e x x0 gr by linarith
  from calc.round_nearest [OF this] obtain b where b: "round2 ?q = cents b" "cents_range b"
    "\<bar>?q - of_int b / 100\<bar> \<le> 101 / 20000" by blast
  have near: "\<bar>of_int b / 100 - exactBase g r\<bar> \<le> 51 / 10000" using b(3) e by linarith
  have "(- 1 :: rat) < of_int b" "(of_int b :: rat) < of_int g + 1" using near x x0 by linarith+
  then have "of_int (- 1) < (of_int b :: rat)" "(of_int b :: rat) < of_int (g + 1)" by simp_all
  then have "0 \<le> b" "b \<le> g" by (simp_all only: of_int_less_iff)
  then show ?thesis using b(1) near by blast
qed

subsection \<open>The split in cents\<close>

text \<open>
  \<open>split_cents es gs bs rs\<close>: the entries \<open>es\<close> of the map were rounded to
  \<open>gs\<close> cents and split into bases \<open>bs\<close>, giving the declared rates \<open>rs\<close>.
\<close>

fun split_cents ::
  "(number \<times> number) list \<Rightarrow> int list \<Rightarrow> int list \<Rightarrow> ArcaIvaRate list \<Rightarrow> bool" where
  "split_cents [] [] [] [] = True"
| "split_cents ((r, raw) # es) (g # gs) (b # bs) (x # rs) =
     (round2 raw = cents g \<and> 0 \<le> b \<and> b \<le> g \<and> \<bar>of_int b / 100 - exactBase g r\<bar> \<le> 51 / 10000 \<and>
      ivaRateAfipId r = Some (rate_id x) \<and> rate_taxableBase x = cents b \<and>
      rate_amount x = cents (g - b) \<and> split_cents es gs bs rs)"
| "split_cents _ _ _ _ = False"

lemma cents_range_small: "0 \<le> n \<Longrightarrow> n \<le> 1099511627776 \<Longrightarrow> cents_range n"
  by (simp add: cents_range_def)

lemma splitOne_cents:
  assumes r: "r \<in> set ivaRates" and g: "0 \<le> g" "g \<le> 549755813888" "round2 raw = cents g"
    and n: "0 \<le> n" "n \<le> 549755813888" and v: "0 \<le> v" "v \<le> 549755813888"
  shows "\<exists>b x. splitOne (r, raw) (rs, cents n, cents v) = Inr (rs @ [x], cents (n + b), cents (v + (g - b))) \<and>
           split_cents [(r, raw)] [g] [b] [x] \<and> 0 \<le> b \<and> b \<le> g"
proof -
  obtain b where b: "round2 (js_div (cents g) (js_add 1 (js_div r 100))) = cents b" "0 \<le> b" "b \<le> g"
    "\<bar>of_int b / 100 - exactBase g r\<bar> \<le> 51 / 10000"
    using base_cents [OF ivaRates_ok [OF r] g(1,2)] by blast
  obtain i where i: "ivaRateAfipId r = Some i" using r ivaRateAfipId_Some [of r] by auto
  have "round2 (js_sub (cents g) (cents b)) = cents (g - b)"
    using g b by (intro calc.round_sub) (auto intro!: cents_range_small)
  moreover have "round2 (js_add (cents n) (cents b)) = cents (n + b)"
    using g b n by (intro calc.round_add) (auto intro!: cents_range_small)
  moreover have "round2 (js_add (cents v) (cents (g - b))) = cents (v + (g - b))"
    using g b v by (intro calc.round_add) (auto intro!: cents_range_small)
  ultimately show ?thesis using b g i
    by (intro exI [of _ b] exI [of _ "\<lparr>rate_id = i, rate_taxableBase = cents b, rate_amount = cents (g - b)\<rparr>"])
       (simp add: splitOne_def Let_def)
qed

lemma splitRates_cents:
  assumes "list_all2 (\<lambda>e g. round2 (snd e) = cents g) es gs"
    and "\<And>e. e \<in> set es \<Longrightarrow> fst e \<in> set ivaRates" and "\<And>g. g \<in> set gs \<Longrightarrow> 0 \<le> g"
    and "0 \<le> n" "0 \<le> v" "n + v + sum_list gs \<le> 549755813888"
  shows "\<exists>bs rs'. splitRates es (rs, cents n, cents v) =
             Inr (rs @ rs', cents (n + sum_list bs), cents (v + (sum_list gs - sum_list bs))) \<and>
           split_cents es gs bs rs' \<and> 0 \<le> sum_list bs \<and> sum_list bs \<le> sum_list gs"
  using assms
proof (induction es gs arbitrary: n v rs rule: list_all2_induct)
  case (Cons e es g gs)
  obtain r raw where e: "e = (r, raw)" by (cases e)
  have pos: "0 \<le> g" "0 \<le> sum_list gs" using Cons.prems(2) by (auto intro: sum_list_nonneg)
  have r: "r \<in> set ivaRates" using Cons.prems(1) [of e] e by simp
  have "n \<le> 549755813888" "v \<le> 549755813888" "g \<le> 549755813888"
    using Cons.prems(3,4,5) pos by simp_all
  then obtain b x where one: "splitOne (r, raw) (rs, cents n, cents v) =
        Inr (rs @ [x], cents (n + b), cents (v + (g - b)))"
    and x: "split_cents [(r, raw)] [g] [b] [x]" and b: "0 \<le> b" "b \<le> g"
    using splitOne_cents [OF r pos(1) _ _ Cons.prems(3) _ Cons.prems(4)] Cons.hyps(1) e
    by (metis snd_conv)
  obtain bs rs' where
    "splitRates es (rs @ [x], cents (n + b), cents (v + (g - b))) =
       Inr ((rs @ [x]) @ rs', cents (n + b + sum_list bs), cents (v + (g - b) + (sum_list gs - sum_list bs)))"
    "split_cents es gs bs rs'" "0 \<le> sum_list bs" "sum_list bs \<le> sum_list gs"
    using Cons.IH [of "n + b" "v + (g - b)" "rs @ [x]"] Cons.prems b by auto
  then show ?case using one x b e
    by (intro exI [of _ "b # bs"] exI [of _ "x # rs'"]) (simp add: algebra_simps)
qed (auto intro!: exI [of _ "[]"])

end
