(* ===== verification/AmountsBalance.thy ===== *)
theory AmountsBalance
  imports IvaCalculator
begin

text \<open>
  What the amounts of \<open>iva-calculator.ts\<close> add up to. ARCA asks that
  \<open>ImpTotal = ImpTotConc + ImpNeto + ImpOpEx + ImpTrib + ImpIVA\<close> to the cent, and that
  the declared rates add up to \<open>ImpNeto\<close> and \<open>ImpIVA\<close>
  (\<open>docs/arca-integracion.md\<close>, section 2). The equation holds whenever each line of the
  voucher is a whole number of cents, and fails for lines with fractions of a cent in two
  groups, because the total rounds the sum where the parts round each group.
\<close>

subsection \<open>Lines that are a whole number of cents\<close>

definition lineCents :: "item \<Rightarrow> int" where
  "lineCents it = math_round (quantity it) * math_round (unitPrice it * 100)"

definition wholeCentLine :: "item \<Rightarrow> bool" where
  "wholeCentLine it =
     (quantity it = of_int (math_round (quantity it)) \<and>
      unitPrice it = cents (math_round (unitPrice it * 100)) \<and>
      0 < quantity it \<and> quantity it \<le> 1000000 \<and> 0 \<le> unitPrice it)"

definition wholeCentItems :: "item list \<Rightarrow> bool" where
  "wholeCentItems its =
     (length its \<le> 1000 \<and> list_all wholeCentLine its \<and>
      list_all (\<lambda>it. ivaRate it \<in> set ivaRates) its \<and>
      sum_list (map lineCents its) \<le> 549755813888)"

lemma wholeCentLine_nonneg:
  assumes "wholeCentLine it"
  shows "0 < math_round (quantity it)" "math_round (quantity it) \<le> 1000000"
    "0 \<le> math_round (unitPrice it * 100)" "0 \<le> lineCents it"
proof -
  let ?q = "math_round (quantity it)"
  have "(0 :: rat) < of_int ?q" "of_int ?q \<le> (1000000 :: rat)"
    using assms by (simp_all add: wholeCentLine_def)
  then show q: "0 < ?q" and "?q \<le> 1000000"
    by (simp_all only: of_int_0_less_iff of_int_le_numeral_iff)
  show p: "0 \<le> math_round (unitPrice it * 100)"
    using assms by (simp add: wholeCentLine_def math_round_def)
  show "0 \<le> lineCents it" using p q by (simp add: lineCents_def)
qed

lemma grossOf_err:
  assumes w: "wholeCentLine it" and c: "lineCents it \<le> 549755813888"
  shows "\<bar>grossOf it - of_int (lineCents it) / 100\<bar> \<le> 1 / 500000"
proof -
  define q where "q = math_round (quantity it)"
  define p where "p = math_round (unitPrice it * 100)"
  have eq: "quantity it = of_int q" "unitPrice it = cents p"
    using w by (simp_all add: wholeCentLine_def q_def p_def)
  have q: "1 \<le> (of_int q :: rat)" "of_int q \<le> (1000000 :: rat)" and p: "0 \<le> (of_int p :: rat)"
    using wholeCentLine_nonneg [OF w] by (simp_all add: q_def p_def)
  have qp: "of_int q * of_int p \<le> (549755813888 :: rat)"
  proof -
    have "of_int (q * p) \<le> (of_int 549755813888 :: rat)"
      using c by (simp only: of_int_le_iff lineCents_def q_def p_def)
    then show ?thesis by simp
  qed
  have "\<bar>of_int p / 100 :: rat\<bar> \<le> of_int p / 100 + 1" "1 \<le> (of_int p / 100 + 1 :: rat)"
    using p by simp_all
  from fl_err [OF this] have "\<bar>cents p - of_int p / 100\<bar> \<le> (of_int p / 100 + 1) / 9007199254740992"
    by (simp add: cents_def)
  then have "of_int q * \<bar>cents p - of_int p / 100\<bar>
      \<le> of_int q * ((of_int p / 100 + 1) / 9007199254740992)"
    using q by (intro mult_left_mono) simp_all
  also have "\<dots> = (of_int q * of_int p / 100 + of_int q) / 9007199254740992"
    by (simp add: field_simps)
  also have "\<dots> \<le> 5498558139 / 9007199254740992"
    by (rule divide_right_mono) (use qp q in linarith, simp)
  also have "\<dots> \<le> 1 / 1500000" by simp
  finally have a: "\<bar>of_int q * cents p - of_int q * of_int p / 100\<bar>
      \<le> 1 / 1500000"
    using q by (simp add: abs_mult [symmetric] algebra_simps abs_mult_pos')
  have "0 \<le> of_int q * (of_int p :: rat)" using p q by simp
  then have "\<bar>of_int q * cents p\<bar> \<le> 5497558140" using a qp by linarith
  from fl_err [OF this] have "\<bar>grossOf it - of_int q * cents p\<bar> \<le> 1 / 1500000"
    by (simp add: grossOf_def js_mul_def eq)
  with a have "\<bar>grossOf it - of_int q * of_int p / 100\<bar> \<le> 1 / 500000" by linarith
  then show ?thesis by (simp add: lineCents_def q_def p_def)
qed

lemma sum_lineCents_filter_le:
  "\<forall>it \<in> set its. wholeCentLine it \<Longrightarrow>
     0 \<le> sum_list (map lineCents (filter P its)) \<and>
     sum_list (map lineCents (filter P its)) \<le> sum_list (map lineCents its)"
proof (induction its)
  case (Cons it its)
  have "0 \<le> lineCents it" using Cons.prems wholeCentLine_nonneg(4) by simp
  with Cons show ?case by auto
qed simp

lemma lineCents_le_sum:
  assumes "\<And>it. it \<in> set its \<Longrightarrow> wholeCentLine it" "it \<in> set its"
  shows "lineCents it \<le> sum_list (map lineCents its)"
proof -
  have "0 \<le> n" if "n \<in> set (map lineCents its)" for n
    using that assms(1) wholeCentLine_nonneg(4) by auto
  then show ?thesis using assms(2) by (intro member_le_sum_list) auto
qed

text \<open>The sum that the code rounds is, rounded, the number of cents of the lines.\<close>

lemma round2_sum_filter:
  assumes "wholeCentItems its"
  shows "round2 (js_sum (map grossOf (filter P its))) = cents (sum_list (map lineCents (filter P its)))"
proof -
  have w: "wholeCentLine it" if "it \<in> set its" for it
    using assms that by (simp add: wholeCentItems_def list_all_iff)
  have tot: "sum_list (map lineCents its) \<le> 549755813888" and len: "length its \<le> 1000"
    using assms by (simp_all add: wholeCentItems_def)
  have err: "\<bar>grossOf it - of_int (lineCents it) / 100\<bar> \<le> 1 / 500000" if "it \<in> set its" for it
    using grossOf_err [OF w [OF that]] lineCents_le_sum [OF w that] tot by simp
  have le: "0 \<le> sum_list (map lineCents (filter P its))"
    "sum_list (map lineCents (filter P its)) \<le> sum_list (map lineCents its)"
    using sum_lineCents_filter_le [of its P] w by simp_all
  have "\<bar>js_sum (map grossOf (filter P its)) - of_int (sum_list (map lineCents (filter P its))) / 100\<bar>
      \<le> 1 / 250"
  proof (rule js_sum_err)
    show "list_all2 (\<lambda>x c. \<bar>x - of_int c / 100\<bar> \<le> 1 / 500000)
        (map grossOf (filter P its)) (map lineCents (filter P its))"
      using err by (auto simp: list_all2_conv_all_nth dest: nth_mem)
    show "length (map grossOf (filter P its)) \<le> 1000"
      using len by (metis length_filter_le length_map order_trans)
  qed (use w wholeCentLine_nonneg(4) le tot in auto)
  then show ?thesis using le tot
    by (intro calc.round_near cents_range_small) auto
qed

lemma round2_sumGross:
  "wholeCentItems its \<Longrightarrow> round2 (sumGross its) = cents (sum_list (map lineCents its))"
  using round2_sum_filter [of its "\<lambda>_. True"] by (simp add: sumGross_js_sum)

lemma sumBy_cents:
  "wholeCentItems its \<Longrightarrow>
     sumBy its t = cents (sum_list (map lineCents (filter (\<lambda>it. taxTreatment it = t) its)))"
  using round2_sum_filter [of its "\<lambda>it. taxTreatment it = t"] by (simp add: sumBy_def sumGross_js_sum)

subsection \<open>The groups partition the taxed lines\<close>

lemma sum_list_groups:
  fixes f :: "'a \<Rightarrow> int"
  assumes "distinct ks" "key ` {x \<in> set xs. P x} \<subseteq> set ks"
  shows "sum_list (map (\<lambda>k. sum_list (map f (filter (\<lambda>x. P x \<and> key x = k) xs))) ks)
           = sum_list (map f (filter P xs))"
  using assms(2)
proof (induction xs)
  case (Cons x xs)
  have "sum_list (map (\<lambda>k. sum_list (map f (filter (\<lambda>x. P x \<and> key x = k) (x # xs)))) ks)
      = (\<Sum>k \<in> set ks. (if P x \<and> k = key x then f x else 0) +
           sum_list (map f (filter (\<lambda>x. P x \<and> key x = k) xs)))"
    using assms(1) by (auto simp: sum_list_distinct_conv_sum_set intro!: sum.cong)
  also have "\<dots> = (if P x then f x else 0) +
      sum_list (map (\<lambda>k. sum_list (map f (filter (\<lambda>x. P x \<and> key x = k) xs))) ks)"
    using Cons.prems assms(1)
    by (auto simp: sum.distrib sum_list_distinct_conv_sum_set sum.delta)
  also have "\<dots> = sum_list (map f (filter P (x # xs)))" using Cons by auto
  finally show ?case .
qed simp

definition taxedCents :: "item list \<Rightarrow> int" where
  "taxedCents its = sum_list (map lineCents (filter (\<lambda>it. taxTreatment it = TAXED) its))"

definition groupCents :: "item list \<Rightarrow> number \<Rightarrow> int" where
  "groupCents its r = sum_list (map lineCents (filter (taxedAt r) its))"

lemma groupCents_sum:
  "sum_list (map (groupCents its) (map fst (grossByRate its))) = taxedCents its"
proof -
  have "ivaRate ` {it \<in> set its. taxTreatment it = TAXED} \<subseteq> set (map fst (grossByRate its))"
    by (simp only: grossByRate_keys order_refl)
  from sum_list_groups [OF grossByRate_distinct this, of lineCents] show ?thesis
    by (simp add: groupCents_def [abs_def] taxedCents_def taxedAt_def)
qed

lemma split_of_whole_cents:
  assumes "wholeCentItems its"
  shows "\<exists>bs rs. splitTaxedGrossByRate its =
             Inr (rs, cents (sum_list bs), cents (taxedCents its - sum_list bs)) \<and>
           split_cents (grossByRate its) (map (groupCents its) (map fst (grossByRate its))) bs rs \<and>
           0 \<le> sum_list bs \<and> sum_list bs \<le> taxedCents its"
proof -
  let ?es = "grossByRate its" and ?gs = "map (groupCents its) (map fst (grossByRate its))"
  have w: "\<forall>it \<in> set its. wholeCentLine it"
    using assms by (simp add: wholeCentItems_def list_all_iff)
  have "list_all2 (\<lambda>e g. round2 (snd e) = cents g) ?es ?gs"
    using round2_sum_filter [OF assms]
    by (auto simp: list_all2_map2 list_all2_same groupCents_def dest: grossByRate_entry(1))
  moreover have "fst e \<in> set ivaRates" if "e \<in> set ?es" for e
  proof -
    have "fst e \<in> ivaRate ` {it \<in> set its. taxTreatment it = TAXED}"
      unfolding grossByRate_keys [symmetric] using that by simp
    then show ?thesis using assms by (auto simp: wholeCentItems_def list_all_iff)
  qed
  moreover have "0 \<le> g" if "g \<in> set ?gs" for g
    using that sum_lineCents_filter_le [OF w] by (auto simp: groupCents_def)
  moreover have "taxedCents its \<le> 549755813888"
    using sum_lineCents_filter_le [OF w, of "\<lambda>it. taxTreatment it = TAXED"] assms
    by (simp add: taxedCents_def wholeCentItems_def)
  ultimately show ?thesis
    using splitRates_cents [of ?es ?gs 0 0 "[]"] unfolding splitTaxedGrossByRate_def groupCents_sum
    by auto
qed

subsection \<open>Tributes\<close>

definition tributesInRange :: "tribute list \<Rightarrow> bool" where
  "tributesInRange ts =
     (length ts \<le> 100 \<and>
      list_all (\<lambda>t. 0 \<le> taxableBase t \<and> 0 \<le> tribute_rate t \<and>
                    taxableBase t * tribute_rate t \<le> 5000000000) ts)"

lemma tribute_amount_cents:
  assumes "0 \<le> taxableBase t" "0 \<le> tribute_rate t" "taxableBase t * tribute_rate t \<le> 5000000000"
  shows "\<exists>n. at_amount (tributeEntry t) = cents n \<and> 0 \<le> n \<and> n \<le> 5000000001 \<and>
           \<bar>of_int n / 100 - taxableBase t * tribute_rate t / 100\<bar> \<le> 51 / 10000"
proof -
  define x where "x = taxableBase t * tribute_rate t"
  define y where "y = js_div (js_mul (taxableBase t) (tribute_rate t)) 100"
  have x: "0 \<le> x" "x \<le> 5000000000" using assms by (simp_all add: x_def)
  then have "\<bar>x\<bar> \<le> 5000000000" by simp
  from fl_err [OF this] have m: "\<bar>js_mul (taxableBase t) (tribute_rate t) - x\<bar> \<le> 1 / 1000000"
    by (simp add: js_mul_def x_def)
  then have "\<bar>js_mul (taxableBase t) (tribute_rate t) / 100\<bar> \<le> 50000001" using x by linarith
  from fl_err [OF this] m have y: "\<bar>y - x / 100\<bar> \<le> 1 / 100000"
    unfolding y_def js_div_def by linarith
  then have "\<bar>y\<bar> \<le> 68719476736" using x by linarith
  from calc.round_nearest [OF this] obtain n where n: "round2 y = cents n"
    "\<bar>y - of_int n / 100\<bar> \<le> 101 / 20000" by blast
  have e: "\<bar>of_int n / 100 - x / 100\<bar> \<le> 51 / 10000" using n(2) y by linarith
  have "(- 1 :: rat) < of_int n" "(of_int n :: rat) < 5000000002" using e x by linarith+
  then have "of_int (- 1) < (of_int n :: rat)" "(of_int n :: rat) < of_int 5000000002" by simp_all
  then have "0 \<le> n" "n \<le> 5000000001" by (simp_all only: of_int_less_iff)
  with n(1) e show ?thesis by (auto simp: tributeEntry_def y_def x_def)
qed

lemma calculateTributes_cents:
  assumes "tributesInRange ts"
  shows "\<exists>cs. list_all2 (\<lambda>e c. at_amount e = cents c) (fst (calculateTributes ts)) cs \<and>
           snd (calculateTributes ts) = cents (sum_list cs) \<and>
           0 \<le> sum_list cs \<and> sum_list cs \<le> 549755813888"
proof -
  have "\<exists>n. at_amount (tributeEntry t) = cents n \<and> 0 \<le> n \<and> n \<le> 5000000001" if "t \<in> set ts" for t
    using tribute_amount_cents [of t] assms that by (auto simp: tributesInRange_def list_all_iff)
  then obtain pick where pick: "\<And>t. t \<in> set ts \<Longrightarrow>
      at_amount (tributeEntry t) = cents (pick t) \<and> 0 \<le> pick t \<and> pick t \<le> 5000000001"
    by metis
  let ?cs = "map pick ts"
  have "sum_list ?cs \<le> sum_list (map (\<lambda>_. 5000000001) ts)"
    using pick by (intro sum_list_map_le) auto
  also have "\<dots> \<le> 549755813888" using assms by (simp add: tributesInRange_def sum_list_triv)
  finally have tot: "sum_list ?cs \<le> 549755813888" .
  have nn: "0 \<le> sum_list ?cs" using pick by (auto intro!: sum_list_nonneg)
  let ?es = "map tributeEntry ts"
  have fold: "foldl (\<lambda>acc entry. js_add acc (at_amount entry)) a es = foldl js_add a (map at_amount es)" for a es
    by (induction es arbitrary: a) simp_all
  have "\<bar>js_sum (map at_amount ?es) - of_int (sum_list ?cs) / 100\<bar> \<le> 1 / 250"
  proof (rule js_sum_err)
    have "\<bar>at_amount (tributeEntry t) - of_int (pick t) / 100\<bar> \<le> 1 / 500000" if "t \<in> set ts" for t
      using pick [OF that] cents_err_small [of "pick t"] by simp
    then show "list_all2 (\<lambda>x c. \<bar>x - of_int c / 100\<bar> \<le> 1 / 500000) (map at_amount ?es) ?cs"
      by (auto simp: list_all2_conv_all_nth dest: nth_mem)
  qed (use pick tot assms in \<open>auto simp: tributesInRange_def\<close>)
  then have "round2 (js_sum (map at_amount ?es)) = cents (sum_list ?cs)"
    using nn tot by (intro calc.round_near cents_range_small) auto
  then show ?thesis using nn tot pick
    by (intro exI [of _ ?cs])
       (auto simp: calculateTributes_def Let_def fold js_sum_def list_all2_conv_all_nth dest: nth_mem)
qed

subsection \<open>The amounts declared to ARCA\<close>

lemma treatment_partition:
  "sum_list (map lineCents its) =
     taxedCents its + sum_list (map lineCents (filter (\<lambda>it. taxTreatment it = EXEMPT) its))
       + sum_list (map lineCents (filter (\<lambda>it. taxTreatment it = UNTAXED) its))"
proof (induction its)
  case (Cons it its)
  then show ?case by (cases "taxTreatment it") (simp_all add: taxedCents_def)
qed (simp add: taxedCents_def)

lemma total_cents:
  assumes "wholeCentItems its" "tributesInRange ts"
    and "snd (calculateTributes ts) = cents t" "0 \<le> t" "t \<le> 549755813888"
  shows "round2 (js_add (round2 (sumGross its)) (snd (calculateTributes ts))) =
           cents (sum_list (map lineCents its) + t)"
proof -
  have w: "\<forall>it \<in> set its. wholeCentLine it"
    using assms by (simp add: wholeCentItems_def list_all_iff)
  have "0 \<le> sum_list (map lineCents its)" "sum_list (map lineCents its) \<le> 549755813888"
    using sum_lineCents_filter_le [OF w, of "\<lambda>_. True"] assms(1) by (simp_all add: wholeCentItems_def)
  then show ?thesis using assms
    by (simp add: round2_sumGross) (intro calc.round_add; simp add: cents_range_small)
qed

text \<open>
  The amounts of a voucher that reports IVA, all in cents: the split of the taxed lines, the
  exempt and untaxed lines, the tributes and the total.
\<close>

lemma calculateAmounts_reported:
  assumes w: "wholeCentItems its" and ts: "tributesInRange ts" and vt: "reportsIvaToArca vt"
  shows "\<exists>a bs t. calculateAmounts vt its ts = Inr a \<and>
     split_cents (grossByRate its) (map (groupCents its) (map fst (grossByRate its))) bs (rates a) \<and>
     netAmount a = cents (sum_list bs) \<and> ivaAmount a = cents (taxedCents its - sum_list bs) \<and>
     exemptAmount a = cents (sum_list (map lineCents (filter (\<lambda>it. taxTreatment it = EXEMPT) its))) \<and>
     untaxedAmount a = cents (sum_list (map lineCents (filter (\<lambda>it. taxTreatment it = UNTAXED) its))) \<and>
     tributeAmount a = cents t \<and> totalAmount a = cents (sum_list (map lineCents its) + t)"
proof -
  obtain bs rs where s: "splitTaxedGrossByRate its =
        Inr (rs, cents (sum_list bs), cents (taxedCents its - sum_list bs))"
    "split_cents (grossByRate its) (map (groupCents its) (map fst (grossByRate its))) bs rs"
    using split_of_whole_cents [OF w] by blast
  obtain cs where t: "snd (calculateTributes ts) = cents (sum_list cs)" "0 \<le> sum_list cs"
    "sum_list cs \<le> 549755813888"
    using calculateTributes_cents [OF ts] by blast
  obtain es where ct: "calculateTributes ts = (es, cents (sum_list cs))"
    using t(1) by (cases "calculateTributes ts") simp
  show ?thesis
    using s vt total_cents [OF w ts t] sumBy_cents [OF w]
    by (intro exI [of _ "\<lparr>netAmount = cents (sum_list bs), ivaAmount = cents (taxedCents its - sum_list bs),
            exemptAmount = sumBy its EXEMPT, untaxedAmount = sumBy its UNTAXED,
            tributeAmount = cents (sum_list cs), totalAmount = cents (sum_list (map lineCents its) + sum_list cs),
            rates = rs, amount_tributes = es\<rparr>"] exI [of _ bs] exI [of _ "sum_list cs"])
       (simp add: calculateAmounts_def ct Let_def)
qed

text \<open>
  Property C1. The amounts declared for a voucher whose lines are whole cents satisfy ARCA's
  equation to the cent, for every voucher type: the total is the sum of the untaxed, net,
  exempt, tribute and IVA amounts, each of which is a whole number of cents.
\<close>

theorem amounts_balance:
  assumes "wholeCentItems its" "tributesInRange ts"
  shows "\<exists>a u n e t v. calculateAmounts vt its ts = Inr a \<and>
     untaxedAmount a = cents u \<and> netAmount a = cents n \<and> exemptAmount a = cents e \<and>
     tributeAmount a = cents t \<and> ivaAmount a = cents v \<and>
     totalAmount a = cents (u + n + e + t + v)"
proof (cases "reportsIvaToArca vt")
  case True
  then show ?thesis
    using calculateAmounts_reported [OF assms, of vt] treatment_partition [of its]
    by (force simp: algebra_simps)
next
  case False
  obtain cs where t: "snd (calculateTributes ts) = cents (sum_list cs)" "0 \<le> sum_list cs"
    "sum_list cs \<le> 549755813888"
    using calculateTributes_cents [OF assms(2)] by blast
  obtain es where ct: "calculateTributes ts = (es, cents (sum_list cs))"
    using t(1) by (cases "calculateTributes ts") simp
  show ?thesis
    using False total_cents [OF assms t] round2_sumGross [OF assms(1)]
    by (intro exI [of _ "\<lparr>netAmount = cents (sum_list (map lineCents its)), ivaAmount = 0,
            exemptAmount = 0, untaxedAmount = 0, tributeAmount = cents (sum_list cs),
            totalAmount = cents (sum_list (map lineCents its) + sum_list cs), rates = [],
            amount_tributes = es\<rparr>"] exI [of _ 0] exI [of _ "sum_list (map lineCents its)"]
          exI [of _ "sum_list cs"])
       (simp add: calculateAmounts_def ct Let_def)
qed

definition sampleItems :: "item list" where
  "sampleItems =
     [\<lparr>item_description = ''Consultoria'', quantity = 3, unitPrice = cents 12345, ivaRate = 21,
       taxTreatment = TAXED\<rparr>,
      \<lparr>item_description = ''Libro'', quantity = 1, unitPrice = cents 999, ivaRate = 21 / 2,
       taxTreatment = TAXED\<rparr>,
      \<lparr>item_description = ''Envio'', quantity = 2, unitPrice = cents 100, ivaRate = 0,
       taxTreatment = EXEMPT\<rparr>]"

definition sampleTributes :: "tribute list" where
  "sampleTributes =
     [\<lparr>tribute_id = 2, tribute_description = ''IIBB'', taxableBase = 100, tribute_rate = 3\<rparr>]"

lemma sampleItems_whole: "wholeCentItems sampleItems"
  by code_simp

lemma sampleTributes_range: "tributesInRange sampleTributes"
  by code_simp

theorem amounts_balance_witness:
  "\<exists>a u n e t v. calculateAmounts FACTURA_A sampleItems sampleTributes = Inr a \<and>
     untaxedAmount a = cents u \<and> netAmount a = cents n \<and> exemptAmount a = cents e \<and>
     tributeAmount a = cents t \<and> ivaAmount a = cents v \<and>
     totalAmount a = cents (u + n + e + t + v)"
  by (rule amounts_balance [OF sampleItems_whole sampleTributes_range])

lemma split_cents_rates:
  "split_cents es gs bs rs \<Longrightarrow>
     map rate_taxableBase rs = map cents bs \<and> map rate_amount rs = map cents (map2 (-) gs bs) \<and>
     length gs = length es \<and> length bs = length es \<and> length rs = length es \<and>
     sum_list (map2 (-) gs bs) = sum_list gs - sum_list bs \<and>
     (\<forall>i < length es. ivaRateAfipId (fst (es ! i)) = Some (rate_id (rs ! i)) \<and>
        \<bar>of_int (bs ! i) / 100 - exactBase (gs ! i) (fst (es ! i))\<bar> \<le> 51 / 10000)"
  by (induction es gs bs rs rule: split_cents.induct) (auto simp: nth_Cons split: nat.splits)

text \<open>
  The IVA rates declared for a voucher of whole-cent lines add up, to the cent,
  to the declared net and IVA amounts; there is one per rate of the taxed lines, its base and
  its tax add up to the gross of its lines, and the base is within 0.51 cents of the exact
  quotient of that gross by one plus the rate.
\<close>

lemma declared_rates_add_up:
  assumes "wholeCentItems its" "tributesInRange ts" "reportsIvaToArca vt"
  shows "\<exists>a bs vs. calculateAmounts vt its ts = Inr a \<and>
     map rate_taxableBase (rates a) = map cents bs \<and> netAmount a = cents (sum_list bs) \<and>
     map rate_amount (rates a) = map cents vs \<and> ivaAmount a = cents (sum_list vs) \<and>
     length (rates a) = length (grossByRate its) \<and>
     (\<forall>i < length (rates a). let r = fst (grossByRate its ! i) in
        ivaRateAfipId r = Some (rate_id (rates a ! i)) \<and> bs ! i + vs ! i = groupCents its r \<and>
        \<bar>of_int (bs ! i) / 100 - exactBase (groupCents its r) r\<bar> \<le> 51 / 10000)"
proof -
  let ?gs = "map (groupCents its) (map fst (grossByRate its))"
  obtain a bs where a: "calculateAmounts vt its ts = Inr a"
    "split_cents (grossByRate its) ?gs bs (rates a)" "netAmount a = cents (sum_list bs)"
    "ivaAmount a = cents (taxedCents its - sum_list bs)"
    using calculateAmounts_reported [OF assms] by blast
  show ?thesis
    using a split_cents_rates [OF a(2)]
    by (intro exI [of _ a] exI [of _ bs] exI [of _ "map2 (-) ?gs bs"])
       (simp add: groupCents_sum [simplified] Let_def)
qed

theorem declared_rates_add_up_witness:
  "\<exists>a bs vs. calculateAmounts FACTURA_A sampleItems sampleTributes = Inr a \<and>
     map rate_taxableBase (rates a) = map cents bs \<and> netAmount a = cents (sum_list bs) \<and>
     map rate_amount (rates a) = map cents vs \<and> ivaAmount a = cents (sum_list vs) \<and>
     length (rates a) = length (grossByRate sampleItems) \<and>
     (\<forall>i < length (rates a). let r = fst (grossByRate sampleItems ! i) in
        ivaRateAfipId r = Some (rate_id (rates a ! i)) \<and> bs ! i + vs ! i = groupCents sampleItems r \<and>
        \<bar>of_int (bs ! i) / 100 - exactBase (groupCents sampleItems r) r\<bar> \<le> 51 / 10000)"
  by (rule declared_rates_add_up [OF sampleItems_whole sampleTributes_range]) code_simp

subsection \<open>When the calculation throws\<close>

lemma splitRates_error:
  "splitRates es acc = Inl e \<longleftrightarrow>
     (\<exists>en \<in> set es. fst en \<notin> set ivaRates) \<and> e = OtherError unmappedRateMessage"
proof (induction es arbitrary: acc)
  case (Cons en es)
  obtain r g where en: "en = (r, g)" by (cases en)
  obtain rs n v where acc: "acc = (rs, n, v)" by (cases acc)
  show ?case
  proof (cases "ivaRateAfipId r")
    case None
    then have "r \<notin> set ivaRates" using ivaRateAfipId_Some [of r] by auto
    then show ?thesis using None by (auto simp: en acc splitOne_def Let_def)
  next
    case (Some i)
    then have "r \<in> set ivaRates" using ivaRateAfipId_Some [of r] by auto
    then show ?thesis using Some Cons.IH by (auto simp: en acc splitOne_def Let_def)
  qed
qed simp

text \<open>
  The calculation throws exactly when the voucher reports IVA and one of its
  taxed lines has a rate that ARCA has no id for; in every other case it returns amounts.
\<close>

lemma calculateAmounts_throws_iff:
  "calculateAmounts vt its ts = Inl e \<longleftrightarrow>
     reportsIvaToArca vt \<and>
     (\<exists>it \<in> set its. taxTreatment it = TAXED \<and> ivaRate it \<notin> set ivaRates) \<and>
     e = OtherError unmappedRateMessage"
proof -
  have "(\<exists>en \<in> set (grossByRate its). fst en \<notin> set ivaRates) \<longleftrightarrow>
      (\<exists>r \<in> set (map fst (grossByRate its)). r \<notin> set ivaRates)" by auto
  also have "\<dots> \<longleftrightarrow> (\<exists>it \<in> set its. taxTreatment it = TAXED \<and> ivaRate it \<notin> set ivaRates)"
    unfolding grossByRate_keys by auto
  finally have keys: "(\<exists>en \<in> set (grossByRate its). fst en \<notin> set ivaRates) \<longleftrightarrow>
      (\<exists>it \<in> set its. taxTreatment it = TAXED \<and> ivaRate it \<notin> set ivaRates)" .
  have split: "splitTaxedGrossByRate its = Inl e \<longleftrightarrow>
      (\<exists>it \<in> set its. taxTreatment it = TAXED \<and> ivaRate it \<notin> set ivaRates) \<and>
      e = OtherError unmappedRateMessage" for e
    unfolding splitTaxedGrossByRate_def splitRates_error keys ..
  obtain es t where ts: "calculateTributes ts = (es, t)" by (cases "calculateTributes ts")
  show ?thesis
  proof (cases "splitTaxedGrossByRate its")
    case (Inl e')
    then show ?thesis unfolding split [symmetric] using split [of e]
      by (auto simp: calculateAmounts_def ts Let_def simp del: split_paired_Ex)
  next
    case (Inr acc)
    then have "\<not> (\<exists>it \<in> set its. taxTreatment it = TAXED \<and> ivaRate it \<notin> set ivaRates)"
      using split [of "OtherError unmappedRateMessage"] by auto
    moreover obtain rs n v where "acc = (rs, n, v)" by (cases acc)
    ultimately show ?thesis using Inr by (simp add: calculateAmounts_def ts Let_def)
  qed
qed

subsection \<open>Fractions of a cent\<close>

definition halfCentItems :: "item list" where
  "halfCentItems =
     [\<lparr>item_description = ''Queso'', quantity = 1 / 2, unitPrice = cents 1001, ivaRate = 21,
       taxTreatment = TAXED\<rparr>,
      \<lparr>item_description = ''Fruta'', quantity = 1 / 2, unitPrice = cents 1001, ivaRate = 21 / 2,
       taxTreatment = TAXED\<rparr>]"

lemma half_cent_gross:
  "round2 (js_add 0 (js_mul (1 / 2) (cents 1001))) = cents 501"
  "round2 (js_add (js_add 0 (js_mul (1 / 2) (cents 1001))) (js_mul (1 / 2) (cents 1001))) = cents 1001"
  by code_simp+

lemma half_cent_bases:
  "round2 (js_div (cents 501) (js_add 1 (js_div 21 100))) = cents 414"
  "round2 (js_div (cents 501) (js_add 1 (js_div (21 / 2) 100))) = cents 453"
  by code_simp+

lemma half_cent_amounts:
  "calculateAmounts FACTURA_A halfCentItems [] =
     Inr \<lparr>netAmount = cents 867, ivaAmount = cents 135, exemptAmount = cents 0,
          untaxedAmount = cents 0, tributeAmount = cents 0, totalAmount = cents 1001,
          rates = [\<lparr>rate_id = 5, rate_taxableBase = cents 414, rate_amount = cents 87\<rparr>,
                   \<lparr>rate_id = 4, rate_taxableBase = cents 453, rate_amount = cents 48\<rparr>],
          amount_tributes = []\<rparr>"
proof -
  have r: "cents_range n" if "0 \<le> n" "n \<le> 2000" for n using that by (simp add: cents_range_def)
  have add: "round2 (js_add (cents a) (cents b)) = cents (a + b)"
    if "0 \<le> a" "a \<le> 1001" "0 \<le> b" "b \<le> 900" for a b
    using that by (intro calc.round_add r) simp_all
  have sub: "round2 (js_sub (cents a) (cents b)) = cents (a - b)"
    if "0 \<le> a" "a \<le> 1001" "0 \<le> b" "b \<le> a" for a b
    using that by (intro calc.round_sub r) simp_all
  have add0: "round2 (js_add 0 (cents b)) = cents b" if "0 \<le> b" "b \<le> 900" for b
    using add [of 0 b] that by simp
  have t0: "round2 (js_add (cents 1001) 0) = cents 1001" using add [of 1001 0] by simp
  show ?thesis
    by (simp add: calculateAmounts_def calculateTributes_def halfCentItems_def sumGross_def sumBy_def
        splitTaxedGrossByRate_def grossByRate_def splitOne_def grossOf_def Let_def half_cent_gross
        half_cent_bases add sub add0 calc.round_0 t0 ivaRateAfipId_def voucher_type_simps)
qed

text \<open>
  With fractions of a cent the equation can fail: for half a unit at 10.01 at
  each of two rates, the lines are valid but the parts add up to 10.02 and the declared total
  is 10.01.
\<close>

lemma fractional_cents_unbalanced:
  "list_all (\<lambda>it. itemIssues [] it = []) halfCentItems \<and>
   (\<exists>a. calculateAmounts FACTURA_A halfCentItems [] = Inr a \<and>
        untaxedAmount a = cents 0 \<and> netAmount a = cents 867 \<and> exemptAmount a = cents 0 \<and>
        tributeAmount a = cents 0 \<and> ivaAmount a = cents 135 \<and>
        totalAmount a = cents 1001 \<and> cents 1001 \<noteq> cents (0 + 867 + 0 + 0 + 135))"
proof -
  have "0 \<le> cents 1001" by (simp add: cents_err_small)
  then have "list_all (\<lambda>it. itemIssues [] it = []) halfCentItems"
    by (simp add: halfCentItems_def item_valid ivaRates_def)
  moreover have "cents 1001 \<noteq> cents (0 + 867 + 0 + 0 + 135)"
    by (subst cents_inj) (simp_all add: cents_range_def)
  ultimately show ?thesis by (simp add: half_cent_amounts)
qed

end
