(* ===== verification/JsText.thy ===== *)
theory JsText
  imports Money VoucherTypes
begin

text \<open>
  The strings the backend builds: integers and numbers in decimal, \<open>toFixed(2)\<close>,
  \<open>padStart\<close>, the replacements with a regular expression that the code uses, and the
  escaping of XML text of \<open>arca-soap.util.ts\<close>. A text is the list of the bytes of its
  UTF-8 encoding, so that a character outside ASCII is several elements.
\<close>

subsection \<open>Decimal digits\<close>

definition digitChar :: "nat \<Rightarrow> char" where
  "digitChar d = char_of (48 + d)"

definition digitValue :: "char \<Rightarrow> nat" where
  "digitValue c = of_char c - 48"

definition isDigit :: "char \<Rightarrow> bool" where
  "isDigit c = (48 \<le> (of_char c :: nat) \<and> (of_char c :: nat) \<le> 57)"

function digitsOf :: "int \<Rightarrow> string" where
  "digitsOf n = (if n < 10 then [digitChar (nat n)] else digitsOf (n div 10) @ [digitChar (nat (n mod 10))])"
  by pat_completeness auto
termination
  by (relation "measure nat") auto

declare digitsOf.simps [simp del]

definition intToString :: "int \<Rightarrow> string" where
  "intToString n = (if n < 0 then CHR ''-'' # digitsOf (- n) else digitsOf n)"

definition valueOf :: "string \<Rightarrow> int" where
  "valueOf s = foldl (\<lambda>acc c. 10 * acc + int (digitValue c)) 0 s"

lemma isDigit_digitChar: "d < 10 \<Longrightarrow> isDigit (digitChar d) \<and> digitValue (digitChar d) = d"
  by (simp add: isDigit_def digitValue_def digitChar_def of_char_of)

lemma valueOf_snoc: "valueOf (s @ [c]) = 10 * valueOf s + int (digitValue c)"
  by (simp add: valueOf_def)

lemma digitsOf_isDigit: "0 \<le> n \<Longrightarrow> list_all isDigit (digitsOf n) \<and> digitsOf n \<noteq> []"
proof (induction n rule: digitsOf.induct)
  case (1 n)
  show ?case
    using 1 isDigit_digitChar [of "nat (n mod 10)"] isDigit_digitChar [of "nat n"]
    by (cases "n < 10") (simp_all add: digitsOf.simps [of n] nat_less_iff)
qed

lemma valueOf_digitsOf [simp]: "0 \<le> n \<Longrightarrow> valueOf (digitsOf n) = n"
proof (induction n rule: digitsOf.induct)
  case (1 n)
  show ?case
  proof (cases "n < 10")
    case True
    then show ?thesis
      using "1.prems" isDigit_digitChar [of "nat n"]
      by (simp add: digitsOf.simps [of n] valueOf_def nat_less_iff)
  next
    case False
    then have "valueOf (digitsOf (n div 10)) = n div 10" using 1 by simp
    then show ?thesis using False isDigit_digitChar [of "nat (n mod 10)"]
      by (simp add: digitsOf.simps [of n] valueOf_snoc nat_less_iff)
  qed
qed

lemma digitsOf_inj: "0 \<le> m \<Longrightarrow> 0 \<le> n \<Longrightarrow> digitsOf m = digitsOf n \<longleftrightarrow> m = n"
  by (metis valueOf_digitsOf)

subsection \<open>padStart, and numbers with a fixed number of digits\<close>

definition padStart :: "nat \<Rightarrow> char \<Rightarrow> string \<Rightarrow> string" where
  "padStart n c s = replicate (n - length s) c @ s"

lemma length_padStart: "length s \<le> n \<Longrightarrow> length (padStart n c s) = n"
  by (simp add: padStart_def)

lemma valueOf_zeros: "valueOf (replicate k (CHR ''0'') @ s) = valueOf s"
  by (induction k) (simp_all add: valueOf_def digitValue_def)

lemma valueOf_padStart [simp]: "valueOf (padStart n (CHR ''0'') s) = valueOf s"
  by (simp add: padStart_def valueOf_zeros)

lemma digitsOf_length: "0 \<le> n \<Longrightarrow> n < 10 ^ k \<Longrightarrow> 0 < k \<Longrightarrow> length (digitsOf n) \<le> k"
proof (induction n arbitrary: k rule: digitsOf.induct)
  case (1 n)
  show ?case
  proof (cases "n < 10")
    case True
    then show ?thesis using "1.prems" by (simp add: digitsOf.simps [of n])
  next
    case False
    obtain j where j: "k = Suc j" using "1.prems"(3) by (cases k) auto
    have "0 < j" using False "1.prems" j by (cases j) auto
    with j have k: "k = Suc j" "0 < j" by simp_all
    have "n div 10 < 10 ^ j" using "1.prems" k by auto
    then show ?thesis using False "1.IH" [of j] "1.prems" k by (simp add: digitsOf.simps [of n])
  qed
qed

definition pad2 :: "int \<Rightarrow> string" where
  "pad2 n = padStart 2 (CHR ''0'') (intToString n)"

lemma pad2_props:
  assumes "0 \<le> n" "n < 100"
  shows "length (pad2 n) = 2" "valueOf (pad2 n) = n" "list_all isDigit (pad2 n)"
proof -
  have "length (digitsOf n) \<le> 2" using digitsOf_length [of n 2] assms by simp
  then show "length (pad2 n) = 2" "valueOf (pad2 n) = n" "list_all isDigit (pad2 n)"
    using assms digitsOf_isDigit [of n]
    by (simp_all add: pad2_def intToString_def length_padStart)
       (auto simp add: padStart_def list_all_iff isDigit_def)
qed

subsection \<open>toFixed(2)\<close>

text \<open>
  ECMA-262 takes the integer closest to the exact value times 100, the larger on a tie, and
  a minus sign for a negative number.
\<close>

definition centsText :: "int \<Rightarrow> string" where
  "centsText n = digitsOf (n div 100) @ ''.'' @ pad2 (n mod 100)"

definition toFixed2 :: "number \<Rightarrow> string" where
  "toFixed2 x = (if x < 0 then CHR ''-'' # centsText \<lfloor>- x * 100 + 1 / 2\<rfloor>
                 else centsText \<lfloor>x * 100 + 1 / 2\<rfloor>)"

definition parseCents :: "string \<Rightarrow> int" where
  "parseCents s = valueOf (take (length s - 3) s) * 100 + valueOf (drop (length s - 2) s)"

lemma parseCents_centsText: "0 \<le> n \<Longrightarrow> parseCents (centsText n) = n"
proof -
  assume n: "0 \<le> n"
  have l: "length (pad2 (n mod 100)) = 2" and v: "valueOf (pad2 (n mod 100)) = n mod 100"
    by (rule pad2_props; simp)+
  show ?thesis using n by (simp add: parseCents_def centsText_def l v)
qed

lemma toFixed2_cents:
  assumes "cents_range n" "0 \<le> n"
  shows "toFixed2 (cents n) = centsText n"
proof -
  have nn: "0 \<le> cents n" using assms(2) by (simp add: cents_def fl_nonneg)
  have "\<bar>cents n * 100 - of_int n\<bar> < 1 / 2" using cents_err [OF assms(1)] by linarith
  from math_round_near [OF this] have "\<lfloor>cents n * 100 + 1 / 2\<rfloor> = n" by (simp add: math_round_def)
  then show ?thesis using nn by (simp add: toFixed2_def)
qed

subsection \<open>Replacements and escapes\<close>

text \<open>\<open>replace(/-/g, "")\<close> and \<open>replace(/\\D/g, "")\<close>.\<close>

definition removeDashes :: "string \<Rightarrow> string" where
  "removeDashes s = filter (\<lambda>c. c \<noteq> CHR ''-'') s"

definition onlyDigits :: "string \<Rightarrow> string" where
  "onlyDigits s = filter isDigit s"

lemma onlyDigits_removeDashes: "onlyDigits (removeDashes s) = onlyDigits s"
  by (induction s) (auto simp: onlyDigits_def removeDashes_def isDigit_def)

lemma onlyDigits_idem: "list_all isDigit s \<Longrightarrow> onlyDigits s = s"
  by (simp add: onlyDigits_def list_all_iff)

text \<open>\<open>replace(c, r)\<close> of one character, as five successive passes.\<close>

definition replaceChar :: "char \<Rightarrow> string \<Rightarrow> string \<Rightarrow> string" where
  "replaceChar c r s = concat (map (\<lambda>x. if x = c then r else [x]) s)"

definition escapeXml :: "string option \<Rightarrow> string" where
  "escapeXml value =
     (case value of None \<Rightarrow> ''''
      | Some s \<Rightarrow>
          replaceChar (CHR 0x27) ''&apos;''
            (replaceChar (CHR 0x22) ''&quot;''
              (replaceChar (CHR ''>'') ''&gt;''
                (replaceChar (CHR ''<'') ''&lt;''
                  (replaceChar (CHR ''&'') ''&amp;'' s)))))"

text \<open>The five passes as one: the ampersands of the escapes are not escaped again.\<close>

definition escapeChar :: "char \<Rightarrow> string" where
  "escapeChar c =
     (if c = CHR ''&'' then ''&amp;'' else if c = CHR ''<'' then ''&lt;''
      else if c = CHR ''>'' then ''&gt;'' else if c = CHR 0x22 then ''&quot;''
      else if c = CHR 0x27 then ''&apos;'' else [c])"

lemma replaceChar_simps [simp]:
  "replaceChar c r [] = []"
  "replaceChar c r (x # s) = (if x = c then r else [x]) @ replaceChar c r s"
  "replaceChar c r (s @ t) = replaceChar c r s @ replaceChar c r t"
  by (simp_all add: replaceChar_def)

lemma escapeXml_chars: "escapeXml (Some s) = concat (map escapeChar s)"
  by (induction s) (simp_all add: escapeXml_def escapeChar_def)

text \<open>Reading escaped text back, as an XML parser does.\<close>

function unescapeXml :: "string \<Rightarrow> string" where
  "unescapeXml s =
     (case s of [] \<Rightarrow> []
      | c # r \<Rightarrow>
          if take 5 s = ''&amp;'' then CHR ''&'' # unescapeXml (drop 5 s)
          else if take 4 s = ''&lt;'' then CHR ''<'' # unescapeXml (drop 4 s)
          else if take 4 s = ''&gt;'' then CHR ''>'' # unescapeXml (drop 4 s)
          else if take 6 s = ''&quot;'' then CHR 0x22 # unescapeXml (drop 6 s)
          else if take 6 s = ''&apos;'' then CHR 0x27 # unescapeXml (drop 6 s)
          else c # unescapeXml r)"
  by pat_completeness auto
termination
  by (relation "measure length") auto

declare unescapeXml.simps [simp del]

lemma unescape_escapeChar: "unescapeXml (escapeChar c @ s) = c # unescapeXml s"
  by (subst unescapeXml.simps) (auto simp: escapeChar_def)

lemma unescapeXml_escape: "unescapeXml (concat (map escapeChar s)) = s"
proof (induction s)
  case Nil
  show ?case by (subst unescapeXml.simps) simp
next
  case (Cons c s)
  then show ?case by (simp add: unescape_escapeChar)
qed

lemma escapeXml_no_markup: "set (escapeXml (Some s)) \<inter> {CHR ''<'', CHR ''>'', CHR 0x22, CHR 0x27} = {}"
  unfolding escapeXml_chars by (induction s) (auto simp: escapeChar_def)

end
