(* ===== verification/JsNumberText.thy ===== *)
theory JsNumberText
  imports JsText
begin

text \<open>
  The two conversions between texts and numbers that the backend leaves to the language:
  \<open>Number(text)\<close> (ECMA-262, StringToNumber) and \<open>String(number)\<close>
  (Number::toString, the shortest digits that round back to the number). \<open>None\<close> is a
  result that is not finite, NaN or an infinity.
\<close>

subsection \<open>Number(text)\<close>

definition p10 :: "int \<Rightarrow> rat" where
  "p10 k = (if 0 \<le> k then 10 ^ nat k else 1 / 10 ^ nat (- k))"

definition isSpace :: "char \<Rightarrow> bool" where
  "isSpace c = ((of_char c :: nat) \<in> {9, 10, 11, 12, 13, 32, 160})"

definition trim :: "string \<Rightarrow> string" where
  "trim s = rev (dropWhile isSpace (rev (dropWhile isSpace s)))"

text \<open>The value rounded to a double, unless it overflows.\<close>

definition finiteNumber :: "rat \<Rightarrow> number option" where
  "finiteNumber x = (if \<bar>fl x\<bar> < 2 ^ 1024 then Some (fl x) else None)"

definition radixDigit :: "char \<Rightarrow> nat" where
  "radixDigit c = (let n = of_char c in
     if 48 \<le> n \<and> n \<le> 57 then n - 48
     else if 65 \<le> n \<and> n \<le> 70 then n - 55
     else if 97 \<le> n \<and> n \<le> 102 then n - 87 else 99)"

definition radixNumber :: "nat \<Rightarrow> string \<Rightarrow> number option" where
  "radixNumber b s = (if s \<noteq> [] \<and> list_all (\<lambda>c. radixDigit c < b) s
     then finiteNumber (of_int (foldl (\<lambda>acc c. int b * acc + int (radixDigit c)) 0 s)) else None)"

definition exponentOf :: "string \<Rightarrow> int option" where
  "exponentOf s = (case s of [] \<Rightarrow> Some 0
    | e # r \<Rightarrow> if e \<noteq> CHR ''e'' \<and> e \<noteq> CHR ''E'' then None
        else (case r of
            [] \<Rightarrow> None
          | c # ds \<Rightarrow>
              if c = CHR ''-'' \<and> ds \<noteq> [] \<and> list_all isDigit ds then Some (- valueOf ds)
              else if c = CHR ''+'' \<and> ds \<noteq> [] \<and> list_all isDigit ds then Some (valueOf ds)
              else if list_all isDigit (c # ds) then Some (valueOf (c # ds)) else None))"

definition unsignedDecimal :: "string \<Rightarrow> rat option" where
  "unsignedDecimal s = (let whole = takeWhile isDigit s; r = dropWhile isDigit s;
       frac = (case r of [] \<Rightarrow> [] | c # r' \<Rightarrow> if c = CHR ''.'' then takeWhile isDigit r' else []);
       r2 = (case r of [] \<Rightarrow> [] | c # r' \<Rightarrow> if c = CHR ''.'' then dropWhile isDigit r' else r) in
     if whole = [] \<and> frac = [] then None
     else map_option (\<lambda>e. of_int (valueOf (whole @ frac)) * p10 (e - int (length frac))) (exponentOf r2))"

definition js_Number :: "string \<Rightarrow> number option" where
  "js_Number text = (let s = trim text in
     if s = [] then Some 0
     else if take 2 s \<in> {''0x'', ''0X''} then radixNumber 16 (drop 2 s)
     else if take 2 s \<in> {''0o'', ''0O''} then radixNumber 8 (drop 2 s)
     else if take 2 s \<in> {''0b'', ''0B''} then radixNumber 2 (drop 2 s)
     else if hd s = CHR ''-'' then Option.bind (unsignedDecimal (tl s)) (\<lambda>x. finiteNumber (- x))
     else if hd s = CHR ''+'' then Option.bind (unsignedDecimal (tl s)) finiteNumber
     else Option.bind (unsignedDecimal s) finiteNumber)"

text \<open>The conversion to an integer that \<open>new Date(y, m, d)\<close> applies to its arguments.\<close>

definition truncNumber :: "number \<Rightarrow> int" where
  "truncNumber x = (if x < 0 then - \<lfloor>- x\<rfloor> else \<lfloor>x\<rfloor>)"

definition integerNumber :: "string \<Rightarrow> int option" where
  "integerNumber s = map_option truncNumber (js_Number s)"

lemma digit_not_space: "isDigit c \<Longrightarrow> \<not> isSpace c"
  by (auto simp: isDigit_def isSpace_def)

lemma trim_digits: "list_all isDigit s \<Longrightarrow> trim s = s"
proof -
  have id: "dropWhile isSpace s = s" if "list_all isDigit s" for s
    using that by (cases s) (auto simp: digit_not_space)
  assume "list_all isDigit s"
  then have "dropWhile isSpace s = s" "dropWhile isSpace (rev s) = rev s"
    using id [of s] id [of "rev s"] by simp_all
  then show "trim s = s" by (simp add: trim_def)
qed

lemma unsignedDecimal_digits:
  "list_all isDigit s \<Longrightarrow> s \<noteq> [] \<Longrightarrow> unsignedDecimal s = Some (of_int (valueOf s))"
proof -
  assume s: "list_all isDigit s" "s \<noteq> []"
  then have tw: "takeWhile isDigit s = s" by (simp add: list_all_iff)
  have dw: "dropWhile isDigit s = []" using s by (simp add: list_all_iff)
  show ?thesis unfolding unsignedDecimal_def tw dw using s(2) by (simp add: exponentOf_def p10_def)
qed

lemma valueOf_nonneg: "0 \<le> valueOf s"
  by (induction s rule: rev_induct) (simp_all add: valueOf_snoc valueOf_def)

lemma valueOf_bound: "list_all isDigit s \<Longrightarrow> valueOf s < 10 ^ length s"
proof (induction s rule: rev_induct)
  case (snoc c s)
  then have "int (digitValue c) \<le> 9" "valueOf s + 1 \<le> 10 ^ length s"
    by (auto simp: digitValue_def isDigit_def)
  then show ?case by (simp add: valueOf_snoc)
qed (simp add: valueOf_def)

lemma js_Number_digits:
  assumes "list_all isDigit s" "length s \<le> 15"
  shows "js_Number s = Some (of_int (valueOf s))"
proof (cases "s = []")
  case True
  then show ?thesis by (simp add: js_Number_def trim_def valueOf_def)
next
  case False
  have "valueOf s < 10 ^ length s" using valueOf_bound assms by blast
  moreover have "(10::int) ^ length s \<le> 10 ^ 15" using assms(2) by (intro power_increasing) auto
  ultimately have b: "valueOf s \<le> 1000000000000000" by simp
  then have f: "fl (of_int (valueOf s)) = of_int (valueOf s)"
    using fl_of_int [of "valueOf s"] valueOf_nonneg [of s] by simp
  have "\<bar>of_int (valueOf s) :: rat\<bar> \<le> 1000000000000000"
    using b valueOf_nonneg [of s] by (metis abs_of_nonneg of_int_0_le_iff of_int_le_iff of_int_numeral)
  moreover have "(1000000000000000 :: rat) < 2 ^ 1024"
    by (rule less_le_trans [of _ "2 ^ 50"], simp, rule power_increasing, simp_all)
  ultimately have "finiteNumber (of_int (valueOf s)) = Some (of_int (valueOf s))"
    unfolding finiteNumber_def f by simp
  moreover have "hd s \<noteq> CHR ''-''" "hd s \<noteq> CHR ''+''" "take 2 s \<notin> {''0x'', ''0X''}"
    "take 2 s \<notin> {''0o'', ''0O''}" "take 2 s \<notin> {''0b'', ''0B''}"
    using assms(1) False by (cases s; cases "tl s"; force simp: isDigit_def)+
  ultimately show ?thesis
    using False assms(1) by (simp add: js_Number_def trim_digits unsignedDecimal_digits Let_def)
qed

lemma integerNumber_digits:
  "list_all isDigit s \<Longrightarrow> length s \<le> 15 \<Longrightarrow> integerNumber s = Some (valueOf s)"
  using valueOf_nonneg [of s] by (simp add: integerNumber_def js_Number_digits truncNumber_def)

subsection \<open>String(number)\<close>

text \<open>The decimal exponent \<open>n\<close> with \<open>10^(n-1) \<le> x < 10^n\<close>; 5e-324 is the least positive double.\<close>

fun fracExp :: "nat \<Rightarrow> rat \<Rightarrow> int" where
  "fracExp 0 x = 0"
| "fracExp (Suc k) x = (if 1 \<le> 10 * x then 0 else fracExp k (10 * x) - 1)"

definition decExp :: "rat \<Rightarrow> int" where
  "decExp x = (if 1 \<le> x then int (length (digitsOf \<lfloor>x\<rfloor>)) else fracExp 330 x)"

text \<open>
  The digits \<open>s\<close>, their number and the exponent: the first of 1, 2, ... 17 digits that
  reads back as \<open>x\<close>; seventeen always do.
\<close>

fun shortestDigits :: "nat \<Rightarrow> nat \<Rightarrow> rat \<Rightarrow> int \<Rightarrow> int \<times> int" where
  "shortestDigits 0 k x n = (\<lfloor>x * p10 (17 - n) + 1 / 2\<rfloor>, n)"
| "shortestDigits (Suc f) k x n =
     (let s = \<lfloor>x * p10 (int k - n) + 1 / 2\<rfloor> in
      if fl (of_int s * p10 (n - int k)) = x
      then (if s = 10 ^ k then (1, n + 1) else (s, n))
      else shortestDigits f (Suc k) x n)"

definition layoutDigits :: "string \<Rightarrow> int \<Rightarrow> string" where
  "layoutDigits ds n = (let k = int (length ds) in
     if k \<le> n \<and> n \<le> 21 then ds @ replicate (nat (n - k)) (CHR ''0'')
     else if 0 < n \<and> n \<le> 21 then take (nat n) ds @ ''.'' @ drop (nat n) ds
     else if -6 < n \<and> n \<le> 0 then ''0.'' @ replicate (nat (- n)) (CHR ''0'') @ ds
     else let e = n - 1;
              expo = (if e < 0 then ''e-'' else ''e+'') @ digitsOf \<bar>e\<bar> in
          if k = 1 then ds @ expo else take 1 ds @ ''.'' @ drop 1 ds @ expo)"

definition numberToString :: "number \<Rightarrow> string" where
  "numberToString x =
     (if x = 0 then ''0''
      else if x < 0 then CHR ''-'' # (case shortestDigits 17 1 (- x) (decExp (- x)) of (s, n) \<Rightarrow> layoutDigits (digitsOf s) n)
      else (case shortestDigits 17 1 x (decExp x) of (s, n) \<Rightarrow> layoutDigits (digitsOf s) n))"

end
