(* ===== verification/JsDate.thy ===== *)
theory JsDate
  imports JsNumberText
begin

text \<open>
  JavaScript dates and the three conversions of \<open>arca-date.ts\<close>, with
  \<open>parseIsoDate\<close> of \<open>issued-voucher-data.ts\<close>. A date is its time value in
  milliseconds since the epoch, and \<open>None\<close> is Invalid Date. The calendar is the proleptic
  Gregorian one of ECMA-262 (Day, DayFromYear, MonthFromTime, MakeDay). The time zone of the
  process is the argument \<open>tz\<close>, a fixed offset in milliseconds (Argentina has kept UTC-3
  without daylight saving since 2009).
\<close>

type_synonym date = int
type_synonym js_date = "date option"

definition msPerDay :: int where
  "msPerDay = 86400000"

subsection \<open>The calendar\<close>

definition dayFromYear :: "int \<Rightarrow> int" where
  "dayFromYear y = 365 * (y - 1970) + (y - 1969) div 4 - (y - 1901) div 100 + (y - 1601) div 400"

definition leapYear :: "int \<Rightarrow> bool" where
  "leapYear y = (dayFromYear (y + 1) - dayFromYear y = 366)"

definition yearFromDay :: "int \<Rightarrow> int" where
  "yearFromDay d = (let y = 1970 + (400 * d) div 146097 in
     if d < dayFromYear y then y - 1 else if dayFromYear (y + 1) \<le> d then y + 1 else y)"

definition monthStarts :: "bool \<Rightarrow> int list" where
  "monthStarts leap = (if leap then [0, 31, 60, 91, 121, 152, 182, 213, 244, 274, 305, 335]
                       else [0, 31, 59, 90, 120, 151, 181, 212, 243, 273, 304, 334])"

definition monthFromDay :: "bool \<Rightarrow> int \<Rightarrow> nat" where
  "monthFromDay leap d = length (takeWhile (\<lambda>s. s \<le> d) (monthStarts leap)) - 1"

definition monthLength :: "bool \<Rightarrow> nat \<Rightarrow> int" where
  "monthLength leap m = (monthStarts leap @ [if leap then 366 else 365]) ! Suc m - monthStarts leap ! m"

text \<open>\<open>m\<close> counts from 0 and may lie outside the year; so may the day.\<close>

definition makeDay :: "int \<Rightarrow> int \<Rightarrow> int \<Rightarrow> int" where
  "makeDay y m d = (let ym = y + m div 12 in
     dayFromYear ym + monthStarts (leapYear ym) ! nat (m mod 12) + d - 1)"

definition yearOf :: "int \<Rightarrow> int" where
  "yearOf day = yearFromDay day"

definition monthOf :: "int \<Rightarrow> int" where
  "monthOf day = int (monthFromDay (leapYear (yearOf day)) (day - dayFromYear (yearOf day)))"

definition dayOf :: "int \<Rightarrow> int" where
  "dayOf day = day - dayFromYear (yearOf day) -
     monthStarts (leapYear (yearOf day)) ! nat (monthOf day) + 1"

lemma succ_div:
  fixes n k :: int
  assumes "1 < k"
  shows "(n + 1) div k = n div k + (if k dvd (n + 1) then 1 else 0)"
proof (cases "k dvd (n + 1)")
  case True
  then obtain q where q: "n + 1 = k * q" by blast
  then have "n = k * (q - 1) + (k - 1)" by (simp add: algebra_simps)
  moreover have "(k * (q - 1) + (k - 1)) div k = q - 1" using assms by (simp add: div_pos_pos_trivial)
  ultimately have "n div k = q - 1" by simp
  moreover have "(n + 1) div k = q" using q assms by simp
  ultimately show ?thesis using True by simp
next
  case False
  have r: "0 \<le> n mod k" "n mod k < k" using assms by simp_all
  have n: "n + 1 = k * (n div k) + (n mod k + 1)" by simp
  then have "n mod k + 1 \<noteq> k" using False by (metis dvd_add dvd_refl dvd_triv_left)
  with r have "0 \<le> n mod k + 1" "n mod k + 1 < k" by linarith+
  with n have "(n + 1) div k = n div k" by (rule int_div_pos_eq)
  then show ?thesis using False by simp
qed

lemma dayFromYear_Suc: "dayFromYear (y + 1) - dayFromYear y = 365 \<or> dayFromYear (y + 1) - dayFromYear y = 366"
proof -
  have a: "(y - 1968) div 4 = (y - 1969) div 4 + (if 4 dvd (y - 1968) then 1 else 0)"
    using succ_div [of 4 "y - 1969"] by simp
  have b: "(y - 1900) div 100 = (y - 1901) div 100 + (if 100 dvd (y - 1900) then 1 else 0)"
    using succ_div [of 100 "y - 1901"] by simp
  have c: "(y - 1600) div 400 = (y - 1601) div 400 + (if 400 dvd (y - 1600) then 1 else 0)"
    using succ_div [of 400 "y - 1601"] by simp
  have d: "4 dvd (y - 1968)" if "100 dvd (y - 1900)"
  proof -
    from that obtain k where "y - 1900 = 100 * k" by (rule dvdE)
    then have "y - 1968 = 4 * (25 * k - 17)" by simp
    then show ?thesis by (metis dvd_triv_left)
  qed
  have e: "100 dvd (y - 1900)" if "400 dvd (y - 1600)"
  proof -
    from that obtain k where "y - 1600 = 400 * k" by (rule dvdE)
    then have "y - 1900 = 100 * (4 * k - 3)" by simp
    then show ?thesis by (metis dvd_triv_left)
  qed
  have "y + 1 - 1969 = y - 1968" "y + 1 - 1901 = y - 1900" "y + 1 - 1601 = y - 1600" by simp_all
  then show ?thesis unfolding dayFromYear_def using a b c d e by auto
qed

lemma not_leapYear: "\<not> leapYear y \<Longrightarrow> dayFromYear (y + 1) - dayFromYear y = 365"
  using dayFromYear_Suc [of y] by (auto simp: leapYear_def)

lemma dayFromYear_step: "dayFromYear y < dayFromYear (y + 1)"
  using dayFromYear_Suc [of y] by linarith

lemma dayFromYear_add: "dayFromYear y \<le> dayFromYear (y + int n)"
proof (induction n)
  case (Suc n)
  then show ?case using dayFromYear_step [of "y + int n"] by (simp add: algebra_simps)
qed simp

lemma dayFromYear_mono: "x \<le> y \<Longrightarrow> dayFromYear x \<le> dayFromYear y"
  using dayFromYear_add [of x "nat (y - x)"] by simp

lemma yearFromDay_bounds: "dayFromYear (yearFromDay d) \<le> d \<and> d < dayFromYear (yearFromDay d + 1)"
proof -
  define q where "q = (400 * d) div 146097"
  have "400 * d = 146097 * q + (400 * d) mod 146097" by (simp add: q_def)
  moreover have "0 \<le> (400 * d) mod 146097" "(400 * d) mod 146097 < 146097" by simp_all
  ultimately have q: "146097 * q \<le> 400 * d" "400 * d < 146097 * q + 146097" by linarith+
  have div4: "4 * (n div 4) \<le> n \<and> n < 4 * (n div 4) + 4" for n :: int by presburger
  have div100: "100 * (n div 100) \<le> n \<and> n < 100 * (n div 100) + 100" for n :: int by presburger
  have div400: "400 * (n div 400) \<le> n \<and> n < 400 * (n div 400) + 400" for n :: int by presburger
  have est: "400 * dayFromYear y \<le> 146097 * (y - 1970) + 800 \<and> 146097 * (y - 1970) - 800 \<le> 400 * dayFromYear y"
    for y
  proof -
    note div4 [of "y - 1969"] div100 [of "y - 1901"] div400 [of "y - 1601"]
    then show ?thesis unfolding dayFromYear_def by auto
  qed
  have lo: "dayFromYear (1970 + q - 1) \<le> d"
  proof -
    have "400 * dayFromYear (1970 + q - 1) \<le> 146097 * (q - 1) + 800"
      using est [of "1970 + q - 1", THEN conjunct1] by (simp add: algebra_simps)
    with q(1) show ?thesis by simp
  qed
  have hi: "d < dayFromYear (1970 + q + 1 + 1)" 
  proof -
    have "146097 * (q + 2) - 800 \<le> 400 * dayFromYear (1970 + q + 1 + 1)"
      using est [of "1970 + q + 1 + 1", THEN conjunct2] by (simp add: algebra_simps)
    with q(2) show ?thesis by simp
  qed
  show ?thesis
    using lo hi by (auto simp: yearFromDay_def Let_def q_def [symmetric] not_less not_le)
qed

lemma yearFromDay_unique:
  assumes "dayFromYear y \<le> d" "d < dayFromYear (y + 1)"
  shows "yearFromDay d = y"
proof (rule ccontr)
  assume "yearFromDay d \<noteq> y"
  then have "yearFromDay d + 1 \<le> y \<or> y + 1 \<le> yearFromDay d" by linarith
  then show False
    using dayFromYear_mono [of "yearFromDay d + 1" y] dayFromYear_mono [of "y + 1" "yearFromDay d"]
      yearFromDay_bounds [of d] assms by linarith
qed

lemma month_cases: "m < 12 \<Longrightarrow>
   m = 0 \<or> m = 1 \<or> m = 2 \<or> m = 3 \<or> m = 4 \<or> m = 5 \<or> m = 6 \<or> m = 7 \<or> m = 8 \<or> m = 9 \<or> m = 10 \<or> m = (11::nat)"
  by presburger

lemma monthFromDay_start:
  assumes "m < 12" "0 \<le> k" "k < monthLength leap m"
  shows "monthFromDay leap (monthStarts leap ! m + k) = m"
  using month_cases [OF assms(1)] assms(2,3)
  by (elim disjE) (cases leap; simp add: monthFromDay_def monthStarts_def monthLength_def)+

lemma monthStart_end:
  assumes "m < 12"
  shows "0 \<le> monthStarts leap ! m \<and> monthStarts leap ! m + monthLength leap m \<le> (if leap then 366 else 365)"
  using month_cases [OF assms]
  by (elim disjE) (cases leap; simp add: monthStarts_def monthLength_def)+

text \<open>Reading back a day that was made from a valid year, month and day.\<close>

lemma makeDay_fields:
  assumes "0 \<le> m" "m < 12" "1 \<le> d" "d \<le> monthLength (leapYear y) (nat m)"
  shows "yearOf (makeDay y m d) = y" "monthOf (makeDay y m d) = m" "dayOf (makeDay y m d) = d"
proof -
  let ?l = "leapYear y" and ?m = "nat m"
  have mk: "makeDay y m d = dayFromYear y + (monthStarts ?l ! ?m + (d - 1))"
    using assms by (simp add: makeDay_def Let_def)
  have m12: "?m < 12" using assms by linarith
  have "dayFromYear (y + 1) = dayFromYear y + (if ?l then 366 else 365)"
    using not_leapYear [of y] by (auto simp: leapYear_def)
  then show y: "yearOf (makeDay y m d) = y"
    unfolding yearOf_def mk using monthStart_end [OF m12, of ?l] assms
    by (intro yearFromDay_unique) linarith+
  show mm: "monthOf (makeDay y m d) = m"
    using monthFromDay_start [OF m12, of "d - 1" ?l] assms
    unfolding monthOf_def y by (simp add: mk)
  show "dayOf (makeDay y m d) = d" unfolding dayOf_def y mm by (simp add: mk)
qed

lemma monthFromDay_bound:
  assumes "0 \<le> d" "d < (if leap then 366 else 365)"
  shows "monthFromDay leap d < 12 \<and> monthStarts leap ! monthFromDay leap d \<le> d \<and>
    d < monthStarts leap ! monthFromDay leap d + monthLength leap (monthFromDay leap d)"
  using assms by (cases leap) (simp_all add: monthFromDay_def monthStarts_def monthLength_def)

lemma day_fields:
  shows "0 \<le> monthOf day" "monthOf day < 12" "1 \<le> dayOf day"
    "dayOf day \<le> monthLength (leapYear (yearOf day)) (nat (monthOf day))"
    "makeDay (yearOf day) (monthOf day) (dayOf day) = day"
proof -
  let ?l = "leapYear (yearOf day)" and ?d = "day - dayFromYear (yearOf day)"
  have "0 \<le> ?d" "?d < (if ?l then 366 else 365)"
    using yearFromDay_bounds [of day] not_leapYear [of "yearOf day"]
    unfolding yearOf_def leapYear_def by auto
  note b = monthFromDay_bound [OF this]
  show "0 \<le> monthOf day" by (simp add: monthOf_def)
  show "monthOf day < 12" using b by (simp add: monthOf_def)
  show "1 \<le> dayOf day" "dayOf day \<le> monthLength ?l (nat (monthOf day))"
    using b by (simp_all add: dayOf_def monthOf_def)
  show "makeDay (yearOf day) (monthOf day) (dayOf day) = day"
    using b by (simp add: makeDay_def monthOf_def dayOf_def Let_def)
qed

lemma dayOf_le: "dayOf day \<le> 31"
proof -
  have "monthLength l m \<le> 31" if "m < 12" for l m
    using month_cases [OF that] by (elim disjE) (cases l; simp add: monthStarts_def monthLength_def)+
  from this [of "nat (monthOf day)" "leapYear (yearOf day)"] show ?thesis
    using day_fields [of day] by linarith
qed

subsection \<open>Local time\<close>

definition localDay :: "int \<Rightarrow> date \<Rightarrow> int" where
  "localDay tz t = (t + tz) div msPerDay"

definition getFullYear :: "int \<Rightarrow> date \<Rightarrow> int" where
  "getFullYear tz t = yearOf (localDay tz t)"

definition getMonth :: "int \<Rightarrow> date \<Rightarrow> int" where
  "getMonth tz t = monthOf (localDay tz t)"

definition getDate :: "int \<Rightarrow> date \<Rightarrow> int" where
  "getDate tz t = dayOf (localDay tz t)"

text \<open>\<open>new Date(y, m, d)\<close>: a year between 0 and 99 is one of the twentieth century.\<close>

definition newLocalDate :: "int \<Rightarrow> int \<Rightarrow> int \<Rightarrow> int \<Rightarrow> date" where
  "newLocalDate tz y m d =
     makeDay (if 0 \<le> y \<and> y \<le> 99 then 1900 + y else y) m d * msPerDay - tz"

definition startOfDay :: "int \<Rightarrow> date \<Rightarrow> date" where
  "startOfDay tz t = localDay tz t * msPerDay - tz"

lemma localDay_newLocalDate: "99 < y \<Longrightarrow> localDay tz (newLocalDate tz y m d) = makeDay y m d"
  by (simp add: localDay_def newLocalDate_def msPerDay_def)

lemma startOfDay_fields:
  "99 < getFullYear tz t \<Longrightarrow>
   newLocalDate tz (getFullYear tz t) (getMonth tz t) (getDate tz t) = startOfDay tz t"
  by (simp add: newLocalDate_def startOfDay_def getFullYear_def getMonth_def getDate_def day_fields(5))

subsection \<open>The conversions\<close>

definition padded :: "int \<Rightarrow> int \<Rightarrow> int \<Rightarrow> string \<Rightarrow> string" where
  "padded y m d sep = intToString y @ sep @ pad2 m @ sep @ pad2 d"

definition toArcaDate :: "int \<Rightarrow> js_date \<Rightarrow> string" where
  "toArcaDate tz date = (case date of
      None \<Rightarrow> ''NaNNaNNaN''
    | Some t \<Rightarrow> padded (getFullYear tz t) (getMonth tz t + 1) (getDate tz t) '''')"

definition toLocalIsoDate :: "int \<Rightarrow> js_date \<Rightarrow> string" where
  "toLocalIsoDate tz date = (case date of
      None \<Rightarrow> ''NaN-NaN-NaN''
    | Some t \<Rightarrow> padded (getFullYear tz t) (getMonth tz t + 1) (getDate tz t) ''-'')"

text \<open>A part that \<open>Number\<close> does not read makes an Invalid Date.\<close>

definition dateOfNumbers :: "int \<Rightarrow> int option \<Rightarrow> int option \<Rightarrow> int option \<Rightarrow> js_date" where
  "dateOfNumbers tz y m d = (case (y, m, d) of
      (Some y, Some m, Some d) \<Rightarrow> Some (newLocalDate tz y (m - 1) d)
    | _ \<Rightarrow> None)"

definition parseArcaDate :: "int \<Rightarrow> string \<Rightarrow> js_date" where
  "parseArcaDate tz value = dateOfNumbers tz (integerNumber (take 4 value))
     (integerNumber (take 2 (drop 4 value))) (integerNumber (take 2 (drop 6 value)))"

text \<open>\<open>iso.split("-").map(Number)\<close>; a missing part is NaN.\<close>

fun splitOn :: "char \<Rightarrow> string \<Rightarrow> string list" where
  "splitOn c [] = [[]]"
| "splitOn c (x # s) = (if x = c then [] # splitOn c s
     else (case splitOn c s of [] \<Rightarrow> [[x]] | p # ps \<Rightarrow> (x # p) # ps))"

definition partNumber :: "string list \<Rightarrow> nat \<Rightarrow> int option" where
  "partNumber parts i = (if i < length parts then integerNumber (parts ! i) else None)"

definition parseIsoDate :: "int \<Rightarrow> string \<Rightarrow> js_date" where
  "parseIsoDate tz value = (let parts = splitOn (CHR ''-'') value in
     dateOfNumbers tz (partNumber parts 0) (partNumber parts 1) (partNumber parts 2))"

lemma integerNumber_pad2 [simp]: "0 \<le> n \<Longrightarrow> n < 100 \<Longrightarrow> integerNumber (pad2 n) = Some n"
  by (simp add: integerNumber_digits pad2_props)

lemma integerNumber_year [simp]: "0 \<le> n \<Longrightarrow> n < 10000 \<Longrightarrow> integerNumber (intToString n) = Some n"
  using digitsOf_isDigit [of n] digitsOf_length [of n 4] by (simp add: integerNumber_digits intToString_def)

lemma length_year: "1000 \<le> y \<Longrightarrow> y < 10000 \<Longrightarrow> length (intToString y) = 4"
proof -
  assume y: "1000 \<le> y" "y < 10000"
  have "y < 10 ^ length (digitsOf y)"
    using valueOf_bound [of "digitsOf y"] digitsOf_isDigit [of y] y by simp
  moreover have "(10::int) ^ length (digitsOf y) \<le> 10 ^ 3" if "length (digitsOf y) \<le> 3"
    using that by (intro power_increasing) auto
  ultimately have "\<not> length (digitsOf y) \<le> 3" using y by auto
  then show ?thesis using digitsOf_length [of y 4] y by (simp add: intToString_def)
qed

text \<open>
  A date written for ARCA and read back is the start of the same local day; the text has
  eight characters.
\<close>

lemma arca_date_fields:
  "0 \<le> getMonth tz t + 1" "getMonth tz t + 1 < 100" "0 \<le> getDate tz t" "getDate tz t < 100"
  using day_fields(1-3) [of "localDay tz t"] dayOf_le [of "localDay tz t"]
  by (simp_all add: getMonth_def getDate_def)

lemma parse_toArcaDate:
  assumes "1000 \<le> getFullYear tz t" "getFullYear tz t < 10000"
  shows "parseArcaDate tz (toArcaDate tz (Some t)) = Some (startOfDay tz t)"
    and "length (toArcaDate tz (Some t)) = 8"
proof -
  let ?y = "getFullYear tz t" and ?m = "getMonth tz t + 1" and ?d = "getDate tz t"
  have l: "length (intToString ?y) = 4" using length_year assms by blast
  have t: "toArcaDate tz (Some t) = intToString ?y @ pad2 ?m @ pad2 ?d"
    by (simp add: toArcaDate_def padded_def)
  show "parseArcaDate tz (toArcaDate tz (Some t)) = Some (startOfDay tz t)"
    "length (toArcaDate tz (Some t)) = 8"
    using l pad2_props(1) [of ?m] pad2_props(1) [of ?d] arca_date_fields [of tz t] assms
    by (simp_all add: t parseArcaDate_def dateOfNumbers_def startOfDay_fields)
qed

lemma splitOn_none: "c \<notin> set p \<Longrightarrow> splitOn c p = [p]"
  by (induction p) auto

lemma splitOn_sep: "c \<notin> set p \<Longrightarrow> splitOn c (p @ c # s) = p # splitOn c s"
  by (induction p) auto

lemma parse_toLocalIsoDate:
  assumes "100 \<le> getFullYear tz t" "getFullYear tz t < 10000"
  shows "parseIsoDate tz (toLocalIsoDate tz (Some t)) = Some (startOfDay tz t)"
proof -
  let ?y = "getFullYear tz t" and ?m = "getMonth tz t + 1" and ?d = "getDate tz t"
  have dash: "list_all isDigit s \<Longrightarrow> CHR ''-'' \<notin> set s" for s
    by (auto simp: list_all_iff isDigit_def)
  have "CHR ''-'' \<notin> set (intToString ?y)"
    using assms digitsOf_isDigit [of ?y] by (auto simp: intToString_def intro!: dash)
  moreover have "CHR ''-'' \<notin> set (pad2 ?m)" "CHR ''-'' \<notin> set (pad2 ?d)"
    using pad2_props(3) arca_date_fields [of tz t] by (blast intro!: dash)+
  moreover have "toLocalIsoDate tz (Some t) = intToString ?y @ CHR ''-'' # pad2 ?m @ CHR ''-'' # pad2 ?d"
    by (simp add: toLocalIsoDate_def padded_def)
  ultimately have "splitOn (CHR ''-'') (toLocalIsoDate tz (Some t)) = [intToString ?y, pad2 ?m, pad2 ?d]"
    by (simp add: splitOn_sep splitOn_none)
  then show ?thesis
    using assms arca_date_fields [of tz t]
    by (simp add: parseIsoDate_def partNumber_def dateOfNumbers_def startOfDay_fields)
qed

end
