(* ===== verification/WsfeRequest.thy ===== *)
theory WsfeRequest
  imports IvaCalculator JsDate VoucherSchema
begin

text \<open>
  The request for a CAE: the types of \<open>wsfe.types.ts\<close>, the optional data of a MiPyME
  credit invoice (\<open>credit-invoice-optionals.ts\<close>) and the XML body of
  \<open>FECAESolicitar\<close> (\<open>wsfe-request-xml.ts\<close>).
\<close>

subsection \<open>Types\<close>

record AuthContext =
  auth_issuerId :: string
  auth_cuit :: string
  auth_token :: string
  auth_sign :: string
  auth_environment :: string

record ArcaOptional =
  optional_id :: int
  optional_value :: string

record CaeRecipient =
  cae_docType :: int
  cae_docNumber :: string
  cae_ivaConditionId :: int

record CaeRequest =
  req_salesPoint :: int
  req_voucherType :: int
  req_concept :: VoucherConcept
  req_number :: int
  req_date :: js_date
  req_recipient :: CaeRecipient
  req_amounts :: VoucherAmounts
  req_currency :: string
  req_exchangeRate :: number
  req_associatedVouchers :: "associatedVoucher list option"
  req_servicePeriod :: "servicePeriod option"
  req_paymentDueDate :: "string option"
  req_optionals :: "ArcaOptional list option"

record ArcaObservation =
  obs_code :: string
  obs_message :: string

record CaeResult =
  cae_code :: string
  cae_vto :: js_date
  cae_observations :: "ArcaObservation list"

record AuthorizedVoucherDetail =
  detail_cae :: CaeResult
  detail_number :: int
  detail_totalAmount :: number
  detail_recipientDocType :: int
  detail_recipientDocNumber :: string
  detail_date :: js_date

subsection \<open>Optional data of a credit invoice\<close>

record PaymentAccountHolder =
  cbu :: "string option"
  paymentAlias :: "string option"

abbreviation (input) CANCELLATION :: int where "CANCELLATION \<equiv> 22"
abbreviation (input) TRANSMISSION_TYPE :: int where "TRANSMISSION_TYPE \<equiv> 27"
abbreviation (input) CBU :: int where "CBU \<equiv> 2101"
abbreviation (input) PAYMENT_ALIAS :: int where "PAYMENT_ALIAS \<equiv> 2102"

definition CANCELLATION_NO :: string where
  "CANCELLATION_NO = ''N''"

definition missingCbuMessage :: string where
  "missingCbuMessage =
     ''Para emitir una Factura de Cr'' @ [CHR 0xE9] @ ''dito Electr'' @ [CHR 0xF3] @ ''nica MiPyME hay que cargar el CBU del emisor.''"

definition buildCreditInvoiceOptionals ::
  "int \<Rightarrow> 'a PaymentAccountHolder_scheme \<Rightarrow> TransmissionTypeName option \<Rightarrow> app_error + ArcaOptional list" where
  "buildCreditInvoiceOptionals vt issuer transmission =
     (if \<not> isCreditInvoice vt then Inr []
      else if isCreditDebitNote vt
        then Inr [\<lparr>optional_id = CANCELLATION, optional_value = CANCELLATION_NO\<rparr>]
      else if \<not> hasText (cbu issuer) then Inl (BadRequest missingCbuMessage)
      else Inr
        ([\<lparr>optional_id = CBU, optional_value = the (cbu issuer)\<rparr>,
          \<lparr>optional_id = TRANSMISSION_TYPE, optional_value = transmissionTypeValue (orElse transmission SCA)\<rparr>] @
         (if hasText (paymentAlias issuer)
          then [\<lparr>optional_id = PAYMENT_ALIAS, optional_value = the (paymentAlias issuer)\<rparr>] else [])))"

subsection \<open>The XML body\<close>

definition amountText :: "number \<Rightarrow> string" where
  "amountText value = toFixed2 value"

definition isoToArcaDate :: "string \<Rightarrow> string" where
  "isoToArcaDate value = removeDashes value"

definition element :: "string \<Rightarrow> string \<Rightarrow> string" where
  "element name body = ''<ar:'' @ name @ ''>'' @ body @ ''</ar:'' @ name @ ''>''"

definition optionalTag :: "string \<Rightarrow> string option \<Rightarrow> string" where
  "optionalTag name value = (if hasText value then element name (the value) else '''')"

definition buildCaeHeader :: "CaeRequest \<Rightarrow> string" where
  "buildCaeHeader request = element ''FeCabReq''
     (element ''CantReg'' ''1'' @
      element ''PtoVta'' (intToString (req_salesPoint request)) @
      element ''CbteTipo'' (intToString (req_voucherType request)))"

definition associatedVoucherXml :: "associatedVoucher \<Rightarrow> string" where
  "associatedVoucherXml v = element ''CbteAsoc''
     (element ''Tipo'' (intToString (assoc_type v)) @
      element ''PtoVta'' (intToString (assoc_salesPoint v)) @
      element ''Nro'' (intToString (assoc_number v)) @
      optionalTag ''Cuit'' (assoc_cuit v) @
      optionalTag ''CbteFch'' (assoc_date v))"

definition buildAssociatedVouchers :: "CaeRequest \<Rightarrow> string" where
  "buildAssociatedVouchers request = (let associated = orElse (req_associatedVouchers request) [] in
     if associated = [] then '''' else element ''CbtesAsoc'' (concat (map associatedVoucherXml associated)))"

definition tributeXml :: "ArcaTribute \<Rightarrow> string" where
  "tributeXml t = element ''Tributo''
     (element ''Id'' (intToString (at_id t)) @
      element ''Desc'' (escapeXml (Some (at_description t))) @
      element ''BaseImp'' (amountText (at_taxableBase t)) @
      element ''Alic'' (amountText (at_rate t)) @
      element ''Importe'' (amountText (at_amount t)))"

definition buildTributes :: "CaeRequest \<Rightarrow> string" where
  "buildTributes request = (let ts = amount_tributes (req_amounts request) in
     if ts = [] then '''' else element ''Tributos'' (concat (map tributeXml ts)))"

definition buildServicePeriod :: "CaeRequest \<Rightarrow> string" where
  "buildServicePeriod request =
     (case req_servicePeriod request of None \<Rightarrow> ''''
      | Some p \<Rightarrow> element ''FchServDesde'' (isoToArcaDate (period_from p)) @
                  element ''FchServHasta'' (isoToArcaDate (period_to p))) @
     (if hasText (req_paymentDueDate request)
      then element ''FchVtoPago'' (isoToArcaDate (the (req_paymentDueDate request))) else '''')"

definition optionalXml :: "ArcaOptional \<Rightarrow> string" where
  "optionalXml opt = element ''Opcional''
     (element ''Id'' (intToString (optional_id opt)) @
      element ''Valor'' (escapeXml (Some (optional_value opt))))"

definition buildOptionals :: "CaeRequest \<Rightarrow> string" where
  "buildOptionals request = (let optionals = orElse (req_optionals request) [] in
     if optionals = [] then '''' else element ''Opcionales'' (concat (map optionalXml optionals)))"

definition ivaRateXml :: "ArcaIvaRate \<Rightarrow> string" where
  "ivaRateXml r = element ''AlicIva''
     (element ''Id'' (intToString (rate_id r)) @
      element ''BaseImp'' (amountText (rate_taxableBase r)) @
      element ''Importe'' (amountText (rate_amount r)))"

definition buildIvaRates :: "CaeRequest \<Rightarrow> string" where
  "buildIvaRates request = (let rs = rates (req_amounts request) in
     if rs = [] then '''' else element ''Iva'' (concat (map ivaRateXml rs)))"

definition buildCaeDetail :: "int \<Rightarrow> CaeRequest \<Rightarrow> string" where
  "buildCaeDetail tz request = (let amounts = req_amounts request in
     element ''FeDetReq'' (element ''FECAEDetRequest''
       (element ''Concepto'' (intToString (conceptId (req_concept request))) @
        element ''DocTipo'' (intToString (cae_docType (req_recipient request))) @
        element ''DocNro'' (removeDashes (cae_docNumber (req_recipient request))) @
        element ''CbteDesde'' (intToString (req_number request)) @
        element ''CbteHasta'' (intToString (req_number request)) @
        element ''CbteFch'' (toArcaDate tz (req_date request)) @
        element ''ImpTotal'' (amountText (totalAmount amounts)) @
        element ''ImpTotConc'' (amountText (untaxedAmount amounts)) @
        element ''ImpNeto'' (amountText (netAmount amounts)) @
        element ''ImpOpEx'' (amountText (exemptAmount amounts)) @
        element ''ImpTrib'' (amountText (tributeAmount amounts)) @
        element ''ImpIVA'' (amountText (ivaAmount amounts)) @
        buildServicePeriod request @
        element ''MonId'' (req_currency request) @
        element ''MonCotiz'' (numberToString (req_exchangeRate request)) @
        element ''CondicionIVAReceptorId'' (intToString (cae_ivaConditionId (req_recipient request))) @
        buildAssociatedVouchers request @
        buildTributes request @
        buildIvaRates request @
        buildOptionals request)))"

end
