(* ===== verification/JsJson.thy ===== *)
theory JsJson
  imports JsNumberText
begin

text \<open>
  \<open>JSON.stringify\<close>, \<open>JSON.parse\<close> and the base64 encoding of \<open>Buffer\<close>, as
  far as the backend uses them: the payload of the fiscal QR code (\<open>qr.util.ts\<close>,
  \<open>qr-image.util.ts\<close>).
\<close>

subsection \<open>JSON\<close>

text \<open>A number that is not finite (\<open>None\<close>) is written as null.\<close>

datatype json =
    JNull
  | JBool bool
  | JNum "number option"
  | JStr string
  | JArr "json list"
  | JObj "(string \<times> json) list"

definition hexDigit :: "nat \<Rightarrow> char" where
  "hexDigit n = char_of (if n < 10 then 48 + n else 87 + n)"

definition jsonChar :: "char \<Rightarrow> string" where
  "jsonChar c = (let n = of_char c :: nat in
     if c = CHR 0x22 then [CHR 0x5C, CHR 0x22]
     else if c = CHR 0x5C then [CHR 0x5C, CHR 0x5C]
     else if n = 8 then CHR 0x5C # ''b''
     else if n = 12 then CHR 0x5C # ''f''
     else if n = 10 then CHR 0x5C # ''n''
     else if n = 13 then CHR 0x5C # ''r''
     else if n = 9 then CHR 0x5C # ''t''
     else if n < 32 then CHR 0x5C # ''u00'' @ [hexDigit (n div 16), hexDigit (n mod 16)]
     else [c])"

definition jsonString :: "string \<Rightarrow> string" where
  "jsonString s = CHR 0x22 # concat (map jsonChar s) @ [CHR 0x22]"

definition joinWith :: "string \<Rightarrow> string list \<Rightarrow> string" where
  "joinWith sep xs = (case xs of [] \<Rightarrow> [] | x # ys \<Rightarrow> x @ concat (map (\<lambda>y. sep @ y) ys))"

fun stringify :: "json \<Rightarrow> string" where
  "stringify JNull = ''null''"
| "stringify (JBool b) = (if b then ''true'' else ''false'')"
| "stringify (JNum None) = ''null''"
| "stringify (JNum (Some x)) = numberToString x"
| "stringify (JStr s) = jsonString s"
| "stringify (JArr xs) = ''['' @ joinWith '','' (map stringify xs) @ '']''"
| "stringify (JObj fs) = CHR 0x7B # joinWith '','' (map (\<lambda>(k, v). jsonString k @ '':'' @ stringify v) fs) @ [CHR 0x7D]"

subsection \<open>Parsing\<close>

definition skipWs :: "string \<Rightarrow> string" where
  "skipWs s = dropWhile (\<lambda>c. (of_char c :: nat) \<in> {9, 10, 13, 32}) s"

text \<open>The UTF-8 bytes of the code unit of an escape; a surrogate is encoded on its own.\<close>

definition utf8 :: "nat \<Rightarrow> string" where
  "utf8 n = (if n < 128 then [char_of n]
     else if n < 2048 then [char_of (192 + n div 64), char_of (128 + n mod 64)]
     else [char_of (224 + n div 4096), char_of (128 + n div 64 mod 64), char_of (128 + n mod 64)])"

definition simpleEscape :: "char \<Rightarrow> char option" where
  "simpleEscape c =
     (if c = CHR 0x22 \<or> c = CHR 0x5C \<or> c = CHR ''/'' then Some c
      else if c = CHR ''b'' then Some (char_of (8::nat)) else if c = CHR ''f'' then Some (char_of (12::nat))
      else if c = CHR ''n'' then Some (char_of (10::nat)) else if c = CHR ''r'' then Some (char_of (13::nat))
      else if c = CHR ''t'' then Some (char_of (9::nat)) else None)"

text \<open>The characters of a string literal after its opening quote.\<close>

function stringRest :: "string \<Rightarrow> (string \<times> string) option" where
  "stringRest s = (case s of
      [] \<Rightarrow> None
    | c # r \<Rightarrow>
        if c = CHR 0x22 then Some ([], r)
        else if (of_char c :: nat) < 32 then None
        else if c \<noteq> CHR 0x5C then map_option (\<lambda>(t, r'). (c # t, r')) (stringRest r)
        else (case r of
            [] \<Rightarrow> None
          | e # r' \<Rightarrow>
              if e = CHR ''u'' then
                (let hex = take 4 r' in
                 if length hex = 4 \<and> list_all (\<lambda>h. radixDigit h < 16) hex
                 then map_option (\<lambda>(t, q). (utf8 (foldl (\<lambda>acc h. 16 * acc + radixDigit h) 0 hex) @ t, q))
                        (stringRest (drop 4 r'))
                 else None)
              else (case simpleEscape e of
                  None \<Rightarrow> None
                | Some x \<Rightarrow> map_option (\<lambda>(t, q). (x # t, q)) (stringRest r'))))"
  by pat_completeness auto
termination
  by (relation "measure length") auto

declare stringRest.simps [simp del]

definition isNumberChar :: "char \<Rightarrow> bool" where
  "isNumberChar c = (isDigit c \<or> c \<in> set ''+-.eE'')"

text \<open>A JSON number has no superfluous leading zero, and digits on both sides of its point.\<close>

definition jsonNumberText :: "string \<Rightarrow> bool" where
  "jsonNumberText s =
     (let u = (case s of c # r \<Rightarrow> if c = CHR ''-'' then r else s | [] \<Rightarrow> []);
          whole = takeWhile isDigit u; r = dropWhile isDigit u in
      whole \<noteq> [] \<and> (length whole = 1 \<or> hd whole \<noteq> CHR ''0'') \<and>
      (case r of
          [] \<Rightarrow> True
        | c # r' \<Rightarrow> if c = CHR ''.'' then takeWhile isDigit r' \<noteq> [] \<and> exponentOf (dropWhile isDigit r') \<noteq> None
                    else exponentOf r \<noteq> None))"

definition parseNumber :: "string \<Rightarrow> (json \<times> string) option" where
  "parseNumber s = (let t = takeWhile isNumberChar s in
     if jsonNumberText t then Some (JNum (js_Number t), dropWhile isNumberChar s) else None)"

text \<open>Fuel bounds the nesting and the number of elements; the length of the text is enough.\<close>

fun parseValue :: "nat \<Rightarrow> string \<Rightarrow> (json \<times> string) option"
  and parseElements :: "nat \<Rightarrow> string \<Rightarrow> (json list \<times> string) option"
  and parseMembers :: "nat \<Rightarrow> string \<Rightarrow> ((string \<times> json) list \<times> string) option" where
  "parseValue 0 s = None"
| "parseValue (Suc f) s = (case skipWs s of
      [] \<Rightarrow> None
    | c # r \<Rightarrow>
        if c = CHR 0x22 then map_option (\<lambda>(t, q). (JStr t, q)) (stringRest r)
        else if c = CHR 0x7B then
          (case skipWs r of
              [] \<Rightarrow> None
            | d # q \<Rightarrow> if d = CHR 0x7D then Some (JObj [], q)
                       else map_option (\<lambda>(ms, q'). (JObj ms, q')) (parseMembers f r))
        else if c = CHR ''['' then
          (case skipWs r of
              [] \<Rightarrow> None
            | d # q \<Rightarrow> if d = CHR '']'' then Some (JArr [], q)
                       else map_option (\<lambda>(xs, q'). (JArr xs, q')) (parseElements f r))
        else if take 4 (c # r) = ''null'' then Some (JNull, drop 4 (c # r))
        else if take 4 (c # r) = ''true'' then Some (JBool True, drop 4 (c # r))
        else if take 5 (c # r) = ''false'' then Some (JBool False, drop 5 (c # r))
        else parseNumber (c # r))"
| "parseElements 0 s = None"
| "parseElements (Suc f) s = (case parseValue f s of
      None \<Rightarrow> None
    | Some (v, r) \<Rightarrow> (case skipWs r of
          [] \<Rightarrow> None
        | d # q \<Rightarrow> if d = CHR '']'' then Some ([v], q)
                   else if d = CHR '','' then map_option (\<lambda>(vs, q'). (v # vs, q')) (parseElements f q)
                   else None))"
| "parseMembers 0 s = None"
| "parseMembers (Suc f) s = (case skipWs s of
      [] \<Rightarrow> None
    | c # r \<Rightarrow>
        if c \<noteq> CHR 0x22 then None
        else (case stringRest r of
            None \<Rightarrow> None
          | Some (k, q) \<Rightarrow> (case skipWs q of
                [] \<Rightarrow> None
              | d # q' \<Rightarrow>
                  if d \<noteq> CHR '':'' then None
                  else (case parseValue f q' of
                      None \<Rightarrow> None
                    | Some (v, t) \<Rightarrow> (case skipWs t of
                          [] \<Rightarrow> None
                        | e # t' \<Rightarrow> if e = CHR 0x7D then Some ([(k, v)], t')
                                    else if e = CHR '','' then map_option (\<lambda>(ms, z). ((k, v) # ms, z)) (parseMembers f t')
                                    else None)))))"

definition jsonParse :: "string \<Rightarrow> json option" where
  "jsonParse s = (case parseValue (Suc (length s)) s of
      Some (v, r) \<Rightarrow> if skipWs r = [] then Some v else None
    | None \<Rightarrow> None)"

text \<open>The value of a property: the last of its name wins.\<close>

definition property :: "string \<Rightarrow> json \<Rightarrow> json option" where
  "property k v = (case v of JObj fs \<Rightarrow> map_of (rev fs) k | _ \<Rightarrow> None)"

subsection \<open>Base64\<close>

definition base64Alphabet :: string where
  "base64Alphabet = ''ABCDEFGHIJKLMNOPQRSTUVWXYZabcdefghijklmnopqrstuvwxyz0123456789+/''"

definition base64Char :: "nat \<Rightarrow> char" where
  "base64Char n = base64Alphabet ! n"

fun base64 :: "nat list \<Rightarrow> string" where
  "base64 [] = []"
| "base64 [a] = [base64Char (a div 4), base64Char (a mod 4 * 16), CHR ''='', CHR ''='']"
| "base64 [a, b] = [base64Char (a div 4), base64Char (a mod 4 * 16 + b div 16),
     base64Char (b mod 16 * 4), CHR ''='']"
| "base64 (a # b # c # r) = base64Char (a div 4) # base64Char (a mod 4 * 16 + b div 16) #
     base64Char (b mod 16 * 4 + c div 64) # base64Char (c mod 64) # base64 r"

text \<open>
  Decoding accepts the URL alphabet too, ignores every other character and stops at the first
  padding character.
\<close>

definition base64Value :: "char \<Rightarrow> nat option" where
  "base64Value c = (let n = of_char c in
     if 65 \<le> n \<and> n \<le> 90 then Some (n - 65)
     else if 97 \<le> n \<and> n \<le> 122 then Some (n - 71)
     else if 48 \<le> n \<and> n \<le> 57 then Some (n + 4)
     else if c = CHR ''+'' \<or> c = CHR ''-'' then Some 62
     else if c = CHR ''/'' \<or> c = CHR ''_'' then Some 63 else None)"

fun sextets :: "nat list \<Rightarrow> nat list" where
  "sextets (a # b # c # d # r) =
     (a * 4 + b div 16) # (b mod 16 * 16 + c div 4) # (c mod 4 * 64 + d) # sextets r"
| "sextets [a, b, c] = [a * 4 + b div 16, b mod 16 * 16 + c div 4]"
| "sextets [a, b] = [a * 4 + b div 16]"
| "sextets _ = []"

definition base64Decode :: "string \<Rightarrow> nat list" where
  "base64Decode s = sextets (List.map_filter base64Value (takeWhile (\<lambda>c. c \<noteq> CHR ''='') s))"

definition bytesOf :: "string \<Rightarrow> nat list" where
  "bytesOf s = map of_char s"

definition textOf :: "nat list \<Rightarrow> string" where
  "textOf bs = map char_of bs"

end
