(* ===== verification/Qr.thy ===== *)
theory Qr
  imports JsJson JsDate
begin

text \<open>
  The fiscal QR code of an authorised voucher: \<open>buildQrUrl\<close> of \<open>qr.util.ts\<close> and
  its reading, \<open>recipientFromQr\<close> of \<open>qr-image.util.ts\<close>. Drawing the code is not
  modelled.
\<close>

record QrData =
  qr_date :: js_date
  qr_issuerCuit :: string
  qr_salesPoint :: int
  qr_voucherType :: int
  qr_number :: int
  qr_totalAmount :: number
  qr_currency :: string
  qr_exchangeRate :: number
  qr_recipientDocType :: int
  qr_recipientDocNumber :: string
  qr_cae :: string

definition BASE_URL :: string where
  "BASE_URL = ''https://www.afip.gob.ar/fe/qr/?p=''"

abbreviation (input) jsonInt :: "int \<Rightarrow> json" where
  "jsonInt n \<equiv> JNum (Some (of_int n))"

definition qrPayload :: "int \<Rightarrow> QrData \<Rightarrow> json" where
  "qrPayload tz d = JObj [
     (''ver'', jsonInt 1),
     (''fecha'', JStr (toLocalIsoDate tz (qr_date d))),
     (''cuit'', JNum (js_Number (qr_issuerCuit d))),
     (''ptoVta'', jsonInt (qr_salesPoint d)),
     (''tipoCmp'', jsonInt (qr_voucherType d)),
     (''nroCmp'', jsonInt (qr_number d)),
     (''importe'', JNum (Some (qr_totalAmount d))),
     (''moneda'', JStr (qr_currency d)),
     (''ctz'', JNum (Some (qr_exchangeRate d))),
     (''tipoDocRec'', jsonInt (qr_recipientDocType d)),
     (''nroDocRec'', JNum (js_Number (removeDashes (qr_recipientDocNumber d)))),
     (''tipoCodAut'', JStr ''E''),
     (''codAut'', JNum (js_Number (qr_cae d)))]"

definition buildQrUrl :: "int \<Rightarrow> QrData \<Rightarrow> string" where
  "buildQrUrl tz d = BASE_URL @ base64 (bytesOf (stringify (qrPayload tz d)))"

subsection \<open>Reading the recipient back\<close>

record QrRecipient =
  qrDocType :: "number option"
  qrDocNumber :: string

text \<open>\<open>split("?p=")[1]\<close>.\<close>

fun afterFirst :: "string \<Rightarrow> string \<Rightarrow> string option" where
  "afterFirst sep [] = None"
| "afterFirst sep (c # s) =
     (if take (length sep) (c # s) = sep then Some (drop (length sep) (c # s)) else afterFirst sep s)"

fun beforeFirst :: "string \<Rightarrow> string \<Rightarrow> string" where
  "beforeFirst sep [] = []"
| "beforeFirst sep (c # s) =
     (if take (length sep) (c # s) = sep then [] else c # beforeFirst sep s)"

definition secondPart :: "string \<Rightarrow> string \<Rightarrow> string option" where
  "secondPart sep s = map_option (beforeFirst sep) (afterFirst sep s)"

text \<open>\<open>Number(value)\<close> and \<open>String(value)\<close> of a JSON value.\<close>

fun jsonText :: "json \<Rightarrow> string" where
  "jsonText JNull = ''null''"
| "jsonText (JBool b) = (if b then ''true'' else ''false'')"
| "jsonText (JNum (Some x)) = numberToString x"
| "jsonText (JNum None) = ''Infinity''"
| "jsonText (JStr s) = s"
| "jsonText (JArr xs) = joinWith '','' (map (\<lambda>x. if x = JNull then [] else jsonText x) xs)"
| "jsonText (JObj fs) = ''[object Object]''"

fun jsonNumber :: "json \<Rightarrow> number option" where
  "jsonNumber JNull = Some 0"
| "jsonNumber (JBool b) = Some (if b then 1 else 0)"
| "jsonNumber (JNum x) = x"
| "jsonNumber v = js_Number (jsonText v)"

definition isScalar :: "json \<Rightarrow> bool" where
  "isScalar v = (case v of JStr _ \<Rightarrow> True | JNum _ \<Rightarrow> True | JBool _ \<Rightarrow> True | _ \<Rightarrow> False)"

definition recipientFromQr :: "string \<Rightarrow> QrRecipient option" where
  "recipientFromQr qrUrl =
     (case secondPart ''?p='' qrUrl of
        None \<Rightarrow> None
      | Some encoded \<Rightarrow>
          if \<not> hasText (Some encoded) then None
          else (case jsonParse (textOf (base64Decode encoded)) of
              None \<Rightarrow> None
            | Some decoded \<Rightarrow>
                (case property ''nroDocRec'' decoded of
                    None \<Rightarrow> None
                  | Some nro \<Rightarrow>
                      if \<not> isScalar nro then None
                      else (case property ''tipoDocRec'' decoded of
                          None \<Rightarrow> None
                        | Some tipo \<Rightarrow>
                            if tipo = JNull then None
                            else Some \<lparr>qrDocType = jsonNumber tipo, qrDocNumber = jsonText nro\<rparr>))))"

end
