(* ===== verification/ExportVouchers.thy ===== *)
theory ExportVouchers
  imports VoucherSchema
begin

text \<open>
  The request to issue an export voucher and its totals, \<open>shared/src/export-voucher.ts\<close>:
  the inferred types of the schema as records, the issues that Zod collects, and the total of a
  line and of a voucher. As in \<open>VoucherSchema\<close>, a value has already the shape of the
  schema: one of the literals, integers where \<open>int()\<close> is asked, and the discount filled
  in.
\<close>

subsection \<open>Data\<close>

datatype ExportType = GOODS | EXPORT_SERVICES | OTHER

definition exportTypeId :: "ExportType \<Rightarrow> int" where
  "exportTypeId t = (case t of GOODS \<Rightarrow> 1 | EXPORT_SERVICES \<Rightarrow> 2 | OTHER \<Rightarrow> 4)"

definition exportTypeName :: "int \<Rightarrow> string option" where
  "exportTypeName n =
     (if n = 1 then Some (''Exportaci'' @ [CHR 0xF3] @ ''n definitiva de bienes'')
      else if n = 2 then Some ''Servicios'' else if n = 4 then Some ''Otros'' else None)"

datatype VoucherLanguage = SPANISH | ENGLISH | PORTUGUESE

definition voucherLanguageId :: "VoucherLanguage \<Rightarrow> int" where
  "voucherLanguageId l = (case l of SPANISH \<Rightarrow> 1 | ENGLISH \<Rightarrow> 2 | PORTUGUESE \<Rightarrow> 3)"

definition voucherLanguageName :: "int \<Rightarrow> string option" where
  "voucherLanguageName n =
     (if n = 1 then Some (''Espa'' @ [CHR 0xF1] @ ''ol'') else if n = 2 then Some (''Ingl'' @ [CHR 0xE9] @ ''s'')
      else if n = 3 then Some (''Portugu'' @ [CHR 0xE9] @ ''s'') else None)"

datatype ExportVoucherType = EXPORT_INVOICE | EXPORT_DEBIT_NOTE | EXPORT_CREDIT_NOTE

definition exportVoucherTypeId :: "ExportVoucherType \<Rightarrow> int" where
  "exportVoucherTypeId t =
     (case t of EXPORT_INVOICE \<Rightarrow> FACTURA_E | EXPORT_DEBIT_NOTE \<Rightarrow> NOTA_DEBITO_E | EXPORT_CREDIT_NOTE \<Rightarrow> NOTA_CREDITO_E)"

definition requiresShippingPermit :: "ExportType \<Rightarrow> bool" where
  "requiresShippingPermit t = (t = GOODS)"

record ExportItem =
  exi_code :: "string option"
  exi_description :: string
  exi_quantity :: number
  exi_unitOfMeasureId :: int
  exi_unitPrice :: number
  exi_discount :: number

record ShippingPermit =
  permitId :: string
  permit_destinationCountryId :: int

record ExportClient =
  exc_legalName :: string
  exc_address :: string
  exc_taxId :: "string option"

record ExportAssociation =
  exa_type :: int
  exa_salesPoint :: int
  exa_number :: int

record IssueExportVoucher =
  ex_issuerId :: string
  ex_salesPoint :: int
  ex_voucherType :: ExportVoucherType
  ex_exportType :: ExportType
  ex_destinationCountryId :: int
  ex_countryTaxId :: string
  ex_client :: ExportClient
  ex_currency :: string
  ex_exchangeRate :: number
  ex_language :: VoucherLanguage
  ex_incoterm :: "string option"
  ex_incotermDescription :: "string option"
  ex_paymentMethod :: "string option"
  ex_commercialNotes :: "string option"
  ex_notes :: "string option"
  ex_shippingPermits :: "ShippingPermit list option"
  ex_items :: "ExportItem list"
  ex_associatedVouchers :: "ExportAssociation list option"

subsection \<open>The schema\<close>

datatype export_issue = ExportField issue_code | ShippingPermitNotAllowed | IncotermRequired

type_synonym export_issues = "(path_elem list \<times> export_issue) list"

definition exportItemIssues :: "path_elem list \<Rightarrow> ExportItem \<Rightarrow> issue list" where
  "exportItemIssues path i =
     optionalIssue (\<lambda>code. code \<noteq> '''') (exi_code i) (path @ [Field ''code'']) @
     issueWhen (exi_description i = '''') (path @ [Field ''description'']) TooSmall @
     issueWhen (\<not> 0 < exi_quantity i) (path @ [Field ''quantity'']) TooSmall @
     issueWhen (\<not> 0 < exi_unitOfMeasureId i) (path @ [Field ''unitOfMeasureId'']) TooSmall @
     issueWhen (\<not> 0 \<le> exi_unitPrice i) (path @ [Field ''unitPrice'']) TooSmall @
     issueWhen (\<not> 0 \<le> exi_discount i) (path @ [Field ''discount'']) TooSmall"

definition shippingPermitIssues :: "path_elem list \<Rightarrow> ShippingPermit \<Rightarrow> issue list" where
  "shippingPermitIssues path s =
     issueWhen (permitId s = '''') (path @ [Field ''permitId'']) TooSmall @
     issueWhen (\<not> 0 < permit_destinationCountryId s) (path @ [Field ''destinationCountryId'']) TooSmall"

definition exportAssociationIssues :: "path_elem list \<Rightarrow> ExportAssociation \<Rightarrow> issue list" where
  "exportAssociationIssues path a =
     issueWhen (\<not> 0 < exa_type a) (path @ [Field ''type'']) TooSmall @
     issueWhen (\<not> 0 < exa_salesPoint a) (path @ [Field ''salesPoint'']) TooSmall @
     issueWhen (\<not> 0 < exa_number a) (path @ [Field ''number'']) TooSmall"

definition exportObjectIssues :: "IssueExportVoucher \<Rightarrow> issue list" where
  "exportObjectIssues d =
     issueWhen (ex_issuerId d = '''') [Field ''issuerId''] TooSmall @
     issueWhen (\<not> 0 < ex_salesPoint d) [Field ''salesPoint''] TooSmall @
     issueWhen (\<not> 0 < ex_destinationCountryId d) [Field ''destinationCountryId''] TooSmall @
     issueWhen (\<not> isDigits 11 (ex_countryTaxId d)) [Field ''countryTaxId''] InvalidString @
     issueWhen (exc_legalName (ex_client d) = '''') [Field ''client'', Field ''legalName''] TooSmall @
     issueWhen (exc_address (ex_client d) = '''') [Field ''client'', Field ''address''] TooSmall @
     issueWhen (length (ex_currency d) < 3) [Field ''currency''] TooSmall @
     issueWhen (\<not> 0 < ex_exchangeRate d) [Field ''exchangeRate''] TooSmall @
     indexedIssues shippingPermitIssues ''shippingPermits'' (orElse (ex_shippingPermits d) []) @
     issueWhen (ex_items d = []) [Field ''items''] TooSmall @
     indexedIssues exportItemIssues ''items'' (ex_items d) @
     indexedIssues exportAssociationIssues ''associatedVouchers'' (orElse (ex_associatedVouchers d) [])"

definition exportRefinements :: "IssueExportVoucher \<Rightarrow> export_issues" where
  "exportRefinements d =
     (let permits = orElse (ex_shippingPermits d) [] in
      (if \<not> requiresShippingPermit (ex_exportType d) \<and> 0 < length permits
       then [([Field ''shippingPermits''], ShippingPermitNotAllowed)] else []) @
      (if ex_exportType d = GOODS \<and> \<not> hasText (ex_incoterm d) then [([Field ''incoterm''], IncotermRequired)] else []))"

definition issueExportVoucherIssues :: "IssueExportVoucher \<Rightarrow> export_issues" where
  "issueExportVoucherIssues d = map (\<lambda>(path, code). (path, ExportField code)) (exportObjectIssues d) @ exportRefinements d"

definition parseIssueExportVoucher :: "IssueExportVoucher \<Rightarrow> export_issues + IssueExportVoucher" where
  "parseIssueExportVoucher d =
     (if issueExportVoucherIssues d = [] then Inr d else Inl (issueExportVoucherIssues d))"

subsection \<open>Totals\<close>

definition exportItemGross :: "ExportItem \<Rightarrow> number" where
  "exportItemGross i = js_sub (js_mul (exi_quantity i) (exi_unitPrice i)) (exi_discount i)"

definition exportItemTotal :: "ExportItem \<Rightarrow> number" where
  "exportItemTotal i = roundToCents (exportItemGross i)"

definition exportVoucherTotal :: "ExportItem list \<Rightarrow> number" where
  "exportVoucherTotal its = (let sum = foldl (\<lambda>acc i. js_add acc (exportItemTotal i)) 0 its in roundToCents sum)"

end
