(* ===== verification/World.thy ===== *)
theory World
  imports WsfeRequest Qr ExportVouchers
begin

text \<open>
  The state that the voucher services share and the ports they call. The database is a record
  of tables, one list per model of \<open>schema.prisma\<close> that emission touches, with the unique
  constraints of the schema enforced where a row is created. What lies outside the process
  (ARCA, the clock, the connection to the database) is a state of an arbitrary type, changed
  only by the functions of \<open>ports\<close>, which stand for the interfaces of
  \<open>voucher-ports.ts\<close>; any of them may fail, and so may every access to a table.
\<close>

subsection \<open>Rows\<close>

record StoredIssuer = PaymentAccountHolder +
  issuer_id :: string
  issuer_cuit :: string
  issuer_environment :: string
  representativeCuit :: "string option"
  issuer_userId :: string
  onboardingStatus :: string
  issuer_legalName :: string
  issuer_ivaCondition :: string
  commercialAddress :: "string option"

record UserRow =
  user_id :: string
  user_email :: string
  user_password :: string

record ApiClientRow =
  ac_id :: string
  ac_name :: string
  ac_keyHash :: string
  ac_active :: bool

record GrantRow =
  grant_apiClientId :: string
  grant_issuerId :: string

record CertificateRow =
  cert_issuerId :: string
  privateKeyEnc :: string
  csrPem :: "string option"
  certPem :: "string option"
  holderCuit :: "string option"
  cert_alias :: "string option"
  validUntil :: js_date

record SalesPointRow =
  sp_id :: string
  sp_issuerId :: string
  sp_number :: int
  sp_description :: "string option"

record ClientRow =
  client_id :: string
  client_issuerId :: string
  client_docType :: int
  client_docNumber :: string
  client_legalName :: "string option"
  client_ivaCondition :: "string option"
  client_email :: "string option"

record IssuedVoucherItemData =
  vi_description :: string
  vi_quantity :: number
  vi_unitPrice :: number
  vi_ivaRate :: number
  vi_taxTreatment :: string
  vi_subtotal :: number

record ExportDetail =
  xd_exportType :: ExportType
  xd_destinationCountryId :: int
  xd_countryTaxId :: string
  xd_clientLegalName :: string
  xd_clientAddress :: string
  xd_clientTaxId :: "string option"
  xd_language :: VoucherLanguage
  xd_incoterm :: "string option"
  xd_paymentMethod :: "string option"
  xd_shippingPermits :: "ShippingPermit list"
  xd_requestId :: "number option"

record IssuedVoucherData =
  vd_issuerId :: string
  vd_salesPointId :: string
  vd_clientId :: "string option"
  vd_recipientDocType :: int
  vd_recipientDocNumber :: string
  vd_recipientName :: "string option"
  vd_voucherType :: int
  vd_number :: int
  vd_voucherDate :: js_date
  vd_concept :: int
  vd_serviceFrom :: "js_date option"
  vd_serviceTo :: "js_date option"
  vd_paymentDueDate :: "js_date option"
  vd_netAmount :: number
  vd_ivaAmount :: number
  vd_exemptAmount :: number
  vd_untaxedAmount :: number
  vd_tributeAmount :: number
  vd_totalAmount :: number
  vd_tributes :: "ArcaTribute list option"
  vd_currency :: string
  vd_exchangeRate :: number
  vd_status :: string
  vd_cae :: "string option"
  vd_caeExpiration :: "js_date option"
  vd_arcaObservations :: "ArcaObservation list option"
  vd_qrData :: "string option"
  vd_associatedVouchers :: "associatedVoucher list option"
  vd_exportDetail :: "ExportDetail option"
  vd_items :: "IssuedVoucherItemData list"

record VoucherRow =
  voucher_id :: string
  voucher_data :: IssuedVoucherData

record IdempotencyRow =
  ir_issuerId :: string
  ir_key :: string
  ir_voucherId :: string

datatype PendingVoucherStatus = PENDING | FAILED

record PendingVoucherRow =
  pending_id :: string
  pending_issuerId :: string
  pending_idempotencyKey :: "string option"
  payload :: issueVoucher
  pending_status :: PendingVoucherStatus
  retryCount :: int
  nextRetryAt :: date
  attemptedNumber :: "int option"
  attemptedSalesPoint :: "int option"
  attemptedAt :: "date option"
  lastError :: "string option"
  pending_createdAt :: date

record PurchaseAmounts =
  pa_netAmount21 :: number
  pa_iva21 :: number
  pa_netAmount105 :: number
  pa_iva105 :: number
  pa_netAmount27 :: number
  pa_iva27 :: number
  pa_exempt :: number
  pa_untaxed :: number

record PurchaseInvoiceRow =
  pi_id :: string
  pi_issuerId :: string
  pi_supplierCuit :: string
  pi_supplierName :: string
  pi_invoiceType :: int
  pi_salesPoint :: int
  pi_number :: int
  pi_issueDate :: date
  pi_dueDate :: "date option"
  pi_amounts :: PurchaseAmounts
  pi_total :: number

record RefreshTokenRow =
  rt_id :: string
  rt_userId :: string
  rt_tokenHash :: string
  rt_expiresAt :: date
  rt_revokedAt :: "date option"

text \<open>The caches of what ARCA answered; the columns of type \<open>Json\<close> keep a JSON value.\<close>

record TicketRow =
  tc_holderCuit :: string
  tc_environment :: string
  tc_service :: string
  tc_token :: string
  tc_sign :: string
  tc_generation :: date
  tc_expiration :: date

record ParamCacheRow =
  pc_issuerId :: string
  pc_paramType :: string
  pc_entries :: json
  pc_fetchedAt :: date

record TaxpayerRow =
  tx_cuit :: string
  tx_legalName :: string
  tx_status :: string
  tx_ivaConditionId :: int
  tx_address :: "json option"
  tx_fetchedAt :: date

record ShadowRow =
  sh_apiClientId :: string
  sh_issuerId :: string
  sh_salesPoint :: int
  sh_voucherType :: int
  sh_matched :: bool
  sh_differences :: json
  sh_expected :: json
  sh_computed :: json
  sh_createdAt :: date

text \<open>The voucher as the API returns it.\<close>

record IssuedVoucher =
  iv_id :: string
  iv_voucherType :: int
  iv_salesPoint :: int
  iv_number :: int
  iv_cae :: string
  iv_caeExpiration :: js_date
  iv_netAmount :: number
  iv_ivaAmount :: number
  iv_totalAmount :: number
  iv_qrData :: string

text \<open>The notifications that leave the process: webhooks and push messages.\<close>

datatype notification =
    VoucherIssuedHook string string int int int string js_date number
  | VoucherFailedHook string string string bool bool
  | VoucherAuthorizedPush string IssuedVoucher
  | VoucherFailedPush string string string

record 'a world =
  outside :: 'a
  users :: "UserRow list"
  apiClients :: "ApiClientRow list"
  apiClientIssuers :: "GrantRow list"
  certificates :: "CertificateRow list"
  issuers :: "StoredIssuer list"
  salesPoints :: "SalesPointRow list"
  clients :: "ClientRow list"
  vouchers :: "VoucherRow list"
  idempotencyRecords :: "IdempotencyRow list"
  pendingVouchers :: "PendingVoucherRow list"
  purchaseInvoices :: "PurchaseInvoiceRow list"
  refreshTokens :: "RefreshTokenRow list"
  ticketCache :: "TicketRow list"
  paramCache :: "ParamCacheRow list"
  taxpayerCache :: "TaxpayerRow list"
  shadowComparisons :: "ShadowRow list"
  nextId :: nat
  notifications :: "notification list"

subsection \<open>Ports\<close>

text \<open>
  \<open>clock\<close> is the time of the process, \<open>database\<close> says whether the database answers
  (\<open>None\<close>) or the message of its failure,
  \<open>cuid\<close> generates identifiers, \<open>storedDecimal\<close> is what a column of type
  \<open>Decimal(15, 2)\<close> gives back through \<open>Number\<close>, and the rest are the operations of
  \<open>IssuerAuthenticator\<close>, \<open>WsfeGateway\<close> and the retry policy.
\<close>

record 'a ports =
  clock :: "'a \<Rightarrow> date \<times> 'a"
  database :: "'a \<Rightarrow> string option \<times> 'a"
  timeZone :: int
  cuid :: "nat \<Rightarrow> string"
  storedDecimal :: "number \<Rightarrow> number"
  maxRetries :: int
  retryBaseMs :: int
  port_buildAuth :: "StoredIssuer \<Rightarrow> 'a \<Rightarrow> (app_error + AuthContext) \<times> 'a"
  port_getLastAuthorized :: "AuthContext \<Rightarrow> int \<Rightarrow> int \<Rightarrow> 'a \<Rightarrow> (app_error + int) \<times> 'a"
  port_requestCae :: "AuthContext \<Rightarrow> CaeRequest \<Rightarrow> 'a \<Rightarrow> (app_error + CaeResult) \<times> 'a"
  port_queryVoucher ::
    "AuthContext \<Rightarrow> int \<Rightarrow> int \<Rightarrow> int \<Rightarrow> 'a \<Rightarrow> (app_error + CaeResult option) \<times> 'a"
  port_queryVoucherDetail ::
    "AuthContext \<Rightarrow> int \<Rightarrow> int \<Rightarrow> int \<Rightarrow> 'a \<Rightarrow> (app_error + AuthorizedVoucherDetail option) \<times> 'a"

definition DEFAULT_MAX_RETRIES :: int where
  "DEFAULT_MAX_RETRIES = 8"

definition DEFAULT_RETRY_BASE_MS :: int where
  "DEFAULT_RETRY_BASE_MS = 60000"

definition voucherRetryPolicy :: "int option \<Rightarrow> int option \<Rightarrow> 'a ports \<Rightarrow> 'a ports" where
  "voucherRetryPolicy configuredRetries configuredBase p =
     p\<lparr>maxRetries := orElse configuredRetries DEFAULT_MAX_RETRIES,
       retryBaseMs := orElse configuredBase DEFAULT_RETRY_BASE_MS\<rparr>"

subsection \<open>Primitive actions\<close>

type_synonym ('a, 'b) effect = "('a world, 'b) action"

definition external :: "('a \<Rightarrow> (app_error + 'b) \<times> 'a) \<Rightarrow> ('a, 'b) effect" where
  "external f w = (case f (outside w) of (r, s) \<Rightarrow> (r, w\<lparr>outside := s\<rparr>))"

definition now :: "'a ports \<Rightarrow> ('a, date) effect" where
  "now p = external (\<lambda>s. case clock p s of (t, s') \<Rightarrow> (Inr t, s'))"

definition pureA :: "app_error + 'b \<Rightarrow> ('a, 'b) effect" where
  "pureA r w = (r, w)"

text \<open>An access to a table fails before it changes anything, or takes place.\<close>

definition reachDatabase :: "'a ports \<Rightarrow> 'a \<Rightarrow> (app_error + unit) \<times> 'a" where
  "reachDatabase p s = (case database p s of
      (None, s') \<Rightarrow> (Inr (), s') | (Some m, s') \<Rightarrow> (Inl (OtherError m), s'))"

definition table :: "'a ports \<Rightarrow> ('a, 'b) effect \<Rightarrow> ('a, 'b) effect" where
  "table p operation = bindA (external (reachDatabase p)) (\<lambda>_. operation)"

definition notify :: "notification \<Rightarrow> ('a, unit) effect" where
  "notify n = putA (\<lambda>w. w\<lparr>notifications := notifications w @ [n]\<rparr>)"

definition newId :: "'a ports \<Rightarrow> ('a, string) effect" where
  "newId p w = (Inr (cuid p (nextId w)), w\<lparr>nextId := Suc (nextId w)\<rparr>)"

definition UNIQUE_CONSTRAINT_VIOLATION :: string where
  "UNIQUE_CONSTRAINT_VIOLATION = ''P2002''"

definition RECORD_NOT_FOUND :: string where
  "RECORD_NOT_FOUND = ''P2025''"

text \<open>Whether any row satisfies a predicate, \<open>findUnique\<close> and \<open>findFirst\<close>.\<close>

definition findRow :: "('r \<Rightarrow> bool) \<Rightarrow> 'r list \<Rightarrow> 'r option" where
  "findRow P rows = List.find P rows"

subsection \<open>Messages of errors\<close>

fun messageOf :: "app_error \<Rightarrow> string" where
  "messageOf (ArcaRejection codes m) = m"
| "messageOf (ArcaDelegation codes m) = m"
| "messageOf (ArcaSoapFault action httpStatus body) =
     ''ARCA devolvi'' @ [CHR 0xF3] @ '' error HTTP '' @ intToString httpStatus @ '' en '' @ action @ ''.''"
| "messageOf (CaeAttempt cause sp attempted) = messageOf cause"
| "messageOf (VoucherQueued i) = ''ARCA no disponible. El comprobante qued'' @ [CHR 0xF3] @ '' encolado para reintento.''"
| "messageOf (BadRequest m) = m"
| "messageOf (Unauthorized m) = m"
| "messageOf (Forbidden m) = m"
| "messageOf (NotFound m) = m"
| "messageOf (Conflict m) = m"
| "messageOf (UnprocessableEntity m) = m"
| "messageOf (TooManyRequests m) = m"
| "messageOf (InternalServerError m) = m"
| "messageOf (ServiceUnavailable m) = m"
| "messageOf (PrismaKnownError m) = m"
| "messageOf (OtherError m) = m"

definition describeError :: "app_error \<Rightarrow> string" where
  "describeError error = messageOf error"

text \<open>\<open>instanceof ArcaRejectionError\<close> and \<open>hasCode\<close> of \<open>arca-errors.ts\<close>.\<close>

definition ARCA_DUPLICATE_NUMBER_CODE :: string where
  "ARCA_DUPLICATE_NUMBER_CODE = ''10016''"

definition ARCA_TOKEN_RELATION_CODE :: string where
  "ARCA_TOKEN_RELATION_CODE = ''600''"

fun rejectionCodes :: "app_error \<Rightarrow> string list option" where
  "rejectionCodes (ArcaRejection codes m) = Some codes"
| "rejectionCodes (ArcaDelegation codes m) = Some codes"
| "rejectionCodes _ = None"

definition isArcaRejection :: "app_error \<Rightarrow> bool" where
  "isArcaRejection e = (rejectionCodes e \<noteq> None)"

definition hasCode :: "string \<Rightarrow> app_error \<Rightarrow> bool" where
  "hasCode code e = (case rejectionCodes e of None \<Rightarrow> False | Some codes \<Rightarrow> code \<in> set codes)"

text \<open>The constructors of the two errors; the text of a rejection joins the messages of ARCA.\<close>

definition rejectionMessage :: "string \<Rightarrow> string list \<Rightarrow> string" where
  "rejectionMessage summary messages =
     summary @ '': '' @ (if messages \<noteq> [] then joinWith '' | '' messages else ''motivo desconocido'')"

definition arcaRejectionError :: "string list \<Rightarrow> string list \<Rightarrow> app_error" where
  "arcaRejectionError codes messages =
     ArcaRejection codes (rejectionMessage (''ARCA rechaz'' @ [CHR 0xF3] @ '' el comprobante'') messages)"

definition arcaDelegationError :: "string list \<Rightarrow> string \<Rightarrow> app_error" where
  "arcaDelegationError codes explanation =
     ArcaDelegation codes (rejectionMessage (''ARCA rechaz'' @ [CHR 0xF3] @ '' la autenticaci'' @ [CHR 0xF3] @ ''n'') [explanation])"

lemma isArcaRejection_simps [simp]:
  "isArcaRejection (ArcaRejection c m)" "isArcaRejection (ArcaDelegation c m)"
  "\<not> isArcaRejection (CaeAttempt e s n)" "\<not> isArcaRejection (PrismaKnownError m)"
  "\<not> isArcaRejection (BadRequest m)" "\<not> isArcaRejection (OtherError m)"
  "\<not> isArcaRejection (VoucherQueued i)"
  by (simp_all add: isArcaRejection_def)

lemma hasCode_rejection: "hasCode c e \<Longrightarrow> isArcaRejection e"
  by (auto simp: hasCode_def isArcaRejection_def split: option.splits)

subsection \<open>Reasoning about actions\<close>

text \<open>A predicate of the tables is one that the outside world does not affect.\<close>

definition ofTables :: "('a world \<Rightarrow> bool) \<Rightarrow> bool" where
  "ofTables I \<longleftrightarrow> (\<forall>w s. I (w\<lparr>outside := s\<rparr>) = I w)"

lemma preserves_external: "ofTables I \<Longrightarrow> preserves I (external f)"
  by (auto simp: preserves_def external_def ofTables_def split: prod.splits)

lemma preserves_now: "ofTables I \<Longrightarrow> preserves I (now p)"
  by (simp add: now_def preserves_external)

lemma preserves_pureA [intro]: "preserves I (pureA r)"
  by (simp add: preserves_def pureA_def)

lemma preserves_table: "ofTables I \<Longrightarrow> preserves I operation \<Longrightarrow> preserves I (table p operation)"
  unfolding table_def by (rule preserves_bindA) (simp_all add: preserves_external)

lemma triple_external:
  "ofTables I \<Longrightarrow> triple I (external f) (\<lambda>_. I) (\<lambda>_. I)"
  unfolding triple_preserves by (rule preserves_external)

lemma triple_now: "ofTables I \<Longrightarrow> triple I (now p) (\<lambda>_. I) E"
  by (auto simp: triple_def now_def external_def ofTables_def split: prod.splits)

lemma triple_pureA: "triple I (pureA r) (\<lambda>x w. I w \<and> r = Inr x) (\<lambda>e w. I w \<and> r = Inl e)"
  by (auto simp: triple_def pureA_def split: sum.splits)

lemma triple_table:
  assumes "ofTables I" "triple I operation Q E" "\<And>e w. I w \<Longrightarrow> E e w"
  shows "triple I (table p operation) Q E"
  unfolding table_def
  by (rule triple_bindA [where R = "\<lambda>_. I"])
     (rule triple_weaken [OF triple_external [OF assms(1)]], simp_all add: assms)

lemma ofTables_conj [intro]: "ofTables I \<Longrightarrow> ofTables J \<Longrightarrow> ofTables (\<lambda>w. I w \<and> J w)"
  by (simp add: ofTables_def)

lemma external_eq: "external f w = (r, w') \<Longrightarrow> w' = w\<lparr>outside := outside w'\<rparr>"
  by (auto simp: external_def split: prod.splits)

lemma now_eq: "now p w = (r, w') \<Longrightarrow> (\<exists>t. r = Inr t) \<and> w' = w\<lparr>outside := outside w'\<rparr>"
  by (auto simp: now_def external_def split: prod.splits)

lemma now_world: "\<exists>t s. now p w = (Inr t, w\<lparr>outside := s\<rparr>)"
  by (cases "clock p (outside w)") (auto simp: now_def external_def)

lemma table_cases:
  assumes "table p operation w = (r, w')"
  obtains (unavailable) m s where "r = Inl (OtherError m)" "w' = w\<lparr>outside := s\<rparr>"
    | (applied) s where "operation (w\<lparr>outside := s\<rparr>) = (r, w')"
  using assms by (auto simp: table_def bindA_def external_def reachDatabase_def
      split: prod.splits sum.splits option.splits)

lemma table_Inr:
  "table p operation w = (Inr x, w') \<longleftrightarrow>
     (\<exists>s. database p (outside w) = (None, s) \<and> operation (w\<lparr>outside := s\<rparr>) = (Inr x, w'))"
  by (auto simp: table_def bindA_def external_def reachDatabase_def split: prod.splits sum.splits option.splits)

lemma table_Inl:
  "table p operation w = (Inl e, w') \<longleftrightarrow>
     (\<exists>m s. database p (outside w) = (Some m, s) \<and> e = OtherError m \<and> w' = w\<lparr>outside := s\<rparr>) \<or>
     (\<exists>s. database p (outside w) = (None, s) \<and> operation (w\<lparr>outside := s\<rparr>) = (Inl e, w'))"
  by (auto simp: table_def bindA_def external_def reachDatabase_def split: prod.splits sum.splits option.splits)

lemma findRow_Some: "findRow P rows = Some r \<Longrightarrow> P r \<and> r \<in> set rows"
  by (auto simp: findRow_def find_Some_iff)

lemma findRow_None: "findRow P rows = None \<longleftrightarrow> (\<forall>r\<in>set rows. \<not> P r)"
  by (auto simp: findRow_def find_None_iff)

lemma findRow_append: "findRow P (xs @ ys) = (case findRow P xs of None \<Rightarrow> findRow P ys | Some r \<Rightarrow> Some r)"
  by (induction xs) (simp_all add: findRow_def)

end
