(* ===== verification/Onboarding.thy ===== *)
theory Onboarding
  imports World
begin

text \<open>
  The onboarding of an issuer with ARCA: the statuses of
  \<open>shared/src/issuer-onboarding.ts\<close>, the diagnosis of
  \<open>arca-onboarding-diagnosis.ts\<close> and \<open>track\<close> of
  \<open>issuer-onboarding.service.ts\<close>, which wraps every operation against ARCA and moves the
  status by its outcome.
\<close>

subsection \<open>Statuses\<close>

abbreviation (input) PENDING_CERTIFICATE :: string where "PENDING_CERTIFICATE \<equiv> ''PENDING_CERTIFICATE''"
abbreviation (input) PENDING_DELEGATION :: string where "PENDING_DELEGATION \<equiv> ''PENDING_DELEGATION''"
abbreviation (input) DELEGATION_CONFIRMED :: string where "DELEGATION_CONFIRMED \<equiv> ''DELEGATION_CONFIRMED''"
abbreviation (input) ISSUING_CONFIRMED :: string where "ISSUING_CONFIRMED \<equiv> ''ISSUING_CONFIRMED''"
abbreviation (input) BLOCKED_BY_ARCA :: string where "BLOCKED_BY_ARCA \<equiv> ''BLOCKED_BY_ARCA''"

definition issuerOnboardingStatusName :: "(string \<times> string) list" where
  "issuerOnboardingStatusName =
     [(PENDING_CERTIFICATE, ''Falta cargar el certificado''),
      (PENDING_DELEGATION, ''Falta autorizar el servicio en ARCA''),
      (DELEGATION_CONFIRMED, (''Autorizaci'' @ [CHR 0xF3] @ ''n verificada, todav'' @ [CHR 0xED] @ ''a sin facturar'')),
      (ISSUING_CONFIRMED, ''Facturando''),
      (BLOCKED_BY_ARCA, ''ARCA rechaza al contribuyente'')]"

definition describeIssuerOnboardingStatus :: "string \<Rightarrow> string" where
  "describeIssuerOnboardingStatus status =
     (case List.find (\<lambda>(key, name). key = status) issuerOnboardingStatusName of
        None \<Rightarrow> status | Some (key, name) \<Rightarrow> name)"

definition STATUSES_REACHED_THROUGH_ARCA :: "string list" where
  "STATUSES_REACHED_THROUGH_ARCA = [DELEGATION_CONFIRMED, ISSUING_CONFIRMED, BLOCKED_BY_ARCA]"

definition hasConfirmedDelegation :: "string \<Rightarrow> bool" where
  "hasConfirmedDelegation status = (status \<in> set STATUSES_REACHED_THROUGH_ARCA)"

definition PENDING_DELEGATION_EXPLANATION :: string where
  "PENDING_DELEGATION_EXPLANATION =
     ''ARCA todav'' @ [CHR 0xED] @ ''a no reconoce una autorizaci'' @ [CHR 0xF3] @ ''n para facturar en nombre de este '' @
     ''contribuyente. Hay que entrar a ARCA con clave fiscal, ir a Administrador de '' @
     ''Relaciones de Clave Fiscal y delegar el servicio de Facturaci'' @ [CHR 0xF3] @ ''n Electr'' @ [CHR 0xF3] @ ''nica al '' @
     ''certificado cargado. Si el tr'' @ [CHR 0xE1] @ ''mite ya se hizo, el mismo error aparece cuando el '' @
     ''contribuyente est'' @ [CHR 0xE1] @ '' inhabilitado para facturar.''"

definition BLOCKED_TAXPAYER_EXPLANATION :: string where
  "BLOCKED_TAXPAYER_EXPLANATION =
     ''ARCA rechaz'' @ [CHR 0xF3] @ '' la autenticaci'' @ [CHR 0xF3] @ ''n aunque la autorizaci'' @ [CHR 0xF3] @ ''n de este contribuyente ya hab'' @ [CHR 0xED] @ ''a '' @
     ''funcionado antes. En ese caso casi siempre significa que el contribuyente no est'' @ [CHR 0xE1] @ '' '' @
     ''habilitado para facturar: monotributo dado de baja, deuda o inscripci'' @ [CHR 0xF3] @ ''n vencida. Hay '' @
     ''que revisar la situaci'' @ [CHR 0xF3] @ ''n fiscal en ARCA, porque rehacer el tr'' @ [CHR 0xE1] @ ''mite de autorizaci'' @ [CHR 0xF3] @ ''n no '' @
     ''lo resuelve.''"

definition tokenRelationExplanation :: "string \<Rightarrow> string" where
  "tokenRelationExplanation status =
     (if hasConfirmedDelegation status then BLOCKED_TAXPAYER_EXPLANATION else PENDING_DELEGATION_EXPLANATION)"

subsection \<open>Tracking an operation\<close>

datatype ArcaConfirmation = READ_ONLY | ISSUE

definition CONFIRMED_STATUS :: "ArcaConfirmation \<Rightarrow> string" where
  "CONFIRMED_STATUS c = (case c of READ_ONLY \<Rightarrow> DELEGATION_CONFIRMED | ISSUE \<Rightarrow> ISSUING_CONFIRMED)"

definition findIssuerOrThrow :: "'a ports \<Rightarrow> string \<Rightarrow> ('a, StoredIssuer) effect" where
  "findIssuerOrThrow p i = table p (\<lambda>w.
     (case findRow (\<lambda>r. issuer_id r = i) (issuers w) of
        None \<Rightarrow> (Inl (PrismaKnownError RECORD_NOT_FOUND), w)
      | Some r \<Rightarrow> (Inr r, w)))"

definition setStatus :: "string \<Rightarrow> string \<Rightarrow> StoredIssuer list \<Rightarrow> StoredIssuer list" where
  "setStatus i status rows =
     map (\<lambda>r. if issuer_id r = i then r\<lparr>onboardingStatus := status\<rparr> else r) rows"

definition updateOnboardingStatus :: "'a ports \<Rightarrow> string \<Rightarrow> string \<Rightarrow> ('a, unit) effect" where
  "updateOnboardingStatus p i status = table p (\<lambda>w.
     (case findRow (\<lambda>r. issuer_id r = i) (issuers w) of
        None \<Rightarrow> (Inl (PrismaKnownError RECORD_NOT_FOUND), w)
      | Some r \<Rightarrow> (Inr (), w\<lparr>issuers := setStatus i status (issuers w)\<rparr>)))"

definition confirm :: "'a ports \<Rightarrow> string \<Rightarrow> ArcaConfirmation \<Rightarrow> ('a, unit) effect" where
  "confirm p i confirmation =
     (let reached = CONFIRMED_STATUS confirmation in
      bindA (findIssuerOrThrow p i) (\<lambda>issuer.
        if onboardingStatus issuer = ISSUING_CONFIRMED then returnA ()
        else if onboardingStatus issuer = reached then returnA ()
        else updateOnboardingStatus p i reached))"

definition statusAfterRejection :: "string \<Rightarrow> string" where
  "statusAfterRejection current =
     (if current = PENDING_CERTIFICATE \<or> current = PENDING_DELEGATION
      then PENDING_DELEGATION else BLOCKED_BY_ARCA)"

definition diagnose :: "'a ports \<Rightarrow> string \<Rightarrow> app_error \<Rightarrow> ('a, app_error) effect" where
  "diagnose p i error =
     (if \<not> isArcaRejection error \<or> \<not> hasCode ARCA_TOKEN_RELATION_CODE error then returnA error
      else bindA (findIssuerOrThrow p i) (\<lambda>issuer.
        bindA (updateOnboardingStatus p i (statusAfterRejection (onboardingStatus issuer))) (\<lambda>_.
        returnA (arcaDelegationError (the (rejectionCodes error))
                   (tokenRelationExplanation (onboardingStatus issuer))))))"

definition track :: "'a ports \<Rightarrow> string \<Rightarrow> ArcaConfirmation \<Rightarrow> ('a, 'b) effect \<Rightarrow> ('a, 'b) effect" where
  "track p i confirmation operation =
     catchA
       (bindA operation (\<lambda>result. bindA (confirm p i confirmation) (\<lambda>_. returnA result)))
       (\<lambda>error. bindA (diagnose p i error) throwA)"

end
