(* ===== verification/CaeRequests.thy ===== *)
theory CaeRequests
  imports Onboarding
begin

text \<open>
  Obtaining a CAE from ARCA, \<open>cae-request.service.ts\<close>: choosing the number after the last
  authorised one, requesting the CAE, recovering from a duplicate number, and recognising that
  a queued voucher had already been authorised.
\<close>

record EmissionOutcome =
  outcome_cae :: CaeResult
  outcome_number :: int
  outcome_amounts :: VoucherAmounts
  outcome_date :: js_date
  recovered :: bool

definition matchesPendingVoucher :: "AuthorizedVoucherDetail \<Rightarrow> issueVoucher \<Rightarrow> VoucherAmounts \<Rightarrow> bool" where
  "matchesPendingVoucher authorized input amounts =
     (let sameTotal = \<bar>js_sub (detail_totalAmount authorized) (totalAmount amounts)\<bar> < fl (1 / 100);
          sameRecipient =
            detail_recipientDocType authorized = docType (recipient_of input) \<and>
            onlyDigits (detail_recipientDocNumber authorized) = onlyDigits (docNumber (recipient_of input))
      in sameTotal \<and> sameRecipient)"

definition caeRequestBuilder ::
  "StoredIssuer \<Rightarrow> issueVoucher \<Rightarrow> VoucherAmounts \<Rightarrow> date \<Rightarrow> app_error + (int \<Rightarrow> CaeRequest)" where
  "caeRequestBuilder issuer input amounts date =
     (let conditionId = orElse (ivaConditionId (recipient_of input))
                               (defaultRecipientIvaCondition (voucherType input)) in
      case buildCreditInvoiceOptionals (voucherType input) issuer (transmissionType input) of
        Inl e \<Rightarrow> Inl e
      | Inr optionals \<Rightarrow> Inr (\<lambda>number.
          \<lparr>req_salesPoint = salesPoint input, req_voucherType = voucherType input,
           req_concept = concept input, req_number = number, req_date = Some date,
           req_recipient = \<lparr>cae_docType = docType (recipient_of input),
             cae_docNumber = docNumber (recipient_of input), cae_ivaConditionId = conditionId\<rparr>,
           req_amounts = amounts, req_currency = currency input,
           req_exchangeRate = exchangeRate input,
           req_associatedVouchers = associatedVouchers input,
           req_servicePeriod = service_period input,
           req_paymentDueDate = paymentDueDate input,
           req_optionals = Some optionals\<rparr>))"

definition amountsOf :: "issueVoucher \<Rightarrow> app_error + VoucherAmounts" where
  "amountsOf input = calculateAmounts (voucherType input) (items input) (orElse (tributes input) [])"

subsection \<open>One attempt\<close>

text \<open>
  The variable \<open>attemptedNumber\<close> of \<open>requestCaeWithRecovery\<close>, which the callback
  \<open>onNumberChosen\<close> sets, is the first component of the state of an attempt.
\<close>

type_synonym ('a, 'b) attempt = "(int option \<times> 'a world, 'b) action"

definition inWorld :: "('a, 'b) effect \<Rightarrow> ('a, 'b) attempt" where
  "inWorld m s = (case m (snd s) of (r, w) \<Rightarrow> (r, (fst s, w)))"

definition onNumberChosen :: "int \<Rightarrow> ('a, unit) attempt" where
  "onNumberChosen candidate = putA (\<lambda>(_, w). (Some candidate, w))"

abbreviation (input) PROBE_VOUCHER_NUMBER :: int where "PROBE_VOUCHER_NUMBER \<equiv> 0"

definition requestNumber ::
  "'a ports \<Rightarrow> AuthContext \<Rightarrow> (int \<Rightarrow> CaeRequest) \<Rightarrow> int \<Rightarrow> ('a, CaeResult \<times> int) attempt" where
  "requestNumber p auth build number =
     bindA (inWorld (external (port_requestCae p auth (build number)))) (\<lambda>result.
     returnA (result, number))"

definition afterDuplicate ::
  "'a ports \<Rightarrow> AuthContext \<Rightarrow> (int \<Rightarrow> CaeRequest) \<Rightarrow> int \<Rightarrow> ('a, CaeResult \<times> int) attempt" where
  "afterDuplicate p auth build number =
     (let sp = req_salesPoint (build PROBE_VOUCHER_NUMBER);
          vt = req_voucherType (build PROBE_VOUCHER_NUMBER) in
      bindA (inWorld (external (port_queryVoucher p auth sp vt number))) (\<lambda>existing.
        case existing of
          Some found \<Rightarrow> returnA (found, number)
        | None \<Rightarrow>
            bindA (inWorld (external (port_getLastAuthorized p auth sp vt))) (\<lambda>last_number.
            bindA (onNumberChosen (last_number + 1)) (\<lambda>_.
            requestNumber p auth build (last_number + 1)))))"

definition requestCaeAttempt ::
  "'a ports \<Rightarrow> AuthContext \<Rightarrow> (int \<Rightarrow> CaeRequest) \<Rightarrow> ('a, CaeResult \<times> int) attempt" where
  "requestCaeAttempt p auth build =
     (let sp = req_salesPoint (build PROBE_VOUCHER_NUMBER);
          vt = req_voucherType (build PROBE_VOUCHER_NUMBER) in
      bindA (inWorld (external (port_getLastAuthorized p auth sp vt))) (\<lambda>last_number.
      bindA (onNumberChosen (last_number + 1)) (\<lambda>_.
      catchA (requestNumber p auth build (last_number + 1))
        (\<lambda>err. if \<not> isArcaRejection err \<or> \<not> hasCode ARCA_DUPLICATE_NUMBER_CODE err then throwA err
               else afterDuplicate p auth build (last_number + 1)))))"

definition requestCaeWithRecovery ::
  "'a ports \<Rightarrow> AuthContext \<Rightarrow> (int \<Rightarrow> CaeRequest) \<Rightarrow> ('a, CaeResult \<times> int) effect" where
  "requestCaeWithRecovery p auth build w =
     (case requestCaeAttempt p auth build (None, w) of
        (Inr result, (_, w')) \<Rightarrow> (Inr result, w')
      | (Inl err, (attempted, w')) \<Rightarrow>
          (Inl (if isArcaRejection err then err
                else CaeAttempt err (req_salesPoint (build PROBE_VOUCHER_NUMBER)) attempted), w'))"

definition requestCae :: "'a ports \<Rightarrow> StoredIssuer \<Rightarrow> issueVoucher \<Rightarrow> ('a, EmissionOutcome) effect" where
  "requestCae p issuer input =
     bindA (external (port_buildAuth p issuer)) (\<lambda>auth.
     bindA (pureA (amountsOf input)) (\<lambda>amounts.
     bindA (now p) (\<lambda>date.
     bindA (pureA (caeRequestBuilder issuer input amounts date)) (\<lambda>build.
     bindA (requestCaeWithRecovery p auth build) (\<lambda>(result, number).
     returnA \<lparr>outcome_cae = result, outcome_number = number, outcome_amounts = amounts,
              outcome_date = Some date, recovered = False\<rparr>)))))"

definition attemptCae :: "'a ports \<Rightarrow> StoredIssuer \<Rightarrow> issueVoucher \<Rightarrow> ('a, EmissionOutcome) effect" where
  "attemptCae p issuer input = track p (issuer_id issuer) ISSUE (requestCae p issuer input)"

subsection \<open>A queued voucher that ARCA had authorised\<close>

definition recoverAlreadyAuthorized ::
  "'a ports \<Rightarrow> StoredIssuer \<Rightarrow> issueVoucher \<Rightarrow> PendingVoucherRow \<Rightarrow> ('a, EmissionOutcome option) effect" where
  "recoverAlreadyAuthorized p issuer input pending =
     (case (attemptedNumber pending, attemptedSalesPoint pending) of
        (Some number, Some sp) \<Rightarrow>
          bindA (external (port_buildAuth p issuer)) (\<lambda>auth.
          bindA (external (port_queryVoucherDetail p auth sp (voucherType input) number)) (\<lambda>found.
            case found of
              None \<Rightarrow> returnA None
            | Some authorized \<Rightarrow>
                bindA (pureA (amountsOf input)) (\<lambda>amounts.
                  if \<not> matchesPendingVoucher authorized input amounts then returnA None
                  else returnA (Some
                    \<lparr>outcome_cae = detail_cae authorized, outcome_number = detail_number authorized,
                     outcome_amounts = amounts, outcome_date = detail_date authorized,
                     recovered = True\<rparr>))))
      | _ \<Rightarrow> returnA None)"

end
