(* ===== verification/IssuedVouchers.thy ===== *)
theory IssuedVouchers
  imports CaeRequests
begin

text \<open>
  Recording a voucher that ARCA authorised, and replaying it: the row that is stored
  (\<open>issued-voucher-data.ts\<close>) and \<open>IssuedVoucherRecorder\<close>
  (\<open>issued-voucher-recorder.service.ts\<close>).
\<close>

subsection \<open>The row of an issued voucher\<close>

definition emittedStatus :: "EmissionOutcome \<Rightarrow> string" where
  "emittedStatus outcome =
     (if recovered outcome then ''RECOVERED''
      else if 0 < length (cae_observations (outcome_cae outcome)) then ''OBSERVED'' else ''APPROVED'')"

definition treatmentText :: "TaxTreatment \<Rightarrow> string" where
  "treatmentText t = (case t of TAXED \<Rightarrow> ''TAXED'' | EXEMPT \<Rightarrow> ''EXEMPT'' | UNTAXED \<Rightarrow> ''UNTAXED'')"

definition itemData :: "item \<Rightarrow> IssuedVoucherItemData" where
  "itemData i =
     \<lparr>vi_description = item_description i, vi_quantity = quantity i, vi_unitPrice = unitPrice i,
      vi_ivaRate = ivaRate i, vi_taxTreatment = treatmentText (taxTreatment i),
      vi_subtotal = js_div (of_int (math_round (js_mul (js_mul (quantity i) (unitPrice i)) 100))) 100\<rparr>"

definition nonEmpty :: "'a list \<Rightarrow> 'a list option" where
  "nonEmpty xs = (if 0 < length xs then Some xs else None)"

definition buildIssuedVoucherData ::
  "int \<Rightarrow> StoredIssuer \<Rightarrow> issueVoucher \<Rightarrow> EmissionOutcome \<Rightarrow> string \<Rightarrow> ClientRow option \<Rightarrow> string \<Rightarrow>
   IssuedVoucherData" where
  "buildIssuedVoucherData tz issuer input outcome spId client qr =
     (let amounts = outcome_amounts outcome; result = outcome_cae outcome in
      \<lparr>vd_issuerId = issuer_id issuer, vd_salesPointId = spId,
       vd_clientId = map_option client_id client,
       vd_recipientDocType = docType (recipient_of input),
       vd_recipientDocNumber = docNumber (recipient_of input),
       vd_recipientName = (case legalName (recipient_of input) of
           Some name \<Rightarrow> Some name | None \<Rightarrow> Option.bind client client_legalName),
       vd_voucherType = voucherType input, vd_number = outcome_number outcome,
       vd_voucherDate = outcome_date outcome, vd_concept = conceptId (concept input),
       vd_serviceFrom = map_option (\<lambda>s. parseIsoDate tz (period_from s)) (service_period input),
       vd_serviceTo = map_option (\<lambda>s. parseIsoDate tz (period_to s)) (service_period input),
       vd_paymentDueDate = (if hasText (paymentDueDate input)
           then Some (parseIsoDate tz (the (paymentDueDate input))) else None),
       vd_netAmount = netAmount amounts, vd_ivaAmount = ivaAmount amounts,
       vd_exemptAmount = exemptAmount amounts, vd_untaxedAmount = untaxedAmount amounts,
       vd_tributeAmount = tributeAmount amounts, vd_totalAmount = totalAmount amounts,
       vd_tributes = nonEmpty (amount_tributes amounts),
       vd_currency = currency input, vd_exchangeRate = exchangeRate input,
       vd_status = emittedStatus outcome, vd_cae = Some (cae_code result),
       vd_caeExpiration = Some (cae_vto result),
       vd_arcaObservations = nonEmpty (cae_observations result),
       vd_qrData = Some qr, vd_associatedVouchers = associatedVouchers input, vd_exportDetail = None,
       vd_items = map itemData (items input)\<rparr>)"

subsection \<open>Recording\<close>

definition qrDataFor :: "int \<Rightarrow> StoredIssuer \<Rightarrow> issueVoucher \<Rightarrow> EmissionOutcome \<Rightarrow> string" where
  "qrDataFor tz issuer input outcome = buildQrUrl tz
     \<lparr>qr_date = outcome_date outcome, qr_issuerCuit = issuer_cuit issuer,
      qr_salesPoint = salesPoint input, qr_voucherType = voucherType input,
      qr_number = outcome_number outcome, qr_totalAmount = totalAmount (outcome_amounts outcome),
      qr_currency = currency input, qr_exchangeRate = exchangeRate input,
      qr_recipientDocType = docType (recipient_of input),
      qr_recipientDocNumber = docNumber (recipient_of input),
      qr_cae = cae_code (outcome_cae outcome)\<rparr>"

definition upsertSalesPoint :: "'a ports \<Rightarrow> string \<Rightarrow> int \<Rightarrow> ('a, string) effect" where
  "upsertSalesPoint p i number = table p (\<lambda>w.
     (case findRow (\<lambda>r. sp_issuerId r = i \<and> sp_number r = number) (salesPoints w) of
        Some r \<Rightarrow> (Inr (sp_id r), w)
      | None \<Rightarrow> bindA (newId p) (\<lambda>new. bindA
          (putA (\<lambda>w. w\<lparr>salesPoints := salesPoints w @ [\<lparr>sp_id = new, sp_issuerId = i, sp_number = number, sp_description = None\<rparr>]\<rparr>))
          (\<lambda>_. returnA new)) w))"

definition findClient :: "'a ports \<Rightarrow> string \<Rightarrow> int \<Rightarrow> string \<Rightarrow> ('a, ClientRow option) effect" where
  "findClient p i dt dn = table p (getA (\<lambda>w.
     findRow (\<lambda>r. client_issuerId r = i \<and> client_docType r = dt \<and> client_docNumber r = dn) (clients w)))"

text \<open>
  The client of the database refuses an Invalid Date, and a column of type
  \<open>Decimal(15, 2)\<close> an amount of more than thirteen integer digits. The unique key of a
  voucher is its sales point, type and number.
\<close>

definition validDates :: "IssuedVoucherData \<Rightarrow> bool" where
  "validDates d = (vd_voucherDate d \<noteq> None \<and> vd_caeExpiration d \<noteq> Some None \<and>
     vd_serviceFrom d \<noteq> Some None \<and> vd_serviceTo d \<noteq> Some None \<and> vd_paymentDueDate d \<noteq> Some None)"

definition fitsDecimal :: "IssuedVoucherData \<Rightarrow> bool" where
  "fitsDecimal d = list_all (\<lambda>x. \<bar>x\<bar> < 10000000000000)
     [vd_netAmount d, vd_ivaAmount d, vd_exemptAmount d, vd_untaxedAmount d, vd_tributeAmount d, vd_totalAmount d]"

definition sameVoucherKey :: "IssuedVoucherData \<Rightarrow> VoucherRow \<Rightarrow> bool" where
  "sameVoucherKey d r =
     (vd_salesPointId (voucher_data r) = vd_salesPointId d \<and>
      vd_voucherType (voucher_data r) = vd_voucherType d \<and> vd_number (voucher_data r) = vd_number d)"

definition insertVoucher :: "'a ports \<Rightarrow> IssuedVoucherData \<Rightarrow> ('a, string) effect" where
  "insertVoucher p d = table p (\<lambda>w.
     (if \<not> validDates d then (Inl (OtherError ''PrismaClientValidationError''), w)
      else if \<not> fitsDecimal d then (Inl (OtherError ''numeric field overflow''), w)
      else if findRow (sameVoucherKey d) (vouchers w) \<noteq> None
        then (Inl (PrismaKnownError UNIQUE_CONSTRAINT_VIOLATION), w)
      else bindA (newId p) (\<lambda>new. bindA
          (putA (\<lambda>w. w\<lparr>vouchers := vouchers w @ [\<lparr>voucher_id = new, voucher_data = d\<rparr>]\<rparr>))
          (\<lambda>_. returnA new)) w))"

definition sameIdempotencyKey :: "string \<Rightarrow> string \<Rightarrow> IdempotencyRow \<Rightarrow> bool" where
  "sameIdempotencyKey i key r = (ir_issuerId r = i \<and> ir_key r = key)"

definition insertIdempotency :: "'a ports \<Rightarrow> string \<Rightarrow> string \<Rightarrow> string \<Rightarrow> ('a, unit) effect" where
  "insertIdempotency p i key v = table p (\<lambda>w.
     (if findRow (sameIdempotencyKey i key) (idempotencyRecords w) \<noteq> None
        then (Inl (PrismaKnownError UNIQUE_CONSTRAINT_VIOLATION), w)
      else (Inr (), w\<lparr>idempotencyRecords := idempotencyRecords w @
          [\<lparr>ir_issuerId = i, ir_key = key, ir_voucherId = v\<rparr>]\<rparr>)))"

definition createVoucher ::
  "'a ports \<Rightarrow> StoredIssuer \<Rightarrow> issueVoucher \<Rightarrow> EmissionOutcome \<Rightarrow> string \<Rightarrow> ('a, string) effect" where
  "createVoucher p issuer input outcome qr =
     bindA (upsertSalesPoint p (issuer_id issuer) (salesPoint input)) (\<lambda>spId.
     bindA (findClient p (issuer_id issuer) (docType (recipient_of input)) (docNumber (recipient_of input))) (\<lambda>client.
     insertVoucher p (buildIssuedVoucherData (timeZone p) issuer input outcome spId client qr)))"

definition issuedVoucherOf :: "issueVoucher \<Rightarrow> EmissionOutcome \<Rightarrow> string \<Rightarrow> string \<Rightarrow> IssuedVoucher" where
  "issuedVoucherOf input outcome voucherId qr =
     \<lparr>iv_id = voucherId, iv_voucherType = voucherType input, iv_salesPoint = salesPoint input,
      iv_number = outcome_number outcome, iv_cae = cae_code (outcome_cae outcome),
      iv_caeExpiration = cae_vto (outcome_cae outcome),
      iv_netAmount = netAmount (outcome_amounts outcome), iv_ivaAmount = ivaAmount (outcome_amounts outcome),
      iv_totalAmount = totalAmount (outcome_amounts outcome), iv_qrData = qr\<rparr>"

definition record_voucher ::
  "'a ports \<Rightarrow> StoredIssuer \<Rightarrow> issueVoucher \<Rightarrow> EmissionOutcome \<Rightarrow> string option \<Rightarrow> ('a, IssuedVoucher) effect" where
  "record_voucher p issuer input outcome key =
     (let qr = qrDataFor (timeZone p) issuer input outcome in
      bindA (createVoucher p issuer input outcome qr) (\<lambda>voucherId.
      bindA (if hasText key then insertIdempotency p (issuer_id issuer) (the key) voucherId else returnA ()) (\<lambda>_.
      bindA (notify (VoucherIssuedHook (issuer_id issuer) voucherId (voucherType input) (salesPoint input)
               (outcome_number outcome) (cae_code (outcome_cae outcome)) (cae_vto (outcome_cae outcome))
               (totalAmount (outcome_amounts outcome)))) (\<lambda>_.
      returnA (issuedVoucherOf input outcome voucherId qr)))))"

subsection \<open>Replaying\<close>

definition toIssuedVoucher :: "'a ports \<Rightarrow> SalesPointRow \<Rightarrow> VoucherRow \<Rightarrow> string \<Rightarrow> IssuedVoucher" where
  "toIssuedVoucher p sp row code = (let d = voucher_data row in
     \<lparr>iv_id = voucher_id row, iv_voucherType = vd_voucherType d, iv_salesPoint = sp_number sp,
      iv_number = vd_number d, iv_cae = code,
      iv_caeExpiration = orElse (vd_caeExpiration d) (vd_voucherDate d),
      iv_netAmount = storedDecimal p (vd_netAmount d), iv_ivaAmount = storedDecimal p (vd_ivaAmount d),
      iv_totalAmount = storedDecimal p (vd_totalAmount d), iv_qrData = orElse (vd_qrData d) ''''\<rparr>)"

definition findVoucherWithSalesPoint :: "'a ports \<Rightarrow> string \<Rightarrow> ('a, (VoucherRow \<times> SalesPointRow) option) effect" where
  "findVoucherWithSalesPoint p i = table p (\<lambda>w.
     (case findRow (\<lambda>r. voucher_id r = i) (vouchers w) of
        None \<Rightarrow> (Inr None, w)
      | Some row \<Rightarrow>
          (case findRow (\<lambda>r. sp_id r = vd_salesPointId (voucher_data row)) (salesPoints w) of
             None \<Rightarrow> (Inl (OtherError ''Inconsistent query result''), w)
           | Some sp \<Rightarrow> (Inr (Some (row, sp)), w))))"

definition findReplayedVoucher :: "'a ports \<Rightarrow> string \<Rightarrow> string \<Rightarrow> ('a, IssuedVoucher option) effect" where
  "findReplayedVoucher p i key =
     bindA (table p (getA (\<lambda>w. findRow (sameIdempotencyKey i key) (idempotencyRecords w)))) (\<lambda>found.
       case found of
         None \<Rightarrow> returnA None
       | Some ir \<Rightarrow>
           bindA (findVoucherWithSalesPoint p (ir_voucherId ir)) (\<lambda>voucher.
             case voucher of
               None \<Rightarrow> returnA None
             | Some (row, sp) \<Rightarrow>
                 if \<not> hasText (vd_cae (voucher_data row)) then returnA None
                 else returnA (Some (toIssuedVoucher p sp row (the (vd_cae (voucher_data row)))))))"

definition samePendingKey :: "string \<Rightarrow> string \<Rightarrow> PendingVoucherRow \<Rightarrow> bool" where
  "samePendingKey i key r = (pending_issuerId r = i \<and> pending_idempotencyKey r = Some key)"

definition replayOrQueued :: "'a ports \<Rightarrow> string \<Rightarrow> string \<Rightarrow> ('a, IssuedVoucher option) effect" where
  "replayOrQueued p i key =
     bindA (findReplayedVoucher p i key) (\<lambda>replayed.
       case replayed of
         Some v \<Rightarrow> returnA (Some v)
       | None \<Rightarrow>
           bindA (table p (getA (\<lambda>w. findRow (samePendingKey i key) (pendingVouchers w)))) (\<lambda>pending.
             case pending of
               Some row \<Rightarrow> if pending_status row = PENDING then throwA (VoucherQueued (pending_id row))
                            else returnA None
             | None \<Rightarrow> returnA None))"

end
