(* ===== verification/PendingQueue.thy ===== *)
theory PendingQueue
  imports IssuedVouchers
begin

text \<open>
  The queue of vouchers that ARCA did not answer, \<open>pending-voucher-queue.service.ts\<close>. Its
  payload is the request itself: \<open>JSON.parse(JSON.stringify(input))\<close> gives back the same
  fields, with the absent ones absent.
\<close>

definition RETRY_BATCH_SIZE :: nat where
  "RETRY_BATCH_SIZE = 25"

record PendingVoucherEntry =
  entry_issuerId :: string
  entry_input :: issueVoucher
  entry_idempotencyKey :: "string option"
  entry_lastError :: string
  entry_attemptedNumber :: "int option"

definition isUniqueViolation :: "app_error \<Rightarrow> bool" where
  "isUniqueViolation e = (e = PrismaKnownError UNIQUE_CONSTRAINT_VIOLATION)"

text \<open>The unique constraint: rows without a key never conflict.\<close>

definition conflictsWith :: "PendingVoucherRow \<Rightarrow> PendingVoucherRow \<Rightarrow> bool" where
  "conflictsWith a b = (pending_issuerId a = pending_issuerId b \<and> pending_idempotencyKey a \<noteq> None \<and>
     pending_idempotencyKey a = pending_idempotencyKey b)"

definition createPending :: "'a ports \<Rightarrow> PendingVoucherRow \<Rightarrow> ('a, PendingVoucherRow) effect" where
  "createPending p row = table p (\<lambda>w.
     (if findRow (conflictsWith row) (pendingVouchers w) \<noteq> None
        then (Inl (PrismaKnownError UNIQUE_CONSTRAINT_VIOLATION), w)
      else bindA (newId p) (\<lambda>new. bindA
          (putA (\<lambda>w. w\<lparr>pendingVouchers := pendingVouchers w @ [row\<lparr>pending_id := new\<rparr>]\<rparr>))
          (\<lambda>_. returnA (row\<lparr>pending_id := new\<rparr>))) w))"

definition findExistingOnConflict ::
  "'a ports \<Rightarrow> app_error \<Rightarrow> string \<Rightarrow> string option \<Rightarrow> ('a, PendingVoucherRow option) effect" where
  "findExistingOnConflict p error i key =
     (if \<not> isUniqueViolation error \<or> \<not> hasText key then returnA None
      else table p (getA (\<lambda>w. findRow (samePendingKey i (the key)) (pendingVouchers w))))"

definition enqueue :: "'a ports \<Rightarrow> PendingVoucherEntry \<Rightarrow> ('a, PendingVoucherRow) effect" where
  "enqueue p entry =
     bindA (now p) (\<lambda>start.
     let attempted = entry_attemptedNumber entry in
     catchA
       (bindA (if attempted = None then returnA None else bindA (now p) (\<lambda>t. returnA (Some t))) (\<lambda>attempt_time.
        bindA (now p) (\<lambda>created.
        createPending p
          \<lparr>pending_id = '''', pending_issuerId = entry_issuerId entry,
           pending_idempotencyKey = entry_idempotencyKey entry, payload = entry_input entry,
           pending_status = PENDING, retryCount = 0, nextRetryAt = start + retryBaseMs p,
           attemptedNumber = attempted,
           attemptedSalesPoint = (if attempted = None then None else Some (salesPoint (entry_input entry))),
           attemptedAt = attempt_time, lastError = Some (entry_lastError entry),
           pending_createdAt = created\<rparr>)))
       (\<lambda>err. bindA (findExistingOnConflict p err (entry_issuerId entry) (entry_idempotencyKey entry)) (\<lambda>existing.
          case existing of Some row \<Rightarrow> returnA row | None \<Rightarrow> throwA err)))"

definition findDue :: "'a ports \<Rightarrow> ('a, PendingVoucherRow list) effect" where
  "findDue p = bindA (now p) (\<lambda>t. table p (getA (\<lambda>w.
     take RETRY_BATCH_SIZE
       (filter (\<lambda>r. pending_status r = PENDING \<and> nextRetryAt r \<le> t) (pendingVouchers w)))))"

definition findIssuer :: "'a ports \<Rightarrow> PendingVoucherRow \<Rightarrow> ('a, StoredIssuer option) effect" where
  "findIssuer p pending = table p (getA (\<lambda>w.
     findRow (\<lambda>r. issuer_id r = pending_issuerId pending) (issuers w)))"

text \<open>\<open>update\<close> and \<open>delete\<close> fail when no row has the identifier.\<close>

definition updatePending ::
  "'a ports \<Rightarrow> string \<Rightarrow> (PendingVoucherRow \<Rightarrow> PendingVoucherRow) \<Rightarrow> ('a, unit) effect" where
  "updatePending p i change = table p (\<lambda>w.
     (if findRow (\<lambda>r. pending_id r = i) (pendingVouchers w) = None
        then (Inl (PrismaKnownError RECORD_NOT_FOUND), w)
      else (Inr (), w\<lparr>pendingVouchers :=
          map (\<lambda>r. if pending_id r = i then change r else r) (pendingVouchers w)\<rparr>)))"

definition deletePending :: "'a ports \<Rightarrow> string \<Rightarrow> ('a, unit) effect" where
  "deletePending p i = table p (\<lambda>w.
     (if findRow (\<lambda>r. pending_id r = i) (pendingVouchers w) = None
        then (Inl (PrismaKnownError RECORD_NOT_FOUND), w)
      else (Inr (), w\<lparr>pendingVouchers := filter (\<lambda>r. pending_id r \<noteq> i) (pendingVouchers w)\<rparr>)))"

definition complete :: "'a ports \<Rightarrow> PendingVoucherRow \<Rightarrow> IssuedVoucher \<Rightarrow> ('a, unit) effect" where
  "complete p pending issued =
     bindA (deletePending p (pending_id pending)) (\<lambda>_.
     notify (VoucherAuthorizedPush (pending_issuerId pending) issued))"

definition fail :: "'a ports \<Rightarrow> PendingVoucherRow \<Rightarrow> string \<Rightarrow> bool \<Rightarrow> ('a, unit) effect" where
  "fail p pending reason permanent =
     bindA (updatePending p (pending_id pending) (\<lambda>r.
       r\<lparr>pending_status := FAILED, lastError := Some reason, retryCount := retryCount pending + 1\<rparr>)) (\<lambda>_.
     bindA (notify (VoucherFailedPush (pending_issuerId pending) (pending_id pending) reason)) (\<lambda>_.
     notify (VoucherFailedHook (pending_issuerId pending) (pending_id pending) reason permanent (\<not> permanent))))"

definition bump :: "'a ports \<Rightarrow> PendingVoucherRow \<Rightarrow> string \<Rightarrow> ('a, unit) effect" where
  "bump p pending reason =
     (let count = retryCount pending + 1 in
      if maxRetries p \<le> count then fail p pending reason False
      else bindA (now p) (\<lambda>t. updatePending p (pending_id pending) (\<lambda>r.
        r\<lparr>retryCount := count, nextRetryAt := t + retryBaseMs p * 2 ^ nat count,
          lastError := Some reason\<rparr>)))"

end
