(* ===== verification/Emission.thy ===== *)
theory Emission
  imports PendingQueue
begin

text \<open>
  Issuing a voucher, \<open>voucher-emission.service.ts\<close>. The part that runs under the lock of
  the issuer is \<open>issueUnderLock\<close>; the lock itself is in the theory \<open>IssuerLock\<close>.
\<close>

definition replay :: "'a ports \<Rightarrow> string \<Rightarrow> string option \<Rightarrow> ('a, IssuedVoucher option) effect" where
  "replay p i key = (if \<not> hasText key then returnA None else replayOrQueued p i (the key))"

definition attemptedNumberOf :: "app_error \<Rightarrow> int option" where
  "attemptedNumberOf err = (case err of CaeAttempt cause sp attempted \<Rightarrow> attempted | _ \<Rightarrow> None)"

definition queueAfter ::
  "'a ports \<Rightarrow> StoredIssuer \<Rightarrow> issueVoucher \<Rightarrow> string option \<Rightarrow> app_error \<Rightarrow> ('a, 'b) effect" where
  "queueAfter p issuer input key err =
     (if isArcaRejection err then throwA err
      else bindA (enqueue p
             \<lparr>entry_issuerId = issuer_id issuer, entry_input = input, entry_idempotencyKey = key,
              entry_lastError = describeError err, entry_attemptedNumber = attemptedNumberOf err\<rparr>)
             (\<lambda>pending. throwA (VoucherQueued (pending_id pending))))"

definition emit ::
  "'a ports \<Rightarrow> StoredIssuer \<Rightarrow> issueVoucher \<Rightarrow> string option \<Rightarrow> ('a, IssuedVoucher) effect" where
  "emit p issuer input key =
     bindA (catchA (attemptCae p issuer input) (queueAfter p issuer input key)) (\<lambda>outcome.
     record_voucher p issuer input outcome key)"

definition issueUnderLock ::
  "'a ports \<Rightarrow> StoredIssuer \<Rightarrow> issueVoucher \<Rightarrow> string option \<Rightarrow> ('a, IssuedVoucher) effect" where
  "issueUnderLock p issuer input key =
     bindA (replay p (issuer_id issuer) key) (\<lambda>replayInsideLock.
       case replayInsideLock of
         Some v \<Rightarrow> returnA v
       | None \<Rightarrow> emit p issuer input key)"

definition issueAuthorized ::
  "'a ports \<Rightarrow> StoredIssuer \<Rightarrow> issueVoucher \<Rightarrow> string option \<Rightarrow> ('a, IssuedVoucher) effect" where
  "issueAuthorized p issuer input key =
     bindA (replay p (issuer_id issuer) key) (\<lambda>replayed.
       case replayed of
         Some v \<Rightarrow> returnA v
       | None \<Rightarrow> issueUnderLock p issuer input key)"

subsection \<open>Retrying what was queued\<close>

text \<open>\<open>pending-voucher-retry.service.ts\<close>.\<close>

definition obtainCae ::
  "'a ports \<Rightarrow> StoredIssuer \<Rightarrow> issueVoucher \<Rightarrow> PendingVoucherRow \<Rightarrow> ('a, EmissionOutcome option) effect" where
  "obtainCae p issuer input pending =
     catchA
       (bindA (recoverAlreadyAuthorized p issuer input pending) (\<lambda>adopted.
          case adopted of
            Some outcome \<Rightarrow> returnA (Some outcome)
          | None \<Rightarrow> bindA (attemptCae p issuer input) (\<lambda>outcome. returnA (Some outcome))))
       (\<lambda>err. bindA (if isArcaRejection err then fail p pending (messageOf err) True
                     else bump p pending (describeError err)) (\<lambda>_. returnA None))"

definition retryUnderLock ::
  "'a ports \<Rightarrow> StoredIssuer \<Rightarrow> issueVoucher \<Rightarrow> PendingVoucherRow \<Rightarrow> ('a, unit) effect" where
  "retryUnderLock p issuer input pending =
     bindA (obtainCae p issuer input pending) (\<lambda>outcome.
       case outcome of
         None \<Rightarrow> returnA ()
       | Some o' \<Rightarrow>
           bindA (record_voucher p issuer input o' (pending_idempotencyKey pending)) (\<lambda>issued.
           complete p pending issued))"

definition processPending :: "'a ports \<Rightarrow> PendingVoucherRow \<Rightarrow> ('a, unit) effect" where
  "processPending p pending =
     bindA (findIssuer p pending) (\<lambda>issuer.
       case issuer of
         None \<Rightarrow> fail p pending ''Emisor inexistente.'' True
       | Some i \<Rightarrow>
           (case parseIssueVoucher (payload pending) of
              Inl issues \<Rightarrow> throwA (OtherError ''ZodError'')
            | Inr input \<Rightarrow> retryUnderLock p i input pending))"

definition retryPendingVouchers :: "'a ports \<Rightarrow> ('a, unit) effect" where
  "retryPendingVouchers p = bindA (findDue p) (\<lambda>due. forEachA (processPending p) due)"

text \<open>
  The tick of \<open>voucher-retry.scheduler.ts\<close>: nothing while a cycle is running, and a cycle
  that throws is only logged.
\<close>

definition retryTick :: "'a ports \<Rightarrow> bool \<Rightarrow> ('a, unit) effect" where
  "retryTick p running =
     (if running then returnA () else catchA (retryPendingVouchers p) (\<lambda>err. returnA ()))"

end
