(* ===== verification/Access.thy ===== *)
theory Access
  imports Emission "HOL-Library.Product_Lexorder"
begin

text \<open>
  Who may touch which issuer and which voucher: the grants of the API clients
  (\<open>api-client.service.ts\<close>), the issuers of a user or a client
  (\<open>issuers.service.ts\<close>) and the vouchers of an issuer
  (\<open>voucher-access.service.ts\<close>).
\<close>

definition MISSING_ISSUER_MESSAGE :: string where
  "MISSING_ISSUER_MESSAGE = ''Emisor inexistente.''"

definition FOREIGN_ISSUER_MESSAGE :: string where
  "FOREIGN_ISSUER_MESSAGE = ''El emisor no pertenece al usuario.''"

definition assertIssuerGranted :: "'a ports \<Rightarrow> string \<Rightarrow> string \<Rightarrow> ('a, unit) effect" where
  "assertIssuerGranted p client i =
     bindA (table p (getA (\<lambda>w. findRow (\<lambda>g. grant_apiClientId g = client \<and> grant_issuerId g = i)
              (apiClientIssuers w)))) (\<lambda>grant.
     if grant = None then throwA (Forbidden (''El emisor no est'' @ [CHR 0xE1] @ '' habilitado para este cliente.''))
     else returnA ())"

subsection \<open>Issuers of an owner\<close>

datatype IssuerOwner = OwnerUser string | OwnerClient string

record OwnedIssuerWhere =
  where_id :: string
  where_userId :: "string option"

definition matchesWhere :: "OwnedIssuerWhere \<Rightarrow> StoredIssuer \<Rightarrow> bool" where
  "matchesWhere q r = (issuer_id r = where_id q \<and>
     (case where_userId q of None \<Rightarrow> True | Some u \<Rightarrow> issuer_userId r = u))"

definition ownedIssuerWhere :: "'a ports \<Rightarrow> IssuerOwner \<Rightarrow> string \<Rightarrow> ('a, OwnedIssuerWhere) effect" where
  "ownedIssuerWhere p owner i =
     (case owner of
        OwnerClient client \<Rightarrow> bindA (assertIssuerGranted p client i) (\<lambda>_.
          returnA \<lparr>where_id = i, where_userId = None\<rparr>)
      | OwnerUser u \<Rightarrow> returnA \<lparr>where_id = i, where_userId = Some u\<rparr>)"

definition rejectUnowned :: "'a ports \<Rightarrow> IssuerOwner \<Rightarrow> string \<Rightarrow> ('a, 'b) effect" where
  "rejectUnowned p owner i =
     (case owner of
        OwnerUser u \<Rightarrow>
          bindA (table p (getA (\<lambda>w. length (filter (\<lambda>r. issuer_id r = i) (issuers w))))) (\<lambda>count.
          if 0 < count then throwA (Forbidden FOREIGN_ISSUER_MESSAGE)
          else throwA (NotFound MISSING_ISSUER_MESSAGE))
      | OwnerClient client \<Rightarrow> throwA (NotFound MISSING_ISSUER_MESSAGE))"

definition findIssuerWhere :: "'a ports \<Rightarrow> OwnedIssuerWhere \<Rightarrow> ('a, StoredIssuer option) effect" where
  "findIssuerWhere p q = table p (getA (\<lambda>w. findRow (matchesWhere q) (issuers w)))"

definition getOwned :: "'a ports \<Rightarrow> IssuerOwner \<Rightarrow> string \<Rightarrow> ('a, StoredIssuer) effect" where
  "getOwned p owner i =
     bindA (ownedIssuerWhere p owner i) (\<lambda>q.
     bindA (findIssuerWhere p q) (\<lambda>issuer.
       case issuer of None \<Rightarrow> rejectUnowned p owner i | Some r \<Rightarrow> returnA r))"

definition getFromUser :: "'a ports \<Rightarrow> string \<Rightarrow> string \<Rightarrow> ('a, StoredIssuer) effect" where
  "getFromUser p i u = getOwned p (OwnerUser u) i"

definition requireOwnedIssuerWhere :: "'a ports \<Rightarrow> IssuerOwner \<Rightarrow> string \<Rightarrow> ('a, OwnedIssuerWhere) effect" where
  "requireOwnedIssuerWhere p owner i =
     bindA (ownedIssuerWhere p owner i) (\<lambda>q.
     bindA (findIssuerWhere p q) (\<lambda>issuer.
       case issuer of None \<Rightarrow> rejectUnowned p owner i | Some r \<Rightarrow> returnA q))"

definition updateIssuerWhere ::
  "'a ports \<Rightarrow> OwnedIssuerWhere \<Rightarrow> (StoredIssuer \<Rightarrow> StoredIssuer) \<Rightarrow> ('a, StoredIssuer) effect" where
  "updateIssuerWhere p q change = table p (\<lambda>w.
     (case findRow (matchesWhere q) (issuers w) of
        None \<Rightarrow> (Inl (PrismaKnownError RECORD_NOT_FOUND), w)
      | Some r \<Rightarrow> (Inr (change r), w\<lparr>issuers :=
          map (\<lambda>r. if matchesWhere q r then change r else r) (issuers w)\<rparr>)))"

definition updatePaymentAccount ::
  "'a ports \<Rightarrow> IssuerOwner \<Rightarrow> string \<Rightarrow> string option \<Rightarrow> string option \<Rightarrow> ('a, StoredIssuer) effect" where
  "updatePaymentAccount p owner i newCbu newAlias =
     bindA (requireOwnedIssuerWhere p owner i) (\<lambda>q.
     updateIssuerWhere p q (\<lambda>r. r\<lparr>cbu := newCbu, paymentAlias := newAlias\<rparr>))"

definition updateCommercialAddress ::
  "'a ports \<Rightarrow> IssuerOwner \<Rightarrow> string \<Rightarrow> string option \<Rightarrow> ('a, StoredIssuer) effect" where
  "updateCommercialAddress p owner i address =
     bindA (requireOwnedIssuerWhere p owner i) (\<lambda>q.
     updateIssuerWhere p q (\<lambda>r. r\<lparr>commercialAddress := address\<rparr>))"

text \<open>\<open>normalizeCuit\<close> of \<open>shared/src/issuer.ts\<close> keeps the digits.\<close>

definition normalizeCuit :: "string \<Rightarrow> string" where
  "normalizeCuit value = onlyDigits value"

definition certificateOf :: "string \<Rightarrow> 'a world \<Rightarrow> CertificateRow option" where
  "certificateOf i w = findRow (\<lambda>c. cert_issuerId c = i) (certificates w)"

definition updateRepresentative ::
  "'a ports \<Rightarrow> IssuerOwner \<Rightarrow> string \<Rightarrow> string option \<Rightarrow> ('a, StoredIssuer) effect" where
  "updateRepresentative p owner i newRepresentative =
     bindA (ownedIssuerWhere p owner i) (\<lambda>q.
     bindA (table p (getA (\<lambda>w. (findRow (matchesWhere q) (issuers w), certificateOf i w)))) (\<lambda>(issuer, cert).
       case issuer of
         None \<Rightarrow> rejectUnowned p owner i
       | Some r \<Rightarrow>
           (let loaded = Option.bind cert (\<lambda>c. if hasText (certPem c) then holderCuit c else None);
                expected = normalizeCuit (orElse newRepresentative (issuer_cuit r)) in
            if hasText loaded \<and> the loaded \<noteq> expected
            then throwA (Conflict (''El certificado cargado pertenece al CUIT '' @ the loaded @ '' y el cambio lo '' @
                   ''dejar'' @ [CHR 0xED] @ ''a sin corresponder al titular '' @ expected @ ''. Primero hay que '' @
                   ''cargar el certificado del nuevo titular.''))
            else updateIssuerWhere p q (\<lambda>r. r\<lparr>representativeCuit := newRepresentative\<rparr>))))"

definition listIssuers :: "'a ports \<Rightarrow> string \<Rightarrow> ('a, StoredIssuer list) effect" where
  "listIssuers p u = table p (getA (\<lambda>w. filter (\<lambda>r. issuer_userId r = u) (issuers w)))"

definition listIssuersForApiClient :: "'a ports \<Rightarrow> string \<Rightarrow> ('a, StoredIssuer list) effect" where
  "listIssuersForApiClient p client =
     bindA (table p (getA (\<lambda>w. map grant_issuerId
       (filter (\<lambda>g. grant_apiClientId g = client) (apiClientIssuers w))))) (\<lambda>granted.
     table p (getA (\<lambda>w. filter (\<lambda>r. issuer_id r \<in> set granted) (issuers w))))"

subsection \<open>Creating issuers\<close>

record CreateIssuer =
  ci_cuit :: string
  ci_legalName :: string
  ci_commercialAddress :: "string option"
  ci_ivaCondition :: string
  ci_environment :: string

text \<open>\<open>unique([userId, cuit, environment])\<close>.\<close>

definition sameIssuerKey :: "string \<Rightarrow> CreateIssuer \<Rightarrow> StoredIssuer \<Rightarrow> bool" where
  "sameIssuerKey u d r =
     (issuer_userId r = u \<and> issuer_cuit r = ci_cuit d \<and> issuer_environment r = ci_environment d)"

definition newIssuer :: "string \<Rightarrow> string \<Rightarrow> CreateIssuer \<Rightarrow> StoredIssuer" where
  "newIssuer i u d =
     \<lparr>cbu = None, paymentAlias = None, issuer_id = i, issuer_cuit = ci_cuit d,
      issuer_environment = ci_environment d, representativeCuit = None, issuer_userId = u,
      onboardingStatus = PENDING_CERTIFICATE, issuer_legalName = ci_legalName d,
      issuer_ivaCondition = ci_ivaCondition d, commercialAddress = ci_commercialAddress d\<rparr>"

definition createIssuer :: "'a ports \<Rightarrow> string \<Rightarrow> CreateIssuer \<Rightarrow> ('a, StoredIssuer) effect" where
  "createIssuer p u d = table p (\<lambda>w.
     (if findRow (sameIssuerKey u d) (issuers w) \<noteq> None
        then (Inl (PrismaKnownError UNIQUE_CONSTRAINT_VIOLATION), w)
      else bindA (newId p) (\<lambda>new. bindA
          (putA (\<lambda>w. w\<lparr>issuers := issuers w @ [newIssuer new u d]\<rparr>))
          (\<lambda>_. returnA (newIssuer new u d))) w))"

definition serviceUserEmail :: "string \<Rightarrow> string" where
  "serviceUserEmail client = client @ ''@service.chirola.internal''"

definition ensureServiceUser :: "'a ports \<Rightarrow> string \<Rightarrow> ('a, string) effect" where
  "ensureServiceUser p client = table p (\<lambda>w.
     (case findRow (\<lambda>u. user_email u = serviceUserEmail client) (users w) of
        Some u \<Rightarrow> (Inr (user_id u), w)
      | None \<Rightarrow> bindA (newId p) (\<lambda>new. bindA
          (putA (\<lambda>w. w\<lparr>users := users w @ [\<lparr>user_id = new, user_email = serviceUserEmail client,
             user_password = ''service-account-no-login''\<rparr>]\<rparr>))
          (\<lambda>_. returnA new)) w))"

definition createGrant :: "'a ports \<Rightarrow> string \<Rightarrow> string \<Rightarrow> ('a, unit) effect" where
  "createGrant p client i = table p (\<lambda>w.
     (if findRow (\<lambda>g. grant_apiClientId g = client \<and> grant_issuerId g = i) (apiClientIssuers w) \<noteq> None
        then (Inl (PrismaKnownError UNIQUE_CONSTRAINT_VIOLATION), w)
      else (Inr (), w\<lparr>apiClientIssuers := apiClientIssuers w @
          [\<lparr>grant_apiClientId = client, grant_issuerId = i\<rparr>]\<rparr>)))"

text \<open>A transaction that throws leaves the tables as they were.\<close>

definition transaction :: "('a, 'b) effect \<Rightarrow> ('a, 'b) effect" where
  "transaction m w = (case m w of
      (Inl e, w') \<Rightarrow> (Inl e, w\<lparr>outside := outside w', nextId := nextId w'\<rparr>)
    | (Inr x, w') \<Rightarrow> (Inr x, w'))"

definition createForApiClient :: "'a ports \<Rightarrow> string \<Rightarrow> CreateIssuer \<Rightarrow> ('a, StoredIssuer) effect" where
  "createForApiClient p client d =
     catchA
       (transaction
         (bindA (ensureServiceUser p client) (\<lambda>u.
          bindA (createIssuer p u d) (\<lambda>issuer.
          bindA (createGrant p client (issuer_id issuer)) (\<lambda>_.
          returnA issuer)))))
       (\<lambda>error. if isUniqueViolation error
                then throwA (Conflict ''Ya existe un emisor con ese CUIT para este entorno.'')
                else throwA error)"

subsection \<open>Vouchers\<close>

definition DEFAULT_VOUCHER_LIST_LIMIT :: int where
  "DEFAULT_VOUCHER_LIST_LIMIT = 20"

definition MAX_VOUCHER_LIST_LIMIT :: int where
  "MAX_VOUCHER_LIST_LIMIT = 100"

text \<open>\<open>None\<close> is a limit that is undefined or not a finite number.\<close>

definition listLimit :: "number option \<Rightarrow> int" where
  "listLimit limit = (case limit of
      None \<Rightarrow> DEFAULT_VOUCHER_LIST_LIMIT
    | Some x \<Rightarrow> if x < 1 then DEFAULT_VOUCHER_LIST_LIMIT
                else min (truncNumber x) MAX_VOUCHER_LIST_LIMIT)"

definition assertIssuerExists :: "'a ports \<Rightarrow> string \<Rightarrow> ('a, unit) effect" where
  "assertIssuerExists p i =
     bindA (table p (getA (\<lambda>w. length (filter (\<lambda>r. issuer_id r = i) (issuers w))))) (\<lambda>count.
     if count = 0 then throwA (NotFound MISSING_ISSUER_MESSAGE) else returnA ())"

definition findOwnedIssuer :: "'a ports \<Rightarrow> string \<Rightarrow> string \<Rightarrow> ('a, StoredIssuer) effect" where
  "findOwnedIssuer p u i =
     bindA (table p (getA (\<lambda>w. findRow (\<lambda>r. issuer_id r = i \<and> issuer_userId r = u) (issuers w)))) (\<lambda>issuer.
       case issuer of
         Some r \<Rightarrow> returnA r
       | None \<Rightarrow> bindA (assertIssuerExists p i) (\<lambda>_. throwA (Forbidden FOREIGN_ISSUER_MESSAGE)))"

definition findGrantedIssuer :: "'a ports \<Rightarrow> string \<Rightarrow> string \<Rightarrow> ('a, StoredIssuer) effect" where
  "findGrantedIssuer p client i =
     bindA (assertIssuerGranted p client i) (\<lambda>_.
     bindA (table p (getA (\<lambda>w. findRow (\<lambda>r. issuer_id r = i) (issuers w)))) (\<lambda>issuer.
       case issuer of None \<Rightarrow> throwA (NotFound MISSING_ISSUER_MESSAGE) | Some r \<Rightarrow> returnA r))"

definition ownerOf :: "'a world \<Rightarrow> VoucherRow \<Rightarrow> string option" where
  "ownerOf w v = map_option issuer_userId
     (findRow (\<lambda>r. issuer_id r = vd_issuerId (voucher_data v)) (issuers w))"

definition findVoucherIssuerId :: "'a ports \<Rightarrow> string \<Rightarrow> ('a, string) effect" where
  "findVoucherIssuerId p i =
     bindA (table p (getA (\<lambda>w. findRow (\<lambda>v. voucher_id v = i) (vouchers w)))) (\<lambda>owner.
       case owner of None \<Rightarrow> throwA (NotFound ''Comprobante inexistente.'')
       | Some v \<Rightarrow> returnA (vd_issuerId (voucher_data v)))"

definition getVoucher :: "'a ports \<Rightarrow> string \<Rightarrow> string \<Rightarrow> ('a, VoucherRow) effect" where
  "getVoucher p u i =
     bindA (table p (getA (\<lambda>w. findRow (\<lambda>v. voucher_id v = i \<and> ownerOf w v = Some u) (vouchers w)))) (\<lambda>voucher.
       case voucher of
         Some v \<Rightarrow> returnA v
       | None \<Rightarrow> bindA (findVoucherIssuerId p i) (\<lambda>_.
           throwA (Forbidden ''El comprobante no pertenece al usuario.'')))"

definition getVoucherForApiClient :: "'a ports \<Rightarrow> string \<Rightarrow> string \<Rightarrow> ('a, VoucherRow) effect" where
  "getVoucherForApiClient p client i =
     bindA (findVoucherIssuerId p i) (\<lambda>issuerId.
     bindA (assertIssuerGranted p client issuerId) (\<lambda>_.
     bindA (table p (getA (\<lambda>w. findRow (\<lambda>v. voucher_id v = i \<and> vd_issuerId (voucher_data v) = issuerId)
       (vouchers w)))) (\<lambda>voucher.
       case voucher of None \<Rightarrow> throwA (NotFound ''Comprobante inexistente.'') | Some v \<Rightarrow> returnA v)))"

text \<open>The most recent first, and by number within a date.\<close>

definition voucherOrder :: "VoucherRow \<Rightarrow> int \<times> int" where
  "voucherOrder v = (- orElse (vd_voucherDate (voucher_data v)) 0, - vd_number (voucher_data v))"

definition listForIssuer :: "'a ports \<Rightarrow> string \<Rightarrow> number option \<Rightarrow> ('a, VoucherRow list) effect" where
  "listForIssuer p i limit = table p (getA (\<lambda>w.
     take (nat (listLimit limit))
       (sort_key voucherOrder (filter (\<lambda>v. vd_issuerId (voucher_data v) = i) (vouchers w)))))"

end
