(* ===== verification/PendingVouchers.thy ===== *)
theory PendingVouchers
  imports Access
begin

text \<open>
  What a user or an API client can do with the queued vouchers of an issuer: list, retry or
  discard them, \<open>pending-vouchers.service.ts\<close>.
\<close>

definition NOT_FAILED_MESSAGE :: string where
  "NOT_FAILED_MESSAGE =
     ''S'' @ [CHR 0xF3] @ ''lo se puede reintentar o descartar un comprobante que fall'' @ [CHR 0xF3] @ '': los que siguen en cola se reintentan solos.''"

record PendingVoucherSummary =
  summary_id :: string
  summary_status :: PendingVoucherStatus
  summary_voucherType :: int
  summary_salesPoint :: int
  summary_recipientName :: "string option"
  summary_totalAmount :: number
  summary_currency :: string
  summary_retryCount :: int
  summary_nextRetryAt :: date
  summary_lastError :: "string option"
  summary_createdAt :: date

definition summarizePendingVoucher :: "PendingVoucherRow \<Rightarrow> app_error + PendingVoucherSummary" where
  "summarizePendingVoucher pending =
     (case parseIssueVoucher (payload pending) of
        Inl issues \<Rightarrow> Inl (OtherError ''ZodError'')
      | Inr input \<Rightarrow>
          (case amountsOf input of
             Inl e \<Rightarrow> Inl e
           | Inr amounts \<Rightarrow> Inr
               \<lparr>summary_id = pending_id pending, summary_status = pending_status pending,
                summary_voucherType = voucherType input, summary_salesPoint = salesPoint input,
                summary_recipientName = legalName (recipient_of input),
                summary_totalAmount = totalAmount amounts, summary_currency = currency input,
                summary_retryCount = retryCount pending, summary_nextRetryAt = nextRetryAt pending,
                summary_lastError = lastError pending, summary_createdAt = pending_createdAt pending\<rparr>))"

text \<open>A map whose function may throw stops at the first error.\<close>

fun mapSum :: "('a \<Rightarrow> 'e + 'b) \<Rightarrow> 'a list \<Rightarrow> 'e + 'b list" where
  "mapSum f [] = Inr []"
| "mapSum f (x # xs) = (case f x of Inl e \<Rightarrow> Inl e | Inr y \<Rightarrow>
     (case mapSum f xs of Inl e \<Rightarrow> Inl e | Inr ys \<Rightarrow> Inr (y # ys)))"

definition listPending :: "'a ports \<Rightarrow> string \<Rightarrow> ('a, PendingVoucherSummary list) effect" where
  "listPending p i =
     bindA (table p (getA (\<lambda>w. sort_key (\<lambda>r. - pending_createdAt r)
       (filter (\<lambda>r. pending_issuerId r = i) (pendingVouchers w))))) (\<lambda>pending.
     pureA (mapSum summarizePendingVoucher pending))"

definition explainMissingFailed :: "'a ports \<Rightarrow> string \<Rightarrow> string \<Rightarrow> ('a, unit) effect" where
  "explainMissingFailed p i pid =
     bindA (table p (getA (\<lambda>w. findRow (\<lambda>r. pending_id r = pid \<and> pending_issuerId r = i) (pendingVouchers w)))) (\<lambda>existing.
     if existing = None then throwA (NotFound ''Comprobante en cola inexistente.'')
     else throwA (Conflict NOT_FAILED_MESSAGE))"

text \<open>\<open>where: { id, issuerId, status: FAILED }\<close>.\<close>

definition failedOf :: "string \<Rightarrow> string \<Rightarrow> PendingVoucherRow \<Rightarrow> bool" where
  "failedOf i pid r = (pending_id r = pid \<and> pending_issuerId r = i \<and> pending_status r = FAILED)"

definition retryFailed :: "'a ports \<Rightarrow> string \<Rightarrow> string \<Rightarrow> ('a, unit) effect" where
  "retryFailed p i pid =
     bindA (now p) (\<lambda>t.
     bindA (table p (\<lambda>w. (Inr (length (filter (failedOf i pid) (pendingVouchers w))),
       w\<lparr>pendingVouchers := map (\<lambda>r. if failedOf i pid r
           then r\<lparr>pending_status := PENDING, retryCount := 0, nextRetryAt := t\<rparr> else r) (pendingVouchers w)\<rparr>)))
     (\<lambda>count. if count = 0 then explainMissingFailed p i pid else returnA ()))"

definition discardFailed :: "'a ports \<Rightarrow> string \<Rightarrow> string \<Rightarrow> ('a, unit) effect" where
  "discardFailed p i pid =
     bindA (table p (\<lambda>w. (Inr (length (filter (failedOf i pid) (pendingVouchers w))),
       w\<lparr>pendingVouchers := filter (\<lambda>r. \<not> failedOf i pid r) (pendingVouchers w)\<rparr>)))
     (\<lambda>count. if count = 0 then explainMissingFailed p i pid else returnA ())"

definition listForUser :: "'a ports \<Rightarrow> string \<Rightarrow> string \<Rightarrow> ('a, PendingVoucherSummary list) effect" where
  "listForUser p u i = bindA (getFromUser p i u) (\<lambda>_. listPending p i)"

definition retryForUser :: "'a ports \<Rightarrow> string \<Rightarrow> string \<Rightarrow> string \<Rightarrow> ('a, unit) effect" where
  "retryForUser p u i pid = bindA (getFromUser p i u) (\<lambda>_. retryFailed p i pid)"

definition discardForUser :: "'a ports \<Rightarrow> string \<Rightarrow> string \<Rightarrow> string \<Rightarrow> ('a, unit) effect" where
  "discardForUser p u i pid = bindA (getFromUser p i u) (\<lambda>_. discardFailed p i pid)"

definition listPendingForApiClient :: "'a ports \<Rightarrow> string \<Rightarrow> string \<Rightarrow> ('a, PendingVoucherSummary list) effect" where
  "listPendingForApiClient p client i = bindA (assertIssuerGranted p client i) (\<lambda>_. listPending p i)"

definition retryForApiClient :: "'a ports \<Rightarrow> string \<Rightarrow> string \<Rightarrow> string \<Rightarrow> ('a, unit) effect" where
  "retryForApiClient p client i pid = bindA (assertIssuerGranted p client i) (\<lambda>_. retryFailed p i pid)"

definition discardForApiClient :: "'a ports \<Rightarrow> string \<Rightarrow> string \<Rightarrow> string \<Rightarrow> ('a, unit) effect" where
  "discardForApiClient p client i pid = bindA (assertIssuerGranted p client i) (\<lambda>_. discardFailed p i pid)"

end
