(* ===== verification/TableInvariant.thy ===== *)
theory TableInvariant
  imports PendingVouchers
begin

text \<open>
  The contract of an invariant of the tables: a predicate that every primitive change of a
  table keeps (the insertion of a row that meets its unique constraint, an update, a deletion,
  whatever happens outside the process) is kept by every service. The services are followed
  once, in the locale \<open>table_invariant\<close>, and the locale is interpreted on the
  well-formedness of the database (\<open>DatabaseInvariant\<close>) and on the growth of its tables
  (\<open>Replay\<close>).
\<close>

subsection \<open>Well-formed queued vouchers\<close>

text \<open>
  A queued voucher has been tried fewer times than the limit while it waits, and has the sales
  point and the time of an attempt exactly when it has its number.
\<close>

definition rowOk :: "'a ports \<Rightarrow> PendingVoucherRow \<Rightarrow> bool" where
  "rowOk p r \<longleftrightarrow>
     0 \<le> retryCount r \<and> (pending_status r = PENDING \<longrightarrow> retryCount r < maxRetries p) \<and>
     (attemptedSalesPoint r = (if attemptedNumber r = None then None else Some (salesPoint (payload r)))) \<and>
     (attemptedAt r = None \<longleftrightarrow> attemptedNumber r = None)"

definition portsOk :: "'a ports \<Rightarrow> bool" where
  "portsOk p \<longleftrightarrow> inj (cuid p) \<and> 0 < maxRetries p"

lemma newRow_ok:
  "portsOk p \<Longrightarrow> (t = None \<longleftrightarrow> n = None) \<Longrightarrow>
   rowOk p \<lparr>pending_id = j, pending_issuerId = i, pending_idempotencyKey = key, payload = input,
     pending_status = PENDING, retryCount = 0, nextRetryAt = d, attemptedNumber = n,
     attemptedSalesPoint = (if n = None then None else Some (salesPoint input)),
     attemptedAt = t, lastError = e, pending_createdAt = c\<rparr>"
  by (simp add: rowOk_def portsOk_def)

text \<open>A change of a queued voucher that keeps what identifies it.\<close>

definition keepsIdentity :: "'a ports \<Rightarrow> (PendingVoucherRow \<Rightarrow> PendingVoucherRow) \<Rightarrow> bool" where
  "keepsIdentity p change \<longleftrightarrow> (\<forall>r.
     pending_id (change r) = pending_id r \<and> pending_issuerId (change r) = pending_issuerId r \<and>
     pending_idempotencyKey (change r) = pending_idempotencyKey r \<and> (rowOk p r \<longrightarrow> rowOk p (change r)))"

subsection \<open>Requests to ARCA do not touch the tables\<close>

lemma attempt_world:
  "requestCaeAttempt p auth build s = (r, s') \<Longrightarrow> snd s' = (snd s)\<lparr>outside := outside (snd s')\<rparr>"
  unfolding requestCaeAttempt_def requestNumber_def afterDuplicate_def Let_def
  by (auto simp: action_simps inWorld_def external_def onNumberChosen_def
      split: prod.splits sum.splits if_splits option.splits)

lemma requestCae_world:
  assumes "requestCae p issuer input w = (r, w')"
  shows "w' = w\<lparr>outside := outside w'\<rparr>"
  using assms unfolding requestCae_def requestCaeWithRecovery_def
  by (auto simp: action_simps external_def now_def pureA_def
      split: prod.splits sum.splits if_splits option.splits dest!: attempt_world)

lemma recover_world:
  assumes "recoverAlreadyAuthorized p issuer input pending w = (r, w')"
  shows "w' = w\<lparr>outside := outside w'\<rparr>"
  using assms unfolding recoverAlreadyAuthorized_def
  by (auto simp: action_simps external_def pureA_def split: prod.splits sum.splits if_splits option.splits)

lemma triple_outsideOnly:
  "ofTables I \<Longrightarrow> (\<And>w r w'. m w = (r, w') \<Longrightarrow> w' = w\<lparr>outside := outside w'\<rparr>) \<Longrightarrow>
   triple I m (\<lambda>_. I) (\<lambda>_. I)"
  unfolding triple_preserves preserves_def ofTables_def by (metis surjective_pairing)

lemma triple_tableGet:
  "ofTables I \<Longrightarrow> triple I (table p (getA f)) (\<lambda>_. I) (\<lambda>_. I)"
  by (intro triple_table triple_getA) simp_all

lemma triple_findVoucher:
  "ofTables I \<Longrightarrow> triple I (findVoucherWithSalesPoint p i) (\<lambda>_. I) (\<lambda>_. I)"
  unfolding findVoucherWithSalesPoint_def by (intro triple_table) (auto simp: triple_def split: option.split)

lemma triple_replay:
  "ofTables I \<Longrightarrow> triple I (replay p i key) (\<lambda>_. I) (\<lambda>_. I)"
  unfolding replay_def replayOrQueued_def findReplayedVoucher_def
  by (auto intro!: triple_seq [where I = I] triple_tableGet triple_findVoucher triple_returnA triple_throwA
      split: option.splits prod.splits)

lemma triple_findExisting:
  "ofTables I \<Longrightarrow> triple I (findExistingOnConflict p e i key)
     (\<lambda>x w. I w \<and> (\<forall>r. x = Some r \<longrightarrow> r \<in> set (pendingVouchers w))) (\<lambda>_. I)"
  unfolding findExistingOnConflict_def
  by (auto simp: triple_def action_simps table_def external_def ofTables_def reachDatabase_def
      split: prod.splits sum.splits option.splits dest: findRow_Some)

subsection \<open>The contract\<close>

locale table_invariant =
  fixes p :: "'a ports" and I :: "'a world \<Rightarrow> bool"
  assumes ports: "I w \<Longrightarrow> portsOk p"
    and outside: "I (w\<lparr>outside := s\<rparr>) = I w"
    and notified: "I w \<Longrightarrow> I (w\<lparr>notifications := ns\<rparr>)"
    and statusSet: "I w \<Longrightarrow> I (w\<lparr>issuers := setStatus i status (issuers w)\<rparr>)"
    and salesPoint_inserted:
      "I w \<Longrightarrow> findRow (\<lambda>r. sp_issuerId r = i \<and> sp_number r = n) (salesPoints w) = None \<Longrightarrow>
       I (w\<lparr>nextId := Suc (nextId w),
         salesPoints := salesPoints w @ [\<lparr>sp_id = cuid p (nextId w), sp_issuerId = i, sp_number = n, sp_description = None\<rparr>]\<rparr>)"
    and voucher_inserted:
      "I w \<Longrightarrow> findRow (sameVoucherKey d) (vouchers w) = None \<Longrightarrow>
       vd_salesPointId d \<in> sp_id ` set (salesPoints w) \<Longrightarrow>
       I (w\<lparr>nextId := Suc (nextId w),
         vouchers := vouchers w @ [\<lparr>voucher_id = cuid p (nextId w), voucher_data = d\<rparr>]\<rparr>)"
    and idempotency_inserted:
      "I w \<Longrightarrow> findRow (sameIdempotencyKey i key) (idempotencyRecords w) = None \<Longrightarrow>
       v \<in> voucher_id ` set (vouchers w) \<Longrightarrow>
       I (w\<lparr>idempotencyRecords := idempotencyRecords w @
         [\<lparr>ir_issuerId = i, ir_key = key, ir_voucherId = v\<rparr>]\<rparr>)"
    and pending_inserted:
      "I w \<Longrightarrow> findRow (conflictsWith row) (pendingVouchers w) = None \<Longrightarrow> rowOk p row \<Longrightarrow>
       I (w\<lparr>nextId := Suc (nextId w),
         pendingVouchers := pendingVouchers w @ [row\<lparr>pending_id := cuid p (nextId w)\<rparr>]\<rparr>)"
    and pending_updated:
      "I w \<Longrightarrow> keepsIdentity p change \<Longrightarrow>
       I (w\<lparr>pendingVouchers := map (\<lambda>r. if Q r then change r else r) (pendingVouchers w)\<rparr>)"
    and pending_deleted:
      "I w \<Longrightarrow> I (w\<lparr>pendingVouchers := filter Q (pendingVouchers w)\<rparr>)"
    and waiting_rows: "I w \<Longrightarrow> r \<in> set (pendingVouchers w) \<Longrightarrow> rowOk p r"
begin

lemma ofTables [simp, intro]: "ofTables I"
  by (simp add: ofTables_def outside)

lemma upsertSalesPoint:
  "triple I (upsertSalesPoint p i n) (\<lambda>x w. I w \<and> x \<in> sp_id ` set (salesPoints w)) (\<lambda>_. I)"
  unfolding upsertSalesPoint_def
  by (rule triple_table)
     (auto simp: triple_def newId_def action_simps salesPoint_inserted split: option.splits dest!: findRow_Some)

lemma insertVoucher:
  "triple (\<lambda>w. I w \<and> vd_salesPointId d \<in> sp_id ` set (salesPoints w)) (insertVoucher p d)
     (\<lambda>x w. I w \<and> x \<in> voucher_id ` set (vouchers w)) (\<lambda>_. I)"
  unfolding insertVoucher_def
  by (rule triple_table)
     (auto simp: triple_def newId_def action_simps ofTables_def outside voucher_inserted)

lemma insertIdempotency:
  "triple (\<lambda>w. I w \<and> v \<in> voucher_id ` set (vouchers w)) (insertIdempotency p i key v) (\<lambda>_. I) (\<lambda>_. I)"
  unfolding insertIdempotency_def
  by (rule triple_table) (auto simp: triple_def ofTables_def outside idempotency_inserted)

lemma notify: "triple I (notify n) (\<lambda>_. I) (\<lambda>_. I)"
  unfolding notify_def by (intro triple_putA) (simp add: notified)

lemma createVoucher:
  "triple I (createVoucher p issuer input out qr)
     (\<lambda>x w. I w \<and> x \<in> voucher_id ` set (vouchers w)) (\<lambda>_. I)"
proof -
  have sp: "vd_salesPointId (buildIssuedVoucherData tz issuer input out spId client qr) = spId" for tz spId client
    by (simp add: buildIssuedVoucherData_def Let_def)
  show ?thesis unfolding createVoucher_def
  proof (rule triple_bindA [OF upsertSalesPoint], rule triple_bindA)
    fix spId
    let ?J = "\<lambda>w. I w \<and> spId \<in> sp_id ` set (salesPoints w)"
    show "triple ?J
       (findClient p (issuer_id issuer) (docType (recipient_of input)) (docNumber (recipient_of input)))
       (\<lambda>_. ?J) (\<lambda>_. I)"
      unfolding findClient_def
      by (rule triple_weaken [OF triple_tableGet [where I = ?J]]) (auto simp: ofTables_def outside)
  next
    fix spId client
    show "triple (\<lambda>w. I w \<and> spId \<in> sp_id ` set (salesPoints w))
       (insertVoucher p (buildIssuedVoucherData (timeZone p) issuer input out spId client qr))
       (\<lambda>x w. I w \<and> x \<in> voucher_id ` set (vouchers w)) (\<lambda>_. I)"
      using insertVoucher [of "buildIssuedVoucherData (timeZone p) issuer input out spId client qr"]
      by (simp only: sp)
  qed
qed

lemma record_voucher: "triple I (record_voucher p issuer input out key) (\<lambda>_. I) (\<lambda>_. I)"
  unfolding record_voucher_def Let_def
proof (rule triple_bindA [OF createVoucher], rule triple_seq [where I = I])
  fix v
  show "triple (\<lambda>w. I w \<and> v \<in> voucher_id ` set (vouchers w))
     (if hasText key then insertIdempotency p (issuer_id issuer) (the key) v else returnA ())
     (\<lambda>_. I) (\<lambda>_. I)"
    by (auto simp: insertIdempotency intro!: triple_returnA)
qed (rule triple_seq [OF notify], rule triple_returnA, assumption)

subsection \<open>The queue\<close>

lemma createPending:
  "rowOk p row \<Longrightarrow> triple I (createPending p row) (\<lambda>x w. I w \<and> x \<in> set (pendingVouchers w)) (\<lambda>_. I)"
  unfolding createPending_def
  by (rule triple_table) (auto simp: triple_def newId_def action_simps pending_inserted)

lemma enqueue: "triple I (enqueue p entry) (\<lambda>x w. I w \<and> x \<in> set (pendingVouchers w)) (\<lambda>_. I)"
proof -
  let ?n = "entry_attemptedNumber entry"
  have at: "triple I (if ?n = None then returnA None else bindA (now p) (\<lambda>t. returnA (Some t)))
      (\<lambda>t w. I w \<and> (t = None \<longleftrightarrow> ?n = None)) (\<lambda>_. I)"
    by (auto simp: triple_def action_simps now_def external_def outside split: prod.splits)
  show ?thesis
    unfolding enqueue_def Let_def
  proof (rule triple_seq [OF triple_now], simp, rule triple_catchA, rule triple_bindA [OF at])
    fix start t
    show "triple (\<lambda>w. I w \<and> (t = None \<longleftrightarrow> ?n = None))
       (bindA (now p) (\<lambda>created. createPending p
          \<lparr>pending_id = '''', pending_issuerId = entry_issuerId entry,
           pending_idempotencyKey = entry_idempotencyKey entry, payload = entry_input entry,
           pending_status = PENDING, retryCount = 0, nextRetryAt = start + retryBaseMs p,
           attemptedNumber = ?n,
           attemptedSalesPoint = (if ?n = None then None else Some (salesPoint (entry_input entry))),
           attemptedAt = t, lastError = Some (entry_lastError entry), pending_createdAt = created\<rparr>))
       (\<lambda>x w. I w \<and> x \<in> set (pendingVouchers w)) (\<lambda>_. I)"
    proof (rule triple_pull, cases "portsOk p")
      case True
      assume "t = None \<longleftrightarrow> ?n = None"
      then show "triple I (bindA (now p) (\<lambda>created. createPending p
          \<lparr>pending_id = '''', pending_issuerId = entry_issuerId entry,
           pending_idempotencyKey = entry_idempotencyKey entry, payload = entry_input entry,
           pending_status = PENDING, retryCount = 0, nextRetryAt = start + retryBaseMs p,
           attemptedNumber = ?n,
           attemptedSalesPoint = (if ?n = None then None else Some (salesPoint (entry_input entry))),
           attemptedAt = t, lastError = Some (entry_lastError entry), pending_createdAt = created\<rparr>))
       (\<lambda>x w. I w \<and> x \<in> set (pendingVouchers w)) (\<lambda>_. I)"
        by (intro triple_seq [OF triple_now] createPending newRow_ok [OF True]) simp_all
    next
      case False
      then have "\<not> I w" for w using ports by blast
      then show "triple I (bindA (now p) (\<lambda>created. createPending p
          \<lparr>pending_id = '''', pending_issuerId = entry_issuerId entry,
           pending_idempotencyKey = entry_idempotencyKey entry, payload = entry_input entry,
           pending_status = PENDING, retryCount = 0, nextRetryAt = start + retryBaseMs p,
           attemptedNumber = ?n,
           attemptedSalesPoint = (if ?n = None then None else Some (salesPoint (entry_input entry))),
           attemptedAt = t, lastError = Some (entry_lastError entry), pending_createdAt = created\<rparr>))
       (\<lambda>x w. I w \<and> x \<in> set (pendingVouchers w)) (\<lambda>_. I)"
        by (simp add: triple_def)
    qed
  next
    fix start e
    show "triple I
       (bindA (findExistingOnConflict p e (entry_issuerId entry) (entry_idempotencyKey entry)) (\<lambda>existing.
          case existing of Some row \<Rightarrow> returnA row | None \<Rightarrow> throwA e))
       (\<lambda>x w. I w \<and> x \<in> set (pendingVouchers w)) (\<lambda>_. I)"
      by (rule triple_bindA [OF triple_findExisting])
         (auto intro!: triple_returnA triple_throwA split: option.split)
  qed
qed

lemma updatePending: "keepsIdentity p change \<Longrightarrow> triple I (updatePending p i change) (\<lambda>_. I) (\<lambda>_. I)"
  unfolding updatePending_def by (intro triple_table) (auto simp: triple_def pending_updated)

lemma complete: "triple I (complete p pending issued) (\<lambda>_. I) (\<lambda>_. I)"
proof -
  have "triple I (deletePending p (pending_id pending)) (\<lambda>_. I) (\<lambda>_. I)"
    unfolding deletePending_def by (intro triple_table) (auto simp: triple_def pending_deleted)
  then show ?thesis unfolding complete_def by (rule triple_seq) (rule notify)
qed

lemma fail: "0 \<le> retryCount pending \<Longrightarrow> triple I (fail p pending reason permanent) (\<lambda>_. I) (\<lambda>_. I)"
  unfolding fail_def
  by (rule triple_seq, rule updatePending, simp add: keepsIdentity_def rowOk_def)
     (rule triple_seq [OF notify notify])

lemma bump: "0 \<le> retryCount pending \<Longrightarrow> triple I (bump p pending reason) (\<lambda>_. I) (\<lambda>_. I)"
  unfolding bump_def Let_def
  by (auto intro!: fail triple_seq [OF triple_now] updatePending simp: keepsIdentity_def rowOk_def)

subsection \<open>Emission and retries\<close>

lemma track:
  assumes "triple I operation (\<lambda>_. I) (\<lambda>_. I)"
  shows "triple I (track p i c operation) (\<lambda>_. I) (\<lambda>_. I)"
proof -
  have f: "triple I (findIssuerOrThrow p j) (\<lambda>_. I) (\<lambda>_. I)" for j
    unfolding findIssuerOrThrow_def by (intro triple_table) (auto simp: triple_def split: option.split)
  have u: "triple I (updateOnboardingStatus p j status) (\<lambda>_. I) (\<lambda>_. I)" for j status
    unfolding updateOnboardingStatus_def
    by (intro triple_table) (auto simp: triple_def statusSet split: option.split)
  show ?thesis unfolding track_def confirm_def diagnose_def Let_def
    by (rule triple_catchA [where F = "\<lambda>_. I"])
       (auto intro!: triple_seq [where I = I] f u assms triple_returnA triple_throwA)
qed

lemma attemptCae: "triple I (attemptCae p issuer input) (\<lambda>_. I) (\<lambda>_. I)"
  unfolding attemptCae_def by (rule track, rule triple_outsideOnly) (simp_all add: requestCae_world)

lemma queueAfter: "triple I (queueAfter p issuer input key err) (\<lambda>_. I) (\<lambda>_. I)"
  unfolding queueAfter_def
  by (auto intro!: triple_bindA [OF enqueue] triple_throwA)

lemma emit: "triple I (emit p issuer input key) (\<lambda>_. I) (\<lambda>_. I)"
  unfolding emit_def
  by (rule triple_seq, rule triple_catchA [OF attemptCae queueAfter]) (rule record_voucher)

lemma issueUnderLock: "triple I (issueUnderLock p issuer input key) (\<lambda>_. I) (\<lambda>_. I)"
  unfolding issueUnderLock_def
  by (rule triple_seq [OF triple_replay]) (auto intro: emit triple_returnA split: option.split)

lemma issueAuthorized: "triple I (issueAuthorized p issuer input key) (\<lambda>_. I) (\<lambda>_. I)"
  unfolding issueAuthorized_def
  by (rule triple_seq [OF triple_replay]) (auto intro: issueUnderLock triple_returnA split: option.split)

lemma obtainCae:
  "0 \<le> retryCount pending \<Longrightarrow> triple I (obtainCae p issuer input pending) (\<lambda>_. I) (\<lambda>_. I)"
  unfolding obtainCae_def
  by (rule triple_catchA [where F = "\<lambda>_. I"], rule triple_seq [where I = I],
      rule triple_outsideOnly [OF ofTables recover_world], assumption)
     (auto intro!: triple_seq [where I = I] fail bump attemptCae triple_returnA split: option.split)

lemma retryUnderLock:
  "0 \<le> retryCount pending \<Longrightarrow> triple I (retryUnderLock p issuer input pending) (\<lambda>_. I) (\<lambda>_. I)"
  unfolding retryUnderLock_def
  by (rule triple_seq [OF obtainCae])
     (auto intro!: triple_seq [where I = I] record_voucher complete triple_returnA split: option.split)

lemma processPending:
  "0 \<le> retryCount pending \<Longrightarrow> triple I (processPending p pending) (\<lambda>_. I) (\<lambda>_. I)"
  unfolding processPending_def findIssuer_def
  by (rule triple_seq [OF triple_tableGet])
     (auto intro!: fail retryUnderLock triple_throwA split: option.split sum.split)

lemma retryPendingVouchers: "triple I (retryPendingVouchers p) (\<lambda>_. I) (\<lambda>_. I)"
proof -
  have "triple I (findDue p) (\<lambda>due w. I w \<and> (\<forall>r\<in>set due. 0 \<le> retryCount r)) (\<lambda>_. I)"
    unfolding findDue_def
  proof (rule triple_seq [OF triple_now], simp, rule triple_table)
    fix t
    show "triple I (getA (\<lambda>w. take RETRY_BATCH_SIZE
        (filter (\<lambda>r. pending_status r = PENDING \<and> nextRetryAt r \<le> t) (pendingVouchers w))))
      (\<lambda>due w. I w \<and> (\<forall>r\<in>set due. 0 \<le> retryCount r)) (\<lambda>_. I)"
      by (rule triple_getA) (auto simp: rowOk_def dest!: in_set_takeD waiting_rows)
  qed simp_all
  then show ?thesis
    unfolding retryPendingVouchers_def
    by (rule triple_bindA) (auto intro!: triple_pull triple_forEachA processPending)
qed

lemma retryTick: "triple I (retryTick p running) (\<lambda>_. I) (\<lambda>_. I)"
  unfolding retryTick_def
  by (auto intro!: triple_catchA [OF retryPendingVouchers] triple_returnA)

subsection \<open>Manual retries\<close>

lemma explainMissingFailed: "triple I (explainMissingFailed p i pid) (\<lambda>_. I) (\<lambda>_. I)"
  unfolding explainMissingFailed_def
  by (rule triple_seq [OF triple_tableGet]) (auto intro!: triple_throwA)

lemma countedOrExplained:
  "triple I (if count = (0::nat) then explainMissingFailed p i pid else returnA ()) (\<lambda>_. I) (\<lambda>_. I)"
  by (auto intro!: explainMissingFailed triple_returnA)

lemma discardFailed: "triple I (discardFailed p i pid) (\<lambda>_. I) (\<lambda>_. I)"
  unfolding discardFailed_def
  by (rule triple_seq [OF _ countedOrExplained], rule triple_table)
     (auto simp: triple_def pending_deleted)

lemma retryFailed: "triple I (retryFailed p i pid) (\<lambda>_. I) (\<lambda>_. I)"
proof (cases "portsOk p")
  case True
  have k: "keepsIdentity p (\<lambda>r. r\<lparr>pending_status := PENDING, retryCount := 0, nextRetryAt := t\<rparr>)" for t
    using True by (simp add: keepsIdentity_def rowOk_def portsOk_def)
  show ?thesis unfolding retryFailed_def
    by (rule triple_seq [OF triple_now], simp, rule triple_seq [OF _ countedOrExplained], rule triple_table)
       (auto simp: triple_def pending_updated [OF _ k])
next
  case False
  then have "\<not> I w" for w using ports by blast
  then show ?thesis by (simp add: triple_def)
qed

end

end
