(* ===== verification/DatabaseInvariant.thy ===== *)
theory DatabaseInvariant
  imports TableInvariant
begin

text \<open>
  What holds of the tables between two operations, and its preservation by every operation
  that changes them: identifiers are allocated and unique, unique constraints hold, every
  voucher has its sales point, every idempotency record its voucher, and every queued voucher
  is well formed.
\<close>

subsection \<open>Well-formed tables\<close>

definition allocated :: "'a ports \<Rightarrow> 'a world \<Rightarrow> string \<Rightarrow> bool" where
  "allocated p w i \<longleftrightarrow> (\<exists>n<nextId w. i = cuid p n)"

definition salesPointsOk :: "'a ports \<Rightarrow> 'a world \<Rightarrow> bool" where
  "salesPointsOk p w \<longleftrightarrow>
     distinct (map sp_id (salesPoints w)) \<and>
     distinct (map (\<lambda>r. (sp_issuerId r, sp_number r)) (salesPoints w)) \<and>
     (\<forall>r\<in>set (salesPoints w). allocated p w (sp_id r))"

definition voucherKey :: "VoucherRow \<Rightarrow> string \<times> int \<times> int" where
  "voucherKey r = (vd_salesPointId (voucher_data r), vd_voucherType (voucher_data r), vd_number (voucher_data r))"

definition vouchersOk :: "'a ports \<Rightarrow> 'a world \<Rightarrow> bool" where
  "vouchersOk p w \<longleftrightarrow>
     distinct (map voucher_id (vouchers w)) \<and> distinct (map voucherKey (vouchers w)) \<and>
     (\<forall>r\<in>set (vouchers w). allocated p w (voucher_id r) \<and>
        vd_salesPointId (voucher_data r) \<in> sp_id ` set (salesPoints w))"

definition idempotencyOk :: "'a world \<Rightarrow> bool" where
  "idempotencyOk w \<longleftrightarrow>
     distinct (map (\<lambda>r. (ir_issuerId r, ir_key r)) (idempotencyRecords w)) \<and>
     ir_voucherId ` set (idempotencyRecords w) \<subseteq> voucher_id ` set (vouchers w)"

definition pendingKeys :: "PendingVoucherRow list \<Rightarrow> (string \<times> string option) list" where
  "pendingKeys rows = map (\<lambda>r. (pending_issuerId r, pending_idempotencyKey r))
     (filter (\<lambda>r. pending_idempotencyKey r \<noteq> None) rows)"

definition pendingOk :: "'a ports \<Rightarrow> 'a world \<Rightarrow> bool" where
  "pendingOk p w \<longleftrightarrow>
     distinct (map pending_id (pendingVouchers w)) \<and> distinct (pendingKeys (pendingVouchers w)) \<and>
     (\<forall>r\<in>set (pendingVouchers w). allocated p w (pending_id r) \<and> rowOk p r)"

definition databaseOk :: "'a ports \<Rightarrow> 'a world \<Rightarrow> bool" where
  "databaseOk p w \<longleftrightarrow> salesPointsOk p w \<and> vouchersOk p w \<and> idempotencyOk w \<and> pendingOk p w"

lemmas databaseOk_defs = databaseOk_def salesPointsOk_def vouchersOk_def idempotencyOk_def pendingOk_def

lemma databaseOk_outside [simp]:
  "databaseOk p (w\<lparr>outside := s\<rparr>) = databaseOk p w"
  "databaseOk p (w\<lparr>notifications := ns\<rparr>) = databaseOk p w"
  "databaseOk p (w\<lparr>issuers := is\<rparr>) = databaseOk p w"
  by (simp_all add: databaseOk_defs allocated_def)

lemma ofTables_databaseOk [intro, simp]: "ofTables (databaseOk p)"
  by (simp add: ofTables_def)

lemma fresh: "portsOk p \<Longrightarrow> allocated p w i \<Longrightarrow> i \<noteq> cuid p (nextId w)"
  by (auto simp: allocated_def portsOk_def dest: injD)

lemma allocated_Suc:
  "nextId w' = Suc (nextId w) \<Longrightarrow> allocated p w' i \<longleftrightarrow> allocated p w i \<or> i = cuid p (nextId w)"
  by (auto simp: allocated_def less_Suc_eq)

subsection \<open>Insertions\<close>

lemma insert_salesPoint:
  assumes "portsOk p" "databaseOk p w" "findRow (\<lambda>r. sp_issuerId r = i \<and> sp_number r = n) (salesPoints w) = None"
    and w': "w' = w\<lparr>nextId := Suc (nextId w),
      salesPoints := salesPoints w @ [\<lparr>sp_id = cuid p (nextId w), sp_issuerId = i, sp_number = n, sp_description = None\<rparr>]\<rparr>"
  shows "databaseOk p w'"
proof -
  have a: "allocated p w' j \<longleftrightarrow> allocated p w j \<or> j = cuid p (nextId w)" for j
    by (rule allocated_Suc) (simp add: w')
  have "cuid p (nextId w) \<notin> sp_id ` set (salesPoints w)"
    using assms(1,2) fresh by (fastforce simp: databaseOk_defs)
  then show ?thesis using assms(2,3) by (auto simp: databaseOk_defs a findRow_None) (auto simp: w')
qed

lemma insert_voucher:
  assumes "portsOk p" "databaseOk p w" "findRow (sameVoucherKey d) (vouchers w) = None"
    and "vd_salesPointId d \<in> sp_id ` set (salesPoints w)"
    and w': "w' = w\<lparr>nextId := Suc (nextId w),
      vouchers := vouchers w @ [\<lparr>voucher_id = cuid p (nextId w), voucher_data = d\<rparr>]\<rparr>"
  shows "databaseOk p w'"
proof -
  have a: "allocated p w' j \<longleftrightarrow> allocated p w j \<or> j = cuid p (nextId w)" for j
    by (rule allocated_Suc) (simp add: w')
  have n: "cuid p (nextId w) \<notin> voucher_id ` set (vouchers w)"
    using assms(1,2) fresh by (fastforce simp: databaseOk_defs)
  have k: "voucherKey \<lparr>voucher_id = cuid p (nextId w), voucher_data = d\<rparr> \<notin> voucherKey ` set (vouchers w)"
    using assms(3) by (auto simp: findRow_None voucherKey_def sameVoucherKey_def)
  show ?thesis using assms(2,4) n k
    by (auto simp: databaseOk_defs a) (auto simp: w')
qed

lemma insert_pending:
  assumes "portsOk p" "databaseOk p w" "findRow (conflictsWith row) (pendingVouchers w) = None"
    and "rowOk p row"
    and w': "w' = w\<lparr>nextId := Suc (nextId w),
      pendingVouchers := pendingVouchers w @ [row\<lparr>pending_id := cuid p (nextId w)\<rparr>]\<rparr>"
  shows "databaseOk p w'"
proof -
  have a: "allocated p w' j \<longleftrightarrow> allocated p w j \<or> j = cuid p (nextId w)" for j
    by (rule allocated_Suc) (simp add: w')
  have n: "cuid p (nextId w) \<notin> pending_id ` set (pendingVouchers w)"
    using assms(1,2) fresh by (fastforce simp: databaseOk_defs)
  have r: "rowOk p (row\<lparr>pending_id := j\<rparr>)" for j using assms(4) by (simp add: rowOk_def)
  have k: "distinct (pendingKeys (pendingVouchers w @ [row\<lparr>pending_id := j\<rparr>]))" for j
    using assms(2,3) by (auto simp: databaseOk_defs pendingKeys_def findRow_None conflictsWith_def)
  show ?thesis using assms(2) n r k [of "cuid p (nextId w)"]
    by (auto simp: databaseOk_defs a) (auto simp: w')
qed

lemma update_pending:
  assumes "databaseOk p w"
    and "\<And>r. r \<in> set (pendingVouchers w) \<Longrightarrow> Q r \<Longrightarrow>
      pending_id (change r) = pending_id r \<and> pending_issuerId (change r) = pending_issuerId r \<and>
      pending_idempotencyKey (change r) = pending_idempotencyKey r \<and> (rowOk p r \<longrightarrow> rowOk p (change r))"
  shows "databaseOk p (w\<lparr>pendingVouchers :=
      map (\<lambda>r. if Q r then change r else r) (pendingVouchers w)\<rparr>)"
proof -
  let ?g = "\<lambda>r. if Q r then change r else r"
  have "map (pending_id \<circ> ?g) (pendingVouchers w) = map pending_id (pendingVouchers w)"
    using assms(2) by auto
  then have "distinct (map (pending_id \<circ> ?g) (pendingVouchers w))"
    using assms(1) by (simp only: databaseOk_defs)
  moreover have "pendingKeys (map ?g rows) = pendingKeys rows"
    if "set rows \<subseteq> set (pendingVouchers w)" for rows
    using that assms(2) by (induction rows) (auto simp: pendingKeys_def)
  ultimately show ?thesis
    using assms by (auto simp: databaseOk_defs allocated_def)
qed


subsection \<open>The contract of table invariants holds\<close>

definition stateOk :: "'a ports \<Rightarrow> 'a world \<Rightarrow> bool" where
  "stateOk p w \<longleftrightarrow> portsOk p \<and> databaseOk p w"

interpretation db: table_invariant p "stateOk p" for p :: "'a ports"
proof
  fix w :: "'a world" and i key v d row change Q
  show "stateOk p w \<Longrightarrow> portsOk p" by (simp add: stateOk_def)
  show "stateOk p (w\<lparr>outside := s\<rparr>) = stateOk p w" for s by (simp add: stateOk_def)
  show "stateOk p w \<Longrightarrow> stateOk p (w\<lparr>notifications := ns\<rparr>)" for ns by (simp add: stateOk_def)
  show "stateOk p w \<Longrightarrow> stateOk p (w\<lparr>issuers := setStatus i status (issuers w)\<rparr>)" for status
    by (simp add: stateOk_def)
  show "stateOk p w \<Longrightarrow> findRow (\<lambda>r. sp_issuerId r = i \<and> sp_number r = n) (salesPoints w) = None \<Longrightarrow>
       stateOk p (w\<lparr>nextId := Suc (nextId w),
         salesPoints := salesPoints w @ [\<lparr>sp_id = cuid p (nextId w), sp_issuerId = i, sp_number = n, sp_description = None\<rparr>]\<rparr>)" for n
    unfolding stateOk_def using insert_salesPoint by blast
  show "stateOk p w \<Longrightarrow> findRow (sameVoucherKey d) (vouchers w) = None \<Longrightarrow>
       vd_salesPointId d \<in> sp_id ` set (salesPoints w) \<Longrightarrow>
       stateOk p (w\<lparr>nextId := Suc (nextId w),
         vouchers := vouchers w @ [\<lparr>voucher_id = cuid p (nextId w), voucher_data = d\<rparr>]\<rparr>)"
    unfolding stateOk_def using insert_voucher by blast
  show "stateOk p w \<Longrightarrow> findRow (sameIdempotencyKey i key) (idempotencyRecords w) = None \<Longrightarrow>
       v \<in> voucher_id ` set (vouchers w) \<Longrightarrow>
       stateOk p (w\<lparr>idempotencyRecords := idempotencyRecords w @
         [\<lparr>ir_issuerId = i, ir_key = key, ir_voucherId = v\<rparr>]\<rparr>)"
    by (auto simp: stateOk_def databaseOk_defs findRow_None sameIdempotencyKey_def allocated_def)
  show "stateOk p w \<Longrightarrow> findRow (conflictsWith row) (pendingVouchers w) = None \<Longrightarrow> rowOk p row \<Longrightarrow>
       stateOk p (w\<lparr>nextId := Suc (nextId w),
         pendingVouchers := pendingVouchers w @ [row\<lparr>pending_id := cuid p (nextId w)\<rparr>]\<rparr>)"
    unfolding stateOk_def using insert_pending by blast
  show "stateOk p w \<Longrightarrow> keepsIdentity p change \<Longrightarrow>
       stateOk p (w\<lparr>pendingVouchers := map (\<lambda>r. if Q r then change r else r) (pendingVouchers w)\<rparr>)"
    unfolding stateOk_def using update_pending [of p w Q change] by (simp add: keepsIdentity_def)
  show "stateOk p w \<Longrightarrow> stateOk p (w\<lparr>pendingVouchers := filter Q (pendingVouchers w)\<rparr>)"
    by (auto simp: stateOk_def databaseOk_defs allocated_def pendingKeys_def distinct_map_filter
        distinct_map inj_on_def)
  show "stateOk p w \<Longrightarrow> r \<in> set (pendingVouchers w) \<Longrightarrow> rowOk p r" for r
    by (simp add: stateOk_def databaseOk_def pendingOk_def)
qed

end
