(* ===== verification/Replay.thy ===== *)
theory Replay
  imports DatabaseInvariant
begin

text \<open>
  Idempotent emission: what a recorded voucher is, that recording makes one, that the tables
  only grow, and that a request whose key is recorded is answered from the tables.
\<close>

subsection \<open>Recorded vouchers\<close>

definition recordedRows ::
  "'a world \<Rightarrow> string \<Rightarrow> string \<Rightarrow> VoucherRow \<Rightarrow> SalesPointRow \<Rightarrow> bool" where
  "recordedRows w i key row sp \<longleftrightarrow>
     (\<exists>ir. findRow (sameIdempotencyKey i key) (idempotencyRecords w) = Some ir \<and>
        findRow (\<lambda>r. voucher_id r = ir_voucherId ir) (vouchers w) = Some row) \<and>
     findRow (\<lambda>r. sp_id r = vd_salesPointId (voucher_data row)) (salesPoints w) = Some sp \<and>
     hasText (vd_cae (voucher_data row))"

definition recorded :: "'a ports \<Rightarrow> 'a world \<Rightarrow> string \<Rightarrow> string \<Rightarrow> IssuedVoucher \<Rightarrow> bool" where
  "recorded p w i key v \<longleftrightarrow>
     (\<exists>row sp. recordedRows w i key row sp \<and> v = toIssuedVoucher p sp row (the (vd_cae (voucher_data row))))"

definition databaseAnswers :: "'a ports \<Rightarrow> bool" where
  "databaseAnswers p \<longleftrightarrow> (\<forall>s. fst (database p s) = None)"

definition afterAccess :: "'a ports \<Rightarrow> 'a \<Rightarrow> 'a" where
  "afterAccess p s = snd (database p s)"

lemma table_answers:
  "databaseAnswers p \<Longrightarrow> table p operation w = operation (w\<lparr>outside := afterAccess p (outside w)\<rparr>)"
  by (auto simp: databaseAnswers_def afterAccess_def table_def bindA_def external_def reachDatabase_def
      split: prod.splits sum.splits option.splits)
     (metis fst_conv option.distinct(1))+

lemma replay_recorded:
  assumes "databaseAnswers p" "recorded p w i key v" "key \<noteq> ''''"
  shows "replay p i (Some key) w = (Inr (Some v), w\<lparr>outside := afterAccess p (afterAccess p (outside w))\<rparr>)"
  using assms
  by (auto simp: replay_def replayOrQueued_def findReplayedVoucher_def findVoucherWithSalesPoint_def
      table_answers action_simps recorded_def recordedRows_def)

text \<open>The result of a replay is a recorded voucher, and the tables do not change.\<close>

lemma replay_world:
  assumes "replay p i key w = (r, w')"
  shows "w' = w\<lparr>outside := outside w'\<rparr>"
proof -
  have "ofTables (\<lambda>w''. w''\<lparr>outside := outside w'\<rparr> = w\<lparr>outside := outside w'\<rparr>)"
    by (simp add: ofTables_def)
  from triple_replay [OF this, of p i key] show ?thesis
    using assms by (auto simp: triple_def split: sum.splits dest!: spec [of _ w])
qed

lemma replay_returns:
  assumes "replay p i key w = (Inr (Some v), w')"
  shows "\<exists>k. key = Some k \<and> k \<noteq> '''' \<and> recorded p w i k v"
proof (cases "hasText key")
  case True
  then obtain k where k: "key = Some k" "k \<noteq> ''''" by (auto simp: hasText_iff)
  have "recorded p w i k v"
    using assms k unfolding replay_def replayOrQueued_def findReplayedVoucher_def findVoucherWithSalesPoint_def
    by (auto simp: bindA_Inr_iff table_Inr getA_def returnA_def throwA_def recorded_def recordedRows_def
        split: option.splits if_splits)
  then show ?thesis using k by blast
next
  case False
  then show ?thesis using assms by (simp add: replay_def returnA_def)
qed

lemma triple_tableGet_error:
  "ofTables I \<Longrightarrow> triple I (table p (getA f)) (\<lambda>x w. I w \<and> x = f w) (\<lambda>e _. \<exists>m. e = OtherError m)"
  unfolding triple_def table_def bindA_def external_def reachDatabase_def getA_def ofTables_def
  by (auto split: prod.splits sum.splits option.splits)

lemma triple_findReplayed:
  assumes "ofTables I"
  shows "triple I (findReplayedVoucher p i k) (\<lambda>_. I) (\<lambda>e _. \<exists>m. e = OtherError m)"
proof -
  have f: "triple I (findVoucherWithSalesPoint p j) (\<lambda>_. I) (\<lambda>e _. \<exists>m. e = OtherError m)" for j
    unfolding findVoucherWithSalesPoint_def triple_def table_def bindA_def external_def reachDatabase_def
    using assms unfolding ofTables_def by (auto split: prod.splits sum.splits option.splits)
  show ?thesis unfolding findReplayedVoucher_def
    by (rule triple_seq [where I = I], rule triple_weaken [OF triple_tableGet_error [OF assms]])
       (auto intro!: triple_seq [where I = I, OF f] triple_returnA split: option.splits)
qed

lemma triple_replay_outcomes:
  "triple (\<lambda>w. pendingVouchers w = rows) (replay p i key) (\<lambda>_ _. True)
     (\<lambda>e _. (\<exists>m. e = OtherError m) \<or>
        (\<exists>r\<in>set rows. e = VoucherQueued (pending_id r) \<and> pending_issuerId r = i \<and>
           pending_status r = PENDING \<and> pending_idempotencyKey r = key))"
proof (cases "hasText key")
  case True
  then obtain k where k: "key = Some k" "k \<noteq> ''''" by (auto simp: hasText_iff)
  let ?I = "\<lambda>w. pendingVouchers w = rows"
  have I: "ofTables ?I" by (simp add: ofTables_def)
  let ?R = "\<lambda>x w. ?I w \<and> x = findRow (samePendingKey i k) (pendingVouchers w)"
  let ?E = "\<lambda>e _. (\<exists>m. e = OtherError m) \<or>
        (\<exists>r\<in>set rows. e = VoucherQueued (pending_id r) \<and> pending_issuerId r = i \<and>
           pending_status r = PENDING \<and> pending_idempotencyKey r = key)"
  have "triple ?I (replayOrQueued p i k) (\<lambda>_ _. True) ?E"
    unfolding replayOrQueued_def
  proof (rule triple_seq [where I = ?I])
    show "triple ?I (findReplayedVoucher p i k) (\<lambda>_. ?I) ?E"
      by (rule triple_weaken [OF triple_findReplayed [OF I]]) auto
  next
    fix found :: "IssuedVoucher option"
    have "triple ?I (bindA (table p (getA (\<lambda>w. findRow (samePendingKey i k) (pendingVouchers w)))) (\<lambda>pending.
        case pending of
          Some row \<Rightarrow> if pending_status row = PENDING then throwA (VoucherQueued (pending_id row)) else returnA None
        | None \<Rightarrow> returnA None)) (\<lambda>_ _. True) ?E"
    proof (rule triple_bindA [where R = ?R])
      show "triple ?I (table p (getA (\<lambda>w. findRow (samePendingKey i k) (pendingVouchers w)))) ?R ?E"
        by (rule triple_weaken [OF triple_tableGet_error [OF I]]) auto
    next
      fix pending
      have "pending_issuerId r = i \<and> pending_idempotencyKey r = key \<and> r \<in> set rs"
        if "findRow (samePendingKey i k) rs = Some r" for r rs
        using findRow_Some [OF that] k by (simp add: samePendingKey_def)
      then show "triple (?R pending) (case pending of
          Some row \<Rightarrow> if pending_status row = PENDING then throwA (VoucherQueued (pending_id row)) else returnA None
        | None \<Rightarrow> returnA None) (\<lambda>_ _. True) ?E"
        by (fastforce simp: triple_def action_simps split: option.split)
    qed
    then show "triple ?I (case found of Some v \<Rightarrow> returnA (Some v) | None \<Rightarrow>
       bindA (table p (getA (\<lambda>w. findRow (samePendingKey i k) (pendingVouchers w)))) (\<lambda>pending.
        case pending of
          Some row \<Rightarrow> if pending_status row = PENDING then throwA (VoucherQueued (pending_id row)) else returnA None
        | None \<Rightarrow> returnA None)) (\<lambda>_ _. True) ?E"
      by (auto intro: triple_returnA split: option.split)
  qed
  then show ?thesis using k by (simp add: replay_def)
next
  case False
  then show ?thesis by (simp add: replay_def triple_returnA)
qed

lemma replay_error:
  assumes "replay p i key w = (Inl e, w')"
  shows "(\<exists>m. e = OtherError m) \<or>
     (\<exists>r\<in>set (pendingVouchers w). e = VoucherQueued (pending_id r) \<and> pending_issuerId r = i \<and>
        pending_status r = PENDING \<and> pending_idempotencyKey r = key)"
  using triple_Inl [OF triple_replay_outcomes refl assms] .

subsection \<open>The tables of issued vouchers only grow\<close>

definition appended :: "'r list \<Rightarrow> 'r list \<Rightarrow> bool" where
  "appended xs ys \<longleftrightarrow> (\<exists>zs. ys = xs @ zs)"

definition grows :: "'a world \<Rightarrow> 'a world \<Rightarrow> bool" where
  "grows w w' \<longleftrightarrow> appended (salesPoints w) (salesPoints w') \<and> appended (vouchers w) (vouchers w') \<and>
     appended (idempotencyRecords w) (idempotencyRecords w')"

lemma appended_refl [simp]: "appended xs xs"
  by (simp add: appended_def)

lemma appended_snoc: "appended xs ys \<Longrightarrow> appended xs (ys @ zs)"
  by (auto simp: appended_def)

lemma appended_trans: "appended xs ys \<Longrightarrow> appended ys zs \<Longrightarrow> appended xs zs"
  by (auto simp: appended_def)

lemma grows_refl [simp]: "grows w w"
  by (simp add: grows_def)

lemma grows_trans: "grows u v \<Longrightarrow> grows v w \<Longrightarrow> grows u w"
  unfolding grows_def by (blast intro: appended_trans)

interpretation growing: table_invariant p "\<lambda>w. stateOk p w \<and> grows w0 w"
  for p :: "'a ports" and w0 :: "'a world"
proof
  fix w :: "'a world" and d row change Q and i key v :: string
  let ?I = "\<lambda>w. stateOk p w \<and> grows w0 w"
  show "?I w \<Longrightarrow> portsOk p" by (simp add: stateOk_def)
  show "?I (w\<lparr>outside := s\<rparr>) = ?I w" for s by (simp add: db.outside grows_def)
  show "?I w \<Longrightarrow> ?I (w\<lparr>notifications := ns\<rparr>)" for ns by (simp add: db.notified grows_def)
  show "?I w \<Longrightarrow> ?I (w\<lparr>issuers := setStatus i status (issuers w)\<rparr>)" for status
    by (simp add: db.statusSet grows_def)
  show "?I w \<Longrightarrow> findRow (\<lambda>r. sp_issuerId r = i \<and> sp_number r = n) (salesPoints w) = None \<Longrightarrow>
       ?I (w\<lparr>nextId := Suc (nextId w),
         salesPoints := salesPoints w @ [\<lparr>sp_id = cuid p (nextId w), sp_issuerId = i, sp_number = n, sp_description = None\<rparr>]\<rparr>)" for n
    by (simp add: db.salesPoint_inserted grows_def appended_snoc)
  show "?I w \<Longrightarrow> findRow (sameVoucherKey d) (vouchers w) = None \<Longrightarrow>
       vd_salesPointId d \<in> sp_id ` set (salesPoints w) \<Longrightarrow>
       ?I (w\<lparr>nextId := Suc (nextId w),
         vouchers := vouchers w @ [\<lparr>voucher_id = cuid p (nextId w), voucher_data = d\<rparr>]\<rparr>)"
    by (simp add: db.voucher_inserted grows_def appended_snoc)
  show "?I w \<Longrightarrow> findRow (sameIdempotencyKey i key) (idempotencyRecords w) = None \<Longrightarrow>
       v \<in> voucher_id ` set (vouchers w) \<Longrightarrow>
       ?I (w\<lparr>idempotencyRecords := idempotencyRecords w @
         [\<lparr>ir_issuerId = i, ir_key = key, ir_voucherId = v\<rparr>]\<rparr>)"
    by (simp add: db.idempotency_inserted grows_def appended_snoc)
  show "?I w \<Longrightarrow> findRow (conflictsWith row) (pendingVouchers w) = None \<Longrightarrow> rowOk p row \<Longrightarrow>
       ?I (w\<lparr>nextId := Suc (nextId w),
         pendingVouchers := pendingVouchers w @ [row\<lparr>pending_id := cuid p (nextId w)\<rparr>]\<rparr>)"
    by (simp add: db.pending_inserted grows_def)
  show "?I w \<Longrightarrow> keepsIdentity p change \<Longrightarrow>
       ?I (w\<lparr>pendingVouchers := map (\<lambda>r. if Q r then change r else r) (pendingVouchers w)\<rparr>)"
    by (simp add: db.pending_updated grows_def)
  show "?I w \<Longrightarrow> ?I (w\<lparr>pendingVouchers := filter Q (pendingVouchers w)\<rparr>)"
    by (simp add: db.pending_deleted grows_def)
  show "?I w \<Longrightarrow> r \<in> set (pendingVouchers w) \<Longrightarrow> rowOk p r" for r
    by (blast intro: db.waiting_rows)
qed

lemma findRow_appended: "appended xs ys \<Longrightarrow> findRow P xs = Some r \<Longrightarrow> findRow P ys = Some r"
  by (auto simp: appended_def findRow_append)

lemma recorded_grows: "recorded p w i key v \<Longrightarrow> grows w w' \<Longrightarrow> recorded p w' i key v"
  unfolding recorded_def recordedRows_def grows_def by (blast intro: findRow_appended)

lemma recorded_outside: "recorded p (w\<lparr>outside := s\<rparr>) i key v = recorded p w i key v"
  by (simp add: recorded_def recordedRows_def)

subsection \<open>Recording makes a recorded voucher\<close>

lemma findRow_unique:
  "distinct (map f rows) \<Longrightarrow> r \<in> set rows \<Longrightarrow> f r = k \<Longrightarrow> findRow (\<lambda>x. f x = k) rows = Some r"
  by (induction rows) (auto simp: findRow_def)

definition isCents :: "number \<Rightarrow> bool" where
  "isCents x \<longleftrightarrow> (\<exists>n. x = cents n)"

text \<open>
  A column \<open>Decimal(15, 2)\<close> gives back an amount of whole cents that fits in it: documented
  behaviour of the database.
\<close>

definition decimalKeepsCents :: "'a ports \<Rightarrow> bool" where
  "decimalKeepsCents p \<longleftrightarrow> (\<forall>x. isCents x \<longrightarrow> \<bar>x\<bar> < 10000000000000 \<longrightarrow> storedDecimal p x = x)"

lemma round2_cents: "isCents (round2 x)"
  unfolding isCents_def round2_def js_div_def cents_def by blast

lemma isCents_0: "isCents 0"
  unfolding isCents_def by (rule exI [of _ 0]) simp

lemma splitRates_isCents:
  "splitRates es (rs, net, iva) = Inr (rs', net', iva') \<Longrightarrow> isCents net \<Longrightarrow> isCents iva \<Longrightarrow>
   isCents net' \<and> isCents iva'"
proof (induction es arbitrary: rs net iva)
  case (Cons e es)
  then show ?case
    by (auto simp: splitOne_def Let_def round2_cents split: prod.splits option.splits sum.splits)
qed simp

lemma calculateAmounts_isCents:
  assumes "calculateAmounts vt its ts = Inr a"
  shows "isCents (netAmount a) \<and> isCents (ivaAmount a) \<and> isCents (totalAmount a)"
proof (cases "splitTaxedGrossByRate its")
  case (Inl e)
  then show ?thesis using assms
    by (auto simp: calculateAmounts_def Let_def round2_cents isCents_0 split: prod.splits if_splits)
next
  case (Inr r)
  obtain rs net iva where r: "r = (rs, net, iva)" by (cases r)
  then have "isCents net \<and> isCents iva"
    using Inr splitRates_isCents isCents_0 unfolding splitTaxedGrossByRate_def by blast
  then show ?thesis using assms Inr r
    by (auto simp: calculateAmounts_def Let_def round2_cents isCents_0 split: prod.splits if_splits)
qed

lemma requestCae_outcome:
  assumes "requestCae p issuer input w = (Inr out, w')"
  shows "amountsOf input = Inr (outcome_amounts out) \<and> \<not> recovered out \<and>
     (\<exists>t. outcome_date out = Some t)"
  using assms unfolding requestCae_def
  by (auto simp: bindA_Inr_iff returnA_def pureA_def split: prod.splits)

lemma track_Inr:
  assumes "track p i c operation w = (Inr x, w')"
  shows "\<exists>w1. operation w = (Inr x, w1) \<and> confirm p i c w1 = (Inr (), w')"
  using assms unfolding track_def
  by (auto simp: catchA_def bindA_def returnA_def throwA_def split: prod.splits sum.splits)

lemma attemptCae_outcome:
  "attemptCae p issuer input w = (Inr out, w') \<Longrightarrow>
   amountsOf input = Inr (outcome_amounts out) \<and> \<not> recovered out"
  unfolding attemptCae_def using requestCae_outcome by (blast dest: track_Inr)

lemma emit_Inr:
  assumes "emit p issuer input key w = (Inr v, w')"
  obtains out w1 where "attemptCae p issuer input w = (Inr out, w1)"
    "record_voucher p issuer input out key w1 = (Inr v, w')"
  using assms unfolding emit_def queueAfter_def
  by (auto simp: bindA_def catchA_def throwA_def split: prod.splits sum.splits if_splits)

lemma upsertSalesPoint_Inr:
  assumes "upsertSalesPoint p i n w = (Inr spId, w')"
  shows "\<exists>sp\<in>set (salesPoints w'). sp_id sp = spId \<and> sp_number sp = n"
proof (cases "findRow (\<lambda>r. sp_issuerId r = i \<and> sp_number r = n) (salesPoints w)")
  case None
  then show ?thesis using assms unfolding upsertSalesPoint_def
    by (auto simp: table_Inr newId_def action_simps)
next
  case (Some r)
  then show ?thesis using assms findRow_Some [OF Some] unfolding upsertSalesPoint_def
    by (auto simp: table_Inr)
qed

lemma insertVoucher_Inr:
  assumes "insertVoucher p d w = (Inr v, w')"
  shows "\<lparr>voucher_id = v, voucher_data = d\<rparr> \<in> set (vouchers w') \<and> salesPoints w' = salesPoints w \<and>
     validDates d \<and> fitsDecimal d"
  using assms unfolding insertVoucher_def
  by (auto simp: table_Inr newId_def action_simps split: if_splits)

lemma insertIdempotency_Inr:
  assumes "insertIdempotency p i key v w = (Inr u, w')"
  shows "\<lparr>ir_issuerId = i, ir_key = key, ir_voucherId = v\<rparr> \<in> set (idempotencyRecords w') \<and>
     salesPoints w' = salesPoints w \<and> vouchers w' = vouchers w"
  using assms unfolding insertIdempotency_def
  by (auto simp: table_Inr split: if_splits)

lemma createVoucher_Inr:
  assumes "createVoucher p issuer input out qr w = (Inr v, w')"
  shows "\<exists>sp\<in>set (salesPoints w'). \<exists>client.
     let d = buildIssuedVoucherData (timeZone p) issuer input out (sp_id sp) client qr in
     sp_number sp = salesPoint input \<and> \<lparr>voucher_id = v, voucher_data = d\<rparr> \<in> set (vouchers w') \<and>
     validDates d \<and> fitsDecimal d"
proof -
  from assms obtain spId w1 client w2 where
    1: "upsertSalesPoint p (issuer_id issuer) (salesPoint input) w = (Inr spId, w1)" and
    2: "findClient p (issuer_id issuer) (docType (recipient_of input)) (docNumber (recipient_of input)) w1
          = (Inr client, w2)" and
    3: "insertVoucher p (buildIssuedVoucherData (timeZone p) issuer input out spId client qr) w2 = (Inr v, w')"
    unfolding createVoucher_def bindA_Inr_iff by blast
  have "salesPoints w2 = salesPoints w1"
    using 2 by (auto simp: findClient_def table_Inr getA_def)
  then show ?thesis
    using upsertSalesPoint_Inr [OF 1] insertVoucher_Inr [OF 3] by (auto simp: Let_def)
qed

text \<open>
  A voucher that was recorded under a key is the one a replay of the key returns.
\<close>

lemma record_voucher_recorded:
  assumes "record_voucher p issuer input out (Some key) w = (Inr v, w')" "stateOk p w" "key \<noteq> ''''"
    and "cae_code (outcome_cae out) \<noteq> ''''" "amountsOf input = Inr (outcome_amounts out)"
    and "decimalKeepsCents p"
  shows "recorded p w' (issuer_id issuer) key v"
proof -
  let ?qr = "qrDataFor (timeZone p) issuer input out" and ?a = "outcome_amounts out"
  from assms(1,3) obtain vid w1 w2 where
    1: "createVoucher p issuer input out ?qr w = (Inr vid, w1)" and
    2: "insertIdempotency p (issuer_id issuer) key vid w1 = (Inr (), w2)" and
    v: "v = issuedVoucherOf input out vid ?qr" and
    w': "salesPoints w' = salesPoints w2" "vouchers w' = vouchers w2"
        "idempotencyRecords w' = idempotencyRecords w2"
    unfolding record_voucher_def Let_def bindA_Inr_iff
    by (auto simp: notify_def putA_def returnA_def)
  from createVoucher_Inr [OF 1] obtain sp client d where
    sp: "sp \<in> set (salesPoints w1)" "sp_number sp = salesPoint input" and
    d: "d = buildIssuedVoucherData (timeZone p) issuer input out (sp_id sp) client ?qr" and
    row: "\<lparr>voucher_id = vid, voucher_data = d\<rparr> \<in> set (vouchers w1)" "fitsDecimal d"
    unfolding Let_def by blast
  have ok1: "stateOk p w1" using triple_Inr [OF db.createVoucher assms(2) 1] by simp
  have "vid \<in> voucher_id ` set (vouchers w1)" using row(1) by force
  with ok1 have ok2: "stateOk p w2" using triple_Inr [OF db.insertIdempotency _ 2] by blast
  note i = insertIdempotency_Inr [OF 2]
  have "findRow (sameIdempotencyKey (issuer_id issuer) key) (idempotencyRecords w2) =
      Some \<lparr>ir_issuerId = issuer_id issuer, ir_key = key, ir_voucherId = vid\<rparr>"
  proof -
    have "distinct (map (\<lambda>r. (ir_issuerId r, ir_key r)) (idempotencyRecords w2))"
      using ok2 by (simp add: stateOk_def databaseOk_def idempotencyOk_def)
    from findRow_unique [OF this, of "\<lparr>ir_issuerId = issuer_id issuer, ir_key = key, ir_voucherId = vid\<rparr>"
        "(issuer_id issuer, key)"] i
    show ?thesis by (simp add: sameIdempotencyKey_def [abs_def])
  qed
  moreover have "findRow (\<lambda>r. voucher_id r = vid) (vouchers w2) = Some \<lparr>voucher_id = vid, voucher_data = d\<rparr>"
    by (rule findRow_unique) (use ok2 i row in \<open>auto simp: stateOk_def databaseOk_def vouchersOk_def\<close>)
  moreover have "findRow (\<lambda>r. sp_id r = sp_id sp) (salesPoints w2) = Some sp"
    by (rule findRow_unique) (use ok2 i sp in \<open>auto simp: stateOk_def databaseOk_def salesPointsOk_def\<close>)
  moreover have "vd_salesPointId d = sp_id sp" "vd_cae d = Some (cae_code (outcome_cae out))"
    by (simp_all add: d buildIssuedVoucherData_def Let_def)
  ultimately have rec: "recordedRows w' (issuer_id issuer) key \<lparr>voucher_id = vid, voucher_data = d\<rparr> sp"
    using assms(4) by (simp add: recordedRows_def w')
  have dec: "storedDecimal p x = x" if "x \<in> {netAmount ?a, ivaAmount ?a, totalAmount ?a}" for x
    using that assms(5,6) row(2) calculateAmounts_isCents unfolding amountsOf_def decimalKeepsCents_def
    by (fastforce simp: fitsDecimal_def d buildIssuedVoucherData_def Let_def)
  have "v = toIssuedVoucher p sp \<lparr>voucher_id = vid, voucher_data = d\<rparr> (cae_code (outcome_cae out))"
    by (simp add: v toIssuedVoucher_def issuedVoucherOf_def d buildIssuedVoucherData_def Let_def sp dec)
  then show ?thesis unfolding recorded_def
    using rec \<open>vd_cae d = Some _\<close> by (auto intro!: exI)
qed

subsection \<open>Emission with a key leaves a recorded voucher\<close>

lemma attemptCae_state: "attemptCae p issuer input w = (r, w') \<Longrightarrow> stateOk p w \<Longrightarrow> stateOk p w'"
  using db.attemptCae [of p issuer input] by (auto simp: triple_def split: sum.splits dest!: spec [of _ w])

text \<open>A CAE is never the empty text: documented behaviour of ARCA.\<close>

definition givesCae :: "IssuedVoucher \<Rightarrow> bool" where
  "givesCae v \<longleftrightarrow> iv_cae v \<noteq> ''''"

lemma record_voucher_value:
  "record_voucher p issuer input out key w = (Inr v, w') \<Longrightarrow> iv_cae v = cae_code (outcome_cae out) \<and>
     iv_number v = outcome_number out \<and> iv_salesPoint v = salesPoint input \<and> iv_voucherType v = voucherType input"
  unfolding record_voucher_def Let_def
  by (auto simp: bindA_Inr_iff returnA_def issuedVoucherOf_def)

lemma replay_stays:
  assumes "replay p i key w = (Inr x, w1)" "stateOk p w"
  shows "stateOk p w1" "recorded p w1 i k v = recorded p w i k v"
proof -
  from replay_world [OF assms(1)] obtain s where w1: "w1 = w\<lparr>outside := s\<rparr>" by blast
  show "stateOk p w1" using assms(2) by (simp add: w1 db.outside)
  show "recorded p w1 i k v = recorded p w i k v" by (simp add: w1 recorded_outside)
qed

lemma issueUnderLock_recorded:
  assumes "issueUnderLock p issuer input (Some key) w = (Inr v, w')" "stateOk p w" "key \<noteq> ''''"
    and "givesCae v" "decimalKeepsCents p"
  shows "recorded p w' (issuer_id issuer) key v"
proof -
  from assms(1) obtain x w1 where
    1: "replay p (issuer_id issuer) (Some key) w = (Inr x, w1)" and
    2: "(case x of Some v \<Rightarrow> returnA v | None \<Rightarrow> emit p issuer input (Some key)) w1 = (Inr v, w')"
    unfolding issueUnderLock_def bindA_Inr_iff by blast
  note stays = replay_stays [OF 1 assms(2)]
  show ?thesis
  proof (cases x)
    case (Some u)
    then show ?thesis using replay_returns [of p "issuer_id issuer" "Some key" w u] 1 2 stays
      by (auto simp: returnA_def)
  next
    case None
    with 2 obtain out w2 where
      a: "attemptCae p issuer input w1 = (Inr out, w2)" and
      r: "record_voucher p issuer input out (Some key) w2 = (Inr v, w')"
      by (auto elim: emit_Inr)
    show ?thesis
      using record_voucher_recorded [OF r attemptCae_state [OF a stays(1)] assms(3)]
        attemptCae_outcome [OF a] record_voucher_value [OF r] assms(4,5) by (simp add: givesCae_def)
  qed
qed

lemma issueAuthorized_recorded:
  assumes "issueAuthorized p issuer input (Some key) w = (Inr v, w')" "stateOk p w" "key \<noteq> ''''"
    and "givesCae v" "decimalKeepsCents p"
  shows "recorded p w' (issuer_id issuer) key v"
proof -
  from assms(1) obtain x w1 where
    1: "replay p (issuer_id issuer) (Some key) w = (Inr x, w1)" and
    2: "(case x of Some v \<Rightarrow> returnA v | None \<Rightarrow> issueUnderLock p issuer input (Some key)) w1 = (Inr v, w')"
    unfolding issueAuthorized_def bindA_Inr_iff by blast
  note stays = replay_stays [OF 1 assms(2)]
  show ?thesis
  proof (cases x)
    case (Some u)
    then show ?thesis using replay_returns [of p "issuer_id issuer" "Some key" w u] 1 2 stays
      by (auto simp: returnA_def)
  next
    case None
    then show ?thesis using issueUnderLock_recorded [OF _ stays(1) assms(3,4,5)] 2 by simp
  qed
qed

lemma issueAuthorized_replays:
  assumes "databaseAnswers p" "recorded p w (issuer_id issuer) key v" "key \<noteq> ''''"
  shows "issueAuthorized p issuer input (Some key) w =
     (Inr v, w\<lparr>outside := afterAccess p (afterAccess p (outside w))\<rparr>)"
  using replay_recorded [OF assms] by (simp add: issueAuthorized_def bindA_def returnA_def)

end
