(* ===== verification/Samples.thy ===== *)
theory Samples
  imports Replay
begin

text \<open>
  A small ARCA to run the model on: it keeps the vouchers it authorised and answers each request
  for a CAE by a script (granted, granted but the answer is lost, unreachable, rejected); a
  second script says which queries of the last number fail, and a third which accesses to the
  database fail. Each reading of the clock finds it an hour later. It instantiates the ports in
  the witnesses of the properties and in the concrete executions that show a finding.
\<close>

datatype arca_reply = Granted | GrantedLost | Unreachable | Rejected "string list"

record arca =
  authorized :: "CaeRequest list"
  replies :: "arca_reply list"
  lastNumberScript :: "bool list"
  databaseScript :: "bool list"
  time :: int

definition sampleCae :: CaeResult where
  "sampleCae = \<lparr>cae_code = ''71000000000001'', cae_vto = Some 1700000000000, cae_observations = []\<rparr>"

definition sameNumbering :: "int \<Rightarrow> int \<Rightarrow> CaeRequest \<Rightarrow> bool" where
  "sameNumbering sp vt r = (req_salesPoint r = sp \<and> req_voucherType r = vt)"

definition lastNumber :: "arca \<Rightarrow> int \<Rightarrow> int \<Rightarrow> int" where
  "lastNumber s sp vt = foldl max 0 (map req_number (filter (sameNumbering sp vt) (authorized s)))"

definition nextReply :: "arca \<Rightarrow> arca_reply" where
  "nextReply s = (case replies s of [] \<Rightarrow> Granted | r # rs \<Rightarrow> r)"

definition consume :: "arca \<Rightarrow> arca" where
  "consume s = s\<lparr>replies := tl (replies s)\<rparr>"

definition sampleRequestCae :: "AuthContext \<Rightarrow> CaeRequest \<Rightarrow> arca \<Rightarrow> (app_error + CaeResult) \<times> arca" where
  "sampleRequestCae auth r s =
     (case nextReply s of
        Granted \<Rightarrow> (Inr sampleCae, (consume s)\<lparr>authorized := authorized s @ [r]\<rparr>)
      | GrantedLost \<Rightarrow> (Inl (OtherError ''fetch failed''), (consume s)\<lparr>authorized := authorized s @ [r]\<rparr>)
      | Unreachable \<Rightarrow> (Inl (OtherError ''fetch failed''), consume s)
      | Rejected codes \<Rightarrow> (Inl (arcaRejectionError codes []), consume s))"

definition detailOf :: "CaeRequest \<Rightarrow> AuthorizedVoucherDetail" where
  "detailOf r = \<lparr>detail_cae = sampleCae, detail_number = req_number r,
     detail_totalAmount = totalAmount (req_amounts r),
     detail_recipientDocType = cae_docType (req_recipient r),
     detail_recipientDocNumber = cae_docNumber (req_recipient r), detail_date = req_date r\<rparr>"

definition findAuthorized :: "int \<Rightarrow> int \<Rightarrow> int \<Rightarrow> arca \<Rightarrow> CaeRequest option" where
  "findAuthorized sp vt n s = List.find (\<lambda>r. sameNumbering sp vt r \<and> req_number r = n) (authorized s)"

definition samplePorts :: "arca ports" where
  "samplePorts =
     \<lparr>clock = (\<lambda>s. (time s, s\<lparr>time := time s + 3600000\<rparr>)),
      database = (\<lambda>s. case databaseScript s of
          [] \<Rightarrow> (None, s)
        | ok # rest \<Rightarrow> (if ok then None else Some ''connection lost'', s\<lparr>databaseScript := rest\<rparr>)),
      timeZone = -10800000, cuid = (\<lambda>n. replicate n (CHR ''c'')), storedDecimal = (\<lambda>x. x),
      maxRetries = 8, retryBaseMs = 60000,
      port_buildAuth = (\<lambda>issuer s. (Inr \<lparr>auth_issuerId = issuer_id issuer, auth_cuit = issuer_cuit issuer,
         auth_token = ''t'', auth_sign = ''s'', auth_environment = issuer_environment issuer\<rparr>, s)),
      port_getLastAuthorized = (\<lambda>auth sp vt s.
         (if lastNumberScript s = [] \<or> hd (lastNumberScript s) then Inr (lastNumber s sp vt)
          else Inl (OtherError ''fetch failed''), s\<lparr>lastNumberScript := tl (lastNumberScript s)\<rparr>)),
      port_requestCae = sampleRequestCae,
      port_queryVoucher = (\<lambda>auth sp vt n s.
         (Inr (map_option (\<lambda>_. sampleCae) (findAuthorized sp vt n s)), s)),
      port_queryVoucherDetail = (\<lambda>auth sp vt n s. (Inr (map_option detailOf (findAuthorized sp vt n s)), s))\<rparr>"

definition sampleIssuer :: StoredIssuer where
  "sampleIssuer = \<lparr>cbu = None, paymentAlias = None, issuer_id = ''i'', issuer_cuit = ''20111111112'',
     issuer_environment = ''homologacion'', representativeCuit = None, issuer_userId = ''u'',
     onboardingStatus = DELEGATION_CONFIRMED, issuer_legalName = ''ACME'',
     issuer_ivaCondition = ''MONOTRIBUTO'', commercialAddress = None\<rparr>"

definition sampleVoucher :: issueVoucher where
  "sampleVoucher = \<lparr>issuerId = ''i'', salesPoint = 3, voucherType = FACTURA_C, concept = PRODUCTS,
     recipient_of = \<lparr>docType = DOC_CONSUMIDOR_FINAL, docNumber = ''0'', legalName = None, ivaConditionId = None\<rparr>,
     items = [\<lparr>item_description = ''x'', quantity = 1, unitPrice = 100, ivaRate = 0, taxTreatment = TAXED\<rparr>],
     currency = ''PES'', exchangeRate = 1, associatedVouchers = None, service_period = None,
     paymentDueDate = None, transmissionType = None, tributes = None\<rparr>"

definition sampleWorld :: "arca_reply list \<Rightarrow> bool list \<Rightarrow> bool list \<Rightarrow> arca world" where
  "sampleWorld rs ls dbs = \<lparr>outside = \<lparr>authorized = [], replies = rs, lastNumberScript = ls,
       databaseScript = dbs, time = 1700000000000\<rparr>,
     users = [], apiClients = [], apiClientIssuers = [], certificates = [],
     issuers = [sampleIssuer], salesPoints = [], clients = [], vouchers = [],
     idempotencyRecords = [], pendingVouchers = [], purchaseInvoices = [], refreshTokens = [], ticketCache = [],
     paramCache = [], taxpayerCache = [], shadowComparisons = [], nextId = 1, notifications = []\<rparr>"

lemma sample_stateOk: "stateOk samplePorts (sampleWorld rs ls dbs)"
proof -
  have "inj (\<lambda>n. replicate n (CHR ''c''))" by (rule injI) (metis length_replicate)
  then show ?thesis
    by (simp add: stateOk_def portsOk_def databaseOk_defs samplePorts_def sampleWorld_def pendingKeys_def)
qed

lemma sample_decimal: "decimalKeepsCents samplePorts"
  by (simp add: decimalKeepsCents_def samplePorts_def)

lemma hundred: "cents 10000 = 100" "fl 100 = 100"
proof -
  show f: "fl 100 = 100" using fl_of_int [of 100] by simp
  then show "cents 10000 = 100" by (simp add: cents_def)
qed

lemma round_hundred: "round2 100 = 100"
  using calc.round_of_cents [of 10000] by (simp add: hundred cents_range_def)

lemma sample_amounts:
  "amountsOf sampleVoucher = Inr \<lparr>netAmount = 100, ivaAmount = 0, exemptAmount = 0, untaxedAmount = 0,
     tributeAmount = 0, totalAmount = 100, rates = [], amount_tributes = []\<rparr>"
  by (simp add: amountsOf_def sampleVoucher_def calculateAmounts_def calculateTributes_def sumGross_def
      grossOf_def js_mul_def js_add_def hundred round_hundred calc.round_0 voucher_type_simps reportsIvaToArca_letter)

lemma sample_valid: "validVoucher sampleVoucher"
  by (simp add: validVoucher_def issueVoucherIssues_def issueVoucherObjectIssues_def sampleVoucher_def
      indexedIssues_def itemIssues_def servicePeriodIssues_def optionalIssue_def ivaRates_def
      validateAssociatedVouchers_def validateRecipient_def validateServicePeriod_def
      validatePaymentDueDate_def validateTransmissionType_def requiresServicePeriod_def
      hasAssociatedVouchers_def voucher_type_simps Let_def default_condition_allowed)

end
