(* ===== verification/EmissionProperties.thy ===== *)
theory EmissionProperties
  imports Samples
begin

text \<open>
  What emission promises: the tables stay well formed and only grow, the three outcomes of a
  request, and idempotency by key.
\<close>

subsection \<open>Running the sample\<close>

lemmas sample_defs = samplePorts_def sampleWorld_def sampleIssuer_def sampleCae_def
  sampleRequestCae_def nextReply_def consume_def lastNumber_def sameNumbering_def

lemmas run_defs = issueAuthorized_def issueUnderLock_def replay_def replayOrQueued_def
  findReplayedVoucher_def findVoucherWithSalesPoint_def emit_def attemptCae_def track_def requestCae_def
  requestCaeWithRecovery_def requestCaeAttempt_def requestNumber_def afterDuplicate_def onNumberChosen_def
  inWorld_def confirm_def findIssuerOrThrow_def updateOnboardingStatus_def setStatus_def CONFIRMED_STATUS_def
  record_voucher_def createVoucher_def upsertSalesPoint_def findClient_def insertVoucher_def
  insertIdempotency_def newId_def notify_def external_def now_def pureA_def table_def reachDatabase_def
  caeRequestBuilder_def buildCreditInvoiceOptionals_def findRow_def sameVoucherKey_def
  sameIdempotencyKey_def samePendingKey_def action_defs

lemma sample_not_credit: "\<not> isCreditInvoice (voucherType sampleVoucher)"
  by (simp add: sampleVoucher_def voucher_type_simps)

lemma sample_fields [simp]:
  "salesPoint sampleVoucher = 3" "docNumber (recipient_of sampleVoucher) = ''0''"
  "docType (recipient_of sampleVoucher) = DOC_CONSUMIDOR_FINAL" "items sampleVoucher \<noteq> []"
  "voucherType sampleVoucher = FACTURA_C"
  "service_period sampleVoucher = None" "paymentDueDate sampleVoucher = None"
  by (simp_all add: sampleVoucher_def)

lemma sample_issued:
  "\<exists>v w'. issueAuthorized samplePorts sampleIssuer sampleVoucher (Some ''k'') (sampleWorld [Granted] [] []) = (Inr v, w')
     \<and> givesCae v"
  using sample_not_credit
  by (simp add: run_defs sample_defs sample_amounts buildIssuedVoucherData_def validDates_def fitsDecimal_def
      Let_def issuedVoucherOf_def givesCae_def)

subsection \<open>The tables\<close>

lemma triple_snd: "triple I m (\<lambda>_. I) (\<lambda>_. I) \<Longrightarrow> I w \<Longrightarrow> I (snd (m w))"
  by (simp add: triple_preserves preserves_def)

text \<open>
  Property C4. Every operation on vouchers, whether it succeeds or throws, and whatever ARCA and
  the database do, keeps the tables well formed: identifiers unique, unique constraints met,
  every voucher with its sales point, every idempotency record with its voucher, and every
  queued voucher with a retry count below the limit while it waits and with its attempted sales
  point exactly when it has an attempted number.
\<close>

theorem emission_keeps_database:
  assumes "stateOk p w"
  shows "stateOk p (snd (issueAuthorized p issuer input key w)) \<and>
    stateOk p (snd (retryTick p running w)) \<and>
    stateOk p (snd (retryFailed p i pid w)) \<and> stateOk p (snd (discardFailed p i pid w))"
  using triple_snd [OF db.issueAuthorized assms] triple_snd [OF db.retryTick assms]
    triple_snd [OF db.retryFailed assms] triple_snd [OF db.discardFailed assms] by blast

theorem emission_keeps_database_witness:
  "stateOk samplePorts (snd (issueAuthorized samplePorts sampleIssuer sampleVoucher (Some ''k'')
     (sampleWorld [Granted] [] [])))"
  using emission_keeps_database [OF sample_stateOk [of "[Granted]" "[]" "[]"]] by blast

text \<open>
  Property C7. Sales points, issued vouchers and idempotency records are append-only: no
  operation on vouchers deletes or alters a row that was there, even when it fails halfway.
\<close>

theorem issued_history_grows:
  assumes "stateOk p w"
  shows "grows w (snd (issueAuthorized p issuer input key w)) \<and>
    grows w (snd (retryTick p running w)) \<and>
    grows w (snd (retryFailed p i pid w)) \<and> grows w (snd (discardFailed p i pid w))"
  using triple_snd [OF growing.issueAuthorized, where w = w] triple_snd [OF growing.retryTick, where w = w]
    triple_snd [OF growing.retryFailed, where w = w] triple_snd [OF growing.discardFailed, where w = w] assms
  by (meson grows_refl)

theorem issued_history_grows_witness:
  "grows (sampleWorld [Granted] [] []) (snd (retryTick samplePorts False (sampleWorld [Granted] [] [])))"
  using issued_history_grows [OF sample_stateOk] by blast

subsection \<open>Idempotency\<close>

text \<open>
  Property C2. Emission is idempotent by key: once a request with a key returned a voucher, any
  later request of the issuer with the same key, whatever it asks for, returns that same
  voucher, changes no table, and touches nothing outside but the two accesses to the database.
  The later state is any state in which the tables of issued vouchers have only grown, and the
  ports of the later request may answer in any other way, as long as the database answers.
\<close>

theorem emission_idempotent:
  assumes "stateOk p w" "key \<noteq> ''''"
    and "issueAuthorized p issuer input (Some key) w = (Inr v, w1)" "givesCae v" "decimalKeepsCents p"
    and "grows w1 w2" "databaseAnswers q" "storedDecimal q = storedDecimal p" "issuer_id issuer2 = issuer_id issuer"
  shows "issueAuthorized q issuer2 input2 (Some key) w2 =
     (Inr v, w2\<lparr>outside := afterAccess q (afterAccess q (outside w2))\<rparr>)"
proof -
  have "recorded p w2 (issuer_id issuer) key v"
    using issueAuthorized_recorded [OF assms(3,1,2,4,5)] assms(6) by (rule recorded_grows)
  then have "recorded q w2 (issuer_id issuer2) key v"
    using assms(8,9) by (simp add: recorded_def toIssuedVoucher_def)
  then show ?thesis using issueAuthorized_replays assms(2,7) by blast
qed

definition steadyPorts :: "arca ports" where
  "steadyPorts = samplePorts\<lparr>database := (\<lambda>s. (None, s))\<rparr>"

theorem emission_idempotent_witness:
  "\<exists>v w1 w2. issueAuthorized samplePorts sampleIssuer sampleVoucher (Some ''k'') (sampleWorld [Granted] [] []) = (Inr v, w1) \<and>
     issueAuthorized steadyPorts sampleIssuer sampleVoucher (Some ''k'') w1 = (Inr v, w2)"
proof -
  obtain v w1 where run: "issueAuthorized samplePorts sampleIssuer sampleVoucher (Some ''k'')
      (sampleWorld [Granted] [] []) = (Inr v, w1)" "givesCae v" using sample_issued by blast
  have p: "databaseAnswers steadyPorts" "storedDecimal steadyPorts = storedDecimal samplePorts"
    by (simp_all add: databaseAnswers_def steadyPorts_def)
  show ?thesis
    using emission_idempotent [OF sample_stateOk _ run sample_decimal grows_refl p refl] run(1) by blast
qed

subsection \<open>Outcomes\<close>

text \<open>What an attempt to obtain a CAE leaves of the tables: only statuses of issuers change.\<close>

definition sameTables :: "'a world \<Rightarrow> 'a world \<Rightarrow> bool" where
  "sameTables w0 w \<longleftrightarrow> salesPoints w = salesPoints w0 \<and> clients w = clients w0 \<and>
     vouchers w = vouchers w0 \<and> idempotencyRecords w = idempotencyRecords w0 \<and>
     pendingVouchers w = pendingVouchers w0 \<and> notifications w = notifications w0"

lemma sameTables_refl [simp]: "sameTables w w"
  by (simp add: sameTables_def)

lemma sameTables_trans: "sameTables u v \<Longrightarrow> sameTables v w \<Longrightarrow> sameTables u w"
  by (simp add: sameTables_def)

lemma sameTables_fields:
  "sameTables w0 w \<Longrightarrow> vouchers w = vouchers w0 \<and> pendingVouchers w = pendingVouchers w0"
  by (simp add: sameTables_def)

lemma ofTables_sameTables [simp, intro]: "ofTables (sameTables w0)"
  by (simp add: ofTables_def sameTables_def)

lemma sameTables_issuers: "sameTables w0 w \<Longrightarrow> sameTables w0 (w\<lparr>issuers := is\<rparr>)"
  by (simp add: sameTables_def)

lemma track_sameTables:
  assumes "triple (sameTables w0) operation (\<lambda>_. sameTables w0) (\<lambda>_. sameTables w0)"
  shows "triple (sameTables w0) (track p i c operation) (\<lambda>_. sameTables w0) (\<lambda>_. sameTables w0)"
proof -
  have f: "triple (sameTables w0) (findIssuerOrThrow p j) (\<lambda>_. sameTables w0) (\<lambda>_. sameTables w0)" for j
    unfolding findIssuerOrThrow_def by (intro triple_table) (auto simp: triple_def split: option.split)
  have u: "triple (sameTables w0) (updateOnboardingStatus p j status) (\<lambda>_. sameTables w0) (\<lambda>_. sameTables w0)"
    for j status unfolding updateOnboardingStatus_def
    by (intro triple_table) (auto simp: triple_def sameTables_issuers split: option.split)
  show ?thesis unfolding track_def confirm_def diagnose_def Let_def
    by (rule triple_catchA [where F = "\<lambda>_. sameTables w0"])
       (auto intro!: triple_seq [where I = "sameTables w0"] f u assms triple_returnA triple_throwA)
qed

lemma attemptCae_tables:
  assumes "attemptCae p issuer input w = (r, w')"
  shows "sameTables w w'"
proof -
  have "triple (sameTables w) (attemptCae p issuer input) (\<lambda>_. sameTables w) (\<lambda>_. sameTables w)"
    unfolding attemptCae_def
    by (rule track_sameTables, rule triple_outsideOnly) (simp_all add: requestCae_world)
  from triple_snd [OF this sameTables_refl] assms show ?thesis by simp
qed

lemma replay_tables: "replay p i key w = (r, w') \<Longrightarrow> sameTables w w'"
  using triple_snd [OF triple_replay [OF ofTables_sameTables], of w w p i key] by simp

text \<open>The errors of the database.\<close>

definition storageError :: "app_error \<Rightarrow> bool" where
  "storageError e \<longleftrightarrow> (\<exists>m. e = OtherError m) \<or> (\<exists>c. e = PrismaKnownError c)"

lemma storageError_simps [simp]:
  "storageError (OtherError m)" "storageError (PrismaKnownError c)" "\<not> storageError (VoucherQueued j)"
  by (simp_all add: storageError_def)

lemma storageError_rejection: "storageError e \<Longrightarrow> \<not> isArcaRejection e"
  by (auto simp: storageError_def)

lemma triple_table_storage:
  assumes "ofTables I" "triple I operation Q (\<lambda>e w. I w \<and> storageError e)"
  shows "triple I (table p operation) Q (\<lambda>e w. I w \<and> storageError e)"
proof (rule tripleI)
  fix w x w' assume "I w" "table p operation w = (Inr x, w')"
  then obtain s where "operation (w\<lparr>outside := s\<rparr>) = (Inr x, w')" "I (w\<lparr>outside := s\<rparr>)"
    using assms(1) by (auto simp: table_Inr ofTables_def)
  then show "Q x w'" using triple_Inr [OF assms(2)] by blast
next
  fix w e w' assume "I w" "table p operation w = (Inl e, w')"
  then consider m s where "e = OtherError m" "w' = w\<lparr>outside := s\<rparr>" "I w'"
    | s where "operation (w\<lparr>outside := s\<rparr>) = (Inl e, w')" "I (w\<lparr>outside := s\<rparr>)"
    using assms(1) by (auto simp: table_Inl ofTables_def)
  then show "I w' \<and> storageError e"
    by cases (simp, use triple_Inl [OF assms(2)] in blast)
qed

text \<open>Recording never touches the queue, and queueing never touches the vouchers.\<close>

lemma record_leaves_queue:
  "triple (\<lambda>w. pendingVouchers w = rows) (record_voucher p issuer input out key)
     (\<lambda>_ w. pendingVouchers w = rows) (\<lambda>e w. pendingVouchers w = rows \<and> storageError e)"
proof -
  let ?I = "\<lambda>w. pendingVouchers w = rows" and ?E = "\<lambda>e w. pendingVouchers w = rows \<and> storageError e"
  have I [simp]: "ofTables ?I" by (simp add: ofTables_def)
  have 1: "triple ?I (upsertSalesPoint p i n) (\<lambda>_. ?I) ?E" for i n
    unfolding upsertSalesPoint_def
    by (rule triple_table_storage) (auto simp: triple_def newId_def action_simps split: option.split)
  have 2: "triple ?I (findClient p i n c) (\<lambda>_. ?I) ?E" for i n c
    unfolding findClient_def by (rule triple_table_storage) (auto intro!: triple_getA)
  have 3: "triple ?I (insertVoucher p d) (\<lambda>_. ?I) ?E" for d
    unfolding insertVoucher_def
    by (rule triple_table_storage) (auto simp: triple_def newId_def action_simps)
  have 4: "triple ?I (insertIdempotency p i k v) (\<lambda>_. ?I) ?E" for i k v
    unfolding insertIdempotency_def
    by (rule triple_table_storage) (auto simp: triple_def)
  show ?thesis
    unfolding record_voucher_def createVoucher_def Let_def notify_def
    by (auto intro!: triple_seq [where I = ?I] 1 2 3 4 triple_putA triple_returnA)
qed

lemma enqueue_leaves_vouchers:
  "triple (\<lambda>w. vouchers w = vs) (enqueue p entry)
     (\<lambda>row w. vouchers w = vs \<and> row \<in> set (pendingVouchers w) \<and> pending_issuerId row = entry_issuerId entry)
     (\<lambda>e w. storageError e)"
proof -
  let ?I = "\<lambda>w. vouchers w = vs"
  let ?Q = "\<lambda>row w. ?I w \<and> row \<in> set (pendingVouchers w) \<and> pending_issuerId row = entry_issuerId entry"
  have I [simp]: "ofTables ?I" by (simp add: ofTables_def)
  have create: "triple ?I (createPending p row)
      (\<lambda>x w. ?I w \<and> x \<in> set (pendingVouchers w) \<and> pending_issuerId x = pending_issuerId row)
      (\<lambda>e w. ?I w \<and> storageError e)" for row
    unfolding createPending_def
    by (rule triple_table_storage) (auto simp: triple_def newId_def action_simps)
  have attempted: "triple ?I (if n = None then returnA None else bindA (now p) (\<lambda>t. returnA (Some t)))
      (\<lambda>_. ?I) (\<lambda>e w. ?I w \<and> storageError e)" for n :: "int option"
    by (auto simp: triple_def action_simps now_def external_def split: prod.splits)
  have existing: "triple (\<lambda>w. ?I w \<and> storageError e) (findExistingOnConflict p e i key)
      (\<lambda>x w. ?I w \<and> storageError e \<and> (\<forall>r. x = Some r \<longrightarrow> r \<in> set (pendingVouchers w) \<and> pending_issuerId r = i))
      (\<lambda>e w. storageError e)" for e i key
    unfolding findExistingOnConflict_def
    by (auto simp: triple_def action_simps table_def external_def reachDatabase_def samePendingKey_def
        split: prod.splits sum.splits option.splits dest: findRow_Some)
  show ?thesis unfolding enqueue_def Let_def
  proof (rule triple_seq [OF triple_now], simp, rule triple_catchA [where F = "\<lambda>e w. ?I w \<and> storageError e"],
      rule triple_seq [OF attempted], rule triple_seq [OF triple_now], simp)
    fix start attempt_time created
    show "triple ?I (createPending p
          \<lparr>pending_id = [], pending_issuerId = entry_issuerId entry,
           pending_idempotencyKey = entry_idempotencyKey entry, payload = entry_input entry,
           pending_status = PENDING, retryCount = 0, nextRetryAt = start + retryBaseMs p,
           attemptedNumber = entry_attemptedNumber entry,
           attemptedSalesPoint = (if entry_attemptedNumber entry = None then None
             else Some (salesPoint (entry_input entry))),
           attemptedAt = attempt_time, lastError = Some (entry_lastError entry), pending_createdAt = created\<rparr>)
        ?Q (\<lambda>e w. ?I w \<and> storageError e)"
      by (rule triple_weaken [OF create]) auto
  next
    fix start e
    show "triple (\<lambda>w. ?I w \<and> storageError e)
       (bindA (findExistingOnConflict p e (entry_issuerId entry) (entry_idempotencyKey entry)) (\<lambda>existing.
          case existing of Some row \<Rightarrow> returnA row | None \<Rightarrow> throwA e)) ?Q (\<lambda>e w. storageError e)"
      by (rule triple_bindA [OF existing]) (auto intro!: triple_returnA triple_throwA split: option.split)
  qed
qed

definition storedAs :: "'a world \<Rightarrow> IssuedVoucher \<Rightarrow> bool" where
  "storedAs w v \<longleftrightarrow> (\<exists>row\<in>set (vouchers w). voucher_id row = iv_id v \<and>
     vd_cae (voucher_data row) = Some (iv_cae v) \<and> vd_number (voucher_data row) = iv_number v \<and>
     vd_voucherType (voucher_data row) = iv_voucherType v)"

lemma recorded_storedAs: "recorded p w i key v \<Longrightarrow> storedAs w v"
proof -
  assume "recorded p w i key v"
  then obtain row sp where r: "recordedRows w i key row sp"
    "v = toIssuedVoucher p sp row (the (vd_cae (voucher_data row)))" by (auto simp: recorded_def)
  then have "row \<in> set (vouchers w)" "hasText (vd_cae (voucher_data row))"
    by (auto simp: recordedRows_def dest: findRow_Some)
  then show ?thesis unfolding storedAs_def
    using r(2) by (intro bexI [of _ row]) (auto simp: toIssuedVoucher_def Let_def hasText_iff)
qed

lemma insertIdempotency_vouchers: "insertIdempotency p i k v w = (r, w') \<Longrightarrow> vouchers w' = vouchers w"
  unfolding insertIdempotency_def table_def external_def
  by (auto simp: bindA_def split: prod.splits sum.splits if_splits)

lemma record_stored:
  assumes "record_voucher p issuer input out key w = (Inr v, w')"
  shows "storedAs w' v"
proof -
  let ?qr = "qrDataFor (timeZone p) issuer input out"
  from assms obtain vid w1 w2 where
    1: "createVoucher p issuer input out ?qr w = (Inr vid, w1)" and
    2: "(if hasText key then insertIdempotency p (issuer_id issuer) (the key) vid else returnA ()) w1 = (Inr (), w2)" and
    v: "v = issuedVoucherOf input out vid ?qr" and w': "vouchers w' = vouchers w2"
    unfolding record_voucher_def Let_def bindA_Inr_iff by (auto simp: notify_def putA_def returnA_def)
  have "vouchers w2 = vouchers w1"
    using 2 insertIdempotency_vouchers by (auto simp: returnA_def split: if_splits)
  moreover from createVoucher_Inr [OF 1] obtain spId client where
    "\<lparr>voucher_id = vid, voucher_data = buildIssuedVoucherData (timeZone p) issuer input out spId client ?qr\<rparr>
       \<in> set (vouchers w1)"
    unfolding Let_def by blast
  ultimately show ?thesis
    unfolding storedAs_def w' v by (intro bexI) (auto simp: buildIssuedVoucherData_def issuedVoucherOf_def Let_def)
qed

definition queuedIn :: "'a world \<Rightarrow> string \<Rightarrow> app_error \<Rightarrow> bool" where
  "queuedIn w i e \<longleftrightarrow>
     (\<exists>row\<in>set (pendingVouchers w). e = VoucherQueued (pending_id row) \<and> pending_issuerId row = i)"

text \<open>The outcomes of a request that started in \<open>w\<close>.\<close>

definition outcomeOk :: "string \<Rightarrow> 'a world \<Rightarrow> (app_error + IssuedVoucher) \<times> 'a world \<Rightarrow> bool" where
  "outcomeOk i w result \<longleftrightarrow> (case result of
      (Inr v, w') \<Rightarrow> storedAs w' v \<and> pendingVouchers w' = pendingVouchers w
    | (Inl e, w') \<Rightarrow>
        queuedIn w' i e \<and> vouchers w' = vouchers w
        \<or> isArcaRejection e \<and> vouchers w' = vouchers w \<and> pendingVouchers w' = pendingVouchers w
        \<or> storageError e)"

lemma outcomeOk_start: "sameTables w w1 \<Longrightarrow> outcomeOk i w1 result \<Longrightarrow> outcomeOk i w result"
  by (auto simp: outcomeOk_def sameTables_def split: prod.splits sum.splits)

lemma emit_outcome: "outcomeOk (issuer_id issuer) w (emit p issuer input key w)"
proof (cases "attemptCae p issuer input w")
  case (Pair r w1)
  note same = attemptCae_tables [OF Pair]
  show ?thesis
  proof (cases r)
    case (Inr out)
    have e: "emit p issuer input key w = record_voucher p issuer input out key w1"
      using Pair Inr by (simp add: emit_def bindA_def catchA_def)
    obtain r2 w2 where 2: "record_voucher p issuer input out key w1 = (r2, w2)" by fastforce
    show ?thesis
      unfolding e 2 using record_stored [of p issuer input out key w1] 2 sameTables_fields [OF same]
        triple_Inr [OF record_leaves_queue refl, of p issuer input out key w1]
        triple_Inl [OF record_leaves_queue refl, of p issuer input out key w1]
      by (auto simp: outcomeOk_def split: sum.split)
  next
    case (Inl err)
    have e: "emit p issuer input key w = bindA (queueAfter p issuer input key err)
        (\<lambda>out. record_voucher p issuer input out key) w1"
      using Pair Inl by (simp add: emit_def bindA_def catchA_def)
    show ?thesis
    proof (cases "isArcaRejection err")
      case True
      then show ?thesis unfolding e using sameTables_fields [OF same]
        by (simp add: queueAfter_def bindA_def throwA_def outcomeOk_def)
    next
      case False
      let ?entry = "\<lparr>entry_issuerId = issuer_id issuer, entry_input = input, entry_idempotencyKey = key,
              entry_lastError = describeError err, entry_attemptedNumber = attemptedNumberOf err\<rparr>"
      obtain r2 w2 where 2: "enqueue p ?entry w1 = (r2, w2)" by fastforce
      show ?thesis unfolding e using False 2 sameTables_fields [OF same]
          triple_Inr [OF enqueue_leaves_vouchers refl, of p ?entry w1]
          triple_Inl [OF enqueue_leaves_vouchers refl, of p ?entry w1]
        by (auto simp: queueAfter_def bindA_def throwA_def outcomeOk_def queuedIn_def split: sum.split)
    qed
  qed
qed

lemma replayed_outcome:
  assumes "\<And>w1. outcomeOk i w1 (rest w1)"
  shows "outcomeOk i w (bindA (replay p i key) (\<lambda>x. case x of Some v \<Rightarrow> returnA v | None \<Rightarrow> rest) w)"
proof (cases "replay p i key w")
  case (Pair r w1)
  note same = replay_tables [OF Pair]
  show ?thesis
  proof (cases r)
    case (Inl e)
    then show ?thesis
      using replay_error [of p i key w e w1] Pair sameTables_fields [OF same]
      by (auto simp: bindA_def outcomeOk_def queuedIn_def)
  next
    case (Inr x)
    then show ?thesis
    proof (cases x)
      case None
      then show ?thesis using Pair Inr outcomeOk_start [OF same assms] by (simp add: bindA_def)
    next
      case (Some v)
      then have "storedAs w v" using replay_returns [of p i key w v w1] Pair Inr recorded_storedAs by blast
      then show ?thesis using Pair Inr Some sameTables_fields [OF same]
        by (simp add: bindA_def returnA_def outcomeOk_def storedAs_def)
    qed
  qed
qed

text \<open>
  Property C3. A request to issue a voucher ends in one of four ways: it returns a voucher that
  is stored with its CAE, type and number, the queue untouched; it throws that the voucher is
  queued, naming a queued row of the issuer, with no voucher stored; it throws a rejection of
  ARCA, with neither a voucher nor a queued row added; or it throws an error of the database.
\<close>

theorem emission_outcomes:
  "case issueAuthorized p issuer input key w of
      (Inr v, w') \<Rightarrow> storedAs w' v \<and> pendingVouchers w' = pendingVouchers w
    | (Inl e, w') \<Rightarrow>
        queuedIn w' (issuer_id issuer) e \<and> vouchers w' = vouchers w
        \<or> isArcaRejection e \<and> vouchers w' = vouchers w \<and> pendingVouchers w' = pendingVouchers w
        \<or> storageError e"
proof -
  have "outcomeOk (issuer_id issuer) w (issueAuthorized p issuer input key w)"
    unfolding issueAuthorized_def issueUnderLock_def
    by (intro replayed_outcome emit_outcome)
  then show ?thesis by (simp add: outcomeOk_def)
qed

end
