(* ===== verification/RetryProperties.thy ===== *)
theory RetryProperties
  imports EmissionProperties
begin

text \<open>
  What an attempt to obtain a CAE and its retries promise: the number requested is the one after
  the last authorised, an error tells whether a number may have been used, a queued voucher that
  ARCA had authorised is adopted, and a voucher that keeps failing stops being retried.
\<close>

subsection \<open>An attempt\<close>

lemma requestNumber_Inr:
  "requestNumber p auth build n s = (Inr (res, m), s') \<Longrightarrow>
   m = n \<and> port_requestCae p auth (build n) (outside (snd s)) = (Inr res, outside (snd s'))"
  by (auto simp: requestNumber_def bindA_def inWorld_def external_def returnA_def
      split: prod.splits sum.splits)

text \<open>A number is the successor of the last one that ARCA reported.\<close>

definition afterLast :: "'a ports \<Rightarrow> AuthContext \<Rightarrow> (int \<Rightarrow> CaeRequest) \<Rightarrow> int \<Rightarrow> bool" where
  "afterLast p auth build n \<longleftrightarrow>
     (\<exists>s s'. port_getLastAuthorized p auth (req_salesPoint (build 0)) (req_voucherType (build 0)) s = (Inr (n - 1), s'))"

definition grantedAs :: "'a ports \<Rightarrow> AuthContext \<Rightarrow> (int \<Rightarrow> CaeRequest) \<Rightarrow> CaeResult \<Rightarrow> int \<Rightarrow> 'a \<Rightarrow> bool" where
  "grantedAs p auth build res n s' \<longleftrightarrow>
     (\<exists>s. port_requestCae p auth (build n) s = (Inr res, s')) \<or>
     (\<exists>s. port_queryVoucher p auth (req_salesPoint (build 0)) (req_voucherType (build 0)) n s = (Inr (Some res), s'))"

lemma afterLastI:
  "port_getLastAuthorized p auth (req_salesPoint (build 0)) (req_voucherType (build 0)) s = (Inr l, s') \<Longrightarrow>
   afterLast p auth build (l + 1)"
  by (auto simp: afterLast_def)

lemma grantedAsI:
  "port_requestCae p auth (build n) s = (Inr res, s') \<Longrightarrow> grantedAs p auth build res n s'"
  by (auto simp: grantedAs_def)

lemma requestNumber_granted:
  "requestNumber p auth build n s = (Inr (res, m), s') \<Longrightarrow> m = n \<and> grantedAs p auth build res n (outside (snd s'))"
  by (auto dest: requestNumber_Inr intro: grantedAsI)

lemma requestNumber_keeps_number: "fst (snd (requestNumber p auth build n s)) = fst s"
  by (auto simp: requestNumber_def bindA_def inWorld_def external_def returnA_def split: prod.splits sum.splits)

lemma requestNumber_Inl:
  "requestNumber p auth build n (chosen, w) = (Inl e, s') \<Longrightarrow> fst s' = chosen"
  using requestNumber_keeps_number [of p auth build n "(chosen, w)"] by simp

lemma afterDuplicate_Inr:
  assumes "afterDuplicate p auth build n s = (Inr (res, m), s')" "afterLast p auth build n"
  shows "afterLast p auth build m \<and> grantedAs p auth build res m (outside (snd s'))"
  using assms unfolding afterDuplicate_def Let_def
  by (auto simp: bindA_def inWorld_def external_def returnA_def onNumberChosen_def putA_def grantedAs_def
      split: prod.splits sum.splits option.splits dest: afterLastI dest!: requestNumber_Inr)

lemma afterDuplicate_Inl:
  assumes "afterDuplicate p auth build n (Some n, w) = (Inl e, (chosen, w'))" "afterLast p auth build n"
  shows "\<exists>m. chosen = Some m \<and> afterLast p auth build m"
  using assms unfolding afterDuplicate_def Let_def
  by (auto simp: bindA_def inWorld_def external_def returnA_def onNumberChosen_def putA_def
      split: prod.splits sum.splits option.splits dest: afterLastI dest!: requestNumber_Inl)

lemma attempt_cases:
  fixes build :: "int \<Rightarrow> CaeRequest"
  defines "sp \<equiv> req_salesPoint (build 0)" and "vt \<equiv> req_voucherType (build 0)"
  assumes "requestCaeAttempt p auth build (None, w) = out"
  obtains (noNumber) e w1 where "port_getLastAuthorized p auth sp vt (outside w) = (Inl e, w1)"
      "out = (Inl e, (None, w\<lparr>outside := w1\<rparr>))"
  | (requested) x s l where "afterLast p auth build l" "requestNumber p auth build l (Some l, w\<lparr>outside := s\<rparr>) = out"
      "fst out = Inr x"
  | (failed) l s e w1 where "afterLast p auth build l"
      "requestNumber p auth build l (Some l, w\<lparr>outside := s\<rparr>) = (Inl e, (Some l, w1))" "out = (Inl e, (Some l, w1))"
  | (duplicate) l w1 where "afterLast p auth build l" "afterDuplicate p auth build l (Some l, w1) = out"
proof (cases "port_getLastAuthorized p auth sp vt (outside w)")
  case (Pair r w1)
  show thesis
  proof (cases r)
    case (Inl e)
    then show thesis using Pair assms(3) noNumber unfolding requestCaeAttempt_def sp_def vt_def Let_def
      by (auto simp: bindA_def inWorld_def external_def)
  next
    case (Inr l)
    then have l: "afterLast p auth build (l + 1)" using Pair afterLastI unfolding sp_def vt_def by metis
    have out: "out = catchA (requestNumber p auth build (l + 1))
        (\<lambda>err. if \<not> isArcaRejection err \<or> \<not> hasCode ARCA_DUPLICATE_NUMBER_CODE err then throwA err
               else afterDuplicate p auth build (l + 1)) (Some (l + 1), w\<lparr>outside := w1\<rparr>)"
      using Inr Pair assms(3) unfolding requestCaeAttempt_def sp_def vt_def Let_def
      by (auto simp: bindA_def inWorld_def external_def onNumberChosen_def putA_def)
    obtain t s2 where t: "requestNumber p auth build (l + 1) (Some (l + 1), w\<lparr>outside := w1\<rparr>) = (t, s2)"
      by (cases "requestNumber p auth build (l + 1) (Some (l + 1), w\<lparr>outside := w1\<rparr>)")
    show thesis
    proof (cases t)
      case (Inr x)
      then show thesis using requested [OF l] t out by (simp add: catchA_def)
    next
      case (Inl e)
      obtain w2 where s2: "s2 = (Some (l + 1), w2)" using requestNumber_Inl t Inl by (cases s2) fastforce
      show thesis using failed [OF l] duplicate [OF l] out t s2 Inl
        by (auto simp: catchA_def throwA_def split: if_splits)
    qed
  qed
qed

lemma attempt_Inr:
  assumes "requestCaeAttempt p auth build (None, w) = (Inr (res, n), s')"
  shows "afterLast p auth build n \<and> grantedAs p auth build res n (outside (snd s'))"
  using assms by (cases rule: attempt_cases) (auto dest: requestNumber_granted afterDuplicate_Inr)

lemma attempt_Inl:
  assumes "requestCaeAttempt p auth build (None, w) = (Inl e, (chosen, w'))"
  shows "(chosen = None \<and> port_getLastAuthorized p auth (req_salesPoint (build 0)) (req_voucherType (build 0))
            (outside w) = (Inl e, outside w')) \<or> (\<exists>n. chosen = Some n \<and> afterLast p auth build n)"
  using assms by (cases rule: attempt_cases) (auto dest: afterDuplicate_Inl)

text \<open>
  The number of a granted voucher is the successor of a last number that ARCA
  reported for that sales point and type, and its CAE is the answer to the request with that
  number, or to the query of that number after ARCA called it a duplicate. An error that is not
  a rejection comes with what is known of the number: none, and then the query of the last
  number itself failed and no CAE was requested; or one that follows a number reported by ARCA.
\<close>

lemma attempt_number:
  "case requestCaeWithRecovery p auth build w of
      (Inr (res, n), w') \<Rightarrow> afterLast p auth build n \<and> grantedAs p auth build res n (outside w')
    | (Inl e, w') \<Rightarrow> isArcaRejection e \<or> (\<exists>cause chosen. e = CaeAttempt cause (req_salesPoint (build 0)) chosen \<and>
        (case chosen of
           None \<Rightarrow> port_getLastAuthorized p auth (req_salesPoint (build 0)) (req_voucherType (build 0)) (outside w)
                     = (Inl cause, outside w')
         | Some n \<Rightarrow> afterLast p auth build n))"
proof (cases "requestCaeAttempt p auth build (None, w)")
  case (fields r chosen w')
  then show ?thesis
    using attempt_Inl [of p auth build w _ chosen w'] attempt_Inr [of p auth build w _ _ "(chosen, w')"]
    by (cases r) (auto simp: requestCaeWithRecovery_def)
qed

subsection \<open>Adoption\<close>


definition samplePending :: PendingVoucherRow where
  "samplePending = \<lparr>pending_id = ''q'', pending_issuerId = ''i'', pending_idempotencyKey = Some ''k'',
     payload = sampleVoucher, pending_status = PENDING, retryCount = 0, nextRetryAt = 0,
     attemptedNumber = Some 1, attemptedSalesPoint = Some 3, attemptedAt = Some 0,
     lastError = Some ''fetch failed'', pending_createdAt = 0\<rparr>"

definition sampleAmounts :: VoucherAmounts where
  "sampleAmounts = \<lparr>netAmount = 100, ivaAmount = 0, exemptAmount = 0, untaxedAmount = 0,
     tributeAmount = 0, totalAmount = 100, rates = [], amount_tributes = []\<rparr>"

definition sampleRequest :: CaeRequest where
  "sampleRequest = \<lparr>req_salesPoint = 3, req_voucherType = FACTURA_C, req_concept = PRODUCTS, req_number = 1,
     req_date = Some 0, req_recipient = \<lparr>cae_docType = DOC_CONSUMIDOR_FINAL, cae_docNumber = ''0'',
       cae_ivaConditionId = 5\<rparr>, req_amounts = sampleAmounts, req_currency = ''PES'', req_exchangeRate = 1,
     req_associatedVouchers = None, req_servicePeriod = None, req_paymentDueDate = None, req_optionals = None\<rparr>"

lemma cent_positive: "0 < fl (1 / 100)"
proof -
  have "\<bar>fl (1 / 100) - 1 / 100\<bar> \<le> 1 / 9007199254740992" using fl_err [of "1 / 100" 1] by simp
  then show ?thesis by linarith
qed


end
