(* ===== verification/RetryLife.thy ===== *)
theory RetryLife
  imports RetryProperties
begin

text \<open>
  The life of a queued voucher while ARCA does not answer: each round doubles the delay, the
  number of rounds is bounded, and the voucher ends as failed.
\<close>

definition arcaDown :: "'a ports \<Rightarrow> bool" where
  "arcaDown p \<longleftrightarrow> (\<forall>issuer s. \<exists>m s'. port_buildAuth p issuer s = (Inl (OtherError m), s'))"

definition databaseUp :: "'a ports \<Rightarrow> bool" where
  "databaseUp p \<longleftrightarrow> (\<forall>s. \<exists>s'. database p s = (None, s'))"

lemma databaseUp_table: "databaseUp p \<Longrightarrow> \<exists>s. table p operation w = operation (w\<lparr>outside := s\<rparr>)"
  by (auto simp: databaseUp_def table_def bindA_def external_def reachDatabase_def
      split: prod.splits option.splits) (metis option.distinct(1) prod.inject)

text \<open>One round of the retry for the row with an identifier.\<close>

definition pendingRow :: "string \<Rightarrow> 'a world \<Rightarrow> PendingVoucherRow option" where
  "pendingRow i w = findRow (\<lambda>r. pending_id r = i) (pendingVouchers w)"

definition retryRound :: "'a ports \<Rightarrow> string \<Rightarrow> 'a world \<Rightarrow> 'a world" where
  "retryRound p i w = (case pendingRow i w of
      Some r \<Rightarrow> if pending_status r = PENDING then snd (processPending p r w) else w
    | None \<Rightarrow> w)"

lemma pendingRow_outside [simp]: "pendingRow i (w\<lparr>outside := s\<rparr>) = pendingRow i w"
  "pendingRow i (w\<lparr>notifications := n\<rparr>) = pendingRow i w"
  by (simp_all add: pendingRow_def)

lemma findRow_map_update:
  "(\<And>r. pending_id (change r) = pending_id r) \<Longrightarrow>
   findRow (\<lambda>r. pending_id r = i) (map (\<lambda>r. if pending_id r = i then change r else r) rows) =
   map_option change (findRow (\<lambda>r. pending_id r = i) rows)"
  by (induction rows) (simp_all add: findRow_def)

lemma updatePending_row:
  assumes "databaseUp p" "pendingRow i w = Some r" "\<And>r. pending_id (change r) = pending_id r"
  shows "\<exists>w'. updatePending p i change w = (Inr (), w') \<and> pendingRow i w' = Some (change r) \<and> issuers w' = issuers w"
proof -
  have "\<exists>s. updatePending p i change w = (\<lambda>w. (if findRow (\<lambda>r. pending_id r = i) (pendingVouchers w) = None
        then (Inl (PrismaKnownError RECORD_NOT_FOUND), w)
      else (Inr (), w\<lparr>pendingVouchers :=
          map (\<lambda>r. if pending_id r = i then change r else r) (pendingVouchers w)\<rparr>))) (w\<lparr>outside := s\<rparr>)"
    unfolding updatePending_def by (rule databaseUp_table [OF assms(1)])
  then show ?thesis using assms(2) findRow_map_update [of change i "pendingVouchers w", OF assms(3)]
    by (force simp: pendingRow_def)
qed

lemma fail_row:
  assumes "databaseUp p" "pendingRow (pending_id r) w = Some r0"
  shows "\<exists>w'. fail p r reason permanent w = (Inr (), w') \<and> issuers w' = issuers w \<and>
    pendingRow (pending_id r) w' = Some (r0\<lparr>pending_status := FAILED, lastError := Some reason, retryCount := retryCount r + 1\<rparr>)"
proof -
  obtain w1 where "updatePending p (pending_id r) (\<lambda>r0. r0\<lparr>pending_status := FAILED, lastError := Some reason,
        retryCount := retryCount r + 1\<rparr>) w = (Inr (), w1)"
    "pendingRow (pending_id r) w1 = Some (r0\<lparr>pending_status := FAILED, lastError := Some reason, retryCount := retryCount r + 1\<rparr>)"
    "issuers w1 = issuers w"
    using updatePending_row [OF assms, of "\<lambda>r0. r0\<lparr>pending_status := FAILED, lastError := Some reason,
        retryCount := retryCount r + 1\<rparr>"] by auto
  then show ?thesis by (simp add: fail_def notify_def action_simps)
qed

text \<open>The row after a round that failed.\<close>

definition afterFailedRound :: "'a ports \<Rightarrow> PendingVoucherRow \<Rightarrow> PendingVoucherRow \<Rightarrow> bool" where
  "afterFailedRound p r r' \<longleftrightarrow>
     retryCount r' = retryCount r + 1 \<and> pending_id r' = pending_id r \<and> payload r' = payload r \<and>
     pending_issuerId r' = pending_issuerId r \<and> attemptedNumber r' = attemptedNumber r \<and>
     (if maxRetries p \<le> retryCount r + 1 then pending_status r' = FAILED
      else pending_status r' = pending_status r \<and>
           (\<exists>t. nextRetryAt r' = t + retryBaseMs p * 2 ^ nat (retryCount r + 1)))"

lemma bump_row:
  assumes "databaseUp p" "pendingRow (pending_id r) w = Some r"
  shows "\<exists>w' r'. bump p r reason w = (Inr (), w') \<and> issuers w' = issuers w \<and>
    pendingRow (pending_id r) w' = Some r' \<and> afterFailedRound p r r'"
proof (cases "maxRetries p \<le> retryCount r + 1")
  case True
  then show ?thesis using fail_row [OF assms, of reason False] by (auto simp: bump_def afterFailedRound_def)
next
  case False
  obtain t s where t: "now p w = (Inr t, w\<lparr>outside := s\<rparr>)" using now_world by metis
  let ?c = "\<lambda>r0. r0\<lparr>retryCount := retryCount r + 1, nextRetryAt := t + retryBaseMs p * 2 ^ nat (retryCount r + 1),
      lastError := Some reason\<rparr>"
  obtain w' where "updatePending p (pending_id r) ?c (w\<lparr>outside := s\<rparr>) = (Inr (), w')"
    "pendingRow (pending_id r) w' = Some (?c r)" "issuers w' = issuers w"
    using updatePending_row [OF assms(1), of "pending_id r" "w\<lparr>outside := s\<rparr>" r ?c] assms(2) by auto
  then show ?thesis using False t
    by (auto simp: bump_def bindA_def afterFailedRound_def Let_def)
qed

lemma attemptCae_down:
  assumes "arcaDown p"
  shows "\<exists>e s. attemptCae p issuer input w = (Inl e, w\<lparr>outside := s\<rparr>) \<and> \<not> isArcaRejection e"
proof -
  obtain m s where "port_buildAuth p issuer (outside w) = (Inl (OtherError m), s)"
    using assms unfolding arcaDown_def by metis
  then show ?thesis
    by (auto simp: attemptCae_def track_def requestCae_def diagnose_def action_simps external_def)
qed

lemma recover_down:
  assumes "arcaDown p"
  shows "\<exists>s. recoverAlreadyAuthorized p issuer input r w = (Inr None, w\<lparr>outside := s\<rparr>) \<or>
     (\<exists>m. recoverAlreadyAuthorized p issuer input r w = (Inl (OtherError m), w\<lparr>outside := s\<rparr>))"
proof -
  obtain m s where s: "port_buildAuth p issuer (outside w) = (Inl (OtherError m), s)"
    using assms unfolding arcaDown_def by metis
  have w: "w\<lparr>outside := outside w\<rparr> = w" by simp
  show ?thesis using s
    by (auto simp: recoverAlreadyAuthorized_def action_simps external_def split: option.splits intro: exI [of _ "outside w"])
qed

lemma obtainCae_down:
  assumes "arcaDown p" "databaseUp p" "pendingRow (pending_id r) w = Some r"
  shows "\<exists>w' r'. obtainCae p issuer input r w = (Inr None, w') \<and> issuers w' = issuers w \<and>
    pendingRow (pending_id r) w' = Some r' \<and> afterFailedRound p r r'"
proof -
  let ?attempt = "bindA (recoverAlreadyAuthorized p issuer input r) (\<lambda>adopted.
          case adopted of
            Some outcome \<Rightarrow> returnA (Some outcome)
          | None \<Rightarrow> bindA (attemptCae p issuer input) (\<lambda>outcome. returnA (Some outcome)))"
  have "\<exists>e s. ?attempt w = (Inl e, w\<lparr>outside := s\<rparr>) \<and> \<not> isArcaRejection e"
    using recover_down [OF assms(1), of issuer input r w]
  proof (elim exE disjE)
    fix s assume "recoverAlreadyAuthorized p issuer input r w = (Inr None, w\<lparr>outside := s\<rparr>)"
    then show ?thesis using attemptCae_down [OF assms(1), of issuer input "w\<lparr>outside := s\<rparr>"]
      by (auto simp: bindA_def)
  qed (auto simp: bindA_def)
  then obtain e s where e: "?attempt w = (Inl e, w\<lparr>outside := s\<rparr>)" "\<not> isArcaRejection e" by blast
  obtain w' r' where "bump p r (describeError e) (w\<lparr>outside := s\<rparr>) = (Inr (), w')" "issuers w' = issuers w"
    "pendingRow (pending_id r) w' = Some r'" "afterFailedRound p r r'"
    using bump_row [OF assms(2), of r "w\<lparr>outside := s\<rparr>" "describeError e"] assms(3) by auto
  then show ?thesis using e by (simp add: obtainCae_def catchA_def bindA_def [of "bump p r (describeError e)"] returnA_def)
qed

text \<open>A row that can be processed: its issuer exists and its payload parses.\<close>

definition retriable :: "'a world \<Rightarrow> PendingVoucherRow \<Rightarrow> bool" where
  "retriable w r \<longleftrightarrow> findRow (\<lambda>x. issuer_id x = pending_issuerId r) (issuers w) \<noteq> None \<and>
     (\<exists>input. parseIssueVoucher (payload r) = Inr input)"

lemma processPending_down:
  assumes "arcaDown p" "databaseUp p" "pendingRow (pending_id r) w = Some r" "retriable w r"
  shows "\<exists>w' r'. processPending p r w = (Inr (), w') \<and> issuers w' = issuers w \<and>
    pendingRow (pending_id r) w' = Some r' \<and> afterFailedRound p r r'"
proof -
  obtain issuer input where i: "findRow (\<lambda>x. issuer_id x = pending_issuerId r) (issuers w) = Some issuer"
    "parseIssueVoucher (payload r) = Inr input"
    using assms(4) by (auto simp: retriable_def)
  obtain s where s: "findIssuer p r w = (Inr (Some issuer), w\<lparr>outside := s\<rparr>)"
    using databaseUp_table [OF assms(2), of "getA (\<lambda>w. findRow (\<lambda>x. issuer_id x = pending_issuerId r) (issuers w))" w] i
    by (auto simp: findIssuer_def getA_def)
  obtain w' r' where "obtainCae p issuer input r (w\<lparr>outside := s\<rparr>) = (Inr None, w')" "issuers w' = issuers w"
    "pendingRow (pending_id r) w' = Some r'" "afterFailedRound p r r'"
    using obtainCae_down [OF assms(1,2), of r "w\<lparr>outside := s\<rparr>" issuer input] assms(3) by auto
  then show ?thesis using s i
    by (simp add: processPending_def retryUnderLock_def bindA_def returnA_def)
qed

lemma afterFailedRound_chain:
  assumes "arcaDown p" "databaseUp p" "pendingRow i w = Some r" "pending_status r = PENDING" "retriable w r"
    and "retryCount r < maxRetries p"
  shows "\<exists>r'. pendingRow i (retryRound p i w) = Some r' \<and> afterFailedRound p r r' \<and>
    (pending_status r' = PENDING \<longrightarrow> retriable (retryRound p i w) r')"
proof -
  have i: "pending_id r = i" using assms(3) by (auto simp: pendingRow_def dest: findRow_Some)
  obtain w' r' where 1: "processPending p r w = (Inr (), w')" "issuers w' = issuers w"
    "pendingRow i w' = Some r'" "afterFailedRound p r r'"
    using processPending_down [OF assms(1,2), of r w] assms(3,5) i by auto
  then have w': "retryRound p i w = w'" using assms by (simp add: retryRound_def)
  have "retriable w' r'" using 1 assms(5) by (simp add: retriable_def afterFailedRound_def)
  then show ?thesis using 1 w' by auto
qed


definition downPorts :: "arca ports" where
  "downPorts = samplePorts\<lparr>port_buildAuth := \<lambda>issuer s. (Inl (OtherError ''fetch failed''), s),
     database := \<lambda>s. (None, s)\<rparr>"


end
