(* ===== verification/AccessProperties.thy ===== *)
theory AccessProperties
  imports PendingVouchers EmissionProperties "HOL-Library.Multiset"
begin

text \<open>
  Tenant isolation: what a user or an API client reads or changes belongs to an issuer of
  theirs, and what is refused changes nothing.
\<close>

subsection \<open>Reading\<close>

text \<open>Only the outside world has moved.\<close>

definition unchanged :: "'a world \<Rightarrow> 'a world \<Rightarrow> bool" where
  "unchanged w w' \<longleftrightarrow> w' = w\<lparr>outside := outside w'\<rparr>"

lemma unchanged_refl [simp]: "unchanged w w" "unchanged w (w\<lparr>outside := s\<rparr>)"
  by (simp_all add: unchanged_def)

lemma unchanged_trans: "unchanged u v \<Longrightarrow> unchanged v w \<Longrightarrow> unchanged u w"
  unfolding unchanged_def by (metis world.surjective world.update_convs(1))

lemma unchanged_fields:
  assumes "unchanged w w'"
  shows "issuers w' = issuers w" "apiClientIssuers w' = apiClientIssuers w" "vouchers w' = vouchers w"
    "pendingVouchers w' = pendingVouchers w" "users w' = users w" "certificates w' = certificates w"
  using assms unfolding unchanged_def by (metis world.select_convs world.update_convs(1) world.surjective)+

text \<open>
  An action that reads: it changes no table, and what it returns satisfies a predicate of the
  tables.
\<close>

definition reads :: "('a world \<Rightarrow> 'b \<Rightarrow> bool) \<Rightarrow> ('a, 'b) effect \<Rightarrow> bool" where
  "reads Q m \<longleftrightarrow> (\<forall>w0. triple (unchanged w0) m (\<lambda>x w. unchanged w0 w \<and> Q w0 x) (\<lambda>_. unchanged w0))"

lemma reads_bindA:
  assumes "reads R m" "\<And>x. reads (\<lambda>w y. R w x \<longrightarrow> Q w y) (f x)"
  shows "reads Q (bindA m f)"
  unfolding reads_def
proof
  fix w0
  have "triple (\<lambda>w. unchanged w0 w \<and> R w0 x) (f x) (\<lambda>y w. unchanged w0 w \<and> Q w0 y) (\<lambda>_. unchanged w0)" for x
    by (rule triple_pull, rule triple_weaken, rule assms(2) [of x, unfolded reads_def, rule_format, of w0]) auto
  then show "triple (unchanged w0) (bindA m f) (\<lambda>x w. unchanged w0 w \<and> Q w0 x) (\<lambda>_. unchanged w0)"
    using assms(1) unfolding reads_def by (blast intro: triple_bindA)
qed

lemma unchanged_apply: "unchanged w0 w \<Longrightarrow> (\<And>w s. g (w\<lparr>outside := s\<rparr>) = g w) \<Longrightarrow> g w = g w0"
  unfolding unchanged_def by metis

lemma reads_table_getA:
  assumes "\<And>w s. g (w\<lparr>outside := s\<rparr>) = g w"
  shows "reads (\<lambda>w x. g w = x) (table p (getA g))"
  unfolding reads_def
proof
  fix w0 :: "'a world"
  have "ofTables (unchanged w0)"
    unfolding ofTables_def unchanged_def by (metis world.select_convs(1) world.surjective world.update_convs(1))
  then show "triple (unchanged w0) (table p (getA g)) (\<lambda>x w. unchanged w0 w \<and> g w0 = x) (\<lambda>_. unchanged w0)"
    by (rule triple_table) (auto intro!: triple_getA dest: unchanged_apply [of w0 _ g, OF _ assms])
qed

lemma reads_throwA: "reads Q (throwA e)"
  by (simp add: reads_def triple_throwA)

lemma reads_returnA: "(\<And>w. Q w x) \<Longrightarrow> reads Q (returnA x)"
  by (simp add: reads_def triple_returnA)

lemma reads_outcome:
  assumes "reads Q m"
  shows "case m w of (Inr x, w') \<Rightarrow> unchanged w w' \<and> Q w x | (Inl e, w') \<Rightarrow> unchanged w w'"
  using assms [unfolded reads_def triple_def, rule_format, of w w] by (auto split: sum.splits)

lemmas reads_intros = reads_bindA [OF reads_table_getA] reads_throwA reads_returnA reads_table_getA

subsection \<open>Issuers\<close>

definition isGranted :: "'a world \<Rightarrow> string \<Rightarrow> string \<Rightarrow> bool" where
  "isGranted w client i \<longleftrightarrow> (\<exists>g\<in>set (apiClientIssuers w). grant_apiClientId g = client \<and> grant_issuerId g = i)"

definition mayUse :: "'a world \<Rightarrow> IssuerOwner \<Rightarrow> StoredIssuer \<Rightarrow> bool" where
  "mayUse w owner r \<longleftrightarrow> r \<in> set (issuers w) \<and>
     (case owner of OwnerUser u \<Rightarrow> issuer_userId r = u | OwnerClient client \<Rightarrow> isGranted w client (issuer_id r))"

lemma assertIssuerGranted_reads: "reads (\<lambda>w _. isGranted w client i) (assertIssuerGranted p client i)"
  unfolding assertIssuerGranted_def
  by (rule reads_bindA [OF reads_table_getA])
     (auto simp: isGranted_def intro!: reads_throwA reads_returnA dest!: findRow_Some)

lemma rejectUnowned_reads: "reads Q (rejectUnowned p owner i)"
  unfolding rejectUnowned_def
  by (cases owner) (auto intro!: reads_throwA reads_bindA [OF reads_table_getA])

lemma ownedIssuerWhere_reads:
  "reads (\<lambda>w q. where_id q = i \<and> (case owner of OwnerUser u \<Rightarrow> where_userId q = Some u
      | OwnerClient client \<Rightarrow> where_userId q = None \<and> isGranted w client i)) (ownedIssuerWhere p owner i)"
  unfolding ownedIssuerWhere_def
  by (cases owner) (auto intro!: reads_returnA reads_bindA [OF assertIssuerGranted_reads])

lemma findIssuerWhere_reads:
  "reads (\<lambda>w x. findRow (matchesWhere q) (issuers w) = x) (findIssuerWhere p q)"
  unfolding findIssuerWhere_def by (rule reads_table_getA) simp

lemma getOwned_reads: "reads (\<lambda>w r. mayUse w owner r \<and> issuer_id r = i) (getOwned p owner i)"
  unfolding getOwned_def
proof (rule reads_bindA [OF ownedIssuerWhere_reads], rule reads_bindA [OF findIssuerWhere_reads])
  fix q x
  show "reads (\<lambda>w y. findRow (matchesWhere q) (issuers w) = x \<longrightarrow>
      where_id q = i \<and> (case owner of OwnerUser u \<Rightarrow> where_userId q = Some u
      | OwnerClient client \<Rightarrow> where_userId q = None \<and> isGranted w client i) \<longrightarrow>
      mayUse w owner y \<and> issuer_id y = i)
    (case x of None \<Rightarrow> rejectUnowned p owner i | Some r \<Rightarrow> returnA r)"
    by (cases x) (auto simp: mayUse_def matchesWhere_def rejectUnowned_reads
        intro!: reads_returnA dest!: findRow_Some split: IssuerOwner.splits)
qed

text \<open>
  An issuer is given only to the user it belongs to or to an API client with a
  grant for it, and is the issuer asked for; whatever the answer, no table changes.
\<close>

lemma getOwned_isolated:
  "case getOwned p owner i w of
     (Inr r, w') \<Rightarrow> unchanged w w' \<and> mayUse w owner r \<and> issuer_id r = i
   | (Inl e, w') \<Rightarrow> unchanged w w'"
  by (rule reads_outcome [OF getOwned_reads])


subsection \<open>Vouchers\<close>

definition voucherOf :: "'a world \<Rightarrow> string \<Rightarrow> VoucherRow \<Rightarrow> bool" where
  "voucherOf w u v \<longleftrightarrow> v \<in> set (vouchers w) \<and> ownerOf w v = Some u"

lemma findVoucherIssuerId_reads:
  "reads (\<lambda>w j. True) (findVoucherIssuerId p i)"
  unfolding findVoucherIssuerId_def
proof (rule reads_bindA [OF reads_table_getA])
  show "reads (\<lambda>w y. findRow (\<lambda>v. voucher_id v = i) (vouchers w) = x \<longrightarrow> True)
    (case x of None \<Rightarrow> throwA (NotFound ''Comprobante inexistente.'')
      | Some v \<Rightarrow> returnA (vd_issuerId (voucher_data v)))" for x
    by (cases x) (auto intro: reads_throwA reads_returnA)
qed simp

lemma ownerOf_outside [simp]: "ownerOf (w\<lparr>outside := s\<rparr>) v = ownerOf w v"
  by (simp add: ownerOf_def)

lemma getVoucher_reads: "reads (\<lambda>w v. voucherOf w u v \<and> voucher_id v = i) (getVoucher p u i)"
  unfolding getVoucher_def
proof (rule reads_bindA [OF reads_table_getA])
  show "reads (\<lambda>w y. findRow (\<lambda>v. voucher_id v = i \<and> ownerOf w v = Some u) (vouchers w) = x \<longrightarrow>
      voucherOf w u y \<and> voucher_id y = i)
    (case x of Some v \<Rightarrow> returnA v
      | None \<Rightarrow> bindA (findVoucherIssuerId p i) (\<lambda>_. throwA (Forbidden ''El comprobante no pertenece al usuario.'')))" for x
    by (cases x) (auto simp: voucherOf_def dest!: findRow_Some
        intro!: reads_returnA reads_bindA [OF findVoucherIssuerId_reads] reads_throwA)
qed simp

lemma getVoucherForApiClient_reads:
  "reads (\<lambda>w v. v \<in> set (vouchers w) \<and> voucher_id v = i \<and> isGranted w client (vd_issuerId (voucher_data v)))
     (getVoucherForApiClient p client i)"
  unfolding getVoucherForApiClient_def
proof (rule reads_bindA [OF findVoucherIssuerId_reads], rule reads_bindA [OF assertIssuerGranted_reads],
    rule reads_bindA [OF reads_table_getA])
  show "reads (\<lambda>w y. findRow (\<lambda>v. voucher_id v = i \<and> vd_issuerId (voucher_data v) = j) (vouchers w) = x \<longrightarrow>
      isGranted w client j \<longrightarrow> True \<longrightarrow>
      y \<in> set (vouchers w) \<and> voucher_id y = i \<and> isGranted w client (vd_issuerId (voucher_data y)))
    (case x of None \<Rightarrow> throwA (NotFound ''Comprobante inexistente.'') | Some v \<Rightarrow> returnA v)" for j x
    by (cases x) (auto dest!: findRow_Some intro!: reads_returnA reads_throwA)
qed simp

text \<open>
  Property C8. A voucher is shown only to the user that owns its issuer, or to an API client
  with a grant for its issuer, and no table changes.
\<close>

theorem vouchers_isolated:
  "(case getVoucher p u i w of
     (Inr v, w') \<Rightarrow> unchanged w w' \<and> v \<in> set (vouchers w) \<and> voucher_id v = i \<and> ownerOf w v = Some u
   | (Inl e, w') \<Rightarrow> unchanged w w') \<and>
   (case getVoucherForApiClient p client i w of
     (Inr v, w') \<Rightarrow> unchanged w w' \<and> v \<in> set (vouchers w) \<and> voucher_id v = i \<and>
       isGranted w client (vd_issuerId (voucher_data v))
   | (Inl e, w') \<Rightarrow> unchanged w w')"
  using reads_outcome [OF getVoucher_reads [of u i p], of w]
    reads_outcome [OF getVoucherForApiClient_reads [of i client p], of w]
  by (auto simp: voucherOf_def split: sum.splits)

definition newerFirst :: "VoucherRow \<Rightarrow> VoucherRow \<Rightarrow> bool" where
  "newerFirst a b \<longleftrightarrow> voucherOrder a \<le> voucherOrder b"

lemma listLimit_range: "1 \<le> listLimit limit \<and> listLimit limit \<le> 100"
proof (cases limit)
  case (Some x)
  have "1 \<le> truncNumber x" if "\<not> x < 1"
    using that by (simp add: truncNumber_def le_floor_iff)
  then show ?thesis using Some
    by (auto simp: listLimit_def DEFAULT_VOUCHER_LIST_LIMIT_def MAX_VOUCHER_LIST_LIMIT_def)
qed (simp add: listLimit_def DEFAULT_VOUCHER_LIST_LIMIT_def)

lemma sorted_wrt_newerFirst: "sorted_wrt newerFirst (sort_key voucherOrder xs)"
  using sorted_sort_key [of voucherOrder xs] by (simp add: newerFirst_def [abs_def] sorted_map)

text \<open>
  The list of an issuer's vouchers holds at most one hundred vouchers, only of
  that issuer, ordered from the newest date and, within a date, from the highest number; no
  voucher of the issuer that comes before one of the list is left out.
\<close>

lemma list_newest_first:
  "case listForIssuer p i limit w of
     (Inr vs, w') \<Rightarrow> unchanged w w' \<and> length vs \<le> 100 \<and> sorted_wrt newerFirst vs \<and>
       (\<exists>rest. mset (vs @ rest) = mset (filter (\<lambda>v. vd_issuerId (voucher_data v) = i) (vouchers w)) \<and>
          sorted_wrt newerFirst (vs @ rest) \<and> (rest = [] \<or> length vs = nat (listLimit limit)))
   | (Inl e, w') \<Rightarrow> unchanged w w'"
proof -
  let ?s = "\<lambda>w. sort_key voucherOrder (filter (\<lambda>v. vd_issuerId (voucher_data v) = i) (vouchers w))"
  let ?n = "nat (listLimit limit)"
  have r: "case listForIssuer p i limit w of (Inr vs, w') \<Rightarrow> unchanged w w' \<and> take ?n (?s w) = vs
     | (Inl e, w') \<Rightarrow> unchanged w w'"
    unfolding listForIssuer_def by (rule reads_outcome, rule reads_table_getA) simp
  let ?vs = "take ?n (?s w)" and ?rest = "drop ?n (?s w)"
  have t: "?vs @ ?rest = ?s w" by simp
  have s: "sorted_wrt newerFirst (?vs @ ?rest)" unfolding t by (rule sorted_wrt_newerFirst)
  then have v: "sorted_wrt newerFirst ?vs" by (simp only: sorted_wrt_append)
  have l: "length ?vs \<le> 100" using listLimit_range [of limit] by (auto simp: min_def)
  have m: "mset (?vs @ ?rest) = mset (filter (\<lambda>v. vd_issuerId (voucher_data v) = i) (vouchers w))"
    unfolding t by simp
  have e: "?rest = [] \<or> length ?vs = ?n" by auto
  show ?thesis
  proof (cases "listForIssuer p i limit w")
    case (Pair x w')
    show ?thesis
    proof (cases x)
      case (Inr vs)
      then have "unchanged w w'" and vs: "vs = ?vs" using r Pair by auto
      then show ?thesis unfolding Pair Inr vs prod.case sum.case using l v m s e by blast
    next
      case (Inl err)
      then show ?thesis using r Pair by simp
    qed
  qed
qed


subsection \<open>The queue, by hand\<close>

definition restarted :: "string \<Rightarrow> string \<Rightarrow> date \<Rightarrow> PendingVoucherRow \<Rightarrow> PendingVoucherRow" where
  "restarted i pid t r = (if failedOf i pid r
     then r\<lparr>pending_status := PENDING, retryCount := 0, nextRetryAt := t\<rparr> else r)"

text \<open>Only the outside world and the queue have changed.\<close>

definition queueBecomes :: "PendingVoucherRow list \<Rightarrow> 'a world \<Rightarrow> 'a world \<Rightarrow> bool" where
  "queueBecomes rows w w' \<longleftrightarrow> (\<exists>s. w' = w\<lparr>outside := s, pendingVouchers := rows\<rparr>)"

lemma queueBecomes_outside [simp]: "queueBecomes rows (w\<lparr>outside := s\<rparr>) w' = queueBecomes rows w w'"
  by (simp add: queueBecomes_def)

lemma queueBecomes_simp [simp]: "queueBecomes rows w (w\<lparr>outside := s, pendingVouchers := rows\<rparr>)"
  by (auto simp: queueBecomes_def)

lemma noneFailed:
  assumes "\<not> (\<exists>r\<in>set rows. failedOf i pid r)"
  shows "map (restarted i pid t) rows = rows" "filter (\<lambda>r. \<not> failedOf i pid r) rows = rows"
  using assms by (induction rows) (auto simp: restarted_def)

lemma count_zero: "length (filter P xs) = 0 \<longleftrightarrow> \<not> (\<exists>x\<in>set xs. P x)"
  by (auto simp: filter_empty_conv)

lemma explainMissing_reads: "reads (\<lambda>w _. False) (explainMissingFailed p i pid)"
  unfolding explainMissingFailed_def
  by (rule reads_bindA [OF reads_table_getA]) (auto intro: reads_throwA)

lemma explainMissing_outcome: "\<exists>e s. explainMissingFailed p i pid w = (Inl e, w\<lparr>outside := s\<rparr>)"
  using reads_outcome [OF explainMissing_reads [where p = p and i = i and pid = pid], of w]
  by (cases "explainMissingFailed p i pid w") (auto simp: unchanged_def split: sum.splits)

lemma retryFailed_outcome:
  "case retryFailed p i pid w of
     (Inr _, w') \<Rightarrow> (\<exists>r\<in>set (pendingVouchers w). failedOf i pid r) \<and>
       (\<exists>t. queueBecomes (map (restarted i pid t) (pendingVouchers w)) w w')
   | (Inl e, w') \<Rightarrow> unchanged w w'"
proof -
  obtain t s where t: "now p w = (Inr t, w\<lparr>outside := s\<rparr>)"
    using now_world [of p w] by blast
  have m: "(\<lambda>r. if failedOf i pid r then r\<lparr>pending_status := PENDING, retryCount := 0, nextRetryAt := t\<rparr> else r) =
      restarted i pid t"
    by (rule ext) (simp add: restarted_def)
  show ?thesis
  proof (cases "database p s")
    case (Pair a s1)
    show ?thesis
    proof (cases a)
      case None
      show ?thesis
      proof (cases "\<exists>r\<in>set (pendingVouchers w). failedOf i pid r")
        case True
        then show ?thesis using t Pair None m
          by (auto simp: retryFailed_def table_def bindA_def external_def reachDatabase_def returnA_def filter_empty_conv
              intro!: exI [of _ t])
      next
        case False
        have w: "w\<lparr>outside := s1, pendingVouchers := pendingVouchers w\<rparr> = w\<lparr>outside := s1\<rparr>" by simp
        obtain e s2 where e: "explainMissingFailed p i pid (w\<lparr>outside := s1\<rparr>) = (Inl e, w\<lparr>outside := s2\<rparr>)"
          using explainMissing_outcome [of p i pid "w\<lparr>outside := s1\<rparr>"] by auto
        have "filter (failedOf i pid) (pendingVouchers w) = []" using False by (auto simp: filter_empty_conv)
        then have "retryFailed p i pid w = explainMissingFailed p i pid (w\<lparr>outside := s1\<rparr>)"
          using t Pair None m noneFailed(1) [OF False, of t] w
          by (simp add: retryFailed_def table_def bindA_def external_def reachDatabase_def)
        then show ?thesis using e by simp
      qed
    qed (simp add: retryFailed_def bindA_def t table_def external_def reachDatabase_def Pair)
  qed
qed

lemma discardFailed_outcome:
  "case discardFailed p i pid w of
     (Inr _, w') \<Rightarrow> (\<exists>r\<in>set (pendingVouchers w). failedOf i pid r) \<and>
       queueBecomes (filter (\<lambda>r. \<not> failedOf i pid r) (pendingVouchers w)) w w'
   | (Inl e, w') \<Rightarrow> unchanged w w'"
proof (cases "database p (outside w)")
  case (Pair a s1)
  show ?thesis
  proof (cases a)
    case None
    show ?thesis
    proof (cases "\<exists>r\<in>set (pendingVouchers w). failedOf i pid r")
      case True
      then show ?thesis using Pair None
        by (auto simp: discardFailed_def table_def bindA_def external_def reachDatabase_def returnA_def filter_empty_conv)
    next
      case False
      have w: "w\<lparr>outside := s1, pendingVouchers := pendingVouchers w\<rparr> = w\<lparr>outside := s1\<rparr>" by simp
      obtain e s2 where e: "explainMissingFailed p i pid (w\<lparr>outside := s1\<rparr>) = (Inl e, w\<lparr>outside := s2\<rparr>)"
        using explainMissing_outcome [of p i pid "w\<lparr>outside := s1\<rparr>"] by auto
      have "filter (failedOf i pid) (pendingVouchers w) = []" using False by (auto simp: filter_empty_conv)
      then have "discardFailed p i pid w = explainMissingFailed p i pid (w\<lparr>outside := s1\<rparr>)"
        using Pair None noneFailed(2) [OF False] w
        by (simp add: discardFailed_def table_def bindA_def external_def reachDatabase_def)
      then show ?thesis using e by simp
    qed
  qed (simp add: discardFailed_def bindA_def table_def external_def reachDatabase_def Pair)
qed

text \<open>An action guarded by a check of access.\<close>

lemma guarded_outcome:
  assumes "reads G guard" "\<And>v. case act v of (Inr x, w') \<Rightarrow> A v w' | (Inl e, w') \<Rightarrow> unchanged v w'"
  shows "case bindA guard (\<lambda>_. act) w of
      (Inr x, w') \<Rightarrow> \<exists>y s. G w y \<and> A (w\<lparr>outside := s\<rparr>) w' | (Inl e, w') \<Rightarrow> unchanged w w'"
proof (cases "guard w")
  case (Pair r w1)
  have g: "case guard w of (Inr x, w') \<Rightarrow> unchanged w w' \<and> G w x | (Inl e, w') \<Rightarrow> unchanged w w'"
    by (rule reads_outcome [OF assms(1)])
  show ?thesis
  proof (cases r)
    case (Inr y)
    then have u: "w1 = w\<lparr>outside := outside w1\<rparr>" "unchanged w w1" and G: "G w y"
      using g Pair by (auto simp: unchanged_def)
    have "bindA guard (\<lambda>_. act) w = act w1" using Pair Inr by (simp add: bindA_def)
    moreover have "case act w1 of (Inr x, w') \<Rightarrow> \<exists>y s. G w y \<and> A (w\<lparr>outside := s\<rparr>) w' | (Inl e, w') \<Rightarrow> unchanged w w'"
      using assms(2) [of w1] G u(1) unchanged_trans [OF u(2)]
      by (cases "act w1"; cases "fst (act w1)") (auto, metis+)
    ultimately show ?thesis by simp
  next
    case (Inl e)
    then show ?thesis using g Pair by (simp add: bindA_def)
  qed
qed

text \<open>
  Only a user that owns the issuer, or an API client with a grant for it, can
  restart or discard one of its queued vouchers, and only one that has failed: restarting puts
  it back in the queue with a fresh count and leaves every other row as it was, discarding
  removes it and nothing else, and a refusal changes nothing.
\<close>

lemma queue_actions_isolated:
  "(case retryForUser p u i pid w of
      (Inr _, w') \<Rightarrow> (\<exists>r. mayUse w (OwnerUser u) r \<and> issuer_id r = i) \<and>
        (\<exists>r\<in>set (pendingVouchers w). failedOf i pid r) \<and>
        (\<exists>t. queueBecomes (map (restarted i pid t) (pendingVouchers w)) w w')
    | (Inl e, w') \<Rightarrow> unchanged w w') \<and>
   (case discardForApiClient p client i pid w of
      (Inr _, w') \<Rightarrow> isGranted w client i \<and> (\<exists>r\<in>set (pendingVouchers w). failedOf i pid r) \<and>
        queueBecomes (filter (\<lambda>r. \<not> failedOf i pid r) (pendingVouchers w)) w w'
    | (Inl e, w') \<Rightarrow> unchanged w w')"
  using guarded_outcome [OF getOwned_reads [where owner = "OwnerUser u" and i = i and p = p] retryFailed_outcome [where p = p and i = i and pid = pid], where w = w]
    guarded_outcome [OF assertIssuerGranted_reads [where client = client and i = i and p = p] discardFailed_outcome [where p = p and i = i and pid = pid], where w = w]
  unfolding retryForUser_def discardForApiClient_def getFromUser_def
  by (auto split: sum.splits)


subsection \<open>Creating an issuer for an API client\<close>

text \<open>The tables that creating an issuer does not touch.\<close>

definition othersKept :: "'a world \<Rightarrow> 'a world \<Rightarrow> bool" where
  "othersKept w w' \<longleftrightarrow> sameTables w w' \<and> certificates w' = certificates w \<and> apiClients w' = apiClients w"

lemma othersKept_trans: "othersKept u v \<Longrightarrow> othersKept v w \<Longrightarrow> othersKept u w"
  by (auto simp: othersKept_def intro: sameTables_trans)

text \<open>What each step of the transaction does when it succeeds.\<close>

lemma ensureServiceUser_Inr:
  assumes "ensureServiceUser p client w = (Inr u, w1)"
  shows "othersKept w w1 \<and> issuers w1 = issuers w \<and> apiClientIssuers w1 = apiClientIssuers w \<and>
    (\<exists>new. users w1 = users w @ new) \<and>
    (\<exists>x\<in>set (users w1). user_id x = u \<and> user_email x = serviceUserEmail client)"
proof (cases "findRow (\<lambda>u. user_email u = serviceUserEmail client) (users w)")
  case None
  then show ?thesis using assms unfolding ensureServiceUser_def table_Inr
    by (auto simp: action_simps newId_def othersKept_def sameTables_def)
next
  case (Some x)
  then have "x \<in> set (users w)" "user_email x = serviceUserEmail client" by (auto dest: findRow_Some)
  then show ?thesis using assms Some unfolding ensureServiceUser_def table_Inr
    by (auto simp: othersKept_def sameTables_def)
qed

lemma createIssuer_Inr:
  assumes "createIssuer p u d w = (Inr r, w1)"
  shows "othersKept w w1 \<and> users w1 = users w \<and> apiClientIssuers w1 = apiClientIssuers w \<and>
    issuers w1 = issuers w @ [r] \<and> (\<exists>i. r = newIssuer i u d) \<and> \<not> (\<exists>x\<in>set (issuers w). sameIssuerKey u d x)"
  using assms unfolding createIssuer_def table_Inr
  by (auto simp: action_simps newId_def findRow_None othersKept_def sameTables_def split: if_splits)

lemma createGrant_Inr:
  assumes "createGrant p client i w = (Inr x, w1)"
  shows "othersKept w w1 \<and> users w1 = users w \<and> issuers w1 = issuers w \<and>
    apiClientIssuers w1 = apiClientIssuers w @ [\<lparr>grant_apiClientId = client, grant_issuerId = i\<rparr>]"
  using assms unfolding createGrant_def table_Inr
  by (auto simp: othersKept_def sameTables_def split: if_splits)

lemma createForApiClient_Inr:
  assumes "createForApiClient p client d w = (Inr r, w')"
  shows "othersKept w w' \<and> issuers w' = issuers w @ [r] \<and> issuer_cuit r = ci_cuit d \<and>
    onboardingStatus r = PENDING_CERTIFICATE \<and> mayUse w' (OwnerClient client) r \<and>
    apiClientIssuers w' = apiClientIssuers w @ [\<lparr>grant_apiClientId = client, grant_issuerId = issuer_id r\<rparr>] \<and>
    (\<exists>x\<in>set (users w'). user_id x = issuer_userId r \<and> user_email x = serviceUserEmail client) \<and>
    \<not> (\<exists>x\<in>set (issuers w). sameIssuerKey (issuer_userId r) d x)"
proof -
  have "bindA (ensureServiceUser p client) (\<lambda>u. bindA (createIssuer p u d) (\<lambda>issuer.
          bindA (createGrant p client (issuer_id issuer)) (\<lambda>_. returnA issuer))) w = (Inr r, w')"
    using assms unfolding createForApiClient_def catchA_def transaction_def
    by (auto simp: throwA_def split: prod.splits sum.splits if_splits)
  then obtain u w1 w2 where 1: "ensureServiceUser p client w = (Inr u, w1)" and 2: "createIssuer p u d w1 = (Inr r, w2)"
    and 3: "createGrant p client (issuer_id r) w2 = (Inr (), w')"
    unfolding bindA_Inr_iff returnA_def by auto
  have "othersKept w w'" using ensureServiceUser_Inr [OF 1] createIssuer_Inr [OF 2] createGrant_Inr [OF 3]
    by (blast intro: othersKept_trans)
  then show ?thesis using ensureServiceUser_Inr [OF 1] createIssuer_Inr [OF 2] createGrant_Inr [OF 3]
    by (auto simp: newIssuer_def mayUse_def isGranted_def)
qed

lemma createForApiClient_Inl:
  assumes "createForApiClient p client d w = (Inl e, w')"
  shows "w' = w\<lparr>outside := outside w', nextId := nextId w'\<rparr> \<and> \<not> isUniqueViolation e"
  using assms unfolding createForApiClient_def catchA_def transaction_def
  by (auto simp: throwA_def isUniqueViolation_def split: prod.splits sum.splits if_splits)

text \<open>
  Creating an issuer for an API client is atomic: it either adds exactly that
  issuer, owned by the client's service user and granted to the client alone, or it changes no
  table; a repeated CUIT in the same environment is refused as a conflict and never reaches the
  caller as an error of the database.
\<close>

lemma createForApiClient_atomic:
  "case createForApiClient p client d w of
     (Inr r, w') \<Rightarrow> othersKept w w' \<and> issuers w' = issuers w @ [r] \<and> issuer_cuit r = ci_cuit d \<and>
       onboardingStatus r = PENDING_CERTIFICATE \<and> mayUse w' (OwnerClient client) r \<and>
       apiClientIssuers w' = apiClientIssuers w @ [\<lparr>grant_apiClientId = client, grant_issuerId = issuer_id r\<rparr>] \<and>
       (\<exists>x\<in>set (users w'). user_id x = issuer_userId r \<and> user_email x = serviceUserEmail client) \<and>
       \<not> (\<exists>x\<in>set (issuers w). sameIssuerKey (issuer_userId r) d x)
   | (Inl e, w') \<Rightarrow> w' = w\<lparr>outside := outside w', nextId := nextId w'\<rparr> \<and> \<not> isUniqueViolation e"
  by (cases "createForApiClient p client d w"; cases "fst (createForApiClient p client d w)")
     (simp_all add: createForApiClient_Inr createForApiClient_Inl)

end
