(* ===== verification/IssuerLock.thy ===== *)
theory IssuerLock
  imports Prelude
begin

text \<open>
  The lock of an issuer, \<open>issuer-lock.service.ts\<close>. Each call of \<open>runExclusive\<close>
  has a ticket; what the code keeps in closures and promises is kept here per ticket: the
  promise it waits for (that of the ticket before it, if any), whether its task is waiting,
  running or finished, and whether its own promise has settled. A settled promise stays so, and
  a promise that waits for another settles some time after it, which is a step of its own. The
  steps are the synchronous pieces of the code between two awaits.
\<close>

subsection \<open>State and steps\<close>

datatype phase = Waiting | Running | Finished

record ticket =
  ticket_key :: string
  previous :: "nat option"
  phase_of :: phase
  settled :: bool

record lock_state =
  tails :: "string \<Rightarrow> nat option"
  tickets :: "ticket list"

definition noCalls :: lock_state where
  "noCalls = \<lparr>tails = (\<lambda>_. None), tickets = []\<rparr>"

text \<open>The start of \<open>runExclusive\<close>, up to \<open>await previous\<close>.\<close>

definition call :: "string \<Rightarrow> lock_state \<Rightarrow> lock_state" where
  "call key s = \<lparr>tails = (tails s)(key := Some (length (tickets s))),
     tickets = tickets s @ [\<lparr>ticket_key = key, previous = tails s key, phase_of = Waiting, settled = False\<rparr>]\<rparr>"

definition promiseSettled :: "lock_state \<Rightarrow> nat option \<Rightarrow> bool" where
  "promiseSettled s promise = (case promise of None \<Rightarrow> True | Some m \<Rightarrow> settled (tickets s ! m))"

definition changeTicket :: "nat \<Rightarrow> (ticket \<Rightarrow> ticket) \<Rightarrow> lock_state \<Rightarrow> lock_state" where
  "changeTicket n change s = s\<lparr>tickets := (tickets s)[n := change (tickets s ! n)]\<rparr>"

text \<open>The wait is over and the task starts.\<close>

definition enter :: "nat \<Rightarrow> lock_state \<Rightarrow> lock_state option" where
  "enter n s = (if n < length (tickets s) \<and> phase_of (tickets s ! n) = Waiting \<and>
       promiseSettled s (previous (tickets s ! n))
     then Some (changeTicket n (\<lambda>t. t\<lparr>phase_of := Running\<rparr>) s) else None)"

text \<open>The task ended, with a value or an error: the \<open>finally\<close> block.\<close>

definition finish :: "nat \<Rightarrow> lock_state \<Rightarrow> lock_state option" where
  "finish n s = (if n < length (tickets s) \<and> phase_of (tickets s ! n) = Running
     then (let key = ticket_key (tickets s ! n); s' = changeTicket n (\<lambda>t. t\<lparr>phase_of := Finished\<rparr>) s in
       Some (if tails s' key = Some n then s'\<lparr>tails := (tails s')(key := None)\<rparr> else s'))
     else None)"

text \<open>The promise \<open>previous.then(() => current)\<close> of a ticket settles.\<close>

definition settle :: "nat \<Rightarrow> lock_state \<Rightarrow> lock_state option" where
  "settle n s = (if n < length (tickets s) \<and> phase_of (tickets s ! n) = Finished \<and>
       \<not> settled (tickets s ! n) \<and> promiseSettled s (previous (tickets s ! n))
     then Some (changeTicket n (\<lambda>t. t\<lparr>settled := True\<rparr>) s) else None)"

inductive lock_step :: "lock_state \<Rightarrow> lock_state \<Rightarrow> bool" where
  Call: "lock_step s (call key s)"
| Enter: "enter n s = Some s' \<Longrightarrow> lock_step s s'"
| Finish: "finish n s = Some s' \<Longrightarrow> lock_step s s'"
| Settle: "settle n s = Some s' \<Longrightarrow> lock_step s s'"

inductive lock_reachable :: "lock_state \<Rightarrow> bool" where
  Start: "lock_reachable noCalls"
| Step: "lock_reachable s \<Longrightarrow> lock_step s s' \<Longrightarrow> lock_reachable s'"

inductive_cases lock_stepE: "lock_step s s'"

subsection \<open>The invariant\<close>

text \<open>Tickets of the same key before a ticket, all of which have finished.\<close>

definition earlier :: "lock_state \<Rightarrow> nat \<Rightarrow> nat set" where
  "earlier s n = {a. a < n \<and> ticket_key (tickets s ! a) = ticket_key (tickets s ! n)}"

definition finished :: "lock_state \<Rightarrow> nat \<Rightarrow> bool" where
  "finished s a \<longleftrightarrow> phase_of (tickets s ! a) = Finished"

definition ticketOk :: "lock_state \<Rightarrow> nat \<Rightarrow> bool" where
  "ticketOk s n \<longleftrightarrow>
     (case previous (tickets s ! n) of
        None \<Rightarrow> \<forall>a\<in>earlier s n. finished s a
      | Some m \<Rightarrow> m \<in> earlier s n \<and> (\<forall>a\<in>earlier s n. a \<le> m)) \<and>
     (settled (tickets s ! n) \<longrightarrow> finished s n) \<and>
     (phase_of (tickets s ! n) \<noteq> Waiting \<longrightarrow> (\<forall>a\<in>earlier s n. finished s a)) \<and>
     (\<not> finished s n \<longrightarrow> (\<exists>t. tails s (ticket_key (tickets s ! n)) = Some t))"

definition tailOk :: "lock_state \<Rightarrow> string \<Rightarrow> bool" where
  "tailOk s key \<longleftrightarrow> (case tails s key of None \<Rightarrow> True
     | Some t \<Rightarrow> t < length (tickets s) \<and> ticket_key (tickets s ! t) = key \<and> \<not> finished s t \<and>
         (\<forall>a < length (tickets s). ticket_key (tickets s ! a) = key \<longrightarrow> a \<le> t))"

definition lockOk :: "lock_state \<Rightarrow> bool" where
  "lockOk s \<longleftrightarrow> (\<forall>n < length (tickets s). ticketOk s n) \<and> (\<forall>key. tailOk s key)"


lemma ticketOkD:
  assumes "lockOk s" "n < length (tickets s)"
  shows "previous (tickets s ! n) = None \<Longrightarrow> a \<in> earlier s n \<Longrightarrow> finished s a"
    and "previous (tickets s ! n) = Some m \<Longrightarrow> m \<in> earlier s n"
    and "previous (tickets s ! n) = Some m \<Longrightarrow> a \<in> earlier s n \<Longrightarrow> a \<le> m"
    and "settled (tickets s ! n) \<Longrightarrow> finished s n"
    and "phase_of (tickets s ! n) \<noteq> Waiting \<Longrightarrow> a \<in> earlier s n \<Longrightarrow> finished s a"
    and "\<not> finished s n \<Longrightarrow> \<exists>t. tails s (ticket_key (tickets s ! n)) = Some t"
  using assms by (auto simp: lockOk_def ticketOk_def)

lemma tailOkD:
  assumes "lockOk s" "tails s key = Some t"
  shows "t < length (tickets s)" "ticket_key (tickets s ! t) = key" "\<not> finished s t"
    "a < length (tickets s) \<Longrightarrow> ticket_key (tickets s ! a) = key \<Longrightarrow> a \<le> t"
  using assms by (auto simp: lockOk_def tailOk_def dest!: spec [of _ key])

lemma earlier_less: "a \<in> earlier s n \<Longrightarrow> a < n"
  by (simp add: earlier_def)

lemma call_earlier: "n < length (tickets s) \<Longrightarrow> earlier (call key s) n = earlier s n"
  by (auto simp: earlier_def call_def nth_append)

lemma call_earlier_new:
  "earlier (call key s) (length (tickets s)) = {a. a < length (tickets s) \<and> ticket_key (tickets s ! a) = key}"
  by (auto simp: earlier_def call_def nth_append)

lemma call_finished: "n < length (tickets s) \<Longrightarrow> finished (call key s) n = finished s n"
  by (simp add: finished_def call_def nth_append)

lemma call_ticket: "n < length (tickets s) \<Longrightarrow> tickets (call key s) ! n = tickets s ! n"
  by (simp add: call_def nth_append)

lemma call_tails: "tails (call key s) k = (if k = key then Some (length (tickets s)) else tails s k)"
  by (simp add: call_def)

lemma call_lockOk:
  assumes ok: "lockOk s"
  shows "lockOk (call key s)"
  unfolding lockOk_def
proof (intro conjI allI impI)
  fix n assume n: "n < length (tickets (call key s))"
  show "ticketOk (call key s) n"
  proof (cases "n < length (tickets s)")
    case True
    have f: "finished (call key s) a = finished s a" if "a \<in> earlier s n" for a
      using that True by (auto simp: call_finished earlier_def)
    have "ticketOk s n" using ok True by (simp add: lockOk_def)
    then show ?thesis using f
      by (auto simp: ticketOk_def call_earlier True call_ticket call_finished call_tails split: option.splits)
  next
    case False
    then have n: "n = length (tickets s)" using n by (simp add: call_def)
    have new: "tickets (call key s) ! n = \<lparr>ticket_key = key, previous = tails s key, phase_of = Waiting, settled = False\<rparr>"
      by (simp add: n call_def)
    show ?thesis
    proof (cases "tails s key")
      case None
      then have "finished s a" if "a < length (tickets s)" "ticket_key (tickets s ! a) = key" for a
        using ticketOkD(6) [OF ok that(1)] that(2) by auto
      then show ?thesis using None new
        by (auto simp: ticketOk_def n call_earlier_new call_finished) (simp add: call_def)
    next
      case (Some t)
      then show ?thesis using tailOkD [OF ok Some] new
        by (auto simp: ticketOk_def n call_earlier_new call_finished) (simp add: call_def)
    qed
  qed
next
  fix k
  show "tailOk (call key s) k"
  proof (cases "k = key")
    case True
    then show ?thesis by (auto simp: tailOk_def call_def finished_def nth_append)
  next
    case False
    then show ?thesis using ok
      by (auto simp: lockOk_def tailOk_def call_def finished_def nth_append split: option.splits dest!: spec [of _ k])
  qed
qed

text \<open>A change of a ticket that keeps its key and what it waits for, and un-finishes nothing.\<close>

lemma change_ticket:
  "n < length (tickets s) \<Longrightarrow>
   tickets (changeTicket n c s) ! a = (if a = n then c (tickets s ! n) else tickets s ! a)"
  by (simp add: changeTicket_def nth_list_update)

lemma change_length [simp]: "length (tickets (changeTicket n c s)) = length (tickets s)"
  "tails (changeTicket n c s) = tails s"
  by (simp_all add: changeTicket_def)

lemma change_earlier:
  assumes "n < length (tickets s)" "\<And>t. ticket_key (c t) = ticket_key t"
  shows "earlier (changeTicket n c s) a = earlier s a"
  using assms by (auto simp: earlier_def change_ticket)

lemma change_lockOk:
  fixes s :: lock_state
  assumes ok: "lockOk s" and n: "n < length (tickets s)"
    and c: "\<And>t. ticket_key (c t) = ticket_key t" "\<And>t. previous (c t) = previous t"
    and settled: "settled (c (tickets s ! n)) \<Longrightarrow> finished s n"
    and phase: "phase_of (c (tickets s ! n)) \<noteq> Waiting \<Longrightarrow> \<forall>a\<in>earlier s n. finished s a"
    and keeps: "phase_of (c (tickets s ! n)) = Finished \<longleftrightarrow> finished s n"
  shows "lockOk (changeTicket n c s)"
proof -
  let ?s = "changeTicket n c s"
  have tk: "tickets ?s ! a = (if a = n then c (tickets s ! n) else tickets s ! a)" for a
    by (rule change_ticket [OF n])
  have f: "finished ?s a = finished s a" for a
    using keeps by (simp add: finished_def tk)
  have e: "earlier ?s a = earlier s a" for a by (rule change_earlier) (use n c in auto)
  have key: "ticket_key (tickets ?s ! a) = ticket_key (tickets s ! a)"
    and previous: "previous (tickets ?s ! a) = previous (tickets s ! a)" for a
    by (simp_all add: tk c)
  have "ticketOk ?s a" if a: "a < length (tickets s)" for a
  proof -
    have t: "ticketOk s a" using ok a by (simp add: lockOk_def)
    show ?thesis
    proof (cases "a = n")
      case True
      then show ?thesis using t settled phase
        unfolding ticketOk_def f e key previous change_length by (auto simp: tk)
    next
      case False
      then show ?thesis using t unfolding ticketOk_def f e key previous change_length by (simp add: tk)
    qed
  qed
  moreover have "tailOk ?s k" for k
  proof -
    have "tailOk s k" using ok by (simp add: lockOk_def)
    then show ?thesis unfolding tailOk_def f key change_length .
  qed
  ultimately show ?thesis by (simp add: lockOk_def)
qed

lemma enter_lockOk:
  assumes ok: "lockOk s" and "enter n s = Some s'"
  shows "lockOk s'"
proof -
  have n: "n < length (tickets s)" "phase_of (tickets s ! n) = Waiting" "promiseSettled s (previous (tickets s ! n))"
    and s': "s' = changeTicket n (\<lambda>t. t\<lparr>phase_of := Running\<rparr>) s"
    using assms(2) by (auto simp: enter_def split: if_splits)
  have "\<forall>a\<in>earlier s n. finished s a"
  proof
    fix a assume a: "a \<in> earlier s n"
    show "finished s a"
    proof (cases "previous (tickets s ! n)")
      case None
      then show ?thesis using ticketOkD(1) [OF ok n(1)] a by simp
    next
      case (Some m)
      then have m: "m \<in> earlier s n" "a \<le> m" "settled (tickets s ! m)" "m < length (tickets s)"
        using ticketOkD(2,3) [OF ok n(1)] a n by (auto simp: promiseSettled_def earlier_def)
      then have fm: "finished s m" using ticketOkD(4) [OF ok] by simp
      then have "phase_of (tickets s ! m) \<noteq> Waiting" by (simp add: finished_def)
      moreover have "a = m \<or> a \<in> earlier s m" using m a by (auto simp: earlier_def)
      ultimately show ?thesis using ticketOkD(5) [OF ok m(4)] fm by blast
    qed
  qed
  then show ?thesis unfolding s'
    using n ticketOkD(4) [OF ok n(1)] by (intro change_lockOk) (auto simp: ok finished_def)
qed

lemma settle_lockOk:
  assumes ok: "lockOk s" and "settle n s = Some s'"
  shows "lockOk s'"
proof -
  have n: "n < length (tickets s)" "phase_of (tickets s ! n) = Finished"
    and s': "s' = changeTicket n (\<lambda>t. t\<lparr>settled := True\<rparr>) s"
    using assms(2) by (auto simp: settle_def split: if_splits)
  show ?thesis unfolding s'
    using n ticketOkD(5) [OF ok n(1)] by (intro change_lockOk) (auto simp: ok finished_def)
qed

lemma finish_lockOk:
  assumes ok: "lockOk s" and "finish n s = Some s'"
  shows "lockOk s'"
proof -
  let ?key = "ticket_key (tickets s ! n)" and ?c = "changeTicket n (\<lambda>t. t\<lparr>phase_of := Finished\<rparr>) s"
  have n: "n < length (tickets s)" "phase_of (tickets s ! n) = Running"
    and s': "s' = (if tails s ?key = Some n then ?c\<lparr>tails := (tails s)(?key := None)\<rparr> else ?c)"
    using assms(2) by (auto simp: finish_def Let_def split: if_splits)
  have tk: "tickets s' ! a = (if a = n then (tickets s ! n)\<lparr>phase_of := Finished\<rparr> else tickets s ! a)" for a
    using n by (simp add: s' change_ticket)
  have tl: "tails s' = (if tails s ?key = Some n then (tails s)(?key := None) else tails s)" by (simp add: s')
  have l: "length (tickets s') = length (tickets s)" by (simp add: s')
  have e: "earlier s' a = earlier s a" for a
    using change_earlier [OF n(1), of "\<lambda>t. t\<lparr>phase_of := Finished\<rparr>" a] by (simp add: s' earlier_def)
  have f: "finished s' a \<longleftrightarrow> a = n \<or> finished s a" for a by (simp add: finished_def tk)
  have en: "\<forall>a\<in>earlier s n. finished s a" using ticketOkD(5) [OF ok n(1)] n(2) by simp
  have alone: "finished s a \<or> a = n" if "tails s ?key = Some n" "a < length (tickets s)" "ticket_key (tickets s ! a) = ?key" for a
    using tailOkD(4) [OF ok that(1) that(2,3)] en that by (cases "a = n") (auto simp: earlier_def)
  have "ticketOk s' a" if a: "a < length (tickets s)" for a
  proof -
    have ta: "ticketOk s a" using ok a by (simp add: lockOk_def)
    have "\<exists>t. tails s' (ticket_key (tickets s' ! a)) = Some t" if "\<not> finished s' a"
    proof -
      have "\<exists>t. tails s (ticket_key (tickets s ! a)) = Some t" "a \<noteq> n" "\<not> finished s a"
        using ta that f by (auto simp: ticketOk_def)
      then show ?thesis using alone [OF _ a] by (auto simp: tl tk)
    qed
    then show ?thesis using ta en
      by (auto simp: ticketOk_def e f tk finished_def [of s'] split: option.splits)
  qed
  moreover have "tailOk s' k" for k
  proof -
    have k: "tailOk s k" using ok by (simp add: lockOk_def)
    show ?thesis
    proof (cases "tails s ?key = Some n \<and> k = ?key")
      case True
      then show ?thesis by (simp add: s' tailOk_def)
    next
      case False
      then have t: "tails s' k = tails s k" by (auto simp: s')
      have "t \<noteq> n" if "tails s k = Some t" for t
        using that False tailOkD(2) [OF ok that] by auto
      then show ?thesis using k by (auto simp: tailOk_def t l f tk split: option.splits)
    qed
  qed
  ultimately show ?thesis by (simp add: lockOk_def l)
qed

lemma step_lockOk: "lock_step s s' \<Longrightarrow> lockOk s \<Longrightarrow> lockOk s'"
  by (induction rule: lock_step.induct) (auto intro: call_lockOk enter_lockOk finish_lockOk settle_lockOk)

lemma noCalls_lockOk: "lockOk noCalls"
  by (simp add: lockOk_def tailOk_def noCalls_def)

lemma reachable_lockOk: "lock_reachable s \<Longrightarrow> lockOk s"
  by (induction rule: lock_reachable.induct) (auto intro: step_lockOk noCalls_lockOk)


subsection \<open>What the lock promises\<close>

text \<open>
  Property C9. The tasks of an issuer run one at a time and in the order of their calls: when
  one runs, every earlier call for the same issuer has finished and no later one has started.
\<close>

theorem lock_is_exclusive:
  assumes "lock_reachable s" "n < length (tickets s)" "m < length (tickets s)" "n \<noteq> m"
    and "ticket_key (tickets s ! n) = ticket_key (tickets s ! m)" "phase_of (tickets s ! n) = Running"
  shows "phase_of (tickets s ! m) = (if m < n then Finished else Waiting)"
proof -
  have ok: "lockOk s" using assms(1) by (rule reachable_lockOk)
  show ?thesis
  proof (cases "m < n")
    case True
    then show ?thesis using ticketOkD(5) [OF ok assms(2), of m] assms by (simp add: earlier_def finished_def)
  next
    case False
    then show ?thesis using ticketOkD(5) [OF ok assms(3), of n] assms
      by (auto simp: earlier_def finished_def)
  qed
qed

text \<open>Two calls for the same issuer, the first of which runs.\<close>

definition twoCalls :: lock_state where
  "twoCalls = the (enter 0 (call ''i'' (call ''i'' noCalls)))"

lemma twoCalls_reachable: "lock_reachable twoCalls"
proof -
  have "lock_reachable (call ''i'' (call ''i'' noCalls))"
    by (intro Step [OF _ Call] Start)
  moreover have "enter 0 (call ''i'' (call ''i'' noCalls)) = Some twoCalls"
    by (simp add: twoCalls_def enter_def call_def noCalls_def promiseSettled_def)
  ultimately show ?thesis by (blast intro: Step Enter)
qed

lemma twoCalls_tickets:
  "tickets twoCalls = [\<lparr>ticket_key = ''i'', previous = None, phase_of = Running, settled = False\<rparr>,
     \<lparr>ticket_key = ''i'', previous = Some 0, phase_of = Waiting, settled = False\<rparr>]"
  by (simp add: twoCalls_def enter_def call_def noCalls_def promiseSettled_def changeTicket_def)

theorem lock_is_exclusive_witness:
  "lock_reachable twoCalls \<and> phase_of (tickets twoCalls ! 1) = Waiting"
  using lock_is_exclusive [OF twoCalls_reachable, of 0 1] twoCalls_reachable
  by (simp add: twoCalls_tickets)

text \<open>The calls for a key that have not finished.\<close>

definition pendingCalls :: "lock_state \<Rightarrow> string \<Rightarrow> nat set" where
  "pendingCalls s key = {n. n < length (tickets s) \<and> ticket_key (tickets s ! n) = key \<and> \<not> finished s n}"

definition canMove :: "lock_state \<Rightarrow> string \<Rightarrow> bool" where
  "canMove s key \<longleftrightarrow> (\<exists>n < length (tickets s). ticket_key (tickets s ! n) = key \<and>
     (enter n s \<noteq> None \<or> finish n s \<noteq> None \<or> settle n s \<noteq> None))"

lemma settle_enabled:
  assumes ok: "lockOk s" and m: "m < length (tickets s)" "finished s m" "\<not> settled (tickets s ! m)"
  shows "\<exists>k. k < length (tickets s) \<and> ticket_key (tickets s ! k) = ticket_key (tickets s ! m) \<and> settle k s \<noteq> None"
  using m
proof (induction m rule: less_induct)
  case (less m)
  show ?case
  proof (cases "promiseSettled s (previous (tickets s ! m))")
    case True
    then have "settle m s \<noteq> None" using less.prems by (simp add: settle_def finished_def)
    then show ?thesis using less.prems by blast
  next
    case False
    then obtain k where k: "previous (tickets s ! m) = Some k" "\<not> settled (tickets s ! k)"
      by (auto simp: promiseSettled_def split: option.splits)
    then have e: "k \<in> earlier s m" using ticketOkD(2) [OF ok less.prems(1)] by simp
    then have "finished s k" using ticketOkD(5) [OF ok less.prems(1)] less.prems(2) by (simp add: finished_def)
    then show ?thesis using less.IH [of k] e k less.prems(1) by (auto simp: earlier_def)
  qed
qed

text \<open>
  Property C14. The lock never blocks and never leaks: while a call for an issuer has not
  finished, one of its calls can take a step (start, end, or let its promise settle), and the
  map keeps an entry for an issuer exactly while it has calls that have not finished.
\<close>

theorem lock_progress:
  assumes "lock_reachable s"
  shows "(pendingCalls s key = {} \<or> canMove s key) \<and> (tails s key = None \<longleftrightarrow> pendingCalls s key = {})"
proof -
  have ok: "lockOk s" using assms by (rule reachable_lockOk)
  have move: "canMove s key" if "pendingCalls s key \<noteq> {}"
  proof -
    define n where "n = (LEAST n. n \<in> pendingCalls s key)"
    have n: "n \<in> pendingCalls s key" using that LeastI_ex [of "\<lambda>n. n \<in> pendingCalls s key"] unfolding n_def by blast
    have least: "finished s a" if "a \<in> earlier s n" for a
    proof (rule ccontr)
      assume "\<not> finished s a"
      then have "a \<in> pendingCalls s key" using that n by (auto simp: pendingCalls_def earlier_def)
      then have "n \<le> a" unfolding n_def by (rule Least_le)
      then show False using that by (simp add: earlier_def)
    qed
    have b: "n < length (tickets s)" "ticket_key (tickets s ! n) = key" "\<not> finished s n"
      using n by (auto simp: pendingCalls_def)
    show ?thesis
    proof (cases "phase_of (tickets s ! n)")
      case Running
      then have "finish n s \<noteq> None" using b by (simp add: finish_def Let_def)
      then show ?thesis using b by (auto simp: canMove_def)
    next
      case Waiting
      show ?thesis
      proof (cases "promiseSettled s (previous (tickets s ! n))")
        case True
        then have "enter n s \<noteq> None" using b Waiting by (simp add: enter_def)
        then show ?thesis using b by (auto simp: canMove_def)
      next
        case False
        then obtain m where m: "previous (tickets s ! n) = Some m" "\<not> settled (tickets s ! m)"
          by (auto simp: promiseSettled_def split: option.splits)
        then have e: "m \<in> earlier s n" using ticketOkD(2) [OF ok b(1)] by simp
        then show ?thesis using settle_enabled [OF ok, of m] least [OF e] m b
          by (auto simp: earlier_def canMove_def)
      qed
    next
      case Finished
      then show ?thesis using b by (simp add: finished_def)
    qed
  qed
  have tail: "tails s key = None \<longleftrightarrow> pendingCalls s key = {}"
  proof
    assume "tails s key = None"
    then show "pendingCalls s key = {}"
      using ticketOkD(6) [OF ok] by (fastforce simp: pendingCalls_def)
  next
    assume "pendingCalls s key = {}"
    then show "tails s key = None"
      using tailOkD(1-3) [OF ok] by (cases "tails s key") (fastforce simp: pendingCalls_def)+
  qed
  show ?thesis using move tail by blast
qed

theorem lock_progress_witness:
  "canMove twoCalls ''i'' \<and> tails twoCalls ''i'' \<noteq> None"
proof -
  have "0 \<in> pendingCalls twoCalls ''i''" by (simp add: pendingCalls_def twoCalls_tickets finished_def)
  then show ?thesis using lock_progress [OF twoCalls_reachable, of "''i''"] by auto
qed

end
