(* ===== verification/JsMap.thy ===== *)
theory JsMap
  imports Prelude
begin

text \<open>
  A JavaScript \<open>Map\<close>: entries in the order of insertion; setting a key that is there
  changes its value in place.
\<close>

type_synonym ('k, 'v) jsmap = "('k \<times> 'v) list"

fun mapSet :: "'k \<Rightarrow> 'v \<Rightarrow> ('k, 'v) jsmap \<Rightarrow> ('k, 'v) jsmap" where
  "mapSet k v [] = [(k, v)]"
| "mapSet k v ((k', v') # m) = (if k = k' then (k, v) # m else (k', v') # mapSet k v m)"

definition mapGet :: "('k, 'v) jsmap \<Rightarrow> 'k \<Rightarrow> 'v option" where
  "mapGet m k = map_of m k"

definition mapDelete :: "'k \<Rightarrow> ('k, 'v) jsmap \<Rightarrow> ('k, 'v) jsmap" where
  "mapDelete k m = filter (\<lambda>(k', v). k' \<noteq> k) m"

text \<open>\<open>Object.fromEntries\<close> and \<open>new Map\<close> of a list: the last entry of a key wins.\<close>

definition mapOfEntries :: "('k \<times> 'v) list \<Rightarrow> ('k, 'v) jsmap" where
  "mapOfEntries entries = foldl (\<lambda>m (k, v). mapSet k v m) [] entries"

lemma mapGet_Nil [simp]: "mapGet [] k = None"
  by (simp add: mapGet_def)

lemma mapGet_mapSet [simp]: "mapGet (mapSet k v m) k' = (if k' = k then Some v else mapGet m k')"
  by (induction m) (auto simp: mapGet_def)

lemma mapGet_mapDelete [simp]: "mapGet (mapDelete k m) k' = (if k' = k then None else mapGet m k')"
  by (induction m) (auto simp: mapGet_def mapDelete_def)

lemma keys_mapSet: "fst ` set (mapSet k v m) = insert k (fst ` set m)"
  by (induction k v m rule: mapSet.induct) (simp_all add: insert_commute)

lemma distinct_mapSet: "distinct (map fst m) \<Longrightarrow> distinct (map fst (mapSet k v m))"
proof (induction m)
  case (Cons e m)
  then show ?case using keys_mapSet [of k v m] by (cases e) (auto simp: image_iff)
qed simp

lemma mapGet_filter:
  "distinct (map fst m) \<Longrightarrow>
   mapGet (filter (\<lambda>(k, v). P k v) m) k = (case mapGet m k of None \<Rightarrow> None | Some v \<Rightarrow> if P k v then Some v else None)"
proof (induction m)
  case (Cons e m)
  have "mapGet m (fst e) = None" using Cons.prems by (simp add: mapGet_def map_of_eq_None_iff)
  then show ?case using Cons by (cases e) (auto simp: mapGet_def split: option.splits)
qed (simp add: mapGet_def)

lemma distinct_filter: "distinct (map fst m) \<Longrightarrow> distinct (map fst (filter P m))"
  by (induction m) auto

end
