(* ===== verification/RateLimit.thy ===== *)
theory RateLimit
  imports JsMap JsNumberText
begin

text \<open>
  The fixed-window limiter (\<open>common/fixed-window-limiter.ts\<close>) and the guards that use it
  (\<open>service-auth/rate-limit.guard.ts\<close>, \<open>auth/auth-rate-limit.guards.ts\<close>).
\<close>

definition MAX_TRACKED_KEYS :: nat where
  "MAX_TRACKED_KEYS = 10000"

record window =
  window_count :: int
  resetAt :: int

record limiter =
  maxRequests :: int
  windowMs :: int
  windows :: "(string, window) jsmap"

definition tooManyRequests :: "int \<Rightarrow> app_error" where
  "tooManyRequests retryAfterSeconds = TooManyRequests (intToString retryAfterSeconds)"

definition pruneExpiredWhenFull :: "int \<Rightarrow> limiter \<Rightarrow> limiter" where
  "pruneExpiredWhenFull t l =
     (if length (windows l) < MAX_TRACKED_KEYS then l
      else l\<lparr>windows := filter (\<lambda>(key, w). \<not> resetAt w \<le> t) (windows l)\<rparr>)"

definition secondsUp :: "int \<Rightarrow> int" where
  "secondsUp ms = - ((- ms) div 1000)"

definition consume_at :: "int \<Rightarrow> string \<Rightarrow> limiter \<Rightarrow> (app_error + unit) \<times> limiter" where
  "consume_at t key l =
     (case mapGet (windows l) key of
        Some w \<Rightarrow>
          if resetAt w \<le> t then
            (let l' = pruneExpiredWhenFull t l in
             (Inr (), l'\<lparr>windows := mapSet key \<lparr>window_count = 1, resetAt = t + windowMs l\<rparr> (windows l')\<rparr>))
          else if maxRequests l \<le> window_count w then (Inl (tooManyRequests (secondsUp (resetAt w - t))), l)
          else (Inr (), l\<lparr>windows := mapSet key (w\<lparr>window_count := window_count w + 1\<rparr>) (windows l)\<rparr>)
      | None \<Rightarrow>
          (let l' = pruneExpiredWhenFull t l in
           (Inr (), l'\<lparr>windows := mapSet key \<lparr>window_count = 1, resetAt = t + windowMs l\<rparr> (windows l')\<rparr>)))"

text \<open>The guards: one limiter each, the defaults of the configuration, and the key of a request.\<close>

definition newLimiter :: "int option \<Rightarrow> int \<Rightarrow> int option \<Rightarrow> int \<Rightarrow> limiter" where
  "newLimiter configuredMax defaultMax configuredWindow defaultWindow =
     \<lparr>maxRequests = orElse configuredMax defaultMax, windowMs = orElse configuredWindow defaultWindow, windows = []\<rparr>"

definition serviceLimiter :: "int option \<Rightarrow> int option \<Rightarrow> limiter" where
  "serviceLimiter configuredMax configuredWindow = newLimiter configuredMax 120 configuredWindow 60000"

definition serviceCanActivate :: "int \<Rightarrow> string option \<Rightarrow> limiter \<Rightarrow> (app_error + bool) \<times> limiter" where
  "serviceCanActivate t apiClientId l =
     (case apiClientId of
        Some i \<Rightarrow> if i \<noteq> '''' then bindA (consume_at t i) (\<lambda>_. returnA True) l else (Inr True, l)
      | None \<Rightarrow> (Inr True, l))"

definition FIFTEEN_MINUTES_MS :: int where
  "FIFTEEN_MINUTES_MS = 15 * 60000"

definition credentialsLimiter :: "int option \<Rightarrow> int option \<Rightarrow> limiter" where
  "credentialsLimiter configuredMax configuredWindow = newLimiter configuredMax 10 configuredWindow FIFTEEN_MINUTES_MS"

definition refreshLimiter :: "int option \<Rightarrow> int option \<Rightarrow> limiter" where
  "refreshLimiter configuredMax configuredWindow = newLimiter configuredMax 60 configuredWindow FIFTEEN_MINUTES_MS"

definition toLowerChar :: "char \<Rightarrow> char" where
  "toLowerChar c = (if of_char c \<in> {65..90::nat} then char_of (of_char c + 32 :: nat) else c)"

text \<open>The email of a body, \<open>None\<close> when the body has none or it is not a string.\<close>

definition normalizedEmail :: "string option \<Rightarrow> string option" where
  "normalizedEmail email = map_option (\<lambda>e. map toLowerChar (trim e)) email"

definition addressKey :: "string option \<Rightarrow> string" where
  "addressKey ip = ''ip:'' @ orElse ip ''unknown''"

definition credentialsCanActivate ::
  "int \<Rightarrow> string option \<Rightarrow> string option \<Rightarrow> limiter \<Rightarrow> (app_error + bool) \<times> limiter" where
  "credentialsCanActivate t email ip =
     bindA (consume_at t (case normalizedEmail email of None \<Rightarrow> addressKey ip | Some e \<Rightarrow> ''email:'' @ e))
       (\<lambda>_. returnA True)"

definition refreshCanActivate :: "int \<Rightarrow> string option \<Rightarrow> limiter \<Rightarrow> (app_error + bool) \<times> limiter" where
  "refreshCanActivate t ip = bindA (consume_at t (addressKey ip)) (\<lambda>_. returnA True)"

subsection \<open>How many calls a limiter lets through\<close>

text \<open>The times at which a sequence of calls was accepted for a key.\<close>

fun acceptedAt :: "string \<Rightarrow> (int \<times> string) list \<Rightarrow> limiter \<Rightarrow> int list" where
  "acceptedAt key [] l = []"
| "acceptedAt key ((t, k) # calls) l =
     (case consume_at t k l of
        (Inr _, l') \<Rightarrow> (if k = key then t # acceptedAt key calls l' else acceptedAt key calls l')
      | (Inl _, l') \<Rightarrow> acceptedAt key calls l')"

definition acceptedIn :: "int list \<Rightarrow> int \<Rightarrow> int \<Rightarrow> nat" where
  "acceptedIn ts a b = length (filter (\<lambda>t. a \<le> t \<and> t < b) ts)"


text \<open>
  What is known of a key after a history of accepted calls: its window has let through no more
  than it counted, and the span before the window no more than a full window.
\<close>

definition quota :: "limiter \<Rightarrow> nat" where
  "quota l = nat (max 1 (maxRequests l))"

definition idleAt :: "int list \<Rightarrow> int \<Rightarrow> limiter \<Rightarrow> bool" where
  "idleAt H t l \<longleftrightarrow> (\<forall>t'\<in>set H. t' < t) \<and> length (filter (\<lambda>t'. t - windowMs l < t') H) \<le> quota l"

definition windowHolds :: "int list \<Rightarrow> int \<Rightarrow> limiter \<Rightarrow> window \<Rightarrow> bool" where
  "windowHolds H t l w \<longleftrightarrow> (\<forall>t'\<in>set H. t' < resetAt w) \<and> resetAt w - windowMs l \<le> t \<and>
     int (length (filter (\<lambda>t'. resetAt w - windowMs l \<le> t') H)) \<le> window_count w \<and>
     window_count w \<le> int (quota l) \<and>
     length (filter (\<lambda>t'. resetAt w - 2 * windowMs l < t' \<and> t' < resetAt w - windowMs l) H) \<le> quota l"

definition keyOk :: "int list \<Rightarrow> int \<Rightarrow> limiter \<Rightarrow> window option \<Rightarrow> bool" where
  "keyOk H t l w = (case w of None \<Rightarrow> idleAt H t l | Some v \<Rightarrow> windowHolds H t l v)"

definition bounded :: "int list \<Rightarrow> limiter \<Rightarrow> bool" where
  "bounded H l \<longleftrightarrow> (\<forall>a. acceptedIn H a (a + windowMs l) \<le> 2 * quota l)"

lemma filter_le:
  "(\<And>x. x \<in> set xs \<Longrightarrow> P x \<Longrightarrow> Q x) \<Longrightarrow> length (filter P xs) \<le> length (filter Q xs)"
  by (induction xs) auto

lemma quota_pos: "1 \<le> quota l"
  by (simp add: quota_def)

lemma int_quota: "int (quota l) = max 1 (maxRequests l)"
  by (simp add: quota_def max_def)

lemma expired_idle:
  assumes "windowHolds H t0 l w" "resetAt w \<le> t"
  shows "idleAt H t l"
proof -
  have "length (filter (\<lambda>t'. t - windowMs l < t') H) \<le> length (filter (\<lambda>t'. resetAt w - windowMs l \<le> t') H)"
    by (rule filter_le) (use assms(2) in auto)
  then show ?thesis using assms by (auto simp: windowHolds_def idleAt_def)
qed

lemma keyOk_mono: "keyOk H t0 l w \<Longrightarrow> t0 \<le> t \<Longrightarrow> keyOk H t l w"
proof (cases w)
  case None
  assume "keyOk H t0 l w" "t0 \<le> t"
  moreover have "length (filter (\<lambda>t'. t - windowMs l < t') H) \<le> length (filter (\<lambda>t'. t0 - windowMs l < t') H)"
    by (rule filter_le) (use \<open>t0 \<le> t\<close> in auto)
  ultimately show ?thesis using None by (auto simp: keyOk_def idleAt_def)
qed (auto simp: keyOk_def windowHolds_def)

lemma prune_cases:
  assumes "distinct (map fst (windows l))"
  shows "mapGet (windows (pruneExpiredWhenFull t l)) key = mapGet (windows l) key \<or>
     (\<exists>w. mapGet (windows l) key = Some w \<and> resetAt w \<le> t \<and> mapGet (windows (pruneExpiredWhenFull t l)) key = None)"
  using mapGet_filter [OF assms, of "\<lambda>key w. \<not> resetAt w \<le> t" key]
  by (auto simp: pruneExpiredWhenFull_def split: option.splits)

lemma prune_same [simp]:
  "maxRequests (pruneExpiredWhenFull t l) = maxRequests l" "windowMs (pruneExpiredWhenFull t l) = windowMs l"
  by (simp_all add: pruneExpiredWhenFull_def)

lemma prune_distinct: "distinct (map fst (windows l)) \<Longrightarrow> distinct (map fst (windows (pruneExpiredWhenFull t l)))"
  by (simp add: pruneExpiredWhenFull_def distinct_filter)

lemma prune_keyOk:
  assumes "distinct (map fst (windows l))" "keyOk H t l (mapGet (windows l) key)"
  shows "keyOk H t l (mapGet (windows (pruneExpiredWhenFull t l)) key)"
  using prune_cases [OF assms(1), of t key] assms(2) expired_idle by (auto simp: keyOk_def)

text \<open>The first call of a window.\<close>

lemma first_call:
  assumes "idleAt H t l" "bounded H l" "0 < windowMs l"
  shows "windowHolds (H @ [t]) t l \<lparr>window_count = 1, resetAt = t + windowMs l\<rparr>" "bounded (H @ [t]) l"
proof -
  have n: "filter (\<lambda>t'. t \<le> t') H = []" using assms(1) by (auto simp: idleAt_def filter_empty_conv)
  have m: "length (filter (\<lambda>t'. t - windowMs l < t' \<and> t' < t) H) \<le> length (filter (\<lambda>t'. t - windowMs l < t') H)"
    by (rule filter_le) auto
  have e: "t + windowMs l - 2 * windowMs l = t - windowMs l" by simp
  show "windowHolds (H @ [t]) t l \<lparr>window_count = 1, resetAt = t + windowMs l\<rparr>"
    using assms n m quota_pos [of l] unfolding windowHolds_def idleAt_def
    by (auto simp: e)
  show "bounded (H @ [t]) l" unfolding bounded_def
  proof
    fix a
    show "acceptedIn (H @ [t]) a (a + windowMs l) \<le> 2 * quota l"
    proof (cases "a \<le> t \<and> t < a + windowMs l")
      case True
      have "acceptedIn H a (a + windowMs l) \<le> length (filter (\<lambda>t'. t - windowMs l < t') H)"
        unfolding acceptedIn_def by (rule filter_le) (use True in auto)
      then show ?thesis using assms(1) quota_pos [of l] True by (simp add: acceptedIn_def idleAt_def)
    next
      case False
      then have "acceptedIn (H @ [t]) a (a + windowMs l) = acceptedIn H a (a + windowMs l)"
        by (auto simp: acceptedIn_def)
      then show ?thesis using assms(2) by (simp add: bounded_def)
    qed
  qed
qed

text \<open>Another call of the window.\<close>

lemma next_call:
  assumes w: "windowHolds H t l w" and b: "bounded H l" and t: "t < resetAt w" and c: "window_count w < maxRequests l"
  shows "windowHolds (H @ [t]) t l (w\<lparr>window_count := window_count w + 1\<rparr>)" "bounded (H @ [t]) l"
proof -
  have q: "window_count w + 1 \<le> int (quota l)" using c by (simp add: int_quota)
  show "windowHolds (H @ [t]) t l (w\<lparr>window_count := window_count w + 1\<rparr>)"
    using w t q unfolding windowHolds_def by auto
  show "bounded (H @ [t]) l" unfolding bounded_def
  proof
    fix a
    show "acceptedIn (H @ [t]) a (a + windowMs l) \<le> 2 * quota l"
    proof (cases "a \<le> t \<and> t < a + windowMs l")
      case True
      let ?s = "resetAt w - windowMs l"
      have "acceptedIn H a (a + windowMs l) \<le> length (filter (\<lambda>t'. a \<le> t') H)"
        unfolding acceptedIn_def by (rule filter_le) auto
      also have "\<dots> = length (filter (\<lambda>t'. a \<le> t' \<and> t' < ?s) H) + length (filter (\<lambda>t'. a \<le> t' \<and> ?s \<le> t') H)"
        by (induction H) auto
      also have "length (filter (\<lambda>t'. a \<le> t' \<and> t' < ?s) H) \<le>
          length (filter (\<lambda>t'. resetAt w - 2 * windowMs l < t' \<and> t' < ?s) H)"
        by (rule filter_le) (use True w in \<open>auto simp: windowHolds_def\<close>)
      also have "length (filter (\<lambda>t'. a \<le> t' \<and> ?s \<le> t') H) \<le> length (filter (\<lambda>t'. ?s \<le> t') H)"
        by (rule filter_le) auto
      finally show ?thesis using w q True by (simp add: acceptedIn_def windowHolds_def)
    next
      case False
      then have "acceptedIn (H @ [t]) a (a + windowMs l) = acceptedIn H a (a + windowMs l)"
        by (auto simp: acceptedIn_def)
      then show ?thesis using b by (simp add: bounded_def)
    qed
  qed
qed

lemma sameQuota: "maxRequests l' = maxRequests l \<Longrightarrow> quota l' = quota l"
  by (simp add: quota_def)

lemma keyOk_cong:
  "maxRequests l' = maxRequests l \<Longrightarrow> windowMs l' = windowMs l \<Longrightarrow> keyOk H t l' w = keyOk H t l w"
  "maxRequests l' = maxRequests l \<Longrightarrow> windowMs l' = windowMs l \<Longrightarrow> bounded H l' = bounded H l"
  using sameQuota [of l' l]
  by (simp_all add: keyOk_def idleAt_def windowHolds_def bounded_def split: option.splits)

text \<open>A call keeps what is known, with the call added to the history when it is accepted for the key.\<close>

lemma consume_keyOk:
  assumes "consume_at t k l = (r, l')" "distinct (map fst (windows l))" "keyOk H t l (mapGet (windows l) key)"
    and "bounded H l" "0 < windowMs l"
  shows "maxRequests l' = maxRequests l \<and> windowMs l' = windowMs l \<and> distinct (map fst (windows l')) \<and>
    (let H' = (if k = key \<and> r = Inr () then H @ [t] else H) in
      keyOk H' t l (mapGet (windows l') key) \<and> bounded H' l)"
proof -
  let ?first = "(pruneExpiredWhenFull t l)\<lparr>windows := mapSet k \<lparr>window_count = 1, resetAt = t + windowMs l\<rparr>
      (windows (pruneExpiredWhenFull t l))\<rparr>"
  have first: ?thesis if e: "r = Inr ()" "l' = ?first" and i: "k = key \<Longrightarrow> idleAt H t l"
  proof (cases "k = key")
    case True
    then show ?thesis using e first_call [OF i [OF True] assms(4,5)] assms(2)
      by (simp add: keyOk_def distinct_mapSet prune_distinct)
  next
    case False
    then show ?thesis using e prune_keyOk [OF assms(2,3)] assms(2,4)
      by (simp add: distinct_mapSet prune_distinct)
  qed
  show ?thesis
  proof (cases "mapGet (windows l) k")
    case None
    have e: "r = Inr ()" "l' = ?first" using assms(1) None by (simp_all add: consume_at_def Let_def)
    have "idleAt H t l" if "k = key" using assms(3) None that by (simp add: keyOk_def)
    then show ?thesis by (rule first [OF e])
  next
    case (Some w)
    show ?thesis
    proof (cases "resetAt w \<le> t")
      case True
      have e: "r = Inr ()" "l' = ?first" using assms(1) Some True by (simp_all add: consume_at_def Let_def)
      have "idleAt H t l" if "k = key"
        using assms(3) Some that expired_idle [OF _ True] by (simp add: keyOk_def)
      then show ?thesis by (rule first [OF e])
    next
      case False
      show ?thesis
      proof (cases "maxRequests l \<le> window_count w")
        case True
        then have "r \<noteq> Inr ()" "l' = l" using assms(1) False Some by (auto simp: consume_at_def)
        then show ?thesis using assms by simp
      next
        case c: False
        then have l': "r = Inr ()" "l' = l\<lparr>windows := mapSet k (w\<lparr>window_count := window_count w + 1\<rparr>) (windows l)\<rparr>"
          using assms(1) False Some by (auto simp: consume_at_def)
        show ?thesis
        proof (cases "k = key")
          case True
          then have "windowHolds H t l w" using assms(3) Some by (simp add: keyOk_def)
          then show ?thesis using l' True assms(2) next_call [of H t l w] assms(4) False c
            by (simp add: keyOk_def distinct_mapSet)
        next
          case False
          then show ?thesis using l' assms(2-4) by (simp add: distinct_mapSet)
        qed
      qed
    qed
  qed
qed

lemma accepted_bounded:
  assumes "sorted (map fst calls)" "distinct (map fst (windows l))"
    and "calls = [] \<or> keyOk H (fst (hd calls)) l (mapGet (windows l) key)" "bounded H l" "0 < windowMs l"
  shows "bounded (H @ acceptedAt key calls l) l"
  using assms
proof (induction calls arbitrary: H l)
  case (Cons c calls)
  obtain t k where c: "c = (t, k)" by (cases c)
  obtain r l' where r: "consume_at t k l = (r, l')" by (cases "consume_at t k l")
  let ?H = "if k = key \<and> r = Inr () then H @ [t] else H"
  have k: "maxRequests l' = maxRequests l" "windowMs l' = windowMs l" "distinct (map fst (windows l'))"
    "keyOk ?H t l (mapGet (windows l') key)" "bounded ?H l"
    using consume_keyOk [OF r Cons.prems(2), of H key] Cons.prems(3-5) c by (auto simp: Let_def)
  have "calls = [] \<or> keyOk ?H (fst (hd calls)) l' (mapGet (windows l') key)"
    using keyOk_mono [OF k(4), of "fst (hd calls)"] Cons.prems(1) c keyOk_cong(1) [OF k(1,2)]
    by (cases calls) auto
  then have "bounded (?H @ acceptedAt key calls l') l'"
    using Cons.IH [of l' ?H] Cons.prems(1,5) k keyOk_cong(2) [OF k(1,2)] by simp
  moreover have "?H @ acceptedAt key calls l' = H @ acceptedAt key (c # calls) l"
    using r c by (cases r) auto
  ultimately show ?case using keyOk_cong(2) [OF k(1,2)] by simp
qed simp



end
