(* ===== verification/ApiKeys.thy ===== *)
theory ApiKeys
  imports Samples Access JsJson
begin

text \<open>
  API keys (\<open>service-auth/api-key.service.ts\<close>), the authentication of a client by its key
  (\<open>ApiClientService.authenticate\<close>) and the guard of the service routes
  (\<open>service-auth/service-auth.guard.ts\<close>). The hash \<open>scryptSync\<close> of
  \<open>node:crypto\<close> and the random salt are parameters.
\<close>

subsection \<open>Base64 of bytes, and back\<close>

lemma base64_alphabet:
  "map base64Value base64Alphabet = map Some [0..<64]" "CHR ''='' \<notin> set base64Alphabet"
  "CHR ''$'' \<notin> set base64Alphabet" "length base64Alphabet = 64"
  by (simp_all add: base64Alphabet_def base64Value_def upt_conv_Cons Let_def)

lemma base64_char:
  assumes "n < 64"
  shows "base64Value (base64Char n) = Some n" "base64Char n \<noteq> CHR ''=''" "base64Char n \<in> set base64Alphabet"
proof -
  have "map base64Value base64Alphabet ! n = map Some [0..<64] ! n" by (simp only: base64_alphabet)
  then show "base64Value (base64Char n) = Some n"
    using assms by (simp add: base64_alphabet(4) base64Char_def del: upt_Suc)
  show "base64Char n \<in> set base64Alphabet" using assms by (simp add: base64Char_def base64_alphabet(4))
  then show "base64Char n \<noteq> CHR ''=''" using base64_alphabet(2) by metis
qed

lemma base64_parts:
  fixes a :: nat
  assumes "a < 256"
  shows "a div 4 < 64" "a div 16 < 16" "a div 64 < 4" "a div 16 div 16 = 0" "a div 16 mod 16 * 16 + a mod 16 = a"
    "a div 64 div 4 = 0" "a div 64 mod 4 * 64 + a mod 64 = a" "a div 4 * 4 + a mod 4 = a"
proof -
  show l: "a div 4 < 64" "a div 16 < 16" "a div 64 < 4" using assms by auto
  show "a div 16 div 16 = 0" "a div 64 div 4 = 0" using l by simp_all
  show "a div 16 mod 16 * 16 + a mod 16 = a" "a div 64 mod 4 * 64 + a mod 64 = a" "a div 4 * 4 + a mod 4 = a"
    using l by (simp_all only: mod_less div_mult_mod_eq)
qed

lemma base64_decode:
  "\<forall>b\<in>set bs. b < 256 \<Longrightarrow> base64Decode (base64 bs) = bs"
proof (induction bs rule: base64.induct)
  case (2 a)
  then show ?case using base64_parts [of a] by (simp add: base64Decode_def base64_char List.map_filter_simps)
next
  case (3 a b)
  then have "a div 4 < 64" "a mod 4 * 16 + b div 16 < 64" "b mod 16 * 4 < 64" by auto
  then show ?case using 3 base64_parts [of a] base64_parts [of b]
    by (simp add: base64Decode_def base64_char List.map_filter_simps)
next
  case (4 a b c r)
  then have "a div 4 < 64" "a mod 4 * 16 + b div 16 < 64" "b mod 16 * 4 + c div 64 < 64" "c mod 64 < 64" by auto
  then have "base64Decode (base64 (a # b # c # r)) =
      sextets (a div 4 # (a mod 4 * 16 + b div 16) # (b mod 16 * 4 + c div 64) # c mod 64 #
        List.map_filter base64Value (takeWhile (\<lambda>c. c \<noteq> CHR ''='') (base64 r)))"
    by (simp add: base64Decode_def base64_char List.map_filter_simps)
  also have "\<dots> = a # b # c # base64Decode (base64 r)"
    using 4 base64_parts [of a] base64_parts [of b] base64_parts [of c] by (simp add: base64Decode_def)
  finally show ?case using 4 by simp
qed (simp_all add: base64Decode_def List.map_filter_simps)

lemma base64_charset: "\<forall>b\<in>set bs. b < 256 \<Longrightarrow> set (base64 bs) \<subseteq> insert (CHR ''='') (set base64Alphabet)"
proof (induction bs rule: base64.induct)
  case (4 a b c r)
  then have "a div 4 < 64" "a mod 4 * 16 + b div 16 < 64" "b mod 16 * 4 + c div 64 < 64" "c mod 64 < 64" by auto
  then show ?case using 4 by (simp add: base64_char(3))
next
  case (3 a b)
  then have "a div 4 < 64" "a mod 4 * 16 + b div 16 < 64" "b mod 16 * 4 < 64" by auto
  then show ?case by (simp add: base64_char(3))
next
  case (2 a)
  then have "a div 4 < 64" "a mod 4 * 16 < 64" by auto
  then show ?case by (simp add: base64_char(3))
qed simp

lemma base64_no_dollar: "\<forall>b\<in>set bs. b < 256 \<Longrightarrow> CHR ''$'' \<notin> set (base64 bs)"
  using base64_charset [of bs] base64_alphabet(3) by auto

subsection \<open>Keys\<close>

record ParsedApiKey =
  parsed_clientId :: string
  parsed_secret :: string

definition composeKey :: "string \<Rightarrow> string \<Rightarrow> string" where
  "composeKey clientId secret = clientId @ ''.'' @ secret"

definition indexOfChar :: "char \<Rightarrow> string \<Rightarrow> int" where
  "indexOfChar c s = (if c \<in> set s then int (length (takeWhile (\<lambda>d. d \<noteq> c) s)) else -1)"

definition parseKey :: "string \<Rightarrow> ParsedApiKey option" where
  "parseKey rawKey =
     (let separatorIndex = indexOfChar (CHR ''.'') rawKey in
      if separatorIndex \<le> 0 \<or> separatorIndex = int (length rawKey) - 1 then None
      else Some \<lparr>parsed_clientId = take (nat separatorIndex) rawKey,
                 parsed_secret = drop (nat separatorIndex + 1) rawKey\<rparr>)"

definition KEY_LENGTH :: nat where
  "KEY_LENGTH = 64"

type_synonym scrypt = "string \<Rightarrow> nat list \<Rightarrow> nat \<Rightarrow> nat list"

definition hashSecret :: "scrypt \<Rightarrow> nat list \<Rightarrow> string \<Rightarrow> string" where
  "hashSecret scryptSync salt secret =
     ''scrypt$'' @ base64 salt @ ''$'' @ base64 (scryptSync secret salt KEY_LENGTH)"

definition verifySecret :: "scrypt \<Rightarrow> string \<Rightarrow> string \<Rightarrow> bool" where
  "verifySecret scryptSync secret stored =
     (case splitOn (CHR ''$'') stored of
        [prefix, encodedSalt, encodedHash] \<Rightarrow>
          if prefix \<noteq> ''scrypt'' then False
          else (let salt = base64Decode encodedSalt; expected = base64Decode encodedHash;
                    actual = scryptSync secret salt (length expected) in
                length expected = length actual \<and> expected = actual)
      | _ \<Rightarrow> False)"

subsection \<open>Authentication\<close>

record AuthenticatedApiClient =
  client_id_of :: string
  client_name :: string

definition authenticate :: "'a ports \<Rightarrow> scrypt \<Rightarrow> string \<Rightarrow> ('a, AuthenticatedApiClient option) effect" where
  "authenticate p scryptSync rawKey =
     (case parseKey rawKey of
        None \<Rightarrow> returnA None
      | Some parsed \<Rightarrow>
          bindA (table p (getA (\<lambda>w. findRow (\<lambda>c. ac_id c = parsed_clientId parsed) (apiClients w)))) (\<lambda>found.
            case found of
              None \<Rightarrow> returnA None
            | Some c \<Rightarrow>
                if \<not> ac_active c then returnA None
                else if \<not> verifySecret scryptSync (parsed_secret parsed) (ac_keyHash c) then returnA None
                else returnA (Some \<lparr>client_id_of = ac_id c, client_name = ac_name c\<rparr>)))"

text \<open>
  \<open>extractKey\<close>: the headers \<open>x-api-key\<close> (\<open>None\<close> when it is missing or
  repeated) and \<open>authorization\<close>.
\<close>

definition extractKey :: "string option \<Rightarrow> string option \<Rightarrow> string option" where
  "extractKey apiKeyHeader authorization =
     (if hasText apiKeyHeader then apiKeyHeader
      else (case splitOn (CHR '' '') (orElse authorization '''') of
          scheme # token # _ \<Rightarrow> if scheme = ''Bearer'' \<and> token \<noteq> '''' then Some token else None
        | _ \<Rightarrow> None))"

definition serviceAuth ::
  "'a ports \<Rightarrow> scrypt \<Rightarrow> string option \<Rightarrow> string option \<Rightarrow> ('a, AuthenticatedApiClient) effect" where
  "serviceAuth p scryptSync apiKeyHeader authorization =
     (let rawKey = extractKey apiKeyHeader authorization in
      if \<not> hasText rawKey then throwA (Unauthorized ''Falta la API key del servicio.'')
      else bindA (authenticate p scryptSync (the rawKey)) (\<lambda>apiClient.
        case apiClient of
          None \<Rightarrow> throwA (Unauthorized (''API key inv'' @ [CHR 0xE1] @ ''lida.''))
        | Some c \<Rightarrow> returnA c))"

subsection \<open>Properties\<close>

lemma takeWhile_sep: "c \<notin> set xs \<Longrightarrow> takeWhile (\<lambda>d. d \<noteq> c) (xs @ c # ys) = xs"
  by (induction xs) auto

lemma parse_compose:
  assumes "clientId \<noteq> ''''" "CHR ''.'' \<notin> set clientId" "secret \<noteq> ''''"
  shows "parseKey (composeKey clientId secret) = Some \<lparr>parsed_clientId = clientId, parsed_secret = secret\<rparr>"
  using assms by (simp add: parseKey_def composeKey_def indexOfChar_def takeWhile_sep Let_def)

lemma parseKey_Some: "parseKey k = Some x \<Longrightarrow> k = composeKey (parsed_clientId x) (parsed_secret x)"
proof -
  assume p: "parseKey k = Some x"
  then have "CHR ''.'' \<in> set k" by (auto simp: parseKey_def indexOfChar_def Let_def split: if_splits)
  then obtain a b where k: "k = a @ CHR ''.'' # b" "CHR ''.'' \<notin> set a" by (meson split_list_first)
  then show ?thesis using p
    by (auto simp: parseKey_def indexOfChar_def Let_def takeWhile_sep composeKey_def split: if_splits)
qed

lemma verify_hash:
  assumes "\<forall>b\<in>set salt. b < 256" "\<forall>b\<in>set (scryptSync secret salt KEY_LENGTH). b < 256"
    and "length (scryptSync secret salt KEY_LENGTH) = KEY_LENGTH"
  shows "verifySecret scryptSync other (hashSecret scryptSync salt secret) \<longleftrightarrow>
     scryptSync other salt KEY_LENGTH = scryptSync secret salt KEY_LENGTH"
proof -
  have d: "CHR ''$'' \<notin> set (base64 salt)" "CHR ''$'' \<notin> set (base64 (scryptSync secret salt KEY_LENGTH))"
    using assms base64_no_dollar by auto
  have "hashSecret scryptSync salt secret = ''scrypt'' @ CHR ''$'' # base64 salt @ CHR ''$'' #
      base64 (scryptSync secret salt KEY_LENGTH)"
    by (simp add: hashSecret_def)
  then have "splitOn (CHR ''$'') (hashSecret scryptSync salt secret) =
      [''scrypt'', base64 salt, base64 (scryptSync secret salt KEY_LENGTH)]"
    using d by (simp add: splitOn_sep splitOn_none del: append.simps)
  then show ?thesis using assms by (auto simp: verifySecret_def base64_decode Let_def)
qed

text \<open>
  Property C10. A key composed of a client's identifier and a secret authenticates exactly that
  client, when it is active and the hash of the secret is the one stored for it: the stored
  hash of a secret accepts a secret exactly when both hash alike with its salt. The client
  identifiers have no dot (they are cuids), and the secret may have any.
\<close>

theorem key_authenticates:
  assumes "clientId \<noteq> ''''" "CHR ''.'' \<notin> set clientId" "other \<noteq> ''''"
    and "findRow (\<lambda>c. ac_id c = clientId) (apiClients w) = Some c" "ac_keyHash c = hashSecret scryptSync salt secret"
    and "\<forall>b\<in>set salt. b < 256" "\<forall>b\<in>set (scryptSync secret salt KEY_LENGTH). b < 256"
    and "length (scryptSync secret salt KEY_LENGTH) = KEY_LENGTH" "database p (outside w) = (None, s)"
  shows "authenticate p scryptSync (composeKey clientId other) w =
     (Inr (if ac_active c \<and> scryptSync other salt KEY_LENGTH = scryptSync secret salt KEY_LENGTH
           then Some \<lparr>client_id_of = clientId, client_name = ac_name c\<rparr> else None),
      w\<lparr>outside := s\<rparr>)"
proof -
  have "ac_id c = clientId" using assms(4) by (auto dest: findRow_Some)
  then show ?thesis
    using assms verify_hash [of salt scryptSync secret other, OF assms(6-8)]
    by (auto simp: authenticate_def parse_compose table_def bindA_def external_def reachDatabase_def getA_def returnA_def)
qed

text \<open>A toy hash: the bytes of the secret, padded to the length.\<close>

definition sampleScrypt :: scrypt where
  "sampleScrypt secret salt n = take n (bytesOf secret @ replicate n 0)"

lemma sampleScrypt_bytes: "\<forall>b\<in>set (sampleScrypt secret salt n). b < 256"
  by (auto simp: sampleScrypt_def bytesOf_def dest!: in_set_takeD)


definition sampleClient :: ApiClientRow where
  "sampleClient = \<lparr>ac_id = ''c1'', ac_name = ''erp'', ac_keyHash = hashSecret sampleScrypt [1, 2] ''s'', ac_active = True\<rparr>"

theorem key_authenticates_witness:
  "\<exists>w'. authenticate samplePorts sampleScrypt (composeKey ''c1'' ''s'') ((sampleWorld [] [] [])\<lparr>apiClients := [sampleClient]\<rparr>) =
     (Inr (Some \<lparr>client_id_of = ''c1'', client_name = ''erp''\<rparr>), w')"
  using key_authenticates [of "''c1''" "''s''" "(sampleWorld [] [] [])\<lparr>apiClients := [sampleClient]\<rparr>" sampleClient
      sampleScrypt "[1, 2]" "''s''" samplePorts "outside (sampleWorld [] [] [])"] sampleScrypt_bytes [of "''s''" "[1, 2]" KEY_LENGTH]
  by (simp add: findRow_def sampleClient_def sampleWorld_def samplePorts_def sampleScrypt_def KEY_LENGTH_def)

end
