(* ===== verification/CreditNoteDraft.thy ===== *)
theory CreditNoteDraft
  imports PendingVouchers AmountsBalance
begin

text \<open>
  The draft of the credit note that cancels a voucher, \<open>credit-note-draft.service.ts\<close>,
  with \<open>parseTaxTreatment\<close> of \<open>stored-tax-treatment.ts\<close>. The numbers of a
  stored voucher are those that \<open>Number\<close> gives for its decimal columns.
\<close>

record DraftSourceItem =
  src_description :: string
  src_quantity :: number
  src_unitPrice :: number
  src_ivaRate :: number
  src_taxTreatment :: string

record DraftSourceClient =
  src_clientDocType :: int
  src_clientDocNumber :: string
  src_clientLegalName :: "string option"

record CreditNoteSourceVoucher =
  src_issuerId :: string
  src_voucherType :: int
  src_status :: string
  src_concept :: int
  src_number :: int
  src_voucherDate :: js_date
  src_serviceFrom :: "js_date option"
  src_serviceTo :: "js_date option"
  src_currency :: string
  src_exchangeRate :: number
  src_qrData :: "string option"
  src_recipientDocType :: "int option"
  src_recipientDocNumber :: "string option"
  src_recipientName :: "string option"
  src_salesPoint :: int
  src_client :: "DraftSourceClient option"
  src_issuerCuit :: string
  src_items :: "DraftSourceItem list"

definition parseTaxTreatment :: "string \<Rightarrow> TaxTreatment" where
  "parseTaxTreatment stored =
     (if stored = ''EXEMPT'' then EXEMPT else if stored = ''UNTAXED'' then UNTAXED else TAXED)"

definition qrRecipientOf :: "CreditNoteSourceVoucher \<Rightarrow> QrRecipient option" where
  "qrRecipientOf v = (if hasText (src_qrData v) then recipientFromQr (the (src_qrData v)) else None)"

text \<open>\<open>a ?? b\<close> of two optional values.\<close>

definition orElseOption :: "'a option \<Rightarrow> 'a option \<Rightarrow> 'a option" where
  "orElseOption a b = (case a of None \<Rightarrow> b | Some x \<Rightarrow> Some x)"

text \<open>The document type is a number; one that a QR gives as NaN stays so (\<open>Some None\<close>).\<close>

definition documentTypeOf :: "CreditNoteSourceVoucher \<Rightarrow> QrRecipient option \<Rightarrow> number option option" where
  "documentTypeOf v fromQr =
     orElseOption (map_option (\<lambda>n. Some (of_int n))
         (orElseOption (src_recipientDocType v) (map_option src_clientDocType (src_client v))))
       (map_option qrDocType fromQr)"

definition documentNumberOf :: "CreditNoteSourceVoucher \<Rightarrow> QrRecipient option \<Rightarrow> string option" where
  "documentNumberOf v fromQr =
     orElseOption (orElseOption (src_recipientDocNumber v) (map_option src_clientDocNumber (src_client v)))
       (map_option qrDocNumber fromQr)"

text \<open>
  A draft is not validated yet, so its document type may be any number, and the recipient it
  shows has no IVA condition.
\<close>

record DraftRecipient =
  draft_docType :: "number option"
  draft_docNumber :: string
  draft_legalName :: "string option"

definition UNKNOWN_RECIPIENT :: string where
  "UNKNOWN_RECIPIENT = ''No se pudo identificar al receptor del comprobante original.''"

definition draftRecipientOf :: "CreditNoteSourceVoucher \<Rightarrow> app_error + DraftRecipient" where
  "draftRecipientOf v =
     (let fromQr = qrRecipientOf v in
      case (documentTypeOf v fromQr, documentNumberOf v fromQr) of
        (Some dt, Some dn) \<Rightarrow> Inr
          \<lparr>draft_docType = dt, draft_docNumber = dn,
           draft_legalName = orElseOption (src_recipientName v) (Option.bind (src_client v) src_clientLegalName)\<rparr>
      | _ \<Rightarrow> Inl (UnprocessableEntity UNKNOWN_RECIPIENT))"

definition conceptOf :: "CreditNoteSourceVoucher \<Rightarrow> app_error + VoucherConcept" where
  "conceptOf v =
     (if src_concept v = 1 then Inr PRODUCTS else if src_concept v = 2 then Inr SERVICES
      else if src_concept v = 3 then Inr PRODUCTS_AND_SERVICES
      else Inl (UnprocessableEntity ''El comprobante original tiene un concepto desconocido.''))"

definition conceptRequiresPeriod :: "int \<Rightarrow> bool" where
  "conceptRequiresPeriod c = (c \<in> {2, 3})"

definition draftItem :: "DraftSourceItem \<Rightarrow> item" where
  "draftItem i = \<lparr>item_description = src_description i, quantity = src_quantity i, unitPrice = src_unitPrice i,
     ivaRate = src_ivaRate i, taxTreatment = parseTaxTreatment (src_taxTreatment i)\<rparr>"

record CreditNoteDraft =
  draft_issuerId :: string
  draft_salesPoint :: int
  draft_voucherType :: int
  draft_concept :: VoucherConcept
  draft_recipient :: DraftRecipient
  draft_items :: "item list"
  draft_currency :: string
  draft_exchangeRate :: number
  draft_associatedVouchers :: "associatedVoucher list"
  draft_servicePeriod :: "servicePeriod option"
  draft_paymentDueDate :: "string option"

text \<open>The object literal is built in order: the concept is read before the recipient.\<close>

definition buildCreditNoteDraft :: "int \<Rightarrow> CreditNoteSourceVoucher \<Rightarrow> date \<Rightarrow> app_error + CreditNoteDraft" where
  "buildCreditNoteDraft tz v today =
     (case creditNoteTypeFor (src_voucherType v) of
        None \<Rightarrow> Inl (UnprocessableEntity (''Este comprobante no admite una nota de cr'' @ [CHR 0xE9] @ ''dito desde la app.''))
      | Some creditNoteType \<Rightarrow>
          if \<not> isAuthorizedStatus (src_status v) then
            Inl (UnprocessableEntity (''S'' @ [CHR 0xF3] @ ''lo se puede anular con nota de cr'' @ [CHR 0xE9] @ ''dito un comprobante autorizado por ARCA.''))
          else
            (let needsPaymentDueDate = conceptRequiresPeriod (src_concept v) \<or> isCreditInvoice creditNoteType;
                 period = (case (src_serviceFrom v, src_serviceTo v) of
                     (Some from, Some to) \<Rightarrow>
                       if conceptRequiresPeriod (src_concept v)
                       then Some \<lparr>period_from = toLocalIsoDate tz from, period_to = toLocalIsoDate tz to\<rparr> else None
                   | _ \<Rightarrow> None) in
             case conceptOf v of
               Inl e \<Rightarrow> Inl e
             | Inr c \<Rightarrow>
                 (case draftRecipientOf v of
                    Inl e \<Rightarrow> Inl e
                  | Inr r \<Rightarrow> Inr
                      \<lparr>draft_issuerId = src_issuerId v, draft_salesPoint = src_salesPoint v,
                       draft_voucherType = creditNoteType, draft_concept = c, draft_recipient = r,
                       draft_items = map draftItem (src_items v), draft_currency = src_currency v,
                       draft_exchangeRate = src_exchangeRate v,
                       draft_associatedVouchers =
                         [\<lparr>assoc_type = src_voucherType v, assoc_salesPoint = src_salesPoint v,
                           assoc_number = src_number v, assoc_cuit = Some (src_issuerCuit v),
                           assoc_date = Some (toArcaDate tz (src_voucherDate v))\<rparr>],
                       draft_servicePeriod = period,
                       draft_paymentDueDate =
                         (if needsPaymentDueDate then Some (toLocalIsoDate tz (Some today)) else None)\<rparr>)))"

text \<open>The request that a client sends back when it issues the draft as it is.\<close>

definition requestOfDraft :: "CreditNoteDraft \<Rightarrow> int \<Rightarrow> issueVoucher" where
  "requestOfDraft d dt =
     \<lparr>issuerId = draft_issuerId d, salesPoint = draft_salesPoint d, voucherType = draft_voucherType d,
      concept = draft_concept d,
      recipient_of = \<lparr>docType = dt, docNumber = draft_docNumber (draft_recipient d),
        legalName = draft_legalName (draft_recipient d), ivaConditionId = None\<rparr>,
      items = draft_items d, currency = draft_currency d, exchangeRate = draft_exchangeRate d,
      associatedVouchers = Some (draft_associatedVouchers d), service_period = draft_servicePeriod d,
      paymentDueDate = draft_paymentDueDate d, transmissionType = None, tributes = None\<rparr>"

subsection \<open>The drafts of the services\<close>

text \<open>The joins of \<open>VOUCHER_DETAIL_INCLUDE\<close>; \<open>decimals\<close> reads a decimal column.\<close>

definition sourceOf :: "(number \<Rightarrow> number) \<Rightarrow> 'a world \<Rightarrow> VoucherRow \<Rightarrow> CreditNoteSourceVoucher" where
  "sourceOf decimals w v =
     (let d = voucher_data v in
      \<lparr>src_issuerId = vd_issuerId d, src_voucherType = vd_voucherType d, src_status = vd_status d,
       src_concept = vd_concept d, src_number = vd_number d, src_voucherDate = vd_voucherDate d,
       src_serviceFrom = vd_serviceFrom d, src_serviceTo = vd_serviceTo d, src_currency = vd_currency d,
       src_exchangeRate = decimals (vd_exchangeRate d), src_qrData = vd_qrData d,
       src_recipientDocType = Some (vd_recipientDocType d), src_recipientDocNumber = Some (vd_recipientDocNumber d),
       src_recipientName = vd_recipientName d,
       src_salesPoint = (case findRow (\<lambda>r. sp_id r = vd_salesPointId d) (salesPoints w) of
           Some r \<Rightarrow> sp_number r | None \<Rightarrow> 0),
       src_client = map_option (\<lambda>c. \<lparr>src_clientDocType = client_docType c, src_clientDocNumber = client_docNumber c,
           src_clientLegalName = client_legalName c\<rparr>)
         (Option.bind (vd_clientId d) (\<lambda>i. findRow (\<lambda>c. client_id c = i) (clients w))),
       src_issuerCuit = (case findRow (\<lambda>r. issuer_id r = vd_issuerId d) (issuers w) of
           Some r \<Rightarrow> issuer_cuit r | None \<Rightarrow> ''''),
       src_items = map (\<lambda>i. \<lparr>src_description = vi_description i, src_quantity = decimals (vi_quantity i),
           src_unitPrice = decimals (vi_unitPrice i), src_ivaRate = decimals (vi_ivaRate i),
           src_taxTreatment = vi_taxTreatment i\<rparr>) (vd_items d)\<rparr>)"

definition draftOf ::
  "'a ports \<Rightarrow> (number \<Rightarrow> number) \<Rightarrow> ('a, VoucherRow) effect \<Rightarrow> ('a, CreditNoteDraft) effect" where
  "draftOf p decimals found =
     bindA found (\<lambda>v. bindA (now p) (\<lambda>today. bindA (getA (\<lambda>w. sourceOf decimals w v)) (\<lambda>source.
       pureA (buildCreditNoteDraft (timeZone p) source today))))"

definition draftForUser :: "'a ports \<Rightarrow> (number \<Rightarrow> number) \<Rightarrow> string \<Rightarrow> string \<Rightarrow> ('a, CreditNoteDraft) effect" where
  "draftForUser p decimals u i = draftOf p decimals (getVoucher p u i)"

definition draftForApiClient :: "'a ports \<Rightarrow> (number \<Rightarrow> number) \<Rightarrow> string \<Rightarrow> string \<Rightarrow> ('a, CreditNoteDraft) effect" where
  "draftForApiClient p decimals client i = draftOf p decimals (getVoucherForApiClient p client i)"

end
