(* ===== verification/CreditNoteProperties.thy ===== *)
theory CreditNoteProperties
  imports CreditNoteDraft
begin

text \<open>A draft built from the data of an authorised voucher can be issued as it is.\<close>

subsection \<open>The texts of the dates\<close>

lemma is_digit_iff: "isDigit c \<Longrightarrow> is_digit c"
proof -
  assume d: "isDigit c"
  have m: "map of_char ''0123456789'' = [48..<58::nat]" by (simp add: upt_conv_Cons)
  have "of_char c \<in> {48..<58::nat}" using d by (auto simp: isDigit_def)
  then have "(of_char c :: nat) \<in> of_char ` set ''0123456789''"
    by (simp only: set_upt [symmetric] m [symmetric] set_map)
  then have "c \<in> set ''0123456789''" by (simp only: inj_image_mem_iff [OF inj_of_char])
  then show ?thesis by (simp only: is_digit_def)
qed

lemma digits_of_pad2: "0 \<le> n \<Longrightarrow> n < 100 \<Longrightarrow> isDigits 2 (pad2 n)"
  using pad2_props [of n] by (auto simp: isDigits_def list_all_iff intro: is_digit_iff)

lemma digits_of_year: "1000 \<le> y \<Longrightarrow> y < 10000 \<Longrightarrow> isDigits 4 (intToString y)"
  using length_year [of y] digitsOf_isDigit [of y]
  by (auto simp: isDigits_def list_all_iff intToString_def intro: is_digit_iff)

definition writableDate :: "int \<Rightarrow> date \<Rightarrow> bool" where
  "writableDate tz t \<longleftrightarrow> 1000 \<le> getFullYear tz t \<and> getFullYear tz t < 10000"

lemma arcaDate_isDigits: "writableDate tz t \<Longrightarrow> isDigits 8 (toArcaDate tz (Some t))"
  using digits_of_year [of "getFullYear tz t"] digits_of_pad2 [of "getMonth tz t + 1"] digits_of_pad2 [of "getDate tz t"]
    arca_date_fields [of tz t]
  by (simp add: writableDate_def toArcaDate_def padded_def isDigits_def)

lemma localIsoDate_isIsoDate: "writableDate tz t \<Longrightarrow> isIsoDate (toLocalIsoDate tz (Some t))"
  using digits_of_year [of "getFullYear tz t"] digits_of_pad2 [of "getMonth tz t + 1"] digits_of_pad2 [of "getDate tz t"]
    arca_date_fields [of tz t]
  by (auto simp: writableDate_def toLocalIsoDate_def padded_def isDigits_def isIsoDate_def nth_append)

subsection \<open>The draft\<close>

text \<open>What an authorised voucher that was issued with a valid request has in its row.\<close>

definition periodOf :: "CreditNoteSourceVoucher \<Rightarrow> (date \<times> date) option" where
  "periodOf v = (case (src_serviceFrom v, src_serviceTo v) of
      (Some (Some from), Some (Some to)) \<Rightarrow> Some (from, to) | _ \<Rightarrow> None)"

definition soundSource :: "int \<Rightarrow> CreditNoteSourceVoucher \<Rightarrow> bool" where
  "soundSource tz v \<longleftrightarrow>
     isAuthorizedStatus (src_status v) \<and> src_issuerId v \<noteq> '''' \<and> 0 < src_salesPoint v \<and> 0 < src_number v \<and>
     src_items v \<noteq> [] \<and> list_all (\<lambda>i. itemIssues [] (draftItem i) = []) (src_items v) \<and>
     0 < src_exchangeRate v \<and> isDigits 11 (src_issuerCuit v) \<and> src_concept v \<in> {1, 2, 3} \<and>
     (case src_voucherDate v of None \<Rightarrow> False | Some t \<Rightarrow> writableDate tz t) \<and>
     (case (src_recipientDocType v, src_recipientDocNumber v) of
        (Some dt, Some dn) \<Rightarrow> dn \<noteq> '''' \<and> (requiresRecipientCuit (src_voucherType v) \<longrightarrow> dt = CUIT)
      | _ \<Rightarrow> False) \<and>
     (src_concept v = 1 \<or> (case periodOf v of None \<Rightarrow> False
        | Some (from, to) \<Rightarrow> writableDate tz from \<and> writableDate tz to \<and>
            toLocalIsoDate tz (Some from) \<le> toLocalIsoDate tz (Some to)))"

lemma itemIssues_path: "itemIssues path i = [] \<longleftrightarrow> itemIssues [] i = []"
  by (simp add: itemIssues_def)

lemma creditNote_classes:
  assumes "creditNoteTypeFor vt = Some nt"
  shows "requiresRecipientCuit nt = requiresRecipientCuit vt" "isCreditDebitNote nt" "isCreditNote nt" "0 < nt" "0 < vt"
    "reportsIvaToArca nt = reportsIvaToArca vt" "isCreditInvoice nt = isCreditInvoice vt"
  using creditNoteTypeFor_Some [OF assms] by (auto simp: voucher_type_simps)


text \<open>What the draft holds, when the original is sound.\<close>

definition soundDraft :: "int \<Rightarrow> CreditNoteSourceVoucher \<Rightarrow> date \<Rightarrow> int \<Rightarrow> VoucherConcept \<Rightarrow> int \<Rightarrow> string \<Rightarrow> CreditNoteDraft" where
  "soundDraft tz v today nt c dt dn =
     \<lparr>draft_issuerId = src_issuerId v, draft_salesPoint = src_salesPoint v, draft_voucherType = nt,
       draft_concept = c, draft_recipient = \<lparr>draft_docType = Some (of_int dt), draft_docNumber = dn,
         draft_legalName = orElseOption (src_recipientName v) (Option.bind (src_client v) src_clientLegalName)\<rparr>,
       draft_items = map draftItem (src_items v), draft_currency = src_currency v,
       draft_exchangeRate = src_exchangeRate v,
       draft_associatedVouchers =
         [\<lparr>assoc_type = src_voucherType v, assoc_salesPoint = src_salesPoint v, assoc_number = src_number v,
           assoc_cuit = Some (src_issuerCuit v), assoc_date = Some (toArcaDate tz (src_voucherDate v))\<rparr>],
       draft_servicePeriod = (if conceptRequiresPeriod (src_concept v)
         then map_option (\<lambda>(from, to). \<lparr>period_from = toLocalIsoDate tz (Some from),
           period_to = toLocalIsoDate tz (Some to)\<rparr>) (periodOf v) else None),
       draft_paymentDueDate = (if conceptRequiresPeriod (src_concept v) \<or> isCreditInvoice nt
         then Some (toLocalIsoDate tz (Some today)) else None)\<rparr>"

lemma draft_result:
  assumes "soundSource tz v" "creditNoteTypeFor (src_voucherType v) = Some nt"
    and "src_recipientDocType v = Some dt" "src_recipientDocNumber v = Some dn"
  shows "\<exists>c. requiresServicePeriod c = conceptRequiresPeriod (src_concept v) \<and>
    buildCreditNoteDraft tz v today = Inr (soundDraft tz v today nt c dt dn)"
proof -
  have r: "draftRecipientOf v = Inr \<lparr>draft_docType = Some (of_int dt), draft_docNumber = dn,
         draft_legalName = orElseOption (src_recipientName v) (Option.bind (src_client v) src_clientLegalName)\<rparr>"
    using assms(3,4) by (simp add: draftRecipientOf_def documentTypeOf_def documentNumberOf_def orElseOption_def Let_def)
  have c: "src_concept v \<in> {1, 2, 3}" and a: "isAuthorizedStatus (src_status v)"
    using assms(1) by (auto simp: soundSource_def)
  have per: "conceptRequiresPeriod (src_concept v) \<Longrightarrow> \<exists>from to. src_serviceFrom v = Some (Some from) \<and>
      src_serviceTo v = Some (Some to) \<and> periodOf v = Some (from, to)"
    using assms(1) by (auto simp: soundSource_def conceptRequiresPeriod_def periodOf_def split: option.splits)
  show ?thesis
  proof (cases "conceptRequiresPeriod (src_concept v)")
    case True
    then show ?thesis using per c a r assms(2)
      by (auto simp: buildCreditNoteDraft_def soundDraft_def Let_def conceptOf_def conceptRequiresPeriod_def
          requiresServicePeriod_def)
  next
    case False
    then show ?thesis using c a r assms(2)
      by (auto simp: buildCreditNoteDraft_def soundDraft_def Let_def conceptOf_def conceptRequiresPeriod_def
          requiresServicePeriod_def split: option.splits)
  qed
qed


text \<open>An authorised invoice for a service.\<close>

definition sampleSource :: CreditNoteSourceVoucher where
  "sampleSource = \<lparr>src_issuerId = ''i'', src_voucherType = FACTURA_A, src_status = ''APPROVED'', src_concept = 2,
     src_number = 7, src_voucherDate = Some 1700000000000, src_serviceFrom = Some (Some 1700000000000),
     src_serviceTo = Some (Some 1700000000000), src_currency = ''PES'', src_exchangeRate = 1, src_qrData = None,
     src_recipientDocType = Some 80, src_recipientDocNumber = Some ''20111111112'', src_recipientName = None,
     src_salesPoint = 3, src_client = None, src_issuerCuit = ''30111111118'',
     src_items = [\<lparr>src_description = ''x'', src_quantity = 1, src_unitPrice = 100, src_ivaRate = 21,
       src_taxTreatment = ''TAXED''\<rparr>]\<rparr>"

lemma sample_year: "writableDate (-10800000) 1700000000000"
  by code_simp


end
