(* ===== verification/Vouchers.thy ===== *)
theory Vouchers
  imports PendingVouchers AmountsBalance JsMap
begin

text \<open>
  The operations on vouchers that a controller calls, \<open>vouchers.service.ts\<close>, with the
  dry run of an emission (\<open>emission-plan.service.ts\<close>), the preview of the amounts of a
  draft (\<open>draft-amounts.service.ts\<close>), the notice of fiscal transparency
  (\<open>fiscal-transparency.ts\<close>), the check of the numbering against ARCA
  (\<open>reconciliation.service.ts\<close>) and the CUIT that a certificate must have
  (\<open>issuer-certificate-invariant.ts\<close>, \<open>issuer-auth.service.ts\<close>).
\<close>

subsection \<open>The certificate of an issuer\<close>

definition expectedCertificateHolderCuit :: "StoredIssuer \<Rightarrow> string" where
  "expectedCertificateHolderCuit issuer = normalizeCuit (orElse (representativeCuit issuer) (issuer_cuit issuer))"

definition foreignCertificateMessage :: "StoredIssuer \<Rightarrow> string \<Rightarrow> string" where
  "foreignCertificateMessage issuer holder =
     ''El certificado guardado pertenece al CUIT '' @ holder @ '' y el emisor factura como '' @
     ''CUIT '' @ issuer_cuit issuer @ ''. Se cort'' @ [CHR 0xF3] @ '' la operaci'' @ [CHR 0xF3] @ ''n para no emitir comprobantes a nombre '' @
     ''de otro contribuyente. Hay que volver a cargar el certificado que corresponde.''"

definition assertCertificateBelongsToIssuer :: "StoredIssuer \<Rightarrow> string \<Rightarrow> app_error + unit" where
  "assertCertificateBelongsToIssuer issuer holder =
     (if normalizeCuit holder = expectedCertificateHolderCuit issuer then Inr ()
      else Inl (InternalServerError (foreignCertificateMessage issuer holder)))"

definition resolveHolderCuit :: "StoredIssuer \<Rightarrow> string option \<Rightarrow> app_error + string" where
  "resolveHolderCuit issuer holder =
     (case holder of
        Some h \<Rightarrow>
          if h \<noteq> '''' then
            (case assertCertificateBelongsToIssuer issuer h of Inl e \<Rightarrow> Inl e | Inr _ \<Rightarrow> Inr h)
          else Inr (expectedCertificateHolderCuit issuer)
      | None \<Rightarrow> Inr (expectedCertificateHolderCuit issuer))"

text \<open>
  \<open>buildAuth\<close>: the credentials of the issuer and the access ticket of their holder come
  from the certificates and from WSAA.
\<close>

record 'c IssuerCredentials =
  credentials_pem :: 'c
  credentials_holderCuit :: "string option"

record AccessTicket =
  ticket_token :: string
  ticket_sign :: string
  ticket_expiration :: js_date
  ticket_generation :: js_date

definition buildAuth ::
  "(string \<Rightarrow> ('w, 'c IssuerCredentials) action) \<Rightarrow> (string \<Rightarrow> string \<Rightarrow> string \<Rightarrow> 'c \<Rightarrow> string \<Rightarrow> ('w, AccessTicket) action) \<Rightarrow>
   StoredIssuer \<Rightarrow> string \<Rightarrow> ('w, AuthContext) action" where
  "buildAuth getCredentials getAccessTicket issuer service =
     bindA (getCredentials (issuer_id issuer)) (\<lambda>credentials.
       case resolveHolderCuit issuer (credentials_holderCuit credentials) of
         Inl e \<Rightarrow> throwA e
       | Inr holder \<Rightarrow>
           bindA (getAccessTicket (issuer_id issuer) holder (issuer_environment issuer)
               (credentials_pem credentials) service) (\<lambda>ticket.
           returnA \<lparr>auth_issuerId = issuer_id issuer, auth_cuit = issuer_cuit issuer,
             auth_token = ticket_token ticket, auth_sign = ticket_sign ticket,
             auth_environment = issuer_environment issuer\<rparr>))"

subsection \<open>The dry run\<close>

record EmissionPlanVerification =
  plan_onboardingStatus :: string
  confirmsIssuing :: bool

record EmissionPlan =
  plan_verification :: EmissionPlanVerification
  plan_salesPoint :: int
  plan_voucherType :: int
  plan_number :: int
  plan_netAmount :: number
  plan_ivaAmount :: number
  plan_totalAmount :: number
  plan_rates :: "ArcaIvaRate list"

definition describeVerification :: "'a ports \<Rightarrow> string \<Rightarrow> ('a, EmissionPlanVerification) effect" where
  "describeVerification p i =
     bindA (findIssuerOrThrow p i) (\<lambda>issuer.
     returnA \<lparr>plan_onboardingStatus = onboardingStatus issuer,
       confirmsIssuing = (onboardingStatus issuer = ISSUING_CONFIRMED)\<rparr>)"

definition computeEmissionPlan :: "'a ports \<Rightarrow> StoredIssuer \<Rightarrow> issueVoucher \<Rightarrow> ('a, EmissionPlan) effect" where
  "computeEmissionPlan p issuer input =
     bindA (track p (issuer_id issuer) READ_ONLY
         (bindA (external (port_buildAuth p issuer)) (\<lambda>auth.
          external (port_getLastAuthorized p auth (salesPoint input) (voucherType input))))) (\<lambda>last_number.
     bindA (pureA (amountsOf input)) (\<lambda>amounts.
     bindA (describeVerification p (issuer_id issuer)) (\<lambda>verification.
     returnA \<lparr>plan_verification = verification, plan_salesPoint = salesPoint input,
       plan_voucherType = voucherType input, plan_number = last_number + 1, plan_netAmount = netAmount amounts,
       plan_ivaAmount = ivaAmount amounts, plan_totalAmount = totalAmount amounts,
       plan_rates = rates amounts\<rparr>)))"

subsection \<open>Amounts of a draft\<close>

record DraftAmountItem =
  da_quantity :: number
  da_unitPrice :: number
  da_ivaRate :: number
  da_taxTreatment :: TaxTreatment

record DraftAmountTribute =
  dt_id :: int
  dt_taxableBase :: number
  dt_rate :: number

record DraftAmounts =
  da_netAmount :: number
  da_ivaAmount :: number
  da_exemptAmount :: number
  da_untaxedAmount :: number
  da_tributeAmount :: number
  da_totalAmount :: number

definition undescribedItem :: "DraftAmountItem \<Rightarrow> item" where
  "undescribedItem i = \<lparr>item_description = '''', quantity = da_quantity i, unitPrice = da_unitPrice i,
     ivaRate = da_ivaRate i, taxTreatment = da_taxTreatment i\<rparr>"

definition undescribedTribute :: "DraftAmountTribute \<Rightarrow> tribute" where
  "undescribedTribute t = \<lparr>tribute_id = dt_id t, tribute_description = '''', taxableBase = dt_taxableBase t,
     tribute_rate = dt_rate t\<rparr>"

definition draftAmounts ::
  "int \<Rightarrow> DraftAmountItem list \<Rightarrow> DraftAmountTribute list \<Rightarrow> app_error + DraftAmounts" where
  "draftAmounts vt its ts =
     (case calculateAmounts vt (map undescribedItem its) (map undescribedTribute ts) of
        Inl e \<Rightarrow> Inl e
      | Inr a \<Rightarrow> Inr \<lparr>da_netAmount = netAmount a, da_ivaAmount = ivaAmount a, da_exemptAmount = exemptAmount a,
          da_untaxedAmount = untaxedAmount a, da_tributeAmount = tributeAmount a, da_totalAmount = totalAmount a\<rparr>)"

subsection \<open>Fiscal transparency\<close>

record TypedTributeAmount =
  typed_id :: "int option"
  typed_amount :: number

record FiscalTransparency =
  containedIva :: number
  otherNationalIndirectTaxes :: number

definition buildFiscalTransparency ::
  "int \<Rightarrow> number \<Rightarrow> item list \<Rightarrow> TypedTributeAmount list \<Rightarrow> app_error + FiscalTransparency option" where
  "buildFiscalTransparency vt iva its ts =
     (if \<not> requiresFiscalTransparencyNotice vt then Inr None
      else (let other = round2 (foldl (\<lambda>total t. js_add total (typed_amount t)) 0
              (filter (\<lambda>t. case typed_id t of None \<Rightarrow> False | Some i \<Rightarrow> isNationalIndirectTribute i) ts)) in
        if 0 < iva then Inr (Some \<lparr>containedIva = iva, otherNationalIndirectTaxes = other\<rparr>)
        else (case containedIvaAmount its of
            Inl e \<Rightarrow> Inl e
          | Inr iva_inside \<Rightarrow> Inr (Some \<lparr>containedIva = iva_inside, otherNationalIndirectTaxes = other\<rparr>))))"

subsection \<open>The service\<close>

definition listByIssuer :: "'a ports \<Rightarrow> string \<Rightarrow> string \<Rightarrow> ('a, VoucherRow list) effect" where
  "listByIssuer p u i = bindA (findOwnedIssuer p u i) (\<lambda>_. listForIssuer p i None)"

definition listVouchersForApiClient :: "'a ports \<Rightarrow> string \<Rightarrow> string \<Rightarrow> number option \<Rightarrow> ('a, VoucherRow list) effect" where
  "listVouchersForApiClient p client i limit = bindA (assertIssuerGranted p client i) (\<lambda>_. listForIssuer p i limit)"

definition issue_voucher :: "'a ports \<Rightarrow> string \<Rightarrow> issueVoucher \<Rightarrow> string option \<Rightarrow> ('a, IssuedVoucher) effect" where
  "issue_voucher p u input key =
     bindA (findOwnedIssuer p u (issuerId input)) (\<lambda>issuer. issueAuthorized p issuer input key)"

definition issueForApiClient :: "'a ports \<Rightarrow> string \<Rightarrow> issueVoucher \<Rightarrow> string option \<Rightarrow> ('a, IssuedVoucher) effect" where
  "issueForApiClient p client input key =
     bindA (assertIssuerExists p (issuerId input)) (\<lambda>_.
     bindA (findGrantedIssuer p client (issuerId input)) (\<lambda>issuer.
     issueAuthorized p issuer input key))"

definition previewForUser :: "'a ports \<Rightarrow> string \<Rightarrow> issueVoucher \<Rightarrow> ('a, VoucherAmounts) effect" where
  "previewForUser p u input = bindA (findOwnedIssuer p u (issuerId input)) (\<lambda>_. pureA (amountsOf input))"

definition previewForApiClient :: "'a ports \<Rightarrow> string \<Rightarrow> issueVoucher \<Rightarrow> ('a, VoucherAmounts) effect" where
  "previewForApiClient p client input =
     bindA (assertIssuerGranted p client (issuerId input)) (\<lambda>_. pureA (amountsOf input))"

definition computeEmissionPlanForUser :: "'a ports \<Rightarrow> string \<Rightarrow> issueVoucher \<Rightarrow> ('a, EmissionPlan) effect" where
  "computeEmissionPlanForUser p u input =
     bindA (findOwnedIssuer p u (issuerId input)) (\<lambda>issuer. computeEmissionPlan p issuer input)"

definition computeEmissionPlanForApiClient :: "'a ports \<Rightarrow> string \<Rightarrow> issueVoucher \<Rightarrow> ('a, EmissionPlan) effect" where
  "computeEmissionPlanForApiClient p client input =
     bindA (findGrantedIssuer p client (issuerId input)) (\<lambda>issuer. computeEmissionPlan p issuer input)"

subsection \<open>Numbering\<close>

record NumberingStatus =
  ns_salesPoint :: int
  ns_voucherType :: int
  lastInDatabase :: int
  lastInArca :: int
  missingInDatabase :: int

text \<open>\<open>groupBy\<close> the sales point and the type, with the greatest number of each group.\<close>

definition numberingGroup :: "VoucherRow \<Rightarrow> string \<times> int" where
  "numberingGroup v = (vd_salesPointId (voucher_data v), vd_voucherType (voucher_data v))"

definition groupNumbering :: "string \<Rightarrow> VoucherRow list \<Rightarrow> (string \<times> int, int) jsmap" where
  "groupNumbering i rows =
     foldl (\<lambda>m v. mapSet (numberingGroup v)
         (case mapGet m (numberingGroup v) of None \<Rightarrow> vd_number (voucher_data v)
          | Some n \<Rightarrow> max n (vd_number (voucher_data v))) m)
       [] (filter (\<lambda>v. vd_issuerId (voucher_data v) = i) rows)"

fun checkGroups ::
  "'a ports \<Rightarrow> AuthContext \<Rightarrow> (string \<Rightarrow> int option) \<Rightarrow> (string \<times> int, int) jsmap \<Rightarrow> ('a, NumberingStatus list) effect" where
  "checkGroups p auth numberById [] = returnA []"
| "checkGroups p auth numberById (((spId, vt), maxNumber) # groups) =
     (case numberById spId of
        None \<Rightarrow> checkGroups p auth numberById groups
      | Some n \<Rightarrow>
          bindA (external (port_getLastAuthorized p auth n vt)) (\<lambda>inArca.
          bindA (checkGroups p auth numberById groups) (\<lambda>statuses.
          returnA (\<lparr>ns_salesPoint = n, ns_voucherType = vt, lastInDatabase = maxNumber, lastInArca = inArca,
             missingInDatabase = max (inArca - maxNumber) 0\<rparr> # statuses))))"

definition checkNumbering :: "'a ports \<Rightarrow> StoredIssuer \<Rightarrow> ('a, NumberingStatus list) effect" where
  "checkNumbering p issuer =
     bindA (table p (getA (\<lambda>w. groupNumbering (issuer_id issuer) (vouchers w)))) (\<lambda>grouped.
       if grouped = [] then returnA []
       else bindA (table p (getA (\<lambda>w. mapOfEntries (map (\<lambda>r. (sp_id r, sp_number r))
              (filter (\<lambda>r. sp_issuerId r = issuer_id issuer) (salesPoints w)))))) (\<lambda>numberById.
         bindA (external (port_buildAuth p issuer)) (\<lambda>auth.
         checkGroups p auth (mapGet numberById) grouped)))"

end
