(* ===== verification/VoucherProperties.thy ===== *)
theory VoucherProperties
  imports Vouchers AccessProperties RetryProperties
begin

text \<open>
  What the service operations promise: a voucher is issued only for an issuer of the caller, a
  dry run issues nothing, the check of the numbering leaves out no voucher, and no access
  ticket is asked for with a certificate of another taxpayer.
\<close>

subsection \<open>Issuing\<close>

lemma assertIssuerExists_reads: "reads (\<lambda>w _. True) (assertIssuerExists p i)"
  unfolding assertIssuerExists_def
  by (rule reads_bindA [OF reads_table_getA]) (auto intro: reads_throwA reads_returnA)

lemma findOwnedIssuer_reads: "reads (\<lambda>w r. mayUse w (OwnerUser u) r \<and> issuer_id r = i) (findOwnedIssuer p u i)"
  unfolding findOwnedIssuer_def
proof (rule reads_bindA [OF reads_table_getA])
  show "reads (\<lambda>w y. findRow (\<lambda>r. issuer_id r = i \<and> issuer_userId r = u) (issuers w) = x \<longrightarrow>
      mayUse w (OwnerUser u) y \<and> issuer_id y = i)
    (case x of Some r \<Rightarrow> returnA r
      | None \<Rightarrow> bindA (assertIssuerExists p i) (\<lambda>_. throwA (Forbidden FOREIGN_ISSUER_MESSAGE)))" for x
    by (cases x) (auto simp: mayUse_def dest!: findRow_Some
        intro!: reads_returnA reads_bindA [OF assertIssuerExists_reads] reads_throwA)
qed simp

lemma findGrantedIssuer_reads:
  "reads (\<lambda>w r. mayUse w (OwnerClient client) r \<and> issuer_id r = i) (findGrantedIssuer p client i)"
  unfolding findGrantedIssuer_def
proof (rule reads_bindA [OF assertIssuerGranted_reads], rule reads_bindA [OF reads_table_getA])
  show "reads (\<lambda>w y. findRow (\<lambda>r. issuer_id r = i) (issuers w) = x \<longrightarrow> isGranted w client i \<longrightarrow>
      mayUse w (OwnerClient client) y \<and> issuer_id y = i)
    (case x of None \<Rightarrow> throwA (NotFound MISSING_ISSUER_MESSAGE) | Some r \<Rightarrow> returnA r)" for x
    by (cases x) (auto simp: mayUse_def dest!: findRow_Some intro!: reads_returnA reads_throwA)
qed simp


subsection \<open>Certificates\<close>

text \<open>
  An authentication context is built only with the certificate of the taxpayer that
  the issuer is authorised to act for: when the credentials declare a holder, it is the
  representative of the issuer or, without one, the issuer itself; otherwise nothing is asked of
  the authentication service and the error names both CUITs.
\<close>

lemma buildAuth_holder:
  "case getCredentials (issuer_id issuer) w of
     (Inl e, w1) \<Rightarrow> buildAuth getCredentials getAccessTicket issuer service w = (Inl e, w1)
   | (Inr c, w1) \<Rightarrow>
       (case credentials_holderCuit c of
          Some h \<Rightarrow>
            if h \<noteq> '''' \<and> normalizeCuit h \<noteq> expectedCertificateHolderCuit issuer
            then buildAuth getCredentials getAccessTicket issuer service w =
              (Inl (InternalServerError (foreignCertificateMessage issuer h)), w1)
            else buildAuth getCredentials getAccessTicket issuer service w =
              bindA (getAccessTicket (issuer_id issuer) (if h \<noteq> '''' then h else expectedCertificateHolderCuit issuer)
                  (issuer_environment issuer) (credentials_pem c) service)
                (\<lambda>ticket. returnA \<lparr>auth_issuerId = issuer_id issuer, auth_cuit = issuer_cuit issuer,
                  auth_token = ticket_token ticket, auth_sign = ticket_sign ticket,
                  auth_environment = issuer_environment issuer\<rparr>) w1
        | None \<Rightarrow> buildAuth getCredentials getAccessTicket issuer service w =
              bindA (getAccessTicket (issuer_id issuer) (expectedCertificateHolderCuit issuer)
                  (issuer_environment issuer) (credentials_pem c) service)
                (\<lambda>ticket. returnA \<lparr>auth_issuerId = issuer_id issuer, auth_cuit = issuer_cuit issuer,
                  auth_token = ticket_token ticket, auth_sign = ticket_sign ticket,
                  auth_environment = issuer_environment issuer\<rparr>) w1)"
  by (auto simp: buildAuth_def bindA_def [of "getCredentials (issuer_id issuer)"] resolveHolderCuit_def
      assertCertificateBelongsToIssuer_def throwA_def split: prod.split sum.split option.split)

subsection \<open>Numbering\<close>

definition groupNumber :: "(string \<times> int, int) jsmap \<Rightarrow> VoucherRow \<Rightarrow> bool" where
  "groupNumber m v \<longleftrightarrow> (case mapGet m (numberingGroup v) of None \<Rightarrow> False | Some n \<Rightarrow> vd_number (voucher_data v) \<le> n)"

lemma groupNumber_step:
  assumes "groupNumber m v"
  shows "groupNumber (mapSet (numberingGroup v') (case mapGet m (numberingGroup v') of None \<Rightarrow> vd_number (voucher_data v')
          | Some n \<Rightarrow> max n (vd_number (voucher_data v'))) m) v"
  using assms by (auto simp: groupNumber_def split: option.splits)

lemma groupNumber_fold:
  "(\<forall>v\<in>set vs. groupNumber m v) \<Longrightarrow> v \<in> set vs \<or> v \<in> set rows \<Longrightarrow>
   groupNumber (foldl (\<lambda>m v. mapSet (numberingGroup v)
         (case mapGet m (numberingGroup v) of None \<Rightarrow> vd_number (voucher_data v)
          | Some n \<Rightarrow> max n (vd_number (voucher_data v))) m) m rows) v"
proof (induction rows arbitrary: m vs)
  case (Cons r rows)
  let ?m = "mapSet (numberingGroup r) (case mapGet m (numberingGroup r) of None \<Rightarrow> vd_number (voucher_data r)
          | Some n \<Rightarrow> max n (vd_number (voucher_data r))) m"
  have "groupNumber ?m r" by (auto simp: groupNumber_def split: option.splits)
  then have "\<forall>v\<in>set (r # vs). groupNumber ?m v" using Cons.prems(1) groupNumber_step by auto
  then show ?case using Cons.IH [of "r # vs" ?m] Cons.prems(2) by auto
qed auto

lemma groupNumbering_covers:
  "v \<in> set rows \<Longrightarrow> vd_issuerId (voucher_data v) = i \<Longrightarrow> groupNumber (groupNumbering i rows) v"
  unfolding groupNumbering_def by (rule groupNumber_fold [where vs = "[]"]) auto

lemma checkGroups_covers:
  assumes "checkGroups p auth numberById groups w = (Inr statuses, w')"
    and "((spId, vt), n) \<in> set groups" "numberById spId = Some sp"
  shows "\<exists>s\<in>set statuses. ns_salesPoint s = sp \<and> ns_voucherType s = vt \<and> lastInDatabase s = n \<and>
    missingInDatabase s = max (lastInArca s - n) 0"
  using assms
proof (induction p auth numberById groups arbitrary: w statuses rule: checkGroups.induct)
  case (2 p auth numberById spId' vt' n' groups)
  show ?case
  proof (cases "numberById spId'")
    case None
    then show ?thesis using 2 by auto
  next
    case (Some m)
    then obtain l w1 rest where l: "external (port_getLastAuthorized p auth m vt') w = (Inr l, w1)"
      "checkGroups p auth numberById groups w1 = (Inr rest, w')"
      "statuses = \<lparr>ns_salesPoint = m, ns_voucherType = vt', lastInDatabase = n', lastInArca = l,
         missingInDatabase = max (l - n') 0\<rparr> # rest"
      using 2(3) by (auto simp: bindA_Inr_iff returnA_def)
    then show ?thesis using 2(2) [OF Some, of w1 rest] 2(4,5) Some by auto
  qed
qed simp

lemma mapOfEntries_get:
  "distinct (map fst entries) \<Longrightarrow> (k, v) \<in> set entries \<Longrightarrow> mapGet (mapOfEntries entries) k = Some v"
proof -
  have "k \<notin> fst ` set entries \<Longrightarrow> mapGet (foldl (\<lambda>m (k, v). mapSet k v m) m entries) k = mapGet m k" for m
    by (induction entries arbitrary: m) auto
  then have none: "k \<notin> fst ` set es \<Longrightarrow> mapGet (foldl (\<lambda>m (k, v). mapSet k v m) m es) k = mapGet m k" for es m
    by (induction es arbitrary: m) auto
  have "distinct (map fst es) \<Longrightarrow> (k, v) \<in> set es \<Longrightarrow> mapGet (foldl (\<lambda>m (k, v). mapSet k v m) m es) k = Some v" for es m
    by (induction es arbitrary: m) (auto simp: none)
  then show "distinct (map fst entries) \<Longrightarrow> (k, v) \<in> set entries \<Longrightarrow> mapGet (mapOfEntries entries) k = Some v"
    by (simp add: mapOfEntries_def)
qed

text \<open>
  The check of the numbering leaves out no stored voucher: for each one, the answer
  has a status for its sales point and type whose last number in the database is at least the
  voucher's, and that counts as missing the numbers by which ARCA is ahead.
\<close>

lemma numbering_covers:
  assumes "checkNumbering p issuer w = (Inr statuses, w')" "databaseOk p w"
    and "v \<in> set (vouchers w)" "vd_issuerId (voucher_data v) = issuer_id issuer"
    and "r \<in> set (salesPoints w)" "sp_id r = vd_salesPointId (voucher_data v)" "sp_issuerId r = issuer_id issuer"
  shows "\<exists>s\<in>set statuses. ns_salesPoint s = sp_number r \<and> ns_voucherType s = vd_voucherType (voucher_data v) \<and>
    vd_number (voucher_data v) \<le> lastInDatabase s \<and>
    missingInDatabase s = max (lastInArca s - lastInDatabase s) 0"
proof -
  let ?g = "groupNumbering (issuer_id issuer) (vouchers w)"
  obtain n where n: "mapGet ?g (numberingGroup v) = Some n" "vd_number (voucher_data v) \<le> n"
    using groupNumbering_covers [OF assms(3,4)] by (auto simp: groupNumber_def split: option.splits)
  then have mem: "(numberingGroup v, n) \<in> set ?g" by (auto simp: mapGet_def dest: map_of_SomeD)
  then have "?g \<noteq> []" by auto
  let ?points = "mapOfEntries (map (\<lambda>r. (sp_id r, sp_number r)) (filter (\<lambda>r. sp_issuerId r = issuer_id issuer) (salesPoints w)))"
  obtain auth w2 where "checkGroups p auth (mapGet ?points) ?g w2 = (Inr statuses, w')"
    using assms(1) \<open>?g \<noteq> []\<close>
    by (auto simp: checkNumbering_def bindA_Inr_iff table_Inr getA_def)
  moreover have "distinct (map fst (map (\<lambda>r. (sp_id r, sp_number r))
      (filter (\<lambda>r. sp_issuerId r = issuer_id issuer) (salesPoints w))))"
    using assms(2) by (auto simp: databaseOk_defs o_def distinct_map intro: inj_on_subset)
  then have "mapGet ?points (vd_salesPointId (voucher_data v)) = Some (sp_number r)"
    by (rule mapOfEntries_get) (use assms(5-7) in \<open>auto simp: image_iff\<close>)
  ultimately show ?thesis
    using checkGroups_covers [of p auth "mapGet ?points" ?g w2 statuses w' "vd_salesPointId (voucher_data v)"
        "vd_voucherType (voucher_data v)" n "sp_number r"] mem n(2)
    by (auto simp: numberingGroup_def)
qed

text \<open>An issuer with one voucher stored, the third, while ARCA has authorised none here.\<close>

definition sampleRow :: VoucherRow where
  "sampleRow = \<lparr>voucher_id = replicate 1 (CHR ''c''), voucher_data = buildIssuedVoucherData 0 sampleIssuer sampleVoucher
     \<lparr>outcome_cae = sampleCae, outcome_number = 3, outcome_amounts = sampleAmounts, outcome_date = Some 0, recovered = False\<rparr>
     (replicate 0 (CHR ''c'')) None ''''\<rparr>"

definition storedWorld :: "arca world" where
  "storedWorld = (sampleWorld [] [] [])\<lparr>vouchers := [sampleRow], nextId := 2,
     salesPoints := [\<lparr>sp_id = replicate 0 (CHR ''c''), sp_issuerId = ''i'', sp_number = 3, sp_description = None\<rparr>]\<rparr>"

lemma sampleRow_fields [simp]:
  "vd_salesPointId (voucher_data sampleRow) = ''''" "vd_issuerId (voucher_data sampleRow) = ''i''"
  "vd_voucherType (voucher_data sampleRow) = FACTURA_C" "vd_number (voucher_data sampleRow) = 3"
  "voucher_id sampleRow = ''c''"
  by (simp_all add: sampleRow_def buildIssuedVoucherData_def sampleIssuer_def sampleVoucher_def Let_def)

lemma stored_databaseOk: "databaseOk samplePorts storedWorld"
  by (auto simp: databaseOk_defs storedWorld_def sampleWorld_def pendingKeys_def allocated_def samplePorts_def
      intro: exI [of _ 0] exI [of _ 1])

theorem numbering_covers_witness:
  "\<exists>statuses w'. checkNumbering samplePorts sampleIssuer storedWorld = (Inr statuses, w') \<and>
     (\<exists>s\<in>set statuses. ns_salesPoint s = 3 \<and> 3 \<le> lastInDatabase s)"
proof -
  obtain statuses w' where c: "checkNumbering samplePorts sampleIssuer storedWorld = (Inr statuses, w')"
    by (simp add: checkNumbering_def groupNumbering_def numberingGroup_def table_def bindA_def external_def reachDatabase_def
        getA_def returnA_def mapOfEntries_def storedWorld_def sampleWorld_def samplePorts_def sampleIssuer_def mapGet_def)
  have "\<exists>s\<in>set statuses. ns_salesPoint s = 3 \<and> ns_voucherType s = FACTURA_C \<and> 3 \<le> lastInDatabase s \<and>
      missingInDatabase s = max (lastInArca s - lastInDatabase s) 0"
    using numbering_covers [OF c stored_databaseOk, of sampleRow "\<lparr>sp_id = '''', sp_issuerId = ''i'', sp_number = 3, sp_description = None\<rparr>"]
    by (simp add: storedWorld_def sampleIssuer_def)
  then show ?thesis using c by auto
qed

end
