(* ===== verification/TaxBreakdown.thy ===== *)
theory TaxBreakdown
  imports IvaCalculator JsMap
begin

text \<open>
  The taxes of a stored voucher as the fiscal books show them,
  \<open>fiscal/voucher-tax-breakdown.ts\<close>: each line is exempt, untaxed, taxed without a
  discriminated IVA, or split by its rate; amounts in foreign currency are turned into pesos.
  A decimal column is taken as the number that \<open>Number\<close> reads from it.
\<close>

record TaxBreakdownItem =
  tb_ivaRate :: number
  tb_subtotal :: number
  tb_taxTreatment :: "string option"

record TaxBreakdownVoucher =
  tb_voucherType :: int
  tb_exchangeRate :: "number option"
  tb_items :: "TaxBreakdownItem list"

record VoucherTaxBreakdown =
  br_netAmount :: number
  br_exemptAmount :: number
  br_untaxedAmount :: number
  br_ivaByRate :: "(number, number) jsmap"

definition breakdownRound2 :: "number \<Rightarrow> number" where
  "breakdownRound2 value = js_div (of_int (math_round (js_mul (js_add value epsilon) 100))) 100"

definition bearsIva :: "int \<Rightarrow> bool" where
  "bearsIva vt = (voucherLetter vt \<in> {''A'', ''B'', ''M''})"

definition voucherSign :: "int \<Rightarrow> number" where
  "voucherSign vt = (if isCreditNote vt then - 1 else 1)"

definition toPesos :: "TaxBreakdownVoucher \<Rightarrow> number \<Rightarrow> number" where
  "toPesos v amount = js_mul amount (orElse (tb_exchangeRate v) 1)"

definition addTo :: "(number, number) jsmap \<Rightarrow> number \<Rightarrow> number \<Rightarrow> (number, number) jsmap" where
  "addTo m key amount = mapSet key (js_add (orElse (mapGet m key) 0) amount) m"

text \<open>One turn of the loop, on the variables it updates.\<close>

definition breakDownItem ::
  "TaxBreakdownVoucher \<Rightarrow> VoucherTaxBreakdown \<Rightarrow> TaxBreakdownItem \<Rightarrow> VoucherTaxBreakdown" where
  "breakDownItem v acc item =
     (let withIva = bearsIva (tb_voucherType v);
          isExport = voucherLetter (tb_voucherType v) = ''E'';
          gross = toPesos v (tb_subtotal item);
          treatment = orElse (tb_taxTreatment item) ''TAXED'';
          rate = tb_ivaRate item in
      if treatment = ''EXEMPT'' \<or> isExport then acc\<lparr>br_exemptAmount := js_add (br_exemptAmount acc) gross\<rparr>
      else if treatment = ''UNTAXED'' then acc\<lparr>br_untaxedAmount := js_add (br_untaxedAmount acc) gross\<rparr>
      else if \<not> withIva \<or> rate = 0 then acc\<lparr>br_netAmount := js_add (br_netAmount acc) gross\<rparr>
      else (let base = js_div gross (js_add 1 (js_div rate 100)) in
        acc\<lparr>br_netAmount := js_add (br_netAmount acc) base,
            br_ivaByRate := addTo (br_ivaByRate acc) rate (js_sub gross base)\<rparr>))"

text \<open>
  The last loop sets keys that are there while it iterates, so each entry is visited once.
\<close>

definition breakDownVoucherTaxes :: "TaxBreakdownVoucher \<Rightarrow> VoucherTaxBreakdown" where
  "breakDownVoucherTaxes v =
     (let acc = foldl (breakDownItem v)
          \<lparr>br_netAmount = 0, br_exemptAmount = 0, br_untaxedAmount = 0, br_ivaByRate = []\<rparr> (tb_items v) in
      \<lparr>br_netAmount = breakdownRound2 (br_netAmount acc),
       br_exemptAmount = breakdownRound2 (br_exemptAmount acc),
       br_untaxedAmount = breakdownRound2 (br_untaxedAmount acc),
       br_ivaByRate = map (\<lambda>(rate, amount). (rate, breakdownRound2 amount)) (br_ivaByRate acc)\<rparr>)"

subsection \<open>Rounding and signs\<close>

lemma breakdownRound2_is_roundToCents: "breakdownRound2 = roundToCents"
  by (rule ext) (simp add: breakdownRound2_def roundToCents_def)

interpretation fiscal: cent_rounder breakdownRound2
  unfolding breakdownRound2_is_roundToCents by (rule shared_money.cent_rounder_axioms)

text \<open>What the rounding returns is a number of cents, whatever the amount.\<close>

lemma breakdownRound2_cents: "\<exists>k. breakdownRound2 x = cents k"
  by (auto simp: breakdownRound2_is_roundToCents roundToCents_is_cents)

lemma cents_uminus: "cents (- k) = - cents k"
  by (simp add: cents_def)

lemma cents_range_uminus [simp]: "cents_range (- k) = cents_range k"
  by (simp add: cents_range_def)

text \<open>A double of a number of cents that is not too large comes from a number of cents in range.\<close>

lemma cents_bounded_range:
  assumes "\<bar>cents k\<bar> \<le> 68719476736"
  shows "cents_range k"
proof (rule cents_rangeI)
  define y where "y = \<bar>of_int k / 100 :: rat\<bar>"
  have y: "\<bar>of_int k :: rat\<bar> = 100 * y" by (simp add: y_def)
  show "\<bar>of_int k :: rat\<bar> \<le> 8796093022208"
  proof (cases "1 \<le> y")
    case True
    from fl_err [OF _ True, of "of_int k / 100"] have "\<bar>cents k - of_int k / 100\<bar> \<le> y / 9007199254740992"
      by (simp add: cents_def y_def)
    then have "y \<le> 68719476736 + y / 9007199254740992" using assms unfolding y_def by linarith
    then have "y \<le> 87960930222" by simp
    then show ?thesis using y by linarith
  qed (use y in linarith)
qed

lemma sign_mult [simp]: "js_mul (- 1) (cents k) = cents (- k)" "js_mul 1 (cents k) = cents k"
  by (simp_all add: js_mul_def cents_def)

lemma signed_round:
  assumes "cents_range k"
  shows "breakdownRound2 (js_mul (- 1) (cents k)) = - breakdownRound2 (js_mul 1 (cents k))"
  using assms fiscal.round_of_cents [of "- k"] by (simp add: fiscal.round_of_cents cents_uminus)

lemma signed_round_of_round:
  assumes "\<bar>breakdownRound2 x\<bar> \<le> 68719476736"
  shows "breakdownRound2 (js_mul (- 1) (breakdownRound2 x)) = - breakdownRound2 x"
    and "breakdownRound2 (js_mul 1 (breakdownRound2 x)) = breakdownRound2 x"
proof -
  obtain k where k: "breakdownRound2 x = cents k" using breakdownRound2_cents by blast
  then have "cents_range k" using assms cents_bounded_range by simp
  then show "breakdownRound2 (js_mul (- 1) (breakdownRound2 x)) = - breakdownRound2 x"
    "breakdownRound2 (js_mul 1 (breakdownRound2 x)) = breakdownRound2 x"
    using fiscal.round_of_cents [of "- k"] by (simp_all add: k fiscal.round_of_cents cents_uminus)
qed

subsection \<open>The letter decides the breakdown\<close>

lemma breakDown_letter:
  assumes "voucherLetter vt = voucherLetter vt'"
  shows "breakDownVoucherTaxes \<lparr>tb_voucherType = vt, tb_exchangeRate = r, tb_items = its\<rparr> =
    breakDownVoucherTaxes \<lparr>tb_voucherType = vt', tb_exchangeRate = r, tb_items = its\<rparr>"
proof -
  have "breakDownItem \<lparr>tb_voucherType = vt, tb_exchangeRate = r, tb_items = its\<rparr> =
    breakDownItem \<lparr>tb_voucherType = vt', tb_exchangeRate = r, tb_items = its\<rparr>"
    by (intro ext) (simp add: breakDownItem_def bearsIva_def toPesos_def assms)
  then show ?thesis by (simp add: breakDownVoucherTaxes_def)
qed

lemma addTo_keys: "set (map fst (addTo m r a)) = insert r (set (map fst m))"
  using keys_mapSet by (simp add: addTo_def)

lemma addTo_distinct: "distinct (map fst m) \<Longrightarrow> distinct (map fst (addTo m r a))"
  by (simp add: addTo_def distinct_mapSet)

lemma breakDownItem_distinct:
  "distinct (map fst (br_ivaByRate acc)) \<Longrightarrow> distinct (map fst (br_ivaByRate (breakDownItem v acc item)))"
  by (simp add: breakDownItem_def Let_def addTo_distinct)

lemma breakDown_distinct: "distinct (map fst (br_ivaByRate (breakDownVoucherTaxes v)))"
proof -
  have "distinct (map fst (br_ivaByRate (foldl (breakDownItem v) acc its)))"
    if "distinct (map fst (br_ivaByRate acc))" for acc its
    using that by (induction its arbitrary: acc) (simp_all add: breakDownItem_distinct)
  from this [of "\<lparr>br_netAmount = 0, br_exemptAmount = 0, br_untaxedAmount = 0, br_ivaByRate = []\<rparr>" "tb_items v"]
  show ?thesis by (simp add: breakDownVoucherTaxes_def Let_def comp_def case_prod_beta)
qed

lemma breakDown_rates_cents:
  "(r, a) \<in> set (br_ivaByRate (breakDownVoucherTaxes v)) \<Longrightarrow> \<exists>k. a = cents k"
  using breakdownRound2_cents by (auto simp: breakDownVoucherTaxes_def Let_def)


subsection \<open>Sums of signed amounts\<close>

text \<open>
  \<open>reduce((total, x) => total + x, 0)\<close> over amounts in cents of either sign: up to two
  thousand of them, of some 5 500 million pesos together, the sum stays within half a cent of
  the exact one, so that rounding it gives the exact sum.
\<close>

lemma cents_err_signed:
  assumes "\<bar>n\<bar> \<le> 549755813888"
  shows "\<bar>cents n - of_int n / 100\<bar> \<le> 1 / 1000000"
proof -
  have "of_int \<bar>n\<bar> \<le> (of_int 549755813888 :: rat)" using assms by (simp only: of_int_le_iff)
  then have "\<bar>of_int n / 100 :: rat\<bar> \<le> 5497558139" by simp
  from fl_err [OF this] show ?thesis by (simp add: cents_def)
qed

lemma signed_sum_step:
  assumes "\<bar>a\<bar> + \<bar>c\<bar> \<le> 549755813888" "\<bar>acc - of_int a / 100\<bar> \<le> e" "e \<le> 1"
  shows "\<bar>js_add acc (cents c) - of_int (a + c) / 100\<bar> \<le> e + 1 / 500000"
proof -
  have c: "\<bar>cents c - of_int c / 100\<bar> \<le> 1 / 1000000" using assms(1) by (intro cents_err_signed) simp
  have "of_int (\<bar>a\<bar> + \<bar>c\<bar>) \<le> (of_int 549755813888 :: rat)" using assms(1) by (simp only: of_int_le_iff)
  then have "\<bar>of_int a :: rat\<bar> + \<bar>of_int c\<bar> \<le> 549755813888" by simp
  then have "\<bar>acc + cents c\<bar> \<le> 8589934592" using c assms(2,3) by linarith
  from fl_err [OF this] have "\<bar>js_add acc (cents c) - (acc + cents c)\<bar> \<le> 1 / 1000000"
    by (simp add: js_add_def)
  then show ?thesis using c assms(2) unfolding of_int_add add_divide_distrib by linarith
qed

lemma signed_sum_err:
  assumes "\<bar>a\<bar> + sum_list (map abs cs) \<le> 549755813888" "\<bar>acc - of_int a / 100\<bar> \<le> e" "0 \<le> e"
    and "e + of_nat (length cs) / 500000 \<le> 1"
  shows "\<bar>foldl js_add acc (map cents cs) - of_int (a + sum_list cs) / 100\<bar> \<le> e + of_nat (length cs) / 500000"
  using assms
proof (induction cs arbitrary: acc a e)
  case (Cons c cs)
  have "0 \<le> sum_list (map abs cs)" by (rule sum_list_nonneg) auto
  then have ac: "\<bar>a\<bar> + \<bar>c\<bar> \<le> 549755813888" "\<bar>a + c\<bar> + sum_list (map abs cs) \<le> 549755813888"
    using Cons.prems(1) by simp_all
  have "0 \<le> (of_nat (length cs) / 500000 :: rat)" by simp
  moreover have "e + (1 / 500000 + of_nat (length cs) / 500000) \<le> 1"
    using Cons.prems(4) by (simp add: add_divide_distrib)
  ultimately have e: "e \<le> 1" "e + 1 / 500000 + of_nat (length cs) / 500000 \<le> 1" by linarith+
  have "\<bar>js_add acc (cents c) - of_int (a + c) / 100\<bar> \<le> e + 1 / 500000"
    by (rule signed_sum_step [OF ac(1) Cons.prems(2) e(1)])
  from Cons.IH [OF ac(2) this _ e(2)] Cons.prems(3) show ?case
    by (simp add: add.assoc add_divide_distrib)
qed simp

lemma fiscal_sum:
  assumes "sum_list (map abs cs) \<le> 549755813888" "length cs \<le> 2000"
  shows "breakdownRound2 (foldl js_add 0 (map cents cs)) = cents (sum_list cs)"
proof (rule fiscal.round_near)
  have "(of_nat (length cs) :: rat) \<le> 2000" using assms(2) by (metis of_nat_le_iff of_nat_numeral)
  then have "of_nat (length cs) / 500000 \<le> (1 / 250 :: rat)" by simp
  then show "\<bar>foldl js_add 0 (map cents cs) - of_int (sum_list cs) / 100\<bar> \<le> 49 / 10000"
    using signed_sum_err [of 0 cs 0 0] assms(1) by simp
  have "\<bar>sum_list cs\<bar> \<le> sum_list (map abs cs)" by (rule sum_list_abs)
  then show "cents_range (sum_list cs)" using assms(1) by (simp add: cents_range_def)
qed

lemma foldl_pick: "foldl (\<lambda>total x. js_add total (pick x)) a xs = foldl js_add a (map pick xs)"
  by (induction xs arbitrary: a) simp_all

text \<open>The cents of a list of rounded amounts, and the bound on them.\<close>

lemma amounts_in_cents:
  assumes "\<And>x. x \<in> set xs \<Longrightarrow> \<exists>k. x = cents k" "sum_list (map abs xs) \<le> 5000000000" "length xs \<le> 2000"
  shows "\<exists>cs. xs = map cents cs \<and> sum_list (map abs cs) \<le> 549755813888 \<and> length cs = length xs"
proof -
  obtain cs where cs: "xs = map cents cs"
    using assms(1) by (metis ex_map_conv)
  have bound: "\<bar>x\<bar> \<le> 5000000000" if "x \<in> set xs" for x
    using member_le_sum_list [of "\<bar>x\<bar>" "map abs xs"] that assms(2) by fastforce
  have range: "\<bar>c\<bar> \<le> 549755813888" if "c \<in> set cs" for c
  proof -
    have b: "\<bar>cents c\<bar> \<le> 5000000000" using bound [of "cents c"] that by (simp add: cs)
    then have "cents_range c" by (intro cents_bounded_range) linarith
    from cents_err [OF this] b have "\<bar>of_int c :: rat\<bar> \<le> 500000000100" by linarith
    then have "of_int \<bar>c\<bar> \<le> (of_int 500000000100 :: rat)" by simp
    then show ?thesis by (simp only: of_int_le_iff)
  qed
  have "of_int (sum_list (map abs cs)) / 100 \<le> sum_list (map (\<lambda>c. \<bar>cents c\<bar>) cs) + of_nat (length cs) / (1000000 :: rat)"
    using range
  proof (induction cs)
    case (Cons c cs)
    have "\<bar>cents c - of_int c / 100\<bar> \<le> 1 / 1000000" using Cons.prems [of c] by (intro cents_err_signed) simp
    then have "\<bar>of_int c\<bar> / 100 \<le> \<bar>cents c\<bar> + 1 / (1000000 :: rat)" by linarith
    moreover have "of_int (sum_list (map abs cs)) / 100 \<le> sum_list (map (\<lambda>c. \<bar>cents c\<bar>) cs) + of_nat (length cs) / (1000000 :: rat)"
      using Cons by simp
    ultimately show ?case by (simp only: list.map sum_list_simps of_int_add of_int_abs list.size of_nat_add
        add_divide_distrib)
  qed simp
  moreover have "sum_list (map (\<lambda>c. \<bar>cents c\<bar>) cs) \<le> 5000000000" using assms(2) by (simp add: cs comp_def)
  moreover have "(of_nat (length cs) :: rat) \<le> 2000"
    using assms(3) by (simp add: cs)
  ultimately have "of_int (sum_list (map abs cs)) \<le> (500000001000 :: rat)" by linarith
  then have "of_int (sum_list (map abs cs)) \<le> (of_int 500000001000 :: rat)" by simp
  then have "sum_list (map abs cs) \<le> 500000001000" by (simp only: of_int_le_iff)
  then show ?thesis using cs by auto
qed

lemma rounded_sum:
  assumes "\<And>x. x \<in> set xs \<Longrightarrow> \<exists>k. x = cents k" "sum_list (map abs xs) \<le> 5000000000" "length xs \<le> 2000"
  shows "\<exists>cs. xs = map cents cs \<and> breakdownRound2 (foldl js_add 0 xs) = cents (sum_list cs) \<and>
    sum_list (map abs cs) \<le> 549755813888"
proof -
  obtain cs where "xs = map cents cs" "sum_list (map abs cs) \<le> 549755813888" "length cs = length xs"
    using amounts_in_cents [OF assms] by blast
  then show ?thesis using assms(3) fiscal_sum [of cs] by auto
qed

end
