(* ===== verification/UtcDate.thy ===== *)
theory UtcDate
  imports JsDate
begin

text \<open>
  The conversions of dates in UTC that the fiscal services use: \<open>Date.UTC\<close>,
  \<open>toISOString\<close>, \<open>new Date(text)\<close> of a day in ISO form, and the query parameter
  of \<open>common/query-params.ts\<close>. The UTC getters are the local ones of
  \<open>JsDate\<close> at offset 0.
\<close>

definition ISO_DATE_LENGTH :: nat where
  "ISO_DATE_LENGTH = 10"

definition utcDate :: "int \<Rightarrow> int \<Rightarrow> int \<Rightarrow> date" where
  "utcDate y m d = newLocalDate 0 y m d"

definition isoYear :: "int \<Rightarrow> string" where
  "isoYear y = (if 0 \<le> y \<and> y \<le> 9999 then padStart 4 (CHR ''0'') (digitsOf y)
     else (if y < 0 then ''-'' else ''+'') @ padStart 6 (CHR ''0'') (digitsOf \<bar>y\<bar>))"

definition toISOString :: "date \<Rightarrow> string" where
  "toISOString t =
     (let ms = t mod msPerDay in
      isoYear (getFullYear 0 t) @ ''-'' @ pad2 (getMonth 0 t + 1) @ ''-'' @ pad2 (getDate 0 t) @ ''T'' @
      pad2 (ms div 3600000) @ '':'' @ pad2 (ms div 60000 mod 60) @ '':'' @ pad2 (ms div 1000 mod 60) @ ''.'' @
      padStart 3 (CHR ''0'') (digitsOf (ms mod 1000)) @ ''Z'')"

text \<open>
  A text \<open>YYYY-MM-DD\<close> is midnight UTC of that day; the engine takes any day from 1 to 31
  of a month from 1 to 12 and lets the extra days run into the next month.
\<close>

definition isIsoDay :: "string \<Rightarrow> bool" where
  "isIsoDay s = (length s = 10 \<and> list_all isDigit (take 4 s) \<and> s ! 4 = CHR ''-'' \<and>
     list_all isDigit (take 2 (drop 5 s)) \<and> s ! 7 = CHR ''-'' \<and> list_all isDigit (drop 8 s))"

definition dateOfIsoDay :: "string \<Rightarrow> js_date" where
  "dateOfIsoDay s =
     (let y = valueOf (take 4 s); m = valueOf (take 2 (drop 5 s)); d = valueOf (drop 8 s) in
      if 1 \<le> m \<and> m \<le> 12 \<and> 1 \<le> d \<and> d \<le> 31 then Some (makeDay y (m - 1) d * msPerDay) else None)"

subsection \<open>The text of a day\<close>

lemma localDay_0: "localDay 0 t = t div msPerDay"
  by (simp add: localDay_def)

lemma length_isoYear:
  assumes "0 \<le> y" "y \<le> 9999"
  shows "length (isoYear y) = 4"
  using assms digitsOf_length [of y 4] by (simp add: isoYear_def length_padStart)

lemma take_toISOString:
  assumes "0 \<le> getFullYear 0 t" "getFullYear 0 t \<le> 9999"
  shows "take 10 (toISOString t) =
    isoYear (getFullYear 0 t) @ ''-'' @ pad2 (getMonth 0 t + 1) @ ''-'' @ pad2 (getDate 0 t)"
  using length_isoYear [OF assms] pad2_props(1) arca_date_fields [of 0 t]
  by (simp add: toISOString_def Let_def)

lemma isoYear_digits: "0 \<le> y \<Longrightarrow> y \<le> 9999 \<Longrightarrow> list_all isDigit (isoYear y)"
  using digitsOf_isDigit [of y] by (auto simp: isoYear_def padStart_def list_all_iff isDigit_def)

lemma valueOf_isoYear: "0 \<le> y \<Longrightarrow> y \<le> 9999 \<Longrightarrow> valueOf (isoYear y) = y"
  by (simp add: isoYear_def)

end
