(* ===== verification/SalesBook.thy ===== *)
theory SalesBook
  imports TaxBreakdown UtcDate CreditNoteDraft "HOL-Library.Product_Lexorder"
begin

text \<open>
  The book of sales of a month, \<open>fiscal/sales-book.service.ts\<close>: one entry per
  authorised voucher, with the amounts of credit notes negated, and the totals of the month.
  The columns that the query reads are turned into numbers by \<open>decimals\<close>.
\<close>

record SalesBookClient =
  sbc_docType :: int
  sbc_docNumber :: string
  sbc_legalName :: "string option"

record SalesBookVoucherRow =
  sbr_id :: string
  sbr_voucherDate :: date
  sbr_voucherType :: int
  sbr_number :: int
  sbr_salesPoint :: int
  sbr_recipientDocType :: "int option"
  sbr_recipientDocNumber :: "string option"
  sbr_recipientName :: "string option"
  sbr_client :: "SalesBookClient option"
  sbr_qrData :: "string option"
  sbr_currency :: string
  sbr_exchangeRate :: number
  sbr_tributeAmount :: number
  sbr_totalAmount :: number
  sbr_cae :: "string option"
  sbr_items :: "TaxBreakdownItem list"

text \<open>A document type read from a QR may be NaN, the inner \<open>None\<close>.\<close>

record SalesBookEntry =
  sbe_voucherId :: string
  sbe_voucherDate :: string
  sbe_voucherType :: int
  sbe_voucherTypeName :: string
  sbe_salesPoint :: int
  sbe_number :: int
  sbe_recipientDocType :: "number option option"
  sbe_recipientDocNumber :: "string option"
  sbe_recipientName :: "string option"
  sbe_currency :: string
  sbe_exchangeRate :: number
  sbe_netAmount :: number
  sbe_exemptAmount :: number
  sbe_untaxedAmount :: number
  sbe_ivaByRate :: "(number \<times> number) list"
  sbe_ivaAmount :: number
  sbe_tributeAmount :: number
  sbe_totalAmount :: number
  sbe_cae :: "string option"

record SalesBookTotals =
  sbt_voucherCount :: nat
  sbt_netAmount :: number
  sbt_exemptAmount :: number
  sbt_untaxedAmount :: number
  sbt_ivaAmount :: number
  sbt_tributeAmount :: number
  sbt_totalAmount :: number

record SalesBook =
  sb_year :: int
  sb_month :: int
  sb_entries :: "SalesBookEntry list"
  sb_totals :: SalesBookTotals

subsection \<open>Entries\<close>

definition monthRange :: "int \<Rightarrow> int \<Rightarrow> date \<times> date" where
  "monthRange y m = (utcDate y (m - 1) 1, utcDate y m 1)"

fun firstPresent :: "'v option list \<Rightarrow> 'v option" where
  "firstPresent [] = None"
| "firstPresent (Some x # candidates) = Some x"
| "firstPresent (None # candidates) = firstPresent candidates"

definition rowQrRecipient :: "SalesBookVoucherRow \<Rightarrow> QrRecipient option" where
  "rowQrRecipient v = (if hasText (sbr_qrData v) then recipientFromQr (the (sbr_qrData v)) else None)"

definition resolveRecipient ::
  "SalesBookVoucherRow \<Rightarrow> number option option \<times> string option \<times> string option" where
  "resolveRecipient v =
     (let qr = rowQrRecipient v; client = sbr_client v in
      (firstPresent [map_option (\<lambda>n. Some (of_int n)) (sbr_recipientDocType v),
          map_option (\<lambda>c. Some (of_int (sbc_docType c))) client, map_option qrDocType qr],
       firstPresent [sbr_recipientDocNumber v, map_option sbc_docNumber client, map_option qrDocNumber qr],
       firstPresent [sbr_recipientName v, Option.bind client sbc_legalName]))"

definition taxView :: "SalesBookVoucherRow \<Rightarrow> TaxBreakdownVoucher" where
  "taxView v = \<lparr>tb_voucherType = sbr_voucherType v, tb_exchangeRate = Some (sbr_exchangeRate v),
     tb_items = sbr_items v\<rparr>"

definition signedPesos :: "SalesBookVoucherRow \<Rightarrow> number \<Rightarrow> number" where
  "signedPesos v amount =
     breakdownRound2 (js_mul (voucherSign (sbr_voucherType v)) (toPesos (taxView v) amount))"

definition signedIvaByRate :: "SalesBookVoucherRow \<Rightarrow> (number \<times> number) list" where
  "signedIvaByRate v =
     map (\<lambda>(rate, amount). (rate, breakdownRound2 (js_mul (voucherSign (sbr_voucherType v)) amount)))
       (sort_key (\<lambda>(rate, amount). - rate) (br_ivaByRate (breakDownVoucherTaxes (taxView v))))"

definition toEntry :: "SalesBookVoucherRow \<Rightarrow> SalesBookEntry" where
  "toEntry v =
     (let sign = voucherSign (sbr_voucherType v);
          signed = (\<lambda>amount. breakdownRound2 (js_mul sign amount));
          taxes = breakDownVoucherTaxes (taxView v);
          ivaByRate = signedIvaByRate v;
          (docType, docNumber, name) = resolveRecipient v in
      \<lparr>sbe_voucherId = sbr_id v, sbe_voucherDate = toISOString (sbr_voucherDate v),
       sbe_voucherType = sbr_voucherType v,
       sbe_voucherTypeName = orElse (voucherTypeName (sbr_voucherType v)) (intToString (sbr_voucherType v)),
       sbe_salesPoint = sbr_salesPoint v, sbe_number = sbr_number v,
       sbe_recipientDocType = docType, sbe_recipientDocNumber = docNumber, sbe_recipientName = name,
       sbe_currency = sbr_currency v, sbe_exchangeRate = sbr_exchangeRate v,
       sbe_netAmount = signed (br_netAmount taxes), sbe_exemptAmount = signed (br_exemptAmount taxes),
       sbe_untaxedAmount = signed (br_untaxedAmount taxes), sbe_ivaByRate = ivaByRate,
       sbe_ivaAmount = breakdownRound2 (foldl (\<lambda>total row. js_add total (snd row)) 0 ivaByRate),
       sbe_tributeAmount = signedPesos v (sbr_tributeAmount v),
       sbe_totalAmount = signedPesos v (sbr_totalAmount v), sbe_cae = sbr_cae v\<rparr>)"

definition sumOf :: "(SalesBookEntry \<Rightarrow> number) \<Rightarrow> SalesBookEntry list \<Rightarrow> number" where
  "sumOf pick entries = breakdownRound2 (foldl (\<lambda>total entry. js_add total (pick entry)) 0 entries)"

definition sumEntries :: "SalesBookEntry list \<Rightarrow> SalesBookTotals" where
  "sumEntries entries =
     \<lparr>sbt_voucherCount = length entries, sbt_netAmount = sumOf sbe_netAmount entries,
      sbt_exemptAmount = sumOf sbe_exemptAmount entries, sbt_untaxedAmount = sumOf sbe_untaxedAmount entries,
      sbt_ivaAmount = sumOf sbe_ivaAmount entries, sbt_tributeAmount = sumOf sbe_tributeAmount entries,
      sbt_totalAmount = sumOf sbe_totalAmount entries\<rparr>"

definition buildSalesBook :: "int \<Rightarrow> int \<Rightarrow> SalesBookVoucherRow list \<Rightarrow> SalesBook" where
  "buildSalesBook year month rows =
     (let entries = map toEntry rows in
      \<lparr>sb_year = year, sb_month = month, sb_entries = entries, sb_totals = sumEntries entries\<rparr>)"

subsection \<open>The query of a month\<close>

text \<open>
  The vouchers of the month that ARCA authorised, by date, type and number; the same filter
  is the one of the IVA position.
\<close>

definition inMonth :: "int \<Rightarrow> int \<Rightarrow> date \<Rightarrow> bool" where
  "inMonth y m t = (fst (monthRange y m) \<le> t \<and> t < snd (monthRange y m))"

definition authorizedInMonth :: "string \<Rightarrow> int \<Rightarrow> int \<Rightarrow> VoucherRow \<Rightarrow> bool" where
  "authorizedInMonth i y m v =
     (vd_issuerId (voucher_data v) = i \<and> vd_status (voucher_data v) \<in> set authorizedVoucherStatuses \<and>
      (case vd_voucherDate (voucher_data v) of None \<Rightarrow> False | Some t \<Rightarrow> inMonth y m t))"

definition bookOrder :: "VoucherRow \<Rightarrow> date \<times> int \<times> int" where
  "bookOrder v = (orElse (vd_voucherDate (voucher_data v)) 0, vd_voucherType (voucher_data v), vd_number (voucher_data v))"

definition breakdownItemOf :: "(number \<Rightarrow> number) \<Rightarrow> IssuedVoucherItemData \<Rightarrow> TaxBreakdownItem" where
  "breakdownItemOf decimals i = \<lparr>tb_ivaRate = decimals (vi_ivaRate i), tb_subtotal = decimals (vi_subtotal i),
     tb_taxTreatment = Some (vi_taxTreatment i)\<rparr>"

definition salesRowOf :: "(number \<Rightarrow> number) \<Rightarrow> 'a world \<Rightarrow> VoucherRow \<Rightarrow> SalesBookVoucherRow" where
  "salesRowOf decimals w v =
     (let d = voucher_data v in
      \<lparr>sbr_id = voucher_id v, sbr_voucherDate = orElse (vd_voucherDate d) 0, sbr_voucherType = vd_voucherType d,
       sbr_number = vd_number d,
       sbr_salesPoint = (case findRow (\<lambda>r. sp_id r = vd_salesPointId d) (salesPoints w) of
           Some r \<Rightarrow> sp_number r | None \<Rightarrow> 0),
       sbr_recipientDocType = Some (vd_recipientDocType d),
       sbr_recipientDocNumber = Some (vd_recipientDocNumber d), sbr_recipientName = vd_recipientName d,
       sbr_client = map_option (\<lambda>c. \<lparr>sbc_docType = client_docType c, sbc_docNumber = client_docNumber c,
           sbc_legalName = client_legalName c\<rparr>)
         (Option.bind (vd_clientId d) (\<lambda>i. findRow (\<lambda>c. client_id c = i) (clients w))),
       sbr_qrData = vd_qrData d, sbr_currency = vd_currency d, sbr_exchangeRate = decimals (vd_exchangeRate d),
       sbr_tributeAmount = decimals (vd_tributeAmount d), sbr_totalAmount = decimals (vd_totalAmount d),
       sbr_cae = vd_cae d, sbr_items = map (breakdownItemOf decimals) (vd_items d)\<rparr>)"

definition getMonthlyBook ::
  "'a ports \<Rightarrow> (number \<Rightarrow> number) \<Rightarrow> string \<Rightarrow> int \<Rightarrow> int \<Rightarrow> ('a, SalesBook) effect" where
  "getMonthlyBook p decimals i year month = table p (getA (\<lambda>w.
     buildSalesBook year month (map (salesRowOf decimals w)
       (sort_key bookOrder (filter (authorizedInMonth i year month) (vouchers w))))))"

end
