(* ===== verification/IvaPosition.thy ===== *)
theory IvaPosition
  imports SalesBook
begin

text \<open>
  The IVA position of a month, \<open>fiscal/iva-position.service.ts\<close>: the debit of the
  authorised vouchers against the credit of the purchase invoices, rate by rate.
\<close>

record IvaRateBreakdown =
  ib_rate :: number
  ib_debit :: number
  ib_credit :: number
  ib_balance :: number

record IvaPosition =
  ip_year :: int
  ip_month :: int
  ip_breakdown :: "IvaRateBreakdown list"
  ip_totalDebit :: number
  ip_totalCredit :: number
  ip_balance :: number

subsection \<open>Debit and credit\<close>

definition breakdownViewOf :: "(number \<Rightarrow> number) \<Rightarrow> VoucherRow \<Rightarrow> TaxBreakdownVoucher" where
  "breakdownViewOf decimals v = (let d = voucher_data v in
     \<lparr>tb_voucherType = vd_voucherType d, tb_exchangeRate = Some (decimals (vd_exchangeRate d)),
      tb_items = map (breakdownItemOf decimals) (vd_items d)\<rparr>)"

definition addVoucherDebit ::
  "(number, number) jsmap \<Rightarrow> TaxBreakdownVoucher \<Rightarrow> (number, number) jsmap" where
  "addVoucherDebit debit v =
     foldl (\<lambda>m (rate, iva). addTo m rate (js_mul (voucherSign (tb_voucherType v)) iva)) debit
       (br_ivaByRate (breakDownVoucherTaxes v))"

definition debitOf :: "TaxBreakdownVoucher list \<Rightarrow> (number, number) jsmap" where
  "debitOf vs = foldl addVoucherDebit [] vs"

definition computeDebit ::
  "'a ports \<Rightarrow> (number \<Rightarrow> number) \<Rightarrow> string \<Rightarrow> int \<Rightarrow> int \<Rightarrow> ('a, (number, number) jsmap) effect" where
  "computeDebit p decimals i y m = table p (getA (\<lambda>w.
     debitOf (map (breakdownViewOf decimals) (filter (authorizedInMonth i y m) (vouchers w)))))"

definition addNonZero :: "(number, number) jsmap \<Rightarrow> number \<Rightarrow> number \<Rightarrow> (number, number) jsmap" where
  "addNonZero m rate amount = (if amount \<noteq> 0 then addTo m rate amount else m)"

definition addPurchaseCredit ::
  "(number \<Rightarrow> number) \<Rightarrow> (number, number) jsmap \<Rightarrow> PurchaseInvoiceRow \<Rightarrow> (number, number) jsmap" where
  "addPurchaseCredit decimals credit r =
     (let sign = voucherSign (pi_invoiceType r); a = pi_amounts r in
      addNonZero (addNonZero (addNonZero credit 21 (js_mul sign (decimals (pa_iva21 a))))
        (21 / 2) (js_mul sign (decimals (pa_iva105 a)))) 27 (js_mul sign (decimals (pa_iva27 a))))"

definition creditOf :: "(number \<Rightarrow> number) \<Rightarrow> PurchaseInvoiceRow list \<Rightarrow> (number, number) jsmap" where
  "creditOf decimals rows = foldl (addPurchaseCredit decimals) [] rows"

definition purchaseInMonth :: "string \<Rightarrow> int \<Rightarrow> int \<Rightarrow> PurchaseInvoiceRow \<Rightarrow> bool" where
  "purchaseInMonth i y m r = (pi_issuerId r = i \<and> inMonth y m (pi_issueDate r))"

definition computeCredit ::
  "'a ports \<Rightarrow> (number \<Rightarrow> number) \<Rightarrow> string \<Rightarrow> int \<Rightarrow> int \<Rightarrow> ('a, (number, number) jsmap) effect" where
  "computeCredit p decimals i y m = table p (getA (\<lambda>w.
     creditOf decimals (filter (purchaseInMonth i y m) (purchaseInvoices w))))"

subsection \<open>The position\<close>

definition ratesOf :: "(number, number) jsmap \<Rightarrow> (number, number) jsmap \<Rightarrow> number list" where
  "ratesOf debit credit = sort_key (\<lambda>rate. - rate) (remdups (map fst debit @ map fst credit))"

definition rateRow :: "(number, number) jsmap \<Rightarrow> (number, number) jsmap \<Rightarrow> number \<Rightarrow> IvaRateBreakdown" where
  "rateRow debitByRate creditByRate rate =
     (let debit = breakdownRound2 (orElse (mapGet debitByRate rate) 0);
          credit = breakdownRound2 (orElse (mapGet creditByRate rate) 0) in
      \<lparr>ib_rate = rate, ib_debit = debit, ib_credit = credit, ib_balance = breakdownRound2 (js_sub debit credit)\<rparr>)"

definition positionOf ::
  "int \<Rightarrow> int \<Rightarrow> (number, number) jsmap \<Rightarrow> (number, number) jsmap \<Rightarrow> IvaPosition" where
  "positionOf year month debitByRate creditByRate =
     (let breakdown = map (rateRow debitByRate creditByRate) (ratesOf debitByRate creditByRate);
          totalDebit = breakdownRound2 (foldl (\<lambda>acc row. js_add acc (ib_debit row)) 0 breakdown);
          totalCredit = breakdownRound2 (foldl (\<lambda>acc row. js_add acc (ib_credit row)) 0 breakdown) in
      \<lparr>ip_year = year, ip_month = month, ip_breakdown = breakdown, ip_totalDebit = totalDebit,
       ip_totalCredit = totalCredit, ip_balance = breakdownRound2 (js_sub totalDebit totalCredit)\<rparr>)"

definition getMonthlyPosition ::
  "'a ports \<Rightarrow> (number \<Rightarrow> number) \<Rightarrow> string \<Rightarrow> int \<Rightarrow> int \<Rightarrow> ('a, IvaPosition) effect" where
  "getMonthlyPosition p decimals i year month =
     bindA (computeDebit p decimals i year month) (\<lambda>debit.
     bindA (computeCredit p decimals i year month) (\<lambda>credit.
     returnA (positionOf year month debit credit)))"

end
