(* ===== verification/FiscalProperties.thy ===== *)
theory FiscalProperties
  imports IvaPosition Samples "HOL-Library.Multiset"
begin

text \<open>
  What the fiscal books promise: the totals of the book of sales are exact, a credit note
  cancels the invoice it refers to, and the debit of the IVA position of a month is the IVA of
  its book of sales.
\<close>

subsection \<open>The amounts of the book\<close>

definition amountColumns :: "(SalesBookEntry \<Rightarrow> number) list" where
  "amountColumns = [sbe_netAmount, sbe_exemptAmount, sbe_untaxedAmount, sbe_ivaAmount, sbe_tributeAmount, sbe_totalAmount]"

definition totalColumns :: "(SalesBookTotals \<Rightarrow> number) list" where
  "totalColumns = [sbt_netAmount, sbt_exemptAmount, sbt_untaxedAmount, sbt_ivaAmount, sbt_tributeAmount, sbt_totalAmount]"

definition entriesInRange :: "SalesBookEntry list \<Rightarrow> bool" where
  "entriesInRange entries = (length entries \<le> 2000 \<and>
     list_all (\<lambda>pick. sum_list (map (\<lambda>e. \<bar>pick e\<bar>) entries) \<le> 5000000000) amountColumns)"

lemma toEntry_amounts:
  "sbe_netAmount (toEntry v) =
     breakdownRound2 (js_mul (voucherSign (sbr_voucherType v)) (br_netAmount (breakDownVoucherTaxes (taxView v))))"
  "sbe_exemptAmount (toEntry v) =
     breakdownRound2 (js_mul (voucherSign (sbr_voucherType v)) (br_exemptAmount (breakDownVoucherTaxes (taxView v))))"
  "sbe_untaxedAmount (toEntry v) =
     breakdownRound2 (js_mul (voucherSign (sbr_voucherType v)) (br_untaxedAmount (breakDownVoucherTaxes (taxView v))))"
  "sbe_ivaAmount (toEntry v) = breakdownRound2 (foldl (\<lambda>total row. js_add total (snd row)) 0 (signedIvaByRate v))"
  "sbe_tributeAmount (toEntry v) = signedPesos v (sbr_tributeAmount v)"
  "sbe_totalAmount (toEntry v) = signedPesos v (sbr_totalAmount v)"
  "sbe_ivaByRate (toEntry v) = signedIvaByRate v"
  by (cases "resolveRecipient v"; simp add: toEntry_def Let_def)+

lemma entry_in_cents:
  assumes "pick \<in> set amountColumns"
  shows "\<exists>k. pick (toEntry v) = cents k"
proof -
  have "pick \<in> {sbe_netAmount, sbe_exemptAmount, sbe_untaxedAmount, sbe_ivaAmount, sbe_tributeAmount, sbe_totalAmount}"
    using assms by (simp add: amountColumns_def)
  then have "pick (toEntry v) \<in> range breakdownRound2"
    unfolding insert_iff empty_iff
    by (elim disjE FalseE) (simp_all only: toEntry_amounts signedPesos_def rangeI)
  then obtain x where "pick (toEntry v) = breakdownRound2 x" by (rule rangeE)
  then show ?thesis using breakdownRound2_cents [of x] by simp
qed

lemma sumOf_list: "sumOf pick entries = breakdownRound2 (foldl js_add 0 (map pick entries))"
  by (simp only: sumOf_def foldl_pick [of pick])

lemma sumOf_exact:
  assumes pick: "pick \<in> set amountColumns" and range: "entriesInRange (map toEntry rows)"
  shows "\<exists>cs. map pick (map toEntry rows) = map cents cs \<and> sumOf pick (map toEntry rows) = cents (sum_list cs)"
proof -
  have "sum_list (map (\<lambda>e. \<bar>pick e\<bar>) (map toEntry rows)) \<le> 5000000000"
    using range pick unfolding entriesInRange_def list_all_iff by blast
  moreover have "map (\<lambda>e. \<bar>pick e\<bar>) (map toEntry rows) = map abs (map pick (map toEntry rows))" by simp
  ultimately have "sum_list (map abs (map pick (map toEntry rows))) \<le> 5000000000" by (simp only:)
  moreover have "\<exists>k. x = cents k" if "x \<in> set (map pick (map toEntry rows))" for x
  proof -
    obtain v where "x = pick (toEntry v)" using \<open>x \<in> _\<close> by auto
    then show ?thesis using entry_in_cents [OF pick, of v] by simp
  qed
  moreover have "length (map pick (map toEntry rows)) \<le> 2000" using range by (simp add: entriesInRange_def)
  ultimately have "\<exists>cs. map pick (map toEntry rows) = map cents cs \<and>
      breakdownRound2 (foldl js_add 0 (map pick (map toEntry rows))) = cents (sum_list cs) \<and>
      sum_list (map abs cs) \<le> 549755813888"
    by (intro rounded_sum)
  then show ?thesis unfolding sumOf_list by blast
qed

text \<open>
  Each total of the book of sales of a month is the exact sum, to the cent, of its
  column, for up to two thousand vouchers of some 5 000 million pesos together.
\<close>

lemma sales_book_totals:
  assumes "entriesInRange (map toEntry rows)"
  shows "list_all2 (\<lambda>pick total. \<exists>cs. map pick (sb_entries (buildSalesBook y m rows)) = map cents cs \<and>
      total (sb_totals (buildSalesBook y m rows)) = cents (sum_list cs)) amountColumns totalColumns"
  using sumOf_exact [OF _ assms]
  by (simp add: amountColumns_def totalColumns_def buildSalesBook_def sumEntries_def Let_def)

subsection \<open>A credit note cancels its invoice\<close>

definition invoiceInRange :: "SalesBookVoucherRow \<Rightarrow> bool" where
  "invoiceInRange v = (let t = breakDownVoucherTaxes (taxView v) in
     \<bar>br_netAmount t\<bar> \<le> 5000000000 \<and> \<bar>br_exemptAmount t\<bar> \<le> 5000000000 \<and> \<bar>br_untaxedAmount t\<bar> \<le> 5000000000 \<and>
     length (br_ivaByRate t) \<le> 2000 \<and> sum_list (map (\<lambda>e. \<bar>snd e\<bar>) (br_ivaByRate t)) \<le> 5000000000)"

lemma creditNote_sign:
  assumes "creditNoteTypeFor vt = Some ct"
  shows "voucherSign vt = 1" "voucherSign ct = - 1" "voucherLetter ct = voucherLetter vt"
proof -
  note pairs = creditNoteTypeFor_Some [OF assms]
  show "voucherSign vt = 1" "voucherSign ct = - 1"
    using pairs by (auto simp: voucherSign_def isCreditNote_def creditNoteTypes_def)
  show "voucherLetter ct = voucherLetter vt"
    using pairs unfolding insert_iff empty_iff prod.inject
    by (elim disjE conjE FalseE) (simp_all add: voucherLetter_cases)
qed

lemma creditNote_breakdown:
  assumes "creditNoteTypeFor (sbr_voucherType v) = Some (sbr_voucherType n)"
    and "sbr_items n = sbr_items v" "sbr_exchangeRate n = sbr_exchangeRate v"
  shows "breakDownVoucherTaxes (taxView n) = breakDownVoucherTaxes (taxView v)"
  using breakDown_letter [OF creditNote_sign(3) [OF assms(1)]] assms(2,3) by (simp add: taxView_def)

lemma breakdown_amount_cents:
  "\<exists>k. br_netAmount (breakDownVoucherTaxes v) = breakdownRound2 k"
  "\<exists>k. br_exemptAmount (breakDownVoucherTaxes v) = breakdownRound2 k"
  "\<exists>k. br_untaxedAmount (breakDownVoucherTaxes v) = breakdownRound2 k"
  "e \<in> set (br_ivaByRate (breakDownVoucherTaxes v)) \<Longrightarrow> \<exists>k. snd e = breakdownRound2 k"
  by (auto simp: breakDownVoucherTaxes_def Let_def)

lemma signed_amount:
  assumes "\<exists>k. a = breakdownRound2 k" "\<bar>a\<bar> \<le> 5000000000"
  shows "breakdownRound2 (js_mul 1 a) = a" "breakdownRound2 (js_mul (- 1) a) = - a"
  using assms signed_round_of_round by auto


text \<open>The rates of the entry and the sum of their IVA, for a sign that is 1 or -1.\<close>

lemma signed_rates:
  assumes "invoiceInRange v" "breakDownVoucherTaxes (taxView n) = breakDownVoucherTaxes (taxView v)"
    and "e \<in> set (br_ivaByRate (breakDownVoucherTaxes (taxView v)))"
  shows "breakdownRound2 (js_mul 1 (snd e)) = snd e" "breakdownRound2 (js_mul (- 1) (snd e)) = - snd e"
proof -
  let ?es = "br_ivaByRate (breakDownVoucherTaxes (taxView v))"
  have "sum_list (map (\<lambda>e. \<bar>snd e\<bar>) ?es) \<le> 5000000000" using assms(1) by (simp add: invoiceInRange_def Let_def)
  moreover have "\<bar>snd e\<bar> \<le> sum_list (map (\<lambda>e. \<bar>snd e\<bar>) ?es)"
    using assms(3) by (intro member_le_sum_list) auto
  ultimately have b: "\<bar>snd e\<bar> \<le> 5000000000" by linarith
  have "\<exists>k. snd e = breakdownRound2 k" by (rule breakdown_amount_cents(4) [OF assms(3)])
  from signed_amount [OF this b]
  show "breakdownRound2 (js_mul 1 (snd e)) = snd e" "breakdownRound2 (js_mul (- 1) (snd e)) = - snd e" .
qed

lemma signedIva_of_sign:
  assumes "invoiceInRange v" "breakDownVoucherTaxes (taxView n) = breakDownVoucherTaxes (taxView v)"
  shows "voucherSign (sbr_voucherType n) = 1 \<Longrightarrow> signedIvaByRate n =
      sort_key (\<lambda>(rate, amount). - rate) (br_ivaByRate (breakDownVoucherTaxes (taxView v)))"
    and "voucherSign (sbr_voucherType n) = - 1 \<Longrightarrow> signedIvaByRate n = map (\<lambda>(rate, amount). (rate, - amount))
      (sort_key (\<lambda>(rate, amount). - rate) (br_ivaByRate (breakDownVoucherTaxes (taxView v))))"
proof -
  let ?es = "sort_key (\<lambda>(rate, amount). - rate) (br_ivaByRate (breakDownVoucherTaxes (taxView v)))"
  have r: "breakdownRound2 (js_mul 1 a) = a" "breakdownRound2 (js_mul (- 1) a) = - a" if "(r, a) \<in> set ?es" for r a
    using signed_rates [OF assms, of "(r, a)"] that by simp_all
  show "signedIvaByRate n = ?es" if "voucherSign (sbr_voucherType n) = 1"
    unfolding signedIvaByRate_def that assms(2) using r(1) by (intro map_idI) auto
  show "signedIvaByRate n = map (\<lambda>(rate, amount). (rate, - amount)) ?es" if "voucherSign (sbr_voucherType n) = - 1"
    unfolding signedIvaByRate_def that assms(2) using r(2) by (intro map_cong) auto
qed

lemma iva_sum_negates:
  assumes "\<And>x. x \<in> set xs \<Longrightarrow> \<exists>k. x = cents k" "sum_list (map abs xs) \<le> 5000000000" "length xs \<le> 2000"
  shows "breakdownRound2 (foldl js_add 0 (map uminus xs)) = - breakdownRound2 (foldl js_add 0 xs)"
proof -
  obtain cs where cs: "xs = map cents cs" "breakdownRound2 (foldl js_add 0 xs) = cents (sum_list cs)"
    "sum_list (map abs cs) \<le> 549755813888" using rounded_sum [OF assms] by blast
  have "map uminus xs = map cents (map uminus cs)" by (simp add: cs(1) cents_uminus)
  moreover have "breakdownRound2 (foldl js_add 0 (map cents (map uminus cs))) = cents (sum_list (map uminus cs))"
    using assms(3) cs(1,3) by (intro fiscal_sum) (simp_all add: comp_def)
  moreover have "sum_list (map uminus cs) = - sum_list cs" by (induction cs) simp_all
  ultimately show ?thesis by (simp only: cs(2) cents_uminus)
qed


lemma signedPesos_local:
  assumes "sbr_exchangeRate v = 1" "cents_range t"
  shows "voucherSign (sbr_voucherType v) = 1 \<Longrightarrow> signedPesos v (cents t) = cents t"
    and "voucherSign (sbr_voucherType v) = - 1 \<Longrightarrow> signedPesos v (cents t) = - cents t"
proof -
  have "toPesos (taxView v) (cents t) = cents t" using assms(1) by (simp add: toPesos_def taxView_def js_mul_def cents_def)
  then show "voucherSign (sbr_voucherType v) = 1 \<Longrightarrow> signedPesos v (cents t) = cents t"
    "voucherSign (sbr_voucherType v) = - 1 \<Longrightarrow> signedPesos v (cents t) = - cents t"
    using fiscal.round_of_cents [of t] fiscal.round_of_cents [of "- t"] assms(2)
    by (simp_all add: signedPesos_def cents_uminus)
qed

lemma iva_amount_of_rates:
  assumes "invoiceInRange v" "breakDownVoucherTaxes (taxView n) = breakDownVoucherTaxes (taxView v)"
    and "voucherSign (sbr_voucherType v) = 1" "voucherSign (sbr_voucherType n) = - 1"
  shows "sbe_ivaAmount (toEntry n) = - sbe_ivaAmount (toEntry v)"
proof -
  let ?es = "sort_key (\<lambda>(rate, amount). - rate) (br_ivaByRate (breakDownVoucherTaxes (taxView v)))"
  have "map snd (signedIvaByRate n) = map uminus (map snd (signedIvaByRate v))"
    unfolding signedIva_of_sign(2) [OF assms(1,2,4)] signedIva_of_sign(1) [OF assms(1) refl assms(3)] by auto
  moreover have "breakdownRound2 (foldl js_add 0 (map uminus (map snd ?es))) = - breakdownRound2 (foldl js_add 0 (map snd ?es))"
  proof (rule iva_sum_negates)
    show "\<exists>k. x = cents k" if "x \<in> set (map snd ?es)" for x
      using that breakDown_rates_cents [of _ x "taxView v"] by auto
    have "mset (map (\<lambda>e. \<bar>snd e\<bar>) ?es) = mset (map (\<lambda>e. \<bar>snd e\<bar>) (br_ivaByRate (breakDownVoucherTaxes (taxView v))))"
      by simp
    then have "sum_list (map (\<lambda>e. \<bar>snd e\<bar>) ?es) = sum_list (map (\<lambda>e. \<bar>snd e\<bar>) (br_ivaByRate (breakDownVoucherTaxes (taxView v))))"
      by (metis sum_mset_sum_list)
    then show "sum_list (map abs (map snd ?es)) \<le> 5000000000" using assms(1)
      by (simp add: invoiceInRange_def Let_def comp_def)
    show "length (map snd ?es) \<le> 2000" using assms(1) by (simp add: invoiceInRange_def Let_def)
  qed
  ultimately show ?thesis
    unfolding toEntry_amounts foldl_pick [of snd] signedIva_of_sign(1) [OF assms(1) refl assms(3)] by simp
qed

lemma credit_note_opposite:
  assumes "creditNoteTypeFor (sbr_voucherType v) = Some (sbr_voucherType n)" "sbr_items n = sbr_items v"
    and "sbr_exchangeRate v = 1" "sbr_exchangeRate n = 1" "invoiceInRange v" "cents_range t" "cents_range u"
    and "sbr_totalAmount v = cents t" "sbr_tributeAmount v = cents u"
    and "sbr_totalAmount n = cents t" "sbr_tributeAmount n = cents u"
  shows "list_all (\<lambda>pick. pick (toEntry n) = - pick (toEntry v)) amountColumns"
    and "sbe_ivaByRate (toEntry n) = map (\<lambda>(rate, amount). (rate, - amount)) (sbe_ivaByRate (toEntry v))"
proof -
  note sign = creditNote_sign [OF assms(1)]
  have same: "breakDownVoucherTaxes (taxView n) = breakDownVoucherTaxes (taxView v)"
    using assms(1-4) by (intro creditNote_breakdown) simp_all
  have b: "\<bar>br_netAmount (breakDownVoucherTaxes (taxView v))\<bar> \<le> 5000000000"
    "\<bar>br_exemptAmount (breakDownVoucherTaxes (taxView v))\<bar> \<le> 5000000000"
    "\<bar>br_untaxedAmount (breakDownVoucherTaxes (taxView v))\<bar> \<le> 5000000000"
    using assms(5) by (simp_all add: invoiceInRange_def Let_def)
  note signed = signed_amount [OF breakdown_amount_cents(1) b(1)] signed_amount [OF breakdown_amount_cents(2) b(2)]
    signed_amount [OF breakdown_amount_cents(3) b(3)]
  have pesos: "signedPesos v (cents t) = cents t" "signedPesos n (cents t) = - cents t"
    "signedPesos v (cents u) = cents u" "signedPesos n (cents u) = - cents u"
    using signedPesos_local assms(3,4,6,7) sign by auto
  show "list_all (\<lambda>pick. pick (toEntry n) = - pick (toEntry v)) amountColumns"
    "sbe_ivaByRate (toEntry n) = map (\<lambda>(rate, amount). (rate, - amount)) (sbe_ivaByRate (toEntry v))"
    using iva_amount_of_rates [OF assms(5) same sign(1,2)] signedIva_of_sign [OF assms(5) same]
      signedIva_of_sign [OF assms(5) refl] assms(8-11) sign(1,2) pesos signed
    by (simp_all add: amountColumns_def toEntry_amounts same)
qed

text \<open>
  In the book of sales a credit note in pesos with the lines, tributes and total of
  an invoice cancels it: every amount of its entry, and the IVA of every rate, is the opposite
  of the one of the invoice.
\<close>

lemma credit_note_cancels:
  assumes "creditNoteTypeFor (sbr_voucherType v) = Some (sbr_voucherType n)" "sbr_items n = sbr_items v"
    and "sbr_exchangeRate v = 1" "sbr_exchangeRate n = 1" "invoiceInRange v" "cents_range t" "cents_range u"
    and "sbr_totalAmount v = cents t" "sbr_tributeAmount v = cents u"
    and "sbr_totalAmount n = cents t" "sbr_tributeAmount n = cents u"
  shows "list_all (\<lambda>pick. pick (toEntry n) = - pick (toEntry v)) amountColumns \<and>
    sbe_ivaByRate (toEntry n) = map (\<lambda>(rate, amount). (rate, - amount)) (sbe_ivaByRate (toEntry v))"
  using credit_note_opposite [OF assms] by (rule conjI)


subsection \<open>The position and the book\<close>

text \<open>The signed IVA of a voucher by rate, as both services add it up.\<close>

definition signedTaxes :: "TaxBreakdownVoucher \<Rightarrow> (number \<times> number) list" where
  "signedTaxes v = map (\<lambda>(rate, iva). (rate, js_mul (voucherSign (tb_voucherType v)) iva))
     (br_ivaByRate (breakDownVoucherTaxes v))"

definition addAll :: "(number \<times> number) list \<Rightarrow> (number, number) jsmap" where
  "addAll es = foldl (\<lambda>m (rate, a). addTo m rate a) [] es"

lemma debitOf_addAll: "debitOf vs = addAll (concat (map signedTaxes vs))"
proof -
  have step: "addVoucherDebit m v = foldl (\<lambda>m (rate, a). addTo m rate a) m (signedTaxes v)" for m v
    by (simp add: addVoucherDebit_def signedTaxes_def foldl_map case_prod_unfold)
  have "foldl addVoucherDebit m vs = foldl (\<lambda>m (rate, a). addTo m rate a) m (concat (map signedTaxes vs))" for m
    by (induction vs arbitrary: m) (simp_all add: step)
  then show ?thesis by (simp add: debitOf_def addAll_def)
qed

lemma addAll_get:
  "orElse (mapGet (foldl (\<lambda>m (rate, a). addTo m rate a) m es) r) 0 =
     foldl js_add (orElse (mapGet m r) 0) (map snd (filter (\<lambda>e. fst e = r) es))"
  by (induction es arbitrary: m) (auto simp: addTo_def)

lemma addAll_keys: "fst ` set (addAll es) = fst ` set es"
proof -
  have "fst ` set (foldl (\<lambda>m (rate, a). addTo m rate a) m es) = fst ` set m \<union> fst ` set es" for m
  proof (induction es arbitrary: m)
    case (Cons e es)
    have "fst ` set (addTo m (fst e) (snd e)) = insert (fst e) (fst ` set m)"
      using addTo_keys [of m "fst e" "snd e"] by simp
    then show ?case using Cons [of "addTo m (fst e) (snd e)"] by (simp add: case_prod_beta)
  qed simp
  then show ?thesis by (simp add: addAll_def)
qed

lemma addAll_distinct: "distinct (map fst (addAll es))"
proof (induction es rule: rev_induct)
  case (snoc e es)
  then show ?case using addTo_distinct [of "addAll es" "fst e" "snd e"] by (simp add: addAll_def case_prod_beta)
qed (simp add: addAll_def)

lemma addAll_row: "orElse (mapGet (addAll es) r) 0 = foldl js_add 0 (map snd (filter (\<lambda>e. fst e = r) es))"
  using addAll_get [of "[]" es r] by (simp add: addAll_def)

lemma signedTaxes_cents:
  assumes "e \<in> set (signedTaxes v)"
  shows "\<exists>k. snd e = cents k"
proof -
  obtain r a where a: "(r, a) \<in> set (br_ivaByRate (breakDownVoucherTaxes v))"
    "snd e = js_mul (voucherSign (tb_voucherType v)) a" using assms by (auto simp: signedTaxes_def)
  obtain k where "a = cents k" using breakDown_rates_cents [OF a(1)] by blast
  then have "snd e = cents (- k) \<or> snd e = cents k" using a(2) by (simp add: voucherSign_def split: if_splits)
  then show ?thesis by blast
qed

text \<open>A list of amounts with rates, in cents, and the sums of its groups.\<close>

definition ivaCents :: "(number \<times> int) list \<Rightarrow> number \<Rightarrow> int list" where
  "ivaCents ks r = map snd (filter (\<lambda>e. fst e = r) ks)"

definition centsByRate :: "(number \<times> int) list \<Rightarrow> (number \<times> number) list" where
  "centsByRate ks = map (\<lambda>(r, k). (r, cents k)) ks"

lemma filter_abs_le:
  "sum_list (map abs (ivaCents ks r)) \<le> sum_list (map (\<lambda>e. \<bar>snd e\<bar>) ks)"
  by (induction ks) (auto simp: ivaCents_def)

lemma row_cents:
  assumes "sum_list (map (\<lambda>e. \<bar>snd e\<bar>) ks) \<le> 549755813888" "length ks \<le> 2000"
  shows "breakdownRound2 (orElse (mapGet (addAll (centsByRate ks)) r) 0) = cents (sum_list (ivaCents ks r))"
proof -
  have "map snd (filter (\<lambda>e. fst e = r) (centsByRate ks)) = map cents (ivaCents ks r)"
    by (induction ks) (auto simp: centsByRate_def ivaCents_def)
  moreover have "length (ivaCents ks r) \<le> 2000"
    using assms(2) le_trans [OF length_filter_le] by (simp add: ivaCents_def)
  moreover have "sum_list (map abs (ivaCents ks r)) \<le> 549755813888" using filter_abs_le [of ks r] assms(1) by linarith
  ultimately show ?thesis by (simp add: addAll_row fiscal_sum)
qed

lemma groups_sum:
  assumes "distinct rs" "fst ` set ks \<subseteq> set rs"
  shows "sum_list (map (\<lambda>r. sum_list (ivaCents ks r)) rs) = sum_list (map snd ks)"
    and "sum_list (map (\<lambda>r. \<bar>sum_list (ivaCents ks r)\<bar>) rs) \<le> sum_list (map (\<lambda>e. \<bar>snd e\<bar>) ks)"
proof -
  have keys: "fst ` {e \<in> set ks. True} \<subseteq> set rs" using assms(2) by simp
  show "sum_list (map (\<lambda>r. sum_list (ivaCents ks r)) rs) = sum_list (map snd ks)"
    using sum_list_groups [OF assms(1) keys, of snd] by (simp add: ivaCents_def)
  have "sum_list (map (\<lambda>r. \<bar>sum_list (ivaCents ks r)\<bar>) rs) \<le> sum_list (map (\<lambda>r. sum_list (map abs (ivaCents ks r))) rs)"
    by (intro sum_list_mono sum_list_abs)
  also have "\<dots> = sum_list (map (\<lambda>e. \<bar>snd e\<bar>) ks)"
    using sum_list_groups [OF assms(1) keys, of "\<lambda>e. \<bar>snd e\<bar>"] by (simp add: ivaCents_def comp_def)
  finally show "sum_list (map (\<lambda>r. \<bar>sum_list (ivaCents ks r)\<bar>) rs) \<le> sum_list (map (\<lambda>e. \<bar>snd e\<bar>) ks)" .
qed

lemma total_debit_cents:
  assumes "sum_list (map (\<lambda>e. \<bar>snd e\<bar>) ks) \<le> 549755813888" "length ks \<le> 1990" "length credit \<le> 10"
  shows "ip_totalDebit (positionOf y m (addAll (centsByRate ks)) credit) = cents (sum_list (map snd ks))"
proof -
  let ?rs = "ratesOf (addAll (centsByRate ks)) credit"
  have rs: "distinct ?rs" "fst ` set ks \<subseteq> set ?rs"
    using addAll_keys [of "centsByRate ks"] by (auto simp: ratesOf_def centsByRate_def image_image case_prod_beta)
  have "length ?rs \<le> 2000"
  proof -
    have "distinct (map fst (addAll (centsByRate ks)))" by (rule addAll_distinct)
    then have "length (addAll (centsByRate ks)) = card (fst ` set ks)"
      using addAll_keys [of "centsByRate ks"] distinct_card [of "map fst (addAll (centsByRate ks))"]
      by (simp add: centsByRate_def image_image case_prod_beta)
    also have "\<dots> \<le> length ks" by (metis card_length length_map list.set_map)
    finally show ?thesis using assms(2,3) length_remdups_leq [of "map fst (addAll (centsByRate ks)) @ map fst credit"]
      by (simp add: ratesOf_def)
  qed
  then have "breakdownRound2 (foldl js_add 0 (map cents (map (\<lambda>r. sum_list (ivaCents ks r)) ?rs))) =
      cents (sum_list (map snd ks))"
    using groups_sum [OF rs] assms(1) by (subst fiscal_sum) (simp_all add: comp_def)
  moreover have "length ks \<le> 2000" using assms(2) by simp
  ultimately show ?thesis
    by (simp add: positionOf_def Let_def foldl_pick [of ib_debit] rateRow_def row_cents [OF assms(1)] comp_def)
qed


lemma sum_list_mset: "mset xs = mset ys \<Longrightarrow> sum_list (map f xs) = sum_list (map f ys)" for f :: "'b \<Rightarrow> int"
  by (metis mset_map sum_mset_sum_list)

text \<open>The IVA of an entry, with \<open>c\<close> the cents of each amount.\<close>

lemma signedIva_mset:
  assumes "\<And>e. e \<in> set (signedTaxes (taxView v)) \<Longrightarrow> breakdownRound2 (snd e) = snd e"
  shows "mset (map snd (signedIvaByRate v)) = mset (map snd (signedTaxes (taxView v)))"
proof -
  let ?s = "voucherSign (sbr_voucherType v)" and ?es = "br_ivaByRate (breakDownVoucherTaxes (taxView v))"
  let ?sorted = "sort_key (\<lambda>(rate, amount). - rate) ?es"
  have t: "tb_voucherType (taxView v) = sbr_voucherType v" by (simp add: taxView_def)
  have "breakdownRound2 (js_mul ?s (snd e)) = js_mul ?s (snd e)" if "e \<in> set ?es" for e
    using assms [of "(fst e, js_mul ?s (snd e))"] that by (force simp: signedTaxes_def t)
  then have "map snd (signedIvaByRate v) = map (\<lambda>e. js_mul ?s (snd e)) ?sorted"
    by (auto simp: signedIvaByRate_def)
  then have "mset (map snd (signedIvaByRate v)) = mset (map (\<lambda>e. js_mul ?s (snd e)) ?es)" by simp
  then show ?thesis by (simp add: signedTaxes_def t comp_def case_prod_beta)
qed

lemma iva_entry:
  assumes c: "\<And>e. e \<in> set (signedTaxes (taxView v)) \<Longrightarrow> snd e = cents (c (snd e)) \<and> cents_range (c (snd e))"
    and "sum_list (map (\<lambda>e. \<bar>c (snd e)\<bar>) (signedTaxes (taxView v))) \<le> 549755813888"
    and "length (signedTaxes (taxView v)) \<le> 2000"
  shows "sbe_ivaAmount (toEntry v) = cents (sum_list (map (\<lambda>e. c (snd e)) (signedTaxes (taxView v))))"
proof -
  let ?xs = "map snd (signedIvaByRate v)" and ?ys = "map snd (signedTaxes (taxView v))"
  have m: "mset ?xs = mset ?ys" using c fiscal.round_of_cents by (intro signedIva_mset) metis
  have "x = cents (c x)" if "x \<in> set ?xs" for x using c that mset_eq_setD [OF m] by auto
  then have xs: "?xs = map cents (map c ?xs)" by (auto simp: map_idI)
  have "sum_list (map abs (map c ?xs)) = sum_list (map (\<lambda>x. \<bar>c x\<bar>) ?ys)"
    using sum_list_mset [OF m, of "\<lambda>x. \<bar>c x\<bar>"] by (simp add: comp_def)
  then have "sum_list (map abs (map c ?xs)) \<le> 549755813888" using assms(2) by (simp add: comp_def)
  moreover have "length (map c ?xs) \<le> 2000" using assms(3) mset_eq_length [OF m] by simp
  ultimately have "breakdownRound2 (foldl js_add 0 ?xs) = cents (sum_list (map c ?xs))"
    using fiscal_sum [of "map c ?xs"] xs by metis
  then show ?thesis
    using sum_list_mset [OF m, of c] by (simp add: toEntry_amounts foldl_pick [of snd] comp_def)
qed

lemma sum_concat: "sum_list (map f (concat (map g xs))) = sum_list (map (\<lambda>x. sum_list (map f (g x))) xs)"
  for f :: "'b \<Rightarrow> int"
  by (induction xs) simp_all

lemma book_iva_cents:
  assumes c: "\<And>v e. v \<in> set rows \<Longrightarrow> e \<in> set (signedTaxes (taxView v)) \<Longrightarrow> snd e = cents (c (snd e)) \<and> cents_range (c (snd e))"
    and bound: "sum_list (map (\<lambda>e. \<bar>c (snd e)\<bar>) (concat (map (\<lambda>v. signedTaxes (taxView v)) rows))) \<le> 549755813888"
    and len: "length rows \<le> 2000" "\<And>v. v \<in> set rows \<Longrightarrow> length (signedTaxes (taxView v)) \<le> 2000"
  shows "sbt_ivaAmount (sb_totals (buildSalesBook y m rows)) =
    cents (sum_list (map (\<lambda>e. c (snd e)) (concat (map (\<lambda>v. signedTaxes (taxView v)) rows))))"
proof -
  let ?S = "\<lambda>v. sum_list (map (\<lambda>e. c (snd e)) (signedTaxes (taxView v)))"
  let ?A = "\<lambda>v. sum_list (map (\<lambda>e. \<bar>c (snd e)\<bar>) (signedTaxes (taxView v)))"
  have A: "sum_list (map ?A rows) \<le> 549755813888" using bound by (simp only: sum_concat)
  have A0: "0 \<le> ?A v" for v by (intro sum_list_nonneg) auto
  have "?A v \<le> 549755813888" if "v \<in> set rows" for v
    using member_le_sum_list [of "?A v" "map ?A rows"] that A A0 by fastforce
  then have "map sbe_ivaAmount (map toEntry rows) = map cents (map ?S rows)"
    using iva_entry [OF c] len(2) by simp
  moreover have "\<bar>?S v\<bar> \<le> ?A v" for v
    using sum_list_abs [of "map (\<lambda>e. c (snd e)) (signedTaxes (taxView v))"] by (simp add: comp_def)
  then have "sum_list (map abs (map ?S rows)) \<le> sum_list (map ?A rows)"
    by (simp add: comp_def sum_list_mono)
  ultimately have "breakdownRound2 (foldl js_add 0 (map sbe_ivaAmount (map toEntry rows))) = cents (sum_list (map ?S rows))"
    using fiscal_sum [of "map ?S rows"] A len(1) by (simp del: map_map)
  then show ?thesis
    by (simp add: buildSalesBook_def Let_def sumEntries_def sumOf_list sum_concat)
qed

lemma creditOf_length: "length (creditOf decimals rows) \<le> 10"
proof -
  have step: "distinct (map fst (addNonZero m r a)) \<and> fst ` set (addNonZero m r a) \<subseteq> {21, 21 / 2, 27}"
    if "distinct (map fst m) \<and> fst ` set m \<subseteq> {21, 21 / 2, 27}" "r \<in> {21, 21 / 2, 27}" for m r a
    using that addTo_distinct [of m r a] addTo_keys [of m r a] by (auto simp: addNonZero_def)
  have "distinct (map fst (foldl (addPurchaseCredit decimals) m rows)) \<and>
      fst ` set (foldl (addPurchaseCredit decimals) m rows) \<subseteq> {21, 21 / 2, 27}"
    if "distinct (map fst m) \<and> fst ` set m \<subseteq> {21, 21 / 2, 27}" for m
    using that
  proof (induction rows arbitrary: m)
    case (Cons r rows)
    have "distinct (map fst (addPurchaseCredit decimals m r)) \<and> fst ` set (addPurchaseCredit decimals m r) \<subseteq> {21, 21 / 2, 27}"
      unfolding addPurchaseCredit_def Let_def by (intro step Cons.prems) simp_all
    then show ?case using Cons.IH by simp
  qed simp
  from this [of "[]"] have d: "distinct (map fst (creditOf decimals rows))"
    "fst ` set (creditOf decimals rows) \<subseteq> {21, 21 / 2, 27}" by (simp_all add: creditOf_def)
  have "length (creditOf decimals rows) = card (fst ` set (creditOf decimals rows))"
    using distinct_card [OF d(1)] by simp
  also have "\<dots> \<le> card {21, 21 / 2, 27 :: number}" using d(2) by (intro card_mono) simp_all
  also have "\<dots> \<le> 10" by simp
  finally show ?thesis .
qed


definition taxesInRange :: "TaxBreakdownVoucher list \<Rightarrow> bool" where
  "taxesInRange vs = (length vs \<le> 2000 \<and> length (concat (map signedTaxes vs)) \<le> 1990 \<and>
     sum_list (map (\<lambda>e. \<bar>snd e\<bar>) (concat (map signedTaxes vs))) \<le> 5000000000)"

text \<open>The cents of the amounts of a month, as a function of the amount.\<close>

lemma taxes_have_cents:
  assumes "taxesInRange vs"
  shows "\<exists>c. (\<forall>e\<in>set (concat (map signedTaxes vs)). snd e = cents (c (snd e)) \<and> cents_range (c (snd e))) \<and>
    sum_list (map (\<lambda>e. \<bar>c (snd e)\<bar>) (concat (map signedTaxes vs))) \<le> 549755813888"
proof -
  let ?xs = "map snd (concat (map signedTaxes vs))"
  have "\<exists>k. x = cents k" if "x \<in> set ?xs" for x using that signedTaxes_cents by force
  moreover have "sum_list (map abs ?xs) \<le> 5000000000" using assms by (simp add: taxesInRange_def comp_def)
  moreover have "length ?xs \<le> 2000" using assms by (simp add: taxesInRange_def)
  ultimately obtain cs where cs: "?xs = map cents cs" "sum_list (map abs cs) \<le> 549755813888"
    using amounts_in_cents [of ?xs] by blast
  have range: "cents_range k" if "k \<in> set cs" for k
  proof -
    have "\<bar>k\<bar> \<le> sum_list (map abs cs)" using that by (intro member_le_sum_list) auto
    then show ?thesis using cs(2) by (simp add: cents_range_def)
  qed
  define c where "c x = (SOME k. x = cents k \<and> cents_range k)" for x
  have c: "c (cents k) = k" if "k \<in> set cs" for k
    unfolding c_def using range [OF that] cents_inj by (intro some_equality) blast+
  then have "map c ?xs = cs" by (simp add: cs(1) map_idI)
  moreover have "map (\<lambda>e. \<bar>c (snd e)\<bar>) (concat (map signedTaxes vs)) = map abs (map c ?xs)"
    unfolding list.map_comp comp_def ..
  ultimately have "sum_list (map (\<lambda>e. \<bar>c (snd e)\<bar>) (concat (map signedTaxes vs))) \<le> 549755813888"
    using cs(2) by (simp only:)
  moreover have "snd e = cents (c (snd e)) \<and> cents_range (c (snd e))" if "e \<in> set (concat (map signedTaxes vs))" for e
  proof -
    have "snd e \<in> set (map cents cs)" using that unfolding cs(1) [symmetric] by force
    then obtain k where "snd e = cents k" "k \<in> set cs" by auto
    then show ?thesis using c range by simp
  qed
  ultimately show ?thesis by blast
qed

lemma debit_is_book:
  assumes range: "taxesInRange (map taxView rows)" and same: "mset rows' = mset rows" and credit: "length credit \<le> 10"
  shows "ip_totalDebit (positionOf y m (debitOf (map taxView rows)) credit) =
    sbt_ivaAmount (sb_totals (buildSalesBook y' m' rows'))"
proof -
  let ?taxes = "\<lambda>rs. concat (map (\<lambda>v. signedTaxes (taxView v)) rs)"
  have taxes: "concat (map signedTaxes (map taxView rows)) = ?taxes rows" by (simp add: comp_def)
  obtain c where c: "\<And>e. e \<in> set (?taxes rows) \<Longrightarrow> snd e = cents (c (snd e)) \<and> cents_range (c (snd e))"
    "sum_list (map (\<lambda>e. \<bar>c (snd e)\<bar>) (?taxes rows)) \<le> 549755813888"
    using taxes_have_cents [OF range] unfolding taxes by blast
  let ?ks = "map (\<lambda>e. (fst e, c (snd e))) (?taxes rows)"
  have ks: "centsByRate ?ks = ?taxes rows"
    using c(1) unfolding centsByRate_def list.map_comp by (intro map_idI) (simp add: prod_eq_iff)
  have len: "length ?ks \<le> 1990" "length rows \<le> 2000" using range taxes by (simp_all add: taxesInRange_def)
  have "sum_list (map (\<lambda>e. \<bar>snd e\<bar>) ?ks) \<le> 549755813888" using c(2) by (simp add: comp_def)
  from total_debit_cents [OF this len(1) credit, unfolded ks]
  have "ip_totalDebit (positionOf y m (debitOf (map taxView rows)) credit) = cents (sum_list (map (\<lambda>e. c (snd e)) (?taxes rows)))"
    unfolding debitOf_addAll taxes by (simp add: comp_def)
  moreover have perm: "sum_list (map f (?taxes rows')) = sum_list (map f (?taxes rows))" for f :: "number \<times> number \<Rightarrow> int"
    unfolding sum_concat using sum_list_mset [OF same] by blast
  have "sbt_ivaAmount (sb_totals (buildSalesBook y' m' rows')) = cents (sum_list (map (\<lambda>e. c (snd e)) (?taxes rows')))"
  proof (rule book_iva_cents)
    show "snd e = cents (c (snd e)) \<and> cents_range (c (snd e))" if "v \<in> set rows'" "e \<in> set (signedTaxes (taxView v))" for v e
    proof -
      have "e \<in> set (?taxes rows)" using that mset_eq_setD [OF same] by auto
      then show ?thesis by (rule c(1))
    qed
    show "sum_list (map (\<lambda>e. \<bar>c (snd e)\<bar>) (?taxes rows')) \<le> 549755813888" unfolding perm by (rule c(2))
    show "length rows' \<le> 2000" using len(2) mset_eq_length [OF same] by simp
    show "length (signedTaxes (taxView v)) \<le> 2000" if "v \<in> set rows'" for v
    proof -
      have "v \<in> set rows" using that mset_eq_setD [OF same] by simp
      then have "length (signedTaxes (taxView v)) \<le> sum_list (map (\<lambda>v. length (signedTaxes (taxView v))) rows)"
        by (intro member_le_sum_list) auto
      then show ?thesis using len(1) by (simp add: length_concat comp_def)
    qed
  qed
  ultimately show ?thesis by (simp only: perm)
qed

text \<open>
  Property C15. The debit of the IVA position of a month is, to the cent, the IVA total of the
  book of sales of the same month: two services that add the same taxes in different orders and
  groups agree.
\<close>

theorem position_matches_book:
  assumes "getMonthlyPosition p decimals i y m w = (Inr pos, w1)" "getMonthlyBook p decimals i y m w' = (Inr book, w2)"
    and "vouchers w' = vouchers w"
    and "taxesInRange (map (breakdownViewOf decimals) (filter (authorizedInMonth i y m) (vouchers w)))"
  shows "ip_totalDebit pos = sbt_ivaAmount (sb_totals book)"
proof -
  let ?rows = "map (salesRowOf decimals w') (filter (authorizedInMonth i y m) (vouchers w))"
  have view: "taxView (salesRowOf decimals w' v) = breakdownViewOf decimals v" for v
    by (simp add: taxView_def salesRowOf_def breakdownViewOf_def Let_def)
  have rows: "map taxView ?rows = map (breakdownViewOf decimals) (filter (authorizedInMonth i y m) (vouchers w))"
    by (simp add: view comp_def)
  have "salesRowOf decimals (w'\<lparr>outside := s\<rparr>) = salesRowOf decimals w'" for s
    by (rule ext) (simp add: salesRowOf_def)
  then have book: "book = buildSalesBook y m (map (salesRowOf decimals w')
      (sort_key bookOrder (filter (authorizedInMonth i y m) (vouchers w))))"
    using assms(2,3) by (auto simp: getMonthlyBook_def table_Inr getA_def)
  have "\<exists>credit. length credit \<le> 10 \<and> pos = positionOf y m (debitOf (map taxView ?rows)) credit"
    using assms(1) creditOf_length unfolding rows
    by (auto simp: getMonthlyPosition_def computeDebit_def computeCredit_def bindA_def returnA_def table_Inr getA_def
        split: prod.splits sum.splits)
  then obtain credit where pos: "length credit \<le> 10" "pos = positionOf y m (debitOf (map taxView ?rows)) credit" by blast
  have "mset (map (salesRowOf decimals w') (sort_key bookOrder (filter (authorizedInMonth i y m) (vouchers w)))) = mset ?rows"
    by simp
  from debit_is_book [OF assms(4) [folded rows] this pos(1), of y m y m]
  show ?thesis unfolding book pos(2) .
qed


subsection \<open>A month with an invoice and its credit note\<close>

definition fiscalItems :: "TaxBreakdownItem list" where
  "fiscalItems = [\<lparr>tb_ivaRate = 21, tb_subtotal = cents 12100, tb_taxTreatment = Some ''TAXED''\<rparr>,
     \<lparr>tb_ivaRate = 0, tb_subtotal = cents 500, tb_taxTreatment = Some ''EXEMPT''\<rparr>]"

definition fiscalRow :: "int \<Rightarrow> SalesBookVoucherRow" where
  "fiscalRow vt = \<lparr>sbr_id = ''v'', sbr_voucherDate = 1700000000000, sbr_voucherType = vt, sbr_number = 1,
     sbr_salesPoint = 3, sbr_recipientDocType = Some 99, sbr_recipientDocNumber = Some ''0'',
     sbr_recipientName = None, sbr_client = None, sbr_qrData = None, sbr_currency = ''PES'',
     sbr_exchangeRate = 1, sbr_tributeAmount = cents 100, sbr_totalAmount = cents 12700, sbr_cae = None,
     sbr_items = fiscalItems\<rparr>"

lemma fiscal_sums:
  "breakdownRound2 (js_add 0 (js_div (cents 12100) (js_add 1 (js_div 21 100)))) = cents 10000"
  "breakdownRound2 (js_add 0 (js_sub (cents 12100) (js_div (cents 12100) (js_add 1 (js_div 21 100))))) = cents 2100"
  "breakdownRound2 (js_add 0 (cents 500)) = cents 500" "breakdownRound2 0 = 0"
proof -
  let ?b = "js_div (cents 12100) (js_add 1 (js_div 21 100))"
  have id: "js_add 0 (js_div x y) = js_div x y" "js_add 0 (js_sub x y) = js_sub x y" "js_add 0 (cents n) = cents n" for x y n
    by (simp_all add: js_add_def js_div_def js_sub_def cents_def)
  have b: "\<bar>?b - 100\<bar> \<le> 1 / 100000"
    using base_err [of 21 12100] by (simp add: rate_ok_def exactBase_def)
  have c: "\<bar>cents 12100 - 121\<bar> \<le> 1 / 1000000" using cents_err_signed [of 12100] by simp
  have "\<bar>cents 12100 - ?b\<bar> \<le> 1000" using b c by linarith
  from fl_err [OF this] b c have d: "\<bar>js_sub (cents 12100) ?b - 21\<bar> \<le> 49 / 10000"
    unfolding js_sub_def by linarith
  show "breakdownRound2 (js_add 0 ?b) = cents 10000" "breakdownRound2 (js_add 0 (js_sub (cents 12100) ?b)) = cents 2100"
    unfolding id using b d by (intro fiscal.round_near; simp add: cents_range_def)+
  show "breakdownRound2 (js_add 0 (cents 500)) = cents 500" "breakdownRound2 0 = 0"
    unfolding id by (simp_all add: fiscal.round_of_cents fiscal.round_0 cents_range_def)
qed

lemma fiscal_breakdown:
  assumes "voucherLetter vt = ''B''"
  shows "breakDownVoucherTaxes (taxView (fiscalRow vt)) =
    \<lparr>br_netAmount = cents 10000, br_exemptAmount = cents 500, br_untaxedAmount = 0,
     br_ivaByRate = [(21, cents 2100)]\<rparr>"
proof -
  have one: "js_mul (cents n) 1 = cents n" for n by (simp add: js_mul_def cents_def)
  show ?thesis
    by (simp add: breakDownVoucherTaxes_def breakDownItem_def taxView_def fiscalRow_def fiscalItems_def assms
        bearsIva_def toPesos_def one addTo_def mapGet_def Let_def fiscal_sums)
qed

lemma cents_small: "\<bar>n\<bar> \<le> 100000 \<Longrightarrow> cents_range n \<and> \<bar>cents n\<bar> \<le> 5000"
proof -
  assume n: "\<bar>n\<bar> \<le> 100000"
  then have "of_int \<bar>n\<bar> \<le> (of_int 100000 :: rat)" by (simp only: of_int_le_iff)
  then have "\<bar>of_int n / 100 :: rat\<bar> \<le> 1000" by simp
  moreover from fl_err [OF this] have "\<bar>cents n - of_int n / 100\<bar> \<le> 1" by (simp add: cents_def)
  ultimately show ?thesis using n by (simp add: cents_range_def)
qed

lemma fiscal_invoiceInRange: "invoiceInRange (fiscalRow FACTURA_B)"
proof -
  have "voucherLetter FACTURA_B = ''B''" by (simp add: voucherLetter_cases)
  from fiscal_breakdown [OF this] show ?thesis
    using cents_small [of 10000] cents_small [of 500] cents_small [of 2100]
    by (simp add: invoiceInRange_def Let_def)
qed

lemma credit_note_columns:
  "list_all (\<lambda>pick. pick (toEntry (fiscalRow NOTA_CREDITO_B)) = - pick (toEntry (fiscalRow FACTURA_B))) amountColumns"
  using cents_small [of 12700] cents_small [of 100] fiscal_invoiceInRange
  by (intro credit_note_opposite(1) [of _ _ 12700 100]) (simp_all add: fiscalRow_def creditNoteTypeFor_def)

theorem credit_note_cancels_witness:
  "list_all (\<lambda>pick. pick (toEntry (fiscalRow NOTA_CREDITO_B)) = - pick (toEntry (fiscalRow FACTURA_B))) amountColumns \<and>
   sbe_ivaByRate (toEntry (fiscalRow NOTA_CREDITO_B)) =
     map (\<lambda>(rate, amount). (rate, - amount)) (sbe_ivaByRate (toEntry (fiscalRow FACTURA_B)))"
  using cents_small [of 12700] cents_small [of 100] fiscal_invoiceInRange
  by (intro credit_note_cancels [of _ _ 12700 100]) (simp_all add: fiscalRow_def creditNoteTypeFor_def)


lemma fiscal_columns:
  assumes "vt \<in> {FACTURA_B, NOTA_CREDITO_B}"
  shows "list_all (\<lambda>pick. \<bar>pick (toEntry (fiscalRow vt))\<bar> \<le> 5000) amountColumns"
proof -
  have letter: "voucherLetter FACTURA_B = ''B''" by (simp add: voucherLetter_cases)
  have sign: "voucherSign FACTURA_B = 1" by (simp add: voucherSign_def voucher_type_simps)
  have es: "signedIvaByRate (fiscalRow FACTURA_B) = [(21, cents 2100)]"
    using signedIva_of_sign(1) [OF fiscal_invoiceInRange refl] sign
    by (simp add: fiscal_breakdown [OF letter]) (simp add: fiscalRow_def)
  have "breakdownRound2 (foldl js_add 0 (map cents [2100])) = cents (sum_list [2100])"
    by (rule fiscal_sum) simp_all
  then have iva: "sbe_ivaAmount (toEntry (fiscalRow FACTURA_B)) = cents 2100" by (simp add: toEntry_amounts es)
  have round: "breakdownRound2 (cents n) = cents n" if "\<bar>n\<bar> \<le> 100000" for n
    using cents_small [OF that] fiscal.round_of_cents by blast
  have pesos: "signedPesos (fiscalRow FACTURA_B) (cents n) = cents n" if "\<bar>n\<bar> \<le> 100000" for n
    using cents_small [OF that] sign by (intro signedPesos_local) (simp_all add: fiscalRow_def)
  have vt: "sbr_voucherType (fiscalRow vt) = vt" "sbr_tributeAmount (fiscalRow vt) = cents 100"
    "sbr_totalAmount (fiscalRow vt) = cents 12700" for vt by (simp_all add: fiscalRow_def)
  have B: "list_all (\<lambda>pick. \<bar>pick (toEntry (fiscalRow FACTURA_B))\<bar> \<le> 5000) amountColumns"
    using cents_small [of 10000] cents_small [of 500] cents_small [of 0] cents_small [of 2100]
      cents_small [of 100] cents_small [of 12700] sign_mult(2) [of 0] round [of 0]
    by (simp add: amountColumns_def iva) (simp add: toEntry_amounts vt sign fiscal_breakdown [OF letter] round pesos)
  have "list_all (\<lambda>pick. pick (toEntry (fiscalRow NOTA_CREDITO_B)) = - pick (toEntry (fiscalRow FACTURA_B))) amountColumns"
    by (rule credit_note_columns)
  then have "list_all (\<lambda>pick. \<bar>pick (toEntry (fiscalRow NOTA_CREDITO_B))\<bar> \<le> 5000) amountColumns"
    using B unfolding list_all_iff by (metis abs_minus_cancel)
  then show ?thesis using assms B by blast
qed

theorem sales_book_totals_witness:
  "list_all2 (\<lambda>pick total. \<exists>cs. map pick (sb_entries (buildSalesBook 2023 11 [fiscalRow FACTURA_B, fiscalRow NOTA_CREDITO_B])) =
       map cents cs \<and>
     total (sb_totals (buildSalesBook 2023 11 [fiscalRow FACTURA_B, fiscalRow NOTA_CREDITO_B])) = cents (sum_list cs))
   amountColumns totalColumns"
proof (rule sales_book_totals)
  have "\<bar>pick (toEntry (fiscalRow FACTURA_B))\<bar> + \<bar>pick (toEntry (fiscalRow NOTA_CREDITO_B))\<bar> \<le> 5000000000"
    if "pick \<in> set amountColumns" for pick
  proof -
    have "\<bar>pick (toEntry (fiscalRow FACTURA_B))\<bar> \<le> 5000" "\<bar>pick (toEntry (fiscalRow NOTA_CREDITO_B))\<bar> \<le> 5000"
      using fiscal_columns that unfolding list_all_iff by blast+
    then show ?thesis by linarith
  qed
  then show "entriesInRange (map toEntry [fiscalRow FACTURA_B, fiscalRow NOTA_CREDITO_B])"
    by (simp add: entriesInRange_def list_all_iff)
qed


definition fiscalVoucher :: "int \<Rightarrow> VoucherRow" where
  "fiscalVoucher vt = \<lparr>voucher_id = ''v'', voucher_data =
     \<lparr>vd_issuerId = ''i'', vd_salesPointId = ''s'', vd_clientId = None, vd_recipientDocType = 99,
      vd_recipientDocNumber = ''0'', vd_recipientName = None, vd_voucherType = vt, vd_number = 1,
      vd_voucherDate = Some 1700000000000, vd_concept = 1, vd_serviceFrom = None, vd_serviceTo = None,
      vd_paymentDueDate = None, vd_netAmount = cents 10000, vd_ivaAmount = cents 2100,
      vd_exemptAmount = cents 500, vd_untaxedAmount = 0, vd_tributeAmount = cents 100,
      vd_totalAmount = cents 12700, vd_tributes = None, vd_currency = ''PES'', vd_exchangeRate = 1,
      vd_status = ''APPROVED'', vd_cae = None, vd_caeExpiration = None, vd_arcaObservations = None,
      vd_qrData = None, vd_associatedVouchers = None, vd_exportDetail = None,
      vd_items = [\<lparr>vi_description = ''x'', vi_quantity = 1, vi_unitPrice = cents 12100, vi_ivaRate = 21,
          vi_taxTreatment = ''TAXED'', vi_subtotal = cents 12100\<rparr>,
        \<lparr>vi_description = ''y'', vi_quantity = 1, vi_unitPrice = cents 500, vi_ivaRate = 0,
          vi_taxTreatment = ''EXEMPT'', vi_subtotal = cents 500\<rparr>]\<rparr>\<rparr>"

definition fiscalWorld :: "arca world" where
  "fiscalWorld = (sampleWorld [] [] [])\<lparr>vouchers := [fiscalVoucher NOTA_CREDITO_B]\<rparr>"

lemma fiscal_november: "authorizedInMonth ''i'' 2023 11 (fiscalVoucher vt)"
  by (simp add: authorizedInMonth_def fiscalVoucher_def inMonth_def monthRange_def utcDate_def newLocalDate_def
      authorizedVoucherStatuses_def makeDay_def dayFromYear_def leapYear_def monthStarts_def msPerDay_def)

lemma fiscal_view: "breakdownViewOf (\<lambda>x. x) (fiscalVoucher vt) = taxView (fiscalRow vt)"
  by (simp add: breakdownViewOf_def fiscalVoucher_def taxView_def fiscalRow_def breakdownItemOf_def fiscalItems_def)

lemma fiscal_taxesInRange:
  "taxesInRange (map (breakdownViewOf (\<lambda>x. x)) (filter (authorizedInMonth ''i'' 2023 11) (vouchers fiscalWorld)))"
proof -
  have "voucherLetter NOTA_CREDITO_B = ''B''" by (simp add: voucherLetter_cases)
  from fiscal_breakdown [OF this]
  have "signedTaxes (breakdownViewOf (\<lambda>x. x) (fiscalVoucher NOTA_CREDITO_B)) =
      [(21, js_mul (voucherSign NOTA_CREDITO_B) (cents 2100))]"
    by (simp add: signedTaxes_def fiscal_view) (simp add: taxView_def fiscalRow_def)
  then show ?thesis using cents_small [of 2100]
    by (simp add: fiscalWorld_def fiscal_november taxesInRange_def voucherSign_def voucher_type_simps cents_uminus)
qed

theorem position_matches_book_witness:
  "\<exists>pos book w1 w2. getMonthlyPosition samplePorts (\<lambda>x. x) ''i'' 2023 11 fiscalWorld = (Inr pos, w1) \<and>
     getMonthlyBook samplePorts (\<lambda>x. x) ''i'' 2023 11 fiscalWorld = (Inr book, w2) \<and>
     length (sb_entries book) = 1 \<and> ip_totalDebit pos = sbt_ivaAmount (sb_totals book)"
proof -
  have up: "table samplePorts (getA f) fiscalWorld = (Inr (f fiscalWorld), fiscalWorld)" for f :: "arca world \<Rightarrow> 'b"
    by (simp add: table_def bindA_def external_def reachDatabase_def getA_def samplePorts_def fiscalWorld_def sampleWorld_def)
  obtain pos where pos: "getMonthlyPosition samplePorts (\<lambda>x. x) ''i'' 2023 11 fiscalWorld = (Inr pos, fiscalWorld)"
    by (simp add: getMonthlyPosition_def computeDebit_def computeCredit_def bindA_def up returnA_def)
  have "vouchers fiscalWorld = [fiscalVoucher NOTA_CREDITO_B]" by (simp add: fiscalWorld_def)
  obtain book where book: "getMonthlyBook samplePorts (\<lambda>x. x) ''i'' 2023 11 fiscalWorld = (Inr book, fiscalWorld)"
    "length (sb_entries book) = 1"
    using \<open>vouchers fiscalWorld = _\<close> by (simp add: getMonthlyBook_def up buildSalesBook_def Let_def fiscal_november)
  from position_matches_book [OF pos book(1) refl fiscal_taxesInRange] pos book show ?thesis by blast
qed


subsection \<open>A cent between the book and the declared amounts\<close>

definition twoRateItems :: "item list" where
  "twoRateItems =
     [\<lparr>item_description = ''Pan'', quantity = 1, unitPrice = cents 100, ivaRate = 21, taxTreatment = TAXED\<rparr>,
      \<lparr>item_description = ''Fruta'', quantity = 1, unitPrice = cents 120, ivaRate = 21 / 2, taxTreatment = TAXED\<rparr>]"

definition twoRateView :: TaxBreakdownVoucher where
  "twoRateView = \<lparr>tb_voucherType = FACTURA_B, tb_exchangeRate = Some 1,
     tb_items = [\<lparr>tb_ivaRate = 21, tb_subtotal = cents 100, tb_taxTreatment = Some ''TAXED''\<rparr>,
       \<lparr>tb_ivaRate = 21 / 2, tb_subtotal = cents 120, tb_taxTreatment = Some ''TAXED''\<rparr>]\<rparr>"

lemma two_rate_bases:
  "\<bar>js_div (cents 100) (js_add 1 (js_div 21 100)) - 100 / 121\<bar> \<le> 1 / 100000"
  "\<bar>js_div (cents 120) (js_add 1 (js_div (21 / 2) 100)) - 240 / 221\<bar> \<le> 1 / 100000"
  using base_err [of 21 100] base_err [of "21 / 2" 120] by (simp_all add: rate_ok_def exactBase_def)

lemma two_rate_rounded:
  "round2 (js_div (cents 100) (js_add 1 (js_div 21 100))) = cents 83"
  "round2 (js_div (cents 120) (js_add 1 (js_div (21 / 2) 100))) = cents 109"
proof -
  let ?a = "js_div (cents 100) (js_add 1 (js_div 21 100))" and ?b = "js_div (cents 120) (js_add 1 (js_div (21 / 2) 100))"
  have "\<bar>?a - of_int 83 / 100\<bar> \<le> 49 / 10000" "\<bar>?b - of_int 109 / 100\<bar> \<le> 49 / 10000"
    using two_rate_bases unfolding of_int_numeral by linarith+
  moreover have "cents_range 83" "cents_range 109" by (simp_all add: cents_range_def)
  ultimately show "round2 ?a = cents 83" "round2 ?b = cents 109" using calc.round_near by blast+
qed

lemma two_rate_declared:
  "\<exists>a. calculateAmounts FACTURA_B twoRateItems [] = Inr a \<and> netAmount a = cents 192 \<and> ivaAmount a = cents 28 \<and>
     totalAmount a = cents 220"
proof -
  have range: "cents_range n" if "\<bar>n\<bar> \<le> 300" for n using that by (simp add: cents_range_def)
  have add: "round2 (js_add (cents a) (cents b)) = cents (a + b)" if "0 \<le> a" "0 \<le> b" "a \<le> 220" "b \<le> 220" "a + b \<le> 220" for a b
    using that by (intro calc.round_add range) simp_all
  have sub: "round2 (js_sub (cents a) (cents b)) = cents (a - b)" if "0 \<le> a" "0 \<le> b" "a \<le> 220" "b \<le> 220" for a b
    using that by (intro calc.round_sub range) simp_all
  have one: "js_mul 1 (cents n) = cents n" "js_add 0 (cents n) = cents n" for n
    by (simp_all add: js_mul_def js_add_def cents_def)
  have id: "round2 (cents n) = cents n" if "\<bar>n\<bar> \<le> 300" for n using calc.round_of_cents [OF range [OF that]] .
  have t0: "round2 (js_add (cents 220) 0) = cents 220" using add [of 220 0] by simp
  show ?thesis
    by (simp add: calculateAmounts_def calculateTributes_def twoRateItems_def sumGross_def sumBy_def
        splitTaxedGrossByRate_def grossByRate_def splitOne_def grossOf_def Let_def two_rate_rounded one id
        add sub t0 calc.round_0 ivaRateAfipId_def voucher_type_simps)
qed

lemma two_rate_book:
  "breakDownVoucherTaxes twoRateView = \<lparr>br_netAmount = cents 191, br_exemptAmount = 0, br_untaxedAmount = 0,
     br_ivaByRate = [(21, cents 17), (21 / 2, cents 11)]\<rparr>"
proof -
  let ?a = "js_div (cents 100) (js_add 1 (js_div 21 100))" and ?b = "js_div (cents 120) (js_add 1 (js_div (21 / 2) 100))"
  have c: "\<bar>cents 100 - 1\<bar> \<le> 1 / 1000000" "\<bar>cents 120 - 6 / 5\<bar> \<le> 1 / 1000000"
    using cents_err_signed [of 100] cents_err_signed [of 120] by simp_all
  have id: "js_add 0 (js_div x y) = js_div x y" "js_add 0 (js_sub x y) = js_sub x y" "js_mul (cents n) 1 = cents n" for x y n
    by (simp_all add: js_add_def js_div_def js_sub_def js_mul_def cents_def)
  have "\<bar>?a + ?b\<bar> \<le> 10" "\<bar>cents 100 - ?a\<bar> \<le> 10" "\<bar>cents 120 - ?b\<bar> \<le> 10" using two_rate_bases c by linarith+
  note err = this
  have "\<bar>js_add ?a ?b - of_int 191 / 100\<bar> \<le> 49 / 10000"
    using two_rate_bases fl_err [OF err(1)] unfolding js_add_def of_int_numeral by linarith
  moreover have "\<bar>js_sub (cents 100) ?a - of_int 17 / 100\<bar> \<le> 49 / 10000"
    using two_rate_bases(1) c(1) fl_err [OF err(2)] unfolding js_sub_def of_int_numeral by linarith
  moreover have "\<bar>js_sub (cents 120) ?b - of_int 11 / 100\<bar> \<le> 49 / 10000"
    using two_rate_bases(2) c(2) fl_err [OF err(3)] unfolding js_sub_def of_int_numeral by linarith
  moreover have "cents_range 191" "cents_range 17" "cents_range 11" by (simp_all add: cents_range_def)
  ultimately have "breakdownRound2 (js_add ?a ?b) = cents 191" "breakdownRound2 (js_sub (cents 100) ?a) = cents 17"
    "breakdownRound2 (js_sub (cents 120) ?b) = cents 11"
    using fiscal.round_near by blast+
  then show ?thesis
    by (simp add: breakDownVoucherTaxes_def breakDownItem_def twoRateView_def voucherLetter_cases
        bearsIva_def toPesos_def addTo_def mapGet_def Let_def id fiscal.round_0)
qed

text \<open>
  The book of sales can differ from what was declared to ARCA: for a line of 1.00
  at 21% and one of 1.20 at 10.5%, the voucher declares a net amount of 1.92 and an IVA of 0.28,
  which add up to its total of 2.20, and the book has a net amount of 1.91 with the same IVA.
\<close>

lemma book_differs_from_declared:
  "(\<exists>a. calculateAmounts FACTURA_B twoRateItems [] = Inr a \<and> netAmount a = cents 192 \<and> ivaAmount a = cents 28 \<and>
      totalAmount a = cents 220) \<and>
   map (\<lambda>item. tb_subtotal item) (tb_items twoRateView) = map grossOf twoRateItems \<and>
   br_netAmount (breakDownVoucherTaxes twoRateView) = cents 191 \<and>
   map snd (br_ivaByRate (breakDownVoucherTaxes twoRateView)) = [cents 17, cents 11] \<and>
   cents 191 \<noteq> cents 192"
proof -
  have "cents 191 \<noteq> cents 192" by (subst cents_inj) (simp_all add: cents_range_def)
  moreover have "js_mul 1 (cents n) = cents n" for n by (simp add: js_mul_def cents_def)
  ultimately show ?thesis
    using two_rate_declared by (simp add: two_rate_book) (simp add: twoRateView_def twoRateItems_def grossOf_def)
qed

end
