(* ===== verification/SalesBookCsv.thy ===== *)
theory SalesBookCsv
  imports SalesBook
begin

text \<open>
  The CSV file of the book of sales, \<open>fiscal/sales-book-csv.ts\<close>, and a reader of such
  files that says what the quoting has to keep. The byte order mark, one character outside
  Latin-1, is the argument \<open>mark\<close>.
\<close>

subsection \<open>Fields\<close>

text \<open>\<open>text.replace(".", ",")\<close> replaces the first occurrence.\<close>

fun replaceFirst :: "char \<Rightarrow> char \<Rightarrow> string \<Rightarrow> string" where
  "replaceFirst a b [] = []"
| "replaceFirst a b (c # s) = (if c = a then b # s else c # replaceFirst a b s)"

definition taxedRates :: "number list" where
  "taxedRates = sort_key (\<lambda>rate. - rate) (filter (\<lambda>rate. 0 < rate) ivaRates)"

definition formatAmount :: "number \<Rightarrow> string" where
  "formatAmount amount = replaceFirst (CHR ''.'') (CHR '','') (toFixed2 amount)"

definition partText :: "string list \<Rightarrow> nat \<Rightarrow> string" where
  "partText parts i = (if i < length parts then parts ! i else ''undefined'')"

definition formatDate :: "string \<Rightarrow> string" where
  "formatDate isoText = (let parts = splitOn (CHR ''-'') (take ISO_DATE_LENGTH isoText) in
     partText parts 2 @ ''/'' @ partText parts 1 @ ''/'' @ partText parts 0)"

definition needsQuoting :: "string \<Rightarrow> bool" where
  "needsQuoting v = list_ex (\<lambda>c. c \<in> {CHR 0x22, CHR '';'', CHR 0x0D, CHR 0x0A}) v"

definition quote :: "string \<Rightarrow> string" where
  "quote v = (if needsQuoting v then CHR 0x22 # replaceChar (CHR 0x22) [CHR 0x22, CHR 0x22] v @ [CHR 0x22] else v)"

definition ivaForRate :: "SalesBookEntry \<Rightarrow> number \<Rightarrow> number" where
  "ivaForRate entry rate = (case List.find (\<lambda>row. fst row = rate) (sbe_ivaByRate entry) of
     None \<Rightarrow> 0 | Some row \<Rightarrow> snd row)"

definition csvHeader :: "string list" where
  "csvHeader =
     [''Fecha'', ''Tipo'', ''Punto de venta'', ''N'' @ [CHR 0xFA] @ ''mero'', ''Tipo doc. receptor'',
      ''Nro. doc. receptor'', ''Receptor'', ''Moneda'', ''Cotizaci'' @ [CHR 0xF3] @ ''n'', ''Neto gravado'',
      ''No gravado'', ''Exento''] @
     map (\<lambda>rate. ''IVA '' @ replaceFirst (CHR ''.'') (CHR '','') (numberToString rate) @ ''%'') taxedRates @
     [''IVA total'', ''Otros tributos'', ''Total'', ''CAE'']"

subsection \<open>Rows\<close>

definition docTypeText :: "number option option \<Rightarrow> string" where
  "docTypeText code =
     (case code of
        None \<Rightarrow> ''''
      | Some None \<Rightarrow> ''NaN''
      | Some (Some n) \<Rightarrow>
          orElse (if n = of_int \<lfloor>n\<rfloor> then documentTypeName \<lfloor>n\<rfloor> else None) (numberToString n))"

definition toRow :: "SalesBookEntry \<Rightarrow> string list" where
  "toRow e =
     [formatDate (sbe_voucherDate e), sbe_voucherTypeName e,
      padStart 4 (CHR ''0'') (intToString (sbe_salesPoint e)), padStart 8 (CHR ''0'') (intToString (sbe_number e)),
      docTypeText (sbe_recipientDocType e), orElse (sbe_recipientDocNumber e) '''',
      orElse (sbe_recipientName e) '''', sbe_currency e,
      replaceFirst (CHR ''.'') (CHR '','') (numberToString (sbe_exchangeRate e)),
      formatAmount (sbe_netAmount e), formatAmount (sbe_untaxedAmount e), formatAmount (sbe_exemptAmount e)] @
     map (\<lambda>rate. formatAmount (ivaForRate e rate)) taxedRates @
     [formatAmount (sbe_ivaAmount e), formatAmount (sbe_tributeAmount e), formatAmount (sbe_totalAmount e),
      orElse (sbe_cae e) '''']"

definition toTotalsRow :: "SalesBook \<Rightarrow> string list" where
  "toTotalsRow book =
     (let totals = sb_totals book;
          ivaTotalsByRate = map (\<lambda>rate. formatAmount
            (foldl (\<lambda>total entry. js_add total (ivaForRate entry rate)) 0 (sb_entries book))) taxedRates in
      [''Totales'', intToString (int (sbt_voucherCount totals)) @ '' comprobantes'',
       '''', '''', '''', '''', '''', '''', '''',
       formatAmount (sbt_netAmount totals), formatAmount (sbt_untaxedAmount totals),
       formatAmount (sbt_exemptAmount totals)] @
      ivaTotalsByRate @
      [formatAmount (sbt_ivaAmount totals), formatAmount (sbt_tributeAmount totals),
       formatAmount (sbt_totalAmount totals), ''''])"

definition csvRows :: "SalesBook \<Rightarrow> string list list" where
  "csvRows book = csvHeader # map toRow (sb_entries book) @ [toTotalsRow book]"

definition renderSalesBookCsv :: "string \<Rightarrow> SalesBook \<Rightarrow> string" where
  "renderSalesBookCsv mark book =
     (let csvLines = map (\<lambda>row. joinWith '';'' (map quote row)) (csvRows book) in
      mark @ joinWith [CHR 0x0D, CHR 0x0A] csvLines @ [CHR 0x0D, CHR 0x0A])"

definition salesBookFileName :: "SalesBook \<Rightarrow> string" where
  "salesBookFileName book =
     ''libro-iva-ventas-'' @ intToString (sb_year book) @ ''-'' @
     padStart 2 (CHR ''0'') (intToString (sb_month book)) @ ''.csv''"

subsection \<open>A reader of the files\<close>

text \<open>
  A quoted field ends at a quote that is not doubled; a plain one at the first separator, quote
  or line break; a row ends at CR LF.
\<close>

fun readQuoted :: "string \<Rightarrow> (string \<times> string) option" where
  "readQuoted [] = None"
| "readQuoted (c # s) =
     (if c \<noteq> CHR 0x22 then map_option (\<lambda>(f, r). (c # f, r)) (readQuoted s)
      else (case s of
          d # s' \<Rightarrow> if d = CHR 0x22 then map_option (\<lambda>(f, r). (d # f, r)) (readQuoted s') else Some ([], s)
        | [] \<Rightarrow> Some ([], [])))"

definition isPlain :: "char \<Rightarrow> bool" where
  "isPlain c = (c \<notin> {CHR 0x22, CHR '';'', CHR 0x0D, CHR 0x0A})"

definition readField :: "string \<Rightarrow> (string \<times> string) option" where
  "readField s = (case s of
      c # r \<Rightarrow> if c = CHR 0x22 then readQuoted r else Some (takeWhile isPlain s, dropWhile isPlain s)
    | [] \<Rightarrow> Some ([], []))"

lemma readQuoted_length: "readQuoted s = Some (f, r) \<Longrightarrow> length r < length s"
  by (induction s arbitrary: f r rule: readQuoted.induct) (auto split: if_splits list.splits, fastforce+)

lemma readField_length: "readField s = Some (f, r) \<Longrightarrow> length r \<le> length s"
proof -
  assume r: "readField s = Some (f, r)"
  show ?thesis
  proof (cases s)
    case (Cons c s')
    show ?thesis
    proof (cases "c = CHR 0x22")
      case True
      then show ?thesis using r Cons readQuoted_length [of s' f r] by (simp add: readField_def)
    next
      case False
      then have "r = dropWhile isPlain s" using r Cons by (simp add: readField_def)
      then show ?thesis by (simp add: length_dropWhile_le)
    qed
  qed (use r in \<open>simp add: readField_def\<close>)
qed

function readRow :: "string \<Rightarrow> (string list \<times> string) option" where
  "readRow s = (case readField s of
      None \<Rightarrow> None
    | Some (f, r) \<Rightarrow>
        (case r of
           [] \<Rightarrow> None
         | c # r' \<Rightarrow>
             if c = CHR '';'' then map_option (\<lambda>(fs, rest). (f # fs, rest)) (readRow r')
             else if take 2 r = [CHR 0x0D, CHR 0x0A] then Some ([f], drop 2 r) else None))"
  by pat_completeness auto
termination
  by (relation "measure length") (auto dest!: readField_length)


declare readRow.simps [simp del]

function readRows :: "string \<Rightarrow> string list list option" where
  "readRows s = (if s = [] then Some [] else (case readRow s of
      None \<Rightarrow> None
    | Some (row, r) \<Rightarrow> if length r < length s then map_option ((#) row) (readRows r) else None))"
  by pat_completeness auto
termination
  by (relation "measure length") auto

declare readRows.simps [simp del]

subsection \<open>What was quoted reads back\<close>

text \<open>What may follow a field of a row: a separator or the end of the line.\<close>

definition endsField :: "string \<Rightarrow> bool" where
  "endsField r = (r \<noteq> [] \<and> hd r \<in> {CHR '';'', CHR 0x0D})"

lemma replaceChar_Cons:
  "replaceChar a b (c # s) = (if c = a then b else [c]) @ replaceChar a b s"
  by (simp add: replaceChar_def)

lemma readQuoted_doubled:
  "hd r \<noteq> CHR 0x22 \<Longrightarrow> readQuoted (replaceChar (CHR 0x22) [CHR 0x22, CHR 0x22] v @ CHR 0x22 # r) = Some (v, r)"
proof (induction v)
  case Nil
  then show ?case by (cases r) (simp_all add: replaceChar_def)
next
  case (Cons c v)
  then show ?case by (simp add: replaceChar_Cons)
qed

lemma readField_quote:
  assumes "endsField r"
  shows "readField (quote v @ r) = Some (v, r)"
proof (cases "needsQuoting v")
  case True
  then show ?thesis using readQuoted_doubled [of r v] assms by (auto simp: quote_def readField_def endsField_def)
next
  case False
  then have v: "\<forall>c\<in>set v. isPlain c" by (auto simp: needsQuoting_def isPlain_def list_ex_iff)
  obtain d r' where r: "r = d # r'" "\<not> isPlain d" "d \<noteq> CHR 0x22"
    using assms by (cases r) (auto simp: endsField_def isPlain_def)
  have "takeWhile isPlain (v @ r) = v" "dropWhile isPlain (v @ r) = r"
    using v r by (simp_all add: takeWhile_append2 dropWhile_append2)
  moreover have "hd (v @ r) \<noteq> CHR 0x22" using v r by (cases v) (auto simp: isPlain_def)
  ultimately show ?thesis using False r by (cases "v @ r") (simp_all add: quote_def readField_def)
qed

lemma joinWith_Cons: "joinWith sep (x # y # ys) = x @ sep @ joinWith sep (y # ys)"
  by (simp add: joinWith_def)

lemma joinWith_single: "joinWith sep [x] = x"
  by (simp add: joinWith_def)

lemma readRow_rendered:
  "row \<noteq> [] \<Longrightarrow> readRow (joinWith '';'' (map quote row) @ [CHR 0x0D, CHR 0x0A] @ r) = Some (row, r)"
proof (induction row rule: induct_list012)
  case (2 v)
  have "readField (quote v @ [CHR 0x0D, CHR 0x0A] @ r) = Some (v, [CHR 0x0D, CHR 0x0A] @ r)"
    by (rule readField_quote) (simp add: endsField_def)
  then show ?case by (simp add: joinWith_single readRow.simps)
next
  case (3 v u vs)
  let ?rest = "joinWith '';'' (map quote (u # vs)) @ [CHR 0x0D, CHR 0x0A] @ r"
  have "readField (quote v @ CHR '';'' # ?rest) = Some (v, CHR '';'' # ?rest)"
    by (rule readField_quote) (simp add: endsField_def)
  then show ?case using "3.IH"(2) by (simp add: joinWith_Cons readRow.simps [of "quote v @ _"])
qed simp

lemma readRows_rendered:
  assumes "\<forall>row\<in>set rows. row \<noteq> []" "rows \<noteq> []"
  shows "readRows (joinWith [CHR 0x0D, CHR 0x0A] (map (\<lambda>row. joinWith '';'' (map quote row)) rows) @
    [CHR 0x0D, CHR 0x0A]) = Some rows"
  using assms
proof (induction rows rule: induct_list012)
  case (2 row)
  then show ?case using readRow_rendered [of row "[]"]
    by (simp add: joinWith_single readRows.simps [of "_ @ _"] readRows.simps [of "[]"])
next
  case (3 row u rows)
  let ?rest = "joinWith [CHR 0x0D, CHR 0x0A] (map (\<lambda>row. joinWith '';'' (map quote row)) (u # rows)) @
    [CHR 0x0D, CHR 0x0A]"
  have "readRow (joinWith '';'' (map quote row) @ [CHR 0x0D, CHR 0x0A] @ ?rest) = Some (row, ?rest)"
    using "3.prems" by (intro readRow_rendered) simp
  moreover have "readRows ?rest = Some (u # rows)" using 3 by simp
  ultimately show ?case by (simp add: joinWith_Cons readRows.simps [of "joinWith _ _ @ _"])
qed simp

text \<open>
  Property C16. The CSV file of a book of sales reads back as its table: the header, one row per
  voucher and the totals, each with as many columns as the header, whatever separators, quotes
  or line breaks the names of the recipients carry.
\<close>

theorem sales_book_csv_round_trip:
  "readRows (drop (length mark) (renderSalesBookCsv mark book)) = Some (csvRows book) \<and>
   list_all (\<lambda>row. length row = length csvHeader) (csvRows book) \<and>
   length (csvRows book) = length (sb_entries book) + 2"
proof -
  have len: "length row = length csvHeader" if "row \<in> set (csvRows book)" for row
    using that by (auto simp: csvRows_def csvHeader_def toRow_def toTotalsRow_def Let_def)
  moreover have "\<forall>row\<in>set (csvRows book). row \<noteq> []" using len by (force simp: csvHeader_def)
  moreover have "csvRows book \<noteq> []" by (simp add: csvRows_def)
  ultimately show ?thesis
    using readRows_rendered [of "csvRows book"]
    by (simp add: renderSalesBookCsv_def Let_def list_all_iff) (simp add: csvRows_def)
qed

end
