(* ===== verification/Vencimientos.thy ===== *)
theory Vencimientos
  imports UtcDate World "HOL-Library.List_Lexorder"
begin

text \<open>
  The calendar of fiscal due dates, \<open>fiscal/vencimiento-calendar.ts\<close>, and the alerts of
  an issuer, \<open>fiscal/fiscal-alerts.service.ts\<close>.
\<close>

datatype FiscalObligation = IVA_DDJJ | CARGAS_SOCIALES | LIBRO_IVA_DIGITAL | OBLIGATION_MONOTRIBUTO
datatype VencimientoStatus = OVERDUE | DUE_SOON | UPCOMING

record Vencimiento =
  obligation :: FiscalObligation
  obligation_label :: string
  dueDate :: string
  due_status :: VencimientoStatus

definition obligations :: "FiscalObligation list" where
  "obligations = [IVA_DDJJ, CARGAS_SOCIALES, LIBRO_IVA_DIGITAL, OBLIGATION_MONOTRIBUTO]"

fun OBLIGATION_LABEL :: "FiscalObligation \<Rightarrow> string" where
  "OBLIGATION_LABEL IVA_DDJJ = ''DDJJ IVA''"
| "OBLIGATION_LABEL CARGAS_SOCIALES = ''Cargas sociales''"
| "OBLIGATION_LABEL LIBRO_IVA_DIGITAL = ''Libro IVA Digital''"
| "OBLIGATION_LABEL OBLIGATION_MONOTRIBUTO = ''Monotributo''"

definition FIRST_DIGIT_GROUP_DAY :: int where
  "FIRST_DIGIT_GROUP_DAY = 18"

definition CARGAS_SOCIALES_OFFSET :: int where
  "CARGAS_SOCIALES_OFFSET = 4"

definition DUE_SOON_DAYS :: int where
  "DUE_SOON_DAYS = 5"

subsection \<open>Days\<close>

definition lastDigitOf :: "string \<Rightarrow> int" where
  "lastDigitOf cuit = (let digits = onlyDigits cuit in
     if digits = [] then 0 else int (digitValue (last digits)))"

definition daysInMonth :: "int \<Rightarrow> int \<Rightarrow> int" where
  "daysInMonth year month = getDate 0 (utcDate year month 0)"

definition safeDate :: "int \<Rightarrow> int \<Rightarrow> int \<Rightarrow> date" where
  "safeDate year month day = utcDate year (month - 1) (min day (daysInMonth year month))"

definition toIsoDate :: "date \<Rightarrow> string" where
  "toIsoDate t = take ISO_DATE_LENGTH (toISOString t)"

definition utcStartOfDay :: "date \<Rightarrow> date" where
  "utcStartOfDay t = utcDate (getFullYear 0 t) (getMonth 0 t) (getDate 0 t)"

definition computeStatus :: "date \<Rightarrow> date \<Rightarrow> VencimientoStatus" where
  "computeStatus due today =
     (let daysUntil = math_round (of_int (utcStartOfDay due - utcStartOfDay today) / of_int msPerDay) in
      if daysUntil < 0 then OVERDUE else if daysUntil \<le> DUE_SOON_DAYS then DUE_SOON else UPCOMING)"

definition dueDayFor :: "FiscalObligation \<Rightarrow> int \<Rightarrow> int" where
  "dueDayFor ob lastDigit =
     (let groupOffset = lastDigit div 2 in
      if ob = CARGAS_SOCIALES then FIRST_DIGIT_GROUP_DAY - CARGAS_SOCIALES_OFFSET + groupOffset
      else FIRST_DIGIT_GROUP_DAY + groupOffset)"

subsection \<open>The calendar\<close>

definition monthIndexOf :: "date \<Rightarrow> int" where
  "monthIndexOf t = getFullYear 0 t * 12 + getMonth 0 t"

text \<open>The remainder takes the sign of the month index, as \<open>%\<close> does.\<close>

definition jsRemainder :: "int \<Rightarrow> int \<Rightarrow> int" where
  "jsRemainder a b = (if a < 0 then - ((- a) mod b) else a mod b)"

definition dueDatesOf :: "int \<Rightarrow> int \<Rightarrow> (FiscalObligation \<times> date) list" where
  "dueDatesOf lastDigit monthIndex =
     map (\<lambda>ob. (ob, safeDate (monthIndex div 12) (jsRemainder monthIndex 12 + 1) (dueDayFor ob lastDigit))) obligations"

definition vencimientoOf :: "date \<Rightarrow> FiscalObligation \<times> date \<Rightarrow> Vencimiento" where
  "vencimientoOf today od =
     \<lparr>obligation = fst od, obligation_label = OBLIGATION_LABEL (fst od), dueDate = toIsoDate (snd od),
      due_status = computeStatus (snd od) today\<rparr>"

text \<open>
  The dates are digits and dashes, on which \<open>localeCompare\<close> orders like the code units.
\<close>

definition calendarDates :: "string \<Rightarrow> date \<Rightarrow> date \<Rightarrow> (FiscalObligation \<times> date) list" where
  "calendarDates cuit start finish =
     filter (\<lambda>(ob, due). utcStartOfDay start \<le> due \<and> due \<le> utcStartOfDay finish)
       (concat (map (dueDatesOf (lastDigitOf cuit)) [monthIndexOf start..monthIndexOf finish]))"

definition dueDateKey :: "Vencimiento \<Rightarrow> nat list" where
  "dueDateKey v = map of_char (dueDate v)"

text \<open>With an Invalid Date the bounds of the loop are NaN and it does not run.\<close>

definition upcomingVencimientos :: "string \<Rightarrow> js_date \<Rightarrow> js_date \<Rightarrow> date \<Rightarrow> Vencimiento list" where
  "upcomingVencimientos cuit start finish today =
     (case (start, finish) of
        (Some s, Some e) \<Rightarrow> sort_key dueDateKey (map (vencimientoOf today) (calendarDates cuit s e))
      | _ \<Rightarrow> [])"

subsection \<open>Alerts\<close>

definition DEFAULT_HORIZON_DAYS :: int where
  "DEFAULT_HORIZON_DAYS = 90"

definition CERT_WARNING_DAYS :: int where
  "CERT_WARNING_DAYS = 30"

record CertificateExpiryAlert =
  alert_validUntil :: string
  daysToExpiry :: int

record FiscalAlerts =
  alert_vencimientos :: "Vencimiento list"
  alert_certificate :: "CertificateExpiryAlert option"

text \<open>Each \<open>new Date()\<close> and \<open>Date.now()\<close> reads the clock.\<close>

definition getVencimientos ::
  "'a ports \<Rightarrow> string \<Rightarrow> js_date option \<Rightarrow> js_date option \<Rightarrow> ('a, Vencimiento list) effect" where
  "getVencimientos p cuit start finish =
     bindA (case start of Some t \<Rightarrow> returnA t | None \<Rightarrow> bindA (now p) (\<lambda>t. returnA (Some t))) (\<lambda>s.
     bindA (case finish of Some t \<Rightarrow> returnA t
            | None \<Rightarrow> bindA (now p) (\<lambda>t. returnA (Some (t + DEFAULT_HORIZON_DAYS * msPerDay)))) (\<lambda>e.
     bindA (now p) (\<lambda>today. returnA (upcomingVencimientos cuit s e today))))"

definition ceilDays :: "int \<Rightarrow> int" where
  "ceilDays ms = - ((- ms) div msPerDay)"

definition certificateAlert :: "'a ports \<Rightarrow> string \<Rightarrow> ('a, CertificateExpiryAlert option) effect" where
  "certificateAlert p i =
     bindA (table p (getA (\<lambda>w. findRow (\<lambda>c. cert_issuerId c = i) (certificates w)))) (\<lambda>certificate.
       case Option.bind certificate validUntil of
         None \<Rightarrow> returnA None
       | Some t \<Rightarrow> bindA (now p) (\<lambda>n.
           let days = ceilDays (t - n) in
           if CERT_WARNING_DAYS < days then returnA None
           else returnA (Some \<lparr>alert_validUntil = toISOString t, daysToExpiry = days\<rparr>)))"

definition getAlerts :: "'a ports \<Rightarrow> string \<Rightarrow> string \<Rightarrow> ('a, FiscalAlerts) effect" where
  "getAlerts p i cuit =
     bindA (getVencimientos p cuit None None) (\<lambda>vs.
     bindA (certificateAlert p i) (\<lambda>c.
     returnA \<lparr>alert_vencimientos = filter (\<lambda>v. due_status v \<noteq> UPCOMING) vs, alert_certificate = c\<rparr>))"

end
