(* ===== verification/VencimientosProperties.thy ===== *)
theory VencimientosProperties
  imports Vencimientos
begin

text \<open>
  The calendar of due dates against its specification: every due date of the period, whatever
  its month, is listed once per obligation, and the order of the texts is the order in time.
\<close>

subsection \<open>Months in order\<close>

text \<open>The first day of a month given by its index \<open>12 * year + month\<close>.\<close>

definition monthFirst :: "int \<Rightarrow> int" where
  "monthFirst k = makeDay 0 k 1"

definition monthIndex :: "int \<Rightarrow> int" where
  "monthIndex day = 12 * yearOf day + monthOf day"

lemma monthFirst_eq: "monthFirst k = dayFromYear (k div 12) + monthStarts (leapYear (k div 12)) ! nat (k mod 12)"
  by (simp add: monthFirst_def makeDay_def Let_def)

lemma length_monthStarts: "length (monthStarts l) = 12"
  by (simp add: monthStarts_def)

lemma monthLength_next:
  "m < 11 \<Longrightarrow> monthStarts l ! Suc m = monthStarts l ! m + monthLength l m"
  "monthStarts l ! 11 + monthLength l 11 = (if l then 366 else 365)"
  "monthStarts l ! 0 = 0"
proof -
  show "m < 11 \<Longrightarrow> monthStarts l ! Suc m = monthStarts l ! m + monthLength l m"
    by (simp add: monthLength_def nth_append length_monthStarts)
  show "monthStarts l ! 11 + monthLength l 11 = (if l then 366 else 365)"
    by (simp add: monthLength_def nth_append length_monthStarts)
  show "monthStarts l ! 0 = 0" by (simp add: monthStarts_def)
qed

lemma next_month:
  fixes k :: int
  shows "k mod 12 = 11 \<Longrightarrow> (k + 1) div 12 = k div 12 + 1 \<and> (k + 1) mod 12 = 0"
    and "k mod 12 \<noteq> 11 \<Longrightarrow> (k + 1) div 12 = k div 12 \<and> (k + 1) mod 12 = k mod 12 + 1"
proof -
  have k: "k = 12 * (k div 12) + k mod 12" "0 \<le> k mod 12" "k mod 12 < 12" by simp_all
  show "k mod 12 = 11 \<Longrightarrow> (k + 1) div 12 = k div 12 + 1 \<and> (k + 1) mod 12 = 0"
    using k(1) int_div_pos_eq [of "k + 1" 12 "k div 12 + 1" 0] int_mod_pos_eq [of "k + 1" 12 "k div 12 + 1" 0] by simp
  show "k mod 12 \<noteq> 11 \<Longrightarrow> (k + 1) div 12 = k div 12 \<and> (k + 1) mod 12 = k mod 12 + 1"
    using k int_div_pos_eq [of "k + 1" 12 "k div 12" "k mod 12 + 1"] int_mod_pos_eq [of "k + 1" 12 "k div 12" "k mod 12 + 1"]
    by linarith
qed

lemma monthFirst_step:
  "monthFirst (k + 1) = monthFirst k + monthLength (leapYear (k div 12)) (nat (k mod 12))"
proof (cases "k mod 12 = 11")
  case True
  have "dayFromYear (k div 12 + 1) = dayFromYear (k div 12) + (if leapYear (k div 12) then 366 else 365)"
    using not_leapYear [of "k div 12"] by (auto simp: leapYear_def)
  moreover have "monthFirst (k + 1) = dayFromYear (k div 12 + 1)"
    unfolding monthFirst_eq next_month(1) [OF True, THEN conjunct1] next_month(1) [OF True, THEN conjunct2]
    by (simp add: monthLength_next(3))
  moreover have "monthFirst k = dayFromYear (k div 12) + monthStarts (leapYear (k div 12)) ! 11"
    unfolding monthFirst_eq True by simp
  ultimately show ?thesis using monthLength_next(2) [of "leapYear (k div 12)"] True by simp
next
  case False
  have "0 \<le> k mod 12" "k mod 12 < 12" by simp_all
  then have n: "nat (k mod 12 + 1) = Suc (nat (k mod 12))" "nat (k mod 12) < 11" using False by linarith+
  show ?thesis
    unfolding monthFirst_eq next_month(2) [OF False, THEN conjunct1] next_month(2) [OF False, THEN conjunct2] n(1)
      monthLength_next(1) [OF n(2)] by simp
qed

lemma monthLength_bounds: "0 \<le> m \<Longrightarrow> m < 12 \<Longrightarrow> 28 \<le> monthLength l (nat m) \<and> monthLength l (nat m) \<le> 31"
proof -
  assume "0 \<le> m" "m < 12"
  then have "nat m < 12" by simp
  from month_cases [OF this] show ?thesis
    by (elim disjE) (cases l; simp add: monthStarts_def monthLength_def)+
qed

lemma monthFirst_mono: "j \<le> k \<Longrightarrow> monthFirst j \<le> monthFirst k"
proof (induction k rule: int_ge_induct)
  case (step k)
  then show ?case using monthFirst_step [of k] monthLength_bounds [of "k mod 12" "leapYear (k div 12)"] by simp
qed simp

lemma day_of_month: "day = monthFirst (monthIndex day) + dayOf day - 1"
  and day_before_next: "day < monthFirst (monthIndex day + 1)"
proof -
  have m: "monthIndex day div 12 = yearOf day" "monthIndex day mod 12 = monthOf day"
    using day_fields(1,2) [of day] by (simp_all add: monthIndex_def)
  have "makeDay (yearOf day) (monthOf day) (dayOf day) = makeDay 0 (monthIndex day) 1 + dayOf day - 1"
    using day_fields(1,2) [of day] by (simp add: makeDay_def Let_def m)
  then show d: "day = monthFirst (monthIndex day) + dayOf day - 1" by (simp add: day_fields(5) monthFirst_def)
  show "day < monthFirst (monthIndex day + 1)"
    using monthFirst_step [of "monthIndex day"] day_fields(4) [of day] d by (simp add: m)
qed

lemma monthIndex_mono:
  assumes "a \<le> b"
  shows "monthIndex a < monthIndex b \<or> monthIndex a = monthIndex b \<and> dayOf a - dayOf b = a - b"
proof (cases "monthIndex a = monthIndex b")
  case True
  then show ?thesis using day_of_month [of a] day_of_month [of b] by simp
next
  case False
  have "\<not> monthIndex b < monthIndex a"
    using monthFirst_mono [of "monthIndex b + 1" "monthIndex a"] day_before_next [of b] day_of_month [of a]
      day_fields(3) [of a] assms by linarith
  then show ?thesis using False by simp
qed

lemma monthIndex_makeDay:
  assumes "0 \<le> m" "m < 12" "1 \<le> d" "d \<le> 28"
  shows "monthIndex (makeDay y m d) = 12 * y + m"
  using makeDay_fields [OF assms(1,2,3), of y] monthLength_bounds [OF assms(1,2)] assms(4)
  by (simp add: monthIndex_def order_trans)

subsection \<open>The order of the texts\<close>

definition codes :: "string \<Rightarrow> nat list" where
  "codes s = map of_char s"

lemma lex_append:
  fixes a b x y :: "nat list"
  shows "length a = length b \<Longrightarrow> a @ x < b @ y \<longleftrightarrow> a < b \<or> a = b \<and> x < y"
  by (induction a b rule: list_induct2) auto

lemma digit_codes: "isDigit c \<Longrightarrow> of_char c = digitValue c + (48 :: nat) \<and> digitValue c < 10"
  by (auto simp: isDigit_def digitValue_def)

lemma last_digit:
  "10 * A + int c = 10 * B + int d \<Longrightarrow> c < 10 \<Longrightarrow> d < 10 \<Longrightarrow> A = B \<and> c = d"
  by (cases A B rule: linorder_cases) linarith+

lemma digits_compare:
  assumes "length a = length b" "list_all isDigit a" "list_all isDigit b"
  shows "valueOf a < valueOf b \<longrightarrow> codes a < codes b" and "valueOf a = valueOf b \<longrightarrow> a = b"
proof -
  have "(valueOf a < valueOf b \<longrightarrow> codes a < codes b) \<and> (valueOf a = valueOf b \<longrightarrow> a = b)"
    using assms
  proof (induction a arbitrary: b rule: rev_induct)
    case Nil
    then show ?case by simp
  next
    case (snoc c a)
    then obtain b' d where b: "b = b' @ [d]" by (cases b rule: rev_cases) auto
    have "length a = length b'" "list_all isDigit a" "list_all isDigit b'" using snoc.prems by (simp_all add: b)
    from snoc.IH [OF this] have IH: "valueOf a < valueOf b' \<longrightarrow> codes a < codes b'" "valueOf a = valueOf b' \<longrightarrow> a = b'"
      by simp_all
    have cd: "of_char c = digitValue c + (48::nat)" "of_char d = digitValue d + (48::nat)"
      "digitValue c < 10" "digitValue d < 10"
    proof -
      have "isDigit c" "isDigit d" using snoc.prems(2,3) by (simp_all add: b)
      then show "of_char c = digitValue c + (48::nat)" "of_char d = digitValue d + (48::nat)"
        "digitValue c < 10" "digitValue d < 10" using digit_codes by blast+
    qed
    have len: "length (codes a) = length (codes b')" using snoc.prems(1) by (simp add: b codes_def)
    have lex: "codes (a @ [c]) < codes (b' @ [d]) \<longleftrightarrow> codes a < codes b' \<or> codes a = codes b' \<and> digitValue c < digitValue d"
      using lex_append [OF len, of "[of_char c]" "[of_char d]"] by (simp add: codes_def cd(1,2))
    have "valueOf a < valueOf b' \<or> a = b' \<and> digitValue c < digitValue d"
      if "valueOf (a @ [c]) < valueOf b"
    proof -
      have "10 * valueOf a + int (digitValue c) < 10 * valueOf b' + int (digitValue d)"
        using that by (simp add: b valueOf_snoc)
      then have "valueOf a < valueOf b' \<or> valueOf a = valueOf b' \<and> digitValue c < digitValue d"
        using cd(3,4) by linarith
      then show ?thesis using IH(2) by blast
    qed
    moreover have "a = b' \<and> c = d" if "valueOf (a @ [c]) = valueOf b"
    proof -
      have v: "valueOf a = valueOf b'" "digitValue c = digitValue d"
      proof -
        have "10 * valueOf a + int (digitValue c) = 10 * valueOf b' + int (digitValue d)"
          using that by (simp add: b valueOf_snoc)
        from last_digit [OF this cd(3,4)] show "valueOf a = valueOf b'" "digitValue c = digitValue d" by simp_all
      qed
      then have "(of_char c :: nat) = of_char d" using cd by simp
      then show ?thesis using v IH(2) by simp
    qed
    ultimately show ?case using IH(1) lex unfolding b by blast
  qed
  then show "valueOf a < valueOf b \<longrightarrow> codes a < codes b" "valueOf a = valueOf b \<longrightarrow> a = b" by blast+
qed


lemma codes_append: "codes (a @ b) = codes a @ codes b"
  by (simp add: codes_def)

lemma fixed_width:
  assumes "length a = length a'" "list_all isDigit a" "list_all isDigit a'"
  shows "valueOf a < valueOf a' \<Longrightarrow> codes (a @ r) < codes (a' @ r')"
    and "valueOf a = valueOf a' \<Longrightarrow> codes r < codes r' \<Longrightarrow> codes (a @ r) < codes (a' @ r')"
proof -
  have len: "length (codes a) = length (codes a')" using assms(1) by (simp add: codes_def)
  note order = lex_append [OF len, of "codes r" "codes r'"]
  show "valueOf a < valueOf a' \<Longrightarrow> codes (a @ r) < codes (a' @ r')"
    using digits_compare(1) [OF assms] by (simp add: codes_append order)
  assume "valueOf a = valueOf a'" "codes r < codes r'"
  then show "codes (a @ r) < codes (a' @ r')"
    unfolding codes_append order using digits_compare(2) [OF assms] by blast
qed

lemma dash_first: "codes r < codes r' \<Longrightarrow> codes (CHR ''-'' # r) < codes (CHR ''-'' # r')"
  by (simp add: codes_def)

lemma toIsoDate_text:
  assumes "0 \<le> getFullYear 0 t" "getFullYear 0 t \<le> 9999"
  shows "toIsoDate t = isoYear (getFullYear 0 t) @ CHR ''-'' # pad2 (getMonth 0 t + 1) @ CHR ''-'' # pad2 (getDate 0 t)"
  using take_toISOString [OF assms] by (simp add: toIsoDate_def ISO_DATE_LENGTH_def)

lemma pad2_compare:
  assumes "0 \<le> a" "a < 100" "0 \<le> b" "b < 100"
  shows "a < b \<Longrightarrow> codes (pad2 a @ r) < codes (pad2 b @ r')"
    and "a = b \<Longrightarrow> codes r < codes r' \<Longrightarrow> codes (pad2 a @ r) < codes (pad2 b @ r')"
  using fixed_width [of "pad2 a" "pad2 b" r r'] pad2_props [OF assms(1,2)] pad2_props [OF assms(3,4)] by simp_all

lemma text_order_is_time_order:
  assumes ya: "0 \<le> getFullYear 0 a" "getFullYear 0 a \<le> 9999" and yb: "0 \<le> getFullYear 0 b" "getFullYear 0 b \<le> 9999"
    and "a div msPerDay < b div msPerDay"
  shows "codes (toIsoDate a) < codes (toIsoDate b)"
proof -
  let ?y = "getFullYear 0" and ?m = "\<lambda>t. getMonth 0 t + 1" and ?d = "getDate 0"
  note f = arca_date_fields [of 0 a] arca_date_fields [of 0 b]
  have fields: "?y t = yearOf (t div msPerDay)" "?m t = monthOf (t div msPerDay) + 1" "?d t = dayOf (t div msPerDay)" for t
    by (simp_all add: getFullYear_def getMonth_def getDate_def localDay_0)
  have "?y a < ?y b \<or> ?y a = ?y b \<and> (?m a < ?m b \<or> ?m a = ?m b \<and> ?d a < ?d b)"
    using monthIndex_mono [of "a div msPerDay" "b div msPerDay"] assms(5)
      day_fields(1,2) [of "a div msPerDay"] day_fields(1,2) [of "b div msPerDay"]
    unfolding fields monthIndex_def by linarith
  then consider (year) "?y a < ?y b" | (month) "?y a = ?y b" "?m a < ?m b" | (day) "?y a = ?y b" "?m a = ?m b" "?d a < ?d b"
    by blast
  then have "codes (isoYear (?y a) @ CHR ''-'' # pad2 (?m a) @ CHR ''-'' # pad2 (?d a)) <
      codes (isoYear (?y b) @ CHR ''-'' # pad2 (?m b) @ CHR ''-'' # pad2 (?d b))"
  proof cases
    case year
    then show ?thesis
      using fixed_width(1) [of "isoYear (?y a)" "isoYear (?y b)"] ya yb by (simp add: length_isoYear isoYear_digits valueOf_isoYear)
  next
    case month
    have "codes (pad2 (?m a) @ CHR ''-'' # pad2 (?d a)) < codes (pad2 (?m b) @ CHR ''-'' # pad2 (?d b))"
      using month(2) f by (intro pad2_compare(1)) simp_all
    from fixed_width(2) [OF _ _ _ _ dash_first [OF this], of "isoYear (?y a)" "isoYear (?y b)"] show ?thesis
      using month(1) ya yb by (simp add: length_isoYear isoYear_digits)
  next
    case day
    have "codes (pad2 (?d a) @ []) < codes (pad2 (?d b) @ [])" using day(3) f by (intro pad2_compare(1)) simp_all
    then have "codes (CHR ''-'' # pad2 (?d a)) < codes (CHR ''-'' # pad2 (?d b))" by (intro dash_first) simp
    then have "codes (pad2 (?m a) @ CHR ''-'' # pad2 (?d a)) < codes (pad2 (?m b) @ CHR ''-'' # pad2 (?d b))"
      using day(2) f by (intro pad2_compare(2)) simp_all
    from fixed_width(2) [OF _ _ _ _ dash_first [OF this], of "isoYear (?y a)" "isoYear (?y b)"] show ?thesis
      using day(1) ya yb by (simp add: length_isoYear isoYear_digits)
  qed
  then show ?thesis by (simp only: toIsoDate_text [OF ya] toIsoDate_text [OF yb])
qed

subsection \<open>The due dates of a month\<close>

lemma monthIndex_unique: "monthFirst j \<le> day \<Longrightarrow> day < monthFirst (j + 1) \<Longrightarrow> monthIndex day = j"
  using monthFirst_mono [of "monthIndex day + 1" j] monthFirst_mono [of "j + 1" "monthIndex day"]
    day_of_month [of day] day_before_next [of day] day_fields(3) [of day] by linarith

lemma daysInMonth_bound:
  assumes "99 < y"
  shows "28 \<le> daysInMonth y m"
proof -
  have m: "makeDay y m 0 = monthFirst (12 * y + m) - 1"
  proof -
    have "(12 * y + m) div 12 = y + m div 12" "(12 * y + m) mod 12 = m mod 12" by simp_all
    then show ?thesis unfolding monthFirst_eq by (simp add: makeDay_def Let_def)
  qed
  let ?j = "12 * y + m - 1"
  have step: "monthFirst (12 * y + m) = monthFirst ?j + monthLength (leapYear (?j div 12)) (nat (?j mod 12))"
    using monthFirst_step [of ?j] by simp
  have len: "28 \<le> monthLength (leapYear (?j div 12)) (nat (?j mod 12))" using monthLength_bounds by simp
  have j: "monthIndex (makeDay y m 0) = ?j" using step len by (intro monthIndex_unique) (simp_all add: m)
  have "28 \<le> dayOf (makeDay y m 0)"
    using day_of_month [of "makeDay y m 0", unfolded j] step len m by linarith
  then show ?thesis using assms by (simp add: daysInMonth_def getDate_def utcDate_def localDay_newLocalDate)
qed

lemma dueDay_range: "1 \<le> dueDayFor ob (lastDigitOf cuit)" "dueDayFor ob (lastDigitOf cuit) \<le> 28"
proof -
  have "last (onlyDigits cuit) \<in> set (onlyDigits cuit)" if "onlyDigits cuit \<noteq> []" using that by (rule last_in_set)
  then have "isDigit (last (onlyDigits cuit))" if "onlyDigits cuit \<noteq> []" using that by (auto simp: onlyDigits_def)
  then have "0 \<le> lastDigitOf cuit \<and> lastDigitOf cuit < 10"
    using digit_codes by (auto simp: lastDigitOf_def Let_def)
  then have "0 \<le> lastDigitOf cuit div 2 \<and> lastDigitOf cuit div 2 < 5" by linarith
  then show "1 \<le> dueDayFor ob (lastDigitOf cuit)" "dueDayFor ob (lastDigitOf cuit) \<le> 28"
    by (simp_all add: dueDayFor_def Let_def FIRST_DIGIT_GROUP_DAY_def CARGAS_SOCIALES_OFFSET_def)
qed

subsection \<open>The calendar and its specification\<close>

text \<open>The due date of an obligation in the month of index \<open>k\<close>, at midnight UTC.\<close>

definition dueIn :: "string \<Rightarrow> FiscalObligation \<Rightarrow> int \<Rightarrow> date" where
  "dueIn cuit ob k = makeDay (k div 12) (k mod 12) (dueDayFor ob (lastDigitOf cuit)) * msPerDay"

lemma div_msPerDay: "(x * msPerDay) div msPerDay = x"
  by (simp add: msPerDay_def)

lemma monthIndex_dueIn: "monthIndex (dueIn cuit ob k div msPerDay) = k"
  unfolding dueIn_def div_msPerDay using dueDay_range [of ob cuit]
  by (subst monthIndex_makeDay) simp_all

lemma dueDatesOf_eq:
  assumes "12000 \<le> k"
  shows "dueDatesOf (lastDigitOf cuit) k = map (\<lambda>ob. (ob, dueIn cuit ob k)) obligations"
proof -
  have y: "99 < k div 12" using assms by linarith
  have "safeDate (k div 12) (jsRemainder k 12 + 1) (dueDayFor ob (lastDigitOf cuit)) = dueIn cuit ob k" for ob
    using dueDay_range [of ob cuit] daysInMonth_bound [OF y, of "k mod 12 + 1"] y assms
    by (simp add: safeDate_def jsRemainder_def dueIn_def utcDate_def newLocalDate_def min_def)
  then show ?thesis by (simp add: dueDatesOf_def)
qed

lemma monthIndexOf_eq: "monthIndexOf t = monthIndex (t div msPerDay)"
  by (simp add: monthIndexOf_def monthIndex_def getFullYear_def getMonth_def localDay_0)

lemma utcStartOfDay_eq: "99 < getFullYear 0 t \<Longrightarrow> utcStartOfDay t = t div msPerDay * msPerDay"
  unfolding utcStartOfDay_def utcDate_def by (simp add: startOfDay_fields startOfDay_def localDay_0)

lemma obligations_all: "set obligations = UNIV" "distinct obligations"
proof -
  show "set obligations = UNIV" using FiscalObligation.exhaust by (auto simp: obligations_def)
  show "distinct obligations" by (simp add: obligations_def)
qed

lemma insort_map: "insort_key f (g x) (map g xs) = map g (insort_key (f \<circ> g) x xs)"
  by (induction xs) simp_all

lemma sort_map: "sort_key f (map g xs) = map g (sort_key (f \<circ> g) xs)"
  by (induction xs) (simp_all add: insort_map comp_def)

definition inPeriod :: "date \<Rightarrow> date \<Rightarrow> date \<Rightarrow> bool" where
  "inPeriod start finish due \<longleftrightarrow> utcStartOfDay start \<le> due \<and> due \<le> utcStartOfDay finish"

lemma in_period_month:
  assumes "99 < getFullYear 0 s" "99 < getFullYear 0 e" "inPeriod s e (dueIn cuit ob k)"
  shows "monthIndexOf s \<le> k \<and> k \<le> monthIndexOf e"
proof -
  have "s div msPerDay \<le> dueIn cuit ob k div msPerDay \<and> dueIn cuit ob k div msPerDay \<le> e div msPerDay"
    using assms(3) unfolding inPeriod_def utcStartOfDay_eq [OF assms(1)] utcStartOfDay_eq [OF assms(2)]
    by (simp add: msPerDay_def) linarith
  then show ?thesis
    using monthIndex_mono [of "s div msPerDay" "dueIn cuit ob k div msPerDay"]
      monthIndex_mono [of "dueIn cuit ob k div msPerDay" "e div msPerDay"]
    unfolding monthIndexOf_eq monthIndex_dueIn by linarith
qed

lemma monthIndexOf_year: "1000 \<le> getFullYear 0 t \<Longrightarrow> 12000 \<le> monthIndexOf t"
  using day_fields(1) [of "localDay 0 t"] by (simp add: monthIndexOf_def getMonth_def)

lemma calendarDates_eq:
  assumes "1000 \<le> getFullYear 0 s"
  shows "calendarDates cuit s e =
    concat (map (\<lambda>k. map (\<lambda>ob. (ob, dueIn cuit ob k)) (filter (\<lambda>ob. inPeriod s e (dueIn cuit ob k)) obligations))
      [monthIndexOf s..monthIndexOf e])"
proof -
  have k: "12000 \<le> k" if "k \<in> set [monthIndexOf s..monthIndexOf e]" for k
    using that monthIndexOf_year [OF assms] by simp
  have "map (dueDatesOf (lastDigitOf cuit)) [monthIndexOf s..monthIndexOf e] =
      map (\<lambda>k. map (\<lambda>ob. (ob, dueIn cuit ob k)) obligations) [monthIndexOf s..monthIndexOf e]"
    using dueDatesOf_eq [OF k] by (intro map_cong [OF refl])
  then show ?thesis
    unfolding calendarDates_def by (simp add: filter_concat filter_map comp_def inPeriod_def del: map_eq_conv)
qed

lemma calendarDates_set:
  assumes "1000 \<le> getFullYear 0 s" "1000 \<le> getFullYear 0 e"
  shows "set (calendarDates cuit s e) = {(ob, t). \<exists>k. t = dueIn cuit ob k \<and> inPeriod s e t}"
proof -
  have "monthIndexOf s \<le> k \<and> k \<le> monthIndexOf e" if "inPeriod s e (dueIn cuit ob k)" for ob k
    using in_period_month [OF _ _ that] assms by simp
  then have "\<exists>j\<in>{monthIndexOf s..monthIndexOf e}. (ob, dueIn cuit ob k) \<in>
      (\<lambda>x. (x, dueIn cuit x j)) ` {x. inPeriod s e (dueIn cuit x j)}" if "inPeriod s e (dueIn cuit ob k)" for ob k
    using that by (intro bexI [of _ k]) auto
  then show ?thesis by (auto simp: calendarDates_eq [OF assms(1)] obligations_all)
qed

lemma dueIn_inj: "dueIn cuit ob k = dueIn cuit ob' k' \<Longrightarrow> k = k'"
  using monthIndex_dueIn [of cuit ob k] monthIndex_dueIn [of cuit ob' k'] by simp

lemma distinct_months:
  assumes "distinct ks" "\<And>k. distinct (g k)"
  shows "distinct (concat (map (\<lambda>k. map (\<lambda>ob. (ob, dueIn cuit ob k)) (g k)) ks))"
  using assms(1)
proof (induction ks)
  case (Cons k ks)
  have "distinct (map (\<lambda>ob. (ob, dueIn cuit ob k)) (g k))"
    using assms(2) by (simp add: distinct_map inj_on_def)
  then show ?case using Cons by (auto dest!: dueIn_inj)
qed simp

lemma calendarDates_distinct: "1000 \<le> getFullYear 0 s \<Longrightarrow> distinct (calendarDates cuit s e)"
  using obligations_all(2) by (simp add: calendarDates_eq distinct_months)

lemma dueIn_year:
  assumes "1000 \<le> getFullYear 0 s" "1000 \<le> getFullYear 0 e" "getFullYear 0 e \<le> 9999" "inPeriod s e (dueIn cuit ob k)"
  shows "0 \<le> getFullYear 0 (dueIn cuit ob k)" "getFullYear 0 (dueIn cuit ob k) \<le> 9999"
proof -
  have k: "12000 \<le> k" "k < 120000"
    using in_period_month [OF _ _ assms(4)] assms(1-3) monthIndexOf_year [OF assms(1)] day_fields(2) [of "localDay 0 e"]
    by (simp_all add: monthIndexOf_def getMonth_def)
  have "12 * getFullYear 0 (dueIn cuit ob k) + getMonth 0 (dueIn cuit ob k) = k"
    using monthIndex_dueIn [of cuit ob k] by (simp add: monthIndex_def getFullYear_def getMonth_def localDay_0)
  moreover have "0 \<le> getMonth 0 (dueIn cuit ob k)" "getMonth 0 (dueIn cuit ob k) < 12"
    using day_fields(1,2) by (simp_all add: getMonth_def)
  ultimately show "0 \<le> getFullYear 0 (dueIn cuit ob k)" "getFullYear 0 (dueIn cuit ob k) \<le> 9999"
    using k by linarith+
qed

lemma dueDateKey_codes: "dueDateKey (vencimientoOf today d) = codes (toIsoDate (snd d))"
  by (simp add: dueDateKey_def vencimientoOf_def codes_def)

lemma key_order:
  assumes "1000 \<le> getFullYear 0 s" "1000 \<le> getFullYear 0 e" "getFullYear 0 e \<le> 9999"
    and "a \<in> set (calendarDates cuit s e)" "b \<in> set (calendarDates cuit s e)"
    and "dueDateKey (vencimientoOf today a) \<le> dueDateKey (vencimientoOf today b)"
  shows "snd a \<le> snd b"
proof (rule ccontr)
  assume "\<not> snd a \<le> snd b"
  moreover obtain j k where jk: "snd a = dueIn cuit (fst a) j" "snd b = dueIn cuit (fst b) k"
      "inPeriod s e (dueIn cuit (fst a) j)" "inPeriod s e (dueIn cuit (fst b) k)"
    using assms(4,5) unfolding calendarDates_set [OF assms(1,2)] by auto
  ultimately have "snd b div msPerDay < snd a div msPerDay"
    unfolding jk(1,2) dueIn_def div_msPerDay by (simp add: msPerDay_def)
  then have "codes (toIsoDate (snd b)) < codes (toIsoDate (snd a))"
    using dueIn_year [OF assms(1-3) jk(3)] dueIn_year [OF assms(1-3) jk(4)]
    by (intro text_order_is_time_order) (simp_all add: jk(1,2))
  then show False using assms(6) by (simp add: dueDateKey_codes)
qed

text \<open>
  Property C19. The calendar of due dates is the specification's: for a period of four-digit
  years, the list shown is made of the due dates of every obligation in every month that fall,
  as days, within the period (both ends included), none missing and none twice, each at its
  obligation's day of the month for the last digit of the CUIT, in the order of time.
\<close>

theorem vencimientos_listed:
  assumes "1000 \<le> getFullYear 0 s" "1000 \<le> getFullYear 0 e" "getFullYear 0 e \<le> 9999"
  shows "\<exists>ds. upcomingVencimientos cuit (Some s) (Some e) today = map (vencimientoOf today) ds \<and>
    sorted (map snd ds) \<and> distinct ds \<and>
    set ds = {(ob, t). \<exists>y m. 0 \<le> m \<and> m < 12 \<and>
      t = utcDate y m (dueDayFor ob (lastDigitOf cuit)) \<and> 99 < y \<and> utcStartOfDay s \<le> t \<and> t \<le> utcStartOfDay e}"
    (is "\<exists>ds. ?list ds \<and> ?sorted ds \<and> _ \<and> set ds = ?spec")
proof (intro exI conjI)
  let ?ds = "sort_key (dueDateKey \<circ> vencimientoOf today) (calendarDates cuit s e)"
  show "?list ?ds" by (simp add: upcomingVencimientos_def sort_map)
  show "distinct ?ds" using calendarDates_distinct [OF assms(1)] by simp
  have "sorted_wrt (\<lambda>a b. dueDateKey (vencimientoOf today a) \<le> dueDateKey (vencimientoOf today b)) ?ds"
    using sorted_sort_key [of "dueDateKey \<circ> vencimientoOf today" "calendarDates cuit s e"] by (simp add: sorted_map)
  then have "sorted_wrt (\<lambda>a b. snd a \<le> snd b) ?ds"
    using key_order [OF assms] by (elim sorted_wrt_mono_rel [rotated]) simp
  then show "?sorted ?ds" by (simp add: sorted_map)
  have "(\<exists>k. t = dueIn cuit ob k \<and> inPeriod s e t) \<longleftrightarrow>
      (\<exists>y m. 0 \<le> m \<and> m < 12 \<and> t = utcDate y m (dueDayFor ob (lastDigitOf cuit)) \<and> 99 < y \<and>
        utcStartOfDay s \<le> t \<and> t \<le> utcStartOfDay e)" (is "?left \<longleftrightarrow> ?right") for ob t
  proof
    assume ?left
    then obtain k where k: "t = dueIn cuit ob k" "inPeriod s e (dueIn cuit ob k)" by blast
    have "12000 \<le> k" using in_period_month [OF _ _ k(2)] assms(1,2) monthIndexOf_year [OF assms(1)] by simp
    then have "99 < k div 12" by linarith
    then show ?right using k
      by (intro exI [of _ "k div 12"] exI [of _ "k mod 12"]) (simp add: dueIn_def utcDate_def newLocalDate_def inPeriod_def)
  next
    assume ?right
    then obtain y m where ym: "0 \<le> m" "m < 12" "t = utcDate y m (dueDayFor ob (lastDigitOf cuit))" "99 < y"
      "utcStartOfDay s \<le> t" "t \<le> utcStartOfDay e" by blast
    have "(12 * y + m) div 12 = y" "(12 * y + m) mod 12 = m"
      using ym(1,2) by simp_all
    then show ?left using ym(3-6)
      by (intro exI [of _ "12 * y + m"]) (simp add: dueIn_def utcDate_def newLocalDate_def inPeriod_def)
  qed
  then show "set ?ds = ?spec" by (simp add: calendarDates_set [OF assms(1,2)])
qed

lemma vencimientos_listed_witness:
  "\<exists>ds. upcomingVencimientos ''20-11111111-2'' (Some 1769904000000) (Some 1777680000000) 1769904000000 =
      map (vencimientoOf 1769904000000) ds \<and> sorted (map snd ds) \<and> distinct ds"
proof -
  have "getFullYear 0 1769904000000 = 2026" "getFullYear 0 1777680000000 = 2026" by code_simp+
  then show ?thesis
    using vencimientos_listed [of 1769904000000 1777680000000 "''20-11111111-2''" 1769904000000] by auto
qed

end
