(* ===== verification/MisComprobantesCsv.thy ===== *)
theory MisComprobantesCsv
  imports SalesBookCsv
begin

text \<open>
  The reader of the files of \<open>Mis Comprobantes\<close>,
  \<open>purchase-invoices/mis-comprobantes-csv.ts\<close>. The byte order mark, one character outside
  Latin-1, is the argument \<open>mark\<close>; a \<open>CsvFormatError\<close> is its message.
\<close>

datatype CsvColumn =
    DATE | COLUMN_TYPE | SALES_POINT | NUMBER_FROM | ISSUER_DOC_NUMBER | ISSUER_NAME | NET_TAXED
  | NET_UNTAXED | EXEMPT_AMOUNT | IVA | TOTAL

fun columnName :: "CsvColumn \<Rightarrow> string" where
  "columnName DATE = ''fecha''"
| "columnName COLUMN_TYPE = ''tipo''"
| "columnName SALES_POINT = ''puntodeventa''"
| "columnName NUMBER_FROM = ''numerodesde''"
| "columnName ISSUER_DOC_NUMBER = ''nrodocemisor''"
| "columnName ISSUER_NAME = ''denominacionemisor''"
| "columnName NET_TAXED = ''impnetogravado''"
| "columnName NET_UNTAXED = ''impnetonogravado''"
| "columnName EXEMPT_AMOUNT = ''impopexentas''"
| "columnName IVA = ''iva''"
| "columnName TOTAL = ''imptotal''"

definition csvColumns :: "CsvColumn list" where
  "csvColumns = [DATE, COLUMN_TYPE, SALES_POINT, NUMBER_FROM, ISSUER_DOC_NUMBER, ISSUER_NAME, NET_TAXED, NET_UNTAXED,
     EXEMPT_AMOUNT, IVA, TOTAL]"

definition REQUIRED_COLUMNS :: "string list" where
  "REQUIRED_COLUMNS = map columnName csvColumns"

record ParsedPurchaseRow =
  pp_line :: nat
  pp_supplierCuit :: string
  pp_supplierName :: string
  pp_invoiceType :: int
  pp_salesPoint :: int
  pp_number :: int
  pp_issueDate :: string
  pp_netTaxed :: number
  pp_untaxed :: number
  pp_exempt :: number
  pp_ivaAmount :: number
  pp_total :: number

record InvalidPurchaseRow =
  ipr_line :: nat
  ipr_reason :: string

record ParsedCsv =
  csv_rows :: "ParsedPurchaseRow list"
  csv_invalid :: "InvalidPurchaseRow list"

definition FIRST_DATA_LINE_NUMBER :: nat where
  "FIRST_DATA_LINE_NUMBER = 2"

subsection \<open>Headers\<close>

text \<open>
  The canonical decomposition of the letters of Latin-1, with their combining marks removed:
  an accented letter is its base letter.
\<close>

definition baseLetter :: "char \<Rightarrow> char" where
  "baseLetter c = (let n = of_char c :: nat in
     if 192 \<le> n \<and> n \<le> 197 then CHR ''A'' else if n = 199 then CHR ''C''
     else if 200 \<le> n \<and> n \<le> 203 then CHR ''E'' else if 204 \<le> n \<and> n \<le> 207 then CHR ''I''
     else if n = 209 then CHR ''N'' else if 210 \<le> n \<and> n \<le> 214 then CHR ''O''
     else if 217 \<le> n \<and> n \<le> 220 then CHR ''U'' else if n = 221 then CHR ''Y''
     else if 224 \<le> n \<and> n \<le> 229 then CHR ''a'' else if n = 231 then CHR ''c''
     else if 232 \<le> n \<and> n \<le> 235 then CHR ''e'' else if 236 \<le> n \<and> n \<le> 239 then CHR ''i''
     else if n = 241 then CHR ''n'' else if 242 \<le> n \<and> n \<le> 246 then CHR ''o''
     else if 249 \<le> n \<and> n \<le> 252 then CHR ''u'' else if n = 253 \<or> n = 255 then CHR ''y'' else c)"

definition lowerAscii :: "char \<Rightarrow> char" where
  "lowerAscii c = (let n = of_char c :: nat in if 65 \<le> n \<and> n \<le> 90 then char_of (n + 32) else c)"

definition isHeaderChar :: "char \<Rightarrow> bool" where
  "isHeaderChar c = (let n = of_char c :: nat in (97 \<le> n \<and> n \<le> 122) \<or> (48 \<le> n \<and> n \<le> 57))"

definition normalizeHeader :: "string \<Rightarrow> string" where
  "normalizeHeader header = filter isHeaderChar (map lowerAscii (map baseLetter header))"

definition detectDelimiter :: "string \<Rightarrow> char" where
  "detectDelimiter headerLine =
     (let semicolons = length (splitOn (CHR '';'') headerLine); commas = length (splitOn (CHR '','') headerLine) in
      if commas \<le> semicolons then CHR '';'' else CHR '','')"

subsection \<open>Lines and fields\<close>

text \<open>The loop of \<open>splitLine\<close>: the field being read, and whether it is inside quotes.\<close>

fun splitFields :: "char \<Rightarrow> string \<Rightarrow> bool \<Rightarrow> string \<Rightarrow> string list" where
  "splitFields delimiter current quoted [] = [trim current]"
| "splitFields delimiter current quoted (c # s) =
     (if c = CHR 0x22 then
        (case s of
           d # s' \<Rightarrow> if quoted \<and> d = CHR 0x22 then splitFields delimiter (current @ [CHR 0x22]) quoted s'
                     else splitFields delimiter current (\<not> quoted) s
         | [] \<Rightarrow> splitFields delimiter current (\<not> quoted) s)
      else if c = delimiter \<and> \<not> quoted then trim current # splitFields delimiter [] quoted s
      else splitFields delimiter (current @ [c]) quoted s)"

definition splitLine :: "string \<Rightarrow> char \<Rightarrow> string list" where
  "splitLine line delimiter = splitFields delimiter [] False line"

text \<open>The first occurrence of the mark, wherever it is, goes.\<close>

fun removeFirst :: "string \<Rightarrow> string \<Rightarrow> string" where
  "removeFirst mark [] = []"
| "removeFirst mark (c # s) =
     (if take (length mark) (c # s) = mark then drop (length mark) (c # s) else c # removeFirst mark s)"

text \<open>\<open>split(/\r?\n/)\<close>: a carriage return before a line feed belongs to the separator.\<close>

fun splitLines :: "string \<Rightarrow> string list" where
  "splitLines [] = [[]]"
| "splitLines (c # s) =
     (if c = CHR 0x0A then [] # splitLines s
      else if c = CHR 0x0D \<and> s \<noteq> [] \<and> hd s = CHR 0x0A then splitLines s
      else (c # hd (splitLines s)) # tl (splitLines s))"

subsection \<open>Values\<close>

definition endsWithCommaDecimals :: "string \<Rightarrow> bool" where
  "endsWithCommaDecimals s =
     (let r = rev s; ds = takeWhile isDigit r; rest = dropWhile isDigit r in
      (length ds = 1 \<or> length ds = 2) \<and> rest \<noteq> [] \<and> hd rest = CHR '','')"

definition csvFormatError :: "string \<Rightarrow> string \<Rightarrow> string" where
  "csvFormatError label raw = label @ '': '' @ CHR 0x22 # raw @ [CHR 0x22, CHR ''.'']"

definition parseArcaAmount :: "string \<Rightarrow> string + number" where
  "parseArcaAmount raw =
     (let cleaned = filter (\<lambda>c. \<not> isSpace c) raw in
      if cleaned = [] then Inr 0
      else (let normalized = (if endsWithCommaDecimals cleaned
                then replaceFirst (CHR '','') (CHR ''.'') (filter (\<lambda>c. c \<noteq> CHR ''.'') cleaned)
                else filter (\<lambda>c. c \<noteq> CHR '','') cleaned) in
        (case js_Number normalized of
           Some amount \<Rightarrow> Inr amount
         | None \<Rightarrow> Inl (csvFormatError ''Importe ilegible'' raw))))"

definition isLocalDay :: "string \<Rightarrow> bool" where
  "isLocalDay s = (length s = 10 \<and> list_all isDigit (take 2 s) \<and> s ! 2 = CHR ''/'' \<and>
     list_all isDigit (take 2 (drop 3 s)) \<and> s ! 5 = CHR ''/'' \<and> list_all isDigit (drop 6 s))"

text \<open>The expressions are anchored at the start only: what follows the ten characters is dropped.\<close>

definition parseArcaDay :: "string \<Rightarrow> string + string" where
  "parseArcaDay raw =
     (let day = take 10 raw in
      if isIsoDay day then Inr day
      else if isLocalDay day
        then Inr (drop 6 day @ CHR ''-'' # take 2 (drop 3 day) @ CHR ''-'' # take 2 day)
      else Inl (csvFormatError ''Fecha ilegible'' raw))"

definition parsePositive :: "string \<Rightarrow> string \<Rightarrow> string + int" where
  "parsePositive raw label =
     (case integerNumber (onlyDigits raw) of
        None \<Rightarrow> Inl (csvFormatError (label @ '' ilegible'') raw)
      | Some n \<Rightarrow> if n = 0 then Inl (csvFormatError (label @ '' ilegible'') raw) else Inr n)"

definition parseCuit :: "string \<Rightarrow> string + string" where
  "parseCuit raw =
     (let digits = onlyDigits raw in
      if length digits \<noteq> 11 then Inl (csvFormatError (''CUIT del emisor inv'' @ [CHR 0xE1] @ ''lido'') raw)
      else Inr digits)"

subsection \<open>Rows\<close>

definition andThen :: "'e + 'a \<Rightarrow> ('a \<Rightarrow> 'e + 'b) \<Rightarrow> 'e + 'b" where
  "andThen m f = (case m of Inl e \<Rightarrow> Inl e | Inr x \<Rightarrow> f x)"

lemma andThen_simps [simp]: "andThen (Inl e) f = Inl e" "andThen (Inr x) f = f x"
  by (simp_all add: andThen_def)

fun indexOf :: "'a list \<Rightarrow> 'a \<Rightarrow> nat option" where
  "indexOf [] x = None"
| "indexOf (y # ys) x = (if y = x then Some 0 else map_option Suc (indexOf ys x))"

text \<open>A field the line does not have is the empty text.\<close>

definition fieldAt :: "string list \<Rightarrow> string list \<Rightarrow> CsvColumn \<Rightarrow> string" where
  "fieldAt headers cells column =
     (case indexOf headers (columnName column) of
        None \<Rightarrow> '''' | Some i \<Rightarrow> if i < length cells then cells ! i else '''')"

definition parseRow :: "string list \<Rightarrow> string list \<Rightarrow> nat \<Rightarrow> string + ParsedPurchaseRow" where
  "parseRow headers cells line =
     (let cell = fieldAt headers cells in
      andThen (parseCuit (cell ISSUER_DOC_NUMBER)) (\<lambda>cuit.
      andThen (parsePositive (cell COLUMN_TYPE) ''Tipo de comprobante'') (\<lambda>type.
      andThen (parsePositive (cell SALES_POINT) ''Punto de venta'') (\<lambda>sp.
      andThen (parsePositive (cell NUMBER_FROM) (''N'' @ [CHR 0xFA] @ ''mero'')) (\<lambda>number.
      andThen (parseArcaDay (cell DATE)) (\<lambda>day.
      andThen (parseArcaAmount (cell NET_TAXED)) (\<lambda>net.
      andThen (parseArcaAmount (cell NET_UNTAXED)) (\<lambda>untaxed.
      andThen (parseArcaAmount (cell EXEMPT_AMOUNT)) (\<lambda>exempt.
      andThen (parseArcaAmount (cell IVA)) (\<lambda>iva.
      andThen (parseArcaAmount (cell TOTAL)) (\<lambda>total.
        Inr \<lparr>pp_line = line, pp_supplierCuit = cuit, pp_supplierName = cell ISSUER_NAME, pp_invoiceType = type,
          pp_salesPoint = sp, pp_number = number, pp_issueDate = day, pp_netTaxed = net, pp_untaxed = untaxed,
          pp_exempt = exempt, pp_ivaAmount = iva, pp_total = total\<rparr>)))))))))))"

fun parseLines :: "char \<Rightarrow> string list \<Rightarrow> nat \<Rightarrow> string list \<Rightarrow> ParsedCsv" where
  "parseLines delimiter headers line [] = \<lparr>csv_rows = [], csv_invalid = []\<rparr>"
| "parseLines delimiter headers line (dataLine # dataLines) =
     (let rest = parseLines delimiter headers (line + 1) dataLines in
      case parseRow headers (splitLine dataLine delimiter) line of
        Inr row \<Rightarrow> rest\<lparr>csv_rows := row # csv_rows rest\<rparr>
      | Inl reason \<Rightarrow> rest\<lparr>csv_invalid := \<lparr>ipr_line = line, ipr_reason = reason\<rparr> # csv_invalid rest\<rparr>)"

definition parseMisComprobantesCsv :: "string \<Rightarrow> string \<Rightarrow> string + ParsedCsv" where
  "parseMisComprobantesCsv mark csv =
     (case filter (\<lambda>line. trim line \<noteq> []) (splitLines (removeFirst mark csv)) of
        [] \<Rightarrow> Inl (''El archivo est'' @ [CHR 0xE1] @ '' vac'' @ [CHR 0xED] @ ''o.'')
      | headerLine # dataLines \<Rightarrow>
          (let delimiter = detectDelimiter headerLine;
               headers = map normalizeHeader (splitLine headerLine delimiter);
               missing = filter (\<lambda>column. column \<notin> set headers) REQUIRED_COLUMNS in
           if missing \<noteq> [] then
             Inl (''Al archivo le faltan columnas de Mis Comprobantes: '' @ joinWith '', '' missing @ ''.'')
           else Inr (parseLines delimiter headers FIRST_DATA_LINE_NUMBER dataLines)))"

lemma andThen_Inr: "andThen m f = Inr y \<longleftrightarrow> (\<exists>x. m = Inr x \<and> f x = Inr y)"
  by (cases m) simp_all

subsection \<open>Lines read back\<close>

lemma splitLines_plain:
  assumes "CHR 0x0A \<notin> set s" "s \<noteq> [] \<longrightarrow> last s \<noteq> CHR 0x0D"
  shows "splitLines (s @ CHR 0x0D # CHR 0x0A # r) = s # splitLines r" and "splitLines s = [s]"
proof -
  have "splitLines (s @ CHR 0x0D # CHR 0x0A # r) = s # splitLines r \<and> splitLines s = [s]"
    using assms
  proof (induction s)
    case (Cons c s)
    show ?case
    proof (cases s)
      case (Cons d s')
      then show ?thesis using Cons.IH Cons.prems by auto
    qed (use Cons.prems in auto)
  qed simp
  then show "splitLines (s @ CHR 0x0D # CHR 0x0A # r) = s # splitLines r" "splitLines s = [s]" by simp_all
qed

end
