(* ===== verification/PurchaseInvoices.thy ===== *)
theory PurchaseInvoices
  imports MisComprobantesCsv IvaPosition
begin

text \<open>
  The purchase invoices of an issuer, \<open>purchase-invoices/purchase-invoices.service.ts\<close>
  with the shapes of \<open>packages/shared/src/purchase-invoice.ts\<close>. The columns of type
  \<open>Decimal(15, 2)\<close> are read back through \<open>decimals\<close>.
\<close>

record PurchaseInvoiceInput =
  pin_supplierCuit :: string
  pin_supplierName :: string
  pin_invoiceType :: int
  pin_salesPoint :: int
  pin_number :: int
  pin_issueDate :: string
  pin_dueDate :: "string option"
  pin_amounts :: PurchaseAmounts

record UpdatePurchaseInvoiceInput =
  up_supplierCuit :: "string option"
  up_supplierName :: "string option"
  up_invoiceType :: "int option"
  up_salesPoint :: "int option"
  up_number :: "int option"
  up_issueDate :: "string option"
  up_dueDate :: "string option"
  up_netAmount21 :: "number option"
  up_iva21 :: "number option"
  up_netAmount105 :: "number option"
  up_iva105 :: "number option"
  up_netAmount27 :: "number option"
  up_iva27 :: "number option"
  up_exempt :: "number option"
  up_untaxed :: "number option"

definition isSupplierCuit :: "string \<Rightarrow> bool" where
  "isSupplierCuit s = (length s = 11 \<and> list_all isDigit s)"

text \<open>The refinements of \<open>purchaseInvoiceSchema\<close> on a body whose fields have their types.\<close>

definition validPurchaseInvoice :: "PurchaseInvoiceInput \<Rightarrow> bool" where
  "validPurchaseInvoice d =
     (isSupplierCuit (pin_supplierCuit d) \<and> pin_supplierName d \<noteq> [] \<and> 0 < pin_invoiceType d \<and>
      0 < pin_salesPoint d \<and> 0 < pin_number d \<and> isIsoDay (pin_issueDate d) \<and>
      (case pin_dueDate d of None \<Rightarrow> True | Some t \<Rightarrow> isIsoDay t) \<and>
      list_all (\<lambda>x. 0 \<le> x)
        [pa_netAmount21 (pin_amounts d), pa_iva21 (pin_amounts d), pa_netAmount105 (pin_amounts d),
         pa_iva105 (pin_amounts d), pa_netAmount27 (pin_amounts d), pa_iva27 (pin_amounts d),
         pa_exempt (pin_amounts d), pa_untaxed (pin_amounts d)])"

definition purchaseInvoiceTotal :: "PurchaseAmounts \<Rightarrow> number" where
  "purchaseInvoiceTotal a =
     (let sum = js_add (js_add (js_add (js_add (js_add (js_add (js_add (pa_netAmount21 a) (pa_iva21 a))
            (pa_netAmount105 a)) (pa_iva105 a)) (pa_netAmount27 a)) (pa_iva27 a)) (pa_exempt a)) (pa_untaxed a) in
      roundToCents sum)"

definition mapAmounts :: "(number \<Rightarrow> number) \<Rightarrow> PurchaseAmounts \<Rightarrow> PurchaseAmounts" where
  "mapAmounts f a =
     \<lparr>pa_netAmount21 = f (pa_netAmount21 a), pa_iva21 = f (pa_iva21 a), pa_netAmount105 = f (pa_netAmount105 a),
      pa_iva105 = f (pa_iva105 a), pa_netAmount27 = f (pa_netAmount27 a), pa_iva27 = f (pa_iva27 a),
      pa_exempt = f (pa_exempt a), pa_untaxed = f (pa_untaxed a)\<rparr>"

definition mergeAmounts ::
  "(number \<Rightarrow> number) \<Rightarrow> UpdatePurchaseInvoiceInput \<Rightarrow> PurchaseInvoiceRow \<Rightarrow> PurchaseAmounts" where
  "mergeAmounts decimals input existing =
     (let a = mapAmounts decimals (pi_amounts existing) in
      \<lparr>pa_netAmount21 = orElse (up_netAmount21 input) (pa_netAmount21 a), pa_iva21 = orElse (up_iva21 input) (pa_iva21 a),
       pa_netAmount105 = orElse (up_netAmount105 input) (pa_netAmount105 a),
       pa_iva105 = orElse (up_iva105 input) (pa_iva105 a),
       pa_netAmount27 = orElse (up_netAmount27 input) (pa_netAmount27 a), pa_iva27 = orElse (up_iva27 input) (pa_iva27 a),
       pa_exempt = orElse (up_exempt input) (pa_exempt a), pa_untaxed = orElse (up_untaxed input) (pa_untaxed a)\<rparr>)"

record PurchaseInvoiceSummary =
  pis_count :: int
  pis_netAmount :: number
  pis_ivaAmount :: number
  pis_totalAmount :: number

definition EMPTY_SUMMARY :: PurchaseInvoiceSummary where
  "EMPTY_SUMMARY = \<lparr>pis_count = 0, pis_netAmount = 0, pis_ivaAmount = 0, pis_totalAmount = 0\<rparr>"

definition addToSummary ::
  "(number \<Rightarrow> number) \<Rightarrow> PurchaseInvoiceSummary \<Rightarrow> PurchaseInvoiceRow \<Rightarrow> PurchaseInvoiceSummary" where
  "addToSummary decimals summary r =
     (let a = mapAmounts decimals (pi_amounts r);
          netAmount = js_add (js_add (pa_netAmount21 a) (pa_netAmount105 a)) (pa_netAmount27 a);
          ivaAmount = js_add (js_add (pa_iva21 a) (pa_iva105 a)) (pa_iva27 a) in
      \<lparr>pis_count = pis_count summary + 1, pis_netAmount = js_add (pis_netAmount summary) netAmount,
       pis_ivaAmount = js_add (pis_ivaAmount summary) ivaAmount,
       pis_totalAmount = js_add (pis_totalAmount summary) (decimals (pi_total r))\<rparr>)"

subsection \<open>Writing\<close>

text \<open>
  What the database takes in a row: columns of type \<open>Int\<close> hold 32 bits and those of type
  \<open>Decimal(15, 2)\<close> thirteen integer digits, and the client refuses an Invalid Date.
\<close>

definition fitsInt :: "int \<Rightarrow> bool" where
  "fitsInt n = (- 2147483648 \<le> n \<and> n \<le> 2147483647)"

definition purchaseRowError :: "PurchaseInvoiceRow \<Rightarrow> js_date \<Rightarrow> js_date option \<Rightarrow> app_error option" where
  "purchaseRowError r issueDate dueDate =
     (if issueDate = None \<or> dueDate = Some None then Some (OtherError ''PrismaClientValidationError'')
      else if \<not> (fitsInt (pi_invoiceType r) \<and> fitsInt (pi_salesPoint r) \<and> fitsInt (pi_number r))
        then Some (OtherError ''integer out of range'')
      else if \<not> list_all (\<lambda>x. \<bar>x\<bar> < 10000000000000)
          [pa_netAmount21 (pi_amounts r), pa_iva21 (pi_amounts r), pa_netAmount105 (pi_amounts r),
           pa_iva105 (pi_amounts r), pa_netAmount27 (pi_amounts r), pa_iva27 (pi_amounts r),
           pa_exempt (pi_amounts r), pa_untaxed (pi_amounts r), pi_total r]
        then Some (OtherError ''numeric field overflow'')
      else None)"

definition insertPurchase ::
  "'a ports \<Rightarrow> js_date \<Rightarrow> js_date option \<Rightarrow> PurchaseInvoiceRow \<Rightarrow> ('a, PurchaseInvoiceRow) effect" where
  "insertPurchase p issueDate dueDate r = table p (\<lambda>w.
     (case purchaseRowError r issueDate dueDate of
        Some e \<Rightarrow> (Inl e, w)
      | None \<Rightarrow> bindA (newId p) (\<lambda>new.
          (let row = r\<lparr>pi_id := new, pi_issueDate := orElse issueDate 0, pi_dueDate := Option.bind dueDate (\<lambda>t. t)\<rparr> in
           bindA (putA (\<lambda>w. w\<lparr>purchaseInvoices := purchaseInvoices w @ [row]\<rparr>)) (\<lambda>_. returnA row))) w))"

text \<open>\<open>parseOptionalDate\<close>: a missing or empty text is no date.\<close>

definition parseOptionalDate :: "string option \<Rightarrow> js_date option" where
  "parseOptionalDate t = (if hasText t then Some (dateOfIsoDay (the t)) else None)"

definition createPurchase :: "'a ports \<Rightarrow> string \<Rightarrow> PurchaseInvoiceInput \<Rightarrow> ('a, PurchaseInvoiceRow) effect" where
  "createPurchase p i d =
     (let total = purchaseInvoiceTotal (pin_amounts d) in
      insertPurchase p (dateOfIsoDay (pin_issueDate d)) (parseOptionalDate (pin_dueDate d))
        \<lparr>pi_id = '''', pi_issuerId = i, pi_supplierCuit = pin_supplierCuit d, pi_supplierName = pin_supplierName d,
         pi_invoiceType = pin_invoiceType d, pi_salesPoint = pin_salesPoint d, pi_number = pin_number d,
         pi_issueDate = 0, pi_dueDate = None, pi_amounts = pin_amounts d, pi_total = total\<rparr>)"

definition ownPurchase :: "string \<Rightarrow> string \<Rightarrow> PurchaseInvoiceRow \<Rightarrow> bool" where
  "ownPurchase i k r = (pi_id r = k \<and> pi_issuerId r = i)"

definition getScopedPurchase :: "'a ports \<Rightarrow> string \<Rightarrow> string \<Rightarrow> ('a, PurchaseInvoiceRow) effect" where
  "getScopedPurchase p i k =
     bindA (table p (getA (\<lambda>w. findRow (ownPurchase i k) (purchaseInvoices w)))) (\<lambda>found.
       case found of
         None \<Rightarrow> throwA (NotFound ''Factura de compra inexistente.'')
       | Some r \<Rightarrow> returnA r)"

definition changedPurchase ::
  "UpdatePurchaseInvoiceInput \<Rightarrow> js_date option \<Rightarrow> js_date option \<Rightarrow> PurchaseAmounts \<Rightarrow>
   PurchaseInvoiceRow \<Rightarrow> PurchaseInvoiceRow" where
  "changedPurchase input issueDate dueDate merged r =
     r\<lparr>pi_supplierCuit := orElse (up_supplierCuit input) (pi_supplierCuit r),
       pi_supplierName := orElse (up_supplierName input) (pi_supplierName r),
       pi_invoiceType := orElse (up_invoiceType input) (pi_invoiceType r),
       pi_salesPoint := orElse (up_salesPoint input) (pi_salesPoint r),
       pi_number := orElse (up_number input) (pi_number r),
       pi_issueDate := orElse (Option.bind issueDate (\<lambda>t. t)) (pi_issueDate r),
       pi_dueDate := (case Option.bind dueDate (\<lambda>t. t) of None \<Rightarrow> pi_dueDate r | Some t \<Rightarrow> Some t),
       pi_amounts := merged, pi_total := purchaseInvoiceTotal merged\<rparr>"

definition updatePurchase ::
  "'a ports \<Rightarrow> (number \<Rightarrow> number) \<Rightarrow> string \<Rightarrow> string \<Rightarrow> UpdatePurchaseInvoiceInput \<Rightarrow> ('a, PurchaseInvoiceRow) effect" where
  "updatePurchase p decimals i k input =
     bindA (getScopedPurchase p i k) (\<lambda>existing.
       (let merged = mergeAmounts decimals input existing;
            issueDate = parseOptionalDate (up_issueDate input); dueDate = parseOptionalDate (up_dueDate input);
            change = changedPurchase input issueDate dueDate merged in
        table p (\<lambda>w.
          (case findRow (ownPurchase i k) (purchaseInvoices w) of
             None \<Rightarrow> (Inl (PrismaKnownError RECORD_NOT_FOUND), w)
           | Some r \<Rightarrow>
              (case purchaseRowError (change r) (orElse issueDate (Some 0)) dueDate of
                 Some e \<Rightarrow> (Inl e, w)
               | None \<Rightarrow> (Inr (change r), w\<lparr>purchaseInvoices :=
                   map (\<lambda>r. if ownPurchase i k r then change r else r) (purchaseInvoices w)\<rparr>))))))"

definition removePurchase :: "'a ports \<Rightarrow> string \<Rightarrow> string \<Rightarrow> ('a, unit) effect" where
  "removePurchase p i k =
     bindA (getScopedPurchase p i k) (\<lambda>_.
       table p (\<lambda>w.
         (case findRow (ownPurchase i k) (purchaseInvoices w) of
            None \<Rightarrow> (Inl (PrismaKnownError RECORD_NOT_FOUND), w)
          | Some r \<Rightarrow> (Inr (), w\<lparr>purchaseInvoices :=
              filter (\<lambda>r. \<not> ownPurchase i k r) (purchaseInvoices w)\<rparr>))))"

subsection \<open>Listing\<close>

text \<open>
  A query parameter that is missing, zero or not a number does not filter; \<open>Date.UTC\<close>
  truncates its arguments. The infinite numbers, which no date has, are left out.
\<close>

definition isPresentNumber :: "number option option \<Rightarrow> bool" where
  "isPresentNumber v = (case v of None \<Rightarrow> False | Some None \<Rightarrow> False | Some (Some x) \<Rightarrow> x \<noteq> 0)"

definition purchaseMonth :: "number option option \<Rightarrow> number option option \<Rightarrow> (date \<times> date) option" where
  "purchaseMonth year month =
     (if isPresentNumber year \<and> isPresentNumber month
      then (let y = truncNumber (the (the year)) in
        Some (utcDate y (truncNumber (js_sub (the (the month)) 1)) 1, utcDate y (truncNumber (the (the month))) 1))
      else None)"

definition purchasesShown ::
  "string \<Rightarrow> (date \<times> date) option \<Rightarrow> PurchaseInvoiceRow list \<Rightarrow> PurchaseInvoiceRow list" where
  "purchasesShown i period rows =
     sort_key (\<lambda>r. - pi_issueDate r)
       (filter (\<lambda>r. pi_issuerId r = i \<and>
          (case period of None \<Rightarrow> True | Some (from, to) \<Rightarrow> from \<le> pi_issueDate r \<and> pi_issueDate r < to)) rows)"

definition listPurchases ::
  "'a ports \<Rightarrow> (number \<Rightarrow> number) \<Rightarrow> string \<Rightarrow> number option option \<Rightarrow> number option option \<Rightarrow>
   ('a, PurchaseInvoiceRow list \<times> PurchaseInvoiceSummary) effect" where
  "listPurchases p decimals i year month = table p (getA (\<lambda>w.
     (let shown = purchasesShown i (purchaseMonth year month) (purchaseInvoices w) in
      (shown, foldl (addToSummary decimals) EMPTY_SUMMARY shown))))"

end
