(* ===== verification/PurchaseImport.thy ===== *)
theory PurchaseImport
  imports PurchaseInvoices
begin

text \<open>
  The import of a file of \<open>Mis Comprobantes\<close>,
  \<open>purchase-invoices/purchase-import.service.ts\<close>.
\<close>

datatype ImportRowStatus = IMPORTABLE | DUPLICATE | NEEDS_REVIEW

record ClassifiedRow =
  cr_line :: nat
  cr_supplierCuit :: string
  cr_supplierName :: string
  cr_invoiceType :: int
  cr_salesPoint :: int
  cr_number :: int
  cr_issueDate :: string
  cr_total :: number
  cr_ivaRate :: "number option"
  cr_status :: ImportRowStatus
  cr_reason :: "string option"

record ImportSummary =
  is_importable :: nat
  is_duplicates :: nat
  is_needsReview :: nat
  is_invalid :: nat

record ImportPreview =
  prev_rows :: "ClassifiedRow list"
  prev_invalid :: "InvalidPurchaseRow list"
  prev_summary :: ImportSummary

definition RATE_TOLERANCE :: number where
  "RATE_TOLERANCE = fl (5 / 1000)"

definition AMOUNT_TOLERANCE :: number where
  "AMOUNT_TOLERANCE = fl (1 / 100)"

definition NO_IVA_RATE :: number where
  "NO_IVA_RATE = 0"

definition EMPTY_TAXED_AMOUNTS :: PurchaseAmounts where
  "EMPTY_TAXED_AMOUNTS = \<lparr>pa_netAmount21 = 0, pa_iva21 = 0, pa_netAmount105 = 0, pa_iva105 = 0,
     pa_netAmount27 = 0, pa_iva27 = 0, pa_exempt = 0, pa_untaxed = 0\<rparr>"

subsection \<open>The rate of a row\<close>

definition inferIvaRate :: "ParsedPurchaseRow \<Rightarrow> number option" where
  "inferIvaRate row =
     (if pp_ivaAmount row = 0 then (if pp_netTaxed row = 0 then Some NO_IVA_RATE else None)
      else if pp_netTaxed row = 0 then None
      else (let ratio = js_div (pp_ivaAmount row) (pp_netTaxed row) in
        List.find (\<lambda>rate. 0 < rate \<and> \<bar>js_sub ratio (js_div rate 100)\<bar> < RATE_TOLERANCE) ivaRates))"

text \<open>The fields of a rate; a rate without fields leaves the taxed amounts at zero.\<close>

definition amountsForRate :: "ParsedPurchaseRow \<Rightarrow> number \<Rightarrow> PurchaseAmounts" where
  "amountsForRate row rate =
     (let net = pp_netTaxed row; iva = pp_ivaAmount row; empty = EMPTY_TAXED_AMOUNTS;
          taxed = (if rate = 21 then empty\<lparr>pa_netAmount21 := net, pa_iva21 := iva\<rparr>
                   else if rate = 21 / 2 then empty\<lparr>pa_netAmount105 := net, pa_iva105 := iva\<rparr>
                   else if rate = 27 then empty\<lparr>pa_netAmount27 := net, pa_iva27 := iva\<rparr> else empty) in
      taxed\<lparr>pa_exempt := pp_exempt row, pa_untaxed := pp_untaxed row\<rparr>)"

definition importedTotal :: "ParsedPurchaseRow \<Rightarrow> number \<Rightarrow> number" where
  "importedTotal row rate = purchaseInvoiceTotal (amountsForRate row rate)"

subsection \<open>Classification\<close>

definition rowKey :: "string \<Rightarrow> int \<Rightarrow> int \<Rightarrow> int \<Rightarrow> string" where
  "rowKey cuit type sp number =
     cuit @ ''|'' @ numberToString (of_int type) @ ''|'' @ numberToString (of_int sp) @ ''|'' @ numberToString (of_int number)"

definition parsedKey :: "ParsedPurchaseRow \<Rightarrow> string" where
  "parsedKey r = rowKey (pp_supplierCuit r) (pp_invoiceType r) (pp_salesPoint r) (pp_number r)"

definition storedKey :: "PurchaseInvoiceRow \<Rightarrow> string" where
  "storedKey r = rowKey (pi_supplierCuit r) (pi_invoiceType r) (pi_salesPoint r) (pi_number r)"

definition findExistingKeys ::
  "'a ports \<Rightarrow> string \<Rightarrow> ParsedPurchaseRow list \<Rightarrow> ('a, string list) effect" where
  "findExistingKeys p i rows =
     (if rows = [] then returnA []
      else table p (getA (\<lambda>w. map storedKey (filter (\<lambda>r. pi_issuerId r = i \<and>
          pi_supplierCuit r \<in> set (map pp_supplierCuit rows)) (purchaseInvoices w)))))"

definition mixedRateReason :: string where
  "mixedRateReason = ''El IVA no corresponde a una sola al'' @ [CHR 0xED] @
     ''cuota; cargalo a mano indicando el desglose.''"

definition totalMismatchReason :: "number \<Rightarrow> number \<Rightarrow> string" where
  "totalMismatchReason filed rebuilt =
     ''El total del archivo ('' @ numberToString filed @ '') no coincide con la suma de los importes ('' @
     numberToString rebuilt @ ''); puede tener otros tributos, que no se importan.''"

definition classify :: "string list \<Rightarrow> ParsedPurchaseRow \<Rightarrow> ClassifiedRow" where
  "classify existing row =
     (let ivaRate = inferIvaRate row;
          classified = (\<lambda>status reason.
            \<lparr>cr_line = pp_line row, cr_supplierCuit = pp_supplierCuit row, cr_supplierName = pp_supplierName row,
             cr_invoiceType = pp_invoiceType row, cr_salesPoint = pp_salesPoint row, cr_number = pp_number row,
             cr_issueDate = pp_issueDate row, cr_total = pp_total row, cr_ivaRate = ivaRate,
             cr_status = status, cr_reason = reason\<rparr>) in
      if parsedKey row \<in> set existing then classified DUPLICATE None
      else (case ivaRate of
          None \<Rightarrow> classified NEEDS_REVIEW (Some mixedRateReason)
        | Some rate \<Rightarrow>
            (let rebuiltTotal = importedTotal row rate in
             if AMOUNT_TOLERANCE < \<bar>js_sub rebuiltTotal (pp_total row)\<bar>
             then classified NEEDS_REVIEW (Some (totalMismatchReason (pp_total row) rebuiltTotal))
             else classified IMPORTABLE None)))"

definition countOf :: "ClassifiedRow list \<Rightarrow> ImportRowStatus \<Rightarrow> nat" where
  "countOf rows status = length (filter (\<lambda>r. cr_status r = status) rows)"

definition summarize :: "ClassifiedRow list \<Rightarrow> InvalidPurchaseRow list \<Rightarrow> ImportPreview" where
  "summarize rows invalid =
     \<lparr>prev_rows = rows, prev_invalid = invalid,
      prev_summary = \<lparr>is_importable = countOf rows IMPORTABLE, is_duplicates = countOf rows DUPLICATE,
        is_needsReview = countOf rows NEEDS_REVIEW, is_invalid = length invalid\<rparr>\<rparr>"

subsection \<open>Preview and import\<close>

definition parseFile :: "string \<Rightarrow> string \<Rightarrow> ('a, ParsedCsv) effect" where
  "parseFile mark csv =
     (case parseMisComprobantesCsv mark csv of Inl m \<Rightarrow> throwA (BadRequest m) | Inr parsed \<Rightarrow> returnA parsed)"

definition previewImport :: "'a ports \<Rightarrow> string \<Rightarrow> string \<Rightarrow> string \<Rightarrow> ('a, ImportPreview) effect" where
  "previewImport p mark i csv =
     bindA (parseFile mark csv) (\<lambda>parsed.
     bindA (findExistingKeys p i (csv_rows parsed)) (\<lambda>existing.
     returnA (summarize (map (classify existing) (csv_rows parsed)) (csv_invalid parsed))))"

definition importedRow :: "string \<Rightarrow> ParsedPurchaseRow \<Rightarrow> PurchaseAmounts \<Rightarrow> PurchaseInvoiceRow" where
  "importedRow i row amounts =
     \<lparr>pi_id = '''', pi_issuerId = i, pi_supplierCuit = pp_supplierCuit row, pi_supplierName = pp_supplierName row,
      pi_invoiceType = pp_invoiceType row, pi_salesPoint = pp_salesPoint row, pi_number = pp_number row,
      pi_issueDate = 0, pi_dueDate = None, pi_amounts = amounts, pi_total = purchaseInvoiceTotal amounts\<rparr>"

definition importRow ::
  "'a ports \<Rightarrow> string \<Rightarrow> ParsedPurchaseRow \<times> ClassifiedRow \<Rightarrow> ('a, unit) effect" where
  "importRow p i rc =
     (case rc of (row, classification) \<Rightarrow>
       if cr_status classification \<noteq> IMPORTABLE then returnA ()
       else (let ivaRate = orElse (cr_ivaRate classification) NO_IVA_RATE; amounts = amountsForRate row ivaRate in
         bindA (insertPurchase p (dateOfIsoDay (pp_issueDate row)) None (importedRow i row amounts)) (\<lambda>_. returnA ())))"

definition importPurchases :: "'a ports \<Rightarrow> string \<Rightarrow> string \<Rightarrow> string \<Rightarrow> ('a, ImportPreview) effect" where
  "importPurchases p mark i csv =
     bindA (parseFile mark csv) (\<lambda>parsed.
     bindA (findExistingKeys p i (csv_rows parsed)) (\<lambda>existing.
     (let classified = map (classify existing) (csv_rows parsed) in
      bindA (forEachA (importRow p i) (zip (csv_rows parsed) classified)) (\<lambda>_.
      returnA (summarize classified (csv_invalid parsed))))))"

end
