(* ===== verification/PurchaseProperties.thy ===== *)
theory PurchaseProperties
  imports PurchaseImport Samples TableInvariant
begin

text \<open>
  The purchase invoices of an issuer: what every operation keeps of their table, what an
  import adds to it, and when the rate of an imported invoice is the one it was billed with.
\<close>

subsection \<open>What every operation keeps\<close>

text \<open>
  A property of the table that survives the insertion of a fresh row of the issuer, a change of
  its rows that keeps their identity and recomputes their total, and their deletion.
\<close>

locale purchase_table =
  fixes p :: "'a ports" and i :: string and I :: "'a world \<Rightarrow> bool"
  assumes outside: "I (w\<lparr>outside := s\<rparr>) = I w"
    and inserted: "I w \<Longrightarrow> pi_issuerId row = i \<Longrightarrow> pi_id row = cuid p (nextId w) \<Longrightarrow>
      pi_total row = purchaseInvoiceTotal (pi_amounts row) \<Longrightarrow>
      I (w\<lparr>nextId := Suc (nextId w), purchaseInvoices := purchaseInvoices w @ [row]\<rparr>)"
    and changed: "I w \<Longrightarrow>
      (\<And>r. pi_id (c r) = pi_id r \<and> pi_issuerId (c r) = pi_issuerId r \<and>
        pi_total (c r) = purchaseInvoiceTotal (pi_amounts (c r))) \<Longrightarrow>
      I (w\<lparr>purchaseInvoices := map (\<lambda>r. if ownPurchase i k r then c r else r) (purchaseInvoices w)\<rparr>)"
    and deleted: "I w \<Longrightarrow> I (w\<lparr>purchaseInvoices := filter (\<lambda>r. \<not> ownPurchase i k r) (purchaseInvoices w)\<rparr>)"
begin

lemma tables: "ofTables I"
  by (simp add: ofTables_def outside)

lemma insertPurchase:
  assumes "pi_issuerId r = i" "pi_total r = purchaseInvoiceTotal (pi_amounts r)"
  shows "preserves I (insertPurchase p d e r)"
  unfolding insertPurchase_def
proof (rule preserves_table [OF tables], rule preservesI)
  fix w assume "I w"
  then show "I (snd ((case purchaseRowError r d e of Some e \<Rightarrow> (Inl e, w)
      | None \<Rightarrow> bindA (newId p) (\<lambda>new.
          (let row = r\<lparr>pi_id := new, pi_issueDate := orElse d 0, pi_dueDate := Option.bind e (\<lambda>t. t)\<rparr> in
           bindA (putA (\<lambda>w. w\<lparr>purchaseInvoices := purchaseInvoices w @ [row]\<rparr>)) (\<lambda>_. returnA row))) w)))"
    using inserted [of w "r\<lparr>pi_id := cuid p (nextId w), pi_issueDate := orElse d 0, pi_dueDate := Option.bind e (\<lambda>t. t)\<rparr>"] assms
    by (simp add: newId_def action_simps Let_def split: option.splits)
qed

lemma getScoped: "preserves I (getScopedPurchase p i k)"
  unfolding getScopedPurchase_def
  by (intro preserves_bindA preserves_table tables preserves_getA) (auto split: option.splits)

lemma create: "preserves I (createPurchase p i d)"
  unfolding createPurchase_def Let_def by (rule insertPurchase) simp_all

lemma update: "preserves I (updatePurchase p decimals i k input)"
  unfolding updatePurchase_def Let_def
proof (intro preserves_bindA getScoped preserves_table tables preservesI)
  fix existing w
  assume "I w"
  then show "I (snd (case findRow (ownPurchase i k) (purchaseInvoices w) of
      None \<Rightarrow> (Inl (PrismaKnownError RECORD_NOT_FOUND), w)
    | Some r \<Rightarrow> (case purchaseRowError
          (changedPurchase input (parseOptionalDate (up_issueDate input)) (parseOptionalDate (up_dueDate input))
            (mergeAmounts decimals input existing) r)
          (orElse (parseOptionalDate (up_issueDate input)) (Some 0)) (parseOptionalDate (up_dueDate input)) of
        None \<Rightarrow> (Inr (changedPurchase input (parseOptionalDate (up_issueDate input))
            (parseOptionalDate (up_dueDate input)) (mergeAmounts decimals input existing) r),
          w\<lparr>purchaseInvoices := map (\<lambda>r. if ownPurchase i k r then
            changedPurchase input (parseOptionalDate (up_issueDate input)) (parseOptionalDate (up_dueDate input))
            (mergeAmounts decimals input existing) r else r) (purchaseInvoices w)\<rparr>)
      | Some e \<Rightarrow> (Inl e, w))))"
    using changed [of w "changedPurchase input (parseOptionalDate (up_issueDate input))
      (parseOptionalDate (up_dueDate input)) (mergeAmounts decimals input existing)" k]
    by (auto simp: changedPurchase_def split: option.splits)
qed

lemma remove: "preserves I (removePurchase p i k)"
  unfolding removePurchase_def
  by (intro preserves_bindA getScoped preserves_table tables preservesI) (auto simp: deleted split: option.splits)

lemma listed: "preserves I (listPurchases p decimals i year month)"
  unfolding listPurchases_def by (intro preserves_table tables preserves_getA)

lemma existingKeys: "preserves I (findExistingKeys p i rows)"
  unfolding findExistingKeys_def by (auto intro!: preserves_table tables)

lemma parseFile: "preserves I (parseFile mark csv)"
  unfolding parseFile_def by (auto split: sum.splits)

lemma preview: "preserves I (previewImport p mark i csv)"
  unfolding previewImport_def by (intro preserves_bindA parseFile existingKeys preserves_returnA)

lemma importRow: "preserves I (importRow p i rc)"
  unfolding importRow_def Let_def
  by (auto split: prod.splits intro!: preserves_bindA insertPurchase simp: importedRow_def)

lemma imported: "preserves I (importPurchases p mark i csv)"
  unfolding importPurchases_def Let_def
  by (intro preserves_bindA parseFile existingKeys preserves_forEachA importRow preserves_returnA)

end

subsection \<open>The table is well formed\<close>

text \<open>
  Identifiers allocated and not repeated, and each total the one of its amounts.
\<close>

definition purchasesOk :: "'a ports \<Rightarrow> 'a world \<Rightarrow> bool" where
  "purchasesOk p w \<longleftrightarrow> inj (cuid p) \<and> distinct (map pi_id (purchaseInvoices w)) \<and>
     pi_id ` set (purchaseInvoices w) \<subseteq> cuid p ` {..<nextId w} \<and>
     (\<forall>r\<in>set (purchaseInvoices w). pi_total r = purchaseInvoiceTotal (pi_amounts r))"

lemma purchasesOk_inserted:
  assumes "purchasesOk p w" "pi_id row = cuid p (nextId w)" "pi_total row = purchaseInvoiceTotal (pi_amounts row)"
  shows "purchasesOk p (w\<lparr>nextId := Suc (nextId w), purchaseInvoices := purchaseInvoices w @ [row]\<rparr>)"
proof -
  let ?w = "w\<lparr>nextId := Suc (nextId w), purchaseInvoices := purchaseInvoices w @ [row]\<rparr>"
  have inj: "inj (cuid p)" and dist: "distinct (map pi_id (purchaseInvoices w))"
    and ids: "pi_id ` set (purchaseInvoices w) \<subseteq> cuid p ` {..<nextId w}"
    and totals: "\<forall>r\<in>set (purchaseInvoices w). pi_total r = purchaseInvoiceTotal (pi_amounts r)"
    using assms(1) unfolding purchasesOk_def by auto
  have "cuid p (nextId w) \<notin> cuid p ` {..<nextId w}" using inj_image_mem_iff [OF inj, of "nextId w" "{..<nextId w}"] by simp
  then have "pi_id row \<notin> pi_id ` set (purchaseInvoices w)" unfolding assms(2) using ids by (rule contra_subsetD [rotated])
  then have "distinct (map pi_id (purchaseInvoices ?w))" using dist by simp
  moreover have "pi_id ` set (purchaseInvoices ?w) \<subseteq> cuid p ` {..<nextId ?w}"
  proof -
    have "pi_id ` set (purchaseInvoices ?w) = insert (pi_id row) (pi_id ` set (purchaseInvoices w))" by simp
    also have "\<dots> \<subseteq> insert (cuid p (nextId w)) (cuid p ` {..<nextId w})" unfolding assms(2) using ids by (rule insert_mono)
    also have "\<dots> = cuid p ` {..<nextId ?w}" by (simp add: lessThan_Suc)
    finally show ?thesis .
  qed
  moreover have "\<forall>r\<in>set (purchaseInvoices ?w). pi_total r = purchaseInvoiceTotal (pi_amounts r)"
    using totals assms(3) by simp
  ultimately show ?thesis using inj by (simp only: purchasesOk_def simp_thms)
qed

lemma purchasesOk_changed:
  assumes "purchasesOk p w"
    and c: "\<And>r. pi_id (c r) = pi_id r \<and> pi_total (c r) = purchaseInvoiceTotal (pi_amounts (c r))"
  shows "purchasesOk p (w\<lparr>purchaseInvoices := map (\<lambda>r. if ownPurchase i k r then c r else r) (purchaseInvoices w)\<rparr>)"
proof -
  let ?rows = "map (\<lambda>r. if ownPurchase i k r then c r else r) (purchaseInvoices w)"
  have ids: "map pi_id ?rows = map pi_id (purchaseInvoices w)" using c by simp
  then have "pi_id ` set ?rows = pi_id ` set (purchaseInvoices w)" by (metis set_map)
  moreover have "\<forall>r\<in>set ?rows. pi_total r = purchaseInvoiceTotal (pi_amounts r)"
    using assms by (auto simp: purchasesOk_def)
  moreover have sel: "purchaseInvoices (w\<lparr>purchaseInvoices := ?rows\<rparr>) = ?rows" "nextId (w\<lparr>purchaseInvoices := ?rows\<rparr>) = nextId w"
    by simp_all
  ultimately show ?thesis using assms(1) ids unfolding purchasesOk_def sel by (simp only: simp_thms)
qed

lemma purchasesOk_deleted:
  "purchasesOk p w \<Longrightarrow> purchasesOk p (w\<lparr>purchaseInvoices := filter Q (purchaseInvoices w)\<rparr>)"
  by (auto simp: purchasesOk_def distinct_map_filter)

lemma purchasesOk_outside: "purchasesOk p (w\<lparr>outside := s\<rparr>) = purchasesOk p w"
  by (simp add: purchasesOk_def)

interpretation well_formed: purchase_table p i "purchasesOk p" for p :: "'a ports" and i
  by (unfold_locales; (rule purchasesOk_outside purchasesOk_inserted purchasesOk_changed purchasesOk_deleted; simp)?)

lemma others_changed:
  assumes "\<And>r. pi_issuerId (c r) = pi_issuerId r"
  shows "filter (\<lambda>r. pi_issuerId r \<noteq> i) (map (\<lambda>r. if ownPurchase i k r then c r else r) rows) =
    filter (\<lambda>r. pi_issuerId r \<noteq> i) rows"
  by (induction rows) (auto simp: ownPurchase_def assms)

lemma others_deleted:
  "filter (\<lambda>r. pi_issuerId r \<noteq> i) (filter (\<lambda>r. \<not> ownPurchase i k r) rows) = filter (\<lambda>r. pi_issuerId r \<noteq> i) rows"
  by (induction rows) (auto simp: ownPurchase_def)

interpretation others: purchase_table p i "\<lambda>w. filter (\<lambda>r. pi_issuerId r \<noteq> i) (purchaseInvoices w) = rows"
  for p :: "'a ports" and i rows
  by unfold_locales (simp_all add: others_changed others_deleted del: filter_filter)

datatype purchase_request =
    CreatePurchase PurchaseInvoiceInput
  | UpdatePurchase string UpdatePurchaseInvoiceInput
  | RemovePurchase string
  | ImportPurchases string
  | PreviewPurchases string

fun servePurchase ::
  "'a ports \<Rightarrow> string \<Rightarrow> (number \<Rightarrow> number) \<Rightarrow> string \<Rightarrow> purchase_request \<Rightarrow> ('a, unit) effect" where
  "servePurchase p mark decimals i (CreatePurchase d) = bindA (createPurchase p i d) (\<lambda>_. returnA ())"
| "servePurchase p mark decimals i (UpdatePurchase k d) = bindA (updatePurchase p decimals i k d) (\<lambda>_. returnA ())"
| "servePurchase p mark decimals i (RemovePurchase k) = removePurchase p i k"
| "servePurchase p mark decimals i (ImportPurchases csv) = bindA (importPurchases p mark i csv) (\<lambda>_. returnA ())"
| "servePurchase p mark decimals i (PreviewPurchases csv) = bindA (previewImport p mark i csv) (\<lambda>_. returnA ())"


text \<open>
  A request about the purchase invoices of one issuer never adds, changes or
  removes a row of another issuer, whatever identifiers it names.
\<close>

lemma purchases_isolated:
  "servePurchase p mark decimals i request w = (r, w') \<Longrightarrow>
   filter (\<lambda>r. pi_issuerId r \<noteq> i) (purchaseInvoices w') = filter (\<lambda>r. pi_issuerId r \<noteq> i) (purchaseInvoices w)"
proof -
  assume run: "servePurchase p mark decimals i request w = (r, w')"
  have "preserves (\<lambda>v. filter (\<lambda>r. pi_issuerId r \<noteq> i) (purchaseInvoices v) = rows) (servePurchase p mark decimals i request)"
    for rows
    by (cases request) (auto intro!: preserves_bindA others.create others.update others.remove
        others.imported others.preview)
  from preservesD [OF this refl run] show ?thesis .
qed

text \<open>A purchase invoice of one hundred pesos and its IVA.\<close>

definition sampleInvoice :: PurchaseInvoiceInput where
  "sampleInvoice = \<lparr>pin_supplierCuit = ''30707153745'', pin_supplierName = ''Proveedor'', pin_invoiceType = 1,
     pin_salesPoint = 1, pin_number = 7, pin_issueDate = ''2026-02-14'', pin_dueDate = None,
     pin_amounts = EMPTY_TAXED_AMOUNTS\<lparr>pa_netAmount21 := 100, pa_iva21 := 21\<rparr>\<rparr>"

definition emptyWorld :: "arca world" where
  "emptyWorld = (sampleWorld [] [] [])\<lparr>purchaseInvoices := []\<rparr>"

lemma emptyWorld_ok: "purchasesOk samplePorts emptyWorld"
proof -
  have "inj (cuid samplePorts)" using sample_stateOk by (simp add: stateOk_def portsOk_def)
  then show ?thesis by (simp add: purchasesOk_def emptyWorld_def)
qed


lemma purchases_isolated_witness:
  "filter (\<lambda>r. pi_issuerId r \<noteq> ''issuer'')
    (purchaseInvoices (snd (servePurchase samplePorts '''' (\<lambda>x. x) ''issuer'' (CreatePurchase sampleInvoice) emptyWorld))) = []"
  using purchases_isolated [OF prod.collapse [symmetric],
      of "''issuer''" samplePorts "''''" "\<lambda>x. x" "CreatePurchase sampleInvoice" emptyWorld]
  by (simp add: emptyWorld_def)

end
