(* ===== verification/MisComprobantesProperties.thy ===== *)
theory MisComprobantesProperties
  imports MisComprobantesCsv
begin

text \<open>
  The reader of \<open>Mis Comprobantes\<close> on the files that ARCA writes: each field is read as it
  was quoted, each amount as it was printed, and each line as the row it came from.
\<close>

subsection \<open>Fields\<close>

lemma splitFields_quoted:
  assumes "r = [] \<or> hd r = CHR '';''"
  shows "splitFields (CHR '';'') current True (replaceChar (CHR 0x22) [CHR 0x22, CHR 0x22] v @ CHR 0x22 # r) =
    splitFields (CHR '';'') (current @ v) False r"
proof (induction v arbitrary: current)
  case Nil
  then show ?case using assms by (cases r) (simp_all add: replaceChar_def)
next
  case (Cons c v)
  have "splitFields (CHR '';'') (current @ [c]) True (replaceChar (CHR 0x22) [CHR 0x22, CHR 0x22] v @ CHR 0x22 # r) =
      splitFields (CHR '';'') ((current @ [c]) @ v) False r" by (rule Cons.IH)
  then show ?case by (cases "c = CHR 0x22") (simp_all add: replaceChar_Cons)
qed

lemma splitFields_open: "splitFields d current False (CHR 0x22 # s) = splitFields d current True s"
  by (cases s) simp_all

lemma splitFields_plain:
  assumes "\<forall>c\<in>set v. isPlain c"
  shows "splitFields (CHR '';'') current False (v @ r) = splitFields (CHR '';'') (current @ v) False r"
  using assms
proof (induction v arbitrary: current)
  case (Cons c v)
  then show ?case using Cons.IH [of "current @ [c]"] by (simp add: isPlain_def)
qed simp

lemma splitFields_quote:
  assumes "r = [] \<or> hd r = CHR '';''"
  shows "splitFields (CHR '';'') [] False (quote v @ r) = splitFields (CHR '';'') v False r"
proof (cases "needsQuoting v")
  case True
  then have "quote v @ r = CHR 0x22 # replaceChar (CHR 0x22) [CHR 0x22, CHR 0x22] v @ CHR 0x22 # r"
    by (simp add: quote_def)
  then show ?thesis using splitFields_quoted [OF assms, of "[]" v] by (simp only: splitFields_open append_Nil)
next
  case False
  then have "\<forall>c\<in>set v. isPlain c" by (auto simp: needsQuoting_def isPlain_def list_ex_iff)
  from splitFields_plain [OF this, of "[]" r] show ?thesis using False by (simp add: quote_def)
qed

lemma splitLine_quoted:
  "row \<noteq> [] \<Longrightarrow> splitLine (joinWith '';'' (map quote row)) (CHR '';'') = map trim row"
  unfolding splitLine_def
proof (induction row rule: induct_list012)
  case (2 v)
  then show ?case using splitFields_quote [of "[]" v] by (simp add: joinWith_single)
next
  case (3 v u vs)
  then show ?case
    using splitFields_quote [of "CHR '';'' # joinWith '';'' (map quote (u # vs))" v] by (simp add: joinWith_Cons)
qed simp

subsection \<open>Blanks and lines\<close>

lemma trim_blank: "trim s = [] \<longleftrightarrow> (\<forall>c\<in>set s. isSpace c)"
proof
  assume "trim s = []"
  then have "dropWhile isSpace (rev (dropWhile isSpace s)) = []" by (simp add: trim_def del: dropWhile_eq_Nil_conv)
  then have "\<forall>c\<in>set (dropWhile isSpace s). isSpace c" by (simp only: dropWhile_eq_Nil_conv set_rev)
  moreover have "set s = set (takeWhile isSpace s) \<union> set (dropWhile isSpace s)"
    by (metis set_append takeWhile_dropWhile_id)
  ultimately show "\<forall>c\<in>set s. isSpace c" by (auto dest: set_takeWhileD)
next
  assume "\<forall>c\<in>set s. isSpace c"
  then have "dropWhile isSpace s = []" by (simp only: dropWhile_eq_Nil_conv)
  then show "trim s = []" by (simp only: trim_def rev.simps dropWhile.simps)
qed

lemma set_replaceChar: "set (replaceChar a b s) \<subseteq> set s \<union> set b"
  by (auto simp: replaceChar_def split: if_splits)

lemma set_quote: "set (quote v) \<subseteq> set v \<union> {CHR 0x22}"
  using set_replaceChar [of "CHR 0x22" "[CHR 0x22, CHR 0x22]" v] by (auto simp: quote_def)

lemma set_joinWith: "set (joinWith sep xs) \<subseteq> (\<Union>x\<in>set xs. set x) \<union> set sep"
  by (auto simp: joinWith_def split: list.splits)

lemma last_quote: "quote v \<noteq> [] \<longrightarrow> last (quote v) \<noteq> CHR 0x0D"
proof (cases "needsQuoting v")
  case False
  then have "\<forall>c\<in>set v. c \<noteq> CHR 0x0D" by (auto simp: needsQuoting_def list_ex_iff)
  then show ?thesis using False by (auto simp: quote_def)
qed (simp add: quote_def)

lemma last_joinWith:
  "row \<noteq> [] \<Longrightarrow> joinWith '';'' (map quote row) \<noteq> [] \<longrightarrow> last (joinWith '';'' (map quote row)) \<noteq> CHR 0x0D"
proof (induction row rule: induct_list012)
  case (2 v)
  then show ?case using last_quote [of v] by (simp add: joinWith_single)
next
  case (3 v u vs)
  then show ?case by (auto simp: joinWith_Cons)
qed simp

lemma removeFirst_mark: "removeFirst mark (mark @ s) = s"
  by (cases mark; cases s) auto

text \<open>The lines of a file whose rows have no line feed inside a field.\<close>

lemma line_no_LF:
  assumes "\<forall>v\<in>set row. CHR 0x0A \<notin> set v"
  shows "CHR 0x0A \<notin> set (joinWith '';'' (map quote row))"
proof
  assume "CHR 0x0A \<in> set (joinWith '';'' (map quote row))"
  then have "CHR 0x0A \<in> (\<Union>v\<in>set row. set (quote v))"
    using set_joinWith [of "'';''" "map quote row"] by auto
  then obtain v where v: "v \<in> set row" "CHR 0x0A \<in> set (quote v)" by blast
  then have "CHR 0x0A \<in> set v" using set_quote [of v] by auto
  then show False using assms v(1) by simp
qed

lemma splitLines_rendered:
  assumes "\<forall>row\<in>set rows. row \<noteq> [] \<and> (\<forall>v\<in>set row. CHR 0x0A \<notin> set v)" "rows \<noteq> []"
  shows "splitLines (joinWith [CHR 0x0D, CHR 0x0A] (map (\<lambda>row. joinWith '';'' (map quote row)) rows) @
    [CHR 0x0D, CHR 0x0A]) = map (\<lambda>row. joinWith '';'' (map quote row)) rows @ [[]]"
  using assms
proof (induction rows rule: induct_list012)
  case (2 row)
  have "CHR 0x0A \<notin> set (joinWith '';'' (map quote row))" using 2 by (intro line_no_LF) simp
  from splitLines_plain(1) [OF this last_joinWith, of "[]"] show ?case using 2 by (simp add: joinWith_single)
next
  case (3 row u rows)
  have "CHR 0x0A \<notin> set (joinWith '';'' (map quote row))" using "3.prems" by (intro line_no_LF) simp
  note line = splitLines_plain(1) [OF this last_joinWith]
  have "splitLines (joinWith [CHR 0x0D, CHR 0x0A] (map (\<lambda>row. joinWith '';'' (map quote row)) (u # rows)) @
      [CHR 0x0D, CHR 0x0A]) = map (\<lambda>row. joinWith '';'' (map quote row)) (u # rows) @ [[]]"
    using "3.prems" by (intro "3.IH"(2)) simp_all
  then show ?case using line "3.prems" by (simp add: joinWith_Cons)
qed simp

subsection \<open>Values\<close>

lemma trim_none: "\<forall>c\<in>set s. \<not> isSpace c \<Longrightarrow> trim s = s"
proof -
  have id: "dropWhile isSpace u = u" if "\<forall>c\<in>set u. \<not> isSpace c" for u
    using that by (cases u) auto
  assume "\<forall>c\<in>set s. \<not> isSpace c"
  then have "dropWhile isSpace s = s" "dropWhile isSpace (rev s) = rev s" using id [of s] id [of "rev s"] by simp_all
  then show "trim s = s" by (simp add: trim_def)
qed

lemma valueOf_append2:
  assumes "length f = 2"
  shows "valueOf (w @ f) = 100 * valueOf w + valueOf f"
proof -
  obtain a b where "f = [a, b]" using assms by (metis One_nat_def Suc_1 length_0_conv length_Suc_conv)
  then show ?thesis using valueOf_snoc [of "w @ [a]" b] valueOf_snoc [of w a] valueOf_snoc [of "[a]" b]
    by (simp add: valueOf_def)
qed

lemma unsignedDecimal_cents:
  assumes "list_all isDigit w" "w \<noteq> []" "list_all isDigit f" "length f = 2"
  shows "unsignedDecimal (w @ CHR ''.'' # f) = Some (of_int (100 * valueOf w + valueOf f) / 100)"
proof -
  have dot: "\<not> isDigit (CHR ''.'')" by (simp add: isDigit_def)
  have w: "takeWhile isDigit (w @ CHR ''.'' # f) = w" "dropWhile isDigit (w @ CHR ''.'' # f) = CHR ''.'' # f"
    using assms(1) dot by (simp_all add: list_all_iff takeWhile_append2 dropWhile_append2)
  have f: "takeWhile isDigit f = f" "dropWhile isDigit f = []" using assms(3) by (simp_all add: list_all_iff)
  show ?thesis unfolding unsignedDecimal_def w
    using assms(2,4)
    by (simp add: Let_def f exponentOf_def p10_def valueOf_append2 del: takeWhile_eq_all_conv dropWhile_eq_Nil_conv)
qed

lemma finite_cents:
  assumes "cents_range n"
  shows "finiteNumber (of_int n / 100) = Some (cents n)"
proof -
  have "\<bar>cents n\<bar> < 2 ^ 50" using cents_err [OF assms] cents_rangeD [OF assms] by (simp add: abs_if split: if_splits)
  also have "(2::rat) ^ 50 \<le> 2 ^ 1024" by (rule power_increasing) simp_all
  finally show ?thesis by (simp add: finiteNumber_def cents_def)
qed

lemma centsText_parts:
  assumes "0 \<le> n"
  shows "list_all isDigit (digitsOf (n div 100))" "digitsOf (n div 100) \<noteq> []" "list_all isDigit (pad2 (n mod 100))"
    "length (pad2 (n mod 100)) = 2" "valueOf (pad2 (n mod 100)) = n mod 100"
  using digitsOf_isDigit [of "n div 100"] pad2_props [of "n mod 100"] assms by simp_all

lemma js_Number_plain:
  assumes "\<forall>c\<in>set s. \<not> isSpace c" "s = c # t" "isDigit c" "t \<noteq> [] \<longrightarrow> hd t \<notin> set ''xXoObB''"
  shows "js_Number s = Option.bind (unsignedDecimal s) finiteNumber"
proof -
  have "take 2 s \<noteq> [e, d]" if "d \<in> set ''xXoObB''" for d e
    using that assms(2,4) by (cases t) auto
  then have radix: "take 2 s \<notin> {''0x'', ''0X''}" "take 2 s \<notin> {''0o'', ''0O''}" "take 2 s \<notin> {''0b'', ''0B''}"
    by auto
  have "hd s \<noteq> CHR ''-''" "hd s \<noteq> CHR ''+''" "s \<noteq> []" using assms(2,3) by (auto simp: isDigit_def)
  then show ?thesis unfolding js_Number_def trim_none [OF assms(1)] Let_def using radix by (simp only: if_False)
qed

lemma js_Number_centsText:
  assumes "0 \<le> n" "cents_range n"
  shows "js_Number (centsText n) = Some (cents n)"
proof -
  note parts = centsText_parts [OF assms(1)]
  let ?s = "centsText n"
  obtain c s where c: "digitsOf (n div 100) = c # s" "isDigit c" using parts(1,2) by (cases "digitsOf (n div 100)") auto
  have noSpace: "\<forall>c\<in>set ?s. \<not> isSpace c"
    using parts(1,3) digit_not_space by (auto simp: centsText_def list_all_iff isSpace_def)
  have hd: "?s = c # s @ CHR ''.'' # pad2 (n mod 100)" by (simp add: centsText_def c)
  have second: "hd (s @ CHR ''.'' # pad2 (n mod 100)) \<notin> set ''xXoObB''"
    using parts(1) c by (cases s) (auto simp: isDigit_def)
  have number: "unsignedDecimal ?s = Some (of_int n / 100)"
    using unsignedDecimal_cents [OF parts(1-4)] parts(5) assms(1) by (simp add: centsText_def)
  have "js_Number ?s = Option.bind (unsignedDecimal ?s) finiteNumber"
    using second by (intro js_Number_plain [OF noSpace hd c(2)]) blast
  then show ?thesis by (simp add: number finite_cents [OF assms(2)])
qed

lemma replaceFirst_at: "a \<notin> set w \<Longrightarrow> replaceFirst a b (w @ a # r) = w @ b # r"
  by (induction w) auto

lemma formatAmount_cents:
  assumes "0 \<le> n" "cents_range n"
  shows "formatAmount (cents n) = digitsOf (n div 100) @ CHR '','' # pad2 (n mod 100)"
proof -
  have "CHR ''.'' \<notin> set (digitsOf (n div 100))"
    using centsText_parts(1) [OF assms(1)] by (auto simp: list_all_iff isDigit_def)
  then show ?thesis
    by (simp add: formatAmount_def toFixed2_cents [OF assms(2,1)] centsText_def replaceFirst_at)
qed

lemma while_prefix:
  "\<forall>c\<in>set u. P c \<Longrightarrow> \<not> P x \<Longrightarrow> takeWhile P (u @ x # r) = u \<and> dropWhile P (u @ x # r) = x # r"
  by (induction u) auto

lemma parse_formatAmount:
  assumes "0 \<le> n" "cents_range n"
  shows "parseArcaAmount (formatAmount (cents n)) = Inr (cents n)"
    and "\<forall>c\<in>set (formatAmount (cents n)). \<not> isSpace c"
proof -
  let ?w = "digitsOf (n div 100)" and ?f = "pad2 (n mod 100)"
  let ?s = "?w @ CHR '','' # ?f"
  note parts = centsText_parts [OF assms(1)]
  have f: "formatAmount (cents n) = ?s" by (rule formatAmount_cents [OF assms])
  have digits: "\<forall>c\<in>set ?w. isDigit c" "\<forall>c\<in>set ?f. isDigit c" using parts(1,3) by (simp_all add: list_all_iff)
  then have space: "\<forall>c\<in>set ?s. \<not> isSpace c" using digit_not_space by (auto simp: isSpace_def)
  then show "\<forall>c\<in>set (formatAmount (cents n)). \<not> isSpace c" by (simp only: f)
  have comma: "\<not> isDigit (CHR '','')" by (simp add: isDigit_def)
  have "takeWhile isDigit (rev ?f @ CHR '','' # rev ?w) = rev ?f" "dropWhile isDigit (rev ?f @ CHR '','' # rev ?w) = CHR '','' # rev ?w"
    using while_prefix [of "rev ?f" isDigit "CHR '',''" "rev ?w"] digits(2) comma by simp_all
  then have ends: "endsWithCommaDecimals ?s" using parts(4) comma by (simp add: endsWithCommaDecimals_def Let_def)
  have noDot: "\<forall>c\<in>set ?s. c \<noteq> CHR ''.''" using digits by (auto simp: isDigit_def)
  have "CHR '','' \<notin> set ?w" using digits(1) by (auto simp: isDigit_def)
  then have point: "replaceFirst (CHR '','') (CHR ''.'') ?s = centsText n"
    by (simp add: replaceFirst_at centsText_def)
  have cleaned: "filter (\<lambda>c. \<not> isSpace c) ?s = ?s" "filter (\<lambda>c. c \<noteq> CHR ''.'') ?s = ?s" "?s \<noteq> []"
    using space noDot by (simp_all only: filter_id_conv) simp
  show "parseArcaAmount (formatAmount (cents n)) = Inr (cents n)"
    unfolding f parseArcaAmount_def cleaned(1) Let_def
    using cleaned(2,3) ends point js_Number_centsText [OF assms] by (simp only: if_True if_False option.case)
qed

lemma parsePositive_digits:
  assumes "0 < k" "k < 10 ^ 15"
  shows "parsePositive (digitsOf k) label = Inr k" and "\<forall>c\<in>set (digitsOf k). \<not> isSpace c"
proof -
  have d: "list_all isDigit (digitsOf k)" "length (digitsOf k) \<le> 15"
    using digitsOf_isDigit [of k] digitsOf_length [of k 15] assms by simp_all
  then have "integerNumber (digitsOf k) = Some k" using assms by (simp add: integerNumber_digits)
  then show "parsePositive (digitsOf k) label = Inr k"
    using assms d(1) by (simp add: parsePositive_def onlyDigits_idem)
  show "\<forall>c\<in>set (digitsOf k). \<not> isSpace c" using d(1) digit_not_space by (simp add: list_all_iff)
qed

lemma isoDay_chars: "isIsoDay s \<Longrightarrow> \<forall>c\<in>set s. isDigit c \<or> c = CHR ''-''"
proof -
  assume s: "isIsoDay s"
  then have len: "length s = 10" by (simp add: isIsoDay_def)
  have "drop 4 s = s ! 4 # drop 5 s" "drop 7 s = s ! 7 # drop 8 s"
    using len Cons_nth_drop_Suc [of 4 s] Cons_nth_drop_Suc [of 7 s] by simp_all
  moreover have "drop 5 s = take 2 (drop 5 s) @ drop 7 s" using append_take_drop_id [of 2 "drop 5 s"] by simp
  ultimately have "s = take 4 s @ s ! 4 # take 2 (drop 5 s) @ s ! 7 # drop 8 s"
    by (metis append_take_drop_id)
  then have "c \<in> set (take 4 s @ s ! 4 # take 2 (drop 5 s) @ s ! 7 # drop 8 s)" if "c \<in> set s" for c
    using that by simp
  then show ?thesis using s unfolding isIsoDay_def list_all_iff by fastforce
qed

subsection \<open>Rows and files\<close>

text \<open>The file that ARCA lets a taxpayer download, one line per voucher received.\<close>

definition purchaseHeader :: "string list" where
  "purchaseHeader =
     [''Fecha'', ''Tipo'', ''Punto de Venta'', ''N'' @ [CHR 0xFA] @ ''mero Desde'', ''Nro. Doc. Emisor'',
      ''Denominaci'' @ [CHR 0xF3] @ ''n Emisor'', ''Imp. Neto Gravado'', ''Imp. Neto No Gravado'',
      ''Imp. Op. Exentas'', ''IVA'', ''Imp. Total'']"

definition purchaseCells :: "ParsedPurchaseRow \<Rightarrow> string list" where
  "purchaseCells r =
     [pp_issueDate r, digitsOf (pp_invoiceType r), digitsOf (pp_salesPoint r), digitsOf (pp_number r),
      pp_supplierCuit r, pp_supplierName r, formatAmount (pp_netTaxed r), formatAmount (pp_untaxed r),
      formatAmount (pp_exempt r), formatAmount (pp_ivaAmount r), formatAmount (pp_total r)]"

definition purchaseFile :: "string \<Rightarrow> ParsedPurchaseRow list \<Rightarrow> string" where
  "purchaseFile mark rows =
     mark @ joinWith [CHR 0x0D, CHR 0x0A]
       (map (\<lambda>row. joinWith '';'' (map quote row)) (purchaseHeader # map purchaseCells rows)) @ [CHR 0x0D, CHR 0x0A]"

definition wholeAmount :: "number \<Rightarrow> bool" where
  "wholeAmount x \<longleftrightarrow> (\<exists>n. x = cents n \<and> 0 \<le> n \<and> cents_range n)"

definition printable :: "ParsedPurchaseRow \<Rightarrow> bool" where
  "printable r \<longleftrightarrow>
     isIsoDay (pp_issueDate r) \<and> list_all (\<lambda>k. 0 < k \<and> k < 10 ^ 15) [pp_invoiceType r, pp_salesPoint r, pp_number r] \<and>
     length (pp_supplierCuit r) = 11 \<and> list_all isDigit (pp_supplierCuit r) \<and>
     trim (pp_supplierName r) = pp_supplierName r \<and> CHR 0x0A \<notin> set (pp_supplierName r) \<and>
     list_all wholeAmount [pp_netTaxed r, pp_untaxed r, pp_exempt r, pp_ivaAmount r, pp_total r]"

lemma parse_wholeAmount:
  assumes "wholeAmount x"
  shows "parseArcaAmount (formatAmount x) = Inr x" and "\<forall>c\<in>set (formatAmount x). \<not> isSpace c"
  using assms parse_formatAmount by (auto simp: wholeAmount_def)

lemma printable_cells:
  assumes "printable r"
  shows "map trim (purchaseCells r) = purchaseCells r" and "\<forall>v\<in>set (purchaseCells r). CHR 0x0A \<notin> set v"
proof -
  have amounts: "\<forall>c\<in>set (formatAmount x). \<not> isSpace c"
    if "x \<in> {pp_netTaxed r, pp_untaxed r, pp_exempt r, pp_ivaAmount r, pp_total r}" for x
    using that assms parse_wholeAmount(2) [of x] by (auto simp: printable_def)
  have numbers: "\<forall>c\<in>set (digitsOf k). \<not> isSpace c" if "k \<in> {pp_invoiceType r, pp_salesPoint r, pp_number r}" for k
    using that assms parsePositive_digits(2) [of k] by (auto simp: printable_def)
  have day: "\<forall>c\<in>set (pp_issueDate r). \<not> isSpace c"
    using isoDay_chars assms digit_not_space by (fastforce simp: printable_def isSpace_def)
  have cuit: "\<forall>c\<in>set (pp_supplierCuit r). \<not> isSpace c"
    using assms digit_not_space by (simp add: printable_def list_all_iff)
  have noSpace: "\<forall>c\<in>set v. \<not> isSpace c" if "v \<in> set (purchaseCells r)" "v \<noteq> pp_supplierName r" for v
    using that amounts numbers day cuit by (auto simp: purchaseCells_def)
  have "trim v = v" if "v \<in> set (purchaseCells r)" for v
    using noSpace [OF that] trim_none [of v] assms by (cases "v = pp_supplierName r") (auto simp: printable_def)
  then show "map trim (purchaseCells r) = purchaseCells r" by (simp add: map_idI)
  have "CHR 0x0A \<notin> set v" if "v \<in> set (purchaseCells r)" for v
    using noSpace [OF that] assms by (cases "v = pp_supplierName r") (auto simp: printable_def isSpace_def)
  then show "\<forall>v\<in>set (purchaseCells r). CHR 0x0A \<notin> set v" by simp
qed

lemma header_read:
  "map normalizeHeader (map trim purchaseHeader) = REQUIRED_COLUMNS"
  "detectDelimiter (joinWith '';'' (map quote purchaseHeader)) = CHR '';''"
  by code_simp+

lemma fieldAt_column:
  assumes "i < 11"
  shows "fieldAt REQUIRED_COLUMNS (purchaseCells r) (csvColumns ! i) = purchaseCells r ! i"
proof -
  have "indexOf REQUIRED_COLUMNS (columnName (csvColumns ! i)) = Some i"
    if "i \<in> set [0..<11]" for i
  proof -
    have "list_all (\<lambda>i. indexOf REQUIRED_COLUMNS (columnName (csvColumns ! i)) = Some i) [0..<11]" by code_simp
    then show ?thesis using that by (simp only: list_all_iff)
  qed
  then show ?thesis using assms by (simp add: fieldAt_def) (simp add: purchaseCells_def)
qed

lemma parseRow_cells:
  assumes "printable r"
  shows "parseRow REQUIRED_COLUMNS (purchaseCells r) line = Inr (r\<lparr>pp_line := line\<rparr>)"
proof -
  have cells: "fieldAt REQUIRED_COLUMNS (purchaseCells r) DATE = pp_issueDate r"
    "fieldAt REQUIRED_COLUMNS (purchaseCells r) COLUMN_TYPE = digitsOf (pp_invoiceType r)"
    "fieldAt REQUIRED_COLUMNS (purchaseCells r) SALES_POINT = digitsOf (pp_salesPoint r)"
    "fieldAt REQUIRED_COLUMNS (purchaseCells r) NUMBER_FROM = digitsOf (pp_number r)"
    "fieldAt REQUIRED_COLUMNS (purchaseCells r) ISSUER_DOC_NUMBER = pp_supplierCuit r"
    "fieldAt REQUIRED_COLUMNS (purchaseCells r) ISSUER_NAME = pp_supplierName r"
    "fieldAt REQUIRED_COLUMNS (purchaseCells r) NET_TAXED = formatAmount (pp_netTaxed r)"
    "fieldAt REQUIRED_COLUMNS (purchaseCells r) NET_UNTAXED = formatAmount (pp_untaxed r)"
    "fieldAt REQUIRED_COLUMNS (purchaseCells r) EXEMPT_AMOUNT = formatAmount (pp_exempt r)"
    "fieldAt REQUIRED_COLUMNS (purchaseCells r) IVA = formatAmount (pp_ivaAmount r)"
    "fieldAt REQUIRED_COLUMNS (purchaseCells r) TOTAL = formatAmount (pp_total r)"
    using fieldAt_column [of 0 r] fieldAt_column [of 1 r] fieldAt_column [of 2 r] fieldAt_column [of 3 r]
      fieldAt_column [of 4 r] fieldAt_column [of 5 r] fieldAt_column [of 6 r] fieldAt_column [of 7 r]
      fieldAt_column [of 8 r] fieldAt_column [of 9 r] fieldAt_column [of 10 r]
    by (simp_all add: csvColumns_def purchaseCells_def)
  have cuit: "parseCuit (pp_supplierCuit r) = Inr (pp_supplierCuit r)"
    using assms by (simp add: printable_def parseCuit_def onlyDigits_idem)
  have day: "parseArcaDay (pp_issueDate r) = Inr (pp_issueDate r)"
    using assms by (simp add: printable_def parseArcaDay_def isIsoDay_def)
  have numbers: "parsePositive (digitsOf k) label = Inr k"
    if "k \<in> {pp_invoiceType r, pp_salesPoint r, pp_number r}" for k label
    using that assms parsePositive_digits(1) [of k] by (auto simp: printable_def)
  have amounts: "parseArcaAmount (formatAmount x) = Inr x"
    if "x \<in> {pp_netTaxed r, pp_untaxed r, pp_exempt r, pp_ivaAmount r, pp_total r}" for x
    using that assms parse_wholeAmount(1) [of x] by (auto simp: printable_def)
  show ?thesis unfolding parseRow_def Let_def cells cuit day by (simp add: numbers amounts)
qed

definition purchaseLine :: "ParsedPurchaseRow \<Rightarrow> string" where
  "purchaseLine r = joinWith '';'' (map quote (purchaseCells r))"

lemma purchaseLine_read:
  assumes "printable r"
  shows "splitLine (purchaseLine r) (CHR '';'') = purchaseCells r" and "trim (purchaseLine r) \<noteq> []"
proof -
  have "purchaseCells r \<noteq> []" by (simp add: purchaseCells_def)
  from splitLine_quoted [OF this] show "splitLine (purchaseLine r) (CHR '';'') = purchaseCells r"
    by (simp only: purchaseLine_def printable_cells(1) [OF assms])
  have day: "isIsoDay (pp_issueDate r)" using assms by (simp add: printable_def)
  then have "\<not> needsQuoting (pp_issueDate r)"
    using isoDay_chars [OF day] by (auto simp: needsQuoting_def list_ex_iff isDigit_def)
  then have "set (pp_issueDate r) \<subseteq> set (purchaseLine r)"
    by (auto simp: purchaseLine_def purchaseCells_def joinWith_Cons quote_def)
  moreover have "take 4 (pp_issueDate r) \<noteq> []" "list_all isDigit (take 4 (pp_issueDate r))"
    using day by (auto simp: isIsoDay_def)
  then have "\<exists>c\<in>set (pp_issueDate r). isDigit c"
    by (metis hd_in_set in_set_takeD list_all_iff)
  ultimately show "trim (purchaseLine r) \<noteq> []" unfolding trim_blank using digit_not_space by blast
qed

lemma parseLines_rendered:
  assumes "\<forall>r\<in>set rows. printable r"
  shows "parseLines (CHR '';'') REQUIRED_COLUMNS line (map purchaseLine rows) =
    \<lparr>csv_rows = map (\<lambda>(i, r). r\<lparr>pp_line := i\<rparr>) (enumerate line rows), csv_invalid = []\<rparr>"
  using assms
proof (induction rows arbitrary: line)
  case (Cons r rows)
  then show ?case by (simp add: purchaseLine_read parseRow_cells)
qed simp

lemma purchaseFile_read:
  assumes "\<forall>r\<in>set rows. printable r"
  shows "parseMisComprobantesCsv mark (purchaseFile mark rows) =
    Inr \<lparr>csv_rows = map (\<lambda>(i, r). r\<lparr>pp_line := i\<rparr>) (enumerate FIRST_DATA_LINE_NUMBER rows), csv_invalid = []\<rparr>"
proof -
  let ?header = "joinWith '';'' (map quote purchaseHeader)"
  have cells: "\<forall>row\<in>set (purchaseHeader # map purchaseCells rows). row \<noteq> [] \<and> (\<forall>v\<in>set row. CHR 0x0A \<notin> set v)"
    using printable_cells(2) assms by (auto simp: purchaseHeader_def purchaseCells_def)
  have "map (\<lambda>row. joinWith '';'' (map quote row)) (purchaseHeader # map purchaseCells rows) =
      ?header # map purchaseLine rows" by (simp add: purchaseLine_def)
  then have all: "splitLines (removeFirst mark (purchaseFile mark rows)) = (?header # map purchaseLine rows) @ [[]]"
    unfolding purchaseFile_def removeFirst_mark using splitLines_rendered [OF cells] by (simp only: list.simps not_False_eq_True)
  have header: "trim ?header \<noteq> []" by code_simp
  have "filter (\<lambda>line. trim line \<noteq> []) (map purchaseLine rows) = map purchaseLine rows"
    using purchaseLine_read(2) assms by (simp add: filter_id_conv)
  then have "filter (\<lambda>line. trim line \<noteq> []) ((?header # map purchaseLine rows) @ [[]]) = ?header # map purchaseLine rows"
    using header trim_blank [of "[]"] by simp
  moreover have "splitLine ?header (CHR '';'') = map trim purchaseHeader"
    by (rule splitLine_quoted) (simp add: purchaseHeader_def)
  moreover have "filter (\<lambda>column. column \<notin> set REQUIRED_COLUMNS) REQUIRED_COLUMNS = []"
    by (simp add: filter_empty_conv)
  ultimately show ?thesis unfolding parseMisComprobantesCsv_def all
    by (simp only: list.case Let_def header_read parseLines_rendered [OF assms] if_False simp_thms)
qed

text \<open>
  Property C21. A file of the vouchers received is read as what it says: printing rows of whole
  cents, with whatever separators and quotes the names of the suppliers carry, and reading the
  file gives back those rows in order, numbered by their lines, and rejects none.
\<close>

theorem purchase_csv_round_trip:
  assumes "\<forall>r\<in>set rows. printable r"
  shows "parseMisComprobantesCsv mark (purchaseFile mark rows) =
    Inr \<lparr>csv_rows = map (\<lambda>(i, r). r\<lparr>pp_line := i\<rparr>) (enumerate FIRST_DATA_LINE_NUMBER rows), csv_invalid = []\<rparr>"
  by (rule purchaseFile_read [OF assms])

definition samplePurchase :: ParsedPurchaseRow where
  "samplePurchase = \<lparr>pp_line = 2, pp_supplierCuit = ''30707153745'', pp_supplierName = ''Proveedor; S.A.'',
     pp_invoiceType = 1, pp_salesPoint = 3, pp_number = 1205, pp_issueDate = ''2026-02-14'',
     pp_netTaxed = cents 100000, pp_untaxed = cents 0, pp_exempt = cents 2550, pp_ivaAmount = cents 21000,
     pp_total = cents 123550\<rparr>"

lemma wholeAmount_cents: "0 \<le> n \<Longrightarrow> cents_range n \<Longrightarrow> wholeAmount (cents n)"
  by (auto simp: wholeAmount_def)

lemma samplePurchase_printable: "printable samplePurchase"
proof -
  have "isIsoDay ''2026-02-14''" "list_all isDigit ''30707153745''" "trim ''Proveedor; S.A.'' = ''Proveedor; S.A.''"
    by code_simp+
  then show ?thesis using wholeAmount_cents [of 0]
    by (simp add: printable_def samplePurchase_def wholeAmount_cents cents_range_def)
qed

lemma purchase_csv_round_trip_witness:
  "parseMisComprobantesCsv '''' (purchaseFile '''' [samplePurchase]) =
    Inr \<lparr>csv_rows = [samplePurchase], csv_invalid = []\<rparr>"
  using purchase_csv_round_trip [of "[samplePurchase]" "''''"] samplePurchase_printable
  by (simp add: FIRST_DATA_LINE_NUMBER_def samplePurchase_def)

end
