(* ===== verification/ImportProperties.thy ===== *)
theory ImportProperties
  imports PurchaseProperties MisComprobantesProperties
begin

text \<open>
  What an import of purchases adds to the table, that its preview announces it, that a second
  import of a file adds nothing, and when the rate of a row is the one it was billed with.
\<close>

subsection \<open>The rows an import adds\<close>

text \<open>The row stored for a row of the file classified as importable.\<close>

definition storedFor :: "string \<Rightarrow> ParsedPurchaseRow \<Rightarrow> PurchaseInvoiceRow \<Rightarrow> bool" where
  "storedFor i row r \<longleftrightarrow>
     pi_issuerId r = i \<and> pi_supplierCuit r = pp_supplierCuit row \<and> pi_supplierName r = pp_supplierName row \<and>
     pi_invoiceType r = pp_invoiceType row \<and> pi_salesPoint r = pp_salesPoint row \<and> pi_number r = pp_number row \<and>
     dateOfIsoDay (pp_issueDate row) = Some (pi_issueDate r) \<and>
     (\<exists>rate. inferIvaRate row = Some rate \<and> pi_amounts r = amountsForRate row rate) \<and>
     pi_total r = purchaseInvoiceTotal (pi_amounts r) \<and> \<bar>js_sub (pi_total r) (pp_total row)\<bar> \<le> AMOUNT_TOLERANCE"

definition importable :: "string list \<Rightarrow> ParsedPurchaseRow \<Rightarrow> bool" where
  "importable existing row \<longleftrightarrow> cr_status (classify existing row) = IMPORTABLE"

lemma importable_iff:
  "importable existing row \<longleftrightarrow> parsedKey row \<notin> set existing \<and>
    (\<exists>rate. inferIvaRate row = Some rate \<and> \<bar>js_sub (importedTotal row rate) (pp_total row)\<bar> \<le> AMOUNT_TOLERANCE)"
  by (auto simp: importable_def classify_def Let_def not_less split: option.splits)

lemma cr_ivaRate_classify: "cr_ivaRate (classify existing row) = inferIvaRate row"
  by (simp add: classify_def Let_def split: option.splits)

lemma insertPurchase_added:
  assumes "insertPurchase p d e r w = (Inr x, w')"
  shows "purchaseInvoices w' = purchaseInvoices w @ [x]" and "x = r\<lparr>pi_id := pi_id x, pi_issueDate := pi_issueDate x, pi_dueDate := Option.bind e (\<lambda>t. t)\<rparr>"
    and "d = Some (pi_issueDate x)"
proof -
  obtain s where s: "(case purchaseRowError r d e of Some e \<Rightarrow> (Inl e, w\<lparr>outside := s\<rparr>)
      | None \<Rightarrow> bindA (newId p) (\<lambda>new.
          (let row = r\<lparr>pi_id := new, pi_issueDate := orElse d 0, pi_dueDate := Option.bind e (\<lambda>t. t)\<rparr> in
           bindA (putA (\<lambda>w. w\<lparr>purchaseInvoices := purchaseInvoices w @ [row]\<rparr>)) (\<lambda>_. returnA row)))
          (w\<lparr>outside := s\<rparr>)) = (Inr x, w')"
    using assms unfolding insertPurchase_def table_Inr by blast
  then have ok: "purchaseRowError r d e = None" by (cases "purchaseRowError r d e") auto
  then obtain t where t: "d = Some t" by (cases d) (auto simp: purchaseRowError_def)
  have x: "x = r\<lparr>pi_id := cuid p (nextId w), pi_issueDate := t, pi_dueDate := Option.bind e (\<lambda>t. t)\<rparr>"
    and "purchaseInvoices w' = purchaseInvoices w @ [x]"
    using s ok by (simp_all add: t newId_def action_simps Let_def) auto
  then show "purchaseInvoices w' = purchaseInvoices w @ [x]" by simp
  show "d = Some (pi_issueDate x)" by (simp add: x t)
  show "x = r\<lparr>pi_id := pi_id x, pi_issueDate := pi_issueDate x, pi_dueDate := Option.bind e (\<lambda>t. t)\<rparr>" by (simp add: x)
qed

lemma importRow_added:
  assumes "importRow p i (row, classify existing row) w = (Inr u, w')"
  shows "if importable existing row then \<exists>r. purchaseInvoices w' = purchaseInvoices w @ [r] \<and> storedFor i row r
    else w' = w"
proof (cases "importable existing row")
  case True
  then obtain rate where rate: "inferIvaRate row = Some rate"
      "\<bar>js_sub (importedTotal row rate) (pp_total row)\<bar> \<le> AMOUNT_TOLERANCE"
    by (auto simp: importable_iff)
  let ?row = "importedRow i row (amountsForRate row rate)"
  obtain x where x: "insertPurchase p (dateOfIsoDay (pp_issueDate row)) None ?row w = (Inr x, w')"
    using assms True rate by (auto simp: importRow_def importable_def cr_ivaRate_classify bindA_Inr_iff returnA_def)
  note added = insertPurchase_added [OF x]
  have "x = ?row\<lparr>pi_id := pi_id x, pi_issueDate := pi_issueDate x, pi_dueDate := None\<rparr>" using added(2) by simp
  then obtain k t where "x = ?row\<lparr>pi_id := k, pi_issueDate := t, pi_dueDate := None\<rparr>" by blast
  then have "storedFor i row x" using added(3) rate by (simp add: storedFor_def importedRow_def importedTotal_def)
  then show ?thesis using True added(1) by auto
next
  case False
  then show ?thesis using assms by (simp add: importRow_def importable_def returnA_def)
qed

lemma importRows_added:
  assumes "forEachA (importRow p i) (map (\<lambda>row. (row, classify existing row)) rows) w = (Inr u, w')"
  shows "\<exists>new. purchaseInvoices w' = purchaseInvoices w @ new \<and>
    list_all2 (storedFor i) (filter (importable existing) rows) new"
  using assms
proof (induction rows arbitrary: w)
  case (Cons row rows)
  obtain u1 w1 where w1: "importRow p i (row, classify existing row) w = (Inr u1, w1)"
      "forEachA (importRow p i) (map (\<lambda>row. (row, classify existing row)) rows) w1 = (Inr u, w')"
    using Cons.prems by (auto split: prod.splits sum.splits)
  obtain new where new: "purchaseInvoices w' = purchaseInvoices w1 @ new"
      "list_all2 (storedFor i) (filter (importable existing) rows) new"
    using Cons.IH [OF w1(2)] by blast
  show ?case
  proof (cases "importable existing row")
    case True
    then obtain r where "purchaseInvoices w1 = purchaseInvoices w @ [r]" "storedFor i row r"
      using importRow_added [OF w1(1)] by auto
    then show ?thesis using new True by (intro exI [of _ "r # new"]) simp
  next
    case False
    then show ?thesis using importRow_added [OF w1(1)] new by auto
  qed
qed simp

subsection \<open>The keys already stored\<close>

definition keysOf :: "string \<Rightarrow> ParsedPurchaseRow list \<Rightarrow> PurchaseInvoiceRow list \<Rightarrow> string list" where
  "keysOf i rows stored = (if rows = [] then [] else map storedKey (filter (\<lambda>r. pi_issuerId r = i \<and>
     pi_supplierCuit r \<in> set (map pp_supplierCuit rows)) stored))"

lemma existingKeys_Inr:
  "findExistingKeys p i rows w = (Inr existing, w') \<Longrightarrow>
   existing = keysOf i rows (purchaseInvoices w) \<and> w' = w\<lparr>outside := outside w'\<rparr>"
  by (auto simp: findExistingKeys_def keysOf_def table_Inr action_simps split: if_splits)

lemma keysOf_mono: "set stored \<subseteq> set stored' \<Longrightarrow> set (keysOf i rows stored) \<subseteq> set (keysOf i rows stored')"
  by (auto simp: keysOf_def)

lemma zip_map_self: "zip xs (map f xs) = map (\<lambda>x. (x, f x)) xs"
  by (induction xs) simp_all

lemma import_Inr:
  assumes "importPurchases p mark i csv w = (Inr shown, w')"
  obtains parsed new where "parseMisComprobantesCsv mark csv = Inr parsed"
    "shown = summarize (map (classify (keysOf i (csv_rows parsed) (purchaseInvoices w))) (csv_rows parsed)) (csv_invalid parsed)"
    "purchaseInvoices w' = purchaseInvoices w @ new"
    "list_all2 (storedFor i) (filter (importable (keysOf i (csv_rows parsed) (purchaseInvoices w))) (csv_rows parsed)) new"
proof -
  obtain parsed where parsed: "parseMisComprobantesCsv mark csv = Inr parsed"
    using assms by (cases "parseMisComprobantesCsv mark csv") (auto simp: importPurchases_def parseFile_def action_simps)
  then obtain existing w1 u where keys: "findExistingKeys p i (csv_rows parsed) w = (Inr existing, w1)"
      "forEachA (importRow p i) (zip (csv_rows parsed) (map (classify existing) (csv_rows parsed))) w1 = (Inr u, w')"
      "shown = summarize (map (classify existing) (csv_rows parsed)) (csv_invalid parsed)"
    using assms by (auto simp: importPurchases_def parseFile_def Let_def bindA_Inr_iff returnA_def)
  have e: "existing = keysOf i (csv_rows parsed) (purchaseInvoices w)" "purchaseInvoices w1 = purchaseInvoices w"
    using existingKeys_Inr [OF keys(1)] by (simp, metis world.select_convs(12) world.surjective world.update_convs(1))
  from importRows_added [OF keys(2) [unfolded zip_map_self]] show thesis
    using that [OF parsed] keys(3) unfolding e by blast
qed

subsection \<open>Import, preview and a second import\<close>

lemma summary_importable:
  "is_importable (prev_summary (summarize (map (classify existing) rows) invalid)) = length (filter (importable existing) rows)"
proof -
  have "importable existing = (\<lambda>row. cr_status (classify existing row) = IMPORTABLE)" by (simp add: fun_eq_iff importable_def)
  then show ?thesis by (simp add: summarize_def countOf_def filter_map comp_def)
qed

lemma list_all2_left: "list_all2 P xs ys \<Longrightarrow> x \<in> set xs \<Longrightarrow> \<exists>y\<in>set ys. P x y"
  by (induction rule: list_all2_induct) auto

text \<open>
  An import that succeeds adds to the table one row of the issuer for each row of
  the file announced as importable, in their order, with its supplier, type, numbers, date and
  amounts, and a total within a cent of the file's; nothing stored before changes.
\<close>

lemma import_creates:
  assumes "importPurchases p mark i csv w = (Inr shown, w')"
  shows "\<exists>parsed new. parseMisComprobantesCsv mark csv = Inr parsed \<and>
    purchaseInvoices w' = purchaseInvoices w @ new \<and> length new = is_importable (prev_summary shown) \<and>
    list_all2 (storedFor i) (map fst (filter (\<lambda>(row, c). cr_status c = IMPORTABLE)
      (zip (csv_rows parsed) (prev_rows shown)))) new"
proof -
  from assms obtain parsed new where pn: "parseMisComprobantesCsv mark csv = Inr parsed"
    "shown = summarize (map (classify (keysOf i (csv_rows parsed) (purchaseInvoices w))) (csv_rows parsed)) (csv_invalid parsed)"
    "purchaseInvoices w' = purchaseInvoices w @ new"
    "list_all2 (storedFor i) (filter (importable (keysOf i (csv_rows parsed) (purchaseInvoices w))) (csv_rows parsed)) new"
    by (rule import_Inr)
  let ?keys = "keysOf i (csv_rows parsed) (purchaseInvoices w)"
  have "map fst (filter (\<lambda>(row, c). cr_status c = IMPORTABLE) (zip rows (map (classify ?keys) rows))) =
      filter (importable ?keys) rows" for rows
    by (induction rows) (simp_all add: importable_def)
  moreover have "length new = is_importable (prev_summary shown)"
    using list_all2_lengthD [OF pn(4)] unfolding pn(2) by (simp add: summary_importable)
  ultimately show ?thesis using pn by (auto simp: summarize_def)
qed

lemma second_not_importable:
  assumes "list_all2 (storedFor i) (filter (importable (keysOf i rows old)) rows) new"
    and "set (old @ new) \<subseteq> set stored" "row \<in> set rows"
  shows "\<not> importable (keysOf i rows stored) row"
proof
  assume second: "importable (keysOf i rows stored) row"
  have "parsedKey row \<in> set (keysOf i rows stored)"
  proof (cases "parsedKey row \<in> set (keysOf i rows old)")
    case True
    have "set old \<subseteq> set stored" using assms(2) by simp
    from keysOf_mono [OF this] show ?thesis using True by blast
  next
    case False
    then have "importable (keysOf i rows old) row" using second by (simp add: importable_iff)
    then obtain r where r: "r \<in> set new" "storedFor i row r"
      using list_all2_left [OF assms(1), of row] assms(3) by auto
    then have "r \<in> set stored" "storedKey r = parsedKey row" using assms(2)
      by (auto simp: storedFor_def storedKey_def parsedKey_def)
    then show ?thesis using r(2) assms(3) by (auto simp: keysOf_def storedFor_def image_iff)
  qed
  then show False using second by (simp add: importable_iff)
qed

text \<open>
  Property C20. Importing a file a second time, at any later moment in which the rows of the
  first import are still stored, adds nothing and announces no row as importable.
\<close>

theorem import_twice:
  assumes "importPurchases p mark i csv w = (Inr shown, w1)"
    and "set (purchaseInvoices w1) \<subseteq> set (purchaseInvoices w2)"
    and "importPurchases q mark i csv w2 = (Inr again, w3)"
  shows "purchaseInvoices w3 = purchaseInvoices w2 \<and> is_importable (prev_summary again) = 0"
proof -
  from assms(1) obtain parsed new where first: "parseMisComprobantesCsv mark csv = Inr parsed"
    "purchaseInvoices w1 = purchaseInvoices w @ new"
    "list_all2 (storedFor i) (filter (importable (keysOf i (csv_rows parsed) (purchaseInvoices w))) (csv_rows parsed)) new"
    by (rule import_Inr)
  from assms(3) obtain parsed2 new2 where second: "parseMisComprobantesCsv mark csv = Inr parsed2"
    "again = summarize (map (classify (keysOf i (csv_rows parsed2) (purchaseInvoices w2))) (csv_rows parsed2)) (csv_invalid parsed2)"
    "purchaseInvoices w3 = purchaseInvoices w2 @ new2"
    "list_all2 (storedFor i) (filter (importable (keysOf i (csv_rows parsed2) (purchaseInvoices w2))) (csv_rows parsed2)) new2"
    by (rule import_Inr)
  have "parsed2 = parsed" using first(1) second(1) by simp
  then have none: "filter (importable (keysOf i (csv_rows parsed) (purchaseInvoices w2))) (csv_rows parsed) = []"
    using second_not_importable [OF first(3)] assms(2) first(2) by (simp add: filter_empty_conv)
  then have "new2 = []" using second(4) \<open>parsed2 = parsed\<close> by simp
  then show ?thesis
    using second(2,3) none \<open>parsed2 = parsed\<close> by (simp add: summary_importable)
qed

text \<open>
  The preview of an import stores nothing, and what it shows is what the import
  of the same file reports when the table has not changed in between.
\<close>

lemma preview_announces_import:
  assumes "previewImport p mark i csv w = (Inr shown, w1)"
    and "purchaseInvoices w2 = purchaseInvoices w" "importPurchases q mark i csv w2 = (Inr reported, w3)"
  shows "shown = reported \<and> w1 = w\<lparr>outside := outside w1\<rparr>"
proof -
  from assms(3) obtain parsed new where pn: "parseMisComprobantesCsv mark csv = Inr parsed"
    "reported = summarize (map (classify (keysOf i (csv_rows parsed) (purchaseInvoices w2))) (csv_rows parsed)) (csv_invalid parsed)"
    by (rule import_Inr)
  then obtain existing where "findExistingKeys p i (csv_rows parsed) w = (Inr existing, w1)"
      "shown = summarize (map (classify existing) (csv_rows parsed)) (csv_invalid parsed)"
    using assms(1) by (auto simp: previewImport_def parseFile_def bindA_Inr_iff returnA_def)
  then show ?thesis using existingKeys_Inr [of p i "csv_rows parsed" w existing w1] pn(2) assms(2) by simp
qed

subsection \<open>The rate of a row\<close>

lemma find_unique:
  "a \<in> set xs \<Longrightarrow> (\<And>x. x \<in> set xs \<Longrightarrow> P x \<longleftrightarrow> x = a) \<Longrightarrow> List.find P xs = Some a"
  by (induction xs) auto

text \<open>The quotient of two amounts of whole cents, the divisor of two pesos at least.\<close>

lemma ratio_err:
  fixes a b x y :: rat
  assumes "\<bar>a - x\<bar> \<le> 1 / 65536" "\<bar>b - y\<bar> \<le> 1 / 65536" "2 \<le> y" "0 \<le> x" "x \<le> y"
  shows "\<bar>a / b - x / y\<bar> \<le> 1 / 50000"
proof -
  have b: "0 < b" "1 \<le> b" using assms(2,3) by linarith+
  have "\<bar>a - x\<bar> + \<bar>x / y\<bar> * \<bar>b - y\<bar> \<le> 1 / 65536 + 1 * (1 / 65536)"
    using assms by (intro add_mono mult_mono) (simp_all add: divide_le_eq)
  moreover have "a / b - x / y = ((a - x) - (x / y) * (b - y)) / b"
    using b assms(3) by (simp add: field_simps)
  then have "\<bar>a / b - x / y\<bar> * b = \<bar>(a - x) - (x / y) * (b - y)\<bar>" using b by (simp add: abs_divide)
  moreover have "\<bar>(a - x) - (x / y) * (b - y)\<bar> \<le> \<bar>a - x\<bar> + \<bar>x / y\<bar> * \<bar>b - y\<bar>"
    by (metis abs_mult abs_triangle_ineq4)
  ultimately have bound: "\<bar>a / b - x / y\<bar> * b \<le> 2 / 65536" by linarith
  have "7 / 4 \<le> b" using assms(2,3) by linarith
  then have "\<bar>a / b - x / y\<bar> * (7 / 4) \<le> \<bar>a / b - x / y\<bar> * b" by (intro mult_left_mono) simp_all
  then have "\<bar>a / b - x / y\<bar> * (7 / 4) \<le> 2 / 65536" using bound by (rule order_trans)
  moreover have "d * (7 / 4) \<le> 2 / 65536 \<Longrightarrow> d \<le> 1 / 50000" for d :: rat by linarith
  ultimately show ?thesis by blast
qed

lemma percent_near: "\<bar>fl (rate / 100) - rate / 100\<bar> \<le> 1 / 1000000" if "rate \<in> set ivaRates" for rate
proof -
  have "0 \<le> rate \<and> rate \<le> 27" using that by (auto simp: ivaRates_def)
  then have "\<bar>rate / 100\<bar> \<le> 1" by simp
  from fl_err [OF this] show ?thesis by simp
qed

lemma rates_apart: "r \<in> set ivaRates \<Longrightarrow> s \<in> set ivaRates \<Longrightarrow> r \<noteq> s \<Longrightarrow> 5 / 2 \<le> \<bar>r - s\<bar>"
  by (auto simp: ivaRates_def)

lemma tolerance_near: "\<bar>RATE_TOLERANCE - 5 / 1000\<bar> \<le> 1 / 1000000"
  using fl_err [of "5 / 1000" 1] by (simp add: RATE_TOLERANCE_def)

lemma dist_trans: "\<bar>a - b\<bar> \<le> p \<Longrightarrow> \<bar>b - c\<bar> \<le> q \<Longrightarrow> p + q \<le> r \<Longrightarrow> \<bar>a - c\<bar> \<le> (r :: rat)"
  by linarith

lemma far_apart:
  fixes d t :: rat
  assumes "5 / 2 \<le> \<bar>t\<bar>" "\<bar>d - t / 100\<bar> \<le> 1 / 290"
  shows "1 / 40 - 1 / 290 \<le> \<bar>d\<bar>"
proof (cases "0 \<le> t")
  case True
  then have "1 / 40 - 1 / 290 \<le> d" using assms unfolding abs_le_iff by simp
  then show ?thesis by simp
next
  case False
  then have "1 / 40 - 1 / 290 \<le> - d" using assms unfolding abs_le_iff by simp
  then show ?thesis by simp
qed

text \<open>How near the quotient of the declared amounts is to the rate they were computed with.\<close>

lemma declared_ratio:
  assumes "cents_range n" "cents_range k" "200 \<le> n" "rate \<in> set ivaRates"
    and iva: "\<bar>of_int k - of_int n * rate / 100\<bar> \<le> 1 / 2" "0 \<le> k"
  shows "\<bar>js_div (cents k) (cents n) - rate / 100\<bar> \<le> 1 / 300"
proof -
  have r: "0 \<le> rate" "rate \<le> 27" using assms(4) by (auto simp: ivaRates_def)
  have n: "200 \<le> (of_int n :: rat)" using assms(3) by simp
  have "of_int n * rate / 100 \<le> of_int n * 27 / 100" using r n by simp
  then have "(of_int k :: rat) \<le> of_int n * 27 / 100 + 1 / 2" using iva(1) by linarith
  then have k: "(of_int k :: rat) \<le> of_int n" "0 \<le> (of_int k :: rat)" using n assms(6) by linarith+
  have q: "\<bar>cents k / cents n - (of_int k / 100) / (of_int n / 100)\<bar> \<le> 1 / 50000"
    using cents_err [OF assms(2)] cents_err [OF assms(1)] n k by (intro ratio_err) simp_all
  have "of_int k / of_int n - rate / 100 = (of_int k - of_int n * rate / 100) / of_int n"
    using n by (simp add: field_simps)
  then have "\<bar>of_int k / of_int n - rate / 100\<bar> = \<bar>of_int k - of_int n * rate / 100\<bar> / of_int n"
    using n by (simp add: abs_divide)
  also have "\<dots> \<le> (1 / 2) / 200" using iva(1) n by (intro frac_le) simp_all
  finally have exact: "\<bar>of_int k / of_int n - rate / 100\<bar> \<le> 1 / 400" by simp
  have same: "(of_int k / 100) / (of_int n / 100) = (of_int k / of_int n :: rat)" by simp
  have near: "\<bar>cents k / cents n - rate / 100\<bar> \<le> 1 / 390" by (rule dist_trans [OF q [unfolded same] exact]) simp
  then have "\<bar>cents k / cents n\<bar> \<le> 1" using r unfolding abs_le_iff by linarith
  from fl_err [OF this] have "\<bar>js_div (cents k) (cents n) - cents k / cents n\<bar> \<le> 1 / 1000000"
    by (simp add: js_div_def)
  then show ?thesis using near unfolding abs_le_iff by linarith
qed

lemma rate_recognised:
  assumes "cents_range n" "cents_range k" "200 \<le> n" "rate \<in> set ivaRates" "s \<in> set ivaRates"
    and "\<bar>of_int k - of_int n * rate / 100\<bar> \<le> 1 / 2" "0 \<le> k"
  shows "\<bar>js_sub (js_div (cents k) (cents n)) (js_div s 100)\<bar> < RATE_TOLERANCE \<longleftrightarrow> s = rate"
proof -
  let ?q = "js_div (cents k) (cents n)"
  note near = declared_ratio [OF assms(1-4,6,7)]
  have r: "0 \<le> rate" "rate \<le> 27" "0 \<le> s" "s \<le> 27" using assms(4,5) by (auto simp: ivaRates_def)
  note percent = percent_near [OF assms(5)]
  have "\<bar>?q - fl (s / 100)\<bar> \<le> 1" using near percent r unfolding abs_le_iff by linarith
  from fl_err [OF this] have sub: "\<bar>js_sub ?q (js_div s 100) - (?q - fl (s / 100))\<bar> \<le> 1 / 1000000"
    by (simp add: js_sub_def js_div_def)
  have shift: "\<bar>js_sub ?q (js_div s 100) - (rate - s) / 100\<bar> \<le> 1 / 290"
    using near percent sub unfolding abs_le_iff by (simp add: diff_divide_distrib)
  show ?thesis
  proof (cases "s = rate")
    case True
    then have "\<bar>js_sub ?q (js_div s 100)\<bar> \<le> 1 / 290" using shift by simp
    then show ?thesis using True tolerance_near unfolding abs_le_iff by linarith
  next
    case False
    then have "5 / 2 \<le> \<bar>rate - s\<bar>" using rates_apart [OF assms(4,5)] by blast
    then have "1 / 40 - 1 / 290 \<le> \<bar>js_sub ?q (js_div s 100)\<bar>" using shift by (rule far_apart)
    then show ?thesis using False tolerance_near unfolding abs_le_iff by linarith
  qed
qed

lemma inferred:
  assumes "pp_netTaxed row = cents n" "pp_ivaAmount row = cents k" "cents_range n" "cents_range k" "200 \<le> n" "0 < k"
    and "rate \<in> set ivaRates" "0 < rate" "\<bar>of_int k - of_int n * rate / 100\<bar> \<le> 1 / 2"
  shows "inferIvaRate row = Some rate"
proof -
  have nz: "cents n \<noteq> 0" "cents k \<noteq> 0"
    using assms(3-6) cents_inj [of n 0] cents_inj [of k 0] by (simp_all add: cents_range_def)
  have "List.find (\<lambda>s. 0 < s \<and> \<bar>js_sub (js_div (cents k) (cents n)) (js_div s 100)\<bar> < RATE_TOLERANCE) ivaRates = Some rate"
    using rate_recognised [OF assms(3,4,5,7) _ assms(9)] assms(6,7,8) by (intro find_unique) auto
  then show ?thesis using nz by (simp add: inferIvaRate_def assms(1,2) Let_def)
qed

text \<open>Eight amounts of whole cents add up to the cent.\<close>

lemma fine_cents:
  assumes "0 \<le> n" "n \<le> 549755813888"
  shows "\<bar>cents n - of_int n / 100\<bar> \<le> 1 / 500000"
proof -
  have "(of_int n :: rat) \<le> of_int 549755813888" using assms(2) by (simp only: of_int_le_iff)
  then have "\<bar>of_int n / 100 :: rat\<bar> \<le> 5497558139" using assms(1) by (simp add: abs_if)
  from fl_err [OF this] show ?thesis unfolding cents_def by simp
qed

definition centsAmounts :: "int list \<Rightarrow> PurchaseAmounts" where
  "centsAmounts cs = \<lparr>pa_netAmount21 = cents (cs ! 0), pa_iva21 = cents (cs ! 1), pa_netAmount105 = cents (cs ! 2),
     pa_iva105 = cents (cs ! 3), pa_netAmount27 = cents (cs ! 4), pa_iva27 = cents (cs ! 5),
     pa_exempt = cents (cs ! 6), pa_untaxed = cents (cs ! 7)\<rparr>"

lemma total_of_cents:
  assumes "length cs = 8" "\<And>c. c \<in> set cs \<Longrightarrow> 0 \<le> c" "sum_list cs \<le> 549755813888"
  shows "purchaseInvoiceTotal (centsAmounts cs) = cents (sum_list cs)"
proof -
  obtain a b c d e f g h where cs: "cs = [a, b, c, d, e, f, g, h]"
    using assms(1) by (auto simp: numeral_eq_Suc length_Suc_conv)
  have small: "x \<le> 549755813888" if "x \<in> set cs" for x
    using member_le_sum_list [OF that] assms(2,3) order_trans by (metis elem_le_sum_list that)
  have "list_all2 (\<lambda>x c. \<bar>x - of_int c / 100\<bar> \<le> 1 / 500000) (map cents cs) cs"
    using fine_cents assms(2) small by (simp add: list_all2_conv_all_nth)
  from js_sum_err [OF this] have err: "\<bar>js_sum (map cents cs) - of_int (sum_list cs) / 100\<bar> \<le> 1 / 250"
    using assms by simp
  have "js_add 0 (cents a) = cents a" by (simp add: js_add_def cents_def)
  then have "purchaseInvoiceTotal (centsAmounts cs) = roundToCents (js_sum (map cents cs))"
    by (simp add: purchaseInvoiceTotal_def centsAmounts_def js_sum_def cs Let_def numeral_eq_Suc)
  also have "\<dots> = cents (sum_list cs)"
  proof (rule roundToCents_near)
    have "0 \<le> sum_list cs" using assms(2) by (rule sum_list_nonneg)
    then show "cents_range (sum_list cs)" using assms(3) by (simp add: cents_range_def)
    show "\<bar>js_sum (map cents cs) - of_int (sum_list cs) / 100\<bar> \<le> 49 / 10000" using err by linarith
  qed
  finally show ?thesis .
qed

text \<open>A row of the file in whole cents whose total is the sum of its amounts.\<close>

definition wholeRow :: "ParsedPurchaseRow \<Rightarrow> int \<Rightarrow> int \<Rightarrow> int \<Rightarrow> int \<Rightarrow> bool" where
  "wholeRow row net iva exempt untaxed \<longleftrightarrow>
     pp_netTaxed row = cents net \<and> pp_ivaAmount row = cents iva \<and> pp_exempt row = cents exempt \<and>
     pp_untaxed row = cents untaxed \<and> pp_total row = cents (net + iva + exempt + untaxed) \<and>
     0 \<le> net \<and> 0 \<le> iva \<and> 0 \<le> exempt \<and> 0 \<le> untaxed \<and> net + iva + exempt + untaxed \<le> 549755813888"

lemma amounts_as_cents:
  assumes "wholeRow row n k e u"
  shows "amountsForRate row rate = centsAmounts
    (if rate = 21 then [n, k, 0, 0, 0, 0, e, u] else if rate = 21 / 2 then [0, 0, n, k, 0, 0, e, u]
     else if rate = 27 then [0, 0, 0, 0, n, k, e, u] else [0, 0, 0, 0, 0, 0, e, u])"
  using assms
  by (simp add: amountsForRate_def centsAmounts_def wholeRow_def EMPTY_TAXED_AMOUNTS_def Let_def numeral_eq_Suc)

lemma importedTotal_cents:
  assumes "wholeRow row n k e u"
  shows "importedTotal row rate = cents (if rate \<in> {21, 21 / 2, 27} then n + k + e + u else e + u)"
proof -
  have w: "0 \<le> n" "0 \<le> k" "0 \<le> e" "0 \<le> u" "n + k + e + u \<le> 549755813888" using assms by (simp_all add: wholeRow_def)
  show ?thesis
    unfolding importedTotal_def amounts_as_cents [OF assms] using w
    by (subst total_of_cents) (auto simp: add.assoc split: if_splits)
qed

lemma whole_inferred:
  assumes "wholeRow row n k e u" "200 \<le> n" "0 < k" "rate \<in> set ivaRates" "0 < rate"
    and "\<bar>of_int k - of_int n * rate / 100\<bar> \<le> 1 / 2"
  shows "inferIvaRate row = Some rate"
  using assms by (intro inferred [of row n k]) (simp_all add: wholeRow_def cents_range_def)

lemma sub_self: "\<bar>js_sub x x\<bar> \<le> AMOUNT_TOLERANCE"
proof -
  have "\<bar>AMOUNT_TOLERANCE - 1 / 100\<bar> \<le> 1 / 1000000"
    using fl_err [of "1 / 100" 1] by (simp add: AMOUNT_TOLERANCE_def)
  then have "0 \<le> AMOUNT_TOLERANCE" unfolding abs_le_iff by linarith
  then show ?thesis by (simp add: js_sub_def)
qed

text \<open>
  A row of the file that is not stored yet, in whole cents, billed at one rate of
  10.5, 21 or 27 per cent on a net amount of two pesos at least (its IVA the net amount times the
  rate, rounded to cents), whose total is the sum of its amounts, is importable: its rate is
  recognised exactly, and the total that would be stored is the one of the file.
\<close>

lemma single_rate_importable:
  assumes "wholeRow row n k e u" "200 \<le> n" "0 < k" "rate \<in> {21 / 2, 21, 27}"
    and "\<bar>of_int k - of_int n * rate / 100\<bar> \<le> 1 / 2" "parsedKey row \<notin> set existing"
  shows "cr_status (classify existing row) = IMPORTABLE \<and> cr_ivaRate (classify existing row) = Some rate \<and>
    importedTotal row rate = pp_total row"
proof -
  have rate: "rate \<in> set ivaRates" "0 < rate" using assms(4) by (auto simp: ivaRates_def)
  have infer: "inferIvaRate row = Some rate" by (rule whole_inferred [OF assms(1-3) rate assms(5)])
  have total: "importedTotal row rate = pp_total row"
    using importedTotal_cents [OF assms(1), of rate] assms(1,4) by (auto simp: wholeRow_def)
  have "importable existing row" using assms(6) infer total sub_self by (simp add: importable_iff)
  then show ?thesis using infer total by (simp add: importable_def cr_ivaRate_classify)
qed

text \<open>
  A row billed at 2.5 or at 5 per cent is recognised too, but the purchase invoices
  have no fields for those rates: its net amount and IVA are dropped and it is always sent to
  review, with the reason of a total that does not match.
\<close>

lemma minor_rate_needs_review:
  assumes "wholeRow row n k e u" "200 \<le> n" "0 < k" "rate \<in> {5 / 2, 5}"
    and "\<bar>of_int k - of_int n * rate / 100\<bar> \<le> 1 / 2" "parsedKey row \<notin> set existing"
  shows "cr_status (classify existing row) = NEEDS_REVIEW \<and> cr_ivaRate (classify existing row) = Some rate \<and>
    cr_reason (classify existing row) = Some (totalMismatchReason (pp_total row) (cents (e + u)))"
proof -
  have rate: "rate \<in> set ivaRates" "0 < rate" "rate \<notin> {21, 21 / 2, 27}" using assms(4) by (auto simp: ivaRates_def)
  have infer: "inferIvaRate row = Some rate" by (rule whole_inferred [OF assms(1-3) rate(1,2) assms(5)])
  have total: "importedTotal row rate = cents (e + u)" using importedTotal_cents [OF assms(1), of rate] rate(3) by simp
  let ?s = "n + k + e + u"
  have r: "cents_range (e + u)" "cents_range ?s" "pp_total row = cents ?s"
    using assms(1-3) by (simp_all add: wholeRow_def cents_range_def)
  have "\<bar>js_sub (cents (e + u)) (cents ?s) - of_int ((e + u) - ?s) / 100\<bar> \<le> 1 / 8192"
    by (rule cents_sub_err [OF r(1,2)])
  moreover have "of_int ((e + u) - ?s) / 100 \<le> (- 2 :: rat)" using assms(2,3) by simp
  ultimately have "js_sub (cents (e + u)) (cents ?s) \<le> - 1" unfolding abs_le_iff by linarith
  moreover have "\<bar>AMOUNT_TOLERANCE - 1 / 100\<bar> \<le> 1 / 1000000"
    using fl_err [of "1 / 100" 1] by (simp add: AMOUNT_TOLERANCE_def)
  ultimately have "AMOUNT_TOLERANCE < \<bar>js_sub (importedTotal row rate) (pp_total row)\<bar>"
    unfolding total r(3) abs_le_iff by linarith
  then show ?thesis using assms(6) infer total by (simp add: classify_def Let_def)
qed

subsection \<open>An import on a sample file\<close>

lemma sampleWhole: "wholeRow samplePurchase 100000 21000 2550 0"
  by (simp add: wholeRow_def samplePurchase_def)

lemma single_rate_importable_witness:
  "cr_status (classify [] samplePurchase) = IMPORTABLE \<and> cr_ivaRate (classify [] samplePurchase) = Some 21 \<and>
   importedTotal samplePurchase 21 = pp_total samplePurchase"
  using single_rate_importable [OF sampleWhole, of 21 "[]"] by simp

definition reducedPurchase :: ParsedPurchaseRow where
  "reducedPurchase = samplePurchase\<lparr>pp_ivaAmount := cents 5000, pp_exempt := cents 0, pp_total := cents 105000\<rparr>"

lemma minor_rate_needs_review_witness:
  "cr_status (classify [] reducedPurchase) = NEEDS_REVIEW \<and> cr_ivaRate (classify [] reducedPurchase) = Some 5"
proof -
  have "wholeRow reducedPurchase 100000 5000 0 0" by (simp add: wholeRow_def reducedPurchase_def samplePurchase_def)
  from minor_rate_needs_review [OF this, of 5 "[]"] show ?thesis by simp
qed

definition sampleFile :: string where
  "sampleFile = purchaseFile '''' [samplePurchase]"

lemma sampleFile_parsed:
  "parseMisComprobantesCsv '''' sampleFile = Inr \<lparr>csv_rows = [samplePurchase], csv_invalid = []\<rparr>"
  using purchaseFile_read [of "[samplePurchase]" "''''"] samplePurchase_printable
  by (simp add: sampleFile_def FIRST_DATA_LINE_NUMBER_def samplePurchase_def)

definition sampleStored :: PurchaseInvoiceRow where
  "sampleStored = importedRow ''issuer'' samplePurchase (amountsForRate samplePurchase 21)"

lemma sample_importable: "importable [] samplePurchase" "inferIvaRate samplePurchase = Some 21"
  and sample_total: "importedTotal samplePurchase 21 = cents 123550"
proof -
  show r: "inferIvaRate samplePurchase = Some 21"
    by (rule whole_inferred [OF sampleWhole]) (simp_all add: ivaRates_def)
  show t: "importedTotal samplePurchase 21 = cents 123550" using importedTotal_cents [OF sampleWhole, of 21] by simp
  show "importable [] samplePurchase" using sub_self by (simp add: importable_iff r t) (simp add: samplePurchase_def)
qed

lemma cents_fits: "cents_range n \<Longrightarrow> \<bar>cents n\<bar> < 10000000000000"
  using cents_err [of n] cents_rangeD [of n] unfolding abs_le_iff abs_less_iff by linarith

lemma sampleStored_fits: "purchaseRowError sampleStored (dateOfIsoDay ''2026-02-14'') None = None"
  "dateOfIsoDay ''2026-02-14'' \<noteq> None"
proof -
  show d: "dateOfIsoDay ''2026-02-14'' \<noteq> None" by code_simp
  have "purchaseInvoiceTotal (amountsForRate samplePurchase 21) = cents 123550" using sample_total by (simp add: importedTotal_def)
  moreover have "\<bar>cents 0\<bar> < 10000000000000" by simp
  ultimately show "purchaseRowError sampleStored (dateOfIsoDay ''2026-02-14'') None = None"
    using d unfolding sampleStored_def importedRow_def amounts_as_cents [OF sampleWhole]
    by (simp add: purchaseRowError_def centsAmounts_def fitsInt_def samplePurchase_def cents_fits cents_range_def)
qed

lemma sample_import:
  "\<exists>w'. importPurchases samplePorts '''' ''issuer'' sampleFile emptyWorld =
    (Inr (summarize [classify [] samplePurchase] []), w')"
proof -
  have db: "database samplePorts (outside emptyWorld) = (None, outside emptyWorld)"
    by (simp add: samplePorts_def emptyWorld_def sampleWorld_def)
  then have reach: "external (reachDatabase samplePorts) emptyWorld = (Inr (), emptyWorld)"
    by (simp add: external_def reachDatabase_def)
  have keys: "findExistingKeys samplePorts ''issuer'' [samplePurchase] emptyWorld = (Inr [], emptyWorld)"
    by (simp add: findExistingKeys_def table_def bindA_def reach getA_def) (simp add: emptyWorld_def)
  have day: "pp_issueDate samplePurchase = ''2026-02-14''" by (simp add: samplePurchase_def)
  have "\<exists>x w'. insertPurchase samplePorts (dateOfIsoDay ''2026-02-14'') None sampleStored emptyWorld = (Inr x, w')"
    unfolding insertPurchase_def table_def
    by (simp add: bindA_def reach sampleStored_fits newId_def putA_def returnA_def Let_def)
  then have "\<exists>w'. importRow samplePorts ''issuer'' (samplePurchase, classify [] samplePurchase) emptyWorld = (Inr (), w')"
    using sample_importable
    by (auto simp: importRow_def importable_def cr_ivaRate_classify bindA_def returnA_def day simp flip: sampleStored_def)
  then show ?thesis
    by (auto simp: importPurchases_def parseFile_def sampleFile_parsed bindA_def returnA_def keys Let_def)
qed

lemma import_creates_witness:
  "\<exists>w' r. importPurchases samplePorts '''' ''issuer'' sampleFile emptyWorld =
      (Inr (summarize [classify [] samplePurchase] []), w') \<and>
    purchaseInvoices w' = [r] \<and> storedFor ''issuer'' samplePurchase r"
proof -
  obtain w' where w': "importPurchases samplePorts '''' ''issuer'' sampleFile emptyWorld =
      (Inr (summarize [classify [] samplePurchase] []), w')" using sample_import by blast
  from import_creates [OF w'] obtain new where "purchaseInvoices w' = purchaseInvoices emptyWorld @ new"
      "list_all2 (storedFor ''issuer'') [samplePurchase] new"
    using sample_importable(1) by (auto simp: sampleFile_parsed summarize_def importable_def)
  then show ?thesis using w' by (cases new) (auto simp: emptyWorld_def)
qed

text \<open>The sample file over a table from which nothing of it can be imported.\<close>

lemma sample_nothing:
  assumes "\<not> importable (keysOf ''issuer'' [samplePurchase] rows) samplePurchase"
  shows "\<exists>shown. importPurchases samplePorts '''' ''issuer'' sampleFile (emptyWorld\<lparr>purchaseInvoices := rows\<rparr>) =
    (Inr shown, emptyWorld\<lparr>purchaseInvoices := rows\<rparr>)"
proof -
  let ?w = "emptyWorld\<lparr>purchaseInvoices := rows\<rparr>" and ?keys = "keysOf ''issuer'' [samplePurchase] rows"
  have reach: "external (reachDatabase samplePorts) ?w = (Inr (), ?w)"
    by (simp add: external_def reachDatabase_def samplePorts_def emptyWorld_def sampleWorld_def)
  have keys: "findExistingKeys samplePorts ''issuer'' [samplePurchase] ?w = (Inr ?keys, ?w)"
    by (simp add: findExistingKeys_def table_def bindA_def reach getA_def keysOf_def)
  have "importRow samplePorts ''issuer'' (samplePurchase, classify ?keys samplePurchase) ?w = (Inr (), ?w)"
    using assms by (simp add: importRow_def importable_def returnA_def)
  then show ?thesis by (simp add: importPurchases_def parseFile_def sampleFile_parsed bindA_def returnA_def keys Let_def)
qed

lemma import_twice_witness:
  "\<exists>(w1 :: arca world) again w3. purchaseInvoices w1 \<noteq> [] \<and>
    importPurchases samplePorts '''' ''issuer'' sampleFile (emptyWorld\<lparr>purchaseInvoices := purchaseInvoices w1\<rparr>) = (Inr again, w3) \<and>
    purchaseInvoices w3 = purchaseInvoices w1 \<and> is_importable (prev_summary again) = 0"
proof -
  obtain w1 where w1: "importPurchases samplePorts '''' ''issuer'' sampleFile emptyWorld =
      (Inr (summarize [classify [] samplePurchase] []), w1)" using sample_import by blast
  have e: "keysOf ''issuer'' [samplePurchase] (purchaseInvoices emptyWorld) = []" by (simp add: keysOf_def emptyWorld_def)
  from w1 obtain new where new: "purchaseInvoices w1 = purchaseInvoices emptyWorld @ new"
      "list_all2 (storedFor ''issuer'') (filter (importable []) [samplePurchase]) new"
    by (rule import_Inr) (auto simp: sampleFile_parsed e)
  have "\<not> importable (keysOf ''issuer'' [samplePurchase] (purchaseInvoices w1)) samplePurchase"
    using second_not_importable [of "''issuer''" "[samplePurchase]" "purchaseInvoices emptyWorld" new "purchaseInvoices w1" samplePurchase]
      new by (simp add: e)
  from sample_nothing [OF this] obtain again where again:
      "importPurchases samplePorts '''' ''issuer'' sampleFile (emptyWorld\<lparr>purchaseInvoices := purchaseInvoices w1\<rparr>) =
        (Inr again, emptyWorld\<lparr>purchaseInvoices := purchaseInvoices w1\<rparr>)" by blast
  have "purchaseInvoices w1 \<noteq> []" using new(2) sample_importable(1) by (cases new) (auto simp: new(1))
  moreover have "is_importable (prev_summary again) = 0" using import_twice [OF w1 _ again] by simp
  ultimately show ?thesis using again
    by (intro exI [of _ w1] exI [of _ again] exI [of _ "emptyWorld\<lparr>purchaseInvoices := purchaseInvoices w1\<rparr>"]) simp
qed

lemma preview_announces_import_witness:
  "\<exists>w1. previewImport samplePorts '''' ''issuer'' sampleFile emptyWorld =
    (Inr (summarize [classify [] samplePurchase] []), w1) \<and> w1 = emptyWorld\<lparr>outside := outside w1\<rparr>"
proof -
  obtain w3 where w3: "importPurchases samplePorts '''' ''issuer'' sampleFile emptyWorld =
      (Inr (summarize [classify [] samplePurchase] []), w3)" using sample_import by blast
  have "\<exists>shown w1. previewImport samplePorts '''' ''issuer'' sampleFile emptyWorld = (Inr shown, w1)"
    by (simp add: previewImport_def parseFile_def sampleFile_parsed bindA_def returnA_def findExistingKeys_def
        table_def external_def reachDatabase_def getA_def samplePorts_def emptyWorld_def sampleWorld_def)
  then obtain shown w1 where "previewImport samplePorts '''' ''issuer'' sampleFile emptyWorld = (Inr shown, w1)" by blast
  from preview_announces_import [OF this refl w3] this show ?thesis by auto
qed

end
