(* ===== verification/ArcaXml.thy ===== *)
theory ArcaXml
  imports World
begin

text \<open>
  Reading the answers of ARCA: the values that the XML parser gives (\<open>arca/arca-xml.ts\<close>)
  and the class \<open>ParsedXml\<close> of \<open>arca/arca-soap.util.ts\<close>. The parser itself,
  \<open>fast-xml-parser\<close>, is not under \<open>src/\<close>: it is the function \<open>parser\<close> of a
  record of ports, of which nothing is assumed.
\<close>

datatype xml =
    XText string
  | XNumber number
  | XBool bool
  | XList "xml list"
  | XRecord "(string \<times> xml) list"

definition isXmlRecord :: "xml \<Rightarrow> bool" where
  "isXmlRecord v = (case v of XList _ \<Rightarrow> True | XRecord _ \<Rightarrow> True | _ \<Rightarrow> False)"

definition PLAIN_OBJECT_TEXT :: string where
  "PLAIN_OBJECT_TEXT = ''[object Object]''"

fun xmlText :: "xml \<Rightarrow> string" where
  "xmlText (XText s) = s"
| "xmlText (XNumber n) = numberToString n"
| "xmlText (XBool b) = (if b then ''true'' else ''false'')"
| "xmlText (XList xs) = joinWith '','' (map xmlText xs)"
| "xmlText (XRecord fs) = PLAIN_OBJECT_TEXT"

text \<open>A value that is not there is \<open>None\<close>; its text is empty.\<close>

definition textOfValue :: "xml option \<Rightarrow> string" where
  "textOfValue v = (case v of None \<Rightarrow> '''' | Some x \<Rightarrow> xmlText x)"

definition asList :: "xml \<Rightarrow> xml list" where
  "asList v = (case v of XList xs \<Rightarrow> xs | _ \<Rightarrow> [v])"

definition fieldOf :: "string \<Rightarrow> xml \<Rightarrow> xml option" where
  "fieldOf k v = (case v of XRecord fs \<Rightarrow> map_of fs k | _ \<Rightarrow> None)"

text \<open>\<open>Number(value)\<close>; \<open>None\<close> is NaN.\<close>

definition numberOfValue :: "xml option \<Rightarrow> number option" where
  "numberOfValue v = (case v of
      None \<Rightarrow> None
    | Some (XNumber n) \<Rightarrow> Some n
    | Some (XBool b) \<Rightarrow> Some (if b then 1 else 0)
    | Some x \<Rightarrow> js_Number (xmlText x))"

subsection \<open>Searching by tag\<close>

text \<open>A tag is a name of XML: it is never an index of an array.\<close>

fun findByTag :: "string \<Rightarrow> xml \<Rightarrow> xml option"
  and findInValues :: "string \<Rightarrow> xml list \<Rightarrow> xml option"
  and findInFields :: "string \<Rightarrow> (string \<times> xml) list \<Rightarrow> xml option" where
  "findByTag tag (XRecord fs) = (case map_of fs tag of Some v \<Rightarrow> Some v | None \<Rightarrow> findInFields tag fs)"
| "findByTag tag (XList xs) = findInValues tag xs"
| "findByTag tag (XText s) = None"
| "findByTag tag (XNumber n) = None"
| "findByTag tag (XBool b) = None"
| "findInValues tag [] = None"
| "findInValues tag (x # xs) = (case findByTag tag x of Some v \<Rightarrow> Some v | None \<Rightarrow> findInValues tag xs)"
| "findInFields tag [] = None"
| "findInFields tag ((k, x) # fs) = (case findByTag tag x of Some v \<Rightarrow> Some v | None \<Rightarrow> findInFields tag fs)"

fun collectRecordsByTag :: "string \<Rightarrow> xml \<Rightarrow> xml list"
  and collectInValues :: "string \<Rightarrow> xml list \<Rightarrow> xml list"
  and collectInFields :: "string \<Rightarrow> (string \<times> xml) list \<Rightarrow> xml list" where
  "collectRecordsByTag tag (XRecord fs) = collectInFields tag fs"
| "collectRecordsByTag tag (XList xs) = collectInValues tag xs"
| "collectRecordsByTag tag (XText s) = []"
| "collectRecordsByTag tag (XNumber n) = []"
| "collectRecordsByTag tag (XBool b) = []"
| "collectInValues tag [] = []"
| "collectInValues tag (x # xs) = collectRecordsByTag tag x @ collectInValues tag xs"
| "collectInFields tag [] = []"
| "collectInFields tag ((k, x) # fs) =
     (if k = tag then filter isXmlRecord (asList x) else collectRecordsByTag tag x) @ collectInFields tag fs"

subsection \<open>Documents\<close>

definition parseXml :: "(string \<Rightarrow> xml) \<Rightarrow> string \<Rightarrow> xml" where
  "parseXml parser text = (let parsed = parser text in if isXmlRecord parsed then parsed else XRecord [])"

definition tagRequired :: "xml \<Rightarrow> string \<Rightarrow> app_error + string" where
  "tagRequired doc tag = (case findByTag tag doc of
      None \<Rightarrow> Inl (InternalServerError (''Respuesta de ARCA sin el campo esperado <'' @ tag @ ''>.''))
    | Some v \<Rightarrow> Inr (xmlText v))"

definition tagOptional :: "xml \<Rightarrow> string \<Rightarrow> string \<Rightarrow> string" where
  "tagOptional doc tag fallback = (case findByTag tag doc of None \<Rightarrow> fallback | Some v \<Rightarrow> xmlText v)"

definition codedEntry :: "xml option \<Rightarrow> ArcaObservation list" where
  "codedEntry v = (case v of
      None \<Rightarrow> []
    | Some x \<Rightarrow> if \<not> isXmlRecord x then []
        else (let message = textOfValue (fieldOf ''Msg'' x) in
          if message = '''' then [] else [\<lparr>obs_code = textOfValue (fieldOf ''Code'' x), obs_message = message\<rparr>]))"

definition codedEntries :: "xml \<Rightarrow> string \<Rightarrow> string \<Rightarrow> ArcaObservation list" where
  "codedEntries doc rootTag itemTag = (case findByTag rootTag doc of
      None \<Rightarrow> []
    | Some node \<Rightarrow> if \<not> isXmlRecord node then []
        else (case fieldOf itemTag node of
            None \<Rightarrow> []
          | Some x \<Rightarrow> concat (map (codedEntry \<circ> Some) (asList x))))"

definition errorEntries :: "xml \<Rightarrow> ArcaObservation list" where
  "errorEntries doc = codedEntries doc ''Errors'' ''Err''"

definition observationsOf :: "xml \<Rightarrow> ArcaObservation list" where
  "observationsOf doc = codedEntries doc ''Observaciones'' ''Obs''"

definition describeEntry :: "ArcaObservation \<Rightarrow> string" where
  "describeEntry e = (if obs_code e = '''' then obs_message e else ''('' @ obs_code e @ '') '' @ obs_message e)"

definition arcaErrors :: "xml \<Rightarrow> string list" where
  "arcaErrors doc = map describeEntry (errorEntries doc)"

definition arcaErrorCodes :: "xml \<Rightarrow> string list" where
  "arcaErrorCodes doc = filter (\<lambda>code. code \<noteq> '''') (map obs_code (errorEntries doc))"

definition assertNoArcaErrors :: "xml \<Rightarrow> app_error + unit" where
  "assertNoArcaErrors doc =
     (let errors = arcaErrors doc in
      if errors \<noteq> [] then Inl (arcaRejectionError (arcaErrorCodes doc) errors) else Inr ())"

end
