(* ===== verification/ArcaCalls.thy ===== *)
theory ArcaCalls
  imports ArcaXml
begin

text \<open>
  Calling ARCA: \<open>callSoap\<close> and \<open>buildAuthBlock\<close> of \<open>arca/arca-soap.util.ts\<close>, the
  redaction of what is logged (\<open>arca/arca-call-redaction.ts\<close>) and the log of the calls
  (\<open>arca/arca-call-log.service.ts\<close>). The log is a table beside the state of the outside; the
  functions here have the type of the operations of \<open>ports\<close>.
\<close>

subsection \<open>Redaction\<close>

definition startsWith :: "string \<Rightarrow> string \<Rightarrow> bool" where
  "startsWith p s = (take (length p) s = p)"

definition isWordChar :: "char \<Rightarrow> bool" where
  "isWordChar c = (let n = of_char c :: nat in
     48 \<le> n \<and> n \<le> 57 \<or> 65 \<le> n \<and> n \<le> 90 \<or> n = 95 \<or> 97 \<le> n \<and> n \<le> 122)"

definition secretTags :: "string list" where
  "secretTags = [''Token'', ''Sign'', ''token'', ''sign'', ''in0'', ''loginCmsReturn'']"

text \<open>
  A tag after its opening bracket: an optional prefix of word characters and a colon, one of the
  names, and the closing bracket. The tag and what follows it.
\<close>

definition secretName :: "string \<Rightarrow> (string \<times> string) option" where
  "secretName s = (let name = takeWhile isWordChar s; rest = dropWhile isWordChar s in
     if name \<in> set secretTags \<and> rest \<noteq> [] \<and> hd rest = CHR ''>'' then Some (name @ ''>'', tl rest) else None)"

definition afterBracket :: "string \<Rightarrow> (string \<times> string) option" where
  "afterBracket s = (let prefix = takeWhile isWordChar s; rest = dropWhile isWordChar s in
     if prefix \<noteq> [] \<and> rest \<noteq> [] \<and> hd rest = CHR '':''
     then map_option (\<lambda>(tag, r). (prefix @ CHR '':'' # tag, r)) (secretName (tl rest))
     else secretName s)"

definition openTag :: "string \<Rightarrow> (string \<times> string) option" where
  "openTag s = (if startsWith ''<'' s then map_option (\<lambda>(tag, r). (CHR ''<'' # tag, r)) (afterBracket (drop 1 s)) else None)"

definition closeTag :: "string \<Rightarrow> (string \<times> string) option" where
  "closeTag s = (if startsWith ''</'' s then map_option (\<lambda>(tag, r). (''</'' @ tag, r)) (afterBracket (drop 2 s)) else None)"

text \<open>The first closing tag, and what follows it.\<close>

fun upToClose :: "string \<Rightarrow> (string \<times> string) option" where
  "upToClose [] = None"
| "upToClose (c # s) = (case closeTag (c # s) of Some tr \<Rightarrow> Some tr | None \<Rightarrow> upToClose s)"

lemma secretName_length: "secretName s = Some (t, r) \<Longrightarrow> length r < length s"
proof -
  assume s: "secretName s = Some (t, r)"
  then have "dropWhile isWordChar s \<noteq> []" "r = tl (dropWhile isWordChar s)"
    by (auto simp: secretName_def Let_def split: if_splits)
  then show ?thesis using length_dropWhile_le [of isWordChar s] by (cases "dropWhile isWordChar s") auto
qed

lemma afterBracket_length: "afterBracket s = Some (t, r) \<Longrightarrow> length r < length s"
proof -
  assume s: "afterBracket s = Some (t, r)"
  show ?thesis
  proof (cases "secretName s = Some (t, r)")
    case True
    then show ?thesis by (rule secretName_length)
  next
    case False
    then obtain tag where tag: "dropWhile isWordChar s \<noteq> []" "secretName (tl (dropWhile isWordChar s)) = Some (tag, r)"
      using s by (auto simp: afterBracket_def Let_def split: if_splits)
    then show ?thesis using secretName_length [OF tag(2)] length_dropWhile_le [of isWordChar s] by simp
  qed
qed

lemma openTag_length: "openTag s = Some (t, r) \<Longrightarrow> length r < length s"
  using afterBracket_length [of "drop 1 s"] by (auto simp: openTag_def split: if_splits)

lemma upToClose_length: "upToClose s = Some (t, r) \<Longrightarrow> length r < length s"
proof (induction s)
  case (Cons c s)
  show ?case
  proof (cases "closeTag (c # s)")
    case (Some tr)
    then have "closeTag (c # s) = Some (t, r)" using Cons.prems by simp
    then obtain tag where "afterBracket (drop 1 s) = Some (tag, r)" by (auto simp: closeTag_def split: if_splits)
    from afterBracket_length [OF this] show ?thesis by simp
  qed (use Cons in auto)
qed simp

definition REDACTED :: string where
  "REDACTED = ''[REDACTADO]''"

function redactArcaXml :: "string \<Rightarrow> string" where
  "redactArcaXml s = (case s of [] \<Rightarrow> []
    | c # u \<Rightarrow> (case openTag s of
        None \<Rightarrow> c # redactArcaXml u
      | Some (opening, r) \<Rightarrow> (case upToClose r of
          None \<Rightarrow> c # redactArcaXml u
        | Some (closing, rest) \<Rightarrow> opening @ REDACTED @ closing @ redactArcaXml rest)))"
  by pat_completeness auto
termination
  by (relation "measure length") (auto dest!: openTag_length upToClose_length)

declare redactArcaXml.simps [simp del]

text \<open>The ellipsis is the argument \<open>dots\<close>: it is outside Latin-1.\<close>

definition truncateXml :: "string \<Rightarrow> string \<Rightarrow> nat \<Rightarrow> string" where
  "truncateXml dots text limit =
     (if length text \<le> limit then text
      else take limit text @ dots @ '' [truncado, '' @ intToString (int (length text)) @ '' caracteres]'')"

subsection \<open>The log\<close>

datatype ArcaCallOutcome = SUCCESS | REJECTED_CALL | FAULT | NETWORK_ERROR

record ArcaCallLogEntry =
  call_issuerId :: "string option"
  call_service :: string
  call_operation :: string
  call_httpStatus :: int
  call_durationMs :: int
  call_outcome :: ArcaCallOutcome
  call_errorCodes :: "string list option"
  call_requestXml :: string
  call_responseXml :: string

record ArcaCallRow =
  log_id :: string
  log_issuerId :: "string option"
  log_service :: string
  log_operation :: string
  log_httpStatus :: int
  log_durationMs :: int
  log_outcome :: ArcaCallOutcome
  log_errorCodes :: "string option"
  log_requestXml :: string
  log_responseXml :: string
  log_createdAt :: date

definition MAX_XML_LENGTH :: nat where
  "MAX_XML_LENGTH = 20000"

definition DEFAULT_PAGE_SIZE :: nat where
  "DEFAULT_PAGE_SIZE = 50"

definition MAX_PAGE_SIZE :: nat where
  "MAX_PAGE_SIZE = 200"

definition DEFAULT_RETENTION_DAYS :: int where
  "DEFAULT_RETENTION_DAYS = 30"

text \<open>
  What a reply of \<open>fetch\<close> is: a failure before an answer, an answer with its status and
  text, or an answer whose text could not be read. The wire also has the clock, whether the
  database takes a row of the log, the identifiers, the parser of XML and the configuration.
\<close>

datatype fetch_reply = FetchFailed string | Answer int string | BodyLost string

record 's arca_net =
  net :: 's
  arcaCalls :: "ArcaCallRow list"
  nextCall :: nat

record 's wire =
  fetch :: "string \<Rightarrow> string \<Rightarrow> string \<Rightarrow> 's \<Rightarrow> fetch_reply \<times> 's"
  wire_clock :: "'s \<Rightarrow> date \<times> 's"
  logTakes :: "'s \<Rightarrow> bool \<times> 's"
  callId :: "nat \<Rightarrow> string"
  xmlParser :: "string \<Rightarrow> xml"
  wire_timeZone :: int
  ellipsis :: string
  configured :: "string \<Rightarrow> string option"

type_synonym ('s, 'b) call = "('s arca_net, 'b) action"

definition onNet :: "('s \<Rightarrow> 'b \<times> 's) \<Rightarrow> ('s, 'b) call" where
  "onNet f w = (case f (net w) of (x, s) \<Rightarrow> (Inr x, w\<lparr>net := s\<rparr>))"

definition joinErrorCodes :: "string list option \<Rightarrow> string option" where
  "joinErrorCodes codes = (case codes of None \<Rightarrow> None | Some cs \<Rightarrow> if cs \<noteq> [] then Some (joinWith '','' cs) else None)"

definition sanitize :: "'s wire \<Rightarrow> string \<Rightarrow> string" where
  "sanitize p text = truncateXml (ellipsis p) (redactArcaXml text) MAX_XML_LENGTH"

text \<open>The row created for an entry; a failure of the database is only written to the console.\<close>

definition loggedRow :: "'s wire \<Rightarrow> ArcaCallLogEntry \<Rightarrow> string \<Rightarrow> date \<Rightarrow> ArcaCallRow" where
  "loggedRow p entry newRow createdAt =
     \<lparr>log_id = newRow, log_issuerId = call_issuerId entry, log_service = call_service entry,
      log_operation = call_operation entry, log_httpStatus = call_httpStatus entry,
      log_durationMs = call_durationMs entry, log_outcome = call_outcome entry,
      log_errorCodes = joinErrorCodes (call_errorCodes entry), log_requestXml = sanitize p (call_requestXml entry),
      log_responseXml = sanitize p (call_responseXml entry), log_createdAt = createdAt\<rparr>"

definition recordCall :: "'s wire \<Rightarrow> ArcaCallLogEntry \<Rightarrow> ('s, unit) call" where
  "recordCall p entry =
     bindA (onNet (logTakes p)) (\<lambda>taken.
       if \<not> taken then returnA ()
       else bindA (onNet (wire_clock p)) (\<lambda>t.
         putA (\<lambda>w. w\<lparr>arcaCalls := arcaCalls w @ [loggedRow p entry (callId p (nextCall w)) t],
           nextCall := Suc (nextCall w)\<rparr>)))"

record ArcaCallQuery =
  query_operation :: "string option"
  query_outcome :: "ArcaCallOutcome option"
  query_limit :: "nat option"

definition callFilters :: "ArcaCallQuery \<Rightarrow> ArcaCallRow \<Rightarrow> bool" where
  "callFilters q r =
     ((case query_operation q of None \<Rightarrow> True | Some t \<Rightarrow> log_operation r = t) \<and>
      (case query_outcome q of None \<Rightarrow> True | Some t \<Rightarrow> log_outcome r = t))"

text \<open>The limit is a natural number: what Prisma does with others is not modelled.\<close>

definition listCallsForIssuer :: "string \<Rightarrow> ArcaCallQuery \<Rightarrow> ('s, ArcaCallRow list) call" where
  "listCallsForIssuer i q = getA (\<lambda>w.
     take (min (orElse (query_limit q) DEFAULT_PAGE_SIZE) MAX_PAGE_SIZE)
       (sort_key (\<lambda>r. - log_createdAt r) (filter (\<lambda>r. log_issuerId r = Some i \<and> callFilters q r) (arcaCalls w))))"

definition getCallForIssuer :: "string \<Rightarrow> string \<Rightarrow> ('s, ArcaCallRow) call" where
  "getCallForIssuer i k =
     bindA (getA (\<lambda>w. findRow (\<lambda>r. log_id r = k \<and> log_issuerId r = Some i) (arcaCalls w))) (\<lambda>found.
       case found of None \<Rightarrow> throwA (NotFound ''Llamada a ARCA inexistente.'') | Some r \<Rightarrow> returnA r)"

definition purgeExpired :: "'s wire \<Rightarrow> ('s, nat) call" where
  "purgeExpired p =
     (let retentionDays = (case configured p ''ARCA_CALL_LOG_RETENTION_DAYS'' of
            None \<Rightarrow> Some (of_int DEFAULT_RETENTION_DAYS) | Some t \<Rightarrow> js_Number t) in
      bindA (onNet (wire_clock p)) (\<lambda>t.
        case retentionDays of
          None \<Rightarrow> throwA (OtherError ''PrismaClientValidationError'')
        | Some days \<Rightarrow>
            (let cutoff = truncNumber (js_sub (of_int t) (js_mul days (of_int msPerDay))) in
             bindA (getA (\<lambda>w. length (filter (\<lambda>r. log_createdAt r < cutoff) (arcaCalls w)))) (\<lambda>count.
             bindA (putA (\<lambda>w. w\<lparr>arcaCalls := filter (\<lambda>r. \<not> log_createdAt r < cutoff) (arcaCalls w)\<rparr>)) (\<lambda>_.
             returnA count)))))"

subsection \<open>The call\<close>

definition buildAuthBlock :: "string \<Rightarrow> string \<Rightarrow> string \<Rightarrow> string" where
  "buildAuthBlock cuit token sign = element ''Auth''
     (element ''Token'' (escapeXml (Some token)) @ element ''Sign'' (escapeXml (Some sign)) @ element ''Cuit'' cuit)"

text \<open>The text after the first occurrence of a mark, and the text before it.\<close>

fun cutAt :: "string \<Rightarrow> string \<Rightarrow> (string \<times> string) option" where
  "cutAt mark [] = (if mark = [] then Some ([], []) else None)"
| "cutAt mark (c # s) =
     (if startsWith mark (c # s) then Some ([], drop (length mark) (c # s))
      else map_option (\<lambda>(before, after). (c # before, after)) (cutAt mark s))"

definition blockBetween :: "string \<Rightarrow> string \<Rightarrow> string \<Rightarrow> string option" where
  "blockBetween opening closing s =
     Option.bind (cutAt opening s) (\<lambda>(_, r). map_option fst (cutAt closing r))"

text \<open>The matches of \<open>/<Code>(\d+)<\/Code>/g\<close>, from left to right.\<close>

fun codeMatches :: "nat \<Rightarrow> string \<Rightarrow> string list" where
  "codeMatches 0 s = []"
| "codeMatches (Suc n) s =
     (case s of [] \<Rightarrow> []
      | c # u \<Rightarrow>
          (let r = drop 6 s; digits = takeWhile isDigit r; rest = dropWhile isDigit r in
           if startsWith ''<Code>'' s \<and> digits \<noteq> [] \<and> startsWith ''</Code>'' rest
           then digits # codeMatches n (drop 7 rest) else codeMatches n u))"

definition responseErrorCodes :: "string \<Rightarrow> string list" where
  "responseErrorCodes text = (case blockBetween ''<Errors>'' ''</Errors>'' text of
      None \<Rightarrow> [] | Some block \<Rightarrow> codeMatches (length block) block)"

definition responseOk :: "int \<Rightarrow> bool" where
  "responseOk status = (200 \<le> status \<and> status \<le> 299)"

text \<open>The closure \<open>record\<close> of the call, with what it captures as its first arguments.\<close>

definition recordOutcome ::
  "'s wire \<Rightarrow> string option \<Rightarrow> string \<Rightarrow> string \<Rightarrow> string \<Rightarrow> date \<Rightarrow>
     ArcaCallOutcome \<Rightarrow> int \<Rightarrow> string \<Rightarrow> string list option \<Rightarrow> ('s, unit) call" where
  "recordOutcome p i service soapAction envelope startedAt outcome httpStatus responseXml errorCodes =
     bindA (onNet (wire_clock p)) (\<lambda>t.
       recordCall p \<lparr>call_issuerId = i, call_service = service, call_operation = soapAction,
         call_httpStatus = httpStatus, call_durationMs = t - startedAt, call_outcome = outcome,
         call_errorCodes = errorCodes, call_requestXml = envelope, call_responseXml = responseXml\<rparr>)"

definition callSoap ::
  "'s wire \<Rightarrow> string option \<Rightarrow> string \<Rightarrow> string \<Rightarrow> string \<Rightarrow> string \<Rightarrow> ('s, string) call" where
  "callSoap p i service url soapAction envelope =
     bindA (onNet (wire_clock p)) (\<lambda>startedAt.
       (let note = recordOutcome p i service soapAction envelope startedAt in
        bindA (onNet (fetch p url soapAction envelope)) (\<lambda>reply.
          case reply of
            FetchFailed message \<Rightarrow>
              bindA (note NETWORK_ERROR 0 message None) (\<lambda>_. throwA (OtherError message))
          | BodyLost message \<Rightarrow> throwA (OtherError message)
          | Answer status text \<Rightarrow>
              if \<not> responseOk status then
                bindA (note FAULT status text None) (\<lambda>_. throwA (ArcaSoapFault soapAction status text))
              else (let errorCodes = responseErrorCodes text in
                bindA (note (if errorCodes \<noteq> [] then REJECTED_CALL else SUCCESS) status text (Some errorCodes))
                  (\<lambda>_. returnA text)))))"

end
