(* ===== verification/WsfeService.thy ===== *)
theory WsfeService
  imports ArcaCalls
begin

text \<open>
  The client of ARCA's service of electronic invoices, \<open>arca/wsfe/wsfe.service.ts\<close>. Each
  operation has the type of an operation of \<open>ports\<close>, over the state of the network and the
  log of the calls. A number that a text does not have is \<open>None\<close> (NaN).
\<close>

definition WSFEV1_NS :: string where
  "WSFEV1_NS = ''http://ar.gov.afip.dif.FEV1/''"

definition WSFE_SERVICE :: string where
  "WSFE_SERVICE = ''wsfe''"

definition PRODUCTION_ENVIRONMENT :: string where
  "PRODUCTION_ENVIRONMENT = ''produccion''"

definition isProduction :: "string \<Rightarrow> bool" where
  "isProduction environment = (environment = PRODUCTION_ENVIRONMENT)"

definition NULL_DATE_MARKERS :: "string list" where
  "NULL_DATE_MARKERS = [[], ''NULL'']"

definition upperAscii :: "char \<Rightarrow> char" where
  "upperAscii c = (let n = of_char c :: nat in if 97 \<le> n \<and> n \<le> 122 then char_of (n - 32) else c)"

text \<open>\<open>toUpperCase\<close>, compared with words of capital letters: only the letters a to z count.\<close>

definition emitsCae :: "string \<Rightarrow> bool" where
  "emitsCae emissionType = (map upperAscii (trim (hd (splitOn (CHR ''-'') emissionType))) = ''CAE'')"

definition isNullDate :: "xml option \<Rightarrow> bool" where
  "isNullDate v = (map upperAscii (trim (textOfValue v)) \<in> set NULL_DATE_MARKERS)"

definition isActiveParam :: "xml \<Rightarrow> bool" where
  "isActiveParam node = isNullDate (fieldOf ''FchHasta'' node)"

definition isActiveCaePoint :: "xml \<Rightarrow> bool" where
  "isActiveCaePoint node =
     (let blocked = (textOfValue (fieldOf ''Bloqueado'' node) = ''S'') in
      \<not> blocked \<and> isNullDate (fieldOf ''FchBaja'' node) \<and> emitsCae (textOfValue (fieldOf ''EmisionTipo'' node)))"

subsection \<open>Envelopes and calls\<close>

definition wsfeUrl :: "'s wire \<Rightarrow> string \<Rightarrow> string" where
  "wsfeUrl p environment =
     (if isProduction environment
      then orElse (configured p ''ARCA_WSFEV1_URL_PROD'') ''https://servicios1.afip.gov.ar/wsfev1/service.asmx''
      else orElse (configured p ''ARCA_WSFEV1_URL_HOMO'') ''https://wswhomo.afip.gov.ar/wsfev1/service.asmx'')"

definition soapEnvelope :: "string \<Rightarrow> string \<Rightarrow> string" where
  "soapEnvelope ns body =
     ''<soapenv:Envelope xmlns:soapenv='' @ CHR 0x22 # ''http://schemas.xmlsoap.org/soap/envelope/'' @ CHR 0x22 #
     '' xmlns:ar='' @ CHR 0x22 # ns @ CHR 0x22 # ''>'' @ ''<soapenv:Body>'' @ body @ ''</soapenv:Body>'' @ ''</soapenv:Envelope>''"

definition wsfeEnvelope :: "string \<Rightarrow> string" where
  "wsfeEnvelope body = soapEnvelope WSFEV1_NS body"

text \<open>The body of an operation: its name around the credentials and its arguments.\<close>

definition authorizedBody :: "string \<Rightarrow> AuthContext \<Rightarrow> string \<Rightarrow> string" where
  "authorizedBody operation auth args =
     element operation (buildAuthBlock (auth_cuit auth) (auth_token auth) (auth_sign auth) @ args)"

definition callWsfe :: "'s wire \<Rightarrow> AuthContext \<Rightarrow> string \<Rightarrow> string \<Rightarrow> ('s, xml) call" where
  "callWsfe p auth operation args =
     bindA (callSoap p (Some (auth_issuerId auth)) WSFE_SERVICE (wsfeUrl p (auth_environment auth)) (WSFEV1_NS @ operation)
       (wsfeEnvelope (authorizedBody operation auth args)))
     (\<lambda>res. returnA (parseXml (xmlParser p) res))"

definition liftS :: "app_error + 'b \<Rightarrow> ('w, 'b) action" where
  "liftS r w = (r, w)"

record ArcaServerStatus =
  appServer :: bool
  dbServer :: bool
  authServer :: bool

definition checkServers :: "'s wire \<Rightarrow> string \<Rightarrow> ('s, ArcaServerStatus) call" where
  "checkServers p environment =
     bindA (callSoap p None WSFE_SERVICE (wsfeUrl p environment) (WSFEV1_NS @ ''FEDummy'') (wsfeEnvelope ''<ar:FEDummy/>''))
       (\<lambda>res. (let doc = parseXml (xmlParser p) res; isUp = (\<lambda>tag. tagOptional doc tag '''' = ''OK'') in
         returnA \<lparr>appServer = isUp ''AppServer'', dbServer = isUp ''DbServer'', authServer = isUp ''AuthServer''\<rparr>))"

subsection \<open>Numbering and tables\<close>

definition wsfeLastAuthorized :: "'s wire \<Rightarrow> AuthContext \<Rightarrow> int \<Rightarrow> int \<Rightarrow> ('s, number option) call" where
  "wsfeLastAuthorized p auth sp vt =
     bindA (callWsfe p auth ''FECompUltimoAutorizado''
       (element ''PtoVta'' (intToString sp) @ element ''CbteTipo'' (intToString vt))) (\<lambda>doc.
     bindA (liftS (assertNoArcaErrors doc)) (\<lambda>_.
     bindA (liftS (tagRequired doc ''CbteNro'')) (\<lambda>text. returnA (js_Number text))))"

record SalesPointInfo =
  spi_number :: "number option"
  spi_emissionType :: string

definition getArcaSalesPoints :: "'s wire \<Rightarrow> AuthContext \<Rightarrow> ('s, SalesPointInfo list) call" where
  "getArcaSalesPoints p auth =
     bindA (callWsfe p auth ''FEParamGetPtosVenta'' '''') (\<lambda>doc.
     returnA (map (\<lambda>node. \<lparr>spi_number = numberOfValue (fieldOf ''Nro'' node),
         spi_emissionType = textOfValue (fieldOf ''EmisionTipo'' node)\<rparr>)
       (filter isActiveCaePoint (collectRecordsByTag ''PtoVenta'' doc @ collectRecordsByTag ''PtoVta'' doc))))"

record ArcaParamEntry =
  param_id :: number
  param_description :: string

text \<open>The entries whose identifier is a number.\<close>

definition paramEntries :: "string \<Rightarrow> string \<Rightarrow> xml list \<Rightarrow> ArcaParamEntry list" where
  "paramEntries idField descriptionField nodes =
     List.map_filter (\<lambda>node. map_option (\<lambda>n. \<lparr>param_id = n,
       param_description = textOfValue (fieldOf descriptionField node)\<rparr>) (numberOfValue (fieldOf idField node))) nodes"

definition getParamTable :: "'s wire \<Rightarrow> AuthContext \<Rightarrow> string \<Rightarrow> string \<Rightarrow> ('s, ArcaParamEntry list) call" where
  "getParamTable p auth operation tag =
     bindA (callWsfe p auth operation '''') (\<lambda>doc.
     returnA (paramEntries ''Id'' ''Desc'' (filter isActiveParam (collectRecordsByTag tag doc))))"

definition getDocumentTypes :: "'s wire \<Rightarrow> AuthContext \<Rightarrow> ('s, ArcaParamEntry list) call" where
  "getDocumentTypes p auth = getParamTable p auth ''FEParamGetTiposDoc'' ''DocTipo''"

definition getIvaRates :: "'s wire \<Rightarrow> AuthContext \<Rightarrow> ('s, ArcaParamEntry list) call" where
  "getIvaRates p auth = getParamTable p auth ''FEParamGetTiposIva'' ''IvaTipo''"

definition getTributeTypes :: "'s wire \<Rightarrow> AuthContext \<Rightarrow> ('s, ArcaParamEntry list) call" where
  "getTributeTypes p auth = getParamTable p auth ''FEParamGetTiposTributos'' ''TributoTipo''"

definition getOptionalTypes :: "'s wire \<Rightarrow> AuthContext \<Rightarrow> ('s, ArcaParamEntry list) call" where
  "getOptionalTypes p auth = getParamTable p auth ''FEParamGetTiposOpcional'' ''OpcionalTipo''"

definition getRecipientIvaConditions :: "'s wire \<Rightarrow> AuthContext \<Rightarrow> ('s, ArcaParamEntry list) call" where
  "getRecipientIvaConditions p auth = getParamTable p auth ''FEParamGetCondicionIvaReceptor'' ''CondicionIvaReceptor''"

definition getVoucherTypes :: "'s wire \<Rightarrow> AuthContext \<Rightarrow> ('s, ArcaParamEntry list) call" where
  "getVoucherTypes p auth = getParamTable p auth ''FEParamGetTiposCbte'' ''CbteTipo''"

definition getVoucherTypeIds :: "'s wire \<Rightarrow> AuthContext \<Rightarrow> ('s, number list) call" where
  "getVoucherTypeIds p auth = bindA (getVoucherTypes p auth) (\<lambda>types. returnA (map param_id types))"

record CurrencyInfo =
  currency_id :: string
  currency_description :: string

definition getCurrencies :: "'s wire \<Rightarrow> AuthContext \<Rightarrow> ('s, CurrencyInfo list) call" where
  "getCurrencies p auth =
     bindA (callWsfe p auth ''FEParamGetTiposMonedas'' '''') (\<lambda>doc.
     returnA (filter (\<lambda>c. currency_id c \<noteq> '''')
       (map (\<lambda>node. \<lparr>currency_id = textOfValue (fieldOf ''Id'' node), currency_description = textOfValue (fieldOf ''Desc'' node)\<rparr>)
         (filter isActiveParam (collectRecordsByTag ''Moneda'' doc)))))"

record ExchangeRateInfo =
  er_currencyId :: string
  er_rate :: "number option"
  er_date :: js_date

definition getExchangeRate :: "'s wire \<Rightarrow> AuthContext \<Rightarrow> string \<Rightarrow> js_date option \<Rightarrow> ('s, ExchangeRateInfo) call" where
  "getExchangeRate p auth currencyId day =
     bindA (callWsfe p auth ''FEParamGetCotizacion''
       (element ''MonId'' (escapeXml (Some currencyId)) @
        (case day of None \<Rightarrow> '''' | Some d \<Rightarrow> element ''FchCotiz'' (toArcaDate (wire_timeZone p) d)))) (\<lambda>doc.
     bindA (liftS (assertNoArcaErrors doc)) (\<lambda>_.
     bindA (liftS (tagRequired doc ''MonCotiz'')) (\<lambda>rate.
     bindA (liftS (tagRequired doc ''FchCotiz'')) (\<lambda>date.
     returnA \<lparr>er_currencyId = currencyId, er_rate = js_Number rate, er_date = parseArcaDate (wire_timeZone p) date\<rparr>))))"

subsection \<open>Vouchers\<close>

definition consultArgs :: "int \<Rightarrow> int \<Rightarrow> int \<Rightarrow> string" where
  "consultArgs sp vt number = element ''FeCompConsReq''
     (element ''CbteTipo'' (intToString vt) @ element ''CbteNro'' (intToString number) @ element ''PtoVta'' (intToString sp))"

text \<open>The CAE of an answer that has a code and an expiration.\<close>

definition answeredCae :: "'s wire \<Rightarrow> xml \<Rightarrow> CaeResult option" where
  "answeredCae p doc =
     (let cae = tagOptional doc ''CodAutorizacion'' ''''; caeVto = tagOptional doc ''FchVto'' '''' in
      if cae = '''' \<or> caeVto = '''' then None
      else Some \<lparr>cae_code = cae, cae_vto = parseArcaDate (wire_timeZone p) caeVto, cae_observations = observationsOf doc\<rparr>)"

definition wsfeQueryVoucher ::
  "'s wire \<Rightarrow> AuthContext \<Rightarrow> int \<Rightarrow> int \<Rightarrow> int \<Rightarrow> ('s, CaeResult option) call" where
  "wsfeQueryVoucher p auth sp vt number =
     bindA (callWsfe p auth ''FECompConsultar'' (consultArgs sp vt number)) (\<lambda>doc. returnA (answeredCae p doc))"

record QueriedVoucher =
  qv_cae :: CaeResult
  qv_number :: int
  qv_totalAmount :: "number option"
  qv_recipientDocType :: "number option"
  qv_recipientDocNumber :: string
  qv_date :: js_date

definition wsfeQueryVoucherDetail ::
  "'s wire \<Rightarrow> AuthContext \<Rightarrow> int \<Rightarrow> int \<Rightarrow> int \<Rightarrow> ('s, QueriedVoucher option) call" where
  "wsfeQueryVoucherDetail p auth sp vt number =
     bindA (callWsfe p auth ''FECompConsultar'' (consultArgs sp vt number)) (\<lambda>doc.
       case answeredCae p doc of
         None \<Rightarrow> returnA None
       | Some cae \<Rightarrow> bindA (liftS (tagRequired doc ''CbteFch'')) (\<lambda>date.
           returnA (Some \<lparr>qv_cae = cae, qv_number = number, qv_totalAmount = js_Number (tagOptional doc ''ImpTotal'' ''0''),
             qv_recipientDocType = js_Number (tagOptional doc ''DocTipo'' ''0''),
             qv_recipientDocNumber = tagOptional doc ''DocNro'' '''', qv_date = parseArcaDate (wire_timeZone p) date\<rparr>)))"

definition parseCaeResponse :: "'s wire \<Rightarrow> xml \<Rightarrow> app_error + CaeResult" where
  "parseCaeResponse p doc =
     (case assertNoArcaErrors doc of Inl e \<Rightarrow> Inl e
      | Inr _ \<Rightarrow> (case tagRequired doc ''Resultado'' of Inl e \<Rightarrow> Inl e
      | Inr result \<Rightarrow>
          if result = ''R'' then Inl (arcaRejectionError (arcaErrorCodes doc) (arcaErrors doc))
          else (case tagRequired doc ''CAE'' of Inl e \<Rightarrow> Inl e
      | Inr cae \<Rightarrow> (case tagRequired doc ''CAEFchVto'' of Inl e \<Rightarrow> Inl e
      | Inr caeVto \<Rightarrow> Inr \<lparr>cae_code = cae, cae_vto = parseArcaDate (wire_timeZone p) caeVto,
            cae_observations = observationsOf doc\<rparr>))))"

definition caeArgs :: "'s wire \<Rightarrow> CaeRequest \<Rightarrow> string" where
  "caeArgs p request = element ''FeCAEReq'' (buildCaeHeader request @ buildCaeDetail (wire_timeZone p) request)"

definition wsfeRequestCae :: "'s wire \<Rightarrow> AuthContext \<Rightarrow> CaeRequest \<Rightarrow> ('s, CaeResult) call" where
  "wsfeRequestCae p auth request =
     bindA (callWsfe p auth ''FECAESolicitar'' (caeArgs p request)) (\<lambda>doc. liftS (parseCaeResponse p doc))"

end
