(* ===== verification/WsfeProperties.thy ===== *)
theory WsfeProperties
  imports WsfeService CaeRequests
begin

text \<open>
  What the log of the calls keeps of the credentials, and what a reply of ARCA to a request of a
  CAE becomes.
\<close>

subsection \<open>Redaction\<close>

lemma takeWhile_stop: "\<not> P x \<Longrightarrow> takeWhile P (v @ x # r) = takeWhile P v"
  by (induction v) simp_all

lemma dropWhile_stop: "\<not> P x \<Longrightarrow> dropWhile P (v @ x # r) = dropWhile P v @ x # r"
  by (induction v) simp_all

lemma bracket_not_word: "\<not> isWordChar (CHR ''<'')"
  by (simp add: isWordChar_def)

lemmas word_stop = takeWhile_stop [of isWordChar, OF bracket_not_word] dropWhile_stop [of isWordChar, OF bracket_not_word]

text \<open>A tag that does not begin before a bracket does not begin because of what follows it.\<close>

lemma secretName_stop: "secretName v = None \<Longrightarrow> secretName (v @ CHR ''<'' # r) = None"
  by (cases "dropWhile isWordChar v")
    (simp_all add: secretName_def Let_def word_stop del: dropWhile_eq_Nil_conv split: if_splits)

lemma afterBracket_stop: "afterBracket v = None \<Longrightarrow> afterBracket (v @ CHR ''<'' # r) = None"
proof -
  assume none: "afterBracket v = None"
  show ?thesis
  proof (cases "takeWhile isWordChar v \<noteq> [] \<and> dropWhile isWordChar v \<noteq> [] \<and> hd (dropWhile isWordChar v) = CHR '':''")
    case True
    then have "secretName (tl (dropWhile isWordChar v)) = None" using none by (simp add: afterBracket_def Let_def)
    from secretName_stop [OF this] True show ?thesis by (simp add: afterBracket_def Let_def word_stop)
  next
    case False
    then have "secretName v = None" using none by (auto simp: afterBracket_def Let_def split: if_splits)
    from secretName_stop [OF this, of r] False show ?thesis
      by (cases "dropWhile isWordChar v")
        (auto simp add: afterBracket_def Let_def word_stop simp del: dropWhile_eq_Nil_conv takeWhile_eq_Nil_iff)
  qed
qed

lemma openTag_stop: "openTag (c # v) = None \<Longrightarrow> openTag (c # v @ CHR ''<'' # r) = None"
  using afterBracket_stop [of v r] by (auto simp: openTag_def startsWith_def split: if_splits)

fun quiet :: "string \<Rightarrow> bool" where
  "quiet [] = True"
| "quiet (c # v) = (openTag (c # v) = None \<and> quiet v)"

lemma redact_quiet: "quiet u \<Longrightarrow> redactArcaXml (u @ CHR ''<'' # r) = u @ redactArcaXml (CHR ''<'' # r)"
proof (induction u)
  case (Cons c u)
  then have "openTag (c # u @ CHR ''<'' # r) = None" using openTag_stop by simp
  then show ?case using Cons by (subst redactArcaXml.simps) simp
qed simp

lemma upToClose_text: "CHR ''<'' \<notin> set v \<Longrightarrow> upToClose (v @ CHR ''<'' # r) = upToClose (CHR ''<'' # r)"
proof (induction v)
  case (Cons c v)
  then have "closeTag (c # v @ CHR ''<'' # r) = None" by (auto simp: closeTag_def startsWith_def)
  then show ?case using Cons by simp
qed simp

text \<open>The elements of the credentials: their tags are recognised, their texts replaced.\<close>

lemma credential_tags:
  "openTag (''<ar:Token>'' @ r) = Some (''<ar:Token>'', r)" "closeTag (''</ar:Token>'' @ r) = Some (''</ar:Token>'', r)"
  "openTag (''<ar:Sign>'' @ r) = Some (''<ar:Sign>'', r)" "closeTag (''</ar:Sign>'' @ r) = Some (''</ar:Sign>'', r)"
  by (simp_all add: openTag_def closeTag_def startsWith_def afterBracket_def secretName_def secretTags_def isWordChar_def)

lemma upToClose_tag: "closeTag (CHR ''<'' # s) = Some tr \<Longrightarrow> upToClose (CHR ''<'' # s) = Some tr"
  by simp

lemma redact_element:
  assumes "openTag (a @ s) = Some (a, s)" "s = v @ b @ r" "CHR ''<'' \<notin> set v"
    and "b = CHR ''<'' # cs" "closeTag (b @ r) = Some (b, r)" "a \<noteq> []"
  shows "redactArcaXml (a @ v @ b @ r) = a @ REDACTED @ b @ redactArcaXml r"
proof -
  have "upToClose (v @ b @ r) = Some (b, r)"
    using upToClose_text [OF assms(3)] assms(4,5) by (simp del: upToClose.simps add: upToClose_tag)
  then show ?thesis using assms(1,2,6) by (subst redactArcaXml.simps) (cases a; simp)
qed

lemma escaped_no_bracket: "CHR ''<'' \<notin> set (escapeXml (Some s))"
  using escapeXml_no_markup [of s] by blast

lemma redact_credentials:
  "redactArcaXml (''<ar:Token>'' @ escapeXml (Some token) @ ''</ar:Token>'' @ ''<ar:Sign>'' @ escapeXml (Some sign) @
     ''</ar:Sign>'' @ rest) =
   ''<ar:Token>'' @ REDACTED @ ''</ar:Token>'' @ ''<ar:Sign>'' @ REDACTED @ ''</ar:Sign>'' @ redactArcaXml rest"
proof -
  have "redactArcaXml (''<ar:Sign>'' @ escapeXml (Some sign) @ ''</ar:Sign>'' @ rest) =
      ''<ar:Sign>'' @ REDACTED @ ''</ar:Sign>'' @ redactArcaXml rest"
    using escaped_no_bracket by (intro redact_element credential_tags refl) simp_all
  moreover have "redactArcaXml (''<ar:Token>'' @ escapeXml (Some token) @ ''</ar:Token>'' @ s) =
      ''<ar:Token>'' @ REDACTED @ ''</ar:Token>'' @ redactArcaXml s" for s
    using escaped_no_bracket by (intro redact_element credential_tags refl) simp_all
  ultimately show ?thesis by (simp only: append_assoc)
qed

subsection \<open>The envelopes\<close>

text \<open>The operations of the service that carry credentials.\<close>

definition wsfeOperations :: "string list" where
  "wsfeOperations =
     [''FECompUltimoAutorizado'', ''FEParamGetPtosVenta'', ''FEParamGetTiposDoc'', ''FEParamGetTiposIva'',
      ''FEParamGetTiposTributos'', ''FEParamGetTiposOpcional'', ''FEParamGetCondicionIvaReceptor'',
      ''FEParamGetTiposCbte'', ''FEParamGetTiposMonedas'', ''FEParamGetCotizacion'', ''FECompConsultar'',
      ''FECAESolicitar'']"

definition beforeCredentials :: "string \<Rightarrow> string" where
  "beforeCredentials operation =
     ''<soapenv:Envelope xmlns:soapenv='' @ CHR 0x22 # ''http://schemas.xmlsoap.org/soap/envelope/'' @ CHR 0x22 #
     '' xmlns:ar='' @ CHR 0x22 # WSFEV1_NS @ CHR 0x22 # ''>'' @ ''<soapenv:Body>'' @ ''<ar:'' @ operation @ ''>'' @ ''<ar:Auth>''"

definition afterCredentials :: "string \<Rightarrow> AuthContext \<Rightarrow> string \<Rightarrow> string" where
  "afterCredentials operation auth args =
     element ''Cuit'' (auth_cuit auth) @ ''</ar:Auth>'' @ args @ ''</ar:'' @ operation @ ''>'' @ ''</soapenv:Body>'' @
     ''</soapenv:Envelope>''"

lemma envelope_parts:
  "wsfeEnvelope (authorizedBody operation auth args) =
   beforeCredentials operation @ ''<ar:Token>'' @ escapeXml (Some (auth_token auth)) @ ''</ar:Token>'' @ ''<ar:Sign>'' @
     escapeXml (Some (auth_sign auth)) @ ''</ar:Sign>'' @ afterCredentials operation auth args"
  by (simp add: wsfeEnvelope_def soapEnvelope_def authorizedBody_def buildAuthBlock_def element_def
      beforeCredentials_def afterCredentials_def)

lemma operations_quiet: "list_all (\<lambda>operation. quiet (beforeCredentials operation)) wsfeOperations"
  by code_simp

lemma redact_envelope:
  assumes "operation \<in> set wsfeOperations"
  shows "redactArcaXml (wsfeEnvelope (authorizedBody operation auth args)) =
    beforeCredentials operation @ ''<ar:Token>'' @ REDACTED @ ''</ar:Token>'' @ ''<ar:Sign>'' @ REDACTED @ ''</ar:Sign>'' @
    redactArcaXml (afterCredentials operation auth args)"
proof -
  have "quiet (beforeCredentials operation)" using operations_quiet assms by (simp only: list_all_iff)
  from redact_quiet [OF this] show ?thesis
    unfolding envelope_parts using redact_credentials by simp
qed

subsection \<open>What a call logs\<close>

lemma onNet_Inr: "onNet f w = (r, w') \<Longrightarrow> (\<exists>x. r = Inr x) \<and> arcaCalls w' = arcaCalls w"
  by (auto simp: onNet_def split: prod.splits)

definition logsRequest :: "'s wire \<Rightarrow> string \<Rightarrow> ('s, 'b) call \<Rightarrow> bool" where
  "logsRequest p envelope m \<longleftrightarrow> (\<forall>w r w'. m w = (r, w') \<longrightarrow>
     (\<exists>rows. arcaCalls w' = arcaCalls w @ rows \<and> length rows \<le> 1 \<and>
       (\<forall>row\<in>set rows. log_requestXml row = sanitize p envelope)))"

definition logsNothing :: "('s, 'b) call \<Rightarrow> bool" where
  "logsNothing m \<longleftrightarrow> (\<forall>w r w'. m w = (r, w') \<longrightarrow> arcaCalls w' = arcaCalls w)"

lemma logsNothing_onNet: "logsNothing (onNet f)"
  using onNet_Inr by (fastforce simp: logsNothing_def)

lemma logsNothing_pure: "logsNothing (returnA x)" "logsNothing (throwA e)" "logsNothing (liftS s)"
  by (simp_all add: logsNothing_def returnA_def throwA_def liftS_def)

lemma logsNothing_bindA: "logsNothing m \<Longrightarrow> (\<And>x. logsNothing (f x)) \<Longrightarrow> logsNothing (bindA m f)"
  unfolding logsNothing_def bindA_def by (auto split: prod.splits sum.splits)

lemma logs_nothing: "logsNothing m \<Longrightarrow> logsRequest p e m"
  unfolding logsNothing_def logsRequest_def by (auto intro!: exI [of _ "[]"])

lemma logs_after:
  assumes "logsNothing m" "\<And>x. logsRequest p e (f x)"
  shows "logsRequest p e (bindA m f)"
  unfolding logsRequest_def
proof (intro allI impI)
  fix w r w' assume run: "bindA m f w = (r, w')"
  obtain v w1 where m: "m w = (v, w1)" by (cases "m w")
  then have same: "arcaCalls w1 = arcaCalls w" using assms(1) by (simp add: logsNothing_def)
  show "\<exists>rows. arcaCalls w' = arcaCalls w @ rows \<and> length rows \<le> 1 \<and> (\<forall>row\<in>set rows. log_requestXml row = sanitize p e)"
  proof (cases v)
    case (Inl x)
    then show ?thesis using run m same by (intro exI [of _ "[]"]) (simp add: bindA_def)
  next
    case (Inr x)
    then have "f x w1 = (r, w')" using run m by (simp add: bindA_def)
    then show ?thesis using assms(2) [of x] unfolding logsRequest_def same [symmetric] by blast
  qed
qed

lemma logs_before: "logsRequest p e m \<Longrightarrow> (\<And>x. logsNothing (f x)) \<Longrightarrow> logsRequest p e (bindA m f)"
  unfolding logsNothing_def logsRequest_def bindA_def by (auto split: prod.splits sum.splits)

lemma logs_recordCall: "call_requestXml entry = envelope \<Longrightarrow> logsRequest p envelope (recordCall p entry)"
proof -
  assume e: "call_requestXml entry = envelope"
  have "logsRequest p envelope (putA (\<lambda>w. w\<lparr>arcaCalls := arcaCalls w @ [loggedRow p entry (callId p (nextCall w)) t],
      nextCall := Suc (nextCall w)\<rparr>))" for t
    by (simp add: logsRequest_def putA_def loggedRow_def e)
  then have "logsRequest p envelope (if \<not> taken then returnA () else bindA (onNet (wire_clock p)) (\<lambda>t.
      putA (\<lambda>w. w\<lparr>arcaCalls := arcaCalls w @ [loggedRow p entry (callId p (nextCall w)) t],
        nextCall := Suc (nextCall w)\<rparr>)))" for taken
    by (cases taken) (simp_all add: logs_after logsNothing_onNet logs_nothing logsNothing_pure)
  then show ?thesis unfolding recordCall_def by (intro logs_after logsNothing_onNet)
qed

lemma logs_recordOutcome:
  "logsRequest p envelope (recordOutcome p i service soapAction envelope t outcome status response codes)"
  unfolding recordOutcome_def by (intro logs_after logsNothing_onNet logs_recordCall) simp

lemma logs_callSoap: "logsRequest p envelope (callSoap p i service url soapAction envelope)"
proof -
  have rec: "logsRequest p envelope (bindA (recordOutcome p i service soapAction envelope t outcome status response codes) f)"
    if "\<And>x. logsNothing (f x)" for t outcome status response codes and f :: "unit \<Rightarrow> ('a, string) call"
    using that by (intro logs_before logs_recordOutcome)
  have lost: "logsRequest p envelope (throwA e :: ('a, string) call)" for e by (intro logs_nothing logsNothing_pure)
  show ?thesis unfolding callSoap_def Let_def
    by (intro logs_after logsNothing_onNet) (simp add: rec lost logsNothing_pure split: fetch_reply.split)
qed

lemma sanitize_envelope:
  assumes "operation \<in> set wsfeOperations"
  shows "sanitize p (wsfeEnvelope (authorizedBody operation auth args)) =
    sanitize p (wsfeEnvelope (authorizedBody operation (auth\<lparr>auth_token := t, auth_sign := s\<rparr>) args))"
  unfolding sanitize_def redact_envelope [OF assms] by (simp add: afterCredentials_def)


subsection \<open>A small network\<close>

text \<open>
  One whose every answer is the same document, with a clock that stands still and a database that
  takes every row, to run the operations on.
\<close>

definition sampleWire :: "xml \<Rightarrow> unit wire" where
  "sampleWire doc = \<lparr>fetch = (\<lambda>url soapAction envelope s. (Answer 200 ''<r/>'', s)), wire_clock = (\<lambda>s. (1700000000000, s)),
     logTakes = (\<lambda>s. (True, s)), callId = (\<lambda>n. replicate n (CHR ''a'')), xmlParser = (\<lambda>text. doc),
     wire_timeZone = -10800000, ellipsis = ''...'', configured = (\<lambda>name. None)\<rparr>"

definition sampleNet :: "unit arca_net" where
  "sampleNet = \<lparr>net = (), arcaCalls = [], nextCall = 1\<rparr>"

definition sampleAuth :: AuthContext where
  "sampleAuth = \<lparr>auth_issuerId = ''i'', auth_cuit = ''20111111112'', auth_token = ''secret'', auth_sign = ''secret'',
     auth_environment = ''homologacion''\<rparr>"

lemma sample_callWsfe:
  "\<exists>s. callWsfe (sampleWire doc) auth operation args sampleNet = (Inr (parseXml (\<lambda>text. doc) ''<r/>''), s)"
  by (simp add: callWsfe_def callSoap_def recordOutcome_def recordCall_def onNet_def sampleWire_def
      responseErrorCodes_def blockBetween_def startsWith_def responseOk_def Let_def action_simps)


subsection \<open>The log tells what happened\<close>

lemma recordOutcome_rows:
  "recordOutcome p i service soapAction envelope t outcome status response codes w = (r, w') \<Longrightarrow>
   r = Inr () \<and> (\<exists>rows. arcaCalls w' = arcaCalls w @ rows \<and> length rows \<le> 1 \<and>
     (\<forall>row\<in>set rows. log_issuerId row = i \<and> log_service row = service \<and> log_operation row = soapAction \<and>
       log_httpStatus row = status \<and> log_outcome row = outcome \<and> log_responseXml row = sanitize p response))"
  by (auto simp: recordOutcome_def recordCall_def onNet_def loggedRow_def action_simps split: prod.splits if_splits)

definition loggedAs :: "'s wire \<Rightarrow> string \<Rightarrow> app_error + string \<Rightarrow> ArcaCallRow \<Rightarrow> bool" where
  "loggedAs p soapAction r row = (case r of
      Inr text \<Rightarrow> responseOk (log_httpStatus row) \<and> log_responseXml row = sanitize p text \<and>
        log_outcome row = (if responseErrorCodes text \<noteq> [] then REJECTED_CALL else SUCCESS)
    | Inl e \<Rightarrow> (case e of
        ArcaSoapFault action status body \<Rightarrow> action = soapAction \<and> \<not> responseOk status \<and>
          log_httpStatus row = status \<and> log_outcome row = FAULT \<and> log_responseXml row = sanitize p body
      | OtherError message \<Rightarrow> log_httpStatus row = 0 \<and> log_outcome row = NETWORK_ERROR \<and>
          log_responseXml row = sanitize p message
      | _ \<Rightarrow> False))"

definition logsAs :: "'s wire \<Rightarrow> string option \<Rightarrow> string \<Rightarrow> string \<Rightarrow> ('s, string) call \<Rightarrow> bool" where
  "logsAs p i service soapAction m \<longleftrightarrow> (\<forall>w. case m w of (r, w') \<Rightarrow>
     \<exists>rows. arcaCalls w' = arcaCalls w @ rows \<and> length rows \<le> 1 \<and>
       (\<forall>row\<in>set rows. log_issuerId row = i \<and> log_service row = service \<and> log_operation row = soapAction \<and>
         loggedAs p soapAction r row))"

lemma logsAs_onNet: "(\<And>x. logsAs p i service soapAction (f x)) \<Longrightarrow> logsAs p i service soapAction (bindA (onNet g) f)"
  unfolding logsAs_def bindA_def onNet_def by (fastforce split: prod.splits)

lemma logsAs_recordOutcome:
  assumes "\<And>row. log_httpStatus row = status \<Longrightarrow> log_outcome row = outcome \<Longrightarrow>
      log_responseXml row = sanitize p response \<Longrightarrow> loggedAs p soapAction r row"
  shows "logsAs p i service soapAction
    (bindA (recordOutcome p i service soapAction envelope t outcome status response codes) (\<lambda>_ w. (r, w)))"
proof -
  have "case bindA (recordOutcome p i service soapAction envelope t outcome status response codes) (\<lambda>_ w. (r, w)) w of (r', w') \<Rightarrow>
      \<exists>rows. arcaCalls w' = arcaCalls w @ rows \<and> length rows \<le> 1 \<and>
       (\<forall>row\<in>set rows. log_issuerId row = i \<and> log_service row = service \<and> log_operation row = soapAction \<and>
         loggedAs p soapAction r' row)" for w
  proof -
    obtain v w' where run: "recordOutcome p i service soapAction envelope t outcome status response codes w = (v, w')"
      by (cases "recordOutcome p i service soapAction envelope t outcome status response codes w")
    from recordOutcome_rows [OF run] obtain rows where rows: "v = Inr ()" "arcaCalls w' = arcaCalls w @ rows" "length rows \<le> 1"
      "\<forall>row\<in>set rows. log_issuerId row = i \<and> log_service row = service \<and> log_operation row = soapAction \<and>
       log_httpStatus row = status \<and> log_outcome row = outcome \<and> log_responseXml row = sanitize p response" by blast
    then show ?thesis using run assms by (intro case_prodI2) (auto simp: bindA_def)
  qed
  then show ?thesis by (simp add: logsAs_def)
qed

lemma logsAs_callSoap: "logsAs p i service soapAction (callSoap p i service url soapAction envelope)"
proof -
  have silent: "logsAs p i service soapAction (throwA e)" for e
    by (simp add: logsAs_def throwA_def)
  have ends: "returnA x = (\<lambda>w. (Inr x, w))" "throwA e = (\<lambda>w. (Inl e, w))" for x :: string and e
    by (simp_all add: fun_eq_iff action_simps)
  have recorded:
    "logsAs p i service soapAction (bindA (recordOutcome p i service soapAction envelope t NETWORK_ERROR 0 m None)
      (\<lambda>_. throwA (OtherError m)))"
    "\<not> responseOk status \<Longrightarrow> logsAs p i service soapAction (bindA
      (recordOutcome p i service soapAction envelope t FAULT status m None) (\<lambda>_. throwA (ArcaSoapFault soapAction status m)))"
    "responseOk status \<Longrightarrow> responseErrorCodes m \<noteq> [] \<Longrightarrow> logsAs p i service soapAction (bindA
      (recordOutcome p i service soapAction envelope t REJECTED_CALL status m codes) (\<lambda>_. returnA m))"
    "responseOk status \<Longrightarrow> responseErrorCodes m = [] \<Longrightarrow> logsAs p i service soapAction (bindA
      (recordOutcome p i service soapAction envelope t SUCCESS status m codes) (\<lambda>_. returnA m))"
    for t m status codes
    unfolding ends by (intro logsAs_recordOutcome, simp add: loggedAs_def)+
  show ?thesis unfolding callSoap_def Let_def
    by (intro logsAs_onNet) (simp add: recorded silent split: fetch_reply.split)
qed

text \<open>
  The log is truthful: a call leaves at most one row, of its issuer, service and
  operation. An answer that is returned was logged as a success, or as a rejection when it has
  error codes; a fault with its status and body; a failure of the network with no status.
\<close>

lemma call_log_truthful:
  "case callSoap p i service url soapAction envelope w of (r, w') \<Rightarrow>
     \<exists>rows. arcaCalls w' = arcaCalls w @ rows \<and> length rows \<le> 1 \<and>
       (list_all (\<lambda>row. log_issuerId row = i \<and> log_service row = service \<and> log_operation row = soapAction \<and>
         loggedAs p soapAction r row) rows)"
  using logsAs_callSoap [of p i service soapAction url envelope] by (simp add: logsAs_def list_all_iff)

subsection \<open>A rejected request\<close>

text \<open>The ports of the emission, with the operations of this client in them.\<close>

definition wiredPorts :: "'s wire \<Rightarrow> 's arca_net ports \<Rightarrow> 's arca_net ports" where
  "wiredPorts p q = q\<lparr>port_requestCae := wsfeRequestCae p, port_queryVoucher := wsfeQueryVoucher p\<rparr>"

lemma rejected_result:
  assumes "errorEntries doc = []" "tagRequired doc ''Resultado'' = Inr ''R''"
  shows "parseCaeResponse p doc = Inl (arcaRejectionError [] [])"
  using assms by (simp add: parseCaeResponse_def assertNoArcaErrors_def arcaErrors_def arcaErrorCodes_def)

lemma rejected_request:
  assumes "callWsfe p auth ''FECAESolicitar'' (caeArgs p request) s = (Inr doc, s')"
    and "errorEntries doc = []" "tagRequired doc ''Resultado'' = Inr ''R''"
  shows "wsfeRequestCae p auth request s = (Inl (arcaRejectionError [] []), s')"
  using assms by (simp add: wsfeRequestCae_def rejected_result liftS_def bindA_def)

text \<open>
  Property C18. A rejection loses its reasons: when the answer to the request of a CAE has the
  result R and no block of errors, the attempt ends with a rejection that has no code and no
  message, whatever the observations of the answer are. The query that adopts a voucher whose
  number was already authorised (code 10016) is not made, since ARCA reports that code as an
  observation of the rejected voucher.
\<close>

theorem rejection_loses_reason:
  assumes "port_getLastAuthorized q auth (req_salesPoint (build 0)) (req_voucherType (build 0)) (outside w) = (Inr n, s)"
    and "callWsfe p auth ''FECAESolicitar'' (caeArgs p (build (n + 1))) s = (Inr doc, s')"
    and "errorEntries doc = []" "tagRequired doc ''Resultado'' = Inr ''R''"
  shows "requestCaeWithRecovery (wiredPorts p q) auth build w = (Inl (arcaRejectionError [] []), w\<lparr>outside := s'\<rparr>)"
  using assms rejected_request [OF assms(2-4)]
  by (simp add: requestCaeWithRecovery_def requestCaeAttempt_def requestNumber_def inWorld_def external_def
      wiredPorts_def onNumberChosen_def arcaRejectionError_def hasCode_def rejectionCodes.simps action_simps)

definition duplicateAnswer :: xml where
  "duplicateAnswer = XRecord [(''Resultado'', XText ''R''),
     (''Observaciones'', XRecord [(''Obs'', XRecord [(''Code'', XText ''10016''), (''Msg'', XText ''x'')])])]"

definition samplePortsOnWire :: "unit arca_net ports" where
  "samplePortsOnWire =
     \<lparr>clock = (\<lambda>s. (0, s)), database = (\<lambda>s. (None, s)), timeZone = -10800000, cuid = (\<lambda>n. ''''), storedDecimal = (\<lambda>x. x),
      maxRetries = 8, retryBaseMs = 60000, port_buildAuth = (\<lambda>issuer s. (Inr sampleAuth, s)),
      port_getLastAuthorized = (\<lambda>auth sp vt s. (Inr 7, s)), port_requestCae = (\<lambda>auth r s. (Inl (OtherError ''''), s)),
      port_queryVoucher = (\<lambda>auth sp vt n s. (Inr None, s)), port_queryVoucherDetail = (\<lambda>auth sp vt n s. (Inr None, s))\<rparr>"

definition sampleRequest :: "int \<Rightarrow> CaeRequest" where
  "sampleRequest n = \<lparr>req_salesPoint = 3, req_voucherType = 11, req_concept = PRODUCTS, req_number = n, req_date = None,
     req_recipient = \<lparr>cae_docType = 99, cae_docNumber = ''0'', cae_ivaConditionId = 5\<rparr>,
     req_amounts = \<lparr>netAmount = 100, ivaAmount = 0, exemptAmount = 0, untaxedAmount = 0, tributeAmount = 0,
       totalAmount = 100, rates = [], amount_tributes = []\<rparr>,
     req_currency = ''PES'', req_exchangeRate = 1, req_associatedVouchers = None, req_servicePeriod = None,
     req_paymentDueDate = None, req_optionals = None\<rparr>"

definition worldOnWire :: "unit arca_net world" where
  "worldOnWire = \<lparr>outside = sampleNet, users = [], apiClients = [], apiClientIssuers = [], certificates = [],
     issuers = [], salesPoints = [], clients = [], vouchers = [], idempotencyRecords = [], pendingVouchers = [],
     purchaseInvoices = [], refreshTokens = [], ticketCache = [],
     paramCache = [], taxpayerCache = [], shadowComparisons = [], nextId = 1, notifications = []\<rparr>"

theorem rejection_loses_reason_witness:
  "observationsOf duplicateAnswer = [\<lparr>obs_code = ''10016'', obs_message = ''x''\<rparr>] \<and>
   (\<exists>w'. requestCaeWithRecovery (wiredPorts (sampleWire duplicateAnswer) samplePortsOnWire) sampleAuth sampleRequest worldOnWire =
     (Inl (arcaRejectionError [] []), w'))"
proof -
  have doc: "parseXml (\<lambda>text. duplicateAnswer) ''<r/>'' = duplicateAnswer"
    by (simp add: parseXml_def duplicateAnswer_def isXmlRecord_def)
  obtain s' where run: "callWsfe (sampleWire duplicateAnswer) sampleAuth ''FECAESolicitar''
      (caeArgs (sampleWire duplicateAnswer) (sampleRequest (7 + 1))) sampleNet = (Inr duplicateAnswer, s')"
    using sample_callWsfe [of duplicateAnswer] unfolding doc by blast
  have last: "port_getLastAuthorized samplePortsOnWire sampleAuth (req_salesPoint (sampleRequest 0))
      (req_voucherType (sampleRequest 0)) (outside worldOnWire) = (Inr 7, sampleNet)"
    by (simp add: samplePortsOnWire_def worldOnWire_def)
  have "errorEntries duplicateAnswer = []" "tagRequired duplicateAnswer ''Resultado'' = Inr ''R''"
    by (simp_all add: errorEntries_def codedEntries_def tagRequired_def duplicateAnswer_def)
  from rejection_loses_reason [OF last run this]
  show ?thesis by (auto simp: observationsOf_def codedEntries_def codedEntry_def duplicateAnswer_def isXmlRecord_def
      fieldOf_def asList_def textOfValue_def)
qed

text \<open>An answer to a consultation that only reports errors is taken for a voucher that does not exist.\<close>

lemma error_reads_as_absent:
  assumes "callWsfe p auth ''FECompConsultar'' (consultArgs sp vt n) s = (Inr doc, s')"
    and "findByTag ''CodAutorizacion'' doc = None"
  shows "wsfeQueryVoucher p auth sp vt n s = (Inr None, s')" "wsfeQueryVoucherDetail p auth sp vt n s = (Inr None, s')"
  using assms by (simp_all add: wsfeQueryVoucher_def wsfeQueryVoucherDetail_def answeredCae_def tagOptional_def bindA_def returnA_def)

end
