(* ===== verification/WsfexService.thy ===== *)
theory WsfexService
  imports WsfeService
begin

text \<open>
  The client of ARCA's service of export invoices, \<open>arca/wsfex/wsfex.service.ts\<close>, with the
  types of \<open>wsfex.types.ts\<close> and the error of \<open>wsfex-errors.ts\<close>. A number read from an
  answer that has none is \<open>None\<close> (NaN), and so is what is computed from it.
\<close>

definition WSFEX_NS :: string where
  "WSFEX_NS = ''http://ar.gov.afip.dif.fexv1/''"

definition WSFEX_SERVICE :: string where
  "WSFEX_SERVICE = ''wsfex''"

definition NO_ERROR_CODE :: string where
  "NO_ERROR_CODE = ''0''"

record ExportCaeRequest =
  xr_requestId :: "number option"
  xr_salesPoint :: int
  xr_voucherType :: int
  xr_number :: "number option"
  xr_date :: js_date
  xr_exportType :: ExportType
  xr_destinationCountryId :: int
  xr_countryTaxId :: string
  xr_client :: ExportClient
  xr_currency :: string
  xr_exchangeRate :: number
  xr_language :: VoucherLanguage
  xr_incoterm :: "string option"
  xr_incotermDescription :: "string option"
  xr_paymentMethod :: "string option"
  xr_commercialNotes :: "string option"
  xr_notes :: "string option"
  xr_shippingPermits :: "ShippingPermit list"
  xr_items :: "ExportItem list"
  xr_totalAmount :: number
  xr_associatedVouchers :: "ExportAssociation list"

record ExportCaeResult =
  xc_cae :: string
  xc_caeVto :: js_date
  xc_observations :: "ArcaObservation list"
  reprocessed :: bool

text \<open>The error of this service is not an \<open>ArcaRejectionError\<close>: it is a \<open>BadRequestException\<close>.\<close>

definition wsfexRejectionError :: "string list \<Rightarrow> string list \<Rightarrow> app_error" where
  "wsfexRejectionError codes messages =
     BadRequest (''ARCA rechaz'' @ [CHR 0xF3] @ '' el comprobante de exportaci'' @ [CHR 0xF3] @ ''n: '' @
       joinWith ('' '' @ [CHR 0xB7] @ '' '') messages)"

definition numText :: "number \<Rightarrow> string" where
  "numText v = toFixed2 v"

definition optionalElement :: "string \<Rightarrow> string option \<Rightarrow> string" where
  "optionalElement tag v = (if hasText v then element tag (escapeXml v) else '''')"

text \<open>A number in a template literal.\<close>

definition numberInText :: "number option \<Rightarrow> string" where
  "numberInText n = (case n of None \<Rightarrow> ''NaN'' | Some x \<Rightarrow> numberToString x)"

subsection \<open>Calls\<close>

definition wsfexUrl :: "'s wire \<Rightarrow> string \<Rightarrow> string" where
  "wsfexUrl p environment =
     (if isProduction environment
      then orElse (configured p ''ARCA_WSFEX_URL_PROD'') ''https://servicios1.afip.gov.ar/wsfexv1/service.asmx''
      else orElse (configured p ''ARCA_WSFEX_URL_HOMO'') ''https://wswhomo.afip.gov.ar/wsfexv1/service.asmx'')"

definition wsfexEnvelope :: "string \<Rightarrow> string" where
  "wsfexEnvelope body = soapEnvelope WSFEX_NS body"

definition exportCredentials :: "AuthContext \<Rightarrow> string" where
  "exportCredentials auth =
     element ''Token'' (escapeXml (Some (auth_token auth))) @ element ''Sign'' (escapeXml (Some (auth_sign auth))) @
     element ''Cuit'' (auth_cuit auth)"

definition authBlock :: "AuthContext \<Rightarrow> string" where
  "authBlock auth = element ''Auth'' (exportCredentials auth)"

definition callWsfex :: "'s wire \<Rightarrow> AuthContext \<Rightarrow> string \<Rightarrow> string \<Rightarrow> ('s, xml) call" where
  "callWsfex p auth operation body =
     bindA (callSoap p (Some (auth_issuerId auth)) WSFEX_SERVICE (wsfexUrl p (auth_environment auth)) (WSFEX_NS @ operation)
       (wsfexEnvelope body))
     (\<lambda>response. returnA (parseXml (xmlParser p) response))"

definition assertNoError :: "xml \<Rightarrow> app_error + unit" where
  "assertNoError doc =
     (let code = tagOptional doc ''ErrCode'' NO_ERROR_CODE in
      if code \<noteq> NO_ERROR_CODE
      then (let message = tagOptional doc ''ErrMsg'' ''Error sin detalle'' in
        Inl (wsfexRejectionError [code] [''('' @ code @ '') '' @ message]))
      else Inr ())"

text \<open>\<open>includes\<close>.\<close>

fun includesText :: "string \<Rightarrow> string \<Rightarrow> bool" where
  "includesText [] part = (part = [])"
| "includesText (c # s) part = (startsWith part (c # s) \<or> includesText s part)"

definition ping :: "'s wire \<Rightarrow> string \<Rightarrow> ('s, bool) call" where
  "ping p environment =
     bindA (callSoap p None WSFEX_SERVICE (wsfexUrl p environment) (WSFEX_NS @ ''FEXDummy'') (wsfexEnvelope ''<ar:FEXDummy/>''))
       (\<lambda>response. returnA (includesText response ''OK''))"

definition getLastRequestId :: "'s wire \<Rightarrow> AuthContext \<Rightarrow> ('s, number option) call" where
  "getLastRequestId p auth =
     bindA (callWsfex p auth ''FEXGetLast_ID'' (element ''FEXGetLast_ID'' (authBlock auth))) (\<lambda>doc.
     bindA (liftS (assertNoError doc)) (\<lambda>_. returnA (js_Number (tagOptional doc ''Id'' ''0''))))"

definition wsfexLastAuthorized :: "'s wire \<Rightarrow> AuthContext \<Rightarrow> int \<Rightarrow> int \<Rightarrow> ('s, number option) call" where
  "wsfexLastAuthorized p auth sp vt =
     bindA (callWsfex p auth ''FEXGetLast_CMP'' (element ''FEXGetLast_CMP'' (element ''Auth_Req''
       (exportCredentials auth @ element ''Pto_venta'' (intToString sp) @ element ''Cbte_Tipo'' (intToString vt))))) (\<lambda>doc.
     bindA (liftS (assertNoError doc)) (\<lambda>_. returnA (js_Number (tagOptional doc ''Cbte_nro'' ''0''))))"

subsection \<open>Tables\<close>

record ParamTableSpec =
  spec_operation :: string
  spec_tag :: string
  spec_idField :: string
  spec_descriptionField :: string

definition exportParamTable :: "'s wire \<Rightarrow> AuthContext \<Rightarrow> ParamTableSpec \<Rightarrow> ('s, ArcaParamEntry list) call" where
  "exportParamTable p auth spec =
     bindA (callWsfex p auth (spec_operation spec) (element (spec_operation spec) (authBlock auth))) (\<lambda>doc.
     bindA (liftS (assertNoError doc)) (\<lambda>_.
     returnA (paramEntries (spec_idField spec) (spec_descriptionField spec) (collectRecordsByTag (spec_tag spec) doc))))"

definition getCountries :: "'s wire \<Rightarrow> AuthContext \<Rightarrow> ('s, ArcaParamEntry list) call" where
  "getCountries p auth = exportParamTable p auth \<lparr>spec_operation = ''FEXGetPARAM_DST_pais'',
     spec_tag = ''ClsFEXResponse_DST_pais'', spec_idField = ''DST_Codigo'', spec_descriptionField = ''DST_Ds''\<rparr>"

definition getUnitsOfMeasure :: "'s wire \<Rightarrow> AuthContext \<Rightarrow> ('s, ArcaParamEntry list) call" where
  "getUnitsOfMeasure p auth = exportParamTable p auth \<lparr>spec_operation = ''FEXGetPARAM_UMed'',
     spec_tag = ''ClsFEXResponse_UMed'', spec_idField = ''Umed_Id'', spec_descriptionField = ''Umed_Ds''\<rparr>"

definition getExportTypes :: "'s wire \<Rightarrow> AuthContext \<Rightarrow> ('s, ArcaParamEntry list) call" where
  "getExportTypes p auth = exportParamTable p auth \<lparr>spec_operation = ''FEXGetPARAM_Tipo_Expo'',
     spec_tag = ''ClsFEXResponse_Tex'', spec_idField = ''Tex_Id'', spec_descriptionField = ''Tex_Ds''\<rparr>"

definition getCountryTaxIds :: "'s wire \<Rightarrow> AuthContext \<Rightarrow> ('s, ArcaParamEntry list) call" where
  "getCountryTaxIds p auth =
     bindA (callWsfex p auth ''FEXGetPARAM_DST_CUIT'' (element ''FEXGetPARAM_DST_CUIT'' (authBlock auth))) (\<lambda>doc.
     bindA (liftS (assertNoError doc)) (\<lambda>_.
     returnA (paramEntries ''DST_CUIT'' ''DST_Ds'' (collectRecordsByTag ''ClsFEXResponse_DST_cuit'' doc))))"

text \<open>The separator of the description, an em dash, is the argument \<open>dash\<close>: it is outside Latin-1.\<close>

record IncotermEntry =
  incoterm_id :: nat
  incoterm_description :: string

definition getIncoterms :: "string \<Rightarrow> 's wire \<Rightarrow> AuthContext \<Rightarrow> ('s, IncotermEntry list) call" where
  "getIncoterms dash p auth =
     bindA (callWsfex p auth ''FEXGetPARAM_Incoterms'' (element ''FEXGetPARAM_Incoterms'' (authBlock auth))) (\<lambda>doc.
     bindA (liftS (assertNoError doc)) (\<lambda>_.
     returnA (map (\<lambda>(index, node). \<lparr>incoterm_id = index, incoterm_description =
         textOfValue (fieldOf ''Inc_Id'' node) @ '' '' @ dash @ '' '' @ textOfValue (fieldOf ''Inc_Ds'' node)\<rparr>)
       (enumerate 0 (collectRecordsByTag ''ClsFEXResponse_Inc'' doc)))))"

subsection \<open>Authorisation\<close>

definition buildShippingPermits :: "ExportCaeRequest \<Rightarrow> string" where
  "buildShippingPermits request =
     (if length (xr_shippingPermits request) = 0 then element ''Permiso_existente'' ''N''
      else element ''Permiso_existente'' ''S'' @ element ''Permisos''
        (concat (map (\<lambda>s. element ''Permiso'' (element ''Id_permiso'' (escapeXml (Some (permitId s))) @
             element ''Dst_merc'' (intToString (permit_destinationCountryId s)))) (xr_shippingPermits request))))"

definition exportItemXml :: "ExportItem \<Rightarrow> string" where
  "exportItemXml i = element ''Item''
     (optionalElement ''Pro_codigo'' (exi_code i) @
      element ''Pro_ds'' (escapeXml (Some (exi_description i))) @
      element ''Pro_qty'' (numberToString (exi_quantity i)) @
      element ''Pro_umed'' (intToString (exi_unitOfMeasureId i)) @
      element ''Pro_precio_uni'' (numberToString (exi_unitPrice i)) @
      element ''Pro_bonificacion'' (numText (exi_discount i)) @
      element ''Pro_total_item'' (numText (exportItemTotal i)))"

definition buildItems :: "ExportCaeRequest \<Rightarrow> string" where
  "buildItems request = element ''Items'' (concat (map exportItemXml (xr_items request)))"

definition buildExportAssociated :: "ExportCaeRequest \<Rightarrow> string" where
  "buildExportAssociated request =
     (if length (xr_associatedVouchers request) = 0 then ''''
      else element ''Cmps_asoc'' (concat (map (\<lambda>v. element ''Cmp_asoc''
        (element ''Cbte_tipo'' (intToString (exa_type v)) @ element ''Cbte_punto_vta'' (intToString (exa_salesPoint v)) @
         element ''Cbte_nro'' (intToString (exa_number v)))) (xr_associatedVouchers request))))"

definition buildRequest :: "int \<Rightarrow> ExportCaeRequest \<Rightarrow> string" where
  "buildRequest tz request = element ''Cmp''
     (element ''Id'' (numberInText (xr_requestId request)) @
      element ''Fecha_cbte'' (toArcaDate tz (xr_date request)) @
      element ''Cbte_tipo'' (intToString (xr_voucherType request)) @
      element ''Punto_vta'' (intToString (xr_salesPoint request)) @
      element ''Cbte_nro'' (numberInText (xr_number request)) @
      element ''Tipo_expo'' (intToString (exportTypeId (xr_exportType request))) @
      buildShippingPermits request @
      element ''Dst_cmp'' (intToString (xr_destinationCountryId request)) @
      element ''Cliente'' (escapeXml (Some (exc_legalName (xr_client request)))) @
      element ''Cuit_pais_cliente'' (xr_countryTaxId request) @
      element ''Domicilio_cliente'' (escapeXml (Some (exc_address (xr_client request)))) @
      optionalElement ''Id_impositivo'' (exc_taxId (xr_client request)) @
      element ''Moneda_Id'' (escapeXml (Some (xr_currency request))) @
      element ''Moneda_ctz'' (numberToString (xr_exchangeRate request)) @
      optionalElement ''Obs_comerciales'' (xr_commercialNotes request) @
      element ''Imp_total'' (numText (xr_totalAmount request)) @
      optionalElement ''Obs'' (xr_notes request) @
      optionalElement ''Forma_pago'' (xr_paymentMethod request) @
      optionalElement ''Incoterms'' (xr_incoterm request) @
      optionalElement ''Incoterms_Ds'' (xr_incotermDescription request) @
      element ''Idioma_cbte'' (intToString (voucherLanguageId (xr_language request))) @
      buildItems request @
      buildExportAssociated request)"

definition parseAuthorizeResponse :: "int \<Rightarrow> xml \<Rightarrow> app_error + ExportCaeResult" where
  "parseAuthorizeResponse tz doc =
     (case assertNoError doc of Inl e \<Rightarrow> Inl e
      | Inr _ \<Rightarrow>
          (let result = tagOptional doc ''Resultado'' '''' in
           if result \<noteq> '''' \<and> result \<noteq> ''A''
           then Inl (wsfexRejectionError (map obs_code (observationsOf doc))
             (map (\<lambda>o'. ''('' @ obs_code o' @ '') '' @ obs_message o') (observationsOf doc)))
           else (case tagRequired doc ''Cae'' of Inl e \<Rightarrow> Inl e
             | Inr cae \<Rightarrow> (case tagRequired doc ''Fch_venc_Cae'' of Inl e \<Rightarrow> Inl e
             | Inr caeVto \<Rightarrow> Inr \<lparr>xc_cae = cae, xc_caeVto = parseArcaDate tz caeVto,
                 xc_observations = observationsOf doc,
                 reprocessed = (tagOptional doc ''Reproceso'' '''' = ''S'')\<rparr>))))"

definition authorize :: "'s wire \<Rightarrow> AuthContext \<Rightarrow> ExportCaeRequest \<Rightarrow> ('s, ExportCaeResult) call" where
  "authorize p auth request =
     bindA (callWsfex p auth ''FEXAuthorize''
       (element ''FEXAuthorize'' (authBlock auth @ buildRequest (wire_timeZone p) request))) (\<lambda>doc.
     liftS (parseAuthorizeResponse (wire_timeZone p) doc))"

end
