(* ===== verification/ExportEmission.thy ===== *)
theory ExportEmission
  imports WsfexService Vouchers
begin

text \<open>
  Issuing an export voucher, \<open>vouchers/export-vouchers.service.ts\<close>: the part that runs
  under the lock of the issuer. The state outside the process is the network of ARCA with the log
  of its calls, and \<open>authFor\<close> is \<open>IssuerAuthService.buildAuth\<close> with the service.
\<close>

definition EXPORT_SERVICE :: string where
  "EXPORT_SERVICE = ''wsfex''"

definition FOREIGN_RECIPIENT_DOC_TYPE :: int where
  "FOREIGN_RECIPIENT_DOC_TYPE = 80"

definition EXPORT_CONCEPT :: int where
  "EXPORT_CONCEPT = 1"

record ExportEmission =
  em_issuer :: StoredIssuer
  em_input :: IssueExportVoucher
  em_request :: ExportCaeRequest
  em_cae :: ExportCaeResult
  em_totalAmount :: number

record ExportedVoucher =
  exported_row :: VoucherRow
  exported_salesPoint :: "SalesPointRow option"

definition storedAssociation :: "ExportAssociation \<Rightarrow> associatedVoucher" where
  "storedAssociation a = \<lparr>assoc_type = exa_type a, assoc_salesPoint = exa_salesPoint a, assoc_number = exa_number a,
     assoc_cuit = None, assoc_date = None\<rparr>"

text \<open>\<open>optionalExportJson\<close>: the columns that are left out are null.\<close>

definition exportObservations :: "ExportEmission \<Rightarrow> ArcaObservation list option" where
  "exportObservations e =
     (if 0 < length (xc_observations (em_cae e)) then Some (xc_observations (em_cae e)) else None)"

definition exportAssociated :: "ExportEmission \<Rightarrow> associatedVoucher list option" where
  "exportAssociated e =
     (case ex_associatedVouchers (em_input e) of
        None \<Rightarrow> None
      | Some vs \<Rightarrow> if 0 < length vs then Some (map storedAssociation vs) else None)"

definition exportDetailOf :: "ExportEmission \<Rightarrow> ExportDetail" where
  "exportDetailOf e = (let input = em_input e in
     \<lparr>xd_exportType = ex_exportType input, xd_destinationCountryId = ex_destinationCountryId input,
      xd_countryTaxId = ex_countryTaxId input, xd_clientLegalName = exc_legalName (ex_client input),
      xd_clientAddress = exc_address (ex_client input), xd_clientTaxId = exc_taxId (ex_client input),
      xd_language = ex_language input, xd_incoterm = ex_incoterm input, xd_paymentMethod = ex_paymentMethod input,
      xd_shippingPermits = orElse (ex_shippingPermits input) [], xd_requestId = xr_requestId (em_request e)\<rparr>)"

definition exportItemData :: "ExportItem \<Rightarrow> IssuedVoucherItemData" where
  "exportItemData i =
     \<lparr>vi_description = exi_description i, vi_quantity = exi_quantity i, vi_unitPrice = exi_unitPrice i, vi_ivaRate = 0,
      vi_taxTreatment = ''EXEMPT'', vi_subtotal = exportItemTotal i\<rparr>"

text \<open>The number, as the column of integers takes it.\<close>

definition exportVoucherData :: "ExportEmission \<Rightarrow> int \<Rightarrow> string \<Rightarrow> string \<Rightarrow> IssuedVoucherData" where
  "exportVoucherData e number spId qr = (let input = em_input e; total = em_totalAmount e; cae = em_cae e in
     \<lparr>vd_issuerId = issuer_id (em_issuer e), vd_salesPointId = spId, vd_clientId = None,
      vd_recipientDocType = FOREIGN_RECIPIENT_DOC_TYPE, vd_recipientDocNumber = ex_countryTaxId input,
      vd_recipientName = Some (exc_legalName (ex_client input)),
      vd_voucherType = exportVoucherTypeId (ex_voucherType input), vd_number = number,
      vd_voucherDate = xr_date (em_request e), vd_concept = EXPORT_CONCEPT, vd_serviceFrom = None, vd_serviceTo = None,
      vd_paymentDueDate = None, vd_netAmount = 0, vd_ivaAmount = 0, vd_exemptAmount = total, vd_untaxedAmount = 0,
      vd_tributeAmount = 0, vd_totalAmount = total, vd_tributes = None, vd_currency = ex_currency input,
      vd_exchangeRate = ex_exchangeRate input,
      vd_status = (if 0 < length (xc_observations cae) then ''OBSERVED'' else ''APPROVED''), vd_cae = Some (xc_cae cae),
      vd_caeExpiration = Some (xc_caeVto cae), vd_arcaObservations = exportObservations e, vd_qrData = Some qr,
      vd_associatedVouchers = exportAssociated e, vd_exportDetail = Some (exportDetailOf e),
      vd_items = map exportItemData (ex_items input)\<rparr>)"

definition wholeNumber :: "number option \<Rightarrow> int option" where
  "wholeNumber n = (case n of None \<Rightarrow> None | Some x \<Rightarrow> if of_int \<lfloor>x\<rfloor> = x then Some \<lfloor>x\<rfloor> else None)"

definition exportQr :: "int \<Rightarrow> ExportEmission \<Rightarrow> int \<Rightarrow> string" where
  "exportQr tz e number = (let input = em_input e in buildQrUrl tz
     \<lparr>qr_date = xr_date (em_request e), qr_issuerCuit = issuer_cuit (em_issuer e), qr_salesPoint = ex_salesPoint input,
      qr_voucherType = exportVoucherTypeId (ex_voucherType input), qr_number = number,
      qr_totalAmount = em_totalAmount e, qr_currency = ex_currency input, qr_exchangeRate = ex_exchangeRate input,
      qr_recipientDocType = FOREIGN_RECIPIENT_DOC_TYPE, qr_recipientDocNumber = ex_countryTaxId input,
      qr_cae = xc_cae (em_cae e)\<rparr>)"

text \<open>
  \<open>persist\<close>. The sales point is created before the voucher; a number that is not an integer
  is refused by the client of the database, which is asked last. The answer includes the row of
  the sales point.
\<close>

definition persist :: "'a ports \<Rightarrow> ExportEmission \<Rightarrow> ('a, ExportedVoucher) effect" where
  "persist p e =
     (let i = issuer_id (em_issuer e); n = ex_salesPoint (em_input e) in
      bindA (upsertSalesPoint p i n) (\<lambda>spId.
        case wholeNumber (xr_number (em_request e)) of
          None \<Rightarrow> throwA (OtherError ''PrismaClientValidationError'')
        | Some number \<Rightarrow>
            (let data = exportVoucherData e number spId (exportQr (timeZone p) e number) in
             bindA (insertVoucher p data) (\<lambda>new.
             getA (\<lambda>w. \<lparr>exported_row = \<lparr>voucher_id = new, voucher_data = data\<rparr>,
               exported_salesPoint = findRow (\<lambda>r. sp_id r = spId) (salesPoints w)\<rparr>)))))"

text \<open>
  \<open>Promise.all\<close> of two calls: both are made, and the first that fails is reported.
\<close>

definition bothA :: "('w, 'a) action \<Rightarrow> ('w, 'b) action \<Rightarrow> ('w, 'a \<times> 'b) action" where
  "bothA m1 m2 w =
     (case m1 w of (r1, w1) \<Rightarrow> (case m2 w1 of (r2, w2) \<Rightarrow>
        ((case r1 of Inl e \<Rightarrow> Inl e | Inr x \<Rightarrow> (case r2 of Inl e \<Rightarrow> Inl e | Inr y \<Rightarrow> Inr (x, y))), w2)))"

definition nextNumber :: "number option \<Rightarrow> number option" where
  "nextNumber n = map_option (\<lambda>x. js_add x 1) n"

definition exportRequest ::
  "IssueExportVoucher \<Rightarrow> number option \<Rightarrow> number option \<Rightarrow> date \<Rightarrow> number \<Rightarrow> ExportCaeRequest" where
  "exportRequest input lastNumber lastRequestId t whole =
     \<lparr>xr_requestId = nextNumber lastRequestId, xr_salesPoint = ex_salesPoint input,
      xr_voucherType = exportVoucherTypeId (ex_voucherType input), xr_number = nextNumber lastNumber, xr_date = Some t,
      xr_exportType = ex_exportType input, xr_destinationCountryId = ex_destinationCountryId input,
      xr_countryTaxId = ex_countryTaxId input, xr_client = ex_client input, xr_currency = ex_currency input,
      xr_exchangeRate = ex_exchangeRate input, xr_language = ex_language input, xr_incoterm = ex_incoterm input,
      xr_incotermDescription = ex_incotermDescription input, xr_paymentMethod = ex_paymentMethod input,
      xr_commercialNotes = ex_commercialNotes input, xr_notes = ex_notes input,
      xr_shippingPermits = orElse (ex_shippingPermits input) [], xr_items = ex_items input, xr_totalAmount = whole,
      xr_associatedVouchers = orElse (ex_associatedVouchers input) []\<rparr>"

type_synonym 's authority = "StoredIssuer \<Rightarrow> string \<Rightarrow> ('s, AuthContext) call"

definition exportUnderLock ::
  "'s arca_net ports \<Rightarrow> 's wire \<Rightarrow> 's authority \<Rightarrow> StoredIssuer \<Rightarrow> IssueExportVoucher \<Rightarrow>
   ('s arca_net, ExportedVoucher) effect" where
  "exportUnderLock p wire authFor issuer input =
     bindA (external (authFor issuer EXPORT_SERVICE)) (\<lambda>auth.
     bindA (bothA
         (external (wsfexLastAuthorized wire auth (ex_salesPoint input) (exportVoucherTypeId (ex_voucherType input))))
         (external (getLastRequestId wire auth))) (\<lambda>(lastNumber, lastRequestId).
       (let whole = exportVoucherTotal (ex_items input) in
        bindA (now p) (\<lambda>t.
          (let request = exportRequest input lastNumber lastRequestId t whole in
           bindA (external (authorize wire auth request)) (\<lambda>cae.
           persist p \<lparr>em_issuer = issuer, em_input = input, em_request = request, em_cae = cae,
             em_totalAmount = whole\<rparr>))))))"

definition issueExport ::
  "'s arca_net ports \<Rightarrow> 's wire \<Rightarrow> 's authority \<Rightarrow> string \<Rightarrow> IssueExportVoucher \<Rightarrow>
   ('s arca_net, ExportedVoucher) effect" where
  "issueExport p wire authFor u input =
     bindA (table p (getA (\<lambda>w. findRow (\<lambda>r. issuer_id r = ex_issuerId input \<and> issuer_userId r = u) (issuers w)))) (\<lambda>found.
       case found of
         None \<Rightarrow> throwA (NotFound ''Emisor inexistente.'')
       | Some issuer \<Rightarrow> exportUnderLock p wire authFor issuer input)"

end
