(* ===== verification/ExportProperties.thy ===== *)
theory ExportProperties
  imports ExportEmission EmissionProperties TaxBreakdown WsfeProperties
begin

text \<open>
  What issuing an export voucher promises: its total is the sum of its lines, a voucher that is
  returned is the one ARCA authorised, the tables stay well formed, and what is lost when the
  voucher cannot be stored.
\<close>

subsection \<open>The total\<close>

text \<open>
  Property C23. The total of an export voucher is the exact sum, to the cent, of the totals that
  are declared for its lines, for up to two thousand lines of 5 000 million together.
\<close>

theorem export_total_adds_up:
  assumes "sum_list (map (\<lambda>i. \<bar>exportItemTotal i\<bar>) its) \<le> 5000000000" "length its \<le> 2000"
  shows "\<exists>cs. map exportItemTotal its = map cents cs \<and> exportVoucherTotal its = cents (sum_list cs)"
proof -
  have "\<exists>k. x = cents k" if "x \<in> set (map exportItemTotal its)" for x
    using that by (auto simp: exportItemTotal_def roundToCents_is_cents)
  moreover have "sum_list (map abs (map exportItemTotal its)) \<le> 5000000000" using assms(1) by (simp add: comp_def)
  moreover have "foldl (\<lambda>acc i. js_add acc (exportItemTotal i)) 0 its = foldl js_add 0 (map exportItemTotal its)"
    by (simp add: foldl_map)
  ultimately show ?thesis
    using rounded_sum [of "map exportItemTotal its"] assms(2)
    by (auto simp: exportVoucherTotal_def breakdownRound2_is_roundToCents)
qed

definition sampleExportItem :: ExportItem where
  "sampleExportItem = \<lparr>exi_code = None, exi_description = ''x'', exi_quantity = 1, exi_unitOfMeasureId = 7,
     exi_unitPrice = 100, exi_discount = 0\<rparr>"

lemma sample_export_total: "exportItemTotal sampleExportItem = cents 10000"
proof -
  have "exportItemGross sampleExportItem = 100"
    by (simp add: exportItemGross_def sampleExportItem_def js_mul_def js_sub_def hundred)
  then show ?thesis using shared_money.round_of_cents [of 10000]
    by (simp add: exportItemTotal_def hundred cents_range_def)
qed

theorem export_total_adds_up_witness:
  "\<exists>cs. map exportItemTotal [sampleExportItem, sampleExportItem] = map cents cs \<and>
     exportVoucherTotal [sampleExportItem, sampleExportItem] = cents (sum_list cs)"
  by (rule export_total_adds_up) (simp_all add: sample_export_total hundred)

subsection \<open>The tables\<close>

lemma bothA_world:
  assumes "bothA (external f) (external g) w = (r, w')"
  shows "w' = w\<lparr>outside := outside w'\<rparr>"
  using assms by (auto simp: bothA_def external_def split: prod.splits)

lemma exportVoucherData_salesPoint [simp]: "vd_salesPointId (exportVoucherData e n spId qr) = spId"
  by (simp add: exportVoucherData_def Let_def)

context table_invariant
begin

lemma persist: "triple I (persist p e) (\<lambda>_. I) (\<lambda>_. I)"
  unfolding persist_def Let_def
proof (rule triple_bindA [OF upsertSalesPoint])
  fix spId
  have insert: "triple (\<lambda>w. I w \<and> spId \<in> sp_id ` set (salesPoints w))
      (bindA (insertVoucher p (exportVoucherData e n spId qr)) (\<lambda>new. getA (v new))) (\<lambda>_. I) (\<lambda>_. I)"
    for n qr and v :: "string \<Rightarrow> 'a world \<Rightarrow> ExportedVoucher"
    using insertVoucher [of "exportVoucherData e n spId qr"]
    by (auto intro!: triple_bindA [where R = "\<lambda>x w. I w \<and> x \<in> voucher_id ` set (vouchers w)"] triple_getA)
  show "triple (\<lambda>w. I w \<and> spId \<in> sp_id ` set (salesPoints w))
      (case wholeNumber (xr_number (em_request e)) of
         None \<Rightarrow> throwA (OtherError ''PrismaClientValidationError'')
       | Some number \<Rightarrow> bindA (insertVoucher p (exportVoucherData e number spId (exportQr (timeZone p) e number)))
           (\<lambda>new. getA (\<lambda>w. \<lparr>exported_row = \<lparr>voucher_id = new,
              voucher_data = exportVoucherData e number spId (exportQr (timeZone p) e number)\<rparr>,
              exported_salesPoint = findRow (\<lambda>r. sp_id r = spId) (salesPoints w)\<rparr>))) (\<lambda>_. I) (\<lambda>_. I)"
    by (auto intro!: triple_throwA insert split: option.split)
qed

end

lemma export_keeps:
  fixes p :: "'s arca_net ports"
  assumes "table_invariant p I"
  shows "triple I (issueExport p wire authFor u input) (\<lambda>_. I) (\<lambda>_. I)"
proof -
  note tables = table_invariant.ofTables [OF assms]
  have both: "triple I (bothA (external f) (external g)) (\<lambda>_. I) (\<lambda>_. I)" for f g
    by (rule triple_outsideOnly [OF tables bothA_world])
  show ?thesis unfolding issueExport_def exportUnderLock_def Let_def
    by (rule triple_seq [OF triple_tableGet [OF tables]])
       (auto intro!: triple_throwA triple_seq [where I = I] triple_external [OF tables] both triple_now [OF tables]
         table_invariant.persist [OF assms] split: option.split)
qed

text \<open>
  Issuing an export voucher keeps the tables well formed whatever ARCA and the
  database answer, and never removes or changes a stored voucher.
\<close>

lemma export_keeps_database:
  assumes "stateOk p w"
  shows "stateOk p (snd (issueExport p wire authFor u input w)) \<and> grows w (snd (issueExport p wire authFor u input w))"
  by (rule triple_snd [OF export_keeps [OF growing.table_invariant_axioms]]) (simp add: assms)

subsection \<open>What is stored\<close>

lemma upsertSalesPoint_rows:
  "upsertSalesPoint p i n w = (r, w') \<Longrightarrow> vouchers w' = vouchers w \<and> pendingVouchers w' = pendingVouchers w"
  by (auto simp: upsertSalesPoint_def newId_def action_simps elim!: table_cases split: option.splits prod.splits)

lemma insertVoucher_rows:
  "insertVoucher p d w = (r, w') \<Longrightarrow> pendingVouchers w' = pendingVouchers w \<and>
     vouchers w' = vouchers w @ (case r of Inl e \<Rightarrow> [] | Inr new \<Rightarrow> [\<lparr>voucher_id = new, voucher_data = d\<rparr>])"
  by (auto simp: insertVoucher_def newId_def action_simps elim!: table_cases split: if_splits)

lemma persist_rows:
  assumes "persist p e w = (r, w')"
  shows "pendingVouchers w' = pendingVouchers w"
    and "vouchers w' = vouchers w @ (case r of Inl x \<Rightarrow> [] | Inr v \<Rightarrow> [exported_row v])"
    and "r = Inr v \<Longrightarrow> \<exists>spId n. wholeNumber (xr_number (em_request e)) = Some n \<and>
      voucher_data (exported_row v) = exportVoucherData e n spId (exportQr (timeZone p) e n)"
  using assms by (auto simp: persist_def Let_def bindA_def getA_def throwA_def
      split: prod.splits sum.splits option.splits dest!: upsertSalesPoint_rows insertVoucher_rows)

text \<open>An export that does not fail before ARCA answers ends in \<open>persist\<close> with the answer.\<close>

lemma issueExport_cases:
  assumes "issueExport p wire authFor u input w = (r, w')"
  obtains (failed) e where "r = Inl e" "w' = w\<lparr>outside := outside w'\<rparr>"
  | (granted) issuer auth l i t cae s s' where
      "issuer \<in> set (issuers w)" "issuer_id issuer = ex_issuerId input" "issuer_userId issuer = u"
      "authorize wire auth (exportRequest input l i t (exportVoucherTotal (ex_items input))) s = (Inr cae, s')"
      "persist p \<lparr>em_issuer = issuer, em_input = input,
         em_request = exportRequest input l i t (exportVoucherTotal (ex_items input)), em_cae = cae,
         em_totalAmount = exportVoucherTotal (ex_items input)\<rparr> (w\<lparr>outside := s'\<rparr>) = (r, w')"
proof -
  show ?thesis
  proof (cases "\<exists>e. r = Inl e \<and> w' = w\<lparr>outside := outside w'\<rparr>")
    case False
    then show ?thesis using assms that(2)
      by (fastforce simp: issueExport_def exportUnderLock_def bindA_def table_def external_def reachDatabase_def bothA_def
        now_def getA_def throwA_def Let_def split: prod.splits sum.splits option.splits dest: findRow_Some)
  qed (use that in blast)
qed

lemma wholeNumber_Some: "wholeNumber n = Some k \<Longrightarrow> n = Some (of_int k)"
  by (auto simp: wholeNumber_def split: option.splits if_splits)

text \<open>The request and the CAE that a stored export voucher comes from.\<close>

definition comesFrom :: "IssueExportVoucher \<Rightarrow> ExportCaeRequest \<Rightarrow> ExportCaeResult \<Rightarrow> IssuedVoucherData \<Rightarrow> bool" where
  "comesFrom input request cae d \<longleftrightarrow>
     xr_items request = ex_items input \<and> xr_totalAmount request = exportVoucherTotal (ex_items input) \<and>
     xr_number request = Some (of_int (vd_number d)) \<and> xr_voucherType request = vd_voucherType d \<and>
     vd_issuerId d = ex_issuerId input \<and> vd_cae d = Some (xc_cae cae) \<and> vd_caeExpiration d = Some (xc_caeVto cae) \<and>
     vd_totalAmount d = xr_totalAmount request \<and> vd_exemptAmount d = vd_totalAmount d \<and>
     map vi_subtotal (vd_items d) = map exportItemTotal (ex_items input)"

text \<open>
  An export voucher that is returned is one that ARCA authorised: its issuer belongs
  to the user, exactly its row is added, with the number, type and total of the request that was
  sent, the lines of the request, and the CAE that was answered.
\<close>

lemma export_stores_authorized:
  assumes "issueExport p wire authFor u input w = (Inr v, w')"
  shows "(\<exists>issuer\<in>set (issuers w). issuer_id issuer = ex_issuerId input \<and> issuer_userId issuer = u) \<and>
    vouchers w' = vouchers w @ [exported_row v] \<and>
    (\<exists>auth request cae s s'. authorize wire auth request s = (Inr cae, s') \<and>
      comesFrom input request cae (voucher_data (exported_row v)))"
  using assms
proof (cases rule: issueExport_cases)
  case (granted issuer auth l i t cae s s')
  let ?request = "exportRequest input l i t (exportVoucherTotal (ex_items input))"
  have owner: "\<exists>issuer\<in>set (issuers w). issuer_id issuer = ex_issuerId input \<and> issuer_userId issuer = u"
    using granted by blast
  have row: "vouchers w' = vouchers w @ [exported_row v]"
    using persist_rows(2) [OF granted(5)] by simp
  obtain spId n where n: "wholeNumber (xr_number ?request) = Some n"
    and d: "voucher_data (exported_row v) = exportVoucherData \<lparr>em_issuer = issuer, em_input = input, em_request = ?request,
      em_cae = cae, em_totalAmount = exportVoucherTotal (ex_items input)\<rparr> n spId
      (exportQr (timeZone p) \<lparr>em_issuer = issuer, em_input = input, em_request = ?request,
      em_cae = cae, em_totalAmount = exportVoucherTotal (ex_items input)\<rparr> n)"
    using persist_rows(3) [OF granted(5) refl] by auto
  have "comesFrom input ?request cae (voucher_data (exported_row v))"
    using granted(2) wholeNumber_Some [OF n] unfolding d
    by (simp add: comesFrom_def exportVoucherData_def Let_def exportRequest_def comp_def exportItemData_def)
  then show ?thesis using granted(4) owner row by blast
qed simp

text \<open>
  Property C24. An export that fails leaves nothing behind: neither a voucher nor a queued
  request, even when ARCA had authorised it, so its CAE is lost.
\<close>

theorem export_failure_loses_cae:
  assumes "issueExport p wire authFor u input w = (Inl e, w')"
  shows "vouchers w' = vouchers w \<and> pendingVouchers w' = pendingVouchers w"
  using assms
proof (cases rule: issueExport_cases)
  case (failed e)
  have "vouchers (w\<lparr>outside := s\<rparr>) = vouchers w \<and> pendingVouchers (w\<lparr>outside := s\<rparr>) = pendingVouchers w" for s by simp
  then show ?thesis using failed(2) by metis
next
  case (granted issuer auth l i t cae s s')
  then show ?thesis using persist_rows(1,2) [OF granted(5)] by simp
qed

subsection \<open>A small export\<close>

definition exportAnswer :: xml where
  "exportAnswer = XRecord [(''Id'', XText ''3''), (''Cbte_nro'', XText ''7''), (''Cae'', XText ''71''),
     (''Fch_venc_Cae'', XText ''20240110'')]"

definition logs :: "ArcaCallRow list \<Rightarrow> unit arca_net \<Rightarrow> unit arca_net" where
  "logs rows s = s\<lparr>arcaCalls := arcaCalls s @ rows, nextCall := nextCall s + length rows\<rparr>"

definition sampleLogged :: "AuthContext \<Rightarrow> string \<Rightarrow> string \<Rightarrow> unit arca_net \<Rightarrow> ArcaCallRow" where
  "sampleLogged auth operation body s = loggedRow (sampleWire exportAnswer)
     \<lparr>call_issuerId = Some (auth_issuerId auth), call_service = WSFEX_SERVICE, call_operation = WSFEX_NS @ operation,
      call_httpStatus = 200, call_durationMs = 0, call_outcome = SUCCESS, call_errorCodes = Some [],
      call_requestXml = wsfexEnvelope body, call_responseXml = ''<r/>''\<rparr> (replicate (nextCall s) (CHR ''a'')) 1700000000000"

lemma sample_callWsfex:
  "callWsfex (sampleWire exportAnswer) auth operation body s = (Inr exportAnswer, logs [sampleLogged auth operation body s] s)"
  by (cases s) (simp add: callWsfex_def callSoap_def recordOutcome_def recordCall_def onNet_def sampleWire_def
      sampleLogged_def logs_def responseErrorCodes_def blockBetween_def startsWith_def responseOk_def Let_def parseXml_def
      isXmlRecord_def exportAnswer_def action_simps)

lemma sample_numbers:
  "js_Number ''7'' = Some 7" "js_Number ''3'' = Some 3" "\<exists>d. parseArcaDate tz ''20240110'' = Some d"
  by (simp_all add: js_Number_digits integerNumber_digits isDigit_def valueOf_def digitValue_def parseArcaDate_def
      dateOfNumbers_def)

definition sampleExport :: IssueExportVoucher where
  "sampleExport = \<lparr>ex_issuerId = ''i'', ex_salesPoint = 3, ex_voucherType = EXPORT_INVOICE, ex_exportType = EXPORT_SERVICES,
     ex_destinationCountryId = 203, ex_countryTaxId = ''50000000016'', ex_client = \<lparr>exc_legalName = ''ACME'',
     exc_address = ''x'', exc_taxId = None\<rparr>, ex_currency = ''DOL'', ex_exchangeRate = 1, ex_language = ENGLISH,
     ex_incoterm = None, ex_incotermDescription = None, ex_paymentMethod = None, ex_commercialNotes = None,
     ex_notes = None, ex_shippingPermits = None, ex_items = [sampleExportItem], ex_associatedVouchers = None\<rparr>"

text \<open>A database that answers until a given number of calls to ARCA have been logged.\<close>

definition exportPorts :: "nat \<Rightarrow> unit arca_net ports" where
  "exportPorts limit = samplePortsOnWire\<lparr>cuid := \<lambda>n. replicate n (CHR ''c''),
     database := \<lambda>s. (if length (arcaCalls s) < limit then None else Some ''connection lost'', s)\<rparr>"

definition exportWorld :: "unit arca_net world" where
  "exportWorld = worldOnWire\<lparr>issuers := [sampleIssuer]\<rparr>"

abbreviation (input) sampleAuthority :: "unit authority" where
  "sampleAuthority \<equiv> \<lambda>issuer service s. (Inr sampleAuth, s)"

lemma exportWorld_ok: "stateOk (exportPorts limit) exportWorld"
proof -
  have "inj (\<lambda>n. replicate n (CHR ''c''))" by (rule injI) (metis length_replicate)
  then show ?thesis
    by (simp add: stateOk_def portsOk_def databaseOk_defs exportPorts_def samplePortsOnWire_def exportWorld_def
        worldOnWire_def pendingKeys_def)
qed

theorem export_keeps_database_witness:
  "stateOk (exportPorts 3) (snd (issueExport (exportPorts 3) (sampleWire exportAnswer) sampleAuthority ''u'' sampleExport exportWorld)) \<and>
   grows exportWorld (snd (issueExport (exportPorts 3) (sampleWire exportAnswer) sampleAuthority ''u'' sampleExport exportWorld))"
  using export_keeps_database [OF exportWorld_ok] .

lemma sample_tags:
  "assertNoError exportAnswer = Inr ()" "tagOptional exportAnswer ''Cbte_nro'' ''0'' = ''7''"
  "tagOptional exportAnswer ''Id'' ''0'' = ''3''" "tagOptional exportAnswer ''Resultado'' '''' = ''''"
  "tagOptional exportAnswer ''Reproceso'' '''' = ''''" "tagRequired exportAnswer ''Cae'' = Inr ''71''"
  "tagRequired exportAnswer ''Fch_venc_Cae'' = Inr ''20240110''" "observationsOf exportAnswer = []"
  by (simp_all add: assertNoError_def tagOptional_def tagRequired_def observationsOf_def codedEntries_def exportAnswer_def
      NO_ERROR_CODE_def)

lemma sample_last:
  "\<exists>row. wsfexLastAuthorized (sampleWire exportAnswer) auth sp vt s = (Inr (Some 7), logs [row] s)"
  by (simp add: wsfexLastAuthorized_def sample_callWsfex liftS_def sample_tags sample_numbers action_simps) blast

lemma sample_requestId:
  "\<exists>row. getLastRequestId (sampleWire exportAnswer) auth s = (Inr (Some 3), logs [row] s)"
  by (simp add: getLastRequestId_def sample_callWsfex liftS_def sample_tags sample_numbers action_simps) blast

lemma sample_authorize:
  "\<exists>row d. log_operation row = WSFEX_NS @ ''FEXAuthorize'' \<and> log_outcome row = SUCCESS \<and>
     authorize (sampleWire exportAnswer) auth request s =
     (Inr \<lparr>xc_cae = ''71'', xc_caeVto = Some d, xc_observations = [], reprocessed = False\<rparr>, logs [row] s)"
proof -
  obtain d where "parseArcaDate (wire_timeZone (sampleWire exportAnswer)) ''20240110'' = Some d"
    using sample_numbers(3) by blast
  then have "parseAuthorizeResponse (wire_timeZone (sampleWire exportAnswer)) exportAnswer =
      Inr \<lparr>xc_cae = ''71'', xc_caeVto = Some d, xc_observations = [], reprocessed = False\<rparr>"
    by (simp add: parseAuthorizeResponse_def sample_tags)
  then have "authorize (sampleWire exportAnswer) auth request s =
     (Inr \<lparr>xc_cae = ''71'', xc_caeVto = Some d, xc_observations = [], reprocessed = False\<rparr>,
      logs [sampleLogged auth ''FEXAuthorize'' (element ''FEXAuthorize'' (authBlock auth @
        buildRequest (wire_timeZone (sampleWire exportAnswer)) request)) s] s)"
    by (simp add: authorize_def sample_callWsfex liftS_def bindA_def)
  moreover have "log_operation (sampleLogged auth operation body s) = WSFEX_NS @ operation"
    "log_outcome (sampleLogged auth operation body s) = SUCCESS" for operation body
    by (simp_all add: sampleLogged_def loggedRow_def)
  ultimately show ?thesis by blast
qed

lemma sample_reaches:
  assumes "0 < limit"
  shows "\<exists>rows d. length rows = 3 \<and> log_operation (last rows) = WSFEX_NS @ ''FEXAuthorize'' \<and> log_outcome (last rows) = SUCCESS \<and>
     issueExport (exportPorts limit) (sampleWire exportAnswer) sampleAuthority ''u'' sampleExport exportWorld =
     persist (exportPorts limit)
       \<lparr>em_issuer = sampleIssuer, em_input = sampleExport,
        em_request = exportRequest sampleExport (Some 7) (Some 3) 0 (exportVoucherTotal (ex_items sampleExport)),
        em_cae = \<lparr>xc_cae = ''71'', xc_caeVto = Some d, xc_observations = [], reprocessed = False\<rparr>,
        em_totalAmount = exportVoucherTotal (ex_items sampleExport)\<rparr>
       (exportWorld\<lparr>outside := logs rows sampleNet\<rparr>)"
proof -
  have found: "table (exportPorts limit) (getA (\<lambda>w. findRow (\<lambda>r. issuer_id r = ex_issuerId sampleExport \<and>
      issuer_userId r = ''u'') (issuers w))) exportWorld = (Inr (Some sampleIssuer), exportWorld)"
    using assms by (simp add: table_def external_def reachDatabase_def exportPorts_def samplePortsOnWire_def exportWorld_def
        worldOnWire_def sampleNet_def sampleIssuer_def sampleExport_def findRow_def action_simps)
  have out: "outside exportWorld = sampleNet" by (simp add: exportWorld_def worldOnWire_def)
  have clock: "clock (exportPorts limit) s = (0, s)" for s by (simp add: exportPorts_def samplePortsOnWire_def)
  have logs2: "logs rows' (logs rows s) = logs (rows @ rows') s" for rows rows' s
    by (cases s) (simp add: logs_def)
  obtain r1 where r1: "wsfexLastAuthorized (sampleWire exportAnswer) sampleAuth (ex_salesPoint sampleExport)
      (exportVoucherTypeId (ex_voucherType sampleExport)) sampleNet = (Inr (Some 7), logs [r1] sampleNet)"
    using sample_last by blast
  obtain r2 where r2: "getLastRequestId (sampleWire exportAnswer) sampleAuth (logs [r1] sampleNet) =
      (Inr (Some 3), logs [r1, r2] sampleNet)"
    using sample_requestId [of sampleAuth "logs [r1] sampleNet"] by (auto simp: logs2)
  obtain r3 d where r3: "log_operation r3 = WSFEX_NS @ ''FEXAuthorize''" "log_outcome r3 = SUCCESS"
    "authorize (sampleWire exportAnswer) sampleAuth (exportRequest sampleExport (Some 7) (Some 3) 0
      (exportVoucherTotal (ex_items sampleExport))) (logs [r1, r2] sampleNet) =
     (Inr \<lparr>xc_cae = ''71'', xc_caeVto = Some d, xc_observations = [], reprocessed = False\<rparr>, logs [r1, r2, r3] sampleNet)"
    using sample_authorize [of sampleAuth _ "logs [r1, r2] sampleNet"] by (fastforce simp: logs2)
  show ?thesis
    by (rule exI [of _ "[r1, r2, r3]"], rule exI [of _ d])
       (simp add: issueExport_def exportUnderLock_def bindA_def found external_def out bothA_def now_def clock r1 r2 r3 Let_def)
qed

text \<open>The database is lost after the authorisation: ARCA's CAE is only in the log of the calls.\<close>

theorem export_failure_loses_cae_witness:
  "\<exists>e w'. issueExport (exportPorts 3) (sampleWire exportAnswer) sampleAuthority ''u'' sampleExport exportWorld = (Inl e, w') \<and>
     (\<exists>row\<in>set (arcaCalls (outside w')). log_operation row = WSFEX_NS @ ''FEXAuthorize'' \<and> log_outcome row = SUCCESS) \<and>
     vouchers w' = [] \<and> pendingVouchers w' = []"
proof -
  obtain rows d where rows: "length rows = 3" "log_operation (last rows) = WSFEX_NS @ ''FEXAuthorize''"
      "log_outcome (last rows) = SUCCESS"
    and run: "issueExport (exportPorts 3) (sampleWire exportAnswer) sampleAuthority ''u'' sampleExport exportWorld =
     persist (exportPorts 3)
       \<lparr>em_issuer = sampleIssuer, em_input = sampleExport,
        em_request = exportRequest sampleExport (Some 7) (Some 3) 0 (exportVoucherTotal (ex_items sampleExport)),
        em_cae = \<lparr>xc_cae = ''71'', xc_caeVto = Some d, xc_observations = [], reprocessed = False\<rparr>,
        em_totalAmount = exportVoucherTotal (ex_items sampleExport)\<rparr>
       (exportWorld\<lparr>outside := logs rows sampleNet\<rparr>)"
    using sample_reaches [of 3] by auto
  have "last rows \<in> set rows" using rows(1) by (cases rows) auto
  moreover obtain e w' where failed:
    "issueExport (exportPorts 3) (sampleWire exportAnswer) sampleAuthority ''u'' sampleExport exportWorld = (Inl e, w')"
    and "outside w' = logs rows sampleNet"
    unfolding run using rows(1)
    by (simp add: persist_def upsertSalesPoint_def table_def external_def reachDatabase_def exportPorts_def logs_def
        sampleNet_def bindA_def Let_def)
  ultimately show ?thesis using rows export_failure_loses_cae [OF failed]
    by (auto simp: logs_def sampleNet_def exportWorld_def worldOnWire_def)
qed

theorem export_stores_authorized_witness:
  "\<exists>v w'. issueExport (exportPorts 4) (sampleWire exportAnswer) sampleAuthority ''u'' sampleExport exportWorld = (Inr v, w') \<and>
     vouchers w' = [exported_row v]"
proof -
  obtain rows d where rows: "length rows = 3"
    and run: "issueExport (exportPorts 4) (sampleWire exportAnswer) sampleAuthority ''u'' sampleExport exportWorld =
     persist (exportPorts 4)
       \<lparr>em_issuer = sampleIssuer, em_input = sampleExport,
        em_request = exportRequest sampleExport (Some 7) (Some 3) 0 (exportVoucherTotal (ex_items sampleExport)),
        em_cae = \<lparr>xc_cae = ''71'', xc_caeVto = Some d, xc_observations = [], reprocessed = False\<rparr>,
        em_totalAmount = exportVoucherTotal (ex_items sampleExport)\<rparr>
       (exportWorld\<lparr>outside := logs rows sampleNet\<rparr>)"
    using sample_reaches [of 4] by auto
  have whole: "exportVoucherTotal (ex_items sampleExport) = 100"
    using shared_money.round_of_cents [of 10000]
    by (simp add: exportVoucherTotal_def sampleExport_def sample_export_total hundred js_add_def cents_range_def)
  have eight: "wholeNumber (nextNumber (Some 7)) = Some 8"
    using fl_of_int [of 8] by (simp add: wholeNumber_def nextNumber_def js_add_def)
  obtain v w' where stored:
    "issueExport (exportPorts 4) (sampleWire exportAnswer) sampleAuthority ''u'' sampleExport exportWorld = (Inr v, w')"
    unfolding run using rows
    by (simp add: persist_def upsertSalesPoint_def insertVoucher_def table_def external_def reachDatabase_def exportPorts_def
        logs_def sampleNet_def bindA_def Let_def exportRequest_def eight whole exportWorld_def worldOnWire_def findRow_def
        newId_def returnA_def putA_def samplePortsOnWire_def validDates_def fitsDecimal_def exportVoucherData_def
        getA_def)
  then show ?thesis using export_stores_authorized [OF stored]
    by (auto simp: exportWorld_def worldOnWire_def)
qed

end
