(* ===== verification/CacheTables.thy ===== *)
theory CacheTables
  imports World
begin

text \<open>
  The \<open>upsert\<close> of Prisma on a table with a unique key: the contract of a table that is
  read by its key, as a locale. The caches of tickets, parameters and taxpayers interpret it in
  their own theories.
\<close>

definition upsertRow :: "('r \<Rightarrow> bool) \<Rightarrow> ('r \<Rightarrow> 'r) \<Rightarrow> 'r \<Rightarrow> 'r list \<Rightarrow> 'r list" where
  "upsertRow same update create rows =
     (if list_ex same rows then map (\<lambda>r. if same r then update r else r) rows else rows @ [create])"

lemma findRow_Nil [simp]: "findRow P [] = None"
  by (simp add: findRow_def)

lemma findRow_Cons [simp]: "findRow P (r # rows) = (if P r then Some r else findRow P rows)"
  by (simp add: findRow_def)

lemma findRow_upsert_same:
  assumes "\<And>r. same r \<Longrightarrow> same (update r)" "same create"
  shows "findRow same (upsertRow same update create rows) =
    Some (case findRow same rows of None \<Rightarrow> create | Some r \<Rightarrow> update r)"
proof (cases "list_ex same rows")
  case True
  have "list_ex same rows \<Longrightarrow> findRow same (map (\<lambda>r. if same r then update r else r) rows) =
      Some (case findRow same rows of None \<Rightarrow> create | Some r \<Rightarrow> update r)"
    using assms by (induction rows) auto
  with True show ?thesis by (simp add: upsertRow_def)
next
  case False
  then have "findRow same rows = None" by (auto simp: findRow_None list_ex_iff)
  with False show ?thesis using assms(2) by (simp add: upsertRow_def findRow_append)
qed

lemma findRow_upsert_other:
  assumes "\<And>r. same r \<Longrightarrow> \<not> other r \<and> \<not> other (update r)" "\<not> other create"
  shows "findRow other (upsertRow same update create rows) = findRow other rows"
proof -
  have "findRow other (map (\<lambda>r. if same r then update r else r) rows) = findRow other rows"
    using assms(1) by (induction rows) auto
  then show ?thesis using assms(2) by (simp add: upsertRow_def findRow_append split: option.split)
qed

text \<open>
  What an upsert promises: the row of its key is the one given, merged with the row there was,
  and the rows of the other keys stay.
\<close>

locale upsert_table =
  fixes same :: "'k \<Rightarrow> 'r \<Rightarrow> bool" and put :: "'k \<Rightarrow> 'd \<Rightarrow> 'r list \<Rightarrow> 'r list"
    and merge :: "'k \<Rightarrow> 'd \<Rightarrow> 'r option \<Rightarrow> 'r"
  assumes put_same: "findRow (same k) (put k d rows) = Some (merge k d (findRow (same k) rows))"
    and put_other: "k \<noteq> k' \<Longrightarrow> findRow (same k') (put k d rows) = findRow (same k') rows"
begin

lemma put_lookup:
  "findRow (same k') (put k d rows) = (if k' = k then Some (merge k d (findRow (same k) rows)) else findRow (same k') rows)"
  by (simp add: put_same put_other)

lemma put_commute:
  "k \<noteq> k' \<Longrightarrow> findRow (same j) (put k d (put k' d' rows)) = findRow (same j) (put k' d' (put k d rows))"
  by (simp add: put_lookup)

end

text \<open>A table whose rows are replaced: the last write wins.\<close>

locale replacing_table = upsert_table +
  assumes merge_replaces: "merge k d old = merge k d None"
begin

lemma last_write_wins: "findRow (same k) (put k d (put k d' rows)) = findRow (same k) (put k d rows)"
  by (simp add: put_same merge_replaces [of k d "Some _"] merge_replaces [of k d "findRow (same k) rows"])

end

end
