(* ===== verification/Wsaa.thy ===== *)
theory Wsaa
  imports CacheTables WsfeService Vouchers UtcDate
begin

text \<open>
  The access tickets of WSAA: \<open>arca/wsaa/wsaa.service.ts\<close> with its cache and the messages
  of \<open>arca/wsaa/wsaa-fault.ts\<close>. The CMS signature of \<open>node-forge\<close> is the argument
  \<open>signCms\<close>: \<open>None\<close> when it throws.
\<close>

definition TICKET_RENEWAL_MARGIN_MS :: int where
  "TICKET_RENEWAL_MARGIN_MS = 600000"

definition LOGIN_TICKET_CLOCK_SKEW_MS :: int where
  "LOGIN_TICKET_CLOCK_SKEW_MS = 600000"

definition WSAA_OPERATION :: string where
  "WSAA_OPERATION = ''loginCms''"

definition WSAA_SERVICE :: string where
  "WSAA_SERVICE = ''wsaa''"

subsection \<open>The messages of a fault\<close>

definition WSAA_FAULT_MESSAGES :: "string \<Rightarrow> string option" where
  "WSAA_FAULT_MESSAGES = map_of
     [(''coe.notAuthorized'',
        ''El certificado todav'' @ [CHR 0xED] @ ''a no est'' @ [CHR 0xE1] @ '' autorizado a usar Facturaci'' @ [CHR 0xF3] @ ''n Electr'' @ [CHR 0xF3] @ ''nica. '' @
        ''En ARCA, entr'' @ [CHR 0xE1] @ '' a Administrador de Relaciones de Clave Fiscal, agreg'' @ [CHR 0xE1] @ '' una nueva '' @
        ''relaci'' @ [CHR 0xF3] @ ''n al servicio AFIP > WebServices > Facturaci'' @ [CHR 0xF3] @ ''n Electr'' @ [CHR 0xF3] @ ''nica, y eleg'' @ [CHR 0xED] @ '' como '' @
        ''representante el certificado que cargaste.''),
      (''cms.cert.untrusted'',
        ''ARCA no reconoce el certificado. Suele pasar cuando el certificado es de '' @
        ''producci'' @ [CHR 0xF3] @ ''n y el emisor est'' @ [CHR 0xE1] @ '' configurado en homologaci'' @ [CHR 0xF3] @ ''n, o al rev'' @ [CHR 0xE9] @ ''s.''),
      (''cms.cert.expired'', ''El certificado venci'' @ [CHR 0xF3] @ ''. Hay que generar un pedido nuevo en ARCA y volver a cargarlo.''),
      (''cms.cert.notFound'', ''El certificado no lleg'' @ [CHR 0xF3] @ '' completo a ARCA. Hay que volver a cargarlo.''),
      (''cms.sign.invalid'',
        ''La firma del pedido no es v'' @ [CHR 0xE1] @ ''lida. Hay que generar el CSR de nuevo y volver a '' @
        ''pedirle el certificado a ARCA.''),
      (''cms.bad.base64'', ''ARCA no pudo leer el pedido de autenticaci'' @ [CHR 0xF3] @ ''n. Hay que volver a cargar el certificado.'')]"

definition withoutNamespacePrefix :: "string \<Rightarrow> string" where
  "withoutNamespacePrefix qualifiedName =
     (if CHR '':'' \<in> set qualifiedName then drop 1 (dropWhile (\<lambda>c. c \<noteq> CHR '':'') qualifiedName) else qualifiedName)"

text \<open>
  The group of \<open>/<name[^>]*>([^<]+)<\/name>/\<close> where a text begins, and in its first match.
\<close>

definition elementHere :: "string \<Rightarrow> string \<Rightarrow> string option" where
  "elementHere name s =
     (if \<not> startsWith (CHR ''<'' # name) s then None
      else (let attributes = dropWhile (\<lambda>c. c \<noteq> CHR ''>'') (drop (Suc (length name)) s) in
        if attributes = [] then None
        else (let body = takeWhile (\<lambda>c. c \<noteq> CHR ''<'') (tl attributes);
                  rest = dropWhile (\<lambda>c. c \<noteq> CHR ''<'') (tl attributes) in
          if body \<noteq> [] \<and> startsWith (''</'' @ name @ ''>'') rest then Some body else None)))"

fun elementText :: "string \<Rightarrow> string \<Rightarrow> string option" where
  "elementText name [] = None"
| "elementText name (c # s) = (case elementHere name (c # s) of Some t \<Rightarrow> Some t | None \<Rightarrow> elementText name s)"

definition knownFaultMessage :: "string \<Rightarrow> string option" where
  "knownFaultMessage soapXml = (case elementText ''faultcode'' soapXml of
      None \<Rightarrow> None
    | Some qualifiedCode \<Rightarrow>
        (let code = withoutNamespacePrefix qualifiedCode in
         if code = '''' then None else WSAA_FAULT_MESSAGES (trim code)))"

definition wsaaFaultMessage :: "string \<Rightarrow> int \<Rightarrow> string" where
  "wsaaFaultMessage soapXml httpStatus =
     (let known = knownFaultMessage soapXml in
      if known \<noteq> None \<and> known \<noteq> Some '''' then the known
      else (case elementText ''faultstring'' soapXml of
          None \<Rightarrow> ''WSAA devolvi'' @ [CHR 0xF3] @ '' error HTTP '' @ intToString httpStatus @ ''.''
        | Some fault \<Rightarrow> ''ARCA rechaz'' @ [CHR 0xF3] @ '' la autenticaci'' @ [CHR 0xF3] @ ''n: '' @ trim fault))"

subsection \<open>Logging in\<close>

definition wsaaUrl :: "'s wire \<Rightarrow> string \<Rightarrow> string" where
  "wsaaUrl p environment =
     (if isProduction environment
      then orElse (configured p ''ARCA_WSAA_URL_PROD'') ''https://wsaa.afip.gov.ar/ws/services/LoginCms''
      else orElse (configured p ''ARCA_WSAA_URL_HOMO'') ''https://wsaahomo.afip.gov.ar/ws/services/LoginCms'')"

definition xmlTag :: "string \<Rightarrow> string \<Rightarrow> string" where
  "xmlTag name body = ''<'' @ name @ ''>'' @ body @ ''</'' @ name @ ''>''"

definition quoted :: "string \<Rightarrow> string" where
  "quoted s = CHR 0x22 # s @ [CHR 0x22]"

definition buildLoginTicketRequest :: "date \<Rightarrow> string \<Rightarrow> string" where
  "buildLoginTicketRequest t service =
     ''<?xml version='' @ quoted ''1.0'' @ '' encoding='' @ quoted ''UTF-8'' @ ''?>'' @
     ''<loginTicketRequest version='' @ quoted ''1.0'' @ ''>'' @
     xmlTag ''header''
       (xmlTag ''uniqueId'' (intToString (t div 1000)) @
        xmlTag ''generationTime'' (toISOString (t - LOGIN_TICKET_CLOCK_SKEW_MS)) @
        xmlTag ''expirationTime'' (toISOString (t + LOGIN_TICKET_CLOCK_SKEW_MS))) @
     xmlTag ''service'' service @ ''</loginTicketRequest>''"

definition loginEnvelope :: "string \<Rightarrow> string" where
  "loginEnvelope cmsBase64 =
     ''<soapenv:Envelope'' @ '' xmlns:soapenv='' @ quoted ''http://schemas.xmlsoap.org/soap/envelope/'' @
     '' xmlns:wsaa='' @ quoted ''http://wsaa.view.sua.dvadac.desein.afip.gov'' @ ''>'' @ ''<soapenv:Header/>'' @
     xmlTag ''soapenv:Body'' (xmlTag ''wsaa:loginCms'' (xmlTag ''wsaa:in0'' cmsBase64)) @ ''</soapenv:Envelope>''"

definition callLoginCms :: "'s wire \<Rightarrow> string \<Rightarrow> string \<Rightarrow> string \<Rightarrow> ('s, string) call" where
  "callLoginCms p i cmsBase64 environment =
     (let envelope = loginEnvelope cmsBase64 in
      bindA (onNet (wire_clock p)) (\<lambda>startedAt.
       (let note = recordOutcome p (Some i) WSAA_SERVICE WSAA_OPERATION envelope startedAt in
        bindA (onNet (fetch p (wsaaUrl p environment) '''' envelope)) (\<lambda>reply.
          case reply of
            FetchFailed message \<Rightarrow> bindA (note NETWORK_ERROR 0 message None) (\<lambda>_. throwA (OtherError message))
          | BodyLost message \<Rightarrow> throwA (OtherError message)
          | Answer status text \<Rightarrow>
              if \<not> responseOk status
              then bindA (note FAULT status text None) (\<lambda>_. throwA (InternalServerError (wsaaFaultMessage text status)))
              else bindA (note SUCCESS status text None) (\<lambda>_. returnA text)))))"

text \<open>\<open>typeof value === "string"\<close>.\<close>

definition stringOf :: "xml option \<Rightarrow> string option" where
  "stringOf v = (case v of Some (XText s) \<Rightarrow> Some s | _ \<Rightarrow> None)"

text \<open>\<open>Boolean(fault)\<close>.\<close>

definition truthy :: "xml option \<Rightarrow> bool" where
  "truthy v = (case v of None \<Rightarrow> False | Some (XText s) \<Rightarrow> s \<noteq> '''' | Some (XNumber n) \<Rightarrow> n \<noteq> 0 | Some (XBool b) \<Rightarrow> b
     | Some (XList xs) \<Rightarrow> True | Some (XRecord fs) \<Rightarrow> True)"

definition faultSuffix :: "xml option \<Rightarrow> string" where
  "faultSuffix fault = (if truthy fault then '': '' @ textOfValue fault else '''')"

text \<open>
  \<open>new Date(text)\<close> of the date-time format of ECMAScript: a day, a time with optional
  fraction, and Z, an offset, or nothing for local time. Other texts, whose meaning the language
  leaves to the engine, are an Invalid Date here.
\<close>

definition twoDigits :: "string \<Rightarrow> int option" where
  "twoDigits s = (if length s = 2 \<and> list_all isDigit s then Some (valueOf s) else None)"

definition offsetOf :: "int \<Rightarrow> string \<Rightarrow> int option" where
  "offsetOf tz s =
     (if s = '''' then Some tz
      else if s = ''Z'' then Some 0
      else if length s = 6 \<and> (hd s = CHR ''+'' \<or> hd s = CHR ''-'') \<and> s ! 3 = CHR '':''
      then (case (twoDigits (take 2 (drop 1 s)), twoDigits (drop 4 s)) of
          (Some h, Some m) \<Rightarrow> if h < 24 \<and> m < 60 then Some ((if hd s = CHR ''-'' then -1 else 1) * (h * 3600000 + m * 60000)) else None
        | _ \<Rightarrow> None)
      else None)"

definition fractionOf :: "string \<Rightarrow> (int \<times> string) option" where
  "fractionOf s =
     (if s \<noteq> [] \<and> hd s = CHR ''.''
      then (let ds = takeWhile isDigit (tl s); rest = dropWhile isDigit (tl s) in
        if ds = [] then None else Some (valueOf (take 3 (ds @ ''00'')), rest))
      else Some (0, s))"

definition dateOfIsoText :: "int \<Rightarrow> string \<Rightarrow> js_date" where
  "dateOfIsoText tz s =
     (let day = take 10 s; clock = take 8 (drop 11 s) in
      if isIsoDay day \<and> 19 \<le> length s \<and> s ! 10 = CHR ''T'' \<and> clock ! 2 = CHR '':'' \<and> clock ! 5 = CHR '':''
      then (case (dateOfIsoDay day, twoDigits (take 2 clock), twoDigits (take 2 (drop 3 clock)), twoDigits (drop 6 clock),
               fractionOf (drop 19 s)) of
          (Some d, Some h, Some m, Some sec, Some (ms, zone)) \<Rightarrow>
            (case offsetOf tz zone of
               None \<Rightarrow> None
             | Some off \<Rightarrow> if h < 24 \<and> m < 60 \<and> sec < 60
                 then Some (d + h * 3600000 + m * 60000 + sec * 1000 + ms - off) else None)
        | _ \<Rightarrow> None)
      else None)"

text \<open>\<open>new Date(String(value))\<close>.\<close>

definition dateOfValue :: "int \<Rightarrow> xml option \<Rightarrow> js_date" where
  "dateOfValue tz v = (case v of None \<Rightarrow> None | Some x \<Rightarrow> dateOfIsoText tz (xmlText x))"

definition parseLoginResponse :: "'s wire \<Rightarrow> string \<Rightarrow> app_error + AccessTicket" where
  "parseLoginResponse p soapXml =
     (let soap = parseXml (xmlParser p) soapXml in
      case stringOf (findByTag ''loginCmsReturn'' soap) of
        None \<Rightarrow> Inl (InternalServerError (''WSAA no devolvi'' @ [CHR 0xF3] @ '' un TA'' @
            faultSuffix (findByTag ''faultstring'' soap) @ ''.''))
      | Some loginReturn \<Rightarrow>
          (let inner = parseXml (xmlParser p) loginReturn in
           case (stringOf (findByTag ''token'' inner), stringOf (findByTag ''sign'' inner)) of
             (Some token, Some sign) \<Rightarrow> Inr \<lparr>ticket_token = token, ticket_sign = sign,
                 ticket_expiration = dateOfValue (wire_timeZone p) (findByTag ''expirationTime'' inner),
                 ticket_generation = dateOfValue (wire_timeZone p) (findByTag ''generationTime'' inner)\<rparr>
           | _ \<Rightarrow> Inl (InternalServerError ''No se pudieron extraer token/sign de la respuesta de WSAA.'')))"

definition login_wsaa ::
  "'s wire \<Rightarrow> ('c \<Rightarrow> string \<Rightarrow> string option) \<Rightarrow> string \<Rightarrow> 'c \<Rightarrow> string \<Rightarrow> string \<Rightarrow> ('s, AccessTicket) call" where
  "login_wsaa p signCms i creds service environment =
     bindA (onNet (wire_clock p)) (\<lambda>t.
       case signCms creds (buildLoginTicketRequest t service) of
         None \<Rightarrow> throwA (InternalServerError (''No se pudo firmar el pedido de autenticaci'' @ [CHR 0xF3] @ ''n (CMS).''))
       | Some cms \<Rightarrow> bindA (callLoginCms p i cms environment) (\<lambda>responseXml. liftS (parseLoginResponse p responseXml)))"

subsection \<open>The cache\<close>

definition sameTicketKey :: "string \<Rightarrow> string \<Rightarrow> string \<Rightarrow> TicketRow \<Rightarrow> bool" where
  "sameTicketKey holder environment service r =
     (tc_holderCuit r = holder \<and> tc_environment r = environment \<and> tc_service r = service)"

definition ticketOfRow :: "TicketRow \<Rightarrow> AccessTicket" where
  "ticketOfRow r = \<lparr>ticket_token = tc_token r, ticket_sign = tc_sign r, ticket_expiration = Some (tc_expiration r),
     ticket_generation = Some (tc_generation r)\<rparr>"

record TicketKey =
  key_holderCuit :: string
  key_environment :: string
  key_service :: string

record StoredTicket =
  stored_token :: string
  stored_sign :: string
  stored_generation :: date
  stored_expiration :: date

definition ticketKeyOf :: "TicketKey \<Rightarrow> TicketRow \<Rightarrow> bool" where
  "ticketKeyOf k r = sameTicketKey (key_holderCuit k) (key_environment k) (key_service k) r"

definition ticketRow :: "TicketKey \<Rightarrow> StoredTicket \<Rightarrow> TicketRow" where
  "ticketRow k d = \<lparr>tc_holderCuit = key_holderCuit k, tc_environment = key_environment k, tc_service = key_service k,
     tc_token = stored_token d, tc_sign = stored_sign d, tc_generation = stored_generation d,
     tc_expiration = stored_expiration d\<rparr>"

definition putTicket :: "TicketKey \<Rightarrow> StoredTicket \<Rightarrow> TicketRow list \<Rightarrow> TicketRow list" where
  "putTicket k d rows = upsertRow (ticketKeyOf k)
     (\<lambda>r. r\<lparr>tc_token := stored_token d, tc_sign := stored_sign d, tc_generation := stored_generation d,
       tc_expiration := stored_expiration d\<rparr>) (ticketRow k d) rows"

text \<open>An Invalid Date is refused by the client of the database.\<close>

definition upsertTicket :: "'a ports \<Rightarrow> TicketKey \<Rightarrow> AccessTicket \<Rightarrow> ('a, unit) effect" where
  "upsertTicket p k ticket = table p (\<lambda>w.
     (case (ticket_generation ticket, ticket_expiration ticket) of
        (Some gen, Some expires) \<Rightarrow> (Inr (), w\<lparr>ticketCache := putTicket k
          \<lparr>stored_token = ticket_token ticket, stored_sign = ticket_sign ticket, stored_generation = gen,
           stored_expiration = expires\<rparr> (ticketCache w)\<rparr>)
      | _ \<Rightarrow> (Inl (OtherError ''PrismaClientValidationError''), w)))"

definition renewTicket ::
  "'s arca_net ports \<Rightarrow> 's wire \<Rightarrow> ('c \<Rightarrow> string \<Rightarrow> string option) \<Rightarrow> string \<Rightarrow> 'c \<Rightarrow> TicketKey \<Rightarrow>
   ('s arca_net, AccessTicket) effect" where
  "renewTicket p wire signCms i credentials k =
     bindA (external (login_wsaa wire signCms i credentials (key_service k) (key_environment k))) (\<lambda>ticket.
     bindA (upsertTicket p k ticket) (\<lambda>_. returnA ticket))"

definition getTicketFor ::
  "'s arca_net ports \<Rightarrow> 's wire \<Rightarrow> ('c \<Rightarrow> string \<Rightarrow> string option) \<Rightarrow> string \<Rightarrow> 'c \<Rightarrow> TicketKey \<Rightarrow>
   ('s arca_net, AccessTicket) effect" where
  "getTicketFor p wire signCms i credentials k =
     bindA (table p (getA (\<lambda>w. findRow (ticketKeyOf k) (ticketCache w)))) (\<lambda>cached.
       case cached of
         None \<Rightarrow> renewTicket p wire signCms i credentials k
       | Some r \<Rightarrow> bindA (now p) (\<lambda>t.
           if TICKET_RENEWAL_MARGIN_MS < tc_expiration r - t then returnA (ticketOfRow r)
           else renewTicket p wire signCms i credentials k))"

definition getAccessTicket ::
  "'s arca_net ports \<Rightarrow> 's wire \<Rightarrow> ('c \<Rightarrow> string \<Rightarrow> string option) \<Rightarrow> string \<Rightarrow> string \<Rightarrow> string \<Rightarrow> 'c \<Rightarrow> string \<Rightarrow>
   ('s arca_net, AccessTicket) effect" where
  "getAccessTicket p wire signCms i holder environment credentials service =
     getTicketFor p wire signCms i credentials
       \<lparr>key_holderCuit = holder, key_environment = environment, key_service = service\<rparr>"

subsection \<open>The table of tickets keeps the contract\<close>

lemma ticketKeyOf_eq: "ticketKeyOf k r \<longleftrightarrow>
    k = \<lparr>key_holderCuit = tc_holderCuit r, key_environment = tc_environment r, key_service = tc_service r\<rparr>"
  by (cases k) (auto simp: ticketKeyOf_def sameTicketKey_def)

lemma ticketKeyOf_unique: "ticketKeyOf k r \<Longrightarrow> ticketKeyOf k' r \<Longrightarrow> k = k'"
  by (simp add: ticketKeyOf_eq)

interpretation ticket_table: replacing_table ticketKeyOf putTicket "\<lambda>k d old. ticketRow k d"
proof
  fix k d rows k'
  have row: "ticketKeyOf k (ticketRow k d)" by (simp add: ticketKeyOf_def sameTicketKey_def ticketRow_def)
  have update: "r\<lparr>tc_token := stored_token d, tc_sign := stored_sign d, tc_generation := stored_generation d,
      tc_expiration := stored_expiration d\<rparr> = ticketRow k d" if "ticketKeyOf k r" for r :: TicketRow
    using that by (cases r) (simp add: ticketKeyOf_def sameTicketKey_def ticketRow_def)
  have found: "ticketKeyOf k r" if "findRow (ticketKeyOf k) rows = Some r" for r
    using that by (simp add: findRow_Some)
  show "findRow (ticketKeyOf k) (putTicket k d rows) = Some (ticketRow k d)"
    unfolding putTicket_def
    by (subst findRow_upsert_same) (auto simp: row update found split: option.split)
  show "k \<noteq> k' \<Longrightarrow> findRow (ticketKeyOf k') (putTicket k d rows) = findRow (ticketKeyOf k') rows"
    unfolding putTicket_def
    by (intro findRow_upsert_other) (auto simp: update dest: ticketKeyOf_unique ticketKeyOf_unique [OF row])
qed simp

end
