(* ===== verification/ArcaParams.thy ===== *)
theory ArcaParams
  imports CacheTables WsfeService JsMap
begin

text \<open>
  The tables of parameters of ARCA: the local values of \<open>shared/src/arca-params.ts\<close>, the
  cache of \<open>issuers/arca-param-cache.service.ts\<close>, the queries of
  \<open>issuers/arca-params.service.ts\<close> and the health check of
  \<open>issuers/arca-health.service.ts\<close>. \<open>authFor\<close> is \<open>IssuerAuthService.buildAuth\<close>
  with its service.
\<close>

subsection \<open>Local values\<close>

datatype ArcaParamType =
    VOUCHER_TYPES | DOCUMENT_TYPES | IVA_RATES | TRIBUTE_TYPES | OPTIONAL_TYPES | RECIPIENT_IVA_CONDITIONS

definition paramTypeText :: "ArcaParamType \<Rightarrow> string" where
  "paramTypeText t = (case t of VOUCHER_TYPES \<Rightarrow> ''VOUCHER_TYPES'' | DOCUMENT_TYPES \<Rightarrow> ''DOCUMENT_TYPES''
     | IVA_RATES \<Rightarrow> ''IVA_RATES'' | TRIBUTE_TYPES \<Rightarrow> ''TRIBUTE_TYPES'' | OPTIONAL_TYPES \<Rightarrow> ''OPTIONAL_TYPES''
     | RECIPIENT_IVA_CONDITIONS \<Rightarrow> ''RECIPIENT_IVA_CONDITIONS'')"

text \<open>\<open>Object.entries\<close> of a table of names: its keys in ascending order, all below 1000.\<close>

definition fromNameMap :: "(int \<Rightarrow> string option) \<Rightarrow> ArcaParamEntry list" where
  "fromNameMap names =
     List.map_filter (\<lambda>n. map_option (\<lambda>d. \<lparr>param_id = of_nat n, param_description = d\<rparr>) (names (int n))) [0..<1000]"

definition localArcaParams :: "ArcaParamType \<Rightarrow> ArcaParamEntry list" where
  "localArcaParams t = (case t of
      VOUCHER_TYPES \<Rightarrow> fromNameMap voucherTypeName
    | DOCUMENT_TYPES \<Rightarrow> fromNameMap documentTypeName
    | IVA_RATES \<Rightarrow> map (\<lambda>rate. \<lparr>param_id = of_int (orElse (ivaRateAfipId rate) 0),
        param_description = numberToString rate @ ''%''\<rparr>) ivaRates
    | TRIBUTE_TYPES \<Rightarrow> fromNameMap tributeTypeName
    | OPTIONAL_TYPES \<Rightarrow> []
    | RECIPIENT_IVA_CONDITIONS \<Rightarrow> fromNameMap recipientIvaConditionName)"

subsection \<open>The cache\<close>

definition DEFAULT_PARAM_CACHE_TTL_DAYS :: int where
  "DEFAULT_PARAM_CACHE_TTL_DAYS = 7"

text \<open>The number of days of the configuration, in milliseconds; a text that is no number is NaN.\<close>

definition cacheTtlMs :: "'s wire \<Rightarrow> string \<Rightarrow> int \<Rightarrow> number option" where
  "cacheTtlMs wire name byDefault =
     map_option (\<lambda>days. js_mul days (of_int msPerDay))
       (case configured wire name of None \<Rightarrow> Some (of_int byDefault) | Some text \<Rightarrow> js_Number text)"

definition withinTtl :: "number option \<Rightarrow> date \<Rightarrow> date \<Rightarrow> bool" where
  "withinTtl ttl t fetchedAt = (case ttl of None \<Rightarrow> False | Some x \<Rightarrow> of_int (t - fetchedAt) < x)"

definition toStoredEntries :: "ArcaParamEntry list \<Rightarrow> json" where
  "toStoredEntries entries =
     JArr (map (\<lambda>e. JObj [(''id'', JNum (Some (param_id e))), (''description'', JStr (param_description e))]) entries)"

definition storedEntry :: "json \<Rightarrow> ArcaParamEntry option" where
  "storedEntry v = (case v of
      JObj fs \<Rightarrow> (case (map_of fs ''id'', map_of fs ''description'') of
          (Some (JNum (Some n)), Some (JStr d)) \<Rightarrow> Some \<lparr>param_id = n, param_description = d\<rparr>
        | _ \<Rightarrow> None)
    | _ \<Rightarrow> None)"

text \<open>\<open>storedParamsSchema.safeParse\<close>.\<close>

definition parseStoredParams :: "json \<Rightarrow> ArcaParamEntry list option" where
  "parseStoredParams v = (case v of
      JArr xs \<Rightarrow> if list_all (\<lambda>x. storedEntry x \<noteq> None) xs then Some (List.map_filter storedEntry xs) else None
    | _ \<Rightarrow> None)"

definition sameParamKey :: "string \<times> string \<Rightarrow> ParamCacheRow \<Rightarrow> bool" where
  "sameParamKey k r = (pc_issuerId r = fst k \<and> pc_paramType r = snd k)"

text \<open>The entries, the time of an update and the time of a creation.\<close>

definition putParams :: "string \<times> string \<Rightarrow> json \<times> date \<times> date \<Rightarrow> ParamCacheRow list \<Rightarrow> ParamCacheRow list" where
  "putParams k d rows = (case d of (entries, updatedAt, createdAt) \<Rightarrow>
     upsertRow (sameParamKey k) (\<lambda>r. r\<lparr>pc_entries := entries, pc_fetchedAt := updatedAt\<rparr>)
       \<lparr>pc_issuerId = fst k, pc_paramType = snd k, pc_entries = entries, pc_fetchedAt = createdAt\<rparr> rows)"

definition fetcherFor :: "'s wire \<Rightarrow> ArcaParamType \<Rightarrow> AuthContext \<Rightarrow> ('s, ArcaParamEntry list) call" where
  "fetcherFor wire t auth = (case t of
      VOUCHER_TYPES \<Rightarrow> getVoucherTypes wire auth
    | DOCUMENT_TYPES \<Rightarrow> getDocumentTypes wire auth
    | IVA_RATES \<Rightarrow> getIvaRates wire auth
    | TRIBUTE_TYPES \<Rightarrow> getTributeTypes wire auth
    | OPTIONAL_TYPES \<Rightarrow> getOptionalTypes wire auth
    | RECIPIENT_IVA_CONDITIONS \<Rightarrow> getRecipientIvaConditions wire auth)"

definition refreshParams ::
  "'s arca_net ports \<Rightarrow> 's wire \<Rightarrow> (StoredIssuer \<Rightarrow> string \<Rightarrow> ('s, AuthContext) call) \<Rightarrow> StoredIssuer \<Rightarrow> ArcaParamType \<Rightarrow>
   ('s arca_net, ArcaParamEntry list) effect" where
  "refreshParams p wire authFor issuer t =
     bindA (external (authFor issuer ''wsfe'')) (\<lambda>auth.
     bindA (external (fetcherFor wire t auth)) (\<lambda>entries.
     bindA (now p) (\<lambda>createdAt.
     bindA (now p) (\<lambda>updatedAt.
     bindA (table p (putA (\<lambda>w. w\<lparr>paramCache :=
       putParams (issuer_id issuer, paramTypeText t) (toStoredEntries entries, updatedAt, createdAt) (paramCache w)\<rparr>))) (\<lambda>_.
     returnA entries)))))"

definition getParams ::
  "'s arca_net ports \<Rightarrow> 's wire \<Rightarrow> (StoredIssuer \<Rightarrow> string \<Rightarrow> ('s, AuthContext) call) \<Rightarrow> StoredIssuer \<Rightarrow> ArcaParamType \<Rightarrow>
   ('s arca_net, ArcaParamEntry list) effect" where
  "getParams p wire authFor issuer t =
     bindA (table p (getA (\<lambda>w. findRow (sameParamKey (issuer_id issuer, paramTypeText t)) (paramCache w)))) (\<lambda>cached.
       (let stored = Option.bind cached (\<lambda>r. parseStoredParams (pc_entries r)) in
        bindA (case cached of None \<Rightarrow> returnA False
               | Some r \<Rightarrow> bindA (now p) (\<lambda>time. returnA
                   (withinTtl (cacheTtlMs wire ''ARCA_PARAM_CACHE_TTL_DAYS'' DEFAULT_PARAM_CACHE_TTL_DAYS) time (pc_fetchedAt r))))
          (\<lambda>isFresh.
           case stored of
             Some data \<Rightarrow> if isFresh then returnA data
                 else catchA (refreshParams p wire authFor issuer t) (\<lambda>err. returnA data)
           | None \<Rightarrow> catchA (refreshParams p wire authFor issuer t) (\<lambda>err. returnA (localArcaParams t)))))"

subsection \<open>Queries without a cache\<close>

definition paramsSalesPoints ::
  "'s wire \<Rightarrow> (StoredIssuer \<Rightarrow> string \<Rightarrow> ('s, AuthContext) call) \<Rightarrow> StoredIssuer \<Rightarrow> ('s, SalesPointInfo list) call" where
  "paramsSalesPoints wire authFor issuer = bindA (authFor issuer ''wsfe'') (getArcaSalesPoints wire)"

definition paramsCurrencies ::
  "'s wire \<Rightarrow> (StoredIssuer \<Rightarrow> string \<Rightarrow> ('s, AuthContext) call) \<Rightarrow> StoredIssuer \<Rightarrow> ('s, CurrencyInfo list) call" where
  "paramsCurrencies wire authFor issuer = bindA (authFor issuer ''wsfe'') (getCurrencies wire)"

definition paramsExchangeRate ::
  "'s wire \<Rightarrow> (StoredIssuer \<Rightarrow> string \<Rightarrow> ('s, AuthContext) call) \<Rightarrow> StoredIssuer \<Rightarrow> string \<Rightarrow> ('s, ExchangeRateInfo) call" where
  "paramsExchangeRate wire authFor issuer currencyId =
     bindA (authFor issuer ''wsfe'') (\<lambda>auth. getExchangeRate wire auth currencyId None)"

definition integersOf :: "number list \<Rightarrow> int list" where
  "integersOf xs = List.map_filter (\<lambda>x. if of_int \<lfloor>x\<rfloor> = x then Some \<lfloor>x\<rfloor> else None) xs"

definition detectFiscalCondition ::
  "'s wire \<Rightarrow> (StoredIssuer \<Rightarrow> string \<Rightarrow> ('s, AuthContext) call) \<Rightarrow> StoredIssuer \<Rightarrow> ('s, FiscalCondition option) call" where
  "detectFiscalCondition wire authFor issuer =
     bindA (authFor issuer ''wsfe'') (\<lambda>auth.
     bindA (getVoucherTypeIds wire auth) (\<lambda>ids. returnA (inferFiscalCondition (integersOf ids))))"

subsection \<open>The health of ARCA\<close>

definition HEALTH_CACHE_TTL_MS :: int where
  "HEALTH_CACHE_TTL_MS = 60000"

definition UNREACHABLE :: ArcaServerStatus where
  "UNREACHABLE = \<lparr>appServer = False, dbServer = False, authServer = False\<rparr>"

record ArcaHealth =
  health_environment :: string
  health_servers :: ArcaServerStatus
  available :: bool
  checkedAt :: date

record CachedHealth =
  cached_health :: ArcaHealth
  health_expiresAt :: date

text \<open>The map of the process is the first component of the state.\<close>

type_synonym ('s, 'b) healthAction = "((string, CachedHealth) jsmap \<times> 's arca_net, 'b) action"

definition onArca :: "('s, 'b) call \<Rightarrow> ('s, 'b) healthAction" where
  "onArca m s = (case m (snd s) of (r, w) \<Rightarrow> (r, (fst s, w)))"

definition fetchServers :: "'s wire \<Rightarrow> string \<Rightarrow> ('s, ArcaServerStatus) call" where
  "fetchServers wire environment = catchA (checkServers wire environment) (\<lambda>err. returnA UNREACHABLE)"

definition refreshHealth :: "'s wire \<Rightarrow> string \<Rightarrow> ('s, ArcaHealth) healthAction" where
  "refreshHealth wire environment =
     bindA (onArca (fetchServers wire environment)) (\<lambda>servers.
     bindA (onArca (onNet (wire_clock wire))) (\<lambda>time.
       (let health = \<lparr>health_environment = environment, health_servers = servers,
              available = (appServer servers \<and> dbServer servers \<and> authServer servers), checkedAt = time\<rparr> in
        bindA (onArca (onNet (wire_clock wire))) (\<lambda>time'.
        bindA (putA (\<lambda>s. (mapSet environment \<lparr>cached_health = health, health_expiresAt = time' + HEALTH_CACHE_TTL_MS\<rparr> (fst s), snd s)))
          (\<lambda>_. returnA health)))))"

definition checkHealth :: "'s wire \<Rightarrow> string \<Rightarrow> ('s, ArcaHealth) healthAction" where
  "checkHealth wire environment =
     bindA (getA (\<lambda>s. mapGet (fst s) environment)) (\<lambda>cached.
       case cached of
         None \<Rightarrow> refreshHealth wire environment
       | Some c \<Rightarrow> bindA (onArca (onNet (wire_clock wire))) (\<lambda>time.
           if time < health_expiresAt c then returnA (cached_health c) else refreshHealth wire environment))"

subsection \<open>The table of parameters keeps the contract\<close>

interpretation param_table: upsert_table sameParamKey putParams
  "\<lambda>k d old. \<lparr>pc_issuerId = fst k, pc_paramType = snd k, pc_entries = fst d,
     pc_fetchedAt = (case old of None \<Rightarrow> snd (snd d) | Some r \<Rightarrow> fst (snd d))\<rparr>"
proof
  fix k k' :: "string \<times> string" and d :: "json \<times> date \<times> date" and rows
  have found: "sameParamKey k r" if "findRow (sameParamKey k) rows = Some r" for r
    using that by (simp add: findRow_Some)
  show "findRow (sameParamKey k) (putParams k d rows) = Some \<lparr>pc_issuerId = fst k, pc_paramType = snd k,
      pc_entries = fst d, pc_fetchedAt = (case findRow (sameParamKey k) rows of None \<Rightarrow> snd (snd d) | Some r \<Rightarrow> fst (snd d))\<rparr>"
    unfolding putParams_def
    by (cases d, simp, subst findRow_upsert_same) (auto simp: sameParamKey_def split: option.split dest!: found)
  show "k \<noteq> k' \<Longrightarrow> findRow (sameParamKey k') (putParams k d rows) = findRow (sameParamKey k') rows"
    unfolding putParams_def
    by (cases d, simp, intro findRow_upsert_other) (auto simp: sameParamKey_def prod_eq_iff)
qed

end
