(* ===== verification/Taxpayers.thy ===== *)
theory Taxpayers
  imports ArcaParams Wsaa
begin

text \<open>
  The registry of taxpayers: the client of ARCA's register (\<open>arca/padron/padron.service.ts\<close>),
  the condition it infers (\<open>shared/src/taxpayer.ts\<close>) and the lookup with its cache
  (\<open>taxpayers/taxpayers.service.ts\<close>).
\<close>

subsection \<open>The answer of the register\<close>

abbreviation (input) TAX_VAT :: number where "TAX_VAT \<equiv> 30"
abbreviation (input) TAX_MONOTRIBUTO :: number where "TAX_MONOTRIBUTO \<equiv> 20"
abbreviation (input) TAX_VAT_EXEMPT :: number where "TAX_VAT_EXEMPT \<equiv> 32"

definition STATUS_INACTIVE :: string where
  "STATUS_INACTIVE = ''INACTIVO''"

record TaxpayerAddress =
  ta_street :: "string option"
  ta_city :: "string option"
  ta_postalCode :: "string option"
  ta_province :: "string option"

record TaxpayerInfo =
  info_cuit :: string
  info_legalName :: string
  info_status :: string
  info_ivaConditionId :: int
  info_address :: "TaxpayerAddress option"

definition inferRecipientIvaCondition :: "number list \<Rightarrow> bool \<Rightarrow> int" where
  "inferRecipientIvaCondition taxIds hasMonotributo =
     (if hasMonotributo \<or> TAX_MONOTRIBUTO \<in> set taxIds then MONOTRIBUTO
      else if TAX_VAT \<in> set taxIds then RESPONSABLE_INSCRIPTO
      else if TAX_VAT_EXEMPT \<in> set taxIds then SUJETO_EXENTO
      else CONSUMIDOR_FINAL)"

definition isXmlScalar :: "xml \<Rightarrow> bool" where
  "isXmlScalar v = (\<not> isXmlRecord v)"

fun collectScalarsByTag :: "string \<Rightarrow> xml \<Rightarrow> string list"
  and scalarsInValues :: "string \<Rightarrow> xml list \<Rightarrow> string list"
  and scalarsInFields :: "string \<Rightarrow> (string \<times> xml) list \<Rightarrow> string list" where
  "collectScalarsByTag tag (XRecord fs) = scalarsInFields tag fs"
| "collectScalarsByTag tag (XList xs) = scalarsInValues tag xs"
| "collectScalarsByTag tag (XText s) = []"
| "collectScalarsByTag tag (XNumber n) = []"
| "collectScalarsByTag tag (XBool b) = []"
| "scalarsInValues tag [] = []"
| "scalarsInValues tag (x # xs) = collectScalarsByTag tag x @ scalarsInValues tag xs"
| "scalarsInFields tag [] = []"
| "scalarsInFields tag ((k, x) # fs) =
     (if k = tag then map xmlText (filter isXmlScalar (asList x)) else collectScalarsByTag tag x) @ scalarsInFields tag fs"

definition hasTag :: "xml \<Rightarrow> string \<Rightarrow> bool" where
  "hasTag doc tag = (findByTag tag doc \<noteq> None)"

subsection \<open>The query\<close>

definition PADRON_A5_NS :: string where
  "PADRON_A5_NS = ''http://a5.soap.ws.server.puc.sr/''"

definition PADRON_SERVICE :: string where
  "PADRON_SERVICE = ''ws_sr_constancia_inscripcion''"

definition NOT_FOUND_FAULT :: string where
  "NOT_FOUND_FAULT = ''No existe persona con ese Id''"

definition NATURAL_PERSON :: string where
  "NATURAL_PERSON = ''FISICA''"

definition padronUrl :: "'s wire \<Rightarrow> string \<Rightarrow> string" where
  "padronUrl p environment =
     (if isProduction environment
      then orElse (configured p ''ARCA_PADRON_A5_URL_PROD'') ''https://aws.afip.gov.ar/sr-padron/webservices/personaServiceA5''
      else orElse (configured p ''ARCA_PADRON_A5_URL_HOMO'') ''https://awshomo.afip.gov.ar/sr-padron/webservices/personaServiceA5'')"

definition padronEnvelope :: "AuthContext \<Rightarrow> string \<Rightarrow> string" where
  "padronEnvelope auth cuit =
     ''<soapenv:Envelope xmlns:soapenv='' @ quoted ''http://schemas.xmlsoap.org/soap/envelope/'' @
     '' xmlns:a5='' @ quoted PADRON_A5_NS @ ''>'' @ ''<soapenv:Header/>'' @
     xmlTag ''soapenv:Body'' (xmlTag ''a5:getPersona''
       (xmlTag ''token'' (escapeXml (Some (auth_token auth))) @
        xmlTag ''sign'' (escapeXml (Some (auth_sign auth))) @
        xmlTag ''cuitRepresentada'' (auth_cuit auth) @
        xmlTag ''idPersona'' cuit)) @ ''</soapenv:Envelope>''"

text \<open>\<open>ArcaSoapFaultError.faultString\<close>, of the body of the fault.\<close>

definition faultString :: "string \<Rightarrow> string" where
  "faultString body = trim (orElse (blockBetween ''<faultstring>'' ''</faultstring>'' body) '''')"

definition contains :: "string \<Rightarrow> string \<Rightarrow> bool" where
  "contains mark s = (cutAt mark s \<noteq> None)"

definition missingTaxpayer :: "string \<Rightarrow> app_error" where
  "missingTaxpayer cuit = NotFound (''No existe un contribuyente con CUIT '' @ cuit @ ''.'')"

definition translateFault :: "string \<Rightarrow> app_error \<Rightarrow> app_error" where
  "translateFault cuit err = (case err of
      ArcaSoapFault action httpStatus body \<Rightarrow> if contains NOT_FOUND_FAULT (faultString body) then missingTaxpayer cuit else err
    | _ \<Rightarrow> err)"

definition callPadron :: "'s wire \<Rightarrow> string \<Rightarrow> string \<Rightarrow> AuthContext \<Rightarrow> ('s, string) call" where
  "callPadron p envelope cuit auth =
     catchA (callSoap p (Some (auth_issuerId auth)) PADRON_SERVICE (padronUrl p (auth_environment auth))
        (PADRON_A5_NS @ ''getPersona'') envelope)
       (\<lambda>err. throwA (translateFault cuit err))"

definition parseLegalName :: "xml \<Rightarrow> string" where
  "parseLegalName doc =
     (let businessName = tagOptional doc ''razonSocial'' '''' in
      if businessName \<noteq> '''' then businessName
      else (let personType = tagOptional doc ''tipoPersona'' ''''; lastName = tagOptional doc ''apellido'' '''';
                firstName = tagOptional doc ''nombre'' '''' in
        if personType = NATURAL_PERSON \<or> lastName \<noteq> '''' \<or> firstName \<noteq> ''''
        then trim (joinWith '' '' (filter (\<lambda>s. s \<noteq> '''') [lastName, firstName]))
        else ''''))"

text \<open>\<open>text || null\<close>.\<close>

definition textOrNull :: "string \<Rightarrow> string option" where
  "textOrNull s = (if s = '''' then None else Some s)"

definition parseAddress :: "xml \<Rightarrow> TaxpayerAddress option" where
  "parseAddress doc =
     (let street = tagOptional doc ''direccion'' ''''; city = tagOptional doc ''localidad'' '''';
          postalCode = tagOptional doc ''codPostal'' ''''; province = tagOptional doc ''descripcionProvincia'' '''' in
      if street = '''' \<and> city = '''' \<and> postalCode = '''' \<and> province = '''' then None
      else Some \<lparr>ta_street = textOrNull street, ta_city = textOrNull city, ta_postalCode = textOrNull postalCode,
             ta_province = textOrNull province\<rparr>)"

definition parseTaxpayer :: "'s wire \<Rightarrow> string \<Rightarrow> string \<Rightarrow> TaxpayerInfo" where
  "parseTaxpayer p response cuit =
     (let doc = parseXml (xmlParser p) response;
          taxIds = List.map_filter js_Number (collectScalarsByTag ''idImpuesto'' doc) in
      \<lparr>info_cuit = cuit, info_legalName = parseLegalName doc, info_status = tagOptional doc ''estadoClave'' STATUS_INACTIVE,
       info_ivaConditionId = inferRecipientIvaCondition taxIds (hasTag doc ''categoriaMonotributo''),
       info_address = parseAddress doc\<rparr>)"

definition getTaxpayer :: "'s wire \<Rightarrow> AuthContext \<Rightarrow> string \<Rightarrow> ('s, TaxpayerInfo) call" where
  "getTaxpayer p auth cuit =
     bindA (callPadron p (padronEnvelope auth cuit) cuit auth) (\<lambda>response. returnA (parseTaxpayer p response cuit))"

subsection \<open>The lookup\<close>

definition CUIT_LENGTH :: nat where
  "CUIT_LENGTH = 11"

definition DEFAULT_CACHE_TTL_DAYS :: int where
  "DEFAULT_CACHE_TTL_DAYS = 30"

definition normalizeCuit_lookup :: "string \<Rightarrow> app_error + string" where
  "normalizeCuit_lookup cuit = (let digits = onlyDigits cuit in
     if length digits \<noteq> CUIT_LENGTH then Inl (BadRequest (''El CUIT debe tener 11 d'' @ [CHR 0xED] @ ''gitos.'')) else Inr digits)"

definition nullable :: "json \<Rightarrow> string option option" where
  "nullable v = (case v of JStr s \<Rightarrow> Some (Some s) | JNull \<Rightarrow> Some None | _ \<Rightarrow> None)"

definition nullableField :: "(string \<times> json) list \<Rightarrow> string \<Rightarrow> string option option" where
  "nullableField fs k = Option.bind (map_of fs k) nullable"

text \<open>\<open>taxpayerAddressSchema.safeParse\<close>.\<close>

definition parseStoredAddress :: "json option \<Rightarrow> TaxpayerAddress option" where
  "parseStoredAddress stored = (case stored of
      Some (JObj fs) \<Rightarrow>
        (case (nullableField fs ''street'', nullableField fs ''city'', nullableField fs ''postalCode'', nullableField fs ''province'') of
           (Some s, Some c, Some z, Some r) \<Rightarrow> Some \<lparr>ta_street = s, ta_city = c, ta_postalCode = z, ta_province = r\<rparr>
         | _ \<Rightarrow> None)
    | _ \<Rightarrow> None)"

definition orNull :: "string option \<Rightarrow> json" where
  "orNull s = (case s of None \<Rightarrow> JNull | Some t \<Rightarrow> JStr t)"

definition toStoredAddress :: "TaxpayerAddress option \<Rightarrow> json option" where
  "toStoredAddress address = map_option (\<lambda>a.
     JObj [(''street'', orNull (ta_street a)), (''city'', orNull (ta_city a)),
       (''postalCode'', orNull (ta_postalCode a)), (''province'', orNull (ta_province a))]) address"

definition ofCuit :: "string \<Rightarrow> TaxpayerRow \<Rightarrow> bool" where
  "ofCuit cuit r = (tx_cuit r = cuit)"

text \<open>
  The upsert of a taxpayer, the time of an update and the time of a creation. An address that is
  \<open>null\<close> is left out of both: the column of a row that exists keeps its value.
\<close>

definition createdTaxpayer :: "string \<Rightarrow> TaxpayerInfo \<Rightarrow> date \<Rightarrow> TaxpayerRow" where
  "createdTaxpayer cuit info t =
     \<lparr>tx_cuit = cuit, tx_legalName = info_legalName info, tx_status = info_status info,
      tx_ivaConditionId = info_ivaConditionId info, tx_address = toStoredAddress (info_address info), tx_fetchedAt = t\<rparr>"

definition updatedTaxpayer :: "TaxpayerInfo \<Rightarrow> date \<Rightarrow> TaxpayerRow \<Rightarrow> TaxpayerRow" where
  "updatedTaxpayer info t r =
     r\<lparr>tx_legalName := info_legalName info, tx_status := info_status info, tx_ivaConditionId := info_ivaConditionId info,
       tx_address := (case toStoredAddress (info_address info) of None \<Rightarrow> tx_address r | Some a \<Rightarrow> Some a), tx_fetchedAt := t\<rparr>"

definition putTaxpayer :: "string \<Rightarrow> TaxpayerInfo \<times> date \<times> date \<Rightarrow> TaxpayerRow list \<Rightarrow> TaxpayerRow list" where
  "putTaxpayer cuit d rows = (case d of (info, updatedAt, createdAt) \<Rightarrow>
     upsertRow (ofCuit cuit) (updatedTaxpayer info updatedAt) (createdTaxpayer cuit info createdAt) rows)"

definition taxpayerOfRow :: "TaxpayerRow \<Rightarrow> TaxpayerInfo" where
  "taxpayerOfRow r = \<lparr>info_cuit = tx_cuit r, info_legalName = tx_legalName r, info_status = tx_status r,
     info_ivaConditionId = tx_ivaConditionId r, info_address = parseStoredAddress (tx_address r)\<rparr>"

definition fetchTaxpayer ::
  "'s arca_net ports \<Rightarrow> 's wire \<Rightarrow> (StoredIssuer \<Rightarrow> string \<Rightarrow> ('s, AuthContext) call) \<Rightarrow> StoredIssuer \<Rightarrow> string \<Rightarrow>
   ('s arca_net, TaxpayerInfo) effect" where
  "fetchTaxpayer p wire authFor issuer cuit =
     bindA (external (authFor issuer PADRON_SERVICE)) (\<lambda>auth.
     bindA (external (getTaxpayer wire auth cuit)) (\<lambda>taxpayer.
     bindA (now p) (\<lambda>createdAt.
     bindA (now p) (\<lambda>updatedAt.
     bindA (table p (putA (\<lambda>w. w\<lparr>taxpayerCache := putTaxpayer cuit (taxpayer, updatedAt, createdAt) (taxpayerCache w)\<rparr>))) (\<lambda>_.
     returnA taxpayer)))))"

definition lookupTaxpayer ::
  "'s arca_net ports \<Rightarrow> 's wire \<Rightarrow> (StoredIssuer \<Rightarrow> string \<Rightarrow> ('s, AuthContext) call) \<Rightarrow> StoredIssuer \<Rightarrow> string \<Rightarrow>
   ('s arca_net, TaxpayerInfo) effect" where
  "lookupTaxpayer p wire authFor issuer rawCuit =
     bindA (pureA (normalizeCuit_lookup rawCuit)) (\<lambda>cuit.
     bindA (table p (getA (\<lambda>w. findRow (ofCuit cuit) (taxpayerCache w)))) (\<lambda>cached.
       case cached of
         None \<Rightarrow> fetchTaxpayer p wire authFor issuer cuit
       | Some r \<Rightarrow> bindA (now p) (\<lambda>time.
           if withinTtl (cacheTtlMs wire ''PADRON_CACHE_TTL_DAYS'' DEFAULT_CACHE_TTL_DAYS) time (tx_fetchedAt r)
           then returnA (taxpayerOfRow r)
           else fetchTaxpayer p wire authFor issuer cuit)))"

subsection \<open>The cache keeps the contract\<close>

interpretation taxpayer_table: upsert_table ofCuit putTaxpayer
  "\<lambda>cuit d old. case old of None \<Rightarrow> createdTaxpayer cuit (fst d) (snd (snd d)) | Some r \<Rightarrow> updatedTaxpayer (fst d) (fst (snd d)) r"
proof
  fix k k' :: string and d :: "TaxpayerInfo \<times> date \<times> date" and rows
  obtain info u c where d: "d = (info, u, c)" by (cases d) auto
  have "ofCuit k (updatedTaxpayer info u r)" if "ofCuit k r" for r
    using that by (simp add: ofCuit_def updatedTaxpayer_def)
  then show "findRow (ofCuit k) (putTaxpayer k d rows) = Some (case findRow (ofCuit k) rows of
      None \<Rightarrow> createdTaxpayer k (fst d) (snd (snd d)) | Some r \<Rightarrow> updatedTaxpayer (fst d) (fst (snd d)) r)"
    unfolding putTaxpayer_def d prod.case fst_conv snd_conv
    by (rule findRow_upsert_same) (simp_all add: ofCuit_def createdTaxpayer_def)
  show "k \<noteq> k' \<Longrightarrow> findRow (ofCuit k') (putTaxpayer k d rows) = findRow (ofCuit k') rows"
    unfolding putTaxpayer_def d
    by (simp, intro findRow_upsert_other) (auto simp: ofCuit_def createdTaxpayer_def updatedTaxpayer_def)
qed

lemma stored_address_roundtrip: "parseStoredAddress (toStoredAddress a) = a"
proof -
  have "nullable (orNull s) = Some s" for s by (cases s) (simp_all add: nullable_def orNull_def)
  then show ?thesis
    by (cases a) (simp_all add: parseStoredAddress_def toStoredAddress_def nullableField_def)
qed

lemma taxpayerOfRow_created: "taxpayerOfRow (createdTaxpayer (info_cuit info) info t) = info"
  by (cases info) (simp add: taxpayerOfRow_def createdTaxpayer_def stored_address_roundtrip)

end
