(* ===== verification/CacheProperties.thy ===== *)
theory CacheProperties
  imports WsfeProperties Wsaa ArcaParams Taxpayers Samples
begin

text \<open>
  What the caches of ARCA's answers give back: the tickets of WSAA, the tables of parameters and
  the taxpayers. The laws of the tables come from the interpretations of \<open>upsert_table\<close> and
  \<open>replacing_table\<close>.
\<close>

lemma nowInr: "now p w = (Inr t, w') \<Longrightarrow> \<exists>s. w' = w\<lparr>outside := s\<rparr>"
  using now_world [of p w] by auto

lemma externalInr: "external f w = (Inr x, w') \<Longrightarrow> \<exists>s. w' = w\<lparr>outside := s\<rparr>"
  by (auto simp: external_def split: prod.splits)

lemma table_read: "table p (getA f) w = (Inr x, w') \<Longrightarrow> \<exists>s. w' = w\<lparr>outside := s\<rparr> \<and> x = f (w\<lparr>outside := s\<rparr>)"
  by (auto simp: table_Inr getA_def)

lemma table_reads: "database p (outside w) = (None, s) \<Longrightarrow> table p (getA f) w = (Inr (f (w\<lparr>outside := s\<rparr>)), w\<lparr>outside := s\<rparr>)"
  by (simp add: table_def bindA_def external_def reachDatabase_def getA_def)

lemma now_reads: "clock p (outside w) = (t, s) \<Longrightarrow> now p w = (Inr t, w\<lparr>outside := s\<rparr>)"
  by (simp add: now_def external_def)

subsection \<open>Tickets\<close>

lemma upsertTicket_Inr:
  assumes "upsertTicket p k t w = (Inr x, w')"
  obtains d s where "w' = w\<lparr>outside := s, ticketCache := putTicket k d (ticketCache w)\<rparr>" "ticketOfRow (ticketRow k d) = t"
proof (cases "ticket_generation t")
  case (Some gen)
  show ?thesis
  proof (cases "ticket_expiration t")
    case (Some expires)
    let ?d = "\<lparr>stored_token = ticket_token t, stored_sign = ticket_sign t, stored_generation = gen, stored_expiration = expires\<rparr>"
    have "ticketOfRow (ticketRow k ?d) = t"
      using \<open>ticket_generation t = Some gen\<close> Some by (cases t) (simp add: ticketOfRow_def ticketRow_def)
    moreover obtain s where "w' = w\<lparr>outside := s, ticketCache := putTicket k ?d (ticketCache w)\<rparr>"
      using assms \<open>ticket_generation t = Some gen\<close> Some by (auto simp: upsertTicket_def table_Inr)
    ultimately show ?thesis by (rule that [rotated])
  qed (use assms \<open>ticket_generation t = Some gen\<close> in \<open>auto simp: upsertTicket_def table_Inr\<close>)
qed (use assms in \<open>auto simp: upsertTicket_def table_Inr\<close>)

text \<open>A renewal stores the ticket it returns under its key and leaves the other keys alone.\<close>

lemma renewTicket_Inr:
  assumes "renewTicket p wire signCms i credentials k w = (Inr ticket, w')"
  shows "\<exists>d. ticketCache w' = putTicket k d (ticketCache w) \<and> ticketOfRow (ticketRow k d) = ticket"
proof -
  obtain t v x v' where a: "external (login_wsaa wire signCms i credentials (key_service k) (key_environment k)) w = (Inr t, v)"
    "upsertTicket p k t v = (Inr x, v')" "returnA t v' = (Inr ticket, w')"
    using assms unfolding renewTicket_def bindA_Inr_iff by blast
  obtain s where "v = w\<lparr>outside := s\<rparr>" using externalInr [OF a(1)] by blast
  moreover obtain d s' where "v' = v\<lparr>outside := s', ticketCache := putTicket k d (ticketCache v)\<rparr>" "ticketOfRow (ticketRow k d) = t"
    using upsertTicket_Inr [OF a(2)] .
  ultimately show ?thesis using a(3) by (auto simp: returnA_def)
qed

lemma getTicketFor_Inr:
  assumes "getTicketFor p wire signCms i credentials k w = (Inr ticket, w')"
  shows "\<exists>r. findRow (ticketKeyOf k) (ticketCache w') = Some r \<and> ticketOfRow r = ticket"
    "k' \<noteq> k \<Longrightarrow> findRow (ticketKeyOf k') (ticketCache w') = findRow (ticketKeyOf k') (ticketCache w)"
proof -
  obtain cached v where a: "table p (getA (\<lambda>w. findRow (ticketKeyOf k) (ticketCache w))) w = (Inr cached, v)"
    and b: "(case cached of None \<Rightarrow> renewTicket p wire signCms i credentials k
       | Some r \<Rightarrow> bindA (now p) (\<lambda>t. if TICKET_RENEWAL_MARGIN_MS < tc_expiration r - t then returnA (ticketOfRow r)
           else renewTicket p wire signCms i credentials k)) v = (Inr ticket, w')"
    using assms unfolding getTicketFor_def bindA_Inr_iff by blast
  have v: "ticketCache v = ticketCache w" "cached = findRow (ticketKeyOf k) (ticketCache w)" using table_read [OF a] by auto
  have renewed: "(\<exists>r. findRow (ticketKeyOf k) (ticketCache w') = Some r \<and> ticketOfRow r = ticket) \<and>
      (k' \<noteq> k \<longrightarrow> findRow (ticketKeyOf k') (ticketCache w') = findRow (ticketKeyOf k') (ticketCache w))" if "renewTicket p wire signCms i credentials k u = (Inr ticket, w')" "ticketCache u = ticketCache w" for u
    using renewTicket_Inr [OF that(1)] that(2) by (auto simp: ticket_table.put_lookup)
  consider "renewTicket p wire signCms i credentials k v = (Inr ticket, w')"
    | r t u where "cached = Some r" "now p v = (Inr t, u)" "renewTicket p wire signCms i credentials k u = (Inr ticket, w')"
    | r t where "cached = Some r" "now p v = (Inr t, w')" "ticket = ticketOfRow r"
    using b by (cases cached) (auto simp: bindA_Inr_iff returnA_def split: if_splits)
  then show "\<exists>r. findRow (ticketKeyOf k) (ticketCache w') = Some r \<and> ticketOfRow r = ticket"
    "k' \<noteq> k \<Longrightarrow> findRow (ticketKeyOf k') (ticketCache w') = findRow (ticketKeyOf k') (ticketCache w)"
    using renewed v nowInr by (cases; fastforce)+
qed

text \<open>
  Property C28. A ticket is asked for once while it lasts: after a request of a ticket returned
  one, a later request of a ticket of the same holder, environment and service, with whatever
  credentials, returns the same ticket without a call to WSAA nor a write, as long as more than
  ten minutes are left before it expires.
\<close>

theorem ticket_reused:
  assumes "getTicketFor p wire signCms i credentials k w = (Inr ticket, w1)"
    and "ticketCache w2 = ticketCache w1" "database p (outside w2) = (None, s)" "clock p s = (t, s')"
    and "ticket_expiration ticket = Some expires" "TICKET_RENEWAL_MARGIN_MS < expires - t"
  shows "getTicketFor p wire' signCms' i' credentials' k w2 = (Inr ticket, w2\<lparr>outside := s'\<rparr>)"
proof -
  obtain r where r: "findRow (ticketKeyOf k) (ticketCache w1) = Some r" "ticketOfRow r = ticket"
    using getTicketFor_Inr(1) [OF assms(1)] by blast
  have "tc_expiration r = expires" using r(2) assms(5) by (auto simp: ticketOfRow_def)
  moreover have "table p (getA (\<lambda>w. findRow (ticketKeyOf k) (ticketCache w))) w2 = (Inr (Some r), w2\<lparr>outside := s\<rparr>)"
    using table_reads [OF assms(3), of "\<lambda>w. findRow (ticketKeyOf k) (ticketCache w)"] r(1) by (simp add: assms(2))
  moreover have "now p (w2\<lparr>outside := s\<rparr>) = (Inr t, w2\<lparr>outside := s'\<rparr>)"
    using now_reads [of p "w2\<lparr>outside := s\<rparr>"] assms(4) by simp
  ultimately show ?thesis using r(2) assms(6) by (simp add: getTicketFor_def bindA_def returnA_def)
qed

definition sampleTicketKey :: TicketKey where
  "sampleTicketKey = \<lparr>key_holderCuit = ''20111111112'', key_environment = ''homologacion'', key_service = ''wsfe''\<rparr>"

definition sampleStoredTicket :: StoredTicket where
  "sampleStoredTicket = \<lparr>stored_token = ''a'', stored_sign = ''b'', stored_generation = 0, stored_expiration = 43200000\<rparr>"

lemma sample_ticket:
  "getTicketFor samplePortsOnWire wire signCms i credentials sampleTicketKey
     (worldOnWire\<lparr>ticketCache := [ticketRow sampleTicketKey sampleStoredTicket]\<rparr>) =
   (Inr (ticketOfRow (ticketRow sampleTicketKey sampleStoredTicket)),
     worldOnWire\<lparr>ticketCache := [ticketRow sampleTicketKey sampleStoredTicket]\<rparr>)"
  by (simp add: getTicketFor_def bindA_def table_def external_def reachDatabase_def getA_def now_def returnA_def
      samplePortsOnWire_def worldOnWire_def findRow_def ticketKeyOf_def sameTicketKey_def ticketRow_def sampleTicketKey_def
      sampleStoredTicket_def TICKET_RENEWAL_MARGIN_MS_def)

theorem ticket_reused_witness:
  "let w = worldOnWire\<lparr>ticketCache := [ticketRow sampleTicketKey sampleStoredTicket]\<rparr> in
   fst (getTicketFor samplePortsOnWire (sampleWire (XText '''')) (\<lambda>c t. None) ''j'' () sampleTicketKey w) =
     Inr (ticketOfRow (ticketRow sampleTicketKey sampleStoredTicket))"
proof -
  have e: "ticket_expiration (ticketOfRow (ticketRow sampleTicketKey sampleStoredTicket)) = Some 43200000"
    "TICKET_RENEWAL_MARGIN_MS < 43200000 - 0"
    by (simp_all add: ticketOfRow_def ticketRow_def sampleStoredTicket_def TICKET_RENEWAL_MARGIN_MS_def)
  have "database samplePortsOnWire s = (None, s)" "clock samplePortsOnWire s = (0, s)" for s
    by (simp_all add: samplePortsOnWire_def)
  then show ?thesis by (simp add: Let_def ticket_reused [OF sample_ticket refl _ _ e])
qed

subsection \<open>Parameters\<close>

lemma catch_returns: "\<exists>y v. catchA m (\<lambda>err. returnA x) w = (Inr y, v)"
  by (auto simp: catchA_def returnA_def split: prod.split sum.split)

text \<open>
  The tables of parameters are always answered: the only error of a request is that
  the cache could not be read. When ARCA, its ticket or the write of the cache fail, the entries
  kept are given however old they are, and the local ones when there are none.
\<close>

lemma params_always_answered:
  "fst (getParams p wire authFor issuer t w) = Inl e \<longleftrightarrow> (\<exists>m s. database p (outside w) = (Some m, s) \<and> e = OtherError m)"
proof (cases "database p (outside w)")
  case (Pair failure s)
  show ?thesis
  proof (cases failure)
    case (Some m)
    then show ?thesis using Pair
      by (auto simp: getParams_def bindA_def table_def external_def reachDatabase_def)
  next
    case None
    let ?cached = "findRow (sameParamKey (issuer_id issuer, paramTypeText t)) (paramCache w)"
    have read: "table p (getA (\<lambda>w. findRow (sameParamKey (issuer_id issuer, paramTypeText t)) (paramCache w))) w =
        (Inr ?cached, w\<lparr>outside := s\<rparr>)"
      using table_reads [of p w s "\<lambda>w. findRow (sameParamKey (issuer_id issuer, paramTypeText t)) (paramCache w)"] Pair None by simp
    have "\<exists>y v. getParams p wire authFor issuer t w = (Inr y, v)"
      using now_world [of p "w\<lparr>outside := s\<rparr>"]
      by (auto simp: getParams_def bindA_def read Let_def returnA_def catch_returns split: option.split)
    then show ?thesis using Pair None by auto
  qed
qed

text \<open>What is stored reads back.\<close>

lemma stored_params_roundtrip: "parseStoredParams (toStoredEntries entries) = Some entries"
proof -
  have one: "storedEntry (JObj [(''id'', JNum (Some (param_id e))), (''description'', JStr (param_description e))]) = Some e" for e
    by (cases e) (simp add: storedEntry_def)
  then show ?thesis
    by (induction entries) (simp_all add: parseStoredParams_def toStoredEntries_def List.map_filter_simps split: if_splits)
qed

lemma refreshParams_Inr:
  assumes "refreshParams p wire authFor issuer t w = (Inr entries, w')"
  shows "\<exists>r. findRow (sameParamKey (issuer_id issuer, paramTypeText t)) (paramCache w') = Some r \<and> pc_entries r = toStoredEntries entries"
proof -
  obtain auth v1 es v2 created v3 updated v4 x v5 where a: "external (authFor issuer ''wsfe'') w = (Inr auth, v1)"
    "external (fetcherFor wire t auth) v1 = (Inr es, v2)" "now p v2 = (Inr created, v3)" "now p v3 = (Inr updated, v4)"
    "table p (putA (\<lambda>w. w\<lparr>paramCache :=
       putParams (issuer_id issuer, paramTypeText t) (toStoredEntries es, updated, created) (paramCache w)\<rparr>)) v4 = (Inr x, v5)"
    "returnA es v5 = (Inr entries, w')"
    using assms unfolding refreshParams_def bindA_Inr_iff by blast
  then show ?thesis by (auto simp: table_Inr putA_def returnA_def param_table.put_same)
qed

lemma getParams_cached:
  assumes "database p (outside w) = (None, s)" "clock p s = (instant, s')"
    and "findRow (sameParamKey (issuer_id issuer, paramTypeText t)) (paramCache w) = Some r" "pc_entries r = toStoredEntries entries"
    and "withinTtl (cacheTtlMs wire ''ARCA_PARAM_CACHE_TTL_DAYS'' DEFAULT_PARAM_CACHE_TTL_DAYS) instant (pc_fetchedAt r)"
  shows "getParams p wire authFor issuer t w = (Inr entries, w\<lparr>outside := s'\<rparr>)"
proof -
  have "table p (getA (\<lambda>w. findRow (sameParamKey (issuer_id issuer, paramTypeText t)) (paramCache w))) w = (Inr (Some r), w\<lparr>outside := s\<rparr>)"
    using table_reads [OF assms(1), of "\<lambda>w. findRow (sameParamKey (issuer_id issuer, paramTypeText t)) (paramCache w)"] assms(3) by simp
  moreover have "now p (w\<lparr>outside := s\<rparr>) = (Inr instant, w\<lparr>outside := s'\<rparr>)"
    using now_reads [of p "w\<lparr>outside := s\<rparr>"] assms(2) by simp
  ultimately show ?thesis
    by (simp add: getParams_def bindA_def Let_def returnA_def assms(4,5) stored_params_roundtrip)
qed


definition errorAnswer :: xml where
  "errorAnswer = XRecord [(''Errors'', XRecord [(''Err'', XRecord [(''Code'', XText ''501''), (''Msg'', XText ''x'')])])]"

definition authOnWire :: "StoredIssuer \<Rightarrow> string \<Rightarrow> (unit, AuthContext) call" where
  "authOnWire issuer service s = (Inr sampleAuth, s)"

lemma week: "cacheTtlMs (sampleWire doc) name 7 = Some 604800000"
  using fl_of_int [of 604800000] by (simp add: cacheTtlMs_def sampleWire_def js_mul_def msPerDay_def)


subsection \<open>Taxpayers\<close>

text \<open>
  What a lookup leaves in the cache, and what a lookup answers from it: with what it was before,
  the row of the taxpayer.
\<close>

lemma fetchTaxpayer_Inr:
  assumes "fetchTaxpayer p wire authFor issuer cuit w = (Inr taxpayer, w')"
  shows "\<exists>created updated. taxpayerCache w' = putTaxpayer cuit (taxpayer, updated, created) (taxpayerCache w)"
    "info_cuit taxpayer = cuit"
proof -
  obtain auth v1 found v2 created v3 updated v4 x v5 where a: "external (authFor issuer PADRON_SERVICE) w = (Inr auth, v1)"
    "external (getTaxpayer wire auth cuit) v1 = (Inr found, v2)" "now p v2 = (Inr created, v3)" "now p v3 = (Inr updated, v4)"
    "table p (putA (\<lambda>w. w\<lparr>taxpayerCache := putTaxpayer cuit (found, updated, created) (taxpayerCache w)\<rparr>)) v4 = (Inr x, v5)"
    "returnA found v5 = (Inr taxpayer, w')"
    using assms unfolding fetchTaxpayer_def bindA_Inr_iff by blast
  have "taxpayerCache v4 = taxpayerCache w" using externalInr [OF a(1)] externalInr [OF a(2)] nowInr [OF a(3)] nowInr [OF a(4)] by auto
  then have "taxpayerCache w' = putTaxpayer cuit (taxpayer, updated, created) (taxpayerCache w)"
    using a(5,6) by (auto simp: table_Inr putA_def returnA_def)
  then show "\<exists>created updated. taxpayerCache w' = putTaxpayer cuit (taxpayer, updated, created) (taxpayerCache w)" by blast
  show "info_cuit taxpayer = cuit"
    using a(2,6) by (auto simp: external_def getTaxpayer_def bindA_Inr_iff returnA_def parseTaxpayer_def Let_def split: prod.splits)
qed

text \<open>
  Property C30. Looking a taxpayer up again while the cache keeps it answers what the register
  said, with one difference: when the register gave no address, the answer is the address the
  cache had from an earlier lookup, since an update without an address leaves the column alone.
\<close>

theorem lookup_repeats:
  assumes "fetchTaxpayer p wire authFor issuer cuit w = (Inr taxpayer, w1)" "normalizeCuit_lookup rawCuit = Inr cuit"
    and "taxpayerCache w2 = taxpayerCache w1" "database p (outside w2) = (None, s)" "clock p s = (instant, s')"
    and "findRow (ofCuit cuit) (taxpayerCache w1) = Some r"
    and "withinTtl (cacheTtlMs wire ''PADRON_CACHE_TTL_DAYS'' DEFAULT_CACHE_TTL_DAYS) instant (tx_fetchedAt r)"
  shows "lookupTaxpayer p wire authFor' issuer' rawCuit w2 =
    (Inr (case info_address taxpayer of
        Some a \<Rightarrow> taxpayer
      | None \<Rightarrow> taxpayer\<lparr>info_address := parseStoredAddress (Option.bind (findRow (ofCuit cuit) (taxpayerCache w)) tx_address)\<rparr>),
     w2\<lparr>outside := s'\<rparr>)"
proof -
  obtain created updated where put: "taxpayerCache w1 = putTaxpayer cuit (taxpayer, updated, created) (taxpayerCache w)"
    using fetchTaxpayer_Inr(1) [OF assms(1)] by blast
  have cuit: "info_cuit taxpayer = cuit" by (rule fetchTaxpayer_Inr(2) [OF assms(1)])
  have r: "r = (case findRow (ofCuit cuit) (taxpayerCache w) of None \<Rightarrow> createdTaxpayer cuit taxpayer created
      | Some old \<Rightarrow> updatedTaxpayer taxpayer updated old)"
    using assms(6) by (auto simp: put taxpayer_table.put_same split: option.splits)
  have row: "taxpayerOfRow r = (case info_address taxpayer of
        Some a \<Rightarrow> taxpayer
      | None \<Rightarrow> taxpayer\<lparr>info_address := parseStoredAddress (Option.bind (findRow (ofCuit cuit) (taxpayerCache w)) tx_address)\<rparr>)"
  proof (cases "findRow (ofCuit cuit) (taxpayerCache w)")
    case None
    then have "taxpayerOfRow r = taxpayer" using taxpayerOfRow_created [of taxpayer created] by (simp add: r cuit)
    then show ?thesis using None
      by (cases taxpayer) (auto simp: parseStoredAddress_def split: option.split)
  next
    case (Some old)
    then have "tx_cuit old = cuit" by (auto simp: ofCuit_def dest: findRow_Some)
    moreover have "parseStoredAddress (toStoredAddress (Some a)) = Some a" for a by (rule stored_address_roundtrip)
    ultimately show ?thesis using Some cuit
      by (cases taxpayer) (auto simp: r taxpayerOfRow_def updatedTaxpayer_def toStoredAddress_def split: option.split)
  qed
  have "table p (getA (\<lambda>w. findRow (ofCuit cuit) (taxpayerCache w))) w2 = (Inr (Some r), w2\<lparr>outside := s\<rparr>)"
    using table_reads [OF assms(4), of "\<lambda>w. findRow (ofCuit cuit) (taxpayerCache w)"] assms(3,6) by simp
  moreover have "now p (w2\<lparr>outside := s\<rparr>) = (Inr instant, w2\<lparr>outside := s'\<rparr>)"
    using now_reads [of p "w2\<lparr>outside := s\<rparr>"] assms(5) by simp
  ultimately show ?thesis
    using assms(2,7) by (simp add: lookupTaxpayer_def bindA_def pureA_def returnA_def row)
qed

definition knownTaxpayer :: TaxpayerRow where
  "knownTaxpayer = \<lparr>tx_cuit = ''30707153745'', tx_legalName = ''ACME'', tx_status = ''ACTIVO'', tx_ivaConditionId = 1,
     tx_address = toStoredAddress (Some \<lparr>ta_street = Some ''x'', ta_city = None, ta_postalCode = None, ta_province = None\<rparr>),
     tx_fetchedAt = -1\<rparr>"

theorem lookup_repeats_witness:
  "\<exists>taxpayer w1. fetchTaxpayer samplePortsOnWire (sampleWire (XRecord [])) authOnWire sampleIssuer ''30707153745''
      (worldOnWire\<lparr>taxpayerCache := [knownTaxpayer]\<rparr>) = (Inr taxpayer, w1) \<and> info_address taxpayer = None \<and>
    fst (lookupTaxpayer samplePortsOnWire (sampleWire (XRecord [])) authOnWire sampleIssuer ''30-70715374-5'' w1) =
      Inr (taxpayer\<lparr>info_address := Some \<lparr>ta_street = Some ''x'', ta_city = None, ta_postalCode = None, ta_province = None\<rparr>\<rparr>)"
proof -
  let ?wire = "sampleWire (XRecord [])" and ?cuit = "''30707153745''"
  let ?w = "worldOnWire\<lparr>taxpayerCache := [knownTaxpayer]\<rparr>"
  obtain s where s: "callPadron ?wire (padronEnvelope sampleAuth ?cuit) ?cuit sampleAuth sampleNet = (Inr ''<r/>'', s)"
    by (simp add: callPadron_def catchA_def callSoap_def recordOutcome_def recordCall_def onNet_def sampleWire_def
      responseErrorCodes_def blockBetween_def startsWith_def responseOk_def Let_def bindA_def returnA_def putA_def)
  let ?t = "parseTaxpayer ?wire ''<r/>'' ?cuit"
  have address: "info_address ?t = None"
    by (simp add: parseTaxpayer_def parseXml_def sampleWire_def isXmlRecord_def parseAddress_def tagOptional_def Let_def)
  have ports: "database samplePortsOnWire s = (None, s)" "clock samplePortsOnWire s = (0, s)" for s
    by (simp_all add: samplePortsOnWire_def)
  let ?w1 = "?w\<lparr>outside := s, taxpayerCache := putTaxpayer ?cuit (?t, 0, 0) [knownTaxpayer]\<rparr>"
  have run: "fetchTaxpayer samplePortsOnWire ?wire authOnWire sampleIssuer ?cuit ?w = (Inr ?t, ?w1)"
    using s by (simp add: fetchTaxpayer_def bindA_def external_def authOnWire_def worldOnWire_def getTaxpayer_def
        now_def ports table_def reachDatabase_def putA_def returnA_def)
  have row: "findRow (ofCuit ?cuit) (taxpayerCache ?w1) = Some (updatedTaxpayer ?t 0 knownTaxpayer)"
    by (simp add: taxpayer_table.put_same) (simp add: ofCuit_def knownTaxpayer_def)
  have "cacheTtlMs ?wire ''PADRON_CACHE_TTL_DAYS'' DEFAULT_CACHE_TTL_DAYS = Some 2592000000"
    using fl_of_int [of 2592000000]
    by (simp add: cacheTtlMs_def sampleWire_def js_mul_def msPerDay_def DEFAULT_CACHE_TTL_DAYS_def)
  then have fresh: "withinTtl (cacheTtlMs ?wire ''PADRON_CACHE_TTL_DAYS'' DEFAULT_CACHE_TTL_DAYS) 0
      (tx_fetchedAt (updatedTaxpayer ?t 0 knownTaxpayer))"
    by (simp add: withinTtl_def updatedTaxpayer_def)
  have cuit: "normalizeCuit_lookup ''30-70715374-5'' = Inr ?cuit" by code_simp
  have old: "parseStoredAddress (Option.bind (findRow (ofCuit ?cuit) (taxpayerCache ?w)) tx_address) =
      Some \<lparr>ta_street = Some ''x'', ta_city = None, ta_postalCode = None, ta_province = None\<rparr>"
    using stored_address_roundtrip [of "Some _"] by (simp add: ofCuit_def knownTaxpayer_def)
  have "fst (lookupTaxpayer samplePortsOnWire ?wire authOnWire sampleIssuer ''30-70715374-5'' ?w1) =
      Inr (?t\<lparr>info_address := Some \<lparr>ta_street = Some ''x'', ta_city = None, ta_postalCode = None, ta_province = None\<rparr>\<rparr>)"
    using lookup_repeats [OF run cuit refl ports(1) ports(2) row fresh] by (simp only: address option.case old fst_conv)
  then show ?thesis using run address by blast
qed

end
