(* ===== verification/Sessions.thy ===== *)
theory Sessions
  imports ApiKeys
begin

text \<open>
  The sessions of the users: registration, login, the rotation of refresh tokens and logout
  (\<open>auth/auth.service.ts\<close>), with the hashes of \<open>auth/password.util.ts\<close> and
  \<open>auth/refresh-token.util.ts\<close> and the guard of \<open>auth/jwt-auth.guard.ts\<close>. The functions of
  \<open>node:crypto\<close> and the signature of the access tokens are the fields of a record of ports,
  of which nothing is assumed here.
\<close>

record RegisterInput =
  input_email :: string
  input_password :: string

record JwtPayload =
  jwt_sub :: string
  jwt_email :: string

record AuthResponse =
  response_token :: string
  response_refreshToken :: string
  response_user :: "string \<times> string"

text \<open>
  \<open>refreshTtlDays\<close> is the configured number of days, \<open>None\<close> when it is NaN.
\<close>

record 'a crypto =
  scryptSync_of :: scrypt
  sha256Hex :: "string \<Rightarrow> string"
  randomBytes :: "nat \<Rightarrow> 'a \<Rightarrow> nat list \<times> 'a"
  signJwt :: "JwtPayload \<Rightarrow> 'a \<Rightarrow> (app_error + string) \<times> 'a"
  verifyJwt :: "string \<Rightarrow> 'a \<Rightarrow> (app_error + JwtPayload) \<times> 'a"
  refreshTtlDays :: "number option"

definition drawBytes :: "'a crypto \<Rightarrow> nat \<Rightarrow> ('a, nat list) effect" where
  "drawBytes c n = external (\<lambda>s. case randomBytes c n s of (bs, s') \<Rightarrow> (Inr bs, s'))"

subsection \<open>Hashes\<close>

definition KEYLEN :: nat where
  "KEYLEN = 64"

definition SALT_BYTES :: nat where
  "SALT_BYTES = 16"

definition HASH_SCHEME :: string where
  "HASH_SCHEME = ''scrypt''"

definition hashPassword :: "'a crypto \<Rightarrow> string \<Rightarrow> ('a, string) effect" where
  "hashPassword c password =
     bindA (drawBytes c SALT_BYTES) (\<lambda>salt.
       returnA (HASH_SCHEME @ ''$'' @ base64 salt @ ''$'' @ base64 (scryptSync_of c password salt KEYLEN)))"

definition verifyPassword :: "'a crypto \<Rightarrow> string \<Rightarrow> string \<Rightarrow> bool" where
  "verifyPassword c password stored =
     (case splitOn (CHR ''$'') stored of
        [scheme, encodedSalt, encodedHash] \<Rightarrow>
          if scheme \<noteq> HASH_SCHEME then False
          else (let salt = base64Decode encodedSalt; expected = base64Decode encodedHash;
                    actual = scryptSync_of c password salt (length expected) in
                length expected = length actual \<and> expected = actual)
      | _ \<Rightarrow> False)"

definition REFRESH_TOKEN_BYTES :: nat where
  "REFRESH_TOKEN_BYTES = 32"

text \<open>The alphabet of base64 for URLs, without padding.\<close>

definition urlChar :: "char \<Rightarrow> char" where
  "urlChar x = (if x = CHR ''+'' then CHR ''-'' else if x = CHR ''/'' then CHR ''_'' else x)"

definition base64url :: "nat list \<Rightarrow> string" where
  "base64url bytes = map urlChar (filter (\<lambda>x. x \<noteq> CHR ''='') (base64 bytes))"

definition generarRefreshToken :: "'a crypto \<Rightarrow> ('a, string) effect" where
  "generarRefreshToken c = bindA (drawBytes c REFRESH_TOKEN_BYTES) (\<lambda>bytes. returnA (base64url bytes))"

definition hashRefreshToken :: "'a crypto \<Rightarrow> string \<Rightarrow> string" where
  "hashRefreshToken c token = sha256Hex c token"

subsection \<open>The tables\<close>

text \<open>\<open>User.email\<close> and \<open>RefreshToken.tokenHash\<close> are unique.\<close>

definition findUserByEmail :: "'a ports \<Rightarrow> string \<Rightarrow> ('a, UserRow option) effect" where
  "findUserByEmail p email = table p (getA (\<lambda>w. findRow (\<lambda>u. user_email u = email) (users w)))"

definition createUser :: "'a ports \<Rightarrow> string \<Rightarrow> string \<Rightarrow> ('a, UserRow) effect" where
  "createUser p email hashed = table p (\<lambda>w.
     (if findRow (\<lambda>u. user_email u = email) (users w) \<noteq> None
      then (Inl (PrismaKnownError UNIQUE_CONSTRAINT_VIOLATION), w)
      else bindA (newId p) (\<lambda>new.
        (let row = \<lparr>user_id = new, user_email = email, user_password = hashed\<rparr> in
         bindA (putA (\<lambda>w. w\<lparr>users := users w @ [row]\<rparr>)) (\<lambda>_. returnA row))) w))"

definition withHash :: "string \<Rightarrow> RefreshTokenRow \<Rightarrow> bool" where
  "withHash tokenHash r = (rt_tokenHash r = tokenHash)"

definition createRefreshToken :: "'a ports \<Rightarrow> string \<Rightarrow> string \<Rightarrow> date \<Rightarrow> ('a, unit) effect" where
  "createRefreshToken p userId tokenHash expiresAt = table p (\<lambda>w.
     (if findRow (withHash tokenHash) (refreshTokens w) \<noteq> None
      then (Inl (PrismaKnownError UNIQUE_CONSTRAINT_VIOLATION), w)
      else bindA (newId p) (\<lambda>new. putA (\<lambda>w. w\<lparr>refreshTokens := refreshTokens w @
          [\<lparr>rt_id = new, rt_userId = userId, rt_tokenHash = tokenHash, rt_expiresAt = expiresAt, rt_revokedAt = None\<rparr>]\<rparr>)) w))"

text \<open>\<open>findUnique\<close> with its user; a row whose user is missing is an inconsistent result.\<close>

definition findRefreshToken :: "'a ports \<Rightarrow> string \<Rightarrow> ('a, (RefreshTokenRow \<times> UserRow) option) effect" where
  "findRefreshToken p tokenHash = table p (\<lambda>w.
     (case findRow (withHash tokenHash) (refreshTokens w) of
        None \<Rightarrow> (Inr None, w)
      | Some r \<Rightarrow> (case findRow (\<lambda>u. user_id u = rt_userId r) (users w) of
          None \<Rightarrow> (Inl (OtherError ''Inconsistent query result''), w)
        | Some u \<Rightarrow> (Inr (Some (r, u)), w))))"

definition revokeIf :: "(RefreshTokenRow \<Rightarrow> bool) \<Rightarrow> date \<Rightarrow> RefreshTokenRow list \<Rightarrow> RefreshTokenRow list" where
  "revokeIf P t rows = map (\<lambda>r. if P r then r\<lparr>rt_revokedAt := Some t\<rparr> else r) rows"

definition revokeById :: "'a ports \<Rightarrow> string \<Rightarrow> date \<Rightarrow> ('a, unit) effect" where
  "revokeById p i t = table p (\<lambda>w.
     (if findRow (\<lambda>r. rt_id r = i) (refreshTokens w) = None then (Inl (PrismaKnownError RECORD_NOT_FOUND), w)
      else (Inr (), w\<lparr>refreshTokens := revokeIf (\<lambda>r. rt_id r = i) t (refreshTokens w)\<rparr>)))"

subsection \<open>The operations\<close>

definition timeClip :: "number \<Rightarrow> js_date" where
  "timeClip x = (if \<bar>x\<bar> \<le> 8640000000000000 then Some (truncNumber x) else None)"

definition expiryOf :: "'a crypto \<Rightarrow> date \<Rightarrow> js_date" where
  "expiryOf c t = Option.bind (refreshTtlDays c) (\<lambda>days. timeClip (js_add (of_int t) (js_mul days (of_int msPerDay))))"

text \<open>An Invalid Date is refused by the client of the database.\<close>

definition emitirTokens :: "'a ports \<Rightarrow> 'a crypto \<Rightarrow> string \<Rightarrow> string \<Rightarrow> ('a, AuthResponse) effect" where
  "emitirTokens p c i email =
     bindA (generarRefreshToken c) (\<lambda>refreshToken.
     bindA (now p) (\<lambda>t.
     bindA (case expiryOf c t of
         None \<Rightarrow> throwA (OtherError ''PrismaClientValidationError'')
       | Some expiresAt \<Rightarrow> createRefreshToken p i (hashRefreshToken c refreshToken) expiresAt) (\<lambda>_.
     bindA (external (signJwt c \<lparr>jwt_sub = i, jwt_email = email\<rparr>)) (\<lambda>token.
     returnA \<lparr>response_token = token, response_refreshToken = refreshToken, response_user = (i, email)\<rparr>))))"

definition register :: "'a ports \<Rightarrow> 'a crypto \<Rightarrow> RegisterInput \<Rightarrow> ('a, AuthResponse) effect" where
  "register p c input =
     bindA (findUserByEmail p (input_email input)) (\<lambda>existing.
       if existing \<noteq> None then throwA (Conflict ''Ya existe un usuario con ese email.'')
       else bindA (hashPassword c (input_password input)) (\<lambda>hashed.
         bindA (createUser p (input_email input) hashed) (\<lambda>user.
         emitirTokens p c (user_id user) (user_email user))))"

definition badCredentials :: app_error where
  "badCredentials = Unauthorized (''Credenciales inv'' @ [CHR 0xE1] @ ''lidas.'')"

text \<open>The comparison against \<open>DUMMY_HASH\<close> only takes time: its result is dropped.\<close>

definition login :: "'a ports \<Rightarrow> 'a crypto \<Rightarrow> RegisterInput \<Rightarrow> ('a, AuthResponse) effect" where
  "login p c input =
     bindA (findUserByEmail p (input_email input)) (\<lambda>user.
       case user of
         None \<Rightarrow> throwA badCredentials
       | Some u \<Rightarrow> if \<not> verifyPassword c (input_password input) (user_password u) then throwA badCredentials
           else emitirTokens p c (user_id u) (user_email u))"

definition badRefreshToken :: app_error where
  "badRefreshToken = Unauthorized (''Refresh token inv'' @ [CHR 0xE1] @ ''lido o expirado.'')"

text \<open>What \<open>refresh\<close> does before it writes, and after.\<close>

definition readRefresh :: "'a ports \<Rightarrow> 'a crypto \<Rightarrow> string \<Rightarrow> ('a, RefreshTokenRow \<times> UserRow) effect" where
  "readRefresh p c rawToken =
     bindA (findRefreshToken p (hashRefreshToken c rawToken)) (\<lambda>stored.
       case stored of
         None \<Rightarrow> throwA badRefreshToken
       | Some (r, u) \<Rightarrow>
           if rt_revokedAt r \<noteq> None then throwA badRefreshToken
           else bindA (now p) (\<lambda>t. if rt_expiresAt r < t then throwA badRefreshToken else returnA (r, u)))"

definition rotateRefresh :: "'a ports \<Rightarrow> 'a crypto \<Rightarrow> RefreshTokenRow \<times> UserRow \<Rightarrow> ('a, AuthResponse) effect" where
  "rotateRefresh p c stored =
     bindA (now p) (\<lambda>t.
     bindA (revokeById p (rt_id (fst stored)) t) (\<lambda>_.
     emitirTokens p c (user_id (snd stored)) (user_email (snd stored))))"

definition refresh :: "'a ports \<Rightarrow> 'a crypto \<Rightarrow> string \<Rightarrow> ('a, AuthResponse) effect" where
  "refresh p c rawToken = bindA (readRefresh p c rawToken) (rotateRefresh p c)"

definition logout :: "'a ports \<Rightarrow> 'a crypto \<Rightarrow> string \<Rightarrow> ('a, bool) effect" where
  "logout p c rawToken =
     bindA (now p) (\<lambda>t.
     bindA (table p (putA (\<lambda>w. w\<lparr>refreshTokens :=
        revokeIf (\<lambda>r. withHash (hashRefreshToken c rawToken) r \<and> rt_revokedAt r = None) t (refreshTokens w)\<rparr>))) (\<lambda>_.
     returnA True))"

text \<open>\<open>JwtAuthGuard.canActivate\<close>: the user of the request.\<close>

definition jwtCanActivate :: "'a crypto \<Rightarrow> string option \<Rightarrow> ('a, JwtPayload) effect" where
  "jwtCanActivate c authorization =
     (case splitOn (CHR '' '') (orElse authorization '''') of
        scheme # token # rest \<Rightarrow>
          if scheme \<noteq> ''Bearer'' \<or> token = '''' then throwA (Unauthorized (''Falta el token de autenticaci'' @ [CHR 0xF3] @ ''n.''))
          else catchA (external (verifyJwt c token)) (\<lambda>err. throwA (Unauthorized (''Token inv'' @ [CHR 0xE1] @ ''lido o expirado.'')))
      | _ \<Rightarrow> throwA (Unauthorized (''Falta el token de autenticaci'' @ [CHR 0xF3] @ ''n.'')))"

subsection \<open>The table of refresh tokens over time\<close>

text \<open>
  A step of the system as the table of tokens sees it: one of the operations, one of the two
  halves of a refresh (another request may run between them), or work that leaves the table
  alone.
\<close>

inductive session_step :: "'a ports \<Rightarrow> 'a crypto \<Rightarrow> 'a world \<Rightarrow> 'a world \<Rightarrow> bool" for p c where
  registers: "session_step p c w (snd (register p c input w))"
| logs_in: "session_step p c w (snd (login p c input w))"
| reads: "session_step p c w (snd (readRefresh p c rawToken w))"
| rotates: "session_step p c w (snd (rotateRefresh p c stored w))"
| logs_out: "session_step p c w (snd (logout p c rawToken w))"
| elsewhere: "refreshTokens w' = refreshTokens w \<Longrightarrow> session_step p c w w'"

inductive_cases session_stepE: "session_step p c w w'"

text \<open>
  The contract the table keeps: a token that is there stays there, and one that was revoked
  stays revoked.
\<close>

locale revocable_tokens =
  fixes token_of :: "'s \<Rightarrow> 'k \<Rightarrow> 'r option" and is_revoked :: "'r \<Rightarrow> bool" and step :: "'s \<Rightarrow> 's \<Rightarrow> bool"
  assumes step_keeps: "step s s' \<Longrightarrow> token_of s k = Some r \<Longrightarrow> \<exists>r'. token_of s' k = Some r' \<and> (is_revoked r \<longrightarrow> is_revoked r')"
begin

lemma steps_keep: "step\<^sup>*\<^sup>* s s' \<Longrightarrow> token_of s k = Some r \<Longrightarrow> \<exists>r'. token_of s' k = Some r' \<and> (is_revoked r \<longrightarrow> is_revoked r')"
proof (induction rule: rtranclp_induct)
  case (step s1 s2)
  then obtain r1 where r1: "token_of s1 k = Some r1" "is_revoked r \<longrightarrow> is_revoked r1" by blast
  from step_keeps [OF step.hyps(2) r1(1)] r1(2) show ?case by blast
qed blast

lemma revoked_forever:
  assumes "token_of s k = Some r" "is_revoked r" "step\<^sup>*\<^sup>* s s'"
  obtains r' where "token_of s' k = Some r'" "is_revoked r'"
  using steps_keep [OF assms(3,1)] assms(2) by blast

end

definition revoked :: "RefreshTokenRow \<Rightarrow> bool" where
  "revoked r = (rt_revokedAt r \<noteq> None)"

definition tokenOf :: "'a world \<Rightarrow> string \<Rightarrow> RefreshTokenRow option" where
  "tokenOf w h = findRow (withHash h) (refreshTokens w)"

text \<open>What a step may do to the table.\<close>

definition tokens_kept :: "'a world \<Rightarrow> 'a world \<Rightarrow> bool" where
  "tokens_kept w w' \<longleftrightarrow>
     (\<forall>h r. tokenOf w h = Some r \<longrightarrow> (\<exists>r'. tokenOf w' h = Some r' \<and> rt_id r' = rt_id r \<and> (revoked r \<longrightarrow> revoked r')))"

lemma tokens_kept_same: "refreshTokens w' = refreshTokens w \<Longrightarrow> tokens_kept w w'"
  by (simp add: tokens_kept_def tokenOf_def)

lemma findRow_revokeIf:
  "findRow (withHash h) (revokeIf P t rows) =
     map_option (\<lambda>r. if P r then r\<lparr>rt_revokedAt := Some t\<rparr> else r) (findRow (withHash h) rows)"
  by (induction rows) (auto simp: revokeIf_def findRow_def withHash_def)

lemma tokens_kept_revokeIf: "tokens_kept w (w\<lparr>refreshTokens := revokeIf P t (refreshTokens w)\<rparr>)"
  by (auto simp: tokens_kept_def tokenOf_def findRow_revokeIf revoked_def)

lemma tokens_kept_append: "refreshTokens w' = refreshTokens w @ rows \<Longrightarrow> tokens_kept w w'"
  by (auto simp: tokens_kept_def tokenOf_def findRow_append)

lemma tokens_kept_trans: "tokens_kept w w' \<Longrightarrow> tokens_kept w' w'' \<Longrightarrow> tokens_kept w w''"
  unfolding tokens_kept_def by metis

lemma ofTables_tokens_kept [intro]: "ofTables (tokens_kept w)"
  by (simp add: ofTables_def tokens_kept_def tokenOf_def)

text \<open>An operation keeps the table when it does from every state.\<close>

lemma keeps_of_step:
  assumes "\<And>w'. tokens_kept w' (snd (m w'))"
  shows "preserves (tokens_kept w) m"
  using assms tokens_kept_trans by (fastforce simp: preserves_def)

lemma keeps_table [intro]: "preserves (tokens_kept w) m \<Longrightarrow> preserves (tokens_kept w) (table p m)"
  by (rule preserves_table) auto

lemma keeps_external [intro]: "preserves (tokens_kept w) (external f)"
  by (rule preserves_external) auto

lemma keeps_now [intro]: "preserves (tokens_kept w) (now p)"
  by (rule preserves_now) auto

lemma keeps_createUser: "preserves (tokens_kept w) (createUser p email hashed)"
  unfolding createUser_def
  by (rule keeps_table, rule keeps_of_step)
    (auto intro!: tokens_kept_same simp: bindA_def newId_def putA_def returnA_def Let_def)

lemma keeps_createRefreshToken: "preserves (tokens_kept w) (createRefreshToken p i h t)"
  unfolding createRefreshToken_def
  by (rule keeps_table, rule keeps_of_step)
    (auto intro: tokens_kept_same tokens_kept_append simp: bindA_def newId_def putA_def)

lemma keeps_revokeById: "preserves (tokens_kept w) (revokeById p i t)"
  unfolding revokeById_def
  by (rule keeps_table, rule keeps_of_step) (auto intro: tokens_kept_same tokens_kept_revokeIf)

lemma keeps_findUser: "preserves (tokens_kept w) (findUserByEmail p email)"
  unfolding findUserByEmail_def by (rule keeps_table) auto

lemma keeps_findRefreshToken: "preserves (tokens_kept w) (findRefreshToken p h)"
  unfolding findRefreshToken_def
  by (rule keeps_table, rule keeps_of_step) (auto intro!: tokens_kept_same split: option.split)

lemma keeps_emitirTokens: "preserves (tokens_kept w) (emitirTokens p c i email)"
  unfolding emitirTokens_def generarRefreshToken_def drawBytes_def
  by (intro preserves_bindA) (auto intro: keeps_createRefreshToken split: option.split)

lemma keeps_register: "preserves (tokens_kept w) (register p c input)"
  unfolding register_def hashPassword_def drawBytes_def
  by (intro preserves_bindA keeps_findUser)
    (auto intro!: preserves_bindA keeps_createUser keeps_emitirTokens)

lemma keeps_login: "preserves (tokens_kept w) (login p c input)"
  unfolding login_def
  by (intro preserves_bindA keeps_findUser) (auto intro: keeps_emitirTokens split: option.split)

lemma keeps_readRefresh: "preserves (tokens_kept w) (readRefresh p c rawToken)"
  unfolding readRefresh_def
  by (intro preserves_bindA keeps_findRefreshToken)
    (auto intro!: preserves_bindA keeps_now simp: if_distrib [of "preserves _"] split: option.split)

lemma keeps_rotateRefresh: "preserves (tokens_kept w) (rotateRefresh p c stored)"
  unfolding rotateRefresh_def by (intro preserves_bindA keeps_revokeById keeps_emitirTokens) auto

lemma keeps_logout: "preserves (tokens_kept w) (logout p c rawToken)"
  unfolding logout_def
  by (intro preserves_bindA keeps_now keeps_table preserves_returnA, rule keeps_of_step)
    (simp add: putA_def tokens_kept_revokeIf)

lemma tokens_kept_refl: "tokens_kept w w"
  by (rule tokens_kept_same) simp

lemma session_step_keeps: "session_step p c w w' \<Longrightarrow> tokens_kept w w'"
  by (induction rule: session_step.induct)
    (auto simp: tokens_kept_refl intro: tokens_kept_same
      keeps_register [unfolded preserves_def, rule_format] keeps_login [unfolded preserves_def, rule_format]
      keeps_readRefresh [unfolded preserves_def, rule_format] keeps_rotateRefresh [unfolded preserves_def, rule_format]
      keeps_logout [unfolded preserves_def, rule_format])

interpretation refresh_tokens: revocable_tokens tokenOf revoked "session_step p c"
proof
  show "\<exists>r'. tokenOf s' k = Some r' \<and> (revoked r \<longrightarrow> revoked r')"
    if "session_step p c s s'" "tokenOf s k = Some r" for s s' k r
    using session_step_keeps [OF that(1)] that(2) unfolding tokens_kept_def by blast
qed

text \<open>A token revoked is refused, whatever the time is.\<close>

lemma readRefresh_revoked:
  assumes "tokenOf w (hashRefreshToken c rawToken) = Some r" "revoked r"
  shows "\<exists>e s. readRefresh p c rawToken w = (Inl e, w\<lparr>outside := s\<rparr>) \<and> (e = badRefreshToken \<or> (\<exists>m. e = OtherError m))"
  using assms
  by (cases "database p (outside w)")
    (auto simp: readRefresh_def findRefreshToken_def table_def bindA_def external_def reachDatabase_def
      tokenOf_def revoked_def throwA_def split: option.split)

lemma refresh_revoked:
  assumes "tokenOf w (hashRefreshToken c rawToken) = Some r" "revoked r"
  shows "\<exists>e s. refresh p c rawToken w = (Inl e, w\<lparr>outside := s\<rparr>) \<and> (e = badRefreshToken \<or> (\<exists>m. e = OtherError m))"
  using readRefresh_revoked [OF assms, of p] by (auto simp: refresh_def bindA_def)

end
