(* ===== verification/SessionProperties.thy ===== *)
theory SessionProperties
  imports Sessions
begin

text \<open>What the sessions of the users guarantee, and what they do not.\<close>

subsection \<open>Refresh tokens\<close>

lemma now_Inr: "now p w = (Inr t, w') \<Longrightarrow> \<exists>s. w' = w\<lparr>outside := s\<rparr>"
  using now_world [of p w] by auto

lemma findRefreshToken_Inr:
  assumes "findRefreshToken p h w = (Inr (Some (r, u)), w')"
  shows "tokenOf w h = Some r" "\<exists>s. w' = w\<lparr>outside := s\<rparr>"
  using assms by (auto simp: findRefreshToken_def table_Inr tokenOf_def split: option.splits)

lemma readRefresh_Inr:
  assumes "readRefresh p c rawToken w = (Inr x, w')"
  shows "tokenOf w (hashRefreshToken c rawToken) = Some (fst x) \<and> (\<exists>s. w' = w\<lparr>outside := s\<rparr>)"
proof -
  obtain stored v where stored: "findRefreshToken p (hashRefreshToken c rawToken) w = (Inr stored, v)"
    and rest: "(case stored of None \<Rightarrow> throwA badRefreshToken
       | Some (r, u) \<Rightarrow> if rt_revokedAt r \<noteq> None then throwA badRefreshToken
           else bindA (now p) (\<lambda>t. if rt_expiresAt r < t then throwA badRefreshToken else returnA (r, u))) v = (Inr x, w')"
    using assms unfolding readRefresh_def bindA_Inr_iff by blast
  obtain r u where ru: "stored = Some (r, u)" using rest by (cases stored) (auto simp: throwA_def)
  from rest obtain t where "now p v = (Inr t, w')" "x = (r, u)"
    by (auto simp: ru throwA_def returnA_def bindA_Inr_iff split: if_splits)
  then show ?thesis using findRefreshToken_Inr [OF stored [unfolded ru]] now_Inr [of p v t w'] by auto
qed

lemma readRefresh_users:
  assumes "readRefresh p c rawToken w = (Inr x, w')"
  shows "findRow (\<lambda>u. user_id u = rt_userId (fst x)) (users w) = Some (snd x)"
proof -
  obtain stored v where stored: "findRefreshToken p (hashRefreshToken c rawToken) w = (Inr stored, v)"
    and rest: "(case stored of None \<Rightarrow> throwA badRefreshToken
       | Some (r, u) \<Rightarrow> if rt_revokedAt r \<noteq> None then throwA badRefreshToken
           else bindA (now p) (\<lambda>t. if rt_expiresAt r < t then throwA badRefreshToken else returnA (r, u))) v = (Inr x, w')"
    using assms unfolding readRefresh_def bindA_Inr_iff by blast
  obtain r u where ru: "stored = Some (r, u)" using rest by (cases stored) (auto simp: throwA_def)
  then have "x = (r, u)" using rest by (auto simp: throwA_def returnA_def bindA_Inr_iff split: if_splits)
  then show ?thesis using stored by (auto simp: ru findRefreshToken_def table_Inr split: option.splits)
qed

lemma readRefresh_deterministic:
  assumes "readRefresh p c rawToken w = (Inr x, w1)" "readRefresh p c rawToken w1 = (Inr y, w2)"
  shows "y = x"
proof -
  obtain s where s: "w1 = w\<lparr>outside := s\<rparr>" using readRefresh_Inr [OF assms(1)] by blast
  have "fst y = fst x" using readRefresh_Inr [OF assms(1)] readRefresh_Inr [OF assms(2)] by (simp add: s tokenOf_def)
  then show ?thesis
    using readRefresh_users [OF assms(1)] readRefresh_users [OF assms(2)] by (simp add: s prod_eq_iff)
qed

lemma revokeById_Inr:
  "revokeById p i t w = (Inr x, w') \<Longrightarrow>
     \<exists>s. w' = w\<lparr>outside := s, refreshTokens := revokeIf (\<lambda>r. rt_id r = i) t (refreshTokens w)\<rparr>"
  by (auto simp: revokeById_def table_Inr split: if_splits)

lemma rotateRefresh_Inr:
  assumes "rotateRefresh p c x w = (Inr resp, w')"
  obtains s t where "emitirTokens p c (user_id (snd x)) (user_email (snd x))
    (w\<lparr>outside := s, refreshTokens := revokeIf (\<lambda>r. rt_id r = rt_id (fst x)) t (refreshTokens w)\<rparr>) = (Inr resp, w')"
proof -
  obtain t v y v' where a: "now p w = (Inr t, v)" "revokeById p (rt_id (fst x)) t v = (Inr y, v')"
    "emitirTokens p c (user_id (snd x)) (user_email (snd x)) v' = (Inr resp, w')"
    using assms unfolding rotateRefresh_def bindA_Inr_iff by blast
  obtain s where "v = w\<lparr>outside := s\<rparr>" using now_Inr [OF a(1)] by blast
  moreover obtain s' where "v' = v\<lparr>outside := s', refreshTokens := revokeIf (\<lambda>r. rt_id r = rt_id (fst x)) t (refreshTokens v)\<rparr>"
    using revokeById_Inr [OF a(2)] by blast
  ultimately have "v' = w\<lparr>outside := s', refreshTokens := revokeIf (\<lambda>r. rt_id r = rt_id (fst x)) t (refreshTokens w)\<rparr>"
    by simp
  then show ?thesis using a(3) that by blast
qed

lemma rotate_revokes:
  assumes "tokenOf w h = Some (fst x)" "rotateRefresh p c x w = (Inr resp, w')"
  shows "\<exists>r'. tokenOf w' h = Some r' \<and> revoked r'"
proof -
  obtain s t where e: "emitirTokens p c (user_id (snd x)) (user_email (snd x))
      (w\<lparr>outside := s, refreshTokens := revokeIf (\<lambda>r. rt_id r = rt_id (fst x)) t (refreshTokens w)\<rparr>) = (Inr resp, w')"
    (is "emitirTokens p c _ _ ?v = _")
    using rotateRefresh_Inr [OF assms(2)] .
  have "tokenOf ?v h = Some ((fst x)\<lparr>rt_revokedAt := Some t\<rparr>)"
    using assms(1) by (simp add: tokenOf_def findRow_revokeIf)
  moreover have "tokens_kept ?v w'" using preservesD [OF keeps_emitirTokens tokens_kept_refl e] .
  ultimately show ?thesis by (fastforce simp: tokens_kept_def revoked_def)
qed

lemma logout_revokes:
  assumes "tokenOf w (hashRefreshToken c rawToken) = Some r" "logout p c rawToken w = (Inr ok, w')"
  shows "\<exists>r'. tokenOf w' (hashRefreshToken c rawToken) = Some r' \<and> revoked r'"
proof -
  let ?P = "\<lambda>r. withHash (hashRefreshToken c rawToken) r \<and> rt_revokedAt r = None"
  obtain t v x v' where a: "now p w = (Inr t, v)"
    "table p (putA (\<lambda>w. w\<lparr>refreshTokens := revokeIf ?P t (refreshTokens w)\<rparr>)) v = (Inr x, v')" "returnA True v' = (Inr ok, w')"
    using assms(2) unfolding logout_def bindA_Inr_iff by blast
  obtain s where "v = w\<lparr>outside := s\<rparr>" using now_Inr [OF a(1)] by blast
  then have "refreshTokens w' = revokeIf ?P t (refreshTokens w)"
    using a(2,3) by (auto simp: table_Inr putA_def returnA_def)
  moreover have "withHash (hashRefreshToken c rawToken) r"
    using assms(1) by (auto simp: tokenOf_def dest: findRow_Some)
  ultimately show ?thesis using assms(1) by (auto simp: tokenOf_def findRow_revokeIf revoked_def)
qed

text \<open>What the emission of tokens leaves: a new row with the hash of the token it returns.\<close>

lemma createRefreshToken_Inr:
  assumes "createRefreshToken p i h t w = (Inr x, w')"
  shows "refreshTokens w' = refreshTokens w @
     [\<lparr>rt_id = cuid p (nextId w), rt_userId = i, rt_tokenHash = h, rt_expiresAt = t, rt_revokedAt = None\<rparr>]"
    "tokenOf w h = None" "nextId w' = Suc (nextId w)" "users w' = users w" "issuers w' = issuers w"
    "apiClientIssuers w' = apiClientIssuers w"
  using assms by (auto simp: createRefreshToken_def table_Inr bindA_def newId_def putA_def tokenOf_def split: if_splits)

lemma drawBytes_Inr: "drawBytes c n w = (Inr bs, w') \<Longrightarrow> (\<exists>s s'. randomBytes c n s = (bs, s')) \<and> (\<exists>s. w' = w\<lparr>outside := s\<rparr>)"
  by (auto simp: drawBytes_def external_def split: prod.splits)

lemma external_Inr: "external f w = (Inr x, w') \<Longrightarrow> \<exists>s. w' = w\<lparr>outside := s\<rparr>"
  by (auto simp: external_def split: prod.splits)

lemma emitirTokens_Inr:
  assumes "emitirTokens p c i email w = (Inr resp, w')"
  shows "\<exists>t. refreshTokens w' = refreshTokens w @ [\<lparr>rt_id = cuid p (nextId w), rt_userId = i,
      rt_tokenHash = hashRefreshToken c (response_refreshToken resp), rt_expiresAt = t, rt_revokedAt = None\<rparr>]"
    "tokenOf w (hashRefreshToken c (response_refreshToken resp)) = None" "nextId w' = Suc (nextId w)"
    "users w' = users w" "response_user resp = (i, email)" "issuers w' = issuers w"
    "apiClientIssuers w' = apiClientIssuers w"
proof -
  obtain bs v t v' x u token u' where a: "drawBytes c REFRESH_TOKEN_BYTES w = (Inr bs, v)" "now p v = (Inr t, v')"
    and b: "(case expiryOf c t of None \<Rightarrow> throwA (OtherError ''PrismaClientValidationError'')
         | Some expiresAt \<Rightarrow> createRefreshToken p i (hashRefreshToken c (base64url bs)) expiresAt) v' = (Inr x, u)"
    and d: "external (signJwt c \<lparr>jwt_sub = i, jwt_email = email\<rparr>) u = (Inr token, u')"
    and r: "resp = \<lparr>response_token = token, response_refreshToken = base64url bs, response_user = (i, email)\<rparr>" "w' = u'"
    using assms unfolding emitirTokens_def generarRefreshToken_def bindA_Inr_iff returnA_def by (fastforce)
  obtain expires where create: "createRefreshToken p i (hashRefreshToken c (base64url bs)) expires v' = (Inr x, u)"
    using b by (auto simp: throwA_def split: option.splits)
  obtain s1 s2 s3 where s: "v = w\<lparr>outside := s1\<rparr>" "v' = v\<lparr>outside := s2\<rparr>" "w' = u\<lparr>outside := s3\<rparr>"
    using drawBytes_Inr [OF a(1)] now_Inr [OF a(2)] external_Inr [OF d] r(2) by blast
  show "\<exists>t. refreshTokens w' = refreshTokens w @ [\<lparr>rt_id = cuid p (nextId w), rt_userId = i,
      rt_tokenHash = hashRefreshToken c (response_refreshToken resp), rt_expiresAt = t, rt_revokedAt = None\<rparr>]"
    "tokenOf w (hashRefreshToken c (response_refreshToken resp)) = None" "nextId w' = Suc (nextId w)"
    "users w' = users w" "response_user resp = (i, email)" "issuers w' = issuers w"
    "apiClientIssuers w' = apiClientIssuers w"
    using createRefreshToken_Inr [OF create] by (simp_all add: s r(1) tokenOf_def)
qed

lemma emitirTokens_token:
  assumes "emitirTokens p c i email w = (Inr resp, w')"
  shows "\<exists>r. tokenOf w' (hashRefreshToken c (response_refreshToken resp)) = Some r \<and> \<not> revoked r \<and> rt_id r = cuid p (nextId w)"
proof -
  have single: "findRow P [r] = (if P r then Some r else None)" for P :: "RefreshTokenRow \<Rightarrow> bool" and r
    by (simp add: findRow_def)
  show ?thesis
    using emitirTokens_Inr(1,2) [OF assms] by (auto simp: tokenOf_def findRow_append single withHash_def revoked_def)
qed

text \<open>
  Property C25. A session that ended stays ended: after a refresh token was rotated by a refresh
  that answered, or revoked by a logout, whatever operations and halves of operations any number
  of requests run next, presenting it again issues nothing and changes no table. It is refused
  as invalid, unless the database fails.
\<close>

theorem ended_session_stays_ended:
  assumes "(\<exists>resp. refresh p c rawToken w = (Inr resp, w1)) \<or>
      tokenOf w (hashRefreshToken c rawToken) \<noteq> None \<and> (\<exists>ok. logout p c rawToken w = (Inr ok, w1))"
    and "(session_step p c)\<^sup>*\<^sup>* w1 w2"
  shows "\<exists>e s. refresh p c rawToken w2 = (Inl e, w2\<lparr>outside := s\<rparr>) \<and> (e = badRefreshToken \<or> (\<exists>m. e = OtherError m))"
proof -
  let ?h = "hashRefreshToken c rawToken"
  have "\<exists>r. tokenOf w1 ?h = Some r \<and> revoked r"
  proof (cases "\<exists>resp. refresh p c rawToken w = (Inr resp, w1)")
    case True
    then obtain resp x v where x: "readRefresh p c rawToken w = (Inr x, v)" "rotateRefresh p c x v = (Inr resp, w1)"
      unfolding refresh_def bindA_Inr_iff by blast
    from readRefresh_Inr [OF x(1)] have "tokenOf v ?h = Some (fst x)" by (auto simp: tokenOf_def)
    then show ?thesis by (rule rotate_revokes [OF _ x(2)])
  next
    case False
    then show ?thesis using assms(1) logout_revokes by blast
  qed
  then obtain r where "tokenOf w1 ?h = Some r" "revoked r" by blast
  then obtain r' where "tokenOf w2 ?h = Some r'" "revoked r'"
    using refresh_tokens.revoked_forever assms(2) by metis
  then show ?thesis by (rule refresh_revoked)
qed

text \<open>A small set of ports for the examples: a clock that stands still, hashes that pad the secret.\<close>

definition stillPorts :: "arca ports" where
  "stillPorts = samplePorts\<lparr>clock := \<lambda>s. (0, s)\<rparr>"

definition sampleCrypto :: "arca crypto" where
  "sampleCrypto = \<lparr>scryptSync_of = sampleScrypt, sha256Hex = (\<lambda>s. CHR ''h'' # s),
     randomBytes = (\<lambda>n s. (replicate n (nat (time s) mod 256), s\<lparr>time := time s + 1\<rparr>)),
     signJwt = (\<lambda>payload s. (Inr (jwt_sub payload), s)),
     verifyJwt = (\<lambda>token s. (Inr \<lparr>jwt_sub = token, jwt_email = ''''\<rparr>, s)), refreshTtlDays = Some 0\<rparr>"

definition sampleUser :: UserRow where
  "sampleUser = \<lparr>user_id = ''u'', user_email = ''a@b.c'', user_password = ''''\<rparr>"

definition sampleToken :: RefreshTokenRow where
  "sampleToken = \<lparr>rt_id = ''t'', rt_userId = ''u'', rt_tokenHash = ''hraw'', rt_expiresAt = 10, rt_revokedAt = None\<rparr>"

definition sessionWorld :: "arca world" where
  "sessionWorld = (sampleWorld [] [] [])\<lparr>users := [sampleUser], refreshTokens := [sampleToken]\<rparr>"

lemma sample_expiry: "expiryOf sampleCrypto 0 = Some 0"
  by (simp add: expiryOf_def sampleCrypto_def timeClip_def js_add_def js_mul_def fl_def truncNumber_def)

lemma sample_clock [simp]: "clock stillPorts s = (0, s)" "database stillPorts s = database samplePorts s"
  "cuid stillPorts = cuid samplePorts"
  by (simp_all add: stillPorts_def)

lemma sample_read:
  "readRefresh stillPorts sampleCrypto ''raw'' sessionWorld = (Inr (sampleToken, sampleUser), sessionWorld)"
  by (simp add: readRefresh_def findRefreshToken_def sessionWorld_def sampleToken_def sampleUser_def sampleWorld_def
      sampleCrypto_def hashRefreshToken_def withHash_def table_def bindA_def external_def reachDatabase_def returnA_def
      now_def samplePorts_def findRow_def)

lemma sample_id [simp]: "cuid samplePorts n = replicate n (CHR ''c'')"
  by (simp add: samplePorts_def)

lemma sample_ports:
  "randomBytes sampleCrypto = (\<lambda>n s. (replicate n (nat (time s) mod 256), s\<lparr>time := time s + 1\<rparr>))"
  "hashRefreshToken sampleCrypto = (\<lambda>s. CHR ''h'' # s)" "signJwt sampleCrypto = (\<lambda>payload s. (Inr (jwt_sub payload), s))"
  "databaseScript s = [] \<Longrightarrow> database samplePorts s = (None, s)"
  by (simp_all add: sampleCrypto_def hashRefreshToken_def samplePorts_def fun_eq_iff)

lemma sample_now: "now stillPorts w = (Inr 0, w)"
  by (simp add: now_def external_def)

lemma sample_table: "databaseScript (outside w) = [] \<Longrightarrow> table stillPorts m w = m w"
  by (simp add: table_def bindA_def external_def reachDatabase_def sample_ports)

lemma sample_revoke:
  "findRow (\<lambda>r. rt_id r = i) (refreshTokens w) \<noteq> None \<Longrightarrow> databaseScript (outside w) = [] \<Longrightarrow>
   revokeById stillPorts i t w = (Inr (), w\<lparr>refreshTokens := revokeIf (\<lambda>r. rt_id r = i) t (refreshTokens w)\<rparr>)"
  by (simp add: revokeById_def sample_table)

lemma sample_draw:
  "drawBytes sampleCrypto n w = (Inr (replicate n (nat (time (outside w)) mod 256)), w\<lparr>outside := (outside w)\<lparr>time := time (outside w) + 1\<rparr>\<rparr>)"
  by (simp add: drawBytes_def external_def sample_ports)

lemma sample_create:
  "tokenOf w h = None \<Longrightarrow> databaseScript (outside w) = [] \<Longrightarrow>
   createRefreshToken stillPorts i h t w = (Inr (), w\<lparr>nextId := Suc (nextId w), refreshTokens := refreshTokens w @
     [\<lparr>rt_id = replicate (nextId w) (CHR ''c''), rt_userId = i, rt_tokenHash = h, rt_expiresAt = t, rt_revokedAt = None\<rparr>]\<rparr>)"
  by (simp add: createRefreshToken_def sample_table tokenOf_def bindA_def newId_def putA_def)

lemma sample_sign: "external (signJwt sampleCrypto claims) w = (Inr (jwt_sub claims), w)"
  by (simp add: external_def sample_ports)

lemma sample_emit:
  assumes "databaseScript (outside w) = []"
    "tokenOf w (''h'' @ base64url (replicate REFRESH_TOKEN_BYTES (nat (time (outside w)) mod 256))) = None"
  shows "\<exists>resp w'. emitirTokens stillPorts sampleCrypto i email w = (Inr resp, w') \<and>
    databaseScript (outside w') = [] \<and> time (outside w') = time (outside w) + 1 \<and>
    refreshTokens w' = refreshTokens w @
      [\<lparr>rt_id = replicate (nextId w) (CHR ''c''), rt_userId = i,
        rt_tokenHash = ''h'' @ base64url (replicate REFRESH_TOKEN_BYTES (nat (time (outside w)) mod 256)),
        rt_expiresAt = 0, rt_revokedAt = None\<rparr>]"
proof -
  let ?v = "w\<lparr>outside := (outside w)\<lparr>time := time (outside w) + 1\<rparr>\<rparr>"
    and ?h = "''h'' @ base64url (replicate REFRESH_TOKEN_BYTES (nat (time (outside w)) mod 256))"
  have "createRefreshToken stillPorts i ?h 0 ?v = (Inr (), ?v\<lparr>nextId := Suc (nextId ?v), refreshTokens := refreshTokens ?v @
     [\<lparr>rt_id = replicate (nextId ?v) (CHR ''c''), rt_userId = i, rt_tokenHash = ?h, rt_expiresAt = 0, rt_revokedAt = None\<rparr>]\<rparr>)"
    using assms by (intro sample_create) (simp_all add: tokenOf_def)
  then show ?thesis
    using assms(1)
    by (simp add: emitirTokens_def generarRefreshToken_def bindA_def sample_draw sample_now sample_expiry sample_sign
        sample_ports(2) returnA_def)
qed

text \<open>The rotation of the sample token from a world where the token is there.\<close>

lemma sample_rotate:
  assumes "findRow (\<lambda>r. rt_id r = ''t'') (refreshTokens w) \<noteq> None" "databaseScript (outside w) = []"
    "tokenOf w (''h'' @ base64url (replicate REFRESH_TOKEN_BYTES (nat (time (outside w)) mod 256))) = None"
  shows "\<exists>resp w'. rotateRefresh stillPorts sampleCrypto (sampleToken, sampleUser) w = (Inr resp, w') \<and>
    databaseScript (outside w') = [] \<and> time (outside w') = time (outside w) + 1 \<and>
    refreshTokens w' = revokeIf (\<lambda>r. rt_id r = ''t'') 0 (refreshTokens w) @
      [\<lparr>rt_id = replicate (nextId w) (CHR ''c''), rt_userId = ''u'',
        rt_tokenHash = ''h'' @ base64url (replicate REFRESH_TOKEN_BYTES (nat (time (outside w)) mod 256)),
        rt_expiresAt = 0, rt_revokedAt = None\<rparr>]"
proof -
  let ?v = "w\<lparr>refreshTokens := revokeIf (\<lambda>r. rt_id r = ''t'') 0 (refreshTokens w)\<rparr>"
  have "revokeById stillPorts ''t'' 0 w = (Inr (), ?v)" using assms(1,2) by (rule sample_revoke)
  moreover have "tokenOf ?v (''h'' @ base64url (replicate REFRESH_TOKEN_BYTES (nat (time (outside ?v)) mod 256))) = None"
    using assms(3) by (simp add: tokenOf_def findRow_revokeIf)
  ultimately show ?thesis
    using sample_emit [of ?v "''u''" "''a@b.c''"] assms(2)
    by (simp add: rotateRefresh_def bindA_def sample_now sampleToken_def sampleUser_def)
qed

lemma session_world:
  "findRow (\<lambda>r. rt_id r = ''t'') (refreshTokens sessionWorld) \<noteq> None" "databaseScript (outside sessionWorld) = []"
  "tokenOf sessionWorld (''h'' @ base64url (replicate REFRESH_TOKEN_BYTES (nat (time (outside sessionWorld)) mod 256))) = None"
proof -
  show "findRow (\<lambda>r. rt_id r = ''t'') (refreshTokens sessionWorld) \<noteq> None" "databaseScript (outside sessionWorld) = []"
    by (simp_all add: sessionWorld_def sampleWorld_def sampleToken_def findRow_def)
  have "base64url (replicate 32 0) \<noteq> ''raw''" by code_simp
  then show "tokenOf sessionWorld (''h'' @ base64url (replicate REFRESH_TOKEN_BYTES (nat (time (outside sessionWorld)) mod 256))) = None"
    by (simp add: sessionWorld_def sampleWorld_def tokenOf_def withHash_def findRow_def sampleToken_def REFRESH_TOKEN_BYTES_def)
qed

theorem ended_session_stays_ended_witness:
  "\<exists>w1 e s. refresh stillPorts sampleCrypto ''raw'' w1 = (Inl e, w1\<lparr>outside := s\<rparr>)"
proof -
  have "\<exists>resp w1. rotateRefresh stillPorts sampleCrypto (sampleToken, sampleUser) sessionWorld = (Inr resp, w1)"
    using sample_rotate [of sessionWorld] session_world by blast
  then obtain resp w1 where "refresh stillPorts sampleCrypto ''raw'' sessionWorld = (Inr resp, w1)"
    using sample_read by (auto simp: refresh_def bindA_def)
  then have "\<exists>e s. refresh stillPorts sampleCrypto ''raw'' w1 = (Inl e, w1\<lparr>outside := s\<rparr>) \<and>
      (e = badRefreshToken \<or> (\<exists>m. e = OtherError m))"
    by (intro ended_session_stays_ended [where w = sessionWorld and ?w1.0 = w1]) blast+
  then show ?thesis by blast
qed

subsection \<open>Two refreshes at once\<close>



subsection \<open>Registration and login\<close>

text \<open>What the hash functions of \<open>node:crypto\<close> return: bytes, as many as were asked for.\<close>

definition cryptoOk :: "'a crypto \<Rightarrow> bool" where
  "cryptoOk c \<longleftrightarrow>
     (\<forall>n s bs s'. randomBytes c n s = (bs, s') \<longrightarrow> (\<forall>b\<in>set bs. b < 256)) \<and>
     (\<forall>password salt n. length (scryptSync_of c password salt n) = n \<and> (\<forall>b\<in>set (scryptSync_of c password salt n). b < 256))"

lemma verifyPassword_hashed:
  assumes "cryptoOk c" "\<forall>b\<in>set salt. b < 256"
  shows "verifyPassword c other (HASH_SCHEME @ ''$'' @ base64 salt @ ''$'' @ base64 (scryptSync_of c password salt KEYLEN)) \<longleftrightarrow>
    scryptSync_of c other salt KEYLEN = scryptSync_of c password salt KEYLEN"
proof -
  have b: "length (scryptSync_of c password salt KEYLEN) = KEYLEN" "\<forall>b\<in>set (scryptSync_of c password salt KEYLEN). b < 256"
    "length (scryptSync_of c other salt KEYLEN) = KEYLEN"
    using assms(1) unfolding cryptoOk_def by blast+
  have d: "CHR ''$'' \<notin> set (base64 salt)" "CHR ''$'' \<notin> set (base64 (scryptSync_of c password salt KEYLEN))"
    using base64_no_dollar assms(2) b(2) by auto
  have "splitOn (CHR ''$'') (HASH_SCHEME @ CHR ''$'' # base64 salt @ CHR ''$'' # base64 (scryptSync_of c password salt KEYLEN)) =
      [HASH_SCHEME, base64 salt, base64 (scryptSync_of c password salt KEYLEN)]"
    using d by (simp add: splitOn_sep splitOn_none HASH_SCHEME_def del: append.simps)
  then have "splitOn (CHR ''$'') (HASH_SCHEME @ ''$'' @ base64 salt @ ''$'' @ base64 (scryptSync_of c password salt KEYLEN)) =
      [HASH_SCHEME, base64 salt, base64 (scryptSync_of c password salt KEYLEN)]"
    by simp
  then show ?thesis using assms(2) b by (auto simp: verifyPassword_def base64_decode Let_def)
qed

text \<open>
  Property C27. Who registered can log in: from any state where the users are those that a
  successful registration left, a login with the same email and a password that hashes
  alike with the stored salt (the registered one does) goes on to emit tokens for the user
  registered, and with any other password throws the error of bad credentials.
\<close>

theorem registered_can_login:
  assumes "register p c input w = (Inr resp, w1)" "cryptoOk c" "users w2 = users w1"
    and "input_email attempt = input_email input" "database p (outside w2) = (None, s)"
  shows "\<exists>salt. login p c attempt w2 =
    (if scryptSync_of c (input_password attempt) salt KEYLEN = scryptSync_of c (input_password input) salt KEYLEN
     then emitirTokens p c (fst (response_user resp)) (snd (response_user resp)) (w2\<lparr>outside := s\<rparr>)
     else (Inl badCredentials, w2\<lparr>outside := s\<rparr>))"
proof -
  obtain existing v hashed v' u v'' where a: "findUserByEmail p (input_email input) w = (Inr existing, v)" "existing = None"
    "hashPassword c (input_password input) v = (Inr hashed, v')" "createUser p (input_email input) hashed v' = (Inr u, v'')"
    "emitirTokens p c (user_id u) (user_email u) v'' = (Inr resp, w1)"
    using assms(1) unfolding register_def bindA_Inr_iff by (auto simp: throwA_def bindA_Inr_iff split: if_splits)
  obtain salt s0 s1 where salt: "randomBytes c SALT_BYTES s0 = (salt, s1)"
    and hashed: "hashed = HASH_SCHEME @ ''$'' @ base64 salt @ ''$'' @ base64 (scryptSync_of c (input_password input) salt KEYLEN)"
    using a(3) unfolding hashPassword_def bindA_Inr_iff returnA_def by (auto dest: drawBytes_Inr)
  have bytes: "\<forall>b\<in>set salt. b < 256" using assms(2) salt unfolding cryptoOk_def by blast
  have created: "findRow (\<lambda>x. user_email x = input_email input) (users v'') = Some u" "user_email u = input_email input"
    "user_password u = hashed"
    using a(4) by (auto simp: createUser_def table_Inr bindA_def newId_def putA_def returnA_def Let_def findRow_append
        findRow_def [of _ "[_]"] split: if_splits)
  have "users w2 = users v''" using assms(3) emitirTokens_Inr(4) [OF a(5)] by simp
  moreover have "response_user resp = (user_id u, user_email u)" by (rule emitirTokens_Inr(5) [OF a(5)])
  ultimately have "login p c attempt w2 =
    (if scryptSync_of c (input_password attempt) salt KEYLEN = scryptSync_of c (input_password input) salt KEYLEN
     then emitirTokens p c (fst (response_user resp)) (snd (response_user resp)) (w2\<lparr>outside := s\<rparr>)
     else (Inl badCredentials, w2\<lparr>outside := s\<rparr>))"
    using created assms(4,5) verifyPassword_hashed [OF assms(2) bytes]
    by (simp add: login_def findUserByEmail_def table_def bindA_def external_def reachDatabase_def getA_def hashed throwA_def)
  then show ?thesis by blast
qed

text \<open>The user that a registration leaves.\<close>

lemma register_users:
  assumes "register p c input w = (Inr resp, w1)"
  shows "\<exists>u. findRow (\<lambda>x. user_email x = input_email input) (users w1) = Some u \<and> user_id u = fst (response_user resp)"
proof -
  obtain hashed v' u v'' where a: "createUser p (input_email input) hashed v' = (Inr u, v'')"
    "emitirTokens p c (user_id u) (user_email u) v'' = (Inr resp, w1)"
    using assms unfolding register_def bindA_Inr_iff by (auto simp: throwA_def bindA_Inr_iff split: if_splits)
  have "findRow (\<lambda>x. user_email x = input_email input) (users v'') = Some u"
    using a(1) by (auto simp: createUser_def table_Inr bindA_def newId_def putA_def returnA_def Let_def findRow_append
        findRow_def [of _ "[_]"] split: if_splits)
  then show ?thesis using emitirTokens_Inr(4,5) [OF a(2)] by simp
qed

definition sampleInput :: RegisterInput where
  "sampleInput = \<lparr>input_email = ''c1@service.chirola.internal'', input_password = ''pw''\<rparr>"

lemma sample_cryptoOk: "cryptoOk sampleCrypto"
proof -
  have "length (sampleScrypt password salt n) = n" for password salt n by (simp add: sampleScrypt_def)
  then show ?thesis using sampleScrypt_bytes by (auto simp: cryptoOk_def sampleCrypto_def)
qed

lemma sample_register:
  "\<exists>resp w1. register stillPorts sampleCrypto sampleInput (sampleWorld [] [] []) = (Inr resp, w1) \<and> databaseScript (outside w1) = [] \<and>
     issuers w1 = issuers (sampleWorld [] [] []) \<and> apiClientIssuers w1 = []"
proof -
  let ?w = "sampleWorld [] [] []"
  let ?v = "?w\<lparr>outside := (outside ?w)\<lparr>time := time (outside ?w) + 1\<rparr>\<rparr>"
  obtain hashed where hashed: "hashPassword sampleCrypto (input_password sampleInput) ?w = (Inr hashed, ?v)"
    by (simp add: hashPassword_def bindA_def sample_draw returnA_def)
  let ?u = "\<lparr>user_id = ''c'', user_email = input_email sampleInput, user_password = hashed\<rparr>"
  let ?x = "?v\<lparr>nextId := 2, users := [?u]\<rparr>"
  have script: "databaseScript (outside ?w) = []" by (simp add: sampleWorld_def)
  have create: "createUser stillPorts (input_email sampleInput) hashed ?v = (Inr ?u, ?x)"
    using script by (simp add: createUser_def sample_table bindA_def newId_def putA_def returnA_def Let_def)
      (simp add: sampleWorld_def findRow_def)
  have find_: "findUserByEmail stillPorts (input_email sampleInput) ?w = (Inr None, ?w)"
    using script by (simp add: findUserByEmail_def sample_table getA_def) (simp add: sampleWorld_def findRow_def)
  obtain resp w1 where emit_: "emitirTokens stillPorts sampleCrypto ''c'' (input_email sampleInput) ?x = (Inr resp, w1)" "databaseScript (outside w1) = []"
    using sample_emit [of ?x "''c''" "input_email sampleInput"] by (auto simp: sampleWorld_def tokenOf_def findRow_def)
  then show ?thesis
    using emitirTokens_Inr(6,7) [OF emit_(1)] by (simp add: register_def bindA_def find_ hashed create)
       (simp add: sampleWorld_def)
qed

theorem registered_can_login_witness:
  "\<exists>resp w1 s. register stillPorts sampleCrypto sampleInput (sampleWorld [] [] []) = (Inr resp, w1) \<and>
     login stillPorts sampleCrypto sampleInput w1 =
       emitirTokens stillPorts sampleCrypto (fst (response_user resp)) (snd (response_user resp)) (w1\<lparr>outside := s\<rparr>)"
proof -
  obtain resp w1 where r: "register stillPorts sampleCrypto sampleInput (sampleWorld [] [] []) = (Inr resp, w1)"
    "databaseScript (outside w1) = []" using sample_register by blast
  have "database stillPorts (outside w1) = (None, outside w1)" using r(2) by (simp add: sample_ports)
  from registered_can_login [OF r(1) sample_cryptoOk refl refl this]
  have "login stillPorts sampleCrypto sampleInput w1 =
       emitirTokens stillPorts sampleCrypto (fst (response_user resp)) (snd (response_user resp)) (w1\<lparr>outside := outside w1\<rparr>)"
    by simp
  then show ?thesis using r(1) by blast
qed

subsection \<open>The accounts of the services\<close>

text \<open>The password stored for the user of a service is no hash: no login passes it.\<close>

lemma service_user_never_logs_in: "\<not> verifyPassword c password ''service-account-no-login''"
proof -
  have "splitOn (CHR ''$'') ''service-account-no-login'' = [''service-account-no-login'']" by code_simp
  then show ?thesis by (simp add: verifyPassword_def)
qed

lemma ensureServiceUser_found:
  assumes "ensureServiceUser p client w = (Inr u, w')"
    "findRow (\<lambda>x. user_email x = serviceUserEmail client) (users w) = Some row"
  shows "u = user_id row \<and> users w' = users w"
  using assms by (auto simp: ensureServiceUser_def table_Inr)

lemma createIssuer_owner:
  "createIssuer p u d w = (Inr issuer, w') \<Longrightarrow> issuer_userId issuer = u \<and> issuer \<in> set (issuers w')"
  by (auto simp: createIssuer_def table_Inr bindA_def newId_def putA_def returnA_def newIssuer_def split: if_splits)

lemma createGrant_issuers: "createGrant p client i w = (Inr x, w') \<Longrightarrow> issuers w' = issuers w"
  by (auto simp: createGrant_def table_Inr split: if_splits)

text \<open>
  Registration is open to the address that the backend keeps for the user of an API
  client: who registers it before that client creates its first issuer becomes the owner of the
  issuers the client creates, since the lookup of that user takes the user that has the address.
\<close>

lemma service_account_taken:
  assumes "register p c input w = (Inr resp, w1)" "input_email input = serviceUserEmail client"
    and "users w2 = users w1" "createForApiClient p client d w2 = (Inr issuer, w3)"
  shows "issuer_userId issuer = fst (response_user resp) \<and> issuer \<in> set (issuers w3)"
proof -
  obtain row where row: "findRow (\<lambda>x. user_email x = input_email input) (users w1) = Some row"
    "user_id row = fst (response_user resp)" using register_users [OF assms(1)] by blast
  obtain u v issuer' v' x v'' where a: "ensureServiceUser p client w2 = (Inr u, v)" "createIssuer p u d v = (Inr issuer', v')"
    "createGrant p client (issuer_id issuer') v' = (Inr x, v'')" "(Inr issuer', v'') = (Inr issuer, w3)"
    using assms(4)
    by (auto simp: createForApiClient_def catchA_def transaction_def bindA_Inr_iff returnA_def throwA_def
        split: prod.splits sum.splits if_splits)
  have "u = user_id row" using ensureServiceUser_found [OF a(1)] row(1) by (simp add: assms(2,3))
  then show ?thesis using createIssuer_owner [OF a(2)] createGrant_issuers [OF a(3)] a(4) row(2) by auto
qed

theorem service_account_taken_witness:
  "\<exists>resp w1 issuer w3. register stillPorts sampleCrypto sampleInput (sampleWorld [] [] []) = (Inr resp, w1) \<and>
     createForApiClient stillPorts ''c1'' \<lparr>ci_cuit = ''30707153745'', ci_legalName = ''A'', ci_commercialAddress = None,
       ci_ivaCondition = ''MONOTRIBUTO'', ci_environment = ''homologacion''\<rparr> w1 = (Inr issuer, w3) \<and>
     issuer_userId issuer = fst (response_user resp)"
proof -
  let ?d = "\<lparr>ci_cuit = ''30707153745'', ci_legalName = ''A'', ci_commercialAddress = None,
       ci_ivaCondition = ''MONOTRIBUTO'', ci_environment = ''homologacion''\<rparr>"
  obtain resp w1 where r: "register stillPorts sampleCrypto sampleInput (sampleWorld [] [] []) = (Inr resp, w1)"
    "databaseScript (outside w1) = []" "issuers w1 = issuers (sampleWorld [] [] [])" "apiClientIssuers w1 = []"
    using sample_register by blast
  have email: "input_email sampleInput = serviceUserEmail ''c1''" by (simp add: sampleInput_def serviceUserEmail_def)
  obtain u where u: "findRow (\<lambda>x. user_email x = serviceUserEmail ''c1'') (users w1) = Some u"
    using register_users [OF r(1)] by (auto simp: email)
  have "\<exists>issuer w3. createForApiClient stillPorts ''c1'' ?d w1 = (Inr issuer, w3)"
    using r(2,3,4) u
    by (simp add: createForApiClient_def catchA_def transaction_def bindA_def ensureServiceUser_def sample_table createIssuer_def
        createGrant_def newId_def putA_def returnA_def sameIssuerKey_def sampleWorld_def sampleIssuer_def findRow_def)
  then obtain issuer w3 where "createForApiClient stillPorts ''c1'' ?d w1 = (Inr issuer, w3)" by blast
  then show ?thesis using service_account_taken [OF r(1) email refl] r(1) by blast
qed

end
