(* ===== verification/Clients.thy ===== *)
theory Clients
  imports CacheTables Access
begin

text \<open>
  The address book of an issuer: \<open>clients/clients.service.ts\<close> with the schemas of
  \<open>shared/src/client.ts\<close>, and its sales points, \<open>issuers/sales-points.service.ts\<close>. The
  format of an email, which zod decides, is the argument \<open>isEmail\<close>; the order of texts in the
  database is the argument \<open>collation\<close>.
\<close>

subsection \<open>Schemas\<close>

record CreateClient =
  cc_docType :: int
  cc_docNumber :: string
  cc_legalName :: "string option"
  cc_ivaCondition :: "string option"
  cc_email :: "string option"

text \<open>
  In an update a field that is missing is \<open>None\<close>; the last three may be \<open>null\<close>, that is
  \<open>Some None\<close>.
\<close>

record UpdateClient =
  uc_docType :: "int option"
  uc_docNumber :: "string option"
  uc_legalName :: "string option option"
  uc_ivaCondition :: "string option option"
  uc_email :: "string option option"

definition recipientDocTypes :: "int list" where
  "recipientDocTypes = [80, 86, 96, 99]"

definition elevenDigitDocTypes :: "int list" where
  "elevenDigitDocTypes = [80, 86]"

definition optionally :: "('b \<Rightarrow> bool) \<Rightarrow> 'b option \<Rightarrow> bool" where
  "optionally P v = (case v of None \<Rightarrow> True | Some x \<Rightarrow> P x)"

definition isElevenDigits :: "string \<Rightarrow> bool" where
  "isElevenDigits s = (length s = 11 \<and> list_all isDigit s)"

definition docNumberOk :: "int \<Rightarrow> string \<Rightarrow> bool" where
  "docNumberOk documentType documentNumber =
     (\<not> (documentType \<in> set elevenDigitDocTypes \<and> \<not> isElevenDigits documentNumber))"

definition docTypeOk :: "int \<Rightarrow> bool" where
  "docTypeOk documentType = (documentType \<in> set recipientDocTypes)"

definition createClientOk :: "(string \<Rightarrow> bool) \<Rightarrow> CreateClient \<Rightarrow> bool" where
  "createClientOk isEmail d =
     (docTypeOk (cc_docType d) \<and> cc_docNumber d \<noteq> '''' \<and> optionally (\<lambda>s. s \<noteq> '''') (cc_legalName d) \<and>
      optionally (\<lambda>s. s \<noteq> '''') (cc_ivaCondition d) \<and> optionally isEmail (cc_email d) \<and>
      docNumberOk (cc_docType d) (cc_docNumber d))"

definition updateClientOk :: "(string \<Rightarrow> bool) \<Rightarrow> UpdateClient \<Rightarrow> bool" where
  "updateClientOk isEmail d =
     (optionally docTypeOk (uc_docType d) \<and> optionally (\<lambda>s. s \<noteq> '''') (uc_docNumber d) \<and>
      optionally (optionally (\<lambda>s. s \<noteq> '''')) (uc_legalName d) \<and> optionally (optionally (\<lambda>s. s \<noteq> '''')) (uc_ivaCondition d) \<and>
      optionally (optionally isEmail) (uc_email d) \<and>
      (case (uc_docType d, uc_docNumber d) of (Some t, Some n) \<Rightarrow> docNumberOk t n | _ \<Rightarrow> True))"

subsection \<open>The service of clients\<close>

definition DUPLICATE_CLIENT :: app_error where
  "DUPLICATE_CLIENT = Conflict ''Ya existe un cliente con ese documento para este emisor.''"

definition mapError :: "app_error \<Rightarrow> app_error" where
  "mapError e = (if e = PrismaKnownError UNIQUE_CONSTRAINT_VIOLATION then DUPLICATE_CLIENT else e)"

text \<open>\<open>unique([issuerId, docType, docNumber])\<close>.\<close>

definition clientKey :: "ClientRow \<Rightarrow> string \<times> int \<times> string" where
  "clientKey r = (client_issuerId r, client_docType r, client_docNumber r)"

definition newClient :: "string \<Rightarrow> string \<Rightarrow> CreateClient \<Rightarrow> ClientRow" where
  "newClient new i d = \<lparr>client_id = new, client_issuerId = i, client_docType = cc_docType d, client_docNumber = cc_docNumber d,
     client_legalName = cc_legalName d, client_ivaCondition = cc_ivaCondition d, client_email = cc_email d\<rparr>"

definition insertClient :: "'a ports \<Rightarrow> string \<Rightarrow> CreateClient \<Rightarrow> ('a, ClientRow) effect" where
  "insertClient p i d = table p (\<lambda>w.
     (if findRow (\<lambda>r. clientKey r = (i, cc_docType d, cc_docNumber d)) (clients w) \<noteq> None
      then (Inl (PrismaKnownError UNIQUE_CONSTRAINT_VIOLATION), w)
      else bindA (newId p) (\<lambda>new. bindA (putA (\<lambda>w. w\<lparr>clients := clients w @ [newClient new i d]\<rparr>))
        (\<lambda>_. returnA (newClient new i d))) w))"

definition createClient :: "'a ports \<Rightarrow> string \<Rightarrow> CreateClient \<Rightarrow> ('a, ClientRow) effect" where
  "createClient p i d = catchA (insertClient p i d) (\<lambda>error. throwA (mapError error))"

text \<open>The rows without a name come last, as PostgreSQL orders NULL.\<close>

definition listClients :: "'a ports \<Rightarrow> (string \<Rightarrow> nat) \<Rightarrow> string \<Rightarrow> ('a, ClientRow list) effect" where
  "listClients p collation i = table p (getA (\<lambda>w.
     sort_key (\<lambda>r. case client_legalName r of None \<Rightarrow> (1::nat, 0) | Some s \<Rightarrow> (0, collation s))
       (filter (\<lambda>r. client_issuerId r = i) (clients w))))"

definition ownClient :: "string \<Rightarrow> string \<Rightarrow> ClientRow \<Rightarrow> bool" where
  "ownClient i k r = (client_id r = k \<and> client_issuerId r = i)"

definition getClient :: "'a ports \<Rightarrow> string \<Rightarrow> string \<Rightarrow> ('a, ClientRow) effect" where
  "getClient p i k =
     bindA (table p (getA (\<lambda>w. findRow (ownClient i k) (clients w)))) (\<lambda>found.
       case found of None \<Rightarrow> throwA (NotFound ''Cliente inexistente.'') | Some r \<Rightarrow> returnA r)"

definition changedClient :: "UpdateClient \<Rightarrow> ClientRow \<Rightarrow> ClientRow" where
  "changedClient d r = r\<lparr>client_docType := orElse (uc_docType d) (client_docType r),
     client_docNumber := orElse (uc_docNumber d) (client_docNumber r),
     client_legalName := orElse (uc_legalName d) (client_legalName r),
     client_ivaCondition := orElse (uc_ivaCondition d) (client_ivaCondition r),
     client_email := orElse (uc_email d) (client_email r)\<rparr>"

definition writeClient :: "'a ports \<Rightarrow> string \<Rightarrow> string \<Rightarrow> UpdateClient \<Rightarrow> ('a, ClientRow) effect" where
  "writeClient p i k d = table p (\<lambda>w.
     (case findRow (ownClient i k) (clients w) of
        None \<Rightarrow> (Inl (PrismaKnownError RECORD_NOT_FOUND), w)
      | Some r \<Rightarrow>
          if findRow (\<lambda>r'. client_id r' \<noteq> k \<and> clientKey r' = clientKey (changedClient d r)) (clients w) \<noteq> None
          then (Inl (PrismaKnownError UNIQUE_CONSTRAINT_VIOLATION), w)
          else (Inr (changedClient d r),
            w\<lparr>clients := map (\<lambda>r. if ownClient i k r then changedClient d r else r) (clients w)\<rparr>)))"

definition updateClient :: "'a ports \<Rightarrow> string \<Rightarrow> string \<Rightarrow> UpdateClient \<Rightarrow> ('a, ClientRow) effect" where
  "updateClient p i k d =
     bindA (getClient p i k) (\<lambda>_. catchA (writeClient p i k d) (\<lambda>error. throwA (mapError error)))"

text \<open>The relation of a voucher to its client is optional: deleting the client clears it.\<close>

definition detachClient :: "string \<Rightarrow> VoucherRow \<Rightarrow> VoucherRow" where
  "detachClient k r =
     (if vd_clientId (voucher_data r) = Some k then r\<lparr>voucher_data := (voucher_data r)\<lparr>vd_clientId := None\<rparr>\<rparr> else r)"

definition eraseClient :: "'a ports \<Rightarrow> string \<Rightarrow> string \<Rightarrow> ('a, unit) effect" where
  "eraseClient p i k = table p (\<lambda>w.
     (if findRow (ownClient i k) (clients w) = None then (Inl (PrismaKnownError RECORD_NOT_FOUND), w)
      else (Inr (), w\<lparr>clients := filter (\<lambda>r. \<not> ownClient i k r) (clients w), vouchers := map (detachClient k) (vouchers w)\<rparr>)))"

definition deleteClient :: "'a ports \<Rightarrow> string \<Rightarrow> string \<Rightarrow> ('a, bool) effect" where
  "deleteClient p i k = bindA (getClient p i k) (\<lambda>_. bindA (eraseClient p i k) (\<lambda>_. returnA True))"

subsection \<open>The service of sales points\<close>

definition listSalesPointsOf :: "'a ports \<Rightarrow> string \<Rightarrow> ('a, SalesPointRow list) effect" where
  "listSalesPointsOf p i = table p (getA (\<lambda>w.
     sort_key sp_number (filter (\<lambda>r. sp_issuerId r = i) (salesPoints w))))"

definition listOwnSalesPoints :: "'a ports \<Rightarrow> string \<Rightarrow> string \<Rightarrow> ('a, SalesPointRow list) effect" where
  "listOwnSalesPoints p u i = bindA (getFromUser p i u) (\<lambda>_. listSalesPointsOf p i)"

definition salesPointKey :: "string \<times> int \<Rightarrow> SalesPointRow \<Rightarrow> bool" where
  "salesPointKey k r = (sp_issuerId r = fst k \<and> sp_number r = snd k)"

text \<open>An upsert whose update is empty: the row of the point, or a new one with a new identifier.\<close>

definition ensureSalesPoint :: "'a ports \<Rightarrow> string \<Rightarrow> int \<Rightarrow> ('a, unit) effect" where
  "ensureSalesPoint p i n = table p (\<lambda>w.
     (case findRow (salesPointKey (i, n)) (salesPoints w) of
        Some r \<Rightarrow> (Inr (), w)
      | None \<Rightarrow> bindA (newId p) (\<lambda>new. putA (\<lambda>w. w\<lparr>salesPoints := salesPoints w @
          [\<lparr>sp_id = new, sp_issuerId = i, sp_number = n, sp_description = None\<rparr>]\<rparr>)) w))"

text \<open>
  The points of ARCA come from \<open>remote\<close>; a number that is not an integer is refused by the
  client of the database.
\<close>

definition syncSalesPoints ::
  "'a ports \<Rightarrow> (StoredIssuer \<Rightarrow> 'a \<Rightarrow> (app_error + int option list) \<times> 'a) \<Rightarrow> string \<Rightarrow> string \<Rightarrow> ('a, SalesPointRow list) effect" where
  "syncSalesPoints p remote u i =
     bindA (getFromUser p i u) (\<lambda>issuer.
     bindA (external (remote issuer)) (\<lambda>points.
     bindA (forEachA (\<lambda>point. case point of
         None \<Rightarrow> throwA (OtherError ''PrismaClientValidationError'')
       | Some n \<Rightarrow> ensureSalesPoint p i n) points) (\<lambda>_.
     listOwnSalesPoints p u i)))"

definition describeSalesPoint :: "'a ports \<Rightarrow> string \<Rightarrow> string \<Rightarrow> int \<Rightarrow> string \<Rightarrow> ('a, SalesPointRow) effect" where
  "describeSalesPoint p u i n description =
     bindA (getFromUser p i u) (\<lambda>_.
     table p (\<lambda>w. (case findRow (salesPointKey (i, n)) (salesPoints w) of
         None \<Rightarrow> (Inl (PrismaKnownError RECORD_NOT_FOUND), w)
       | Some r \<Rightarrow>
           (let change = (\<lambda>r. r\<lparr>sp_description := (if description \<noteq> '''' then Some description else None)\<rparr>) in
            (Inr (change r), w\<lparr>salesPoints :=
              map (\<lambda>r. if salesPointKey (i, n) r then change r else r) (salesPoints w)\<rparr>)))))"

end
