(* ===== verification/Shadow.thy ===== *)
theory Shadow
  imports Vouchers JsJson
begin

text \<open>
  The comparison of what another system computed for a voucher with what this one would issue,
  \<open>shadow/shadow.service.ts\<close>.
\<close>

definition MONEY_TOLERANCE :: number where
  "MONEY_TOLERANCE = fl (1 / 100)"

definition SUMMARY_WINDOW :: nat where
  "SUMMARY_WINDOW = 200"

definition BASIS_POINTS_PER_UNIT :: number where
  "BASIS_POINTS_PER_UNIT = 10000"

definition BASIS_POINTS_PER_PERCENT :: number where
  "BASIS_POINTS_PER_PERCENT = 100"

record ExpectedAmounts =
  expected_number :: "int option"
  expected_netAmount :: number
  expected_ivaAmount :: number
  expected_totalAmount :: number

record ShadowCompareInput =
  shadow_voucher :: issueVoucher
  shadow_expected :: ExpectedAmounts

record Difference =
  diff_field :: string
  diff_expected :: number
  diff_computed :: number

definition compareMoney :: "string \<Rightarrow> number \<Rightarrow> number \<Rightarrow> Difference list" where
  "compareMoney name e c =
     (if MONEY_TOLERANCE < \<bar>js_sub e c\<bar> then [\<lparr>diff_field = name, diff_expected = e, diff_computed = c\<rparr>] else [])"

definition shadowDiff :: "ExpectedAmounts \<Rightarrow> EmissionPlan \<Rightarrow> Difference list" where
  "shadowDiff e c =
     (case expected_number e of
        None \<Rightarrow> []
      | Some n \<Rightarrow> if n \<noteq> plan_number c
          then [\<lparr>diff_field = ''number'', diff_expected = of_int n, diff_computed = of_int (plan_number c)\<rparr>] else []) @
     compareMoney ''netAmount'' (expected_netAmount e) (plan_netAmount c) @
     compareMoney ''ivaAmount'' (expected_ivaAmount e) (plan_ivaAmount c) @
     compareMoney ''totalAmount'' (expected_totalAmount e) (plan_totalAmount c)"

subsection \<open>What is stored\<close>

definition differencesAsJson :: "Difference list \<Rightarrow> json" where
  "differencesAsJson ds = JArr (map (\<lambda>d. JObj [(''field'', JStr (diff_field d)),
     (''expected'', JNum (Some (diff_expected d))), (''computed'', JNum (Some (diff_computed d)))]) ds)"

definition expectedAsJson :: "ExpectedAmounts \<Rightarrow> json" where
  "expectedAsJson e = JObj
     ((case expected_number e of None \<Rightarrow> [] | Some n \<Rightarrow> [(''number'', JNum (Some (of_int n)))]) @
      [(''netAmount'', JNum (Some (expected_netAmount e))), (''ivaAmount'', JNum (Some (expected_ivaAmount e))),
       (''totalAmount'', JNum (Some (expected_totalAmount e)))])"

definition DRY_RUN_VERIFICATION_NOTE :: string where
  "DRY_RUN_VERIFICATION_NOTE =
     ''El dry-run confirma que el certificado y la autorizaci'' @ [CHR 0xF3] @ ''n de ARCA funcionan, no que el '' @
     ''contribuyente est'' @ [CHR 0xE9] @ '' habilitado para facturar: ARCA valida m'' @ [CHR 0xE1] @ ''s cosas al autorizar un '' @
     ''comprobante que al consultar el '' @ [CHR 0xFA] @ ''ltimo n'' @ [CHR 0xFA] @ ''mero.''"

definition rateAsJson :: "ArcaIvaRate \<Rightarrow> json" where
  "rateAsJson r = JObj [(''id'', JNum (Some (of_int (rate_id r)))), (''taxableBase'', JNum (Some (rate_taxableBase r))),
     (''amount'', JNum (Some (rate_amount r)))]"

definition emissionPlanAsJson :: "EmissionPlan \<Rightarrow> json" where
  "emissionPlanAsJson plan = JObj
     [(''verification'', JObj [(''onboardingStatus'', JStr (plan_onboardingStatus (plan_verification plan))),
         (''confirmsIssuing'', JBool (confirmsIssuing (plan_verification plan))), (''note'', JStr DRY_RUN_VERIFICATION_NOTE)]),
      (''salesPoint'', JNum (Some (of_int (plan_salesPoint plan)))), (''voucherType'', JNum (Some (of_int (plan_voucherType plan)))),
      (''number'', JNum (Some (of_int (plan_number plan)))), (''netAmount'', JNum (Some (plan_netAmount plan))),
      (''ivaAmount'', JNum (Some (plan_ivaAmount plan))), (''totalAmount'', JNum (Some (plan_totalAmount plan))),
      (''rates'', JArr (map rateAsJson (plan_rates plan)))]"

record ShadowResult =
  shadow_matched :: bool
  shadow_differences :: "Difference list"
  shadow_computed :: EmissionPlan

definition shadowCompare :: "'a ports \<Rightarrow> string \<Rightarrow> ShadowCompareInput \<Rightarrow> ('a, ShadowResult) effect" where
  "shadowCompare p client input =
     bindA (computeEmissionPlanForApiClient p client (shadow_voucher input)) (\<lambda>computed.
       (let differences = shadowDiff (shadow_expected input) computed;
            matched = (differences = []) in
        bindA (now p) (\<lambda>t.
        bindA (table p (putA (\<lambda>w. w\<lparr>shadowComparisons := shadowComparisons w @
          [\<lparr>sh_apiClientId = client, sh_issuerId = issuerId (shadow_voucher input), sh_salesPoint = plan_salesPoint computed,
            sh_voucherType = plan_voucherType computed, sh_matched = matched, sh_differences = differencesAsJson differences,
            sh_expected = expectedAsJson (shadow_expected input), sh_computed = emissionPlanAsJson computed,
            sh_createdAt = t\<rparr>]\<rparr>))) (\<lambda>_.
        returnA \<lparr>shadow_matched = matched, shadow_differences = differences, shadow_computed = computed\<rparr>))))"

record ShadowSummary =
  summary_total :: nat
  summary_matched :: nat
  summary_mismatched :: nat
  summary_matchRate :: "number option"

definition matchRatePercent :: "nat \<Rightarrow> nat \<Rightarrow> number option" where
  "matchRatePercent matched count =
     (if count = 0 then None
      else Some (js_div (of_int (math_round (js_mul (js_div (of_nat matched) (of_nat count)) BASIS_POINTS_PER_UNIT)))
        BASIS_POINTS_PER_PERCENT))"

definition summaryOf :: "ShadowRow list \<Rightarrow> ShadowSummary" where
  "summaryOf recent =
     (let count = length recent; matched = length (filter sh_matched recent) in
      \<lparr>summary_total = count, summary_matched = matched, summary_mismatched = count - matched,
       summary_matchRate = matchRatePercent matched count\<rparr>)"

definition shadowSummary :: "'a ports \<Rightarrow> string \<Rightarrow> string \<Rightarrow> ('a, ShadowSummary) effect" where
  "shadowSummary p client i =
     bindA (assertIssuerGranted p client i) (\<lambda>_.
     table p (getA (\<lambda>w. summaryOf (take SUMMARY_WINDOW
       (sort_key (\<lambda>r. - sh_createdAt r) (filter (\<lambda>r. sh_issuerId r = i) (shadowComparisons w)))))))"

end
