(* ===== verification/ClientProperties.thy ===== *)
theory ClientProperties
  imports Clients Shadow AccessProperties Samples
begin

text \<open>
  What the address book, the sales points and the comparisons guarantee.
\<close>

subsection \<open>The table of clients\<close>

text \<open>The contract of a property of the tables with the operations on the clients of an issuer.\<close>

locale client_table =
  fixes p :: "'a ports" and i :: string and I :: "'a world \<Rightarrow> bool"
  assumes outside: "I (w\<lparr>outside := s\<rparr>) = I w"
    and inserted: "I w \<Longrightarrow> findRow (\<lambda>r. clientKey r = (i, cc_docType d, cc_docNumber d)) (clients w) = None \<Longrightarrow>
      I (w\<lparr>nextId := Suc (nextId w), clients := clients w @ [newClient (cuid p (nextId w)) i d]\<rparr>)"
    and changed: "I w \<Longrightarrow> findRow (ownClient i k) (clients w) = Some r \<Longrightarrow>
      findRow (\<lambda>r'. client_id r' \<noteq> k \<and> clientKey r' = clientKey (changedClient u r)) (clients w) = None \<Longrightarrow>
      I (w\<lparr>clients := map (\<lambda>r. if ownClient i k r then changedClient u r else r) (clients w)\<rparr>)"
    and erased: "I w \<Longrightarrow> findRow (ownClient i k) (clients w) = Some r \<Longrightarrow>
      I (w\<lparr>clients := filter (\<lambda>r. \<not> ownClient i k r) (clients w), vouchers := map (detachClient k) (vouchers w)\<rparr>)"
begin

lemma tables: "ofTables I"
  by (simp add: ofTables_def outside)

lemma creates: "preserves I (createClient p i d)"
  unfolding createClient_def insertClient_def
  by (intro preserves_catchA preserves_table tables preserves_throwA preservesI)
    (auto simp: inserted newId_def action_simps)

lemma lists: "preserves I (listClients p collation i)"
  unfolding listClients_def by (intro preserves_table tables preserves_getA)

lemma gets: "preserves I (getClient p i k)"
  unfolding getClient_def
  by (intro preserves_bindA preserves_table tables preserves_getA) (auto split: option.split)

lemma updates: "preserves I (updateClient p i k u)"
  unfolding updateClient_def writeClient_def
  by (intro preserves_bindA gets preserves_catchA preserves_table tables preserves_throwA preservesI)
    (auto simp: changed split: option.split)

lemma deletes: "preserves I (deleteClient p i k)"
  unfolding deleteClient_def eraseClient_def
  by (intro preserves_bindA gets preserves_table tables preserves_returnA preservesI) (auto simp: erased)

end

text \<open>
  The operations on the clients of an issuer, whatever their arguments.
\<close>

inductive client_step :: "'a ports \<Rightarrow> string \<Rightarrow> 'a world \<Rightarrow> 'a world \<Rightarrow> bool" for p i where
  create: "client_step p i w (snd (createClient p i d w))"
| list_all: "client_step p i w (snd (listClients p collation i w))"
| get: "client_step p i w (snd (getClient p i k w))"
| update: "client_step p i w (snd (updateClient p i k u w))"
| delete: "client_step p i w (snd (deleteClient p i k w))"

context client_table
begin

lemma step_keeps: "client_step p i w w' \<Longrightarrow> I w \<Longrightarrow> I w'"
  by (induction rule: client_step.induct)
    (use creates lists gets updates deletes in \<open>auto simp: preserves_def\<close>)

lemma steps_keep: "(client_step p i)\<^sup>*\<^sup>* w w' \<Longrightarrow> I w \<Longrightarrow> I w'"
  by (induction rule: rtranclp_induct) (auto intro: step_keeps)

end

text \<open>
  Well-formed: identifiers and keys once each, and every client of a voucher is there. The rows
  of other issuers as they were.
\<close>

definition clientsOk :: "'a ports \<Rightarrow> 'a world \<Rightarrow> bool" where
  "clientsOk p w \<longleftrightarrow> inj (cuid p) \<and> distinct (map client_id (clients w)) \<and> distinct (map clientKey (clients w)) \<and>
     (\<forall>r\<in>set (clients w). allocated p w (client_id r)) \<and>
     (\<forall>v\<in>set (vouchers w). \<forall>c. vd_clientId (voucher_data v) = Some c \<longrightarrow> c \<in> client_id ` set (clients w))"

definition othersClients :: "string \<Rightarrow> ClientRow list \<Rightarrow> 'a world \<Rightarrow> bool" where
  "othersClients i rows w \<longleftrightarrow> filter (\<lambda>r. client_issuerId r \<noteq> i) (clients w) = rows"

lemma distinct_map_change:
  assumes "distinct (map f xs)" "\<And>x y. x \<in> set xs \<Longrightarrow> y \<in> set xs \<Longrightarrow> P x \<Longrightarrow> P y \<Longrightarrow> x = y"
    and "\<And>x y. x \<in> set xs \<Longrightarrow> y \<in> set xs \<Longrightarrow> P x \<Longrightarrow> \<not> P y \<Longrightarrow> f (c x) \<noteq> f y"
  shows "distinct (map f (map (\<lambda>x. if P x then c x else x) xs))"
  using assms
proof (induction xs)
  case (Cons x xs)
  then have IH: "distinct (map f (map (\<lambda>x. if P x then c x else x) xs))" by auto
  have "f (if P x then c x else x) \<notin> set (map f (map (\<lambda>x. if P x then c x else x) xs))"
  proof
    assume "f (if P x then c x else x) \<in> set (map f (map (\<lambda>x. if P x then c x else x) xs))"
    then obtain y where y: "y \<in> set xs" "f (if P x then c x else x) = f (if P y then c y else y)" by auto
    have ne: "f x \<noteq> f y" using Cons.prems(1) y(1) by auto
    then have "x \<noteq> y" by auto
    consider "P x" "P y" | "P x" "\<not> P y" | "\<not> P x" "P y" | "\<not> P x" "\<not> P y" by blast
    then show False
    proof cases
      case 1
      then show False using Cons.prems(2) [of x y] y(1) \<open>x \<noteq> y\<close> by simp
    next
      case 2
      then show False using Cons.prems(3) [of x y] y by simp
    next
      case 3
      then show False using Cons.prems(3) [of y x] y by simp
    qed (use y ne in simp)
  qed
  with IH show ?case by simp
qed simp

lemma changed_key: "client_id (changedClient u r) = client_id r" "client_issuerId (changedClient u r) = client_issuerId r"
  by (simp_all add: changedClient_def)

lemma allocated_mono: "allocated p w j \<Longrightarrow> nextId w \<le> nextId w' \<Longrightarrow> allocated p w' j"
  by (auto simp: allocated_def intro: less_le_trans)

lemma clientsOk_unique: "clientsOk p w \<Longrightarrow> x \<in> set (clients w) \<Longrightarrow> y \<in> set (clients w) \<Longrightarrow> client_id x = client_id y \<Longrightarrow> x = y"
  unfolding clientsOk_def by (metis distinct_map inj_onD)

lemma clientsOk_inserted:
  assumes "clientsOk p w" "findRow (\<lambda>r. clientKey r = (i, cc_docType d, cc_docNumber d)) (clients w) = None"
  shows "clientsOk p (w\<lparr>nextId := Suc (nextId w), clients := clients w @ [newClient (cuid p (nextId w)) i d]\<rparr>)"
proof -
  let ?w = "w\<lparr>nextId := Suc (nextId w), clients := clients w @ [newClient (cuid p (nextId w)) i d]\<rparr>"
  have inj: "inj (cuid p)" and ids: "\<forall>r\<in>set (clients w). allocated p w (client_id r)"
    and dist: "distinct (map client_id (clients w))" "distinct (map clientKey (clients w))"
    and refs: "\<forall>v\<in>set (vouchers w). \<forall>c. vd_clientId (voucher_data v) = Some c \<longrightarrow> c \<in> client_id ` set (clients w)"
    using assms(1) unfolding clientsOk_def by auto
  have "cuid p (nextId w) \<notin> client_id ` set (clients w)"
    using ids inj by (force simp: allocated_def dest: injD)
  moreover have "clientKey (newClient (cuid p (nextId w)) i d) \<notin> clientKey ` set (clients w)"
    using assms(2) by (auto simp: findRow_None clientKey_def newClient_def)
  moreover have "allocated p ?w (client_id r)" if "r \<in> set (clients ?w)" for r
    using that ids by (auto simp: newClient_def intro: allocated_mono) (auto simp: allocated_def)
  ultimately show ?thesis using inj dist refs by (simp add: clientsOk_def newClient_def image_iff)
qed

lemma clientsOk_changed:
  assumes ok: "clientsOk p w" and r: "findRow (ownClient i k) (clients w) = Some r"
    and free: "findRow (\<lambda>r'. client_id r' \<noteq> k \<and> clientKey r' = clientKey (changedClient u r)) (clients w) = None"
  shows "clientsOk p (w\<lparr>clients := map (\<lambda>r. if ownClient i k r then changedClient u r else r) (clients w)\<rparr>)"
proof -
  let ?rows = "map (\<lambda>r. if ownClient i k r then changedClient u r else r) (clients w)"
  have own: "x = r" if "x \<in> set (clients w)" "ownClient i k x" for x
    using clientsOk_unique [OF ok that(1)] r that(2) by (auto simp: ownClient_def dest: findRow_Some)
  have ids: "map client_id ?rows = map client_id (clients w)" by (simp add: changed_key)
  have "distinct (map clientKey ?rows)"
  proof (rule distinct_map_change)
    show "distinct (map clientKey (clients w))" using ok by (simp add: clientsOk_def)
    show "x = y" if "x \<in> set (clients w)" "y \<in> set (clients w)" "ownClient i k x" "ownClient i k y" for x y
      using own that by blast
    show "clientKey (changedClient u x) \<noteq> clientKey y"
      if x: "x \<in> set (clients w)" "ownClient i k x" and y: "y \<in> set (clients w)" "\<not> ownClient i k y" for x y
    proof -
      have "client_id y \<noteq> k" using clientsOk_unique [OF ok y(1) x(1)] x(2) y(2) by (auto simp: ownClient_def)
      then show ?thesis using free y(1) own [OF x] by (auto simp: findRow_None)
    qed
  qed
  moreover have "client_id ` set ?rows = client_id ` set (clients w)" using ids by (metis list.set_map)
  moreover have "\<forall>r\<in>set ?rows. allocated p w (client_id r)"
    using ok by (auto simp: clientsOk_def changed_key)
  ultimately show ?thesis using ok ids
    by (simp add: clientsOk_def allocated_def del: map_map list.map_comp set_map list.set_map)
qed

lemma clientsOk_erased:
  assumes ok: "clientsOk p w" and r: "findRow (ownClient i k) (clients w) = Some r"
  shows "clientsOk p (w\<lparr>clients := filter (\<lambda>r. \<not> ownClient i k r) (clients w), vouchers := map (detachClient k) (vouchers w)\<rparr>)"
proof -
  have "c \<in> client_id ` {x \<in> set (clients w). \<not> ownClient i k x}"
    if "v \<in> set (vouchers w)" "vd_clientId (voucher_data (detachClient k v)) = Some c" for v c
  proof -
    have c: "vd_clientId (voucher_data v) = Some c" "c \<noteq> k" using that(2) by (auto simp: detachClient_def split: if_splits)
    then have "c \<in> client_id ` set (clients w)" using ok that(1) by (auto simp: clientsOk_def)
    then show ?thesis using c(2) by (auto simp: ownClient_def)
  qed
  then show ?thesis using ok
    by (auto simp: clientsOk_def allocated_def distinct_map inj_on_def intro!: distinct_filter)
qed

interpretation clients_ok: client_table p i "clientsOk p" for p :: "'a ports" and i
proof
  show "clientsOk p (w\<lparr>outside := s\<rparr>) = clientsOk p w" for w :: "'a world" and s
    by (simp add: clientsOk_def allocated_def)
qed (fact clientsOk_inserted clientsOk_changed clientsOk_erased)+

lemma filter_others:
  "(\<And>r. client_issuerId (c r) = client_issuerId r) \<Longrightarrow>
   filter (\<lambda>r. client_issuerId r \<noteq> i) (map (\<lambda>r. if ownClient i k r then c r else r) rows) =
   filter (\<lambda>r. client_issuerId r \<noteq> i) rows"
  by (induction rows) (auto simp: ownClient_def)

lemma filter_others_erased:
  "filter (\<lambda>r. \<not> ownClient i k r \<and> client_issuerId r \<noteq> i) rows = filter (\<lambda>r. client_issuerId r \<noteq> i) rows"
  by (induction rows) (auto simp: ownClient_def)

interpretation clients_others: client_table p i "othersClients i rows" for p :: "'a ports" and i rows
  by unfold_locales (auto simp: othersClients_def newClient_def filter_others filter_others_erased changed_key)

lemma detach_fields: "voucher_id (detachClient k v) = voucher_id v" "voucherKey (detachClient k v) = voucherKey v"
  "vd_salesPointId (voucher_data (detachClient k v)) = vd_salesPointId (voucher_data v)"
  by (simp_all add: detachClient_def voucherKey_def)

lemma detach_ids: "voucher_id ` detachClient k ` vs = voucher_id ` vs"
  by (simp add: image_image detach_fields)

lemma detach_maps: "map voucher_id (map (detachClient k) vs) = map voucher_id vs"
  "map voucherKey (map (detachClient k) vs) = map voucherKey vs"
  by (simp_all add: detach_fields)

interpretation clients_database: client_table p i "databaseOk p" for p :: "'a ports" and i
proof
  show "databaseOk p (w\<lparr>outside := s\<rparr>) = databaseOk p w" for w :: "'a world" and s by simp
  show "databaseOk p (w\<lparr>nextId := Suc (nextId w), clients := clients w @ [newClient (cuid p (nextId w)) i d]\<rparr>)"
    if "databaseOk p w" for w :: "'a world" and d
    using that by (auto simp: databaseOk_defs allocated_def less_Suc_eq)
  show "databaseOk p (w\<lparr>clients := map (\<lambda>r. if ownClient i k r then changedClient u r else r) (clients w)\<rparr>)"
    if "databaseOk p w" for w :: "'a world" and k u
    using that by (simp add: databaseOk_defs allocated_def)
  show "databaseOk p (w\<lparr>clients := filter (\<lambda>r. \<not> ownClient i k r) (clients w), vouchers := map (detachClient k) (vouchers w)\<rparr>)"
    if "databaseOk p w" for w :: "'a world" and k
    using that by (auto simp: databaseOk_defs allocated_def detach_maps detach_fields detach_ids subset_iff image_iff simp del: map_map)
qed

text \<open>
  Property C31. Whatever requests are made about the clients of an issuer, the tables stay well
  formed (a document once per issuer, every client a voucher names is there, and what emission
  needs of its tables) and the clients of the other issuers stay as they were.
\<close>

theorem clients_stay_well_formed:
  assumes "(client_step p i)\<^sup>*\<^sup>* w w'" "clientsOk p w" "databaseOk p w"
  shows "clientsOk p w' \<and> databaseOk p w' \<and>
    filter (\<lambda>r. client_issuerId r \<noteq> i) (clients w') = filter (\<lambda>r. client_issuerId r \<noteq> i) (clients w)"
  using clients_ok.steps_keep [OF assms(1,2)] clients_database.steps_keep [OF assms(1,3)]
    clients_others.steps_keep [OF assms(1), of "filter (\<lambda>r. client_issuerId r \<noteq> i) (clients w)"]
  by (simp add: othersClients_def)

definition sampleCreate :: CreateClient where
  "sampleCreate = \<lparr>cc_docType = 80, cc_docNumber = ''30707153745'', cc_legalName = Some ''ACME'', cc_ivaCondition = None, cc_email = None\<rparr>"

lemma sample_clientsOk: "clientsOk samplePorts (sampleWorld [] [] [])"
proof -
  have "inj (\<lambda>n. replicate n (CHR ''c''))" by (rule injI) (metis length_replicate)
  then show ?thesis by (simp add: clientsOk_def sampleWorld_def samplePorts_def)
qed

lemma sample_created:
  "createClient samplePorts ''i'' sampleCreate (sampleWorld [] [] []) = (Inr (newClient ''c'' ''i'' sampleCreate),
     (sampleWorld [] [] [])\<lparr>nextId := 2, clients := [newClient ''c'' ''i'' sampleCreate]\<rparr>)"
  by (simp add: createClient_def insertClient_def table_def external_def reachDatabase_def samplePorts_def sampleWorld_def
      newId_def action_simps)

theorem clients_stay_well_formed_witness:
  "clientsOk samplePorts ((sampleWorld [] [] [])\<lparr>nextId := 2, clients := [newClient ''c'' ''i'' sampleCreate]\<rparr>)"
proof -
  have "client_step samplePorts ''i'' (sampleWorld [] [] [])
      (snd (createClient samplePorts ''i'' sampleCreate (sampleWorld [] [] [])))" by (rule client_step.create)
  then have "(client_step samplePorts ''i'')\<^sup>*\<^sup>* (sampleWorld [] [] [])
      ((sampleWorld [] [] [])\<lparr>nextId := 2, clients := [newClient ''c'' ''i'' sampleCreate]\<rparr>)"
    unfolding sample_created by simp
  moreover have "databaseOk samplePorts (sampleWorld [] [] [])"
    using sample_stateOk [of "[]" "[]" "[]"] by (simp add: stateOk_def)
  ultimately show ?thesis using clients_stay_well_formed [OF _ sample_clientsOk] by blast
qed

subsection \<open>The document of a client\<close>

text \<open>
  An update that only gives a document number is not checked against the type the
  client has: for a client with CUIT or CUIL the schema accepts any text, the update stores it,
  and the client that results is one that the schema of a creation refuses.
\<close>

lemma update_skips_document_check:
  assumes "findRow (ownClient i k) (clients w) = Some r" "client_docType r \<in> set elevenDigitDocTypes"
    and "n \<noteq> ''''" "\<not> isElevenDigits n"
    and "\<And>r'. r' \<in> set (clients w) \<Longrightarrow> clientKey r' = (client_issuerId r, client_docType r, n) \<Longrightarrow> client_id r' = k"
    and "database p (outside w) = (None, s)" "database p s = (None, s')"
  defines "u \<equiv> \<lparr>uc_docType = None, uc_docNumber = Some n, uc_legalName = None, uc_ivaCondition = None, uc_email = None\<rparr>"
  shows "updateClientOk isEmail u \<and>
    (\<exists>w'. updateClient p i k u w = (Inr (r\<lparr>client_docNumber := n\<rparr>), w') \<and>
       (\<exists>r'\<in>set (clients w'). client_id r' = k \<and> client_docType r' = client_docType r \<and> client_docNumber r' = n)) \<and>
    (\<forall>d. cc_docType d = client_docType r \<longrightarrow> cc_docNumber d = n \<longrightarrow> \<not> createClientOk isEmail d)"
proof -
  have change: "changedClient u r = r\<lparr>client_docNumber := n\<rparr>" by (simp add: changedClient_def u_def)
  have k: "client_id r = k" "r \<in> set (clients w)" "ownClient i k r" using assms(1) by (auto simp: ownClient_def dest: findRow_Some)
  have "findRow (\<lambda>r'. client_id r' \<noteq> k \<and> clientKey r' = clientKey (changedClient u r)) (clients w) = None"
    using assms(5) by (auto simp: findRow_None change clientKey_def)
  then have written: "updateClient p i k u w = (Inr (changedClient u r),
      w\<lparr>outside := s', clients := map (\<lambda>r. if ownClient i k r then changedClient u r else r) (clients w)\<rparr>)"
    using assms(1,6,7)
    by (simp add: updateClient_def getClient_def writeClient_def table_def bindA_def catchA_def external_def reachDatabase_def
        getA_def returnA_def)
  moreover have "\<exists>r'\<in>set (map (\<lambda>r. if ownClient i k r then changedClient u r else r) (clients w)).
      client_id r' = k \<and> client_docType r' = client_docType r \<and> client_docNumber r' = n"
    using k by (intro bexI [of _ "changedClient u r"]) (auto simp: change image_iff intro!: bexI [of _ r])
  moreover have "updateClientOk isEmail u" using assms(3) by (simp add: updateClientOk_def u_def optionally_def)
  moreover have "\<forall>d. cc_docType d = client_docType r \<longrightarrow> cc_docNumber d = n \<longrightarrow> \<not> createClientOk isEmail d"
    using assms(2,4) by (auto simp: createClientOk_def docNumberOk_def)
  ultimately show ?thesis by (simp add: change)
qed

theorem update_skips_document_check_witness:
  "\<exists>w'. updateClient samplePorts ''i'' ''c''
      \<lparr>uc_docType = None, uc_docNumber = Some ''x'', uc_legalName = None, uc_ivaCondition = None, uc_email = None\<rparr>
      ((sampleWorld [] [] [])\<lparr>clients := [newClient ''c'' ''i'' sampleCreate]\<rparr>) =
    (Inr ((newClient ''c'' ''i'' sampleCreate)\<lparr>client_docNumber := ''x''\<rparr>), w')"
proof -
  let ?r = "newClient ''c'' ''i'' sampleCreate"
  let ?w = "(sampleWorld [] [] [])\<lparr>clients := [?r]\<rparr>"
  have r: "findRow (ownClient ''i'' ''c'') (clients ?w) = Some ?r" "client_docType ?r \<in> set elevenDigitDocTypes"
    by (simp_all add: ownClient_def newClient_def sampleCreate_def elevenDigitDocTypes_def)
  have n: "''x'' \<noteq> ''''" "\<not> isElevenDigits ''x''" by (simp_all add: isElevenDigits_def)
  have only: "client_id r' = ''c''" if "r' \<in> set (clients ?w)" for r' using that by (simp add: newClient_def)
  have up: "database samplePorts (outside ?w) = (None, outside ?w)" by (simp add: samplePorts_def sampleWorld_def)
  show ?thesis using update_skips_document_check [OF r n only up up, of "\<lambda>s. True"] by blast
qed

subsection \<open>Sales points\<close>

lemma getFromUser_tables:
  assumes "getFromUser p i u w = (Inr issuer, w')"
  shows "salesPoints w' = salesPoints w" "nextId w' = nextId w"
proof -
  have "unchanged w w'" using reads_outcome [OF getOwned_reads, of w "OwnerUser u" i p] assms by (simp add: getFromUser_def)
  then obtain s where "w' = w\<lparr>outside := s\<rparr>" unfolding unchanged_def by blast
  then show "salesPoints w' = salesPoints w" "nextId w' = nextId w" by simp_all
qed

lemma ensureSalesPoint_Inr:
  assumes "ensureSalesPoint p i n w = (Inr x, w')"
  shows "\<exists>new. salesPoints w' = salesPoints w @ new \<and>
    (\<forall>r\<in>set new. sp_issuerId r = i \<and> sp_number r = n \<and> sp_description r = None)"
    "findRow (salesPointKey (i, n)) (salesPoints w') \<noteq> None"
proof -
  obtain s where s: "(\<lambda>w. (case findRow (salesPointKey (i, n)) (salesPoints w) of
        Some r \<Rightarrow> (Inr (), w)
      | None \<Rightarrow> bindA (newId p) (\<lambda>new. putA (\<lambda>w. w\<lparr>salesPoints := salesPoints w @
          [\<lparr>sp_id = new, sp_issuerId = i, sp_number = n, sp_description = None\<rparr>]\<rparr>)) w)) (w\<lparr>outside := s\<rparr>) = (Inr x, w')"
    using assms unfolding ensureSalesPoint_def table_Inr by blast
  show "\<exists>new. salesPoints w' = salesPoints w @ new \<and>
    (\<forall>r\<in>set new. sp_issuerId r = i \<and> sp_number r = n \<and> sp_description r = None)"
    using s by (cases "findRow (salesPointKey (i, n)) (salesPoints w)") (auto simp: bindA_def newId_def putA_def)
  show "findRow (salesPointKey (i, n)) (salesPoints w') \<noteq> None"
    using s by (cases "findRow (salesPointKey (i, n)) (salesPoints w)")
      (auto simp: bindA_def newId_def putA_def findRow_append salesPointKey_def)
qed

definition syncPoint :: "'a ports \<Rightarrow> string \<Rightarrow> int option \<Rightarrow> ('a, unit) effect" where
  "syncPoint p i point = (case point of None \<Rightarrow> throwA (OtherError ''PrismaClientValidationError'') | Some n \<Rightarrow> ensureSalesPoint p i n)"

lemma syncPoints_Inr:
  "forEachA (syncPoint p i) points w = (Inr x, w') \<Longrightarrow>
   \<exists>ns new. points = map Some ns \<and> salesPoints w' = salesPoints w @ new \<and>
     (\<forall>r\<in>set new. sp_issuerId r = i \<and> sp_number r \<in> set ns \<and> sp_description r = None) \<and>
     (\<forall>n\<in>set ns. findRow (salesPointKey (i, n)) (salesPoints w') \<noteq> None)"
proof (induction points arbitrary: w)
  case (Cons point points)
  obtain y v where a: "syncPoint p i point w = (Inr y, v)" "forEachA (syncPoint p i) points v = (Inr x, w')"
    using Cons.prems by (auto split: prod.splits sum.splits)
  obtain n where n: "point = Some n" "ensureSalesPoint p i n w = (Inr y, v)"
    using a(1) by (auto simp: syncPoint_def throwA_def split: option.splits)
  obtain ns new where ns: "points = map Some ns" "salesPoints w' = salesPoints v @ new"
    "\<forall>r\<in>set new. sp_issuerId r = i \<and> sp_number r \<in> set ns \<and> sp_description r = None"
    "\<forall>n\<in>set ns. findRow (salesPointKey (i, n)) (salesPoints w') \<noteq> None"
    using Cons.IH [OF a(2)] by blast
  obtain one where one: "salesPoints v = salesPoints w @ one"
    "\<forall>r\<in>set one. sp_issuerId r = i \<and> sp_number r = n \<and> sp_description r = None"
    using ensureSalesPoint_Inr(1) [OF n(2)] by blast
  have "findRow (salesPointKey (i, n)) (salesPoints w') \<noteq> None"
    using ensureSalesPoint_Inr(2) [OF n(2)] by (auto simp: ns(2) findRow_append)
  then show ?case using n(1) ns one
    by (intro exI [of _ "n # ns"] exI [of _ "one @ new"]) auto
qed simp

text \<open>
  A synchronisation that answers lists the sales points of the issuer by number, with
  every point that ARCA reported among them. It only adds rows: those there were, with their
  descriptions, stay, and each new one is a reported point without description.
\<close>

lemma sync_lists_reported_points:
  assumes "syncSalesPoints p remote u i w = (Inr rows, w')"
  shows "sorted (map sp_number rows) \<and> set rows = {r \<in> set (salesPoints w'). sp_issuerId r = i} \<and>
    (\<exists>ns new issuer s s'. remote issuer s = (Inr (map Some ns), s') \<and> set ns \<subseteq> sp_number ` set rows \<and>
      salesPoints w' = salesPoints w @ new \<and>
      (\<forall>r\<in>set new. sp_issuerId r = i \<and> sp_number r \<in> set ns \<and> sp_description r = None))"
proof -
  obtain issuer v points v1 y v2 where a: "getFromUser p i u w = (Inr issuer, v)" "external (remote issuer) v = (Inr points, v1)"
    "forEachA (syncPoint p i) points v1 = (Inr y, v2)" "listOwnSalesPoints p u i v2 = (Inr rows, w')"
    using assms unfolding syncSalesPoints_def bindA_Inr_iff syncPoint_def [abs_def] by blast
  obtain z v3 where b: "getFromUser p i u v2 = (Inr z, v3)" "listSalesPointsOf p i v3 = (Inr rows, w')"
    using a(4) unfolding listOwnSalesPoints_def bindA_Inr_iff by blast
  obtain ns new where ns: "points = map Some ns" "salesPoints v2 = salesPoints v1 @ new"
    "\<forall>r\<in>set new. sp_issuerId r = i \<and> sp_number r \<in> set ns \<and> sp_description r = None"
    "\<forall>n\<in>set ns. findRow (salesPointKey (i, n)) (salesPoints v2) \<noteq> None"
    using syncPoints_Inr [OF a(3)] by blast
  have w': "salesPoints w' = salesPoints v2" and rows: "rows = sort_key sp_number (filter (\<lambda>r. sp_issuerId r = i) (salesPoints v2))"
    using b getFromUser_tables [OF b(1)] by (auto simp: listSalesPointsOf_def table_Inr getA_def)
  have v1: "salesPoints v1 = salesPoints w"
    using a(2) getFromUser_tables [OF a(1)] by (auto simp: external_def split: prod.splits)
  have "n \<in> sp_number ` set rows" if "n \<in> set ns" for n
    using ns(4) that by (fastforce simp: rows findRow_None salesPointKey_def image_iff)
  moreover obtain s s' where "remote issuer s = (Inr points, s')"
    using a(2) by (auto simp: external_def split: prod.splits)
  ultimately show ?thesis using ns(1,2,3) w' v1 by (auto simp: rows)
qed

theorem sync_lists_reported_points_witness:
  "\<exists>rows w'. syncSalesPoints samplePorts (\<lambda>issuer s. (Inr [Some 7, Some 3], s)) ''u'' ''i'' (sampleWorld [] [] []) = (Inr rows, w') \<and>
     sorted (map sp_number rows)"
proof -
  have "\<exists>rows w'. syncSalesPoints samplePorts (\<lambda>issuer s. (Inr [Some 7, Some 3], s)) ''u'' ''i'' (sampleWorld [] [] []) = (Inr rows, w')"
    by (simp add: syncSalesPoints_def listOwnSalesPoints_def listSalesPointsOf_def getFromUser_def getOwned_def ownedIssuerWhere_def
        findIssuerWhere_def matchesWhere_def ensureSalesPoint_def salesPointKey_def table_def external_def reachDatabase_def
        samplePorts_def sampleWorld_def sampleIssuer_def newId_def action_simps)
  then obtain rows w' where "syncSalesPoints samplePorts (\<lambda>issuer s. (Inr [Some 7, Some 3], s)) ''u'' ''i'' (sampleWorld [] [] []) = (Inr rows, w')"
    by blast
  then show ?thesis using sync_lists_reported_points by blast
qed

subsection \<open>Comparisons\<close>

lemma tolerance_bounds: "1 / 100 - 1 / 65536 \<le> MONEY_TOLERANCE" "MONEY_TOLERANCE \<le> 1 / 100 + 1 / 65536" "0 < MONEY_TOLERANCE"
proof -
  have "\<bar>MONEY_TOLERANCE - 1 / 100\<bar> \<le> 1 / 65536" using cents_err [of 1] by (simp add: MONEY_TOLERANCE_def cents_def cents_range_def)
  then show "1 / 100 - 1 / 65536 \<le> MONEY_TOLERANCE" "MONEY_TOLERANCE \<le> 1 / 100 + 1 / 65536" "0 < MONEY_TOLERANCE" by linarith+
qed

text \<open>
  The tolerance of a comparison, for amounts in whole cents up to 87960930222.08:
  equal amounts are never reported and amounts two cents apart or more always are. One cent apart
  is not a rule: 0.02 against 0.01 is not reported, 1.01 against 1.00 is, since the difference of
  the doubles is then above the double of 0.01.
\<close>

lemma comparison_tolerance:
  assumes "cents_range a" "cents_range b"
  shows "(a = b \<longrightarrow> compareMoney name (cents a) (cents b) = []) \<and>
    (2 \<le> \<bar>a - b\<bar> \<longrightarrow> compareMoney name (cents a) (cents b) \<noteq> []) \<and>
    compareMoney name (cents 2) (cents 1) = [] \<and> compareMoney name (cents 101) (cents 100) \<noteq> []"
proof (intro conjI impI)
  show "compareMoney name (cents a) (cents b) = []" if "a = b"
    using that tolerance_bounds(3) by (simp add: compareMoney_def js_sub_def)
  show "compareMoney name (cents a) (cents b) \<noteq> []" if "2 \<le> \<bar>a - b\<bar>"
  proof -
    have "(2::rat) \<le> \<bar>of_int (a - b)\<bar>" using that by (simp only: of_int_abs [symmetric])
    then have "1 / 50 \<le> \<bar>of_int (a - b) / (100::rat)\<bar>" by simp
    moreover have far: "m - e \<le> \<bar>d\<bar>" if "\<bar>d - x\<bar> \<le> e" "m \<le> \<bar>x\<bar>" for d x e m :: rat using that by linarith
    ultimately have "1 / 50 - 1 / 8192 \<le> \<bar>js_sub (cents a) (cents b)\<bar>" using far [OF cents_sub_err [OF assms]] by blast
    then have "MONEY_TOLERANCE < \<bar>js_sub (cents a) (cents b)\<bar>" using tolerance_bounds(2) by linarith
    then show ?thesis by (simp add: compareMoney_def)
  qed
  show "compareMoney name (cents 2) (cents 1) = []" unfolding compareMoney_def by code_simp
  show "compareMoney name (cents 101) (cents 100) \<noteq> []" unfolding compareMoney_def by code_simp
qed

theorem comparison_tolerance_witness:
  "compareMoney ''netAmount'' (cents 300) (cents 100) \<noteq> []"
  using comparison_tolerance [of 300 100 "''netAmount''"] by (simp add: cents_range_def)

end
