(* ===== verification/FieldCipher.thy ===== *)
theory FieldCipher
  imports ApiKeys
begin

text \<open>
  The encryption of fields at rest, \<open>crypto/field-cipher.ts\<close> and
  \<open>crypto/field-encryption.service.ts\<close>. AES-256-GCM and the random bytes of \<open>node:crypto\<close> are
  the fields of a record: \<open>gcmSeal\<close> gives the ciphertext and its tag, \<open>gcmOpen\<close> is \<open>None\<close>
  where \<open>node:crypto\<close> throws.
\<close>

record 'a cipher =
  gcmSeal :: "nat list \<Rightarrow> nat list \<Rightarrow> nat list \<Rightarrow> nat list \<times> nat list"
  gcmOpen :: "nat list \<Rightarrow> nat list \<Rightarrow> nat list \<Rightarrow> nat list \<Rightarrow> nat list option"
  cipherBytes :: "nat \<Rightarrow> 'a \<Rightarrow> nat list \<times> 'a"

definition CIPHER_KEY_LENGTH :: nat where
  "CIPHER_KEY_LENGTH = 32"

definition IV_LENGTH :: nat where
  "IV_LENGTH = 12"

definition TAG_LENGTH :: int where
  "TAG_LENGTH = 16"

subsection \<open>Bytes\<close>

text \<open>\<open>buffer.subarray(start, end)\<close>; a negative index counts from the end.\<close>

definition bufferIndex :: "nat list \<Rightarrow> int \<Rightarrow> nat" where
  "bufferIndex b i = nat (if i < 0 then max 0 (int (length b) + i) else min i (int (length b)))"

definition subarray :: "nat list \<Rightarrow> int \<Rightarrow> int \<Rightarrow> nat list" where
  "subarray b i j = take (bufferIndex b j - bufferIndex b i) (drop (bufferIndex b i) b)"

text \<open>
  UTF-8, for texts of Latin-1. A malformed sequence, which the encoding of a text never has, is
  U+FFFD in the code and the code unit 0x1A here.
\<close>

definition utf8Bytes :: "string \<Rightarrow> nat list" where
  "utf8Bytes s = concat (map (\<lambda>c. let n = of_char c in if n < 128 then [n] else [192 + n div 64, 128 + n mod 64]) s)"

fun utf8Text :: "nat list \<Rightarrow> string" where
  "utf8Text [] = []"
| "utf8Text [a] = [if a < 128 then char_of a else CHR 0x1A]"
| "utf8Text (a # b # r) =
     (if a < 128 then char_of a # utf8Text (b # r)
      else if a \<in> {194, 195} \<and> b div 64 = 2 then char_of ((a - 192) * 64 + (b - 128)) # utf8Text r
      else CHR 0x1A # utf8Text (b # r))"

lemma utf8_round_trip: "utf8Text (utf8Bytes s) = s"
proof (induction s)
  case (Cons c s)
  let ?n = "of_char c :: nat"
  have bound: "?n < 256" by simp
  show ?case
  proof (cases "?n < 128")
    case True
    have "utf8Text (?n # bs) = c # utf8Text bs" for bs using True by (cases bs) simp_all
    then show ?thesis using True Cons by (simp add: utf8Bytes_def)
  next
    case False
    have q: "?n div 64 = 2 \<or> ?n div 64 = 3" using False bound by linarith
    then have "(192 + ?n div 64) \<in> {194, 195}" by auto
    moreover have "(128 + ?n mod 64) div 64 = 2" by simp
    moreover have "(192 + ?n div 64 - 192) * 64 + (128 + ?n mod 64 - 128) = ?n" by simp
    moreover have "\<not> 192 + ?n div 64 < 128" by simp
    ultimately have "utf8Text ((192 + ?n div 64) # (128 + ?n mod 64) # bs) = c # utf8Text bs" for bs
      by (simp del: insert_iff)
    then show ?thesis using False Cons by (simp add: utf8Bytes_def Let_def)
  qed
qed (simp add: utf8Bytes_def)

lemma utf8Bytes_bytes: "b \<in> set (utf8Bytes s) \<Longrightarrow> b < 256"
proof -
  assume "b \<in> set (utf8Bytes s)"
  then obtain c where c: "b \<in> set (let n = of_char c in if n < 128 then [n] else [192 + n div 64, 128 + n mod 64])"
    by (auto simp: utf8Bytes_def)
  have "(of_char c :: nat) < 256" by simp
  then have "(of_char c :: nat) div 64 < 4" by linarith
  then show ?thesis using c by (auto simp: Let_def split: if_splits)
qed

subsection \<open>The cipher\<close>

text \<open>The error is the message of an \<open>InvalidEncryptionKeyError\<close>.\<close>

definition parseEncryptionKey :: "string \<Rightarrow> string \<Rightarrow> string + nat list" where
  "parseEncryptionKey raw variableName =
     (if raw = '''' then Inl (variableName @ '' no configurada (base64 de 32 bytes). Generar con: openssl rand -base64 32'')
      else (let key = base64Decode raw in
        if length key \<noteq> CIPHER_KEY_LENGTH
        then Inl (variableName @ '' debe ser base64 de 32 bytes (AES-256).'') else Inr key))"

definition encryptField :: "'a cipher \<Rightarrow> nat list \<Rightarrow> string \<Rightarrow> ('a, string) effect" where
  "encryptField c key plaintext =
     bindA (external (\<lambda>s. case cipherBytes c IV_LENGTH s of (bs, s') \<Rightarrow> (Inr bs, s'))) (\<lambda>iv.
       case gcmSeal c key iv (utf8Bytes plaintext) of (encrypted, tag) \<Rightarrow> returnA (base64 (iv @ encrypted @ tag)))"

text \<open>\<open>None\<close> where the cipher throws.\<close>

definition decryptField :: "'a cipher \<Rightarrow> nat list \<Rightarrow> string \<Rightarrow> string option" where
  "decryptField c key ciphertext =
     (let buffer = base64Decode ciphertext;
          iv = subarray buffer 0 (int IV_LENGTH);
          tag = subarray buffer (int (length buffer) - TAG_LENGTH) (int (length buffer));
          encrypted = subarray buffer (int IV_LENGTH) (int (length buffer) - TAG_LENGTH) in
      map_option utf8Text (gcmOpen c key iv encrypted tag))"

definition reencryptField :: "'a cipher \<Rightarrow> nat list \<Rightarrow> nat list \<Rightarrow> string \<Rightarrow> ('a, string) effect" where
  "reencryptField c oldKey newKey ciphertext =
     (case decryptField c oldKey ciphertext of
        None \<Rightarrow> throwA (OtherError ''Unsupported state or unable to authenticate data'')
      | Some plaintext \<Rightarrow> encryptField c newKey plaintext)"

text \<open>The service: the key it reads when it is built, and what it does when a text cannot be opened.\<close>

definition configuredKey :: "string \<Rightarrow> app_error + nat list" where
  "configuredKey raw = (case parseEncryptionKey raw ''CERT_ENCRYPTION_KEY'' of
      Inl message \<Rightarrow> Inl (InternalServerError message)
    | Inr key \<Rightarrow> Inr key)"

definition decryptSecret :: "'a cipher \<Rightarrow> nat list \<Rightarrow> string \<Rightarrow> app_error + string" where
  "decryptSecret c key ciphertext =
     (case decryptField c key ciphertext of
        None \<Rightarrow> Inl (InternalServerError ''No se pudo descifrar la clave privada del certificado.'')
      | Some plaintext \<Rightarrow> Inr plaintext)"

subsection \<open>What is encrypted can be read\<close>

text \<open>
  What AES-GCM and the random source promise: bytes, a tag of 16, as many random bytes as asked
  for, and that opening with the same key and vector undoes the sealing of bytes.
\<close>

definition cipherOk :: "'a cipher \<Rightarrow> bool" where
  "cipherOk c \<longleftrightarrow>
     (\<forall>n s bs s'. cipherBytes c n s = (bs, s') \<longrightarrow> length bs = n \<and> (\<forall>b\<in>set bs. b < 256)) \<and>
     (\<forall>key iv x e t. (\<forall>b\<in>set x. b < 256) \<longrightarrow> gcmSeal c key iv x = (e, t) \<longrightarrow>
        length t = 16 \<and> (\<forall>b\<in>set (e @ t). b < 256) \<and> gcmOpen c key iv e t = Some x)"

lemma subarray_parts:
  assumes "length iv = 12" "length tag = 16"
  shows "subarray (iv @ e @ tag) 0 12 = iv"
    "subarray (iv @ e @ tag) (int (length (iv @ e @ tag)) - 16) (int (length (iv @ e @ tag))) = tag"
    "subarray (iv @ e @ tag) 12 (int (length (iv @ e @ tag)) - 16) = e"
  using assms by (simp_all add: subarray_def bufferIndex_def nat_add_distrib)

lemma encryptField_Inr:
  assumes "cipherOk c" "encryptField c key x w = (Inr y, w')"
  shows "decryptField c key y = Some x" "\<exists>s. w' = w\<lparr>outside := s\<rparr>"
proof -
  obtain iv s where iv: "cipherBytes c IV_LENGTH (outside w) = (iv, s)" by force
  obtain e tag where tag: "gcmSeal c key iv (utf8Bytes x) = (e, tag)" by force
  have y: "y = base64 (iv @ e @ tag)" and w': "\<exists>s. w' = w\<lparr>outside := s\<rparr>"
    using assms(2) iv tag by (auto simp: encryptField_def bindA_Inr_iff external_def returnA_def)
  show "\<exists>s. w' = w\<lparr>outside := s\<rparr>" by (rule w')
  have x: "\<forall>b\<in>set (utf8Bytes x). b < 256" using utf8Bytes_bytes by blast
  have "length iv = IV_LENGTH \<and> (\<forall>b\<in>set iv. b < 256)" using assms(1) iv unfolding cipherOk_def by blast
  moreover have "length tag = 16 \<and> (\<forall>b\<in>set (e @ tag). b < 256) \<and> gcmOpen c key iv e tag = Some (utf8Bytes x)"
    using assms(1) x tag unfolding cipherOk_def by blast
  ultimately have l: "length iv = 12" "length tag = 16" and b: "\<forall>b\<in>set (iv @ e @ tag). b < 256"
    and o': "gcmOpen c key iv e tag = Some (utf8Bytes x)"
    by (auto simp: IV_LENGTH_def)
  show "decryptField c key y = Some x"
    using subarray_parts [OF l] o'
    by (simp only: decryptField_def y base64_decode [OF b] Let_def IV_LENGTH_def TAG_LENGTH_def of_nat_numeral
        option.map utf8_round_trip)
qed

lemma encryptField_total: "\<exists>y s. encryptField c key x w = (Inr y, w\<lparr>outside := s\<rparr>)"
  by (auto simp: encryptField_def bindA_def external_def returnA_def split: prod.split)

end
