(* ===== verification/Certificates.thy ===== *)
theory Certificates
  imports FieldCipher CacheTables Vouchers
begin

text \<open>
  The certificates of the issuers, \<open>certs/certs.service.ts\<close> and
  \<open>certs/certificate-subject.ts\<close>. What \<open>node-forge\<close> does with X.509 is a record of
  functions over the type of its certificates; \<open>None\<close> is where it throws.
\<close>

record ('c, 'a) forge =
  certificateFromPem :: "string \<Rightarrow> 'c option"
  notAfter :: "'c \<Rightarrow> date"
  subjectSerial :: "'c \<Rightarrow> string option"
  certPublicPem :: "'c \<Rightarrow> string option"
  derivedPublicPem :: "string \<Rightarrow> string option"
  newCsr :: "(string \<times> string) list \<Rightarrow> 'a \<Rightarrow> (app_error + string \<times> string) \<times> 'a"

text \<open>The digits of the serial number of the subject, when it is a text with those of a CUIT.\<close>

definition certificateHolderCuit :: "('c, 'a) forge \<Rightarrow> 'c \<Rightarrow> string option" where
  "certificateHolderCuit f cert = (case subjectSerial f cert of
      None \<Rightarrow> None
    | Some v \<Rightarrow> (let digits = normalizeCuit v in if length digits = 11 then Some digits else None))"

definition parseCertificate :: "('c, 'a) forge \<Rightarrow> string \<Rightarrow> app_error + 'c" where
  "parseCertificate f pem = (case certificateFromPem f pem of
      None \<Rightarrow> Inl (BadRequest (''El certificado (.crt) no es un PEM v'' @ [CHR 0xE1] @ ''lido.''))
    | Some cert \<Rightarrow> Inr cert)"

definition wrongHolderMessage :: "StoredIssuer \<Rightarrow> string \<Rightarrow> string" where
  "wrongHolderMessage issuer holder =
     (if hasText (representativeCuit issuer)
      then ''El certificado pertenece al CUIT '' @ holder @ '', pero el emisor declara '' @
        ''como representante al CUIT '' @ the (representativeCuit issuer) @ ''.''
      else ''El certificado pertenece al CUIT '' @ holder @ '' y el emisor es el CUIT '' @
        issuer_cuit issuer @ ''. Si es un representante que factura en nombre de este '' @
        ''contribuyente, hay que declararlo en el emisor antes de cargar el certificado.'')"

definition assertCertificateHolder :: "'a ports \<Rightarrow> ('c, 'a) forge \<Rightarrow> string \<Rightarrow> 'c \<Rightarrow> ('a, string) effect" where
  "assertCertificateHolder p f i cert =
     bindA (table p (getA (\<lambda>w. findRow (\<lambda>r. issuer_id r = i) (issuers w)))) (\<lambda>found.
       case found of
         None \<Rightarrow> throwA (NotFound ''Emisor inexistente.'')
       | Some issuer \<Rightarrow>
           (let holder = certificateHolderCuit f cert in
            if \<not> hasText holder
            then throwA (BadRequest (''El certificado no declara el CUIT de su titular. '' @
              ''No parece un certificado emitido por ARCA.''))
            else if the holder \<noteq> expectedCertificateHolderCuit issuer
            then throwA (BadRequest (wrongHolderMessage issuer (the holder)))
            else returnA (the holder)))"

definition markCertificateLoaded :: "'a ports \<Rightarrow> string \<Rightarrow> ('a, unit) effect" where
  "markCertificateLoaded p i =
     bindA (findIssuerOrThrow p i) (\<lambda>issuer.
       if hasConfirmedDelegation (onboardingStatus issuer) then returnA ()
       else updateOnboardingStatus p i PENDING_DELEGATION)"

definition certMatchesKey :: "('c, 'a) forge \<Rightarrow> 'c \<Rightarrow> string \<Rightarrow> bool" where
  "certMatchesKey f cert privateKeyPem =
     (case (derivedPublicPem f privateKeyPem, certPublicPem f cert) of
        (Some derived, Some public) \<Rightarrow> derived = public
      | _ \<Rightarrow> False)"

subsection \<open>The table\<close>

definition ofIssuer :: "string \<Rightarrow> CertificateRow \<Rightarrow> bool" where
  "ofIssuer i c = (cert_issuerId c = i)"

definition findCertificate :: "'a ports \<Rightarrow> string \<Rightarrow> ('a, CertificateRow option) effect" where
  "findCertificate p i = table p (getA (\<lambda>w. findRow (ofIssuer i) (certificates w)))"

text \<open>An upsert of the certificate of an issuer: how a row changes, applied to an empty row to create it.\<close>

definition emptyCertificate :: "string \<Rightarrow> CertificateRow" where
  "emptyCertificate i = \<lparr>cert_issuerId = i, privateKeyEnc = '''', csrPem = None, certPem = None, holderCuit = None,
     cert_alias = None, validUntil = None\<rparr>"

definition putCertificate :: "string \<Rightarrow> (CertificateRow \<Rightarrow> CertificateRow) \<Rightarrow> CertificateRow list \<Rightarrow> CertificateRow list" where
  "putCertificate i change rows = upsertRow (ofIssuer i) (\<lambda>r. (change r)\<lparr>cert_issuerId := i\<rparr>)
     ((change (emptyCertificate i))\<lparr>cert_issuerId := i\<rparr>) rows"

definition upsertCertificate :: "'a ports \<Rightarrow> string \<Rightarrow> (CertificateRow \<Rightarrow> CertificateRow) \<Rightarrow> ('a, unit) effect" where
  "upsertCertificate p i change = table p (\<lambda>w.
     (if findRow (ofIssuer i) (certificates w) = None \<and> findRow (\<lambda>r. issuer_id r = i) (issuers w) = None
      then (Inl (PrismaKnownError ''P2003''), w)
      else (Inr (), w\<lparr>certificates := putCertificate i change (certificates w)\<rparr>)))"

definition updateCertificate :: "'a ports \<Rightarrow> string \<Rightarrow> (CertificateRow \<Rightarrow> CertificateRow) \<Rightarrow> ('a, unit) effect" where
  "updateCertificate p i change = table p (\<lambda>w.
     (if findRow (ofIssuer i) (certificates w) = None then (Inl (PrismaKnownError RECORD_NOT_FOUND), w)
      else (Inr (), w\<lparr>certificates := map (\<lambda>r. if ofIssuer i r then change r else r) (certificates w)\<rparr>)))"

definition withAlias :: "string option \<Rightarrow> CertificateRow \<Rightarrow> CertificateRow" where
  "withAlias name r = (case name of None \<Rightarrow> r | Some _ \<Rightarrow> r\<lparr>cert_alias := name\<rparr>)"

subsection \<open>The operations\<close>

definition savedCertificate :: "string \<Rightarrow> string \<Rightarrow> string \<Rightarrow> string option \<Rightarrow> date \<Rightarrow> CertificateRow \<Rightarrow> CertificateRow" where
  "savedCertificate enc pem holder name valid r =
     withAlias name (r\<lparr>privateKeyEnc := enc, certPem := Some pem, holderCuit := Some holder, validUntil := Some valid\<rparr>)"

definition saveCertificate ::
  "'a ports \<Rightarrow> ('c, 'a) forge \<Rightarrow> 'a cipher \<Rightarrow> nat list \<Rightarrow> string \<Rightarrow> string \<Rightarrow> string \<Rightarrow> string option \<Rightarrow> ('a, unit) effect" where
  "saveCertificate p f c key i privateKeyPem pem name =
     bindA (pureA (parseCertificate f pem)) (\<lambda>cert.
     bindA (assertCertificateHolder p f i cert) (\<lambda>holder.
     bindA (encryptField c key privateKeyPem) (\<lambda>enc.
     bindA (upsertCertificate p i (savedCertificate enc pem holder name (notAfter f cert))) (\<lambda>_.
     markCertificateLoaded p i))))"

definition csrSubject :: "string \<Rightarrow> string \<Rightarrow> string option \<Rightarrow> (string \<times> string) list" where
  "csrSubject cuit legal name =
     [(''C'', ''AR''), (''O'', legal), (''CN'', orElse name legal), (''serialNumber'', ''CUIT '' @ cuit)]"

definition requestedCertificate :: "string \<Rightarrow> string \<Rightarrow> string option \<Rightarrow> CertificateRow \<Rightarrow> CertificateRow" where
  "requestedCertificate enc csr name r =
     withAlias name (r\<lparr>privateKeyEnc := enc, csrPem := Some csr, certPem := None, validUntil := None\<rparr>)"

definition newRequest ::
  "'a ports \<Rightarrow> ('c, 'a) forge \<Rightarrow> 'a cipher \<Rightarrow> nat list \<Rightarrow> string \<Rightarrow> string \<Rightarrow> string \<Rightarrow> string option \<Rightarrow> ('a, string) effect" where
  "newRequest p f c key i cuit legal name =
     bindA (external (newCsr f (csrSubject cuit legal name))) (\<lambda>(privateKeyPem, csr).
     bindA (encryptField c key privateKeyPem) (\<lambda>enc.
     bindA (upsertCertificate p i (requestedCertificate enc csr name)) (\<lambda>_.
     returnA csr)))"

definition generateCsr ::
  "'a ports \<Rightarrow> ('c, 'a) forge \<Rightarrow> 'a cipher \<Rightarrow> nat list \<Rightarrow> string \<Rightarrow> string \<Rightarrow> string \<Rightarrow> string option \<Rightarrow> bool \<Rightarrow> ('a, string) effect" where
  "generateCsr p f c key i cuit legal name regenerate =
     bindA (if regenerate then returnA None else findCertificate p i) (\<lambda>pending.
       case pending of
         None \<Rightarrow> newRequest p f c key i cuit legal name
       | Some r \<Rightarrow>
           if hasText (csrPem r) \<and> \<not> hasText (certPem r) then returnA (the (csrPem r))
           else newRequest p f c key i cuit legal name)"

definition matchCertificate ::
  "'a ports \<Rightarrow> ('c, 'a) forge \<Rightarrow> 'a cipher \<Rightarrow> nat list \<Rightarrow> string \<Rightarrow> string \<Rightarrow> ('a, unit) effect" where
  "matchCertificate p f c key i pem =
     bindA (findCertificate p i) (\<lambda>existing.
       case existing of
         None \<Rightarrow> throwA (NotFound (''No hay una clave privada generada para este emisor. Gener'' @ [CHR 0xE1] @ '' primero el CSR.''))
       | Some r \<Rightarrow>
           bindA (pureA (parseCertificate f pem)) (\<lambda>cert.
           bindA (pureA (decryptSecret c key (privateKeyEnc r))) (\<lambda>privateKeyPem.
             if \<not> certMatchesKey f cert privateKeyPem
             then throwA (BadRequest ''El certificado no corresponde a la clave privada generada para este emisor.'')
             else bindA (assertCertificateHolder p f i cert) (\<lambda>holder.
               bindA (updateCertificate p i (\<lambda>r. r\<lparr>certPem := Some pem, holderCuit := Some holder, validUntil := Some (notAfter f cert)\<rparr>)) (\<lambda>_.
               markCertificateLoaded p i)))))"

definition backfillHolderCuit :: "'a ports \<Rightarrow> ('c, 'a) forge \<Rightarrow> string \<Rightarrow> string \<Rightarrow> ('a, string option) effect" where
  "backfillHolderCuit p f i pem =
     bindA (pureA (parseCertificate f pem)) (\<lambda>cert.
       (let holder = certificateHolderCuit f cert in
        if \<not> hasText holder then returnA None
        else bindA (updateCertificate p i (\<lambda>r. r\<lparr>holderCuit := holder\<rparr>)) (\<lambda>_. returnA holder)))"

text \<open>The credentials: the certificate and its key, and the CUIT of the holder.\<close>

definition getCredentials ::
  "'a ports \<Rightarrow> ('c, 'a) forge \<Rightarrow> 'a cipher \<Rightarrow> nat list \<Rightarrow> string \<Rightarrow> ('a, (string \<times> string) IssuerCredentials) effect" where
  "getCredentials p f c key i =
     bindA (findCertificate p i) (\<lambda>cert.
       if \<not> hasText (Option.bind cert certPem)
       then throwA (NotFound (''El emisor no tiene un certificado cargado todav'' @ [CHR 0xED] @ ''a.''))
       else (let r = the cert; pem = the (certPem r) in
         bindA (pureA (decryptSecret c key (privateKeyEnc r))) (\<lambda>privateKeyPem.
         bindA (case holderCuit r of Some h \<Rightarrow> returnA (Some h) | None \<Rightarrow> backfillHolderCuit p f i pem) (\<lambda>holder.
         returnA \<lparr>credentials_pem = (pem, privateKeyPem), credentials_holderCuit = holder\<rparr>))))"

subsection \<open>The table keeps the contract\<close>

interpretation certificate_table: upsert_table ofIssuer putCertificate
  "\<lambda>i change old. (change (case old of None \<Rightarrow> emptyCertificate i | Some r \<Rightarrow> r))\<lparr>cert_issuerId := i\<rparr>"
proof
  fix k k' :: string and d :: "CertificateRow \<Rightarrow> CertificateRow" and rows
  show "findRow (ofIssuer k) (putCertificate k d rows) =
      Some ((d (case findRow (ofIssuer k) rows of None \<Rightarrow> emptyCertificate k | Some r \<Rightarrow> r))\<lparr>cert_issuerId := k\<rparr>)"
    unfolding putCertificate_def
    by (subst findRow_upsert_same) (auto simp: ofIssuer_def split: option.split)
  show "k \<noteq> k' \<Longrightarrow> findRow (ofIssuer k') (putCertificate k d rows) = findRow (ofIssuer k') rows"
    unfolding putCertificate_def by (intro findRow_upsert_other) (auto simp: ofIssuer_def)
qed

end
