(* ===== verification/CertificateProperties.thy ===== *)
theory CertificateProperties
  imports Certificates CacheProperties Samples
begin

text \<open>
  What the encryption of the private keys and the certificates of the issuers guarantee.
\<close>

subsection \<open>Fields at rest\<close>

text \<open>Property C32. A field that was encrypted reads back, and so does it after a rotation of the key, which never fails on it.\<close>

theorem encrypted_field_survives_rotation:
  assumes "cipherOk c" "encryptField c oldKey x w = (Inr y, w1)"
  shows "decryptField c oldKey y = Some x \<and>
    (\<exists>z s. reencryptField c oldKey newKey y w1 = (Inr z, w1\<lparr>outside := s\<rparr>) \<and> decryptField c newKey z = Some x)"
proof -
  obtain z s where z: "encryptField c newKey x w1 = (Inr z, w1\<lparr>outside := s\<rparr>)" using encryptField_total [of c newKey x w1] by blast
  have old: "decryptField c oldKey y = Some x" using encryptField_Inr(1) [OF assms] .
  moreover have "decryptField c newKey z = Some x" using encryptField_Inr(1) [OF assms(1) z] .
  ultimately show ?thesis using z by (auto simp: reencryptField_def)
qed

text \<open>A cipher whose tag is the start of the key and the vector, and which takes no randomness.\<close>

definition sampleCipher :: "arca cipher" where
  "sampleCipher = \<lparr>
     gcmSeal = (\<lambda>key iv x. (map (\<lambda>b. 255 - b) x, map (\<lambda>b. b mod 256) (take 16 (key @ iv @ replicate 16 0)))),
     gcmOpen = (\<lambda>key iv e t. if t = map (\<lambda>b. b mod 256) (take 16 (key @ iv @ replicate 16 0))
        then Some (map (\<lambda>b. 255 - b) e) else None),
     cipherBytes = (\<lambda>n s. (replicate n 7, s))\<rparr>"

lemma sample_cipher: "cipherOk sampleCipher"
  by (auto simp: cipherOk_def sampleCipher_def intro!: map_idI)

theorem encrypted_field_survives_rotation_witness:
  "\<exists>y. decryptField sampleCipher [1] y = Some ''clave'' \<and>
    (\<exists>z s. reencryptField sampleCipher [1] [2] y (sampleWorld [] [] []) = (Inr z, (sampleWorld [] [] [])\<lparr>outside := s\<rparr>) \<and>
       decryptField sampleCipher [2] z = Some ''clave'')"
proof -
  obtain y s where "encryptField sampleCipher [1] ''clave'' (sampleWorld [] [] []) = (Inr y, (sampleWorld [] [] [])\<lparr>outside := s\<rparr>)"
    using encryptField_total [of sampleCipher "[1]" "''clave''" "sampleWorld [] [] []"] by blast
  moreover have "s = outside (sampleWorld [] [] [])"
    using calculation by (auto simp: encryptField_def bindA_def external_def returnA_def sampleCipher_def sampleWorld_def split: prod.splits)
  ultimately have "encryptField sampleCipher [1] ''clave'' (sampleWorld [] [] []) = (Inr y, sampleWorld [] [] [])" by simp
  then show ?thesis using encrypted_field_survives_rotation [OF sample_cipher, of "[1]" "''clave''" _ y _ "[2]"] by blast
qed

subsection \<open>The certificate that was loaded\<close>

lemma normalizeCuit_idem [simp]: "normalizeCuit (normalizeCuit s) = normalizeCuit s"
  by (simp add: normalizeCuit_def onlyDigits_def)

lemma assertCertificateHolder_Inr:
  assumes "assertCertificateHolder p f i cert w = (Inr holder, w')"
  shows "\<exists>s issuer. w' = w\<lparr>outside := s\<rparr> \<and> findRow (\<lambda>r. issuer_id r = i) (issuers w) = Some issuer \<and>
    certificateHolderCuit f cert = Some holder \<and> holder = expectedCertificateHolderCuit issuer \<and> holder \<noteq> ''''"
proof -
  obtain found v where a: "table p (getA (\<lambda>w. findRow (\<lambda>r. issuer_id r = i) (issuers w))) w = (Inr found, v)"
    and b: "(case found of
         None \<Rightarrow> throwA (NotFound ''Emisor inexistente.'')
       | Some issuer \<Rightarrow>
           (let holder = certificateHolderCuit f cert in
            if \<not> hasText holder
            then throwA (BadRequest (''El certificado no declara el CUIT de su titular. '' @
              ''No parece un certificado emitido por ARCA.''))
            else if the holder \<noteq> expectedCertificateHolderCuit issuer
            then throwA (BadRequest (wrongHolderMessage issuer (the holder)))
            else returnA (the holder))) v = (Inr holder, w')"
    using assms unfolding assertCertificateHolder_def bindA_Inr_iff by blast
  then show ?thesis using table_read [OF a]
    by (auto simp: Let_def throwA_def returnA_def hasText_def split: option.splits if_splits)
qed

lemma upsertCertificate_Inr:
  "upsertCertificate p i change w = (Inr u, w') \<Longrightarrow>
     \<exists>s. w' = w\<lparr>outside := s, certificates := putCertificate i change (certificates w)\<rparr>"
  by (auto simp: upsertCertificate_def table_Inr split: if_splits)

lemma markCertificateLoaded_Inr:
  assumes "markCertificateLoaded p i w = (Inr u, w')"
  shows "certificates w' = certificates w" "length (issuers w') = length (issuers w)"
  using assms
  by (auto simp: markCertificateLoaded_def findIssuerOrThrow_def updateOnboardingStatus_def bindA_Inr_iff table_Inr
      returnA_def setStatus_def split: option.splits if_splits)

lemma saveCertificate_Inr:
  assumes "saveCertificate p f c key i privateKeyPem pem name w = (Inr u, w')"
  shows "\<exists>cert holder issuer v v' enc. certificateFromPem f pem = Some cert \<and>
    findRow (\<lambda>r. issuer_id r = i) (issuers w) = Some issuer \<and>
    certificateHolderCuit f cert = Some holder \<and> holder = expectedCertificateHolderCuit issuer \<and> holder \<noteq> '''' \<and>
    encryptField c key privateKeyPem v = (Inr enc, v') \<and>
    certificates w' = putCertificate i (savedCertificate enc pem holder name (notAfter f cert)) (certificates w)"
proof -
  obtain cert v0 holder v enc v' x u' where a: "pureA (parseCertificate f pem) w = (Inr cert, v0)"
    "assertCertificateHolder p f i cert v0 = (Inr holder, v)"
    "encryptField c key privateKeyPem v = (Inr enc, v')"
    "upsertCertificate p i (savedCertificate enc pem holder name (notAfter f cert)) v' = (Inr x, u')"
    "markCertificateLoaded p i u' = (Inr u, w')"
    using assms unfolding saveCertificate_def bindA_Inr_iff by blast
  have cert: "certificateFromPem f pem = Some cert" "v0 = w"
    using a(1) by (auto simp: pureA_def parseCertificate_def split: option.splits)
  have enc: "certificates v' = certificates v"
    using a(3) encryptField_total [of c key privateKeyPem v] by auto
  have "certificates w' = putCertificate i (savedCertificate enc pem holder name (notAfter f cert)) (certificates v')"
    using upsertCertificate_Inr [OF a(4)] markCertificateLoaded_Inr [OF a(5)] by auto
  moreover obtain s issuer where "v = w\<lparr>outside := s\<rparr>" "findRow (\<lambda>r. issuer_id r = i) (issuers w) = Some issuer"
    "certificateHolderCuit f cert = Some holder" "holder = expectedCertificateHolderCuit issuer" "holder \<noteq> ''''"
    using assertCertificateHolder_Inr [OF a(2)] cert(2) by blast
  ultimately show ?thesis using cert(1) a(3) enc by (intro exI conjI) auto
qed

lemma savedCertificate_fields [simp]:
  "privateKeyEnc (savedCertificate enc pem holder name valid r) = enc"
  "certPem (savedCertificate enc pem holder name valid r) = Some pem"
  "holderCuit (savedCertificate enc pem holder name valid r) = Some holder"
  by (simp_all add: savedCertificate_def withAlias_def split: option.split)

lemma findCertificate_reads:
  "database p (outside w) = (None, s) \<Longrightarrow> findCertificate p i w = (Inr (findRow (ofIssuer i) (certificates w)), w\<lparr>outside := s\<rparr>)"
  unfolding findCertificate_def using table_reads [of p w s "\<lambda>w. findRow (ofIssuer i) (certificates w)"] by simp

lemma getCredentials_saved:
  assumes "database p (outside w) = (None, s)" "findRow (ofIssuer i) (certificates w) = Some r"
    "certPem r = Some pem" "pem \<noteq> ''''" "holderCuit r = Some holder" "decryptField c key (privateKeyEnc r) = Some k"
  shows "getCredentials p f c key i w =
    (Inr \<lparr>credentials_pem = (pem, k), credentials_holderCuit = Some holder\<rparr>, w\<lparr>outside := s\<rparr>)"
  using findCertificate_reads [OF assms(1), of i] assms(2-)
  by (simp add: getCredentials_def bindA_def hasText_def pureA_def decryptSecret_def returnA_def)

text \<open>
  Property C33. Once a certificate is saved, its issuer has working credentials: while the table
  stays as the save left it, the certificate and the very private key that were given come back,
  with the CUIT of the holder, which is the one the issuer must have and which the
  authentication accepts.
\<close>

theorem saved_certificate_usable:
  assumes "cipherOk c" "certificateFromPem f '''' = None"
    and "saveCertificate p f c key i privateKeyPem pem name w = (Inr u, w')"
    and "certificates w1 = certificates w'" "database p (outside w1) = (None, s)"
  shows "\<exists>issuer holder. findRow (\<lambda>r. issuer_id r = i) (issuers w) = Some issuer \<and>
    holder = expectedCertificateHolderCuit issuer \<and>
    getCredentials p f c key i w1 =
      (Inr \<lparr>credentials_pem = (pem, privateKeyPem), credentials_holderCuit = Some holder\<rparr>, w1\<lparr>outside := s\<rparr>) \<and>
    resolveHolderCuit issuer (Some holder) = Inr holder"
proof -
  obtain cert holder issuer v v' enc where a: "certificateFromPem f pem = Some cert"
    "findRow (\<lambda>r. issuer_id r = i) (issuers w) = Some issuer"
    "holder = expectedCertificateHolderCuit issuer" "holder \<noteq> ''''"
    "encryptField c key privateKeyPem v = (Inr enc, v')"
    "certificates w' = putCertificate i (savedCertificate enc pem holder name (notAfter f cert)) (certificates w)"
    using saveCertificate_Inr [OF assms(3)] by blast
  have "pem \<noteq> ''''" using a(1) assms(2) by auto
  moreover have "resolveHolderCuit issuer (Some holder) = Inr holder"
    using a(3,4) by (simp add: resolveHolderCuit_def assertCertificateBelongsToIssuer_def expectedCertificateHolderCuit_def)
  ultimately show ?thesis
    using getCredentials_saved [OF assms(5), of i _ pem holder c key privateKeyPem f]
      certificate_table.put_same [of i "savedCertificate enc pem holder name (notAfter f cert)" "certificates w"]
      encryptField_Inr(1) [OF assms(1) a(5)] a
    by (auto simp: assms(4))
qed

text \<open>A witness: certificates that are their own text, whose key is the same text.\<close>

definition sampleForge :: "(string, arca) forge" where
  "sampleForge = \<lparr>certificateFromPem = (\<lambda>pem. if pem = '''' then None else Some pem), notAfter = (\<lambda>_. 1800000000000),
     subjectSerial = (\<lambda>_. Some ''CUIT 20111111112''), certPublicPem = Some, derivedPublicPem = Some,
     newCsr = (\<lambda>subject s. (Inr (''clave'', ''pedido''), s))\<rparr>"

lemma holder_of_sample:
  "certificateHolderCuit sampleForge cert = Some ''20111111112''"
  "expectedCertificateHolderCuit sampleIssuer = ''20111111112''"
  by (simp add: certificateHolderCuit_def sampleForge_def) code_simp+

lemma table_up: "\<forall>s. fst (database p s) = None \<Longrightarrow> table p operation w = operation (w\<lparr>outside := snd (database p (outside w))\<rparr>)"
  using spec [of "\<lambda>s. fst (database p s) = None" "outside w"]
  by (cases "database p (outside w)") (auto simp: table_def bindA_def external_def reachDatabase_def)

lemma saveCertificate_succeeds:
  assumes up: "\<forall>s. fst (database p s) = None" and cert: "certificateFromPem f pem = Some cert"
    and issuer: "findRow (\<lambda>r. issuer_id r = i) (issuers w) = Some issuer"
    and holder: "certificateHolderCuit f cert = Some (expectedCertificateHolderCuit issuer)"
      "expectedCertificateHolderCuit issuer \<noteq> ''''"
  shows "\<exists>w'. saveCertificate p f c key i privateKeyPem pem name w = (Inr (), w')"
proof -
  have mark: "markCertificateLoaded p i v = (Inr (), snd (markCertificateLoaded p i v))"
    if "issuers v = issuers w" for v
    using that issuer
    by (simp add: markCertificateLoaded_def findIssuerOrThrow_def updateOnboardingStatus_def table_up [OF up] bindA_def returnA_def)
  let ?v = "w\<lparr>outside := snd (database p (outside w))\<rparr>"
  have "assertCertificateHolder p f i cert w = (Inr (expectedCertificateHolderCuit issuer), ?v)"
    using issuer holder by (simp add: assertCertificateHolder_def bindA_def table_up [OF up] getA_def hasText_def returnA_def)
  moreover obtain enc s where "encryptField c key privateKeyPem ?v = (Inr enc, ?v\<lparr>outside := s\<rparr>)"
    using encryptField_total [of c key privateKeyPem ?v] by blast
  moreover have "\<exists>v'. upsertCertificate p i change (w\<lparr>outside := s\<rparr>) = (Inr (), v') \<and> issuers v' = issuers w" for change s
    using issuer by (simp add: upsertCertificate_def table_up [OF up])
  then obtain v' where "upsertCertificate p i (savedCertificate enc pem (expectedCertificateHolderCuit issuer) name (notAfter f cert))
      (w\<lparr>outside := s\<rparr>) = (Inr (), v')" "issuers v' = issuers w" by blast
  moreover obtain w' where "markCertificateLoaded p i v' = (Inr (), w')" using mark calculation by blast
  ultimately show ?thesis
    by (auto simp: saveCertificate_def parseCertificate_def cert pureA_def bindA_def)
qed

text \<open>The ports of the sample with a database that always answers.\<close>

definition answeringPorts :: "arca ports" where
  "answeringPorts = samplePorts\<lparr>database := (\<lambda>s. (None, s))\<rparr>"

lemma steady [simp]: "fst (database answeringPorts s) = None" "database answeringPorts s = (None, s)"
  by (simp_all add: answeringPorts_def)

lemma sample_issuer_found: "findRow (\<lambda>r. issuer_id r = ''i'') (issuers (sampleWorld rs ls dbs)) = Some sampleIssuer"
  by (simp add: sampleWorld_def sampleIssuer_def)

lemma sample_parses: "certificateFromPem sampleForge ''certificado'' = Some ''certificado''"
  by (simp add: sampleForge_def)

lemma sample_save:
  "\<exists>w'. saveCertificate answeringPorts sampleForge sampleCipher [1] ''i'' k ''certificado'' None (sampleWorld [] [] []) = (Inr (), w')"
  by (rule saveCertificate_succeeds [OF _ sample_parses sample_issuer_found]) (simp_all add: holder_of_sample)

theorem saved_certificate_usable_witness:
  "\<exists>w'. saveCertificate answeringPorts sampleForge sampleCipher [1] ''i'' ''clave'' ''certificado'' None (sampleWorld [] [] []) = (Inr (), w') \<and>
    fst (getCredentials answeringPorts sampleForge sampleCipher [1] ''i'' w') =
      Inr \<lparr>credentials_pem = (''certificado'', ''clave''), credentials_holderCuit = Some ''20111111112''\<rparr>"
proof -
  obtain w' where w': "saveCertificate answeringPorts sampleForge sampleCipher [1] ''i'' ''clave'' ''certificado'' None
      (sampleWorld [] [] []) = (Inr (), w')" using sample_save by blast
  have none: "certificateFromPem sampleForge '''' = None" by (simp add: sampleForge_def)
  show ?thesis
    using saved_certificate_usable [OF sample_cipher none w' refl steady(2)] w'
    by (auto simp: sample_issuer_found holder_of_sample)
qed

text \<open>
  Loading a certificate with its key does not check that they belong together, which
  the other way of loading one does: whatever pair of an issuer's certificate and a foreign key
  is saved, and matching the same certificate afterwards rejects it.
\<close>

lemma save_skips_key_check:
  assumes "cipherOk c" and up: "\<forall>s. fst (database p s) = None" and cert: "certificateFromPem f pem = Some cert"
    and issuer: "findRow (\<lambda>r. issuer_id r = i) (issuers w) = Some issuer"
    and holder: "certificateHolderCuit f cert = Some (expectedCertificateHolderCuit issuer)"
      "expectedCertificateHolderCuit issuer \<noteq> ''''"
    and foreign: "\<not> certMatchesKey f cert privateKeyPem"
  shows "\<exists>w'. saveCertificate p f c key i privateKeyPem pem name w = (Inr (), w') \<and>
    fst (matchCertificate p f c key i pem w') =
      Inl (BadRequest ''El certificado no corresponde a la clave privada generada para este emisor.'')"
proof -
  obtain w' where w': "saveCertificate p f c key i privateKeyPem pem name w = (Inr (), w')"
    using saveCertificate_succeeds [OF up cert issuer holder] by blast
  then obtain cert' h v v' enc where enc: "encryptField c key privateKeyPem v = (Inr enc, v')"
    "certificates w' = putCertificate i (savedCertificate enc pem h name (notAfter f cert')) (certificates w)"
    using saveCertificate_Inr [OF w'] by blast
  obtain s where s: "database p (outside w') = (None, s)" using up by (metis prod.collapse)
  obtain r where "findRow (ofIssuer i) (certificates w') = Some r" "privateKeyEnc r = enc"
    using certificate_table.put_same [of i "savedCertificate enc pem h name (notAfter f cert')" "certificates w"]
    by (auto simp: enc(2))
  moreover have "decryptField c key enc = Some privateKeyPem" using encryptField_Inr(1) [OF assms(1) enc(1)] .
  ultimately have "fst (matchCertificate p f c key i pem w') =
      Inl (BadRequest ''El certificado no corresponde a la clave privada generada para este emisor.'')"
    using findCertificate_reads [OF s, of i] cert foreign
    by (simp add: matchCertificate_def bindA_def pureA_def parseCertificate_def decryptSecret_def throwA_def)
  with w' show ?thesis by blast
qed

theorem save_skips_key_check_witness:
  "\<exists>w'. saveCertificate answeringPorts sampleForge sampleCipher [1] ''i'' ''clave ajena'' ''certificado'' None (sampleWorld [] [] []) =
      (Inr (), w') \<and>
    fst (matchCertificate answeringPorts sampleForge sampleCipher [1] ''i'' ''certificado'' w') =
      Inl (BadRequest ''El certificado no corresponde a la clave privada generada para este emisor.'')"
proof -
  have up: "\<forall>s. fst (database answeringPorts s) = None" by simp
  have holder: "certificateHolderCuit sampleForge ''certificado'' = Some (expectedCertificateHolderCuit sampleIssuer)"
    "expectedCertificateHolderCuit sampleIssuer \<noteq> ''''" by (simp_all add: holder_of_sample)
  have foreign: "\<not> certMatchesKey sampleForge ''certificado'' ''clave ajena''" by (simp add: certMatchesKey_def sampleForge_def)
  show ?thesis
    by (rule save_skips_key_check [OF sample_cipher up sample_parses sample_issuer_found holder foreign])
qed

subsection \<open>The request of a certificate\<close>

lemma newRequest_Inr:
  assumes "newRequest p f c key i cuit legal name w = (Inr csr, w')"
  shows "\<exists>r. findRow (ofIssuer i) (certificates w') = Some r \<and> csrPem r = Some csr \<and> certPem r = None"
proof -
  obtain x v enc v' u u' where a: "upsertCertificate p i (requestedCertificate enc csr name) v' = (Inr u, u')" "w' = u'"
    using assms unfolding newRequest_def bindA_Inr_iff by (auto simp: bindA_Inr_iff returnA_def)
  then show ?thesis
    using upsertCertificate_Inr [OF a(1)] certificate_table.put_same [of i "requestedCertificate enc csr name" "certificates v'"]
    by (auto simp: requestedCertificate_def withAlias_def split: option.split)
qed

lemma generateCsr_Inr:
  assumes "generateCsr p f c key i cuit legal name regenerate w = (Inr csr, w')"
  shows "\<exists>r. findRow (ofIssuer i) (certificates w') = Some r \<and> csrPem r = Some csr \<and> \<not> hasText (certPem r)"
proof -
  obtain pending v where a: "(if regenerate then returnA None else findCertificate p i) w = (Inr pending, v)"
    and b: "(case pending of
         None \<Rightarrow> newRequest p f c key i cuit legal name
       | Some r \<Rightarrow>
           if hasText (csrPem r) \<and> \<not> hasText (certPem r) then returnA (the (csrPem r))
           else newRequest p f c key i cuit legal name) v = (Inr csr, w')"
    using assms unfolding generateCsr_def bindA_Inr_iff by blast
  have read: "pending = Some r \<Longrightarrow> findRow (ofIssuer i) (certificates v) = Some r" for r
    using a by (auto simp: returnA_def findCertificate_def dest!: table_read split: if_splits)
  have new: "newRequest p f c key i cuit legal name v = (Inr csr, w') \<Longrightarrow> ?thesis"
    using newRequest_Inr [of p f c key i cuit legal name v csr w'] by (force simp: hasText_def)
  show ?thesis
  proof (cases pending)
    case (Some r)
    then show ?thesis using b read [OF Some] new
      by (auto simp: returnA_def hasText_def split: if_splits option.splits)
  qed (use b new in simp)
qed



end
