(* ===== verification/VoucherPdf.thy ===== *)
theory VoucherPdf
  imports Vouchers CreditNoteDraft
begin

text \<open>
  The PDF of a voucher: what it shows (\<open>voucher-pdf-data.ts\<close>, \<open>voucher-pdf-text.ts\<close>,
  \<open>voucher-pdf.types.ts\<close>) and how it is laid out (\<open>voucher-pdf-sections.ts\<close>,
  \<open>pdf.util.ts\<close>). A drawing is the list of the operations asked of \<open>pdfkit\<close>, in order;
  what the code reads back from it, the height of a text at a size and the size of the page, are
  fields of the frame, with \<open>toLocaleString\<close> of the runtime and the characters outside Latin-1.
\<close>

subsection \<open>The data\<close>

record PdfItem =
  pdf_description :: string
  pdf_quantity :: number
  pdf_unitPrice :: number
  pdf_ivaRate :: number
  pdf_taxTreatment :: TaxTreatment
  pdf_subtotal :: number

record AssociatedVoucherPdf =
  pdfa_type :: int
  pdfa_salesPoint :: int
  pdfa_number :: int

record TributePdf =
  tpdf_description :: string
  tpdf_amount :: number

record IssuerPdf =
  ipdf_legalName :: string
  ipdf_commercialAddress :: "string option"
  ipdf_cuit :: string
  ipdf_ivaCondition :: string

record VoucherPdfData =
  pdf_issuer :: IssuerPdf
  pdf_recipient :: "QrRecipient option"
  pdf_voucherType :: int
  pdf_salesPoint :: int
  pdf_number :: int
  pdf_date :: js_date
  pdf_currency :: string
  pdf_netAmount :: number
  pdf_ivaAmount :: number
  pdf_exemptAmount :: number
  pdf_untaxedAmount :: number
  pdf_totalAmount :: number
  pdf_tributes :: "TributePdf list"
  pdf_cae :: string
  pdf_caeExpiration :: js_date
  pdf_items :: "PdfItem list"
  pdf_associatedVouchers :: "AssociatedVoucherPdf list"
  pdf_servicePeriod :: "(js_date \<times> js_date) option"
  pdf_paymentDueDate :: "js_date option"
  pdf_fiscalTransparency :: "FiscalTransparency option"
  pdf_qrPng :: "nat list"

text \<open>The columns of type \<open>Json\<close> as the recorder of vouchers filled them.\<close>

definition integerOf :: "json \<Rightarrow> int option" where
  "integerOf v = (case v of JNum (Some x) \<Rightarrow> if x = of_int \<lfloor>x\<rfloor> then Some \<lfloor>x\<rfloor> else None | _ \<Rightarrow> None)"

definition positiveOf :: "json \<Rightarrow> int option" where
  "positiveOf v = (case integerOf v of Some n \<Rightarrow> if 0 < n then Some n else None | None \<Rightarrow> None)"

definition tributesColumn :: "ArcaTribute list option \<Rightarrow> json" where
  "tributesColumn stored = (case stored of
      None \<Rightarrow> JNull
    | Some ts \<Rightarrow> JArr (map (\<lambda>t. JObj [(''id'', JNum (Some (of_int (at_id t)))), (''description'', JStr (at_description t)),
        (''taxableBase'', JNum (Some (at_taxableBase t))), (''rate'', JNum (Some (at_rate t))),
        (''amount'', JNum (Some (at_amount t)))]) ts))"

definition optionalText :: "string \<Rightarrow> string option \<Rightarrow> (string \<times> json) list" where
  "optionalText k v = (case v of None \<Rightarrow> [] | Some s \<Rightarrow> [(k, JStr s)])"

definition associatedColumn :: "associatedVoucher list option \<Rightarrow> json" where
  "associatedColumn stored = (case stored of
      None \<Rightarrow> JNull
    | Some vs \<Rightarrow> JArr (map (\<lambda>v. JObj ([(''type'', JNum (Some (of_int (assoc_type v)))),
        (''salesPoint'', JNum (Some (of_int (assoc_salesPoint v)))), (''number'', JNum (Some (of_int (assoc_number v))))] @
        optionalText ''cuit'' (assoc_cuit v) @ optionalText ''date'' (assoc_date v))) vs))"

text \<open>\<open>storedTributesSchema\<close> and \<open>storedAssociatedVouchersSchema\<close>: an array all of whose values parse.\<close>

record StoredTribute =
  st_id :: "int option"
  st_description :: string
  st_amount :: number

definition storedTribute :: "json \<Rightarrow> StoredTribute option" where
  "storedTribute v =
     (case (property ''description'' v, property ''amount'' v) of
        (Some (JStr d), Some (JNum (Some x))) \<Rightarrow>
          (case property ''id'' v of
             None \<Rightarrow> Some \<lparr>st_id = None, st_description = d, st_amount = x\<rparr>
           | Some i \<Rightarrow> map_option (\<lambda>n. \<lparr>st_id = Some n, st_description = d, st_amount = x\<rparr>) (positiveOf i))
      | _ \<Rightarrow> None)"

definition parseArray :: "(json \<Rightarrow> 'b option) \<Rightarrow> json \<Rightarrow> 'b list" where
  "parseArray ofElement stored = (case stored of
      JArr xs \<Rightarrow> if list_all (\<lambda>x. ofElement x \<noteq> None) xs then List.map_filter ofElement xs else []
    | _ \<Rightarrow> [])"

definition parseStoredTributes :: "json \<Rightarrow> StoredTribute list" where
  "parseStoredTributes stored = parseArray storedTribute stored"

definition optionalDigits :: "nat \<Rightarrow> string \<Rightarrow> json \<Rightarrow> bool" where
  "optionalDigits n k v = (case property k v of
      None \<Rightarrow> True
    | Some (JStr s) \<Rightarrow> length s = n \<and> list_all isDigit s
    | Some _ \<Rightarrow> False)"

definition storedAssociated :: "json \<Rightarrow> AssociatedVoucherPdf option" where
  "storedAssociated v =
     (case (Option.bind (property ''type'' v) positiveOf, Option.bind (property ''salesPoint'' v) positiveOf,
        Option.bind (property ''number'' v) positiveOf) of
        (Some t, Some sp, Some n) \<Rightarrow>
          if optionalDigits 11 ''cuit'' v \<and> optionalDigits 8 ''date'' v
          then Some \<lparr>pdfa_type = t, pdfa_salesPoint = sp, pdfa_number = n\<rparr> else None
      | _ \<Rightarrow> None)"

definition parseStoredAssociatedVouchers :: "json \<Rightarrow> AssociatedVoucherPdf list" where
  "parseStoredAssociatedVouchers stored = parseArray storedAssociated stored"

definition toTributePdf :: "StoredTribute \<Rightarrow> TributePdf" where
  "toTributePdf t = \<lparr>tpdf_description = st_description t, tpdf_amount = st_amount t\<rparr>"

definition toPdfItem :: "IssuedVoucherItemData \<Rightarrow> PdfItem" where
  "toPdfItem i = \<lparr>pdf_description = vi_description i, pdf_quantity = vi_quantity i, pdf_unitPrice = vi_unitPrice i,
     pdf_ivaRate = vi_ivaRate i, pdf_taxTreatment = parseTaxTreatment (vi_taxTreatment i), pdf_subtotal = vi_subtotal i\<rparr>"

definition servicePeriodOf :: "IssuedVoucherData \<Rightarrow> (js_date \<times> js_date) option" where
  "servicePeriodOf v = (case (vd_serviceFrom v, vd_serviceTo v) of
      (Some f, Some t) \<Rightarrow> Some (f, t)
    | _ \<Rightarrow> None)"

definition transparencyItem :: "PdfItem \<Rightarrow> item" where
  "transparencyItem i = \<lparr>item_description = pdf_description i, quantity = pdf_quantity i, unitPrice = pdf_unitPrice i,
     ivaRate = pdf_ivaRate i, taxTreatment = pdf_taxTreatment i\<rparr>"

text \<open>The voucher with its issuer and the number of its sales point; the QR and the CAE are texts.\<close>

definition buildVoucherPdfData ::
  "StoredIssuer \<Rightarrow> int \<Rightarrow> IssuedVoucherData \<Rightarrow> string \<Rightarrow> string \<Rightarrow> nat list \<Rightarrow> app_error + VoucherPdfData" where
  "buildVoucherPdfData issuer salesPointNumber v qrData cae qrPng =
     (let ts = parseStoredTributes (tributesColumn (vd_tributes v));
          its = map toPdfItem (vd_items v) in
      case buildFiscalTransparency (vd_voucherType v) (vd_ivaAmount v) (map transparencyItem its)
          (map (\<lambda>t. \<lparr>typed_id = st_id t, typed_amount = st_amount t\<rparr>) ts) of
        Inl e \<Rightarrow> Inl e
      | Inr transparency \<Rightarrow> Inr
         \<lparr>pdf_issuer = \<lparr>ipdf_legalName = issuer_legalName issuer, ipdf_commercialAddress = commercialAddress issuer,
            ipdf_cuit = issuer_cuit issuer, ipdf_ivaCondition = issuer_ivaCondition issuer\<rparr>,
          pdf_recipient = recipientFromQr qrData, pdf_voucherType = vd_voucherType v, pdf_salesPoint = salesPointNumber,
          pdf_number = vd_number v, pdf_date = vd_voucherDate v, pdf_currency = vd_currency v,
          pdf_netAmount = vd_netAmount v, pdf_ivaAmount = vd_ivaAmount v, pdf_exemptAmount = vd_exemptAmount v,
          pdf_untaxedAmount = vd_untaxedAmount v, pdf_totalAmount = vd_totalAmount v, pdf_tributes = map toTributePdf ts,
          pdf_cae = cae, pdf_caeExpiration = orElse (vd_caeExpiration v) (vd_voucherDate v), pdf_items = its,
          pdf_associatedVouchers = parseStoredAssociatedVouchers (associatedColumn (vd_associatedVouchers v)),
          pdf_servicePeriod = servicePeriodOf v, pdf_paymentDueDate = vd_paymentDueDate v,
          pdf_fiscalTransparency = transparency, pdf_qrPng = qrPng\<rparr>)"

subsection \<open>The drawing\<close>

datatype align = ToLeft | ToRight | ToCenter

record TextOptions =
  text_width :: "number option"
  text_align :: align
  text_underline :: bool

text \<open>\<open>text\<close> with no height continues below the text before it.\<close>

datatype pdf_op =
    FontSize number
  | FillColor string
  | Rect number number number number
  | MoveTo number number
  | LineTo number number
  | Stroke
  | Write string number "number option" TextOptions
  | Image "nat list" number number number number

record PdfFrame =
  frame_left :: number
  frame_right :: number
  frame_width :: number
  frame_pageHeight :: number
  heightOfString :: "number \<Rightarrow> string \<Rightarrow> number \<Rightarrow> number"
  money :: "number \<Rightarrow> string"
  frame_timeZone :: int
  emDash :: string
  bullet :: string

definition plain :: TextOptions where
  "plain = \<lparr>text_width = None, text_align = ToLeft, text_underline = False\<rparr>"

definition inWidth :: "number \<Rightarrow> TextOptions" where
  "inWidth w = plain\<lparr>text_width := Some w\<rparr>"

definition rightIn :: "number \<Rightarrow> TextOptions" where
  "rightIn w = (inWidth w)\<lparr>text_align := ToRight\<rparr>"

definition centerIn :: "number \<Rightarrow> TextOptions" where
  "centerIn w = (inWidth w)\<lparr>text_align := ToCenter\<rparr>"

subsection \<open>Texts\<close>

definition formatPdfDate :: "int \<Rightarrow> js_date \<Rightarrow> string" where
  "formatPdfDate tz date = (case date of
      None \<Rightarrow> ''NaN/NaN/NaN''
    | Some t \<Rightarrow> pad2 (getDate tz t) @ ''/'' @ pad2 (getMonth tz t + 1) @ ''/'' @ intToString (getFullYear tz t))"

definition ivaCell :: "PdfFrame \<Rightarrow> PdfItem \<Rightarrow> string" where
  "ivaCell f i = (case pdf_taxTreatment i of
      EXEMPT \<Rightarrow> ''Exento''
    | UNTAXED \<Rightarrow> ''No grav.''
    | TAXED \<Rightarrow> money f (pdf_ivaRate i))"

definition issuerDetailLines :: "IssuerPdf \<Rightarrow> string list" where
  "issuerDetailLines i =
     (if hasText (ipdf_commercialAddress i) then [''Domicilio comercial: '' @ the (ipdf_commercialAddress i)] else []) @
     [''CUIT: '' @ ipdf_cuit i, ''Condici'' @ [CHR 0xF3] @ ''n IVA: '' @ ipdf_ivaCondition i]"

definition FISCAL_TRANSPARENCY_TITLE :: string where
  "FISCAL_TRANSPARENCY_TITLE = ''R'' @ [CHR 0xE9] @ ''gimen de Transparencia Fiscal al Consumidor (Ley 27.743)''"

definition fiscalTransparencyLines :: "PdfFrame \<Rightarrow> FiscalTransparency \<Rightarrow> string \<times> string list" where
  "fiscalTransparencyLines f t = (FISCAL_TRANSPARENCY_TITLE,
     [''IVA Contenido: $ '' @ money f (containedIva t),
      ''Otros Impuestos Nacionales Indirectos: $ '' @ money f (otherNationalIndirectTaxes t)])"

definition voucherTypeLabel :: "int \<Rightarrow> string" where
  "voucherTypeLabel vt = orElse (voucherTypeName vt) (''Tipo '' @ intToString vt)"

definition describeVoucher :: "int \<Rightarrow> int \<Rightarrow> int \<Rightarrow> string" where
  "describeVoucher vt sp n = voucherTypeLabel vt @ '' '' @ padStart 5 (CHR ''0'') (intToString sp) @ ''-'' @
     padStart 8 (CHR ''0'') (intToString n)"

subsection \<open>The sections\<close>

definition drawLetterBox :: "PdfFrame \<Rightarrow> int \<Rightarrow> pdf_op list" where
  "drawLetterBox f vt =
     (let center = js_add (frame_left f) (js_div (frame_width f) 2);
          letterBoxLeft = js_sub center (js_div 50 2);
          letter = (if voucherLetter vt \<noteq> '''' then voucherLetter vt else ''X'') in
      [Rect letterBoxLeft 40 50 50, Stroke, FontSize 28, Write letter letterBoxLeft (Some 52) (centerIn 50),
       FontSize 7, Write ''COMPROBANTE'' (js_sub center (js_div 90 2)) (Some 93) (centerIn 90)])"

definition drawIssuer :: "PdfFrame \<Rightarrow> IssuerPdf \<Rightarrow> pdf_op list" where
  "drawIssuer f issuer =
     [FontSize 16, Write (ipdf_legalName issuer) (frame_left f) (Some 45) plain, FontSize 9] @
     map (\<lambda>(index, line). Write line (frame_left f) (if index = 0 then Some 66 else None)
         (inWidth (js_sub (js_div (frame_width f) 2) 35)))
       (enumerate 0 (issuerDetailLines issuer))"

definition drawHeadingLine :: "PdfFrame \<Rightarrow> string \<Rightarrow> number \<Rightarrow> pdf_op list" where
  "drawHeadingLine f line y_top = [Write line (js_sub (frame_right f) 220) (Some y_top) (rightIn 220)]"

definition drawRule :: "PdfFrame \<Rightarrow> number \<Rightarrow> pdf_op list" where
  "drawRule f y_top = [MoveTo (frame_left f) y_top, LineTo (frame_right f) y_top, Stroke]"

definition drawHeading :: "PdfFrame \<Rightarrow> VoucherPdfData \<Rightarrow> pdf_op list" where
  "drawHeading f d =
     [FontSize 11] @ drawHeadingLine f (describeVoucher (pdf_voucherType d) (pdf_salesPoint d) (pdf_number d)) 45 @
     [FontSize 9] @ drawHeadingLine f (''Fecha: '' @ formatPdfDate (frame_timeZone f) (pdf_date d)) 64 @
     (case pdf_servicePeriod d of
        None \<Rightarrow> []
      | Some (a, b) \<Rightarrow> [FontSize 8] @ drawHeadingLine f (''Per'' @ [CHR 0xED] @ ''odo facturado: '' @
          formatPdfDate (frame_timeZone f) a @ '' al '' @ formatPdfDate (frame_timeZone f) b) 78) @
     (case pdf_paymentDueDate d of
        None \<Rightarrow> []
      | Some due \<Rightarrow> [FontSize 8] @ drawHeadingLine f (''Vencimiento de pago: '' @ formatPdfDate (frame_timeZone f) due) 90) @
     drawRule f 110"

text \<open>A section that ends lower returns where: its operations and the top of the next one.\<close>

definition recipientLine :: "QrRecipient option \<Rightarrow> string" where
  "recipientLine recipient = (case recipient of
      None \<Rightarrow> ''Consumidor Final''
    | Some r \<Rightarrow> (case qrDocType r of
          None \<Rightarrow> ''Doc NaN''
        | Some t \<Rightarrow>
            if t = of_int \<lfloor>t\<rfloor> then orElse (documentTypeName \<lfloor>t\<rfloor>) (''Doc '' @ numberToString t)
            else ''Doc '' @ numberToString t) @ '': '' @ qrDocNumber r)"

definition drawRecipient :: "PdfFrame \<Rightarrow> QrRecipient option \<Rightarrow> pdf_op list \<times> number" where
  "drawRecipient f recipient =
     (let y_top = js_add 122 15 in
      ([FontSize 10, Write ''Receptor'' (frame_left f) (Some 122) plain,
        FontSize 9, Write (recipientLine recipient) (frame_left f) (Some y_top) plain],
       js_add y_top 25))"

record TableColumns =
  column_description :: number
  column_quantity :: number
  column_unitPrice :: number
  column_iva :: number
  column_subtotal :: number

definition tableColumns :: "PdfFrame \<Rightarrow> TableColumns" where
  "tableColumns f = \<lparr>column_description = frame_left f, column_quantity = js_add (frame_left f) 250,
     column_unitPrice = js_add (frame_left f) 320, column_iva = js_add (frame_left f) 410,
     column_subtotal = js_sub (frame_right f) 90\<rparr>"

record TableRow =
  row_quantity :: string
  row_unitPrice :: string
  row_iva :: string
  row_subtotal :: string

definition drawNumericCells :: "TableColumns \<Rightarrow> TableRow \<Rightarrow> number \<Rightarrow> pdf_op list" where
  "drawNumericCells c r y_top =
     [Write (row_quantity r) (column_quantity c) (Some y_top) (rightIn 50),
      Write (row_unitPrice r) (column_unitPrice c) (Some y_top) (rightIn 70),
      Write (row_iva r) (column_iva c) (Some y_top) (rightIn 50),
      Write (row_subtotal r) (column_subtotal c) (Some y_top) (rightIn 90)]"

definition itemRow :: "PdfFrame \<Rightarrow> PdfItem \<Rightarrow> TableRow" where
  "itemRow f i = \<lparr>row_quantity = money f (pdf_quantity i), row_unitPrice = money f (pdf_unitPrice i),
     row_iva = ivaCell f i, row_subtotal = money f (pdf_subtotal i)\<rparr>"

definition drawItem :: "PdfFrame \<Rightarrow> TableColumns \<Rightarrow> PdfItem \<Rightarrow> number \<Rightarrow> pdf_op list \<times> number" where
  "drawItem f c i y_top =
     (let descriptionHeight = heightOfString f 8 (pdf_description i) 240 in
      ([FontSize 8, Write (pdf_description i) (column_description c) (Some y_top) (inWidth 240)] @
         drawNumericCells c (itemRow f i) y_top,
       js_add (js_add y_top (max descriptionHeight 12)) 4))"

fun drawItems :: "PdfFrame \<Rightarrow> TableColumns \<Rightarrow> PdfItem list \<Rightarrow> number \<Rightarrow> pdf_op list \<times> number" where
  "drawItems f c [] y_top = ([], y_top)"
| "drawItems f c (i # its) y_top =
     (case drawItem f c i y_top of (ops, below) \<Rightarrow>
      case drawItems f c its below of (rest, last_top) \<Rightarrow> (ops @ rest, last_top))"

definition tableHeader :: TableRow where
  "tableHeader = \<lparr>row_quantity = ''Cant.'', row_unitPrice = ''P. Unit.'', row_iva = ''IVA %'', row_subtotal = ''Subtotal''\<rparr>"

definition drawItemsTable :: "PdfFrame \<Rightarrow> PdfItem list \<Rightarrow> number \<Rightarrow> pdf_op list \<times> number" where
  "drawItemsTable f its tableTop =
     (let columns = tableColumns f;
          ruleTop = js_add tableTop 14;
          (rows, y_top) = drawItems f columns its (js_add ruleTop 6) in
      ([FontSize 9, FillColor ''#000'',
        Write (''Descripci'' @ [CHR 0xF3] @ ''n'') (column_description columns) (Some tableTop) plain] @
         drawNumericCells columns tableHeader tableTop @ drawRule f ruleTop @ rows @ drawRule f y_top,
       js_add y_top 10))"

record TotalLine =
  line_label :: string
  line_amount :: number
  line_grandTotal :: bool

definition drawTotalLine :: "PdfFrame \<Rightarrow> TotalLine \<Rightarrow> number \<Rightarrow> pdf_op list \<times> number" where
  "drawTotalLine f l y_top =
     ([FontSize (if line_grandTotal l then 11 else 9),
       Write (line_label l) (js_sub (frame_right f) 260) (Some y_top) (rightIn 170),
       Write (''$ '' @ money f (line_amount l)) (js_sub (frame_right f) 90) (Some y_top) (rightIn 90)],
      js_add y_top (if line_grandTotal l then 18 else 14))"

definition totalLine :: "string \<Rightarrow> number \<Rightarrow> TotalLine" where
  "totalLine label x = \<lparr>line_label = label, line_amount = x, line_grandTotal = False\<rparr>"

definition totalLines :: "VoucherPdfData \<Rightarrow> TotalLine list" where
  "totalLines d =
     [totalLine ''Importe Neto:'' (pdf_netAmount d)] @
     (if 0 < pdf_untaxedAmount d then [totalLine ''Importe No Gravado:'' (pdf_untaxedAmount d)] else []) @
     (if 0 < pdf_exemptAmount d then [totalLine ''Importe Exento:'' (pdf_exemptAmount d)] else []) @
     [totalLine ''IVA:'' (pdf_ivaAmount d)] @
     map (\<lambda>t. totalLine (tpdf_description t @ '':'') (tpdf_amount t)) (pdf_tributes d) @
     [\<lparr>line_label = ''Total:'', line_amount = pdf_totalAmount d, line_grandTotal = True\<rparr>]"

fun drawTotalLines :: "PdfFrame \<Rightarrow> TotalLine list \<Rightarrow> number \<Rightarrow> pdf_op list \<times> number" where
  "drawTotalLines f [] y_top = ([], y_top)"
| "drawTotalLines f (l # ls) y_top =
     (case drawTotalLine f l y_top of (ops, below) \<Rightarrow>
      case drawTotalLines f ls below of (rest, last_top) \<Rightarrow> (ops @ rest, last_top))"

definition drawTotals :: "PdfFrame \<Rightarrow> VoucherPdfData \<Rightarrow> number \<Rightarrow> pdf_op list \<times> number" where
  "drawTotals f d totalsTop = drawTotalLines f (totalLines d) totalsTop"

fun drawAssociatedLines :: "PdfFrame \<Rightarrow> AssociatedVoucherPdf list \<Rightarrow> number \<Rightarrow> pdf_op list \<times> number" where
  "drawAssociatedLines f [] y_top = ([], y_top)"
| "drawAssociatedLines f (v # vs) y_top =
     (case drawAssociatedLines f vs (js_add y_top 12) of (rest, last_top) \<Rightarrow>
       ([FontSize 8, Write (bullet f @ '' '' @ describeVoucher (pdfa_type v) (pdfa_salesPoint v) (pdfa_number v))
           (js_add (frame_left f) 10) (Some y_top) plain] @ rest, last_top))"

definition drawAssociatedVouchers :: "PdfFrame \<Rightarrow> AssociatedVoucherPdf list \<Rightarrow> number \<Rightarrow> pdf_op list \<times> number" where
  "drawAssociatedVouchers f vs sectionTop =
     (if vs = [] then ([], sectionTop)
      else (let y_top = js_add sectionTop 8;
                (rows, last_top) = drawAssociatedLines f vs (js_add y_top 14) in
        ([FontSize 9, Write ''Comprobantes asociados:'' (frame_left f) (Some y_top) plain] @ rows, last_top)))"

fun drawNotes :: "PdfFrame \<Rightarrow> string list \<Rightarrow> number \<Rightarrow> pdf_op list \<times> number" where
  "drawNotes f [] y_top = ([], y_top)"
| "drawNotes f (s # ss) y_top =
     (case drawNotes f ss (js_add y_top 11) of (rest, last_top) \<Rightarrow>
       ([FontSize 8, Write s (frame_left f) (Some y_top) (inWidth (frame_width f))] @ rest, last_top))"

definition drawFiscalTransparency :: "PdfFrame \<Rightarrow> FiscalTransparency option \<Rightarrow> number \<Rightarrow> pdf_op list \<times> number" where
  "drawFiscalTransparency f transparency sectionTop = (case transparency of
      None \<Rightarrow> ([], sectionTop)
    | Some t \<Rightarrow>
        (let y_top = js_add sectionTop 12;
             (title, details) = fiscalTransparencyLines f t;
             (rows, last_top) = drawNotes f details (js_add y_top 12) in
         ([FontSize 8, Write title (frame_left f) (Some y_top) ((inWidth (frame_width f))\<lparr>text_underline := True\<rparr>)] @ rows,
          last_top)))"

definition RETENTION_NOTICE :: "PdfFrame \<Rightarrow> string" where
  "RETENTION_NOTICE f = ''COMPROBANTE SUJETO A RETENCI'' @ [CHR 0xD3] @ ''N '' @ emDash f @
     '' El receptor act'' @ [CHR 0xFA] @ ''a como agente de retenci'' @ [CHR 0xF3] @ ''n de IVA y Ganancias (RG 1575).''"

definition drawRetentionNotice :: "PdfFrame \<Rightarrow> int \<Rightarrow> number \<Rightarrow> pdf_op list" where
  "drawRetentionNotice f vt y_top =
     (if \<not> requiresRetentionNotice vt then []
      else [FontSize 8, Write (RETENTION_NOTICE f) (frame_left f) (Some (js_add y_top 12)) (inWidth (frame_width f))])"

definition CAE_DISCLAIMER :: string where
  "CAE_DISCLAIMER = ''Comprobante autorizado por ARCA. Verificable con el c'' @ [CHR 0xF3] @ ''digo QR.''"

definition footerTop :: "PdfFrame \<Rightarrow> number" where
  "footerTop f = js_sub (frame_pageHeight f) 180"

definition drawCaeFooter :: "PdfFrame \<Rightarrow> VoucherPdfData \<Rightarrow> pdf_op list" where
  "drawCaeFooter f d =
     (let qrTop = footerTop f; caeLeft = js_add (frame_left f) 140 in
      [Image (pdf_qrPng d) (frame_left f) qrTop 120 120,
       FontSize 10, Write ''CAE'' caeLeft (Some (js_add qrTop 20)) plain,
       FontSize 12, Write (pdf_cae d) caeLeft (Some (js_add qrTop 34)) plain,
       FontSize 9, Write (''Vencimiento CAE: '' @ formatPdfDate (frame_timeZone f) (pdf_caeExpiration d)) caeLeft
         (Some (js_add qrTop 56)) plain,
       FontSize 7, FillColor ''#666'',
       Write CAE_DISCLAIMER caeLeft (Some (js_add qrTop 76)) (inWidth (js_sub (frame_width f) 140))])"

subsection \<open>The voucher\<close>

definition PAGE_MARGIN :: number where
  "PAGE_MARGIN = 40"

definition frameOf :: "number \<Rightarrow> number \<Rightarrow> PdfFrame \<Rightarrow> PdfFrame" where
  "frameOf pageWidth pageHeight f =
     (let left_x = PAGE_MARGIN; right_x = js_sub pageWidth PAGE_MARGIN in
      f\<lparr>frame_left := left_x, frame_right := right_x, frame_width := js_sub right_x left_x, frame_pageHeight := pageHeight\<rparr>)"

definition drawVoucher :: "PdfFrame \<Rightarrow> VoucherPdfData \<Rightarrow> pdf_op list" where
  "drawVoucher f d =
     (let (recipient, tableTop) = drawRecipient f (pdf_recipient d);
          (table_ops, totalsTop) = drawItemsTable f (pdf_items d) tableTop;
          (totals, associatedTop) = drawTotals f d totalsTop;
          (associated, transparencyTop) = drawAssociatedVouchers f (pdf_associatedVouchers d) associatedTop;
          (transparency, retentionTop) = drawFiscalTransparency f (pdf_fiscalTransparency d) transparencyTop in
      drawLetterBox f (pdf_voucherType d) @ drawIssuer f (pdf_issuer d) @ drawHeading f d @ recipient @ table_ops @
      totals @ associated @ transparency @ drawRetentionNotice f (pdf_voucherType d) retentionTop @ drawCaeFooter f d)"

text \<open>A page of size A4 in points.\<close>

definition renderVoucherPdf :: "PdfFrame \<Rightarrow> VoucherPdfData \<Rightarrow> pdf_op list" where
  "renderVoucherPdf texts d = drawVoucher (frameOf (fl (59528 / 100)) (fl (84189 / 100)) texts) d"

text \<open>\<open>buildPdf\<close> of \<open>vouchers.service.ts\<close>; drawing the QR is the argument \<open>renderQrPng\<close>.\<close>

definition buildPdf ::
  "PdfFrame \<Rightarrow> (string \<Rightarrow> 'a \<Rightarrow> (app_error + nat list) \<times> 'a) \<Rightarrow> StoredIssuer \<Rightarrow> int \<Rightarrow> IssuedVoucherData \<Rightarrow> ('a, pdf_op list) effect" where
  "buildPdf texts renderQrPng issuer salesPointNumber v =
     (if \<not> hasText (vd_qrData v) \<or> \<not> hasText (vd_cae v)
      then throwA (NotFound (''El comprobante no est'' @ [CHR 0xE1] @ '' autorizado todav'' @ [CHR 0xED] @ ''a (sin CAE/QR).''))
      else bindA (external (renderQrPng (the (vd_qrData v)))) (\<lambda>qrPng.
        bindA (pureA (buildVoucherPdfData issuer salesPointNumber v (the (vd_qrData v)) (the (vd_cae v)) qrPng)) (\<lambda>d.
        returnA (renderVoucherPdf texts d))))"

end
