(* ===== verification/VoucherPdfProperties.thy ===== *)
theory VoucherPdfProperties
  imports VoucherPdf Samples
begin

text \<open>What the PDF of a voucher shows, and where it puts it.\<close>

subsection \<open>Heights\<close>

text \<open>Adding heights of texts is exact to a thousandth of a point.\<close>

lemma fl_near:
  assumes "\<bar>x\<bar> \<le> 8796093022208"
  shows "x - 1 / 1024 \<le> fl x \<and> fl x \<le> x + 1 / 1024"
proof -
  have "\<bar>fl x - x\<bar> \<le> 8796093022208 / 9007199254740992" using assms by (rule fl_err) simp
  then show ?thesis by linarith
qed

lemma js_add_near:
  assumes "0 \<le> x" "x \<le> 4398046511104" "0 \<le> y" "y \<le> 1000000"
  shows "x + y - 1 / 1024 \<le> js_add x y" "js_add x y \<le> x + y + 1 / 1024"
proof -
  show "x + y - 1 / 1024 \<le> js_add x y" "js_add x y \<le> x + y + 1 / 1024"
    using fl_near [of "x + y"] assms by (simp_all add: js_add_def)
qed

lemma js_add_int: "\<bar>m + n\<bar> \<le> 2 ^ 53 \<Longrightarrow> js_add (of_int m) (of_int n) = of_int (m + n)"
  using fl_of_int [of "m + n"] by (simp add: js_add_def)

definition itemHeight :: "PdfFrame \<Rightarrow> PdfItem \<Rightarrow> number" where
  "itemHeight f i = max (heightOfString f 8 (pdf_description i) 240) 12"

lemma drawItem_below:
  assumes "itemHeight f i \<le> 1000000" "0 \<le> y" "y \<le> 4398045500000"
  shows "y + itemHeight f i + 3 \<le> snd (drawItem f c i y)" "snd (drawItem f c i y) \<le> y + itemHeight f i + 5"
    "y + 159 / 10 \<le> snd (drawItem f c i y)"
proof -
  have m: "12 \<le> itemHeight f i" by (simp add: itemHeight_def)
  let ?t = "js_add y (itemHeight f i)"
  have t: "y + itemHeight f i - 1 / 1024 \<le> ?t" "?t \<le> y + itemHeight f i + 1 / 1024"
    using js_add_near [of y "itemHeight f i"] assms m by auto
  moreover have "0 \<le> ?t" "?t \<le> 4398046511104" using t assms m by linarith+
  ultimately have "?t + 4 - 1 / 1024 \<le> js_add ?t 4" "js_add ?t 4 \<le> ?t + 4 + 1 / 1024"
    using js_add_near [of ?t 4] by auto
  moreover have "snd (drawItem f c i y) = js_add ?t 4" by (simp add: drawItem_def itemHeight_def Let_def)
  ultimately show "y + itemHeight f i + 3 \<le> snd (drawItem f c i y)" "snd (drawItem f c i y) \<le> y + itemHeight f i + 5"
    "y + 159 / 10 \<le> snd (drawItem f c i y)"
    using t m by linarith+
qed

text \<open>The rows of the items, one below the other.\<close>

lemma drawItems_rows:
  assumes "\<forall>i\<in>set its. itemHeight f i \<le> 1000000" "0 \<le> y" "y + 1000005 * of_nat (length its) \<le> 4398045500000"
  shows "\<exists>tops. length tops = length its \<and>
    fst (drawItems f c its y) = concat (map2 (\<lambda>i t. fst (drawItem f c i t)) its tops) \<and>
    (\<forall>k < length its. y \<le> tops ! k \<and> tops ! k + itemHeight f (its ! k) + 3 \<le> (tops @ [snd (drawItems f c its y)]) ! Suc k) \<and>
    (its \<noteq> [] \<longrightarrow> tops ! 0 = y) \<and>
    y + 159 / 10 * of_nat (length its) \<le> snd (drawItems f c its y) \<and>
    snd (drawItems f c its y) \<le> y + 1000005 * of_nat (length its)"
  using assms
proof (induction its arbitrary: y)
  case Nil
  then show ?case by simp
next
  case (Cons i its)
  let ?below = "snd (drawItem f c i y)"
  have y: "y \<le> 4398045500000"
    using Cons.prems(3) of_nat_0_le_iff [of "length (i # its)", where 'a = rat] by linarith
  have b: "y + itemHeight f i + 3 \<le> ?below" "?below \<le> y + itemHeight f i + 5" "y + 159 / 10 \<le> ?below"
    using drawItem_below [of f i y c] Cons.prems(1,2) y by auto
  have i: "itemHeight f i \<le> 1000000" "12 \<le> itemHeight f i" using Cons.prems(1) by (auto simp: itemHeight_def)
  have prem: "0 \<le> ?below" "?below + 1000005 * of_nat (length its) \<le> 4398045500000"
    using b i Cons.prems(2,3) by (simp_all add: algebra_simps)
  obtain tops where tops: "length tops = length its"
    "fst (drawItems f c its ?below) = concat (map2 (\<lambda>i t. fst (drawItem f c i t)) its tops)"
    "\<forall>k < length its. ?below \<le> tops ! k \<and>
       tops ! k + itemHeight f (its ! k) + 3 \<le> (tops @ [snd (drawItems f c its ?below)]) ! Suc k"
    "its \<noteq> [] \<longrightarrow> tops ! 0 = ?below"
    "?below + 159 / 10 * of_nat (length its) \<le> snd (drawItems f c its ?below)"
    "snd (drawItems f c its ?below) \<le> ?below + 1000005 * of_nat (length its)"
    using Cons.IH [OF _ prem] Cons.prems(1) by auto
  have draw: "drawItems f c (i # its) y =
      (fst (drawItem f c i y) @ fst (drawItems f c its ?below), snd (drawItems f c its ?below))"
    by (simp split: prod.split)
  have rows: "y \<le> (y # tops) ! k \<and> (y # tops) ! k + itemHeight f ((i # its) ! k) + 3 \<le>
      ((y # tops) @ [snd (drawItems f c its ?below)]) ! Suc k" if k: "k < length (i # its)" for k
  proof (cases k)
    case 0
    have "(tops @ [snd (drawItems f c its ?below)]) ! 0 = ?below"
      using tops(1,4) by (cases its) (auto simp: nth_append)
    then show ?thesis using 0 b by simp
  next
    case (Suc j)
    then show ?thesis using tops(3) k b i by (auto simp del: drawItems.simps)
  qed
  show ?case
    using tops(1,2,5,6) b i rows
    by (intro exI [of _ "y # tops"]) (auto simp: draw algebra_simps add_divide_distrib simp del: drawItems.simps)
qed

text \<open>
  The rows of the table of items do not overlap: the items are drawn in their order,
  each at one height for its description and its four cells, and every row begins at least three
  points below where the text of the description before it ends.
\<close>

lemma rows_do_not_overlap:
  assumes "\<forall>i\<in>set its. itemHeight f i \<le> 1000000" "0 \<le> y" "y \<le> 1000" "length its \<le> 1000000"
  shows "\<exists>before tops after. fst (drawItemsTable f its y) =
      before @ concat (map2 (\<lambda>i t. fst (drawItem f (tableColumns f) i t)) its tops) @ after \<and>
    length tops = length its \<and>
    (\<forall>k. Suc k < length its \<longrightarrow>
       tops ! k + max (heightOfString f 8 (pdf_description (its ! k)) 240) 12 + 3 \<le> tops ! Suc k) \<and>
    (\<forall>k < length its. y + 18 \<le> tops ! k)"
proof -
  let ?rule = "js_add y 14" and ?c = "tableColumns f"
  let ?y = "js_add ?rule 6"
  have rule: "y + 14 - 1 / 1024 \<le> ?rule" "?rule \<le> y + 14 + 1 / 1024" using js_add_near [of y 14] assms(2,3) by simp_all
  have y: "?rule + 6 - 1 / 1024 \<le> ?y" "?y \<le> ?rule + 6 + 1 / 1024" using js_add_near [of ?rule 6] rule assms(2,3) by simp_all
  have "(of_nat (length its) :: rat) \<le> of_nat 1000000" using assms(4) by (simp only: of_nat_le_iff)
  then have "0 \<le> ?y" "?y + 1000005 * of_nat (length its) \<le> 4398045500000" using y rule assms(2,3) by simp_all
  from drawItems_rows [OF assms(1) this, of ?c] obtain tops where tops: "length tops = length its"
    "fst (drawItems f ?c its ?y) = concat (map2 (\<lambda>i t. fst (drawItem f ?c i t)) its tops)"
    "\<forall>k < length its. ?y \<le> tops ! k \<and> tops ! k + itemHeight f (its ! k) + 3 \<le> (tops @ [snd (drawItems f ?c its ?y)]) ! Suc k"
    by blast
  have "tops ! k + max (heightOfString f 8 (pdf_description (its ! k)) 240) 12 + 3 \<le> tops ! Suc k" if "Suc k < length its" for k
    using tops(1) spec [OF tops(3), of k] that by (simp add: itemHeight_def nth_append)
  moreover have "y + 18 \<le> tops ! k" if "k < length its" for k
  proof -
    have "?y \<le> tops ! k" using tops(3) that by blast
    then show ?thesis using y rule by linarith
  qed
  moreover have "\<exists>before after. fst (drawItemsTable f its y) = before @ fst (drawItems f ?c its ?y) @ after"
    unfolding drawItemsTable_def Let_def by (simp split: prod.split) (metis append.assoc append_Cons)
  ultimately show ?thesis using tops(1,2) by metis
qed

subsection \<open>The footer\<close>

text \<open>The last of the lines of the totals, and where it is.\<close>

lemma drawTotalLines_last:
  assumes "0 \<le> y" "y + 20 * of_nat (length ls) \<le> 4398046500000"
  shows "\<exists>t. y \<le> t \<and> Write (line_label l) (js_sub (frame_right f) 260) (Some t) (rightIn 170) \<in>
    set (fst (drawTotalLines f (ls @ [l]) y))"
  using assms
proof (induction ls arbitrary: y)
  case Nil
  then show ?case by (auto simp: drawTotalLine_def)
next
  case (Cons m ls)
  let ?below = "snd (drawTotalLine f m y)"
  have y: "y \<le> 4398046500000" using Cons.prems(2) of_nat_0_le_iff [of "length (m # ls)", where 'a = rat] by linarith
  have b: "y + 13 \<le> ?below" "?below \<le> y + 19"
    using js_add_near [of y 18] js_add_near [of y 14] Cons.prems(1) y by (auto simp: drawTotalLine_def)
  have "0 \<le> ?below" "?below + 20 * of_nat (length ls) \<le> 4398046500000"
    using b Cons.prems by (simp_all add: algebra_simps)
  from Cons.IH [OF this] obtain t where "?below \<le> t"
    "Write (line_label l) (js_sub (frame_right f) 260) (Some t) (rightIn 170) \<in> set (fst (drawTotalLines f (ls @ [l]) ?below))"
    by blast
  then show ?case using b by (intro exI [of _ t]) (auto split: prod.split)
qed

lemma first_tops: "js_add 122 15 = 137" "js_add 137 25 = 162" "js_add 162 14 = 176" "js_add 176 6 = 182"
  using js_add_int [of 122 15] js_add_int [of 137 25] js_add_int [of 162 14] js_add_int [of 176 6] by simp_all

lemma drawVoucher_parts:
  "set (drawLetterBox f (pdf_voucherType d)) \<union> set (drawIssuer f (pdf_issuer d)) \<union> set (drawHeading f d) \<union>
   set (fst (drawRecipient f (pdf_recipient d))) \<union> set (fst (drawItemsTable f (pdf_items d) 162)) \<union>
   set (fst (drawTotals f d (snd (drawItemsTable f (pdf_items d) 162)))) \<union> set (drawCaeFooter f d) \<subseteq> set (drawVoucher f d)"
  by (auto simp: drawVoucher_def drawRecipient_def first_tops Let_def case_prod_beta)


subsection \<open>What is shown\<close>

definition textsOf :: "pdf_op list \<Rightarrow> string list" where
  "textsOf ops = List.map_filter (\<lambda>op. case op of Write s x y opts \<Rightarrow> Some s | _ \<Rightarrow> None) ops"

lemma in_textsOf: "s \<in> set (textsOf ops) \<longleftrightarrow> (\<exists>x y opts. Write s x y opts \<in> set ops)"
proof (induction ops)
  case (Cons op ops)
  then show ?case by (cases op) (auto simp: textsOf_def List.map_filter_simps)
qed (simp add: textsOf_def List.map_filter_simps)

lemma textsOf_mono: "set ops \<subseteq> set ops' \<Longrightarrow> set (textsOf ops) \<subseteq> set (textsOf ops')"
  unfolding in_textsOf [abs_def] subset_iff by meson

lemma frameOf_texts [simp]: "money (frameOf pw ph f) = money f" "frame_timeZone (frameOf pw ph f) = frame_timeZone f"
  by (simp_all add: frameOf_def Let_def)

lemma tributes_read_back:
  assumes "\<forall>t\<in>set (orElse stored []). 0 < at_id t"
  shows "parseStoredTributes (tributesColumn stored) =
    map (\<lambda>t. \<lparr>st_id = Some (at_id t), st_description = at_description t, st_amount = at_amount t\<rparr>) (orElse stored [])"
proof (cases stored)
  case (Some ts)
  have one: "storedTribute (JObj [(''id'', JNum (Some (of_int (at_id t)))), (''description'', JStr (at_description t)),
      (''taxableBase'', JNum (Some (at_taxableBase t))), (''rate'', JNum (Some (at_rate t))), (''amount'', JNum (Some (at_amount t)))]) =
      Some \<lparr>st_id = Some (at_id t), st_description = at_description t, st_amount = at_amount t\<rparr>" if "0 < at_id t" for t
    using that by (simp add: storedTribute_def property_def positiveOf_def integerOf_def)
  have "list_all (\<lambda>t. 0 < at_id t) ts \<Longrightarrow> parseArray storedTribute (tributesColumn (Some ts)) =
      map (\<lambda>t. \<lparr>st_id = Some (at_id t), st_description = at_description t, st_amount = at_amount t\<rparr>) ts"
    by (induction ts) (auto simp: parseArray_def tributesColumn_def one List.map_filter_simps split: if_splits)
  then show ?thesis using assms by (simp add: Some parseStoredTributes_def list_all_iff)
qed (simp add: parseStoredTributes_def parseArray_def tributesColumn_def)

lemma drawItems_all: "i \<in> set its \<Longrightarrow> \<exists>t. set (fst (drawItem f c i t)) \<subseteq> set (fst (drawItems f c its y))"
  by (induction its arbitrary: y) (auto simp: case_prod_beta, blast+)

lemma drawTotalLines_all: "l \<in> set ls \<Longrightarrow> \<exists>t. set (fst (drawTotalLine f l t)) \<subseteq> set (fst (drawTotalLines f ls y))"
  by (induction ls arbitrary: y) (auto simp: case_prod_beta, blast+)

lemma item_shown:
  assumes "i \<in> set (pdf_items d)"
  shows "{pdf_description i, money f (pdf_quantity i), money f (pdf_unitPrice i), money f (pdf_subtotal i)} \<subseteq>
    set (textsOf (drawVoucher f d))"
proof -
  obtain t where "set (fst (drawItem f (tableColumns f) i t)) \<subseteq> set (fst (drawItems f (tableColumns f) (pdf_items d) 182))"
    using drawItems_all [OF assms] by blast
  moreover have "set (fst (drawItems f (tableColumns f) (pdf_items d) 182)) \<subseteq> set (fst (drawItemsTable f (pdf_items d) 162))"
    by (auto simp: drawItemsTable_def Let_def first_tops case_prod_beta)
  ultimately have "set (fst (drawItem f (tableColumns f) i t)) \<subseteq> set (drawVoucher f d)"
    using drawVoucher_parts [of f d] by blast
  moreover have "{pdf_description i, money f (pdf_quantity i), money f (pdf_unitPrice i), money f (pdf_subtotal i)} \<subseteq>
      set (textsOf (fst (drawItem f (tableColumns f) i t)))"
    by (simp add: drawItem_def drawNumericCells_def itemRow_def textsOf_def List.map_filter_simps Let_def)
  ultimately show ?thesis using textsOf_mono by blast
qed

lemma total_shown:
  assumes "l \<in> set (totalLines d)"
  shows "{line_label l, ''$ '' @ money f (line_amount l)} \<subseteq> set (textsOf (drawVoucher f d))"
proof -
  obtain t where "set (fst (drawTotalLine f l t)) \<subseteq> set (fst (drawTotals f d (snd (drawItemsTable f (pdf_items d) 162))))"
    using drawTotalLines_all [OF assms] unfolding drawTotals_def by blast
  then have "set (fst (drawTotalLine f l t)) \<subseteq> set (drawVoucher f d)" using drawVoucher_parts [of f d] by blast
  moreover have "{line_label l, ''$ '' @ money f (line_amount l)} \<subseteq> set (textsOf (fst (drawTotalLine f l t)))"
    by (simp add: drawTotalLine_def textsOf_def List.map_filter_simps)
  ultimately show ?thesis using textsOf_mono by blast
qed

lemma heading_shown:
  "describeVoucher (pdf_voucherType d) (pdf_salesPoint d) (pdf_number d) \<in> set (textsOf (drawVoucher f d))"
  "''Fecha: '' @ formatPdfDate (frame_timeZone f) (pdf_date d) \<in> set (textsOf (drawVoucher f d))"
  "''CUIT: '' @ ipdf_cuit (pdf_issuer d) \<in> set (textsOf (drawVoucher f d))"
  "pdf_cae d \<in> set (textsOf (drawVoucher f d))"
proof -
  have "describeVoucher (pdf_voucherType d) (pdf_salesPoint d) (pdf_number d) \<in> set (textsOf (drawHeading f d))"
    "''Fecha: '' @ formatPdfDate (frame_timeZone f) (pdf_date d) \<in> set (textsOf (drawHeading f d))"
    by (auto simp: in_textsOf drawHeading_def drawHeadingLine_def)
  moreover have "pdf_cae d \<in> set (textsOf (drawCaeFooter f d))" by (simp add: textsOf_def drawCaeFooter_def List.map_filter_simps Let_def)
  moreover have "\<exists>y. Write (''CUIT: '' @ ipdf_cuit (pdf_issuer d)) (frame_left f) y
      (inWidth (js_sub (js_div (frame_width f) 2) 35)) \<in> set (drawIssuer f (pdf_issuer d))"
    by (auto simp: drawIssuer_def issuerDetailLines_def)
  then have "''CUIT: '' @ ipdf_cuit (pdf_issuer d) \<in> set (textsOf (drawIssuer f (pdf_issuer d)))" by (auto simp: in_textsOf)
  ultimately show
    "describeVoucher (pdf_voucherType d) (pdf_salesPoint d) (pdf_number d) \<in> set (textsOf (drawVoucher f d))"
    "''Fecha: '' @ formatPdfDate (frame_timeZone f) (pdf_date d) \<in> set (textsOf (drawVoucher f d))"
    "''CUIT: '' @ ipdf_cuit (pdf_issuer d) \<in> set (textsOf (drawVoucher f d))"
    "pdf_cae d \<in> set (textsOf (drawVoucher f d))"
    using drawVoucher_parts [of f d] textsOf_mono [of "drawHeading f d" "drawVoucher f d"]
      textsOf_mono [of "drawCaeFooter f d" "drawVoucher f d"] textsOf_mono [of "drawIssuer f (pdf_issuer d)" "drawVoucher f d"]
    by blast+
qed

text \<open>
  Property C35. A PDF is made only of an authorised voucher, and it shows it: its type and number,
  its date, the CUIT of its issuer, its CAE, the description and the amounts of every item, each
  stored tribute with its amount, and the total.
\<close>

theorem pdf_shows_voucher:
  assumes "buildPdf texts renderQrPng issuer sp v w = (Inr ops, w')"
    and "\<forall>t\<in>set (orElse (vd_tributes v) []). 0 < at_id t"
  shows "hasText (vd_qrData v) \<and> hasText (vd_cae v) \<and>
    {describeVoucher (vd_voucherType v) sp (vd_number v), ''Fecha: '' @ formatPdfDate (frame_timeZone texts) (vd_voucherDate v),
     ''CUIT: '' @ issuer_cuit issuer, the (vd_cae v), ''$ '' @ money texts (vd_totalAmount v)} \<subseteq> set (textsOf ops) \<and>
    (\<forall>i\<in>set (vd_items v). {vi_description i, money texts (vi_quantity i), money texts (vi_unitPrice i),
       money texts (vi_subtotal i)} \<subseteq> set (textsOf ops)) \<and>
    (\<forall>t\<in>set (orElse (vd_tributes v) []). {at_description t @ '':'', ''$ '' @ money texts (at_amount t)} \<subseteq> set (textsOf ops))"
proof -
  have auth: "hasText (vd_qrData v)" "hasText (vd_cae v)" using assms(1) by (auto simp: buildPdf_def throwA_def split: if_splits)
  then obtain png s d where d: "buildVoucherPdfData issuer sp v (the (vd_qrData v)) (the (vd_cae v)) png = Inr d"
    "ops = renderVoucherPdf texts d"
    using assms(1) unfolding buildPdf_def by (auto simp: bindA_Inr_iff pureA_def returnA_def)
  let ?f = "frameOf (fl (59528 / 100)) (fl (84189 / 100)) texts"
  have fields: "pdf_voucherType d = vd_voucherType v" "pdf_salesPoint d = sp" "pdf_number d = vd_number v"
    "pdf_date d = vd_voucherDate v" "ipdf_cuit (pdf_issuer d) = issuer_cuit issuer" "pdf_cae d = the (vd_cae v)"
    "pdf_totalAmount d = vd_totalAmount v" "pdf_items d = map toPdfItem (vd_items v)"
    "pdf_tributes d = map toTributePdf (parseStoredTributes (tributesColumn (vd_tributes v)))"
    using d(1) by (auto simp: buildVoucherPdfData_def Let_def split: sum.splits)
  have ops: "ops = drawVoucher ?f d" using d(2) by (simp add: renderVoucherPdf_def)
  have "''$ '' @ money texts (vd_totalAmount v) \<in> set (textsOf ops)"
    using total_shown [of "\<lparr>line_label = ''Total:'', line_amount = pdf_totalAmount d, line_grandTotal = True\<rparr>" d ?f]
    by (simp add: totalLines_def ops fields)
  moreover have "{vi_description i, money texts (vi_quantity i), money texts (vi_unitPrice i), money texts (vi_subtotal i)} \<subseteq>
      set (textsOf ops)" if "i \<in> set (vd_items v)" for i
    using item_shown [of "toPdfItem i" d ?f] that by (simp add: ops fields toPdfItem_def)
  moreover have "{at_description t @ '':'', ''$ '' @ money texts (at_amount t)} \<subseteq> set (textsOf ops)"
    if "t \<in> set (orElse (vd_tributes v) [])" for t
  proof -
    have "totalLine (at_description t @ '':'') (at_amount t) \<in> set (totalLines d)"
      using that by (auto simp: totalLines_def fields tributes_read_back [OF assms(2)] toTributePdf_def)
    from total_shown [OF this, of ?f] show ?thesis by (simp add: totalLine_def ops)
  qed
  ultimately show ?thesis using heading_shown [where f = ?f and d = d] auth by (simp add: ops fields)
qed

subsection \<open>A sample\<close>

definition sampleTexts :: PdfFrame where
  "sampleTexts = \<lparr>frame_left = 0, frame_right = 0, frame_width = 0, frame_pageHeight = 0, heightOfString = (\<lambda>size s w. 10),
     money = toFixed2, frame_timeZone = 0, emDash = ''-'', bullet = ''*''\<rparr>"

definition sampleStoredItem :: IssuedVoucherItemData where
  "sampleStoredItem = \<lparr>vi_description = ''x'', vi_quantity = 1, vi_unitPrice = 100, vi_ivaRate = 21, vi_taxTreatment = ''TAXED'',
     vi_subtotal = 100\<rparr>"

definition sampleStoredVoucher :: "nat \<Rightarrow> IssuedVoucherData" where
  "sampleStoredVoucher n = \<lparr>vd_issuerId = ''i'', vd_salesPointId = ''s'', vd_clientId = None, vd_recipientDocType = 99,
     vd_recipientDocNumber = ''0'', vd_recipientName = None, vd_voucherType = FACTURA_A, vd_number = 7, vd_voucherDate = Some 0,
     vd_concept = 1, vd_serviceFrom = None, vd_serviceTo = None, vd_paymentDueDate = None, vd_netAmount = 100, vd_ivaAmount = 21,
     vd_exemptAmount = 0, vd_untaxedAmount = 0, vd_tributeAmount = 0, vd_totalAmount = 121, vd_tributes = None,
     vd_currency = ''PES'', vd_exchangeRate = 1, vd_status = ''AUTHORIZED'', vd_cae = Some ''71'', vd_caeExpiration = None,
     vd_arcaObservations = None, vd_qrData = Some ''q'', vd_associatedVouchers = None, vd_exportDetail = None,
     vd_items = replicate n sampleStoredItem\<rparr>"

lemma sample_no_transparency: "buildFiscalTransparency FACTURA_A iva its ts = Inr None"
proof -
  have "\<not> requiresFiscalTransparencyNotice FACTURA_A" by code_simp
  then show ?thesis by (simp add: buildFiscalTransparency_def)
qed

lemma sample_data: "\<exists>d. buildVoucherPdfData sampleIssuer 3 (sampleStoredVoucher n) ''q'' ''71'' [] = Inr d \<and>
    pdf_items d = replicate n (toPdfItem sampleStoredItem) \<and> pdf_tributes d = [] \<and> pdf_qrPng d = []"
  by (simp add: buildVoucherPdfData_def sampleStoredVoucher_def sample_no_transparency Let_def tributesColumn_def
      parseStoredTributes_def parseArray_def)

lemma sample_height: "itemHeight sampleTexts i = 12"
  by (simp add: itemHeight_def sampleTexts_def)

theorem rows_do_not_overlap_witness:
  "\<exists>tops. length tops = 2 \<and> tops ! 0 + 12 + 3 \<le> (tops ! 1 :: rat)"
proof -
  let ?its = "[toPdfItem sampleStoredItem, toPdfItem sampleStoredItem]"
  have h: "\<forall>i\<in>set ?its. itemHeight sampleTexts i \<le> 1000000" by (simp add: sample_height)
  obtain tops where "length tops = length ?its" "\<forall>k. Suc k < length ?its \<longrightarrow>
      tops ! k + max (heightOfString sampleTexts 8 (pdf_description (?its ! k)) 240) 12 + 3 \<le> tops ! Suc k"
    using rows_do_not_overlap [OF h, of 162] by auto
  then show ?thesis by (intro exI [of _ tops]) (auto simp: sampleTexts_def)
qed


theorem pdf_shows_voucher_witness:
  "\<exists>ops w'. buildPdf sampleTexts (\<lambda>q s. (Inr [], s)) sampleIssuer 3 (sampleStoredVoucher 1) (sampleWorld [] [] []) = (Inr ops, w') \<and>
    ''71'' \<in> set (textsOf ops)"
proof -
  obtain d where "buildVoucherPdfData sampleIssuer 3 (sampleStoredVoucher 1) ''q'' ''71'' [] = Inr d"
    using sample_data [of 1] by blast
  then have run: "buildPdf sampleTexts (\<lambda>q s. (Inr [], s)) sampleIssuer 3 (sampleStoredVoucher 1) (sampleWorld [] [] []) =
      (Inr (renderVoucherPdf sampleTexts d), (sampleWorld [] [] [])\<lparr>outside := outside (sampleWorld [] [] [])\<rparr>)"
    by (simp add: buildPdf_def sampleStoredVoucher_def hasText_def bindA_def external_def pureA_def returnA_def)
  have "\<forall>t\<in>set (orElse (vd_tributes (sampleStoredVoucher 1)) []). 0 < at_id t"
    by (simp add: sampleStoredVoucher_def orElse_def)
  from pdf_shows_voucher [OF run this] show ?thesis
    using run by (auto simp: sampleStoredVoucher_def)
qed

end
