(* ===== verification/Deliveries.thy ===== *)
theory Deliveries
  imports VoucherPdf CacheTables UtcDate
begin

text \<open>
  What leaves the process after the fact: the webhooks of the API clients
  (\<open>webhooks/webhook.service.ts\<close>), the push messages of the owners of the issuers
  (\<open>notifications/*.ts\<close>, \<open>shared/src/push-token.ts\<close>) and the daily watch of the
  certificates (\<open>certs/cert-monitor.service.ts\<close>). The state is the world of the other services
  with the tables that only these use and the history of the requests sent, each with whether it
  was accepted, and of the waits between them.
\<close>

record EndpointRow =
  ep_apiClientId :: string
  ep_url :: string
  ep_secret :: string
  ep_active :: bool

record PushTokenRow =
  pt_userId :: string
  pt_token :: string
  pt_platform :: string

record HttpPost =
  post_url :: string
  post_headers :: "(string \<times> string) list"
  post_body :: string

record 'a mail =
  base :: "'a world"
  webhookEndpoints :: "EndpointRow list"
  pushTokens :: "PushTokenRow list"
  exchanges :: "(HttpPost \<times> bool) list"
  waits :: "number list"

text \<open>
  An answer with its status and its body (\<open>None\<close> where it is not JSON), or a failure of
  \<open>fetch\<close>. HMAC-SHA256 in hexadecimal is a parameter.
\<close>

datatype HttpAnswer = Answered int "json option" | Unanswered string

record 'a delivery =
  hmacHex :: "string \<Rightarrow> string \<Rightarrow> string"
  sendPost :: "HttpPost \<Rightarrow> 'a \<Rightarrow> HttpAnswer \<times> 'a"
  webhookMaxAttempts :: int
  webhookBaseDelayMs :: number
  pushApiUrl :: string
  dots :: string

type_synonym ('a, 'b) mailing = "('a mail, 'b) action"

definition onWorld :: "('a, 'b) effect \<Rightarrow> ('a, 'b) mailing" where
  "onWorld m s = (case m (base s) of (r, w) \<Rightarrow> (r, s\<lparr>base := w\<rparr>))"

definition mailTable :: "'a ports \<Rightarrow> ('a, 'b) mailing \<Rightarrow> ('a, 'b) mailing" where
  "mailTable p operation = bindA (onWorld (external (reachDatabase p))) (\<lambda>_. operation)"

fun accepted :: "HttpAnswer \<Rightarrow> bool" where
  "accepted (Answered status body) = (200 \<le> status \<and> status \<le> 299)"
| "accepted (Unanswered message) = False"

definition postA :: "'a delivery \<Rightarrow> HttpPost \<Rightarrow> ('a, HttpAnswer) mailing" where
  "postA q r s = (case sendPost q r (outside (base s)) of (answer, s') \<Rightarrow>
     (Inr answer, s\<lparr>base := (base s)\<lparr>outside := s'\<rparr>, exchanges := exchanges s @ [(r, accepted answer)]\<rparr>))"

subsection \<open>Webhooks\<close>

datatype WebhookEvent = VOUCHER_ISSUED | VOUCHER_FAILED | CERTIFICATE_EXPIRING

fun eventName :: "WebhookEvent \<Rightarrow> string" where
  "eventName VOUCHER_ISSUED = ''voucher.issued''"
| "eventName VOUCHER_FAILED = ''voucher.failed''"
| "eventName CERTIFICATE_EXPIRING = ''certificate.expiring''"

definition SIGNATURE_HEADER :: string where
  "SIGNATURE_HEADER = ''x-chirola-signature''"

definition EVENT_HEADER :: string where
  "EVENT_HEADER = ''x-chirola-event''"

definition DEFAULT_MAX_ATTEMPTS :: int where
  "DEFAULT_MAX_ATTEMPTS = 5"

definition DEFAULT_BASE_DELAY_MS :: number where
  "DEFAULT_BASE_DELAY_MS = 1000"

definition webhookRequest :: "'a delivery \<Rightarrow> WebhookEvent \<Rightarrow> string \<Rightarrow> EndpointRow \<Rightarrow> HttpPost" where
  "webhookRequest q event body e = \<lparr>post_url = ep_url e,
     post_headers = [(''Content-Type'', ''application/json''), (EVENT_HEADER, eventName event),
       (SIGNATURE_HEADER, ''sha256='' @ hmacHex q (ep_secret e) body)],
     post_body = body\<rparr>"

text \<open>The loop of attempts: after a refusal it waits twice as long as before, but not after the last.\<close>

definition delayA :: "number \<Rightarrow> ('a, unit) mailing" where
  "delayA ms = putA (\<lambda>s. s\<lparr>waits := waits s @ [ms]\<rparr>)"

function deliverFrom :: "'a delivery \<Rightarrow> HttpPost \<Rightarrow> int \<Rightarrow> ('a, unit) mailing" where
  "deliverFrom q r attempt =
     (if webhookMaxAttempts q < attempt then returnA ()
      else bindA (postA q r) (\<lambda>answer.
        if accepted answer then returnA ()
        else bindA (if attempt < webhookMaxAttempts q
            then delayA (js_mul (webhookBaseDelayMs q) (2 ^ nat (attempt - 1))) else returnA ()) (\<lambda>_.
          deliverFrom q r (attempt + 1))))"
  by pat_completeness auto
termination by (relation "measure (\<lambda>(q, r, attempt). nat (webhookMaxAttempts q + 1 - attempt))") auto

declare deliverFrom.simps [simp del]

definition deliver :: "'a delivery \<Rightarrow> WebhookEvent \<Rightarrow> string \<Rightarrow> EndpointRow \<Rightarrow> ('a, unit) mailing" where
  "deliver q event body e = deliverFrom q (webhookRequest q event body e) 1"

definition hookBody :: "WebhookEvent \<Rightarrow> string \<Rightarrow> json \<Rightarrow> date \<Rightarrow> string" where
  "hookBody event i data t = stringify (JObj [(''event'', JStr (eventName event)), (''issuerId'', JStr i),
     (''data'', data), (''timestamp'', JStr (toISOString t))])"

definition grantedClients :: "string \<Rightarrow> 'a world \<Rightarrow> string list" where
  "grantedClients i w = map grant_apiClientId (filter (\<lambda>g. grant_issuerId g = i) (apiClientIssuers w))"

definition activeEndpoints :: "string list \<Rightarrow> EndpointRow list \<Rightarrow> EndpointRow list" where
  "activeEndpoints granted rows = filter (\<lambda>e. ep_active e \<and> ep_apiClientId e \<in> set granted) rows"

text \<open>
  The deliveries to the endpoints run at once in the code. They share nothing, so the history of
  each endpoint is the one it has here, where they follow one another.
\<close>

definition dispatch :: "'a ports \<Rightarrow> 'a delivery \<Rightarrow> string \<Rightarrow> WebhookEvent \<Rightarrow> json \<Rightarrow> ('a, unit) mailing" where
  "dispatch p q i event data =
     bindA (mailTable p (getA (\<lambda>s. grantedClients i (base s)))) (\<lambda>granted.
       if granted = [] then returnA ()
       else bindA (mailTable p (getA (\<lambda>s. activeEndpoints granted (webhookEndpoints s)))) (\<lambda>endpoints.
         bindA (onWorld (now p)) (\<lambda>t.
         forEachA (deliver q event (hookBody event i data t)) endpoints)))"

subsection \<open>Push messages\<close>

record PushMessage =
  push_title :: string
  push_body :: string
  push_data :: "(string \<times> string) list"

definition MAX_REASON_LENGTH :: nat where
  "MAX_REASON_LENGTH = 140"

definition CERTIFICATE_EXPIRY_PUSH_DAYS :: "int list" where
  "CERTIFICATE_EXPIRY_PUSH_DAYS = [30, 15, 7, 3, 1]"

definition queuedVoucherAuthorizedMessage :: "IssuedVoucher \<Rightarrow> PushMessage" where
  "queuedVoucherAuthorizedMessage v = \<lparr>push_title = ''Comprobante autorizado'',
     push_body = describeVoucher (iv_voucherType v) (iv_salesPoint v) (iv_number v) @ '' ya tiene CAE: ARCA lo aprob'' @ [CHR 0xF3] @ '' en el reintento.'',
     push_data = [(''voucherId'', iv_id v)]\<rparr>"

definition queuedVoucherFailedMessage :: "'a delivery \<Rightarrow> string \<Rightarrow> string \<Rightarrow> PushMessage" where
  "queuedVoucherFailedMessage q pendingVoucherId reason = \<lparr>push_title = ''No se pudo emitir un comprobante'',
     push_body = ''Qued'' @ [CHR 0xF3] @ '' sin CAE: '' @
       (if MAX_REASON_LENGTH < length reason then take MAX_REASON_LENGTH reason @ dots q else reason),
     push_data = [(''pendingVoucherId'', pendingVoucherId)]\<rparr>"

definition certificateExpiringMessage :: "string \<Rightarrow> int \<Rightarrow> PushMessage" where
  "certificateExpiringMessage i daysToExpiry = \<lparr>push_title = ''Tu certificado de ARCA vence pronto'',
     push_body = ''Vence '' @ (if daysToExpiry = 1 then ''ma'' @ [CHR 0xF1] @ ''ana''
        else ''en '' @ intToString daysToExpiry @ '' d'' @ [CHR 0xED] @ ''as'') @ ''. Renovalo para seguir facturando.'',
     push_data = [(''issuerId'', i)]\<rparr>"

definition UNREGISTERED_DEVICE_ERROR :: string where
  "UNREGISTERED_DEVICE_ERROR = ''DeviceNotRegistered''"

text \<open>\<open>pushTicketsSchema\<close>, for the error of each ticket.\<close>

definition ticketError :: "json \<Rightarrow> string option option" where
  "ticketError v = (case property ''status'' v of
      Some (JStr _) \<Rightarrow>
        (case property ''details'' v of
           None \<Rightarrow> Some None
         | Some (JObj fs) \<Rightarrow>
             (case property ''error'' (JObj fs) of None \<Rightarrow> Some None | Some (JStr e) \<Rightarrow> Some (Some e) | Some _ \<Rightarrow> None)
         | Some _ \<Rightarrow> None)
    | _ \<Rightarrow> None)"

definition pushTickets :: "json \<Rightarrow> string option list option" where
  "pushTickets v = (case property ''data'' v of
      Some (JArr xs) \<Rightarrow>
        if list_all (\<lambda>x. ticketError x \<noteq> None) xs then Some (List.map_filter ticketError xs) else None
    | _ \<Rightarrow> None)"

definition pushRequest :: "'a delivery \<Rightarrow> string list \<Rightarrow> PushMessage \<Rightarrow> HttpPost" where
  "pushRequest q tokens m = \<lparr>post_url = pushApiUrl q,
     post_headers = [(''Content-Type'', ''application/json''), (''Accept'', ''application/json'')],
     post_body = stringify (JArr (map (\<lambda>token. JObj [(''to'', JStr token), (''sound'', JStr ''default''),
       (''title'', JStr (push_title m)), (''body'', JStr (push_body m)),
       (''data'', JObj (map (\<lambda>(k, v). (k, JStr v)) (push_data m)))]) tokens))\<rparr>"

definition unregisteredTokens :: "string list \<Rightarrow> string option list \<Rightarrow> string list" where
  "unregisteredTokens tokens errors = map snd (filter (\<lambda>(index, token).
     index < length errors \<and> errors ! index = Some UNREGISTERED_DEVICE_ERROR) (enumerate 0 tokens))"

definition forgetTokens :: "'a ports \<Rightarrow> string list \<Rightarrow> ('a, unit) mailing" where
  "forgetTokens p tokens = mailTable p (putA (\<lambda>s. s\<lparr>pushTokens := filter (\<lambda>r. pt_token r \<notin> set tokens) (pushTokens s)\<rparr>))"

definition sendPush :: "'a ports \<Rightarrow> 'a delivery \<Rightarrow> string list \<Rightarrow> PushMessage \<Rightarrow> ('a, unit) mailing" where
  "sendPush p q tokens m =
     bindA (postA q (pushRequest q tokens m)) (\<lambda>answer.
       case answer of
         Unanswered message \<Rightarrow> throwA (OtherError message)
       | Answered status body \<Rightarrow>
           if \<not> accepted answer
           then throwA (OtherError (''el servicio de push respondi'' @ [CHR 0xF3] @ '' HTTP '' @ intToString status))
           else (case body of
               None \<Rightarrow> throwA (OtherError ''SyntaxError'')
             | Some v \<Rightarrow> (case pushTickets v of
                   None \<Rightarrow> returnA ()
                 | Some errors \<Rightarrow>
                     if unregisteredTokens tokens errors = [] then returnA ()
                     else forgetTokens p (unregisteredTokens tokens errors))))"

definition ownerTokens :: "string \<Rightarrow> 'a mail \<Rightarrow> string list" where
  "ownerTokens i s = map pt_token (filter (\<lambda>t. \<exists>r\<in>set (issuers (base s)). issuer_id r = i \<and> issuer_userId r = pt_userId t)
     (pushTokens s))"

definition notifyIssuerOwner :: "'a ports \<Rightarrow> 'a delivery \<Rightarrow> string \<Rightarrow> PushMessage \<Rightarrow> ('a, unit) mailing" where
  "notifyIssuerOwner p q i m =
     catchA (bindA (mailTable p (getA (ownerTokens i))) (\<lambda>tokens.
         if tokens = [] then returnA () else sendPush p q tokens m))
       (\<lambda>err. returnA ())"

subsection \<open>The devices of a user\<close>

definition validPushToken :: "string \<Rightarrow> bool" where
  "validPushToken s = list_ex (\<lambda>start. take (length start) s = start \<and> length start + 2 \<le> length s \<and> last s = CHR '']'' \<and>
     list_all (\<lambda>c. c \<noteq> CHR 0x0A \<and> c \<noteq> CHR 0x0D) (butlast (drop (length start) s)))
     [''ExpoPushToken['', ''ExponentPushToken['']"

definition validPlatform :: "string \<Rightarrow> bool" where
  "validPlatform s = (s \<in> {''ios'', ''android''})"

definition withToken :: "string \<Rightarrow> PushTokenRow \<Rightarrow> bool" where
  "withToken token r = (pt_token r = token)"

definition putPushToken :: "string \<Rightarrow> string \<times> string \<Rightarrow> PushTokenRow list \<Rightarrow> PushTokenRow list" where
  "putPushToken token d rows = upsertRow (withToken token) (\<lambda>r. r\<lparr>pt_userId := fst d, pt_platform := snd d\<rparr>)
     \<lparr>pt_userId = fst d, pt_token = token, pt_platform = snd d\<rparr> rows"

definition registerPushToken :: "'a ports \<Rightarrow> string \<Rightarrow> string \<Rightarrow> string \<Rightarrow> ('a, unit) mailing" where
  "registerPushToken p u token platform = mailTable p (\<lambda>s.
     (if findRow (\<lambda>r. user_id r = u) (users (base s)) = None then (Inl (PrismaKnownError ''P2003''), s)
      else (Inr (), s\<lparr>pushTokens := putPushToken token (u, platform) (pushTokens s)\<rparr>)))"

definition removePushToken :: "'a ports \<Rightarrow> string \<Rightarrow> string \<Rightarrow> ('a, unit) mailing" where
  "removePushToken p u token = mailTable p (putA (\<lambda>s.
     s\<lparr>pushTokens := filter (\<lambda>r. \<not> (pt_userId r = u \<and> pt_token r = token)) (pushTokens s)\<rparr>))"

interpretation push_table: replacing_table withToken putPushToken
  "\<lambda>token d old. \<lparr>pt_userId = fst d, pt_token = token, pt_platform = snd d\<rparr>"
proof
  fix k k' :: string and d :: "string \<times> string" and rows
  show "findRow (withToken k) (putPushToken k d rows) = Some \<lparr>pt_userId = fst d, pt_token = k, pt_platform = snd d\<rparr>"
  proof -
    have "r\<lparr>pt_userId := fst d, pt_platform := snd d\<rparr> = \<lparr>pt_userId = fst d, pt_token = k, pt_platform = snd d\<rparr>"
      if "withToken k r" for r using that by (simp add: withToken_def)
    then show ?thesis unfolding putPushToken_def
      by (subst findRow_upsert_same) (auto simp: withToken_def split: option.split dest: findRow_Some)
  qed
  show "k \<noteq> k' \<Longrightarrow> findRow (withToken k') (putPushToken k d rows) = findRow (withToken k') rows"
    unfolding putPushToken_def by (intro findRow_upsert_other) (auto simp: withToken_def)
qed auto

subsection \<open>The notifications of the vouchers\<close>

text \<open>What the emission and the queue announce, as a delivery of its own.\<close>

definition issuedHookData :: "string \<Rightarrow> int \<Rightarrow> int \<Rightarrow> int \<Rightarrow> string \<Rightarrow> date \<Rightarrow> number \<Rightarrow> json" where
  "issuedHookData voucherId vt sp n code vto amount = JObj [(''voucherId'', JStr voucherId),
     (''voucherType'', JNum (Some (of_int vt))), (''salesPoint'', JNum (Some (of_int sp))), (''number'', JNum (Some (of_int n))),
     (''cae'', JStr code), (''caeExpiration'', JStr (toISOString vto)), (''totalAmount'', JNum (Some amount))]"

definition failedHookData :: "string \<Rightarrow> string \<Rightarrow> bool \<Rightarrow> bool \<Rightarrow> json" where
  "failedHookData pendingId reason permanent exhausted = JObj [(''pendingVoucherId'', JStr pendingId), (''reason'', JStr reason),
     (''permanent'', JBool permanent), (''exhausted'', JBool exhausted)]"

definition announce :: "'a ports \<Rightarrow> 'a delivery \<Rightarrow> notification \<Rightarrow> ('a, unit) mailing" where
  "announce p q n = (case n of
      VoucherIssuedHook i voucherId vt sp number code vto amount \<Rightarrow>
        (case vto of
           None \<Rightarrow> throwA (OtherError ''Invalid time value'')
         | Some t \<Rightarrow> dispatch p q i VOUCHER_ISSUED (issuedHookData voucherId vt sp number code t amount))
    | VoucherFailedHook i pendingId reason permanent exhausted \<Rightarrow>
        dispatch p q i VOUCHER_FAILED (failedHookData pendingId reason permanent exhausted)
    | VoucherAuthorizedPush i issued \<Rightarrow> notifyIssuerOwner p q i (queuedVoucherAuthorizedMessage issued)
    | VoucherFailedPush i pendingId reason \<Rightarrow> notifyIssuerOwner p q i (queuedVoucherFailedMessage q pendingId reason))"

subsection \<open>The watch of the certificates\<close>

definition DEFAULT_WARNING_DAYS :: int where
  "DEFAULT_WARNING_DAYS = 30"

definition expiringBy :: "date \<Rightarrow> CertificateRow \<Rightarrow> bool" where
  "expiringBy threshold c = (case validUntil c of None \<Rightarrow> False | Some t \<Rightarrow> t \<le> threshold)"

definition daysUntil :: "date \<Rightarrow> date \<Rightarrow> int" where
  "daysUntil t validUntil_t = \<lceil>js_div (of_int (validUntil_t - t)) (of_int msPerDay)\<rceil>"

definition warnOf :: "'a ports \<Rightarrow> 'a delivery \<Rightarrow> CertificateRow \<Rightarrow> ('a, unit) mailing" where
  "warnOf p q c = (case validUntil c of
      None \<Rightarrow> returnA ()
    | Some expires \<Rightarrow>
        bindA (onWorld (now p)) (\<lambda>t.
          (let daysToExpiry = daysUntil t expires in
           bindA (dispatch p q (cert_issuerId c) CERTIFICATE_EXPIRING (JObj [(''issuerId'', JStr (cert_issuerId c)),
             (''validUntil'', JStr (toISOString expires)), (''daysToExpiry'', JNum (Some (of_int daysToExpiry)))])) (\<lambda>_.
           if daysToExpiry \<in> set CERTIFICATE_EXPIRY_PUSH_DAYS
           then notifyIssuerOwner p q (cert_issuerId c) (certificateExpiringMessage (cert_issuerId c) daysToExpiry)
           else returnA ()))))"

definition checkExpiringCertificates :: "'a ports \<Rightarrow> 'a delivery \<Rightarrow> int \<Rightarrow> ('a, unit) mailing" where
  "checkExpiringCertificates p q warningDays =
     bindA (onWorld (now p)) (\<lambda>t.
     bindA (mailTable p (getA (\<lambda>s. filter (expiringBy (t + warningDays * msPerDay)) (certificates (base s))))) (\<lambda>found.
     forEachA (warnOf p q) found))"

end
