(* ===== verification/DeliveryProperties.thy ===== *)
theory DeliveryProperties
  imports Deliveries Samples
begin

text \<open>What the deliveries after the fact promise: whom they reach, how often, and what they change.\<close>

text \<open>The other tables stay, and the world outside is all that changes of the world.\<close>

definition sameTables_but_posts :: "'a mail \<Rightarrow> 'a mail \<Rightarrow> bool" where
  "sameTables_but_posts s s' \<longleftrightarrow> webhookEndpoints s' = webhookEndpoints s \<and> pushTokens s' = pushTokens s \<and>
     (\<exists>x. base s' = (base s)\<lparr>outside := x\<rparr>)"

lemma same_refl [simp]: "sameTables_but_posts s s"
  unfolding sameTables_but_posts_def by (auto intro: exI [of _ "outside (base s)"])

lemma same_trans: "sameTables_but_posts s s' \<Longrightarrow> sameTables_but_posts s' s'' \<Longrightarrow> sameTables_but_posts s s''"
  by (auto simp: sameTables_but_posts_def)

lemma mailTable_cases:
  obtains (down) m x where "mailTable p operation s = (Inl (OtherError m), s\<lparr>base := (base s)\<lparr>outside := x\<rparr>\<rparr>)"
    | (up) x where "mailTable p operation s = operation (s\<lparr>base := (base s)\<lparr>outside := x\<rparr>\<rparr>)"
proof -
  obtain failure x where d: "database p (outside (base s)) = (failure, x)" by fastforce
  show ?thesis
  proof (cases failure)
    case None
    then show ?thesis using d up [of x] by (simp add: mailTable_def onWorld_def external_def reachDatabase_def bindA_def)
  next
    case (Some m)
    then show ?thesis using d down [of m x] by (simp add: mailTable_def onWorld_def external_def reachDatabase_def bindA_def)
  qed
qed

lemma postA_same:
  "postA q r s = (answer, s') \<Longrightarrow> sameTables_but_posts s s' \<and> (\<exists>a. answer = Inr a \<and> exchanges s' = exchanges s @ [(r, accepted a)])"
  by (auto simp: postA_def sameTables_but_posts_def split: prod.splits)

subsection \<open>Webhooks\<close>

text \<open>At most \<open>n\<close> attempts: they end with the first that is accepted, and there are \<open>n\<close> when none is.\<close>

definition attempts :: "int \<Rightarrow> HttpPost \<Rightarrow> (HttpPost \<times> bool) list \<Rightarrow> bool" where
  "attempts n r xs \<longleftrightarrow> (\<exists>k. int k < n \<and> xs = replicate k (r, False) @ [(r, True)]) \<or> xs = replicate (nat n) (r, False)"

lemma attempts_refused: "attempts n r xs \<Longrightarrow> 0 \<le> n \<Longrightarrow> attempts (n + 1) r ((r, False) # xs)"
proof -
  assume a: "attempts n r xs" and n: "0 \<le> n"
  have "nat (n + 1) = Suc (nat n)" using n by simp
  moreover have "int (Suc k) < n + 1 \<and> (r, False) # replicate k (r, False) @ [(r, True)] = replicate (Suc k) (r, False) @ [(r, True)]"
    if "int k < n" for k using that by simp
  ultimately show ?thesis using a unfolding attempts_def by (metis replicate_Suc)
qed

lemma deliverFrom_attempts:
  "\<exists>xs s'. deliverFrom q r a s = (Inr (), s') \<and> exchanges s' = exchanges s @ xs \<and>
     attempts (webhookMaxAttempts q + 1 - a) r xs \<and> sameTables_but_posts s s'"
proof (induction q r a arbitrary: s rule: deliverFrom.induct)
  case (1 q r a)
  show ?case
  proof (cases "webhookMaxAttempts q < a")
    case True
    then show ?thesis by (simp add: deliverFrom.simps [of q r a] returnA_def attempts_def)
  next
    case False
    obtain answer s1 where post: "postA q r s = (Inr answer, s1)" "exchanges s1 = exchanges s @ [(r, accepted answer)]"
      "sameTables_but_posts s s1" using postA_same [of q r s] by (cases "postA q r s") blast
    show ?thesis
    proof (cases "accepted answer")
      case True
      have "attempts (webhookMaxAttempts q + 1 - a) r [(r, True)]"
        unfolding attempts_def using False by (auto intro: exI [of _ 0])
      then show ?thesis using True False post by (simp add: deliverFrom.simps [of q r a] bindA_def returnA_def)
    next
      case refused: False
      let ?s2 = "if a < webhookMaxAttempts q
        then s1\<lparr>waits := waits s1 @ [js_mul (webhookBaseDelayMs q) (2 ^ nat (a - 1))]\<rparr> else s1"
      have s2: "exchanges ?s2 = exchanges s1" "sameTables_but_posts s1 ?s2"
        by (auto simp: sameTables_but_posts_def intro: exI [of _ "outside (base s1)"])
      obtain xs s' where rest: "deliverFrom q r (a + 1) ?s2 = (Inr (), s')" "exchanges s' = exchanges ?s2 @ xs"
        "attempts (webhookMaxAttempts q + 1 - (a + 1)) r xs" "sameTables_but_posts ?s2 s'"
        using 1 False refused by blast
      have "deliverFrom q r a s = (Inr (), s')"
        using refused False post(1) rest(1)
        by (simp add: deliverFrom.simps [of q r a] bindA_def returnA_def delayA_def putA_def split: if_splits)
      moreover have "attempts (webhookMaxAttempts q + 1 - a) r ((r, False) # xs)"
        using attempts_refused [OF rest(3)] False by (simp add: diff_add_eq)
      moreover have "exchanges s' = exchanges s @ (r, False) # xs" using rest(2) s2(1) post(2) refused by simp
      moreover have "sameTables_but_posts s s'" using same_trans post(3) s2(2) rest(4) by blast
      ultimately show ?thesis by blast
    qed
  qed
qed

lemma deliverAll_attempts:
  "\<exists>xss s'. forEachA (deliver q event body) endpoints s = (Inr (), s') \<and> exchanges s' = exchanges s @ concat xss \<and>
     list_all2 (\<lambda>e xs. attempts (webhookMaxAttempts q) (webhookRequest q event body e) xs) endpoints xss \<and>
     sameTables_but_posts s s'"
proof (induction endpoints arbitrary: s)
  case Nil
  show ?case by (intro exI [of _ "[]"] exI [of _ s]) simp
next
  case (Cons e endpoints)
  obtain xs s1 where one: "deliver q event body e s = (Inr (), s1)" "exchanges s1 = exchanges s @ xs"
    "attempts (webhookMaxAttempts q) (webhookRequest q event body e) xs" "sameTables_but_posts s s1"
    using deliverFrom_attempts [of q "webhookRequest q event body e" 1 s] by (auto simp: deliver_def)
  obtain xss s' where rest: "forEachA (deliver q event body) endpoints s1 = (Inr (), s')"
    "exchanges s' = exchanges s1 @ concat xss"
    "list_all2 (\<lambda>e xs. attempts (webhookMaxAttempts q) (webhookRequest q event body e) xs) endpoints xss"
    "sameTables_but_posts s1 s'" using Cons.IH by blast
  then show ?case using one same_trans [OF one(4) rest(4)]
    by (intro exI [of _ "xs # xss"] exI [of _ s']) simp
qed

text \<open>
  Property C37. A dispatched event goes to the active endpoints of the clients that were granted
  the issuer and to no others, with the signature of the very body that is sent under the secret
  of the endpoint: each gets it until it accepts it, and the configured number of times when it
  never does. No table changes. A dispatch fails only when the database does, and then nothing
  was sent.
\<close>

theorem dispatch_reaches_granted:
  "\<exists>r s'. dispatch p q i event data s = (r, s') \<and> sameTables_but_posts s s' \<and>
    (case r of
       Inl e \<Rightarrow> (\<exists>message. e = OtherError message) \<and> exchanges s' = exchanges s
     | Inr _ \<Rightarrow> \<exists>t xss. exchanges s' = exchanges s @ concat xss \<and>
         list_all2 (\<lambda>e xs. attempts (webhookMaxAttempts q) (webhookRequest q event (hookBody event i data t) e) xs)
           (filter (\<lambda>e. ep_active e \<and> (\<exists>g\<in>set (apiClientIssuers (base s)). grant_issuerId g = i \<and>
              grant_apiClientId g = ep_apiClientId e)) (webhookEndpoints s)) xss)"
proof -
  define G where "G = grantedClients i (base s)"
  define E where "E = activeEndpoints G (webhookEndpoints s)"
  have E: "filter (\<lambda>e. ep_active e \<and> (\<exists>g\<in>set (apiClientIssuers (base s)). grant_issuerId g = i \<and>
      grant_apiClientId g = ep_apiClientId e)) (webhookEndpoints s) = E"
    unfolding E_def G_def activeEndpoints_def grantedClients_def by (intro filter_cong) (auto simp: image_iff)
  let ?at = "\<lambda>x. s\<lparr>base := (base s)\<lparr>outside := x\<rparr>\<rparr>"
  have same: "sameTables_but_posts s (?at x)" for x by (auto simp: sameTables_but_posts_def)
  consider (down) m x where "mailTable p (getA (\<lambda>s. grantedClients i (base s))) s = (Inl (OtherError m), ?at x)"
    | (up) x where "mailTable p (getA (\<lambda>s. grantedClients i (base s))) s = (Inr G, ?at x)"
    by (rule mailTable_cases [of p "getA (\<lambda>s. grantedClients i (base s))" s]) (auto simp: getA_def G_def grantedClients_def)
  then show ?thesis
  proof cases
    case down
    then show ?thesis using same by (simp add: dispatch_def bindA_def)
  next
    case (up x)
    show ?thesis
    proof (cases "G = []")
      case True
      then have "E = []" by (simp add: E_def activeEndpoints_def)
      then show ?thesis unfolding E using up True same
        by (simp add: dispatch_def bindA_def returnA_def)
    next
      case False
      consider (down2) m y where
          "mailTable p (getA (\<lambda>s. activeEndpoints G (webhookEndpoints s))) (?at x) = (Inl (OtherError m), ?at y)"
        | (up2) y where "mailTable p (getA (\<lambda>s. activeEndpoints G (webhookEndpoints s))) (?at x) = (Inr E, ?at y)"
        by (rule mailTable_cases [of p "getA (\<lambda>s. activeEndpoints G (webhookEndpoints s))" "?at x"])
          (auto simp: getA_def E_def)
      then show ?thesis
      proof cases
        case down2
        then show ?thesis using up False same by (simp add: dispatch_def bindA_def)
      next
        case (up2 y)
        obtain t z where now: "onWorld (now p) (?at y) = (Inr t, ?at z)"
          by (cases "clock p y") (auto simp: onWorld_def now_def external_def)
        obtain xss s' where sent: "forEachA (deliver q event (hookBody event i data t)) E (?at z) = (Inr (), s')"
          "exchanges s' = exchanges (?at z) @ concat xss"
          "list_all2 (\<lambda>e xs. attempts (webhookMaxAttempts q) (webhookRequest q event (hookBody event i data t) e) xs) E xss"
          "sameTables_but_posts (?at z) s'" using deliverAll_attempts by blast
        have "dispatch p q i event data s = (Inr (), s')"
          using up False up2 now sent(1) by (simp add: dispatch_def bindA_def)
        moreover have "sameTables_but_posts s s'" using same_trans [OF same sent(4)] .
        ultimately show ?thesis unfolding E using sent(2,3) by fastforce
      qed
    qed
  qed
qed

subsection \<open>Push messages\<close>

lemma unregistered_reported:
  "token \<in> set (unregisteredTokens tokens errors) \<Longrightarrow>
     \<exists>k < length tokens. k < length errors \<and> tokens ! k = token \<and> errors ! k = Some ''DeviceNotRegistered''"
  by (auto simp: unregisteredTokens_def UNREGISTERED_DEVICE_ERROR_def in_set_enumerate_eq)

text \<open>
  Property C38. Notifying the owner of an issuer never fails, and sends at most one request, with
  the message for every device of the owner. All it may change in the tables is to forget
  devices, and only those of the owner that the answer to that request reports as unregistered.
\<close>

theorem push_forgets_unregistered:
  "\<exists>s' gone. notifyIssuerOwner p q i m s = (Inr (), s') \<and> webhookEndpoints s' = webhookEndpoints s \<and>
    (\<exists>x. base s' = (base s)\<lparr>outside := x\<rparr>) \<and>
    (exchanges s' = exchanges s \<or> ownerTokens i s \<noteq> [] \<and>
      (\<exists>ok. exchanges s' = exchanges s @ [(pushRequest q (ownerTokens i s) m, ok)])) \<and>
    pushTokens s' = filter (\<lambda>r. pt_token r \<notin> gone) (pushTokens s) \<and>
    (\<forall>token\<in>gone. \<exists>x status v errors k. fst (sendPost q (pushRequest q (ownerTokens i s) m) x) = Answered status (Some v) \<and>
       pushTickets v = Some errors \<and> k < length errors \<and> errors ! k = Some ''DeviceNotRegistered'' \<and>
       k < length (ownerTokens i s) \<and> ownerTokens i s ! k = token)"
proof -
  let ?at = "\<lambda>x. s\<lparr>base := (base s)\<lparr>outside := x\<rparr>\<rparr>" and ?T = "ownerTokens i s"
  consider (down) m' x where "mailTable p (getA (ownerTokens i)) s = (Inl (OtherError m'), ?at x)"
    | (up) x where "mailTable p (getA (ownerTokens i)) s = (Inr ?T, ?at x)"
    by (rule mailTable_cases [of p "getA (ownerTokens i)" s]) (auto simp: getA_def ownerTokens_def)
  then show ?thesis
  proof cases
    case down
    then show ?thesis by (auto simp: notifyIssuerOwner_def bindA_def catchA_def returnA_def intro!: exI [of _ "{}"])
  next
    case (up x)
    show ?thesis
    proof (cases "?T = []")
      case True
      then show ?thesis using up by (auto simp: notifyIssuerOwner_def bindA_def catchA_def returnA_def intro!: exI [of _ "{}"])
    next
      case False
      obtain answer y where sent: "sendPost q (pushRequest q ?T m) x = (answer, y)" by fastforce
      let ?s1 = "s\<lparr>base := (base s)\<lparr>outside := y\<rparr>, exchanges := exchanges s @ [(pushRequest q ?T m, accepted answer)]\<rparr>"
      have post: "postA q (pushRequest q ?T m) (?at x) = (Inr answer, ?s1)" using sent by (simp add: postA_def)
      have run: "notifyIssuerOwner p q i m s = catchA (case answer of
           Unanswered message \<Rightarrow> throwA (OtherError message)
         | Answered status body \<Rightarrow>
             if \<not> accepted answer
             then throwA (OtherError (''el servicio de push respondi'' @ [CHR 0xF3] @ '' HTTP '' @ intToString status))
             else (case body of
                 None \<Rightarrow> throwA (OtherError ''SyntaxError'')
               | Some v \<Rightarrow> (case pushTickets v of
                     None \<Rightarrow> returnA ()
                   | Some errors \<Rightarrow> if unregisteredTokens ?T errors = [] then returnA ()
                       else forgetTokens p (unregisteredTokens ?T errors)))) (\<lambda>err. returnA ()) ?s1"
        using up False post by (simp add: notifyIssuerOwner_def sendPush_def bindA_def catchA_def)
      show ?thesis
      proof (cases "\<exists>status v errors. answer = Answered status (Some v) \<and> accepted answer \<and> pushTickets v = Some errors \<and>
          unregisteredTokens ?T errors \<noteq> []")
        case True
        then obtain status v errors where a: "answer = Answered status (Some v)" "accepted answer" "pushTickets v = Some errors"
          "unregisteredTokens ?T errors \<noteq> []" by blast
        let ?gone = "unregisteredTokens ?T errors"
        have notify: "notifyIssuerOwner p q i m s = catchA (forgetTokens p ?gone) (\<lambda>err. returnA ()) ?s1" using run a by simp
        have reported: "\<forall>token\<in>set ?gone. \<exists>x status v errors k.
            fst (sendPost q (pushRequest q ?T m) x) = Answered status (Some v) \<and> pushTickets v = Some errors \<and>
            k < length errors \<and> errors ! k = Some ''DeviceNotRegistered'' \<and> k < length ?T \<and> ?T ! k = token"
          using unregistered_reported [of _ ?T errors] sent a(1,3) by (metis fst_conv)
        show ?thesis
        proof (rule mailTable_cases [of p "putA (\<lambda>s. s\<lparr>pushTokens := filter (\<lambda>r. pt_token r \<notin> set ?gone) (pushTokens s)\<rparr>)" ?s1])
          fix m' z
          assume "mailTable p (putA (\<lambda>s. s\<lparr>pushTokens := filter (\<lambda>r. pt_token r \<notin> set ?gone) (pushTokens s)\<rparr>)) ?s1 =
            (Inl (OtherError m'), ?s1\<lparr>base := (base ?s1)\<lparr>outside := z\<rparr>\<rparr>)"
          then show ?thesis using notify False
            by (intro exI [of _ "?s1\<lparr>base := (base ?s1)\<lparr>outside := z\<rparr>\<rparr>"] exI [of _ "{}"]) (auto simp: forgetTokens_def catchA_def returnA_def)
        next
          fix z
          assume "mailTable p (putA (\<lambda>s. s\<lparr>pushTokens := filter (\<lambda>r. pt_token r \<notin> set ?gone) (pushTokens s)\<rparr>)) ?s1 =
            putA (\<lambda>s. s\<lparr>pushTokens := filter (\<lambda>r. pt_token r \<notin> set ?gone) (pushTokens s)\<rparr>) (?s1\<lparr>base := (base ?s1)\<lparr>outside := z\<rparr>\<rparr>)"
          then have ran: "notifyIssuerOwner p q i m s = (Inr (), ?s1\<lparr>base := (base ?s1)\<lparr>outside := z\<rparr>,
              pushTokens := filter (\<lambda>r. pt_token r \<notin> set ?gone) (pushTokens s)\<rparr>)"
            using notify by (simp add: forgetTokens_def putA_def catchA_def)
          show ?thesis
            by (rule exI, rule exI [of _ "set ?gone"], intro conjI, rule ran) (use False reported in auto)
        qed
      next
        case none: False
        have "notifyIssuerOwner p q i m s = (Inr (), ?s1)"
          using run none by (auto simp: catchA_def throwA_def returnA_def split: HttpAnswer.splits option.splits)
        then show ?thesis using False by (intro exI [of _ ?s1] exI [of _ "{}"]) auto
      qed
    qed
  qed
qed

definition sampleDelivery :: "arca delivery" where
  "sampleDelivery = \<lparr>hmacHex = (\<lambda>secret body. ''00''), sendPost = (\<lambda>r s. (Answered 200 (Some (JObj [(''data'',
     JArr [JObj [(''status'', JStr ''error''), (''details'', JObj [(''error'', JStr ''DeviceNotRegistered'')])]])])), s)),
     webhookMaxAttempts = 5, webhookBaseDelayMs = 1000, pushApiUrl = ''u'', dots = ''...''\<rparr>"

definition sampleMail :: "arca mail" where
  "sampleMail = \<lparr>base = sampleWorld [] [] [], webhookEndpoints = [],
     pushTokens = [\<lparr>pt_userId = ''u'', pt_token = ''t'', pt_platform = ''ios''\<rparr>], exchanges = [], waits = []\<rparr>"

theorem push_forgets_unregistered_witness:
  "\<exists>s' gone. notifyIssuerOwner samplePorts sampleDelivery ''i'' (certificateExpiringMessage ''i'' 1) sampleMail = (Inr (), s') \<and>
    pushTokens s' = filter (\<lambda>r. pt_token r \<notin> gone) [\<lparr>pt_userId = ''u'', pt_token = ''t'', pt_platform = ''ios''\<rparr>]"
  using push_forgets_unregistered [of samplePorts sampleDelivery "''i''" "certificateExpiringMessage ''i'' 1" sampleMail]
  by (auto simp: sampleMail_def)

end
