(* ===== verification/MobileSession.thy ===== *)
theory MobileSession
  imports Sessions
begin

text \<open>
  The session of the mobile application, \<open>apps/mobile/src/lib/api.ts\<close>: the tokens in memory
  and in the secure store, and the requests that share them. The code of a request between two
  awaits is one step, and the steps of several requests interleave.
\<close>

definition ACCESS_KEY :: string where
  "ACCESS_KEY = ''chirola.accessToken''"

definition REFRESH_KEY :: string where
  "REFRESH_KEY = ''chirola.refreshToken''"

definition USER_KEY :: string where
  "USER_KEY = ''chirola.user''"

definition HTTP_UNAUTHORIZED :: int where
  "HTTP_UNAUTHORIZED = 401"

definition HTTP_NO_CONTENT :: int where
  "HTTP_NO_CONTENT = 204"

text \<open>
  Where a request is: about to be sent, waiting for its answer, waiting for a refresh with the
  token it sent, saving what the refresh gave (how many of the three keys are written), clearing
  the session (how many are deleted), or over: with the status it gives back, or broken by a
  failure of the network.
\<close>

datatype request_phase =
    Ready
  | AwaitingAnswer
  | Refreshing string
  | Saving AuthResponse nat
  | Clearing nat
  | Ended int
  | Broken

record RawRequest =
  req_phase :: request_phase
  req_retried :: bool

record mobile =
  accessToken :: "string option"
  refreshToken :: "string option"
  secureStore :: "string \<Rightarrow> string option"
  unauthorizedCalls :: nat
  requests :: "RawRequest list"
  sent :: "(nat \<times> string option) list"

text \<open>What wakes a request up.\<close>

datatype event =
    Sends
  | Responds int
  | Refreshed AuthResponse
  | RefreshRefused
  | Stores
  | Breaks

definition bearer :: "string option \<Rightarrow> string option" where
  "bearer token = (if hasText token then Some (''Bearer '' @ the token) else None)"

definition atPhase :: "nat \<Rightarrow> request_phase \<Rightarrow> mobile \<Rightarrow> mobile" where
  "atPhase k ph s = s\<lparr>requests := (requests s)[k := (requests s ! k)\<lparr>req_phase := ph\<rparr>]\<rparr>"

definition userJson :: "string \<times> string \<Rightarrow> string" where
  "userJson u = stringify (JObj [(''id'', JStr (fst u)), (''email'', JStr (snd u))])"

text \<open>The three writes of \<open>setSession\<close> and the three deletions of \<open>clearSession\<close>, in order.\<close>

definition sessionEntry :: "AuthResponse \<Rightarrow> nat \<Rightarrow> string \<times> string" where
  "sessionEntry res n = (if n = 0 then (ACCESS_KEY, response_token res)
     else if n = 1 then (REFRESH_KEY, response_refreshToken res)
     else (USER_KEY, userJson (response_user res)))"

definition clearedKey :: "nat \<Rightarrow> string" where
  "clearedKey n = (if n = 0 then ACCESS_KEY else if n = 1 then REFRESH_KEY else USER_KEY)"

definition rememberSession :: "AuthResponse \<Rightarrow> mobile \<Rightarrow> mobile" where
  "rememberSession res s = s\<lparr>accessToken := Some (response_token res), refreshToken := Some (response_refreshToken res)\<rparr>"

definition forgetSession :: "mobile \<Rightarrow> mobile" where
  "forgetSession s = s\<lparr>accessToken := None, refreshToken := None\<rparr>"

definition storeEntry :: "string \<times> string \<Rightarrow> mobile \<Rightarrow> mobile" where
  "storeEntry e s = s\<lparr>secureStore := (secureStore s)(fst e := Some (snd e))\<rparr>"

definition deleteEntry :: "string \<Rightarrow> mobile \<Rightarrow> mobile" where
  "deleteEntry k s = s\<lparr>secureStore := (secureStore s)(k := None)\<rparr>"

text \<open>One step of request \<open>k\<close>; \<open>None\<close> where the event cannot happen to it.\<close>

definition advance :: "nat \<Rightarrow> event \<Rightarrow> mobile \<Rightarrow> mobile option" where
  "advance k e s =
     (if length (requests s) \<le> k then None
      else (case req_phase (requests s ! k) of
          Ready \<Rightarrow> (case e of
              Sends \<Rightarrow> Some ((atPhase k AwaitingAnswer s)\<lparr>sent := sent s @ [(k, bearer (accessToken s))]\<rparr>)
            | _ \<Rightarrow> None)
        | AwaitingAnswer \<Rightarrow> (case e of
              Responds status \<Rightarrow>
                if status = HTTP_UNAUTHORIZED \<and> \<not> req_retried (requests s ! k) \<and> hasText (refreshToken s)
                then Some (atPhase k (Refreshing (the (refreshToken s))) s)
                else Some (atPhase k (Ended status) s)
            | Breaks \<Rightarrow> Some (atPhase k Broken s)
            | _ \<Rightarrow> None)
        | Refreshing token \<Rightarrow> (case e of
              Refreshed res \<Rightarrow> Some (atPhase k (Saving res 0) (rememberSession res s))
            | RefreshRefused \<Rightarrow> Some (atPhase k (Clearing 0) (forgetSession s))
            | Breaks \<Rightarrow> Some (atPhase k Broken s)
            | _ \<Rightarrow> None)
        | Saving res n \<Rightarrow> (case e of
              Stores \<Rightarrow>
                (let s' = storeEntry (sessionEntry res n) s in
                 if n < 2 then Some (atPhase k (Saving res (Suc n)) s')
                 else Some (s'\<lparr>requests := (requests s')[k := \<lparr>req_phase = Ready, req_retried = True\<rparr>]\<rparr>))
            | _ \<Rightarrow> None)
        | Clearing n \<Rightarrow> (case e of
              Stores \<Rightarrow>
                (let s' = deleteEntry (clearedKey n) s in
                 if n < 2 then Some (atPhase k (Clearing (Suc n)) s')
                 else Some ((atPhase k (Ended HTTP_UNAUTHORIZED) s')\<lparr>unauthorizedCalls := Suc (unauthorizedCalls s)\<rparr>))
            | _ \<Rightarrow> None)
        | Ended status \<Rightarrow> None
        | Broken \<Rightarrow> None))"

definition openRequest :: "mobile \<Rightarrow> mobile" where
  "openRequest s = s\<lparr>requests := requests s @ [\<lparr>req_phase = Ready, req_retried = False\<rparr>]\<rparr>"

subsection \<open>The session between runs\<close>

definition parseStoredUser :: "string \<Rightarrow> (string \<times> string) option" where
  "parseStoredUser rawUser = (case jsonParse rawUser of
      None \<Rightarrow> None
    | Some v \<Rightarrow> (case (property ''id'' v, property ''email'' v) of
          (Some (JStr i), Some (JStr email)) \<Rightarrow> Some (i, email)
        | _ \<Rightarrow> None))"

definition loadSession :: "mobile \<Rightarrow> (string \<times> string) option \<times> mobile" where
  "loadSession s =
     (let s' = s\<lparr>accessToken := secureStore s ACCESS_KEY, refreshToken := secureStore s REFRESH_KEY\<rparr>;
          rawUser = secureStore s USER_KEY in
      (if \<not> hasText (accessToken s') \<or> \<not> hasText rawUser then None else parseStoredUser (the rawUser), s'))"

definition hasSession :: "mobile \<Rightarrow> bool" where
  "hasSession s = (accessToken s \<noteq> None)"

definition setSession :: "AuthResponse \<Rightarrow> mobile \<Rightarrow> mobile" where
  "setSession res s = storeEntry (sessionEntry res 2) (storeEntry (sessionEntry res 1)
     (storeEntry (sessionEntry res 0) (rememberSession res s)))"

definition clearSession :: "mobile \<Rightarrow> mobile" where
  "clearSession s = deleteEntry (clearedKey 2) (deleteEntry (clearedKey 1) (deleteEntry (clearedKey 0) (forgetSession s)))"

subsection \<open>Reading an answer\<close>

record HttpResponse =
  res_status :: int
  res_body :: "json option"

datatype api_failure = ApiError int string | NotJson

definition statusOk :: "HttpResponse \<Rightarrow> bool" where
  "statusOk res = (200 \<le> res_status res \<and> res_status res \<le> 299)"

definition extractErrorMessage :: "json \<Rightarrow> string option" where
  "extractErrorMessage data = (case property ''message'' data of
      Some (JArr xs) \<Rightarrow> Some (joinWith '', '' (map (\<lambda>x. if x = JNull then '''' else jsonText x) xs))
    | Some (JStr s) \<Rightarrow> if s \<noteq> '''' then Some s else None
    | _ \<Rightarrow> None)"

definition parseError :: "HttpResponse \<Rightarrow> api_failure" where
  "parseError res = ApiError (res_status res)
     (orElse (Option.bind (res_body res) extractErrorMessage) (''Error '' @ intToString (res_status res)))"

text \<open>The body, \<open>Inr None\<close> for none.\<close>

definition readJsonBody :: "HttpResponse \<Rightarrow> api_failure + json option" where
  "readJsonBody res = (if res_status res = HTTP_NO_CONTENT then Inr None
     else (case res_body res of None \<Rightarrow> Inl NotJson | Some v \<Rightarrow> Inr (Some v)))"

definition parseResponseBody :: "(json option \<Rightarrow> 'b option) \<Rightarrow> json option \<Rightarrow> int \<Rightarrow> api_failure + 'b" where
  "parseResponseBody schema body status = (case schema body of
      None \<Rightarrow> Inl (ApiError status ''La respuesta del servidor no tiene el formato esperado.'')
    | Some x \<Rightarrow> Inr x)"

definition apiFetchResult :: "(json option \<Rightarrow> 'b option) \<Rightarrow> HttpResponse \<Rightarrow> api_failure + 'b" where
  "apiFetchResult schema res =
     (if \<not> statusOk res then Inl (parseError res)
      else (case readJsonBody res of Inl e \<Rightarrow> Inl e | Inr body \<Rightarrow> parseResponseBody schema body (res_status res)))"

subsection \<open>With the server\<close>

text \<open>
  The application and the refresh tokens that the server takes. A refresh with one of them
  replaces it; any other is refused, as \<open>auth.service.ts\<close> does with requests that follow one
  another. What a request itself gets as answer is open.
\<close>

inductive client_server :: "string set \<times> mobile \<Rightarrow> string set \<times> mobile \<Rightarrow> bool" where
  moves: "advance k e s = Some s' \<Longrightarrow> e \<in> {Sends, Stores, Breaks} \<union> range Responds \<Longrightarrow> client_server (live, s) (live, s')"
| rotates: "req_phase (requests s ! k) = Refreshing token \<Longrightarrow> token \<in> live \<Longrightarrow> response_refreshToken res \<noteq> '''' \<Longrightarrow>
    advance k (Refreshed res) s = Some s' \<Longrightarrow>
    client_server (live, s) (insert (response_refreshToken res) (live - {token}), s')"
| refuses: "req_phase (requests s ! k) = Refreshing token \<Longrightarrow> token \<notin> live \<Longrightarrow>
    advance k RefreshRefused s = Some s' \<Longrightarrow> client_server (live, s) (live, s')"

text \<open>One request at a time: a new one starts when those before are over.\<close>

fun over :: "request_phase \<Rightarrow> bool" where
  "over (Ended status) = True"
| "over Broken = True"
| "over _ = False"

inductive one_at_a_time :: "string set \<times> mobile \<Rightarrow> string set \<times> mobile \<Rightarrow> bool" where
  goes_on: "client_server x y \<Longrightarrow> one_at_a_time x y"
| starts: "\<forall>r\<in>set (requests s). over (req_phase r) \<Longrightarrow> one_at_a_time (live, s) (live, openRequest s)"

end
