(* ===== verification/MobileProperties.thy ===== *)
theory MobileProperties
  imports MobileSession
begin

text \<open>When the application keeps its session, and how two requests at once lose it.\<close>

lemma advance_requests:
  assumes "advance k e s = Some s'"
  shows "k < length (requests s)" "length (requests s') = length (requests s)"
    "j \<noteq> k \<Longrightarrow> requests s' ! j = requests s ! j" "\<not> over (req_phase (requests s ! k))"
  using assms by (auto simp: advance_def atPhase_def Let_def rememberSession_def forgetSession_def storeEntry_def deleteEntry_def
      split: if_splits request_phase.splits event.splits)

text \<open>What a step leaves of the tokens and of the request it moves.\<close>

lemma advance_moves:
  assumes "advance k e s = Some s'" "e \<in> {Sends, Stores, Breaks} \<union> range Responds" "\<forall>n. req_phase (requests s ! k) \<noteq> Clearing n"
  shows "accessToken s' = accessToken s" "refreshToken s' = refreshToken s" "unauthorizedCalls s' = unauthorizedCalls s"
    "req_phase (requests s' ! k) = Refreshing token \<Longrightarrow> refreshToken s = Some token"
    "req_phase (requests s' ! k) \<noteq> Clearing n"
  using assms by (auto simp: advance_def atPhase_def Let_def rememberSession_def forgetSession_def storeEntry_def deleteEntry_def
      hasText_def split: if_splits request_phase.splits event.splits option.splits)

lemma advance_refreshed:
  assumes "advance k (Refreshed res) s = Some s'"
  shows "accessToken s' = Some (response_token res)" "refreshToken s' = Some (response_refreshToken res)"
    "unauthorizedCalls s' = unauthorizedCalls s" "req_phase (requests s' ! k) = Saving res 0"
  using assms by (auto simp: advance_def atPhase_def rememberSession_def split: if_splits request_phase.splits)

text \<open>Signed in with a token that the server takes, and at most one request under way.\<close>

definition signedIn :: "nat \<Rightarrow> string set \<times> mobile \<Rightarrow> bool" where
  "signedIn u x \<longleftrightarrow> (case x of (live, s) \<Rightarrow>
     (\<exists>r\<in>live. refreshToken s = Some r \<and> r \<noteq> '''') \<and> accessToken s \<noteq> None \<and> unauthorizedCalls s = u \<and>
     (\<forall>j k. j < length (requests s) \<longrightarrow> k < length (requests s) \<longrightarrow>
        \<not> over (req_phase (requests s ! j)) \<longrightarrow> \<not> over (req_phase (requests s ! k)) \<longrightarrow> j = k) \<and>
     (\<forall>k < length (requests s). (\<forall>n. req_phase (requests s ! k) \<noteq> Clearing n) \<and>
        (\<forall>token. req_phase (requests s ! k) = Refreshing token \<longrightarrow> refreshToken s = Some token)))"

lemma signedIn_step:
  assumes "client_server x y" "signedIn u x"
  shows "signedIn u y"
  using assms
proof cases
  case (moves k e s s' live)
  have clear: "\<forall>n. req_phase (requests s ! k) \<noteq> Clearing n"
    using assms(2) advance_requests(1) [OF moves(3)] by (simp add: signedIn_def moves(1))
  note req = advance_requests [OF moves(3)] and tok = advance_moves [OF moves(3,4) clear]
  have alone: "j = k" if "j < length (requests s)" "\<not> over (req_phase (requests s ! j))" for j
    using assms(2) that req(1,4) unfolding signedIn_def moves(1) by blast
  have only: "j = k" if "j < length (requests s')" "\<not> over (req_phase (requests s' ! j))" for j
    using alone [of j] req(2) req(3) [of j] that by (cases "j = k") auto
  then have "\<forall>i j. i < length (requests s') \<longrightarrow> j < length (requests s') \<longrightarrow> \<not> over (req_phase (requests s' ! i)) \<longrightarrow>
      \<not> over (req_phase (requests s' ! j)) \<longrightarrow> i = j" by blast
  moreover have "(\<forall>n. req_phase (requests s' ! j) \<noteq> Clearing n) \<and>
      (\<forall>token. req_phase (requests s' ! j) = Refreshing token \<longrightarrow> refreshToken s' = Some token)" if "j < length (requests s')" for j
  proof (cases "j = k")
    case True
    then show ?thesis using tok(2,4,5) by auto
  next
    case False
    then show ?thesis using assms(2) that req(2) req(3) [OF False] tok(2) by (simp add: signedIn_def moves(1))
  qed
  ultimately show ?thesis using assms(2) tok(1-3) unfolding signedIn_def moves(1,2) by simp
next
  case (rotates s k token live res s')
  note req = advance_requests [OF rotates(6)] and tok = advance_refreshed [OF rotates(6)]
  have alone: "j = k" if "j < length (requests s)" "\<not> over (req_phase (requests s ! j))" for j
    using assms(2) that req(1,4) unfolding signedIn_def rotates(1) by blast
  have only: "j = k" if "j < length (requests s')" "\<not> over (req_phase (requests s' ! j))" for j
    using alone [of j] req(2) req(3) [of j] that by (cases "j = k") auto
  then have "\<forall>i j. i < length (requests s') \<longrightarrow> j < length (requests s') \<longrightarrow> \<not> over (req_phase (requests s' ! i)) \<longrightarrow>
      \<not> over (req_phase (requests s' ! j)) \<longrightarrow> i = j" by blast
  moreover have "(\<forall>n. req_phase (requests s' ! j) \<noteq> Clearing n) \<and>
      (\<forall>token. req_phase (requests s' ! j) = Refreshing token \<longrightarrow> refreshToken s' = Some token)" if "j < length (requests s')" for j
  proof (cases "j = k")
    case True
    then show ?thesis using tok(4) by simp
  next
    case False
    then have "over (req_phase (requests s ! j))" using alone [of j] that req(2) by auto
    then show ?thesis using req(3) [OF False] by (cases "req_phase (requests s ! j)") simp_all
  qed
  ultimately show ?thesis using assms(2) tok(1-3) rotates(5) unfolding signedIn_def rotates(1,2) by simp
next
  case (refuses s k token live s')
  have "refreshToken s = Some token" "\<exists>r\<in>live. refreshToken s = Some r"
    using assms(2) refuses(3) advance_requests(1) [OF refuses(5)] unfolding signedIn_def refuses(1) by auto
  then show ?thesis using refuses(4) by simp
qed

lemma signedIn_sequential: "one_at_a_time x y \<Longrightarrow> signedIn u x \<Longrightarrow> signedIn u y"
proof (induction rule: one_at_a_time.induct)
  case (goes_on x y)
  then show ?case using signedIn_step by blast
next
  case (starts s live)
  then have "over (req_phase (requests s ! k))" if "k < length (requests s)" for k using that by simp
  then show ?case using starts(2) by (auto simp: signedIn_def openRequest_def nth_append less_Suc_eq)
qed

lemma signedIn_run: "one_at_a_time\<^sup>*\<^sup>* x y \<Longrightarrow> signedIn u x \<Longrightarrow> signedIn u y"
  by (induction rule: rtranclp_induct) (auto intro: signedIn_sequential)

definition signedInApp :: "string \<Rightarrow> string \<Rightarrow> RawRequest list \<Rightarrow> mobile" where
  "signedInApp a r qs = \<lparr>accessToken = Some a, refreshToken = Some r, secureStore = (\<lambda>k. None), unauthorizedCalls = 0,
     requests = qs, sent = []\<rparr>"

definition newRequest_task :: RawRequest where
  "newRequest_task = \<lparr>req_phase = Ready, req_retried = False\<rparr>"

text \<open>Moving along a list of events of requests.\<close>

fun runs :: "(nat \<times> event) list \<Rightarrow> mobile \<Rightarrow> mobile option" where
  "runs [] s = Some s"
| "runs ((k, e) # es) s = Option.bind (advance k e s) (runs es)"

lemma runs_client_server:
  assumes "runs es s = Some s'" "\<forall>(k, e)\<in>set es. e \<in> {Sends, Stores, Breaks} \<union> range Responds"
  shows "client_server\<^sup>*\<^sup>* (live, s) (live, s')"
  using assms
proof (induction es arbitrary: s)
  case (Cons ke es)
  obtain k e where ke: "ke = (k, e)" by fastforce
  obtain s1 where s1: "advance k e s = Some s1" "runs es s1 = Some s'" using Cons.prems(1) by (auto simp: ke bind_eq_Some_conv)
  have "client_server (live, s) (live, s1)" using s1(1) Cons.prems(2) by (intro client_server.moves) (auto simp: ke)
  moreover have "client_server\<^sup>*\<^sup>* (live, s1) (live, s')" using Cons.IH [OF s1(2)] Cons.prems(2) by simp
  ultimately show ?case by (rule converse_rtranclp_into_rtranclp)
qed simp

text \<open>
  Property C39. While a refresh with a token that the server takes is answered with new tokens,
  and requests follow one another, an application that is signed in stays so: in every state it
  can reach it has an access token and a refresh token that the server takes, and nobody was told
  that the session is over.
\<close>

theorem sequential_requests_keep_session:
  assumes "one_at_a_time\<^sup>*\<^sup>* (live, s) (live', s')" "\<forall>q\<in>set (requests s). over (req_phase q)"
    and "refreshToken s = Some r" "r \<in> live" "r \<noteq> ''''" "accessToken s = Some a"
  shows "(\<exists>r'\<in>live'. refreshToken s' = Some r') \<and> accessToken s' \<noteq> None \<and> unauthorizedCalls s' = unauthorizedCalls s"
proof -
  have over: "over (req_phase (requests s ! k))" if "k < length (requests s)" for k using assms(2) that by simp
  have "signedIn (unauthorizedCalls s) (live, s)"
    using over assms(3-6) by (force simp: signedIn_def)
  then have "signedIn (unauthorizedCalls s) (live', s')"
    using signedIn_run [OF assms(1)] by blast
  then show ?thesis by (auto simp: signedIn_def)
qed

text \<open>A request that is answered with 401, refreshes, saves the new tokens and is sent again.\<close>

definition refreshedResponse :: AuthResponse where
  "refreshedResponse = \<lparr>response_token = ''b'', response_refreshToken = ''q'', response_user = (''u'', ''e'')\<rparr>"

lemma one_request_run: "client_server\<^sup>*\<^sup>* x y \<Longrightarrow> one_at_a_time\<^sup>*\<^sup>* x y"
  by (induction rule: rtranclp_induct) (auto intro: one_at_a_time.goes_on rtranclp.rtrancl_into_rtrancl)

lemma refresh_run:
  "\<exists>s1 s2 s'. runs [(0, Sends), (0, Responds 401)] (openRequest (signedInApp ''a'' ''r'' [])) = Some s1 \<and>
     req_phase (requests s1 ! 0) = Refreshing ''r'' \<and> advance 0 (Refreshed refreshedResponse) s1 = Some s2 \<and>
     runs [(0, Stores), (0, Stores), (0, Stores), (0, Sends), (0, Responds 200)] s2 = Some s' \<and>
     req_phase (requests s' ! 0) = Ended 200"
  by (simp add: signedInApp_def openRequest_def advance_def atPhase_def rememberSession_def storeEntry_def
      HTTP_UNAUTHORIZED_def hasText_def Let_def sessionEntry_def)

theorem sequential_requests_keep_session_witness:
  "\<exists>s'. one_at_a_time\<^sup>*\<^sup>* ({''r''}, signedInApp ''a'' ''r'' []) ({''q''}, s') \<and>
    req_phase (requests s' ! 0) = Ended 200 \<and> refreshToken s' = Some ''q'' \<and> unauthorizedCalls s' = 0"
proof -
  let ?s0 = "openRequest (signedInApp ''a'' ''r'' [])"
  obtain s1 s2 s' where run: "runs [(0, Sends), (0, Responds 401)] ?s0 = Some s1" "req_phase (requests s1 ! 0) = Refreshing ''r''"
    "advance 0 (Refreshed refreshedResponse) s1 = Some s2"
    "runs [(0, Stores), (0, Stores), (0, Stores), (0, Sends), (0, Responds 200)] s2 = Some s'" "req_phase (requests s' ! 0) = Ended 200"
    using refresh_run by (elim exE conjE)
  have "client_server\<^sup>*\<^sup>* ({''r''}, ?s0) ({''r''}, s1)" by (rule runs_client_server [OF run(1)]) simp
  moreover have "client_server ({''r''}, s1) ({''q''}, s2)"
    using client_server.rotates [OF run(2) _ _ run(3), of "{''r''}"] by (simp add: refreshedResponse_def)
  moreover have "client_server\<^sup>*\<^sup>* ({''q''}, s2) ({''q''}, s')"
    by (rule runs_client_server [OF run(4)]) simp
  ultimately have "client_server\<^sup>*\<^sup>* ({''r''}, ?s0) ({''q''}, s')" by (rule rtranclp_trans [OF rtranclp.rtrancl_into_rtrancl])
  then have "one_at_a_time\<^sup>*\<^sup>* ({''r''}, ?s0) ({''q''}, s')" by (rule one_request_run)
  moreover have "one_at_a_time ({''r''}, signedInApp ''a'' ''r'' []) ({''r''}, ?s0)"
    by (rule one_at_a_time.starts) (simp add: signedInApp_def)
  ultimately have way: "one_at_a_time\<^sup>*\<^sup>* ({''r''}, signedInApp ''a'' ''r'' []) ({''q''}, s')"
    by (rule converse_rtranclp_into_rtranclp [rotated])
  have "(\<exists>r'\<in>{''q''}. refreshToken s' = Some r') \<and> accessToken s' \<noteq> None \<and>
      unauthorizedCalls s' = unauthorizedCalls (signedInApp ''a'' ''r'' [])"
    by (rule sequential_requests_keep_session [OF way, where r = "''r''" and a = "''a''"]) (simp_all add: signedInApp_def)
  then have "refreshToken s' = Some ''q''" "unauthorizedCalls s' = 0" by (simp_all add: signedInApp_def)
  then show ?thesis by (intro exI [of _ s'] conjI way run(5))
qed

subsection \<open>Two requests at once\<close>



end
