(* ===== verification/Spec2Isabelle.thy ===== *)
theory Spec2Isabelle
  imports AmountsBalance RetryLife AccessProperties IssuerLock RateLimit ApiKeys CreditNoteProperties VoucherProperties
    FiscalProperties SalesBookCsv VencimientosProperties ImportProperties WsfeProperties ExportProperties
    CacheProperties SessionProperties ClientProperties CertificateProperties
    VoucherPdfProperties DeliveryProperties MobileProperties
begin

text \<open>
  \<^bold>\<open>Chirola\<close> issues electronic invoices before ARCA, the Argentine tax agency. A NestJS
  backend (\<open>src/services/api/src\<close>) receives a request, computes its amounts, asks ARCA for
  an authorisation code (CAE), stores the voucher and, when ARCA does not answer, queues the
  request and retries it. The shapes of the requests and the rules on voucher types are shared
  with the mobile application (\<open>src/packages/shared/src\<close>). This development models the
  backend's services and the shared rules as functions of HOL, and proves what makes them
  correct.

  \<^bold>\<open>How the code is translated.\<close>
  \<^item> A service method is an action: a function of the world that returns an error or a value
    and the next world (\<open>Prelude\<close>: \<open>returnA\<close>, \<open>throwA\<close>, \<open>bindA\<close>,
    \<open>catchA\<close>, \<open>forEachA\<close>, with Hoare triples over them). Each \<open>throw\<close> is a
    constructor of \<open>app_error\<close>.
  \<^item> The world (\<open>World\<close>) holds one list of rows per table of \<open>schema.prisma\<close>, the
    notifications sent, and a state of arbitrary type for what lies outside the process. The
    record \<open>ports\<close> has the operations on that state: the clock, the answers of ARCA
    (\<open>vouchers/voucher-ports.ts\<close>), whether the database answers. Nothing is assumed of the
    ports unless a theorem says so; each access to a table and each call may fail.
  \<^item> A number of JavaScript is the rational that a binary64 holds; \<open>fl\<close> rounds to the
    nearest, ties to even (\<open>JsNumber\<close>, \<open>JsNumberText\<close>). Overflow to infinity is outside
    the model. A text is a list of Latin-1 code units; dates are milliseconds since the epoch, and
    an Invalid Date is \<open>None\<close> (\<open>JsDate\<close>, \<open>UtcDate\<close>). Maps keep insertion order
    (\<open>JsMap\<close>), JSON is printed and parsed as text (\<open>JsJson\<close>).

  \<^bold>\<open>The parts and their theories.\<close>
  \<^item> Money and IVA: \<open>Money\<close> (\<open>money.ts\<close>), \<open>IvaCalculator\<close>
    (\<open>arca/wsfe/iva-calculator.ts\<close>), \<open>AmountsBalance\<close>: the locale \<open>cent_rounder\<close>
    says what a rounding to cents promises, and is interpreted on the three roundings of the code;
    from it the declared parts of a voucher add up to its total, with the exact domain where they
    do, and a witness outside it.
  \<^item> Requests: \<open>VoucherTypes\<close>, \<open>VoucherSchema\<close> (the zod schemas and refinements of
    the shared package), \<open>WsfeRequest\<close> (the XML of \<open>FECAESolicitar\<close>), \<open>Qr\<close>.
  \<^item> Emission: \<open>CaeRequests\<close> (numbering, duplicates, recovery), \<open>IssuedVouchers\<close> (what is
    stored), \<open>PendingVouchers\<close> and \<open>PendingQueue\<close> (the queue, its claims and retries),
    \<open>Emission\<close> (the whole of issuing and retrying). \<open>TableInvariant\<close> states the contract
    of a property of the tables as a locale and proves once that every operation keeps it;
    \<open>DatabaseInvariant\<close> interprets it for well-formed tables and \<open>Replay\<close> for tables that
    only grow. \<open>EmissionProperties\<close>, \<open>RetryProperties\<close> and \<open>RetryLife\<close> have the
    properties: idempotency, the possible outcomes, the adoption of a CAE already granted, the
    numbers used, and that retries end. \<open>Samples\<close> has the concrete worlds of the witnesses.
  \<^item> The lock of an issuer: \<open>IssuerLock\<close> (\<open>issuer-lock.service.ts\<close>) is a step relation
    over calls, starts and ends; mutual exclusion and progress hold of its reachable states.
  \<^item> Access: \<open>Access\<close>, \<open>Onboarding\<close>, \<open>Vouchers\<close> (issuers, grants, certificates,
    tickets, vouchers, numbering) with \<open>AccessProperties\<close> and \<open>VoucherProperties\<close>;
    \<open>ApiKeys\<close> and \<open>RateLimit\<close> for the clients of the API.
  \<^item> Credit notes: \<open>CreditNoteDraft\<close>, \<open>CreditNoteProperties\<close>.
  \<^item> Fiscal reports: \<open>TaxBreakdown\<close>, \<open>SalesBook\<close>, \<open>SalesBookCsv\<close>, \<open>IvaPosition\<close>,
    \<open>Vencimientos\<close> with \<open>FiscalProperties\<close> and \<open>VencimientosProperties\<close>: the book adds
    up, its CSV reads back, the position agrees with it, and the calendar of due dates lists
    exactly the dates of its specification in the order of time.
  \<^item> Purchases: \<open>MisComprobantesCsv\<close> (the file that ARCA lets download), \<open>PurchaseInvoices\<close>
    and \<open>PurchaseImport\<close>, with \<open>MisComprobantesProperties\<close>, \<open>PurchaseProperties\<close> and
    \<open>ImportProperties\<close>. The locale \<open>purchase_table\<close> has the operations' contract with a
    property of the table, interpreted for well-formedness and for the rows of other issuers.
  \<^item> The client of ARCA: \<open>ArcaXml\<close> and \<open>ArcaCalls\<close> (\<open>arca-xml.ts\<close>,
    \<open>arca-soap.util.ts\<close>, the log of the calls with its redaction), \<open>WsfeService\<close> (the whole
    of \<open>wsfe.service.ts\<close>), with \<open>WsfeProperties\<close>: the credentials are never logged, the log
    is truthful, and a rejected request loses its reasons. The network, the clock of a call and
    \<open>fast-xml-parser\<close> are the record \<open>wire\<close>. Emission uses these operations through
    \<open>ports\<close> (\<open>wiredPorts\<close> puts them there).
  \<^item> Export vouchers: \<open>ExportVouchers\<close> (\<open>shared/src/export-voucher.ts\<close>),
    \<open>WsfexService\<close> (\<open>wsfex.service.ts\<close>), \<open>ExportEmission\<close>
    (\<open>export-vouchers.service.ts\<close>, over the client of WSFEX itself) and
    \<open>ExportProperties\<close>: the total is the sum of the lines, what is stored is what ARCA
    authorised, the tables stay well formed (by the contract of \<open>TableInvariant\<close>), and a
    failure after the authorisation loses the CAE.
  \<^item> Caches of ARCA's answers: \<open>CacheTables\<close> states what an upsert promises as the locales
    \<open>upsert_table\<close> and \<open>replacing_table\<close>; \<open>Wsaa\<close> (\<open>wsaa.service.ts\<close>, the tickets),
    \<open>ArcaParams\<close> (\<open>arca-param-cache.service.ts\<close>, \<open>arca-params.service.ts\<close>,
    \<open>arca-health.service.ts\<close>) and \<open>Taxpayers\<close> (\<open>padron.service.ts\<close>,
    \<open>taxpayers.service.ts\<close>) interpret them on their tables. \<open>CacheProperties\<close>: a ticket is
    asked for once while it lasts, parameters are always answered, and what a second lookup gives.
  \<^item> Sessions: \<open>Sessions\<close> (\<open>auth/auth.service.ts\<close> with its hashes and its guard) and
    \<open>SessionProperties\<close>. \<open>session_step\<close> is the step relation of the table of refresh tokens,
    with the two halves of a refresh as steps of their own; the locale \<open>revocable_tokens\<close> says
    that what is revoked stays revoked.
  \<^item> The address book, the sales points and the comparisons: \<open>Clients\<close>
    (\<open>clients.service.ts\<close>, \<open>sales-points.service.ts\<close>, \<open>shared/src/client.ts\<close>),
    \<open>Shadow\<close> (\<open>shadow.service.ts\<close>) and \<open>ClientProperties\<close>. The locale
    \<open>client_table\<close> is the contract of a property of the tables with the operations on
    clients, interpreted for references, for the rows of other issuers and for the tables of
    emission.
  \<^item> Certificates: \<open>FieldCipher\<close> (\<open>crypto\<close>), \<open>Certificates\<close> (\<open>certs\<close>) and
    \<open>CertificateProperties\<close>. AES-GCM and the random bytes are the record \<open>cipher\<close>, of which
    \<open>cipherOk\<close> says what they promise; \<open>node-forge\<close> is the record \<open>forge\<close>. A saved
    certificate gives its issuer working credentials; asking for a request is idempotent.
  \<^item> The PDF: \<open>VoucherPdf\<close> (\<open>voucher-pdf-data.ts\<close>, \<open>voucher-pdf-sections.ts\<close> and the
    files beside them) gives the operations asked of \<open>pdfkit\<close>, with every position as the code
    computes it. \<open>VoucherPdfProperties\<close>: the voucher is shown whole, its rows do not overlap,
    and from thirty lines on its totals run over the footer.
  \<^item> Deliveries: \<open>Deliveries\<close> (\<open>webhooks\<close>, \<open>notifications\<close>,
    \<open>cert-monitor.service.ts\<close>) has its own state \<open>mail\<close> around the world of the other
    services; \<open>announce\<close> sends what emission left in \<open>notifications\<close>.
    \<open>DeliveryProperties\<close>: whom a webhook reaches and how often, and which devices are forgotten.
  \<^item> The session of the mobile application: \<open>MobileSession\<close> (\<open>apps/mobile/src/lib/api.ts\<close>)
    takes the code of a request between two awaits as one step, and \<open>client_server\<close> puts the
    requests before a server that rotates the refresh tokens. \<open>MobileProperties\<close>: requests
    that follow one another keep the session, two at once can lose it.

  \<^bold>\<open>Bounds.\<close> The theorems on amounts bound each sum by 5497558138.88 pesos (the double of a
  number of cents is then within 1/500000 of it) or 87960930222.08 (within 1/65536). The parser of
  JSON uses as fuel the length of its text, which bounds the depth of a value. The printing of a
  number tries up to 17 digits, enough to tell any two doubles apart. The search of the codes in an
  answer has the length of the block as fuel: each match is shorter. No other recursion has fuel.
  The local tables of parameters are read from the numbers below 1000, above every type of ARCA.

  \<^bold>\<open>Not modelled.\<close> The screens of the mobile application; the files that \<open>pdfkit\<close> and
  \<open>qrcode\<close> write; the controllers, whose guards and pipes call what is modelled; the network
  and the XML parser of \<open>fast-xml-parser\<close>, which are arguments; the CMS signature, X.509, the
  ciphers and the hashes, which are parameters; logs. Two requests interleave only at the lock of
  an issuer, in a refresh and in the session of the mobile application: elsewhere an action is a sequence of its accesses.
\<close>

end
